(* ===== verification/Prelude.thy ===== *)
theory Prelude
  imports Main "HOL-Library.Word"
begin

section \<open>Shared vocabulary of the ARTIK SDK model\<close>

text \<open>
  What every component shares: how a C call ends (a value, undefined behaviour, or no return),
  the error codes of \<^verbatim>\<open>inc/base/artik_error.h\<close>, addresses, bytes, and the generic
  lemmas on lists, options and words that the component theories use.
  The collections \<open>run_simps\<close> and \<open>err_simps\<close> hold the rewrite rules for sequencing
  and for the error codes.
\<close>

named_theorems run_simps "sequencing of runs"
named_theorems err_simps "values of the error codes"

subsection \<open>How a call ends\<close>

text \<open>
  \<open>Ret x\<close> is a normal return, \<open>Ub f\<close> an execution whose next access is undefined in C
  (the fault says which kind). \<open>None\<close> in a \<open>run\<close> is a loop that never ends.
\<close>

datatype fault = NullDeref | UseAfterFree | OutOfBounds | Uninitialised | Overflow | TypeConfusion | ReadOnly

datatype 'a outcome = Ret 'a | Ub fault

type_synonym 'a run = "'a outcome option"

fun obind :: "'a outcome \<Rightarrow> ('a \<Rightarrow> 'b outcome) \<Rightarrow> 'b outcome" where
  "obind (Ret x) k = k x"
| "obind (Ub f) k = Ub f"

definition rbind :: "'a run \<Rightarrow> ('a \<Rightarrow> 'b run) \<Rightarrow> 'b run" where
  "rbind m k = (case m of None \<Rightarrow> None | Some (Ub f) \<Rightarrow> Some (Ub f) | Some (Ret x) \<Rightarrow> k x)"

definition ret :: "'a \<Rightarrow> 'a run" where
  "ret x = Some (Ret x)"

definition ub :: "fault \<Rightarrow> 'a run" where
  "ub f = Some (Ub f)"

lemma rbind_ret [run_simps, simp]: "rbind (ret x) k = k x"
  by (simp add: rbind_def ret_def)

lemma rbind_ub [run_simps, simp]: "rbind (ub f) k = ub f"
  by (simp add: rbind_def ub_def)

lemma rbind_None [run_simps, simp]: "rbind None k = None"
  by (simp add: rbind_def)

lemma rbind_assoc: "rbind (rbind m k) l = rbind m (\<lambda>x. rbind (k x) l)"
  by (simp add: rbind_def split: option.split outcome.split)

lemma rbind_eq_ret: "rbind m k = ret y \<longleftrightarrow> (\<exists>x. m = ret x \<and> k x = ret y)"
  by (auto simp: rbind_def ret_def split: option.splits outcome.splits)

lemma rbind_eq_None: "rbind m k = None \<longleftrightarrow> m = None \<or> (\<exists>x. m = ret x \<and> k x = None)"
  by (auto simp: rbind_def ret_def split: option.splits outcome.splits)

lemma ret_inject [simp]: "ret x = ret y \<longleftrightarrow> x = y"
  by (simp add: ret_def)

lemma ret_neq_ub [simp]: "ret x \<noteq> ub f" "ub f \<noteq> ret x"
  by (simp_all add: ret_def ub_def)

lemma ret_neq_Some_Ub [simp]: "Some (Ub f) \<noteq> ret x" "ret x \<noteq> Some (Ub f)"
  by (simp_all add: ret_def)

lemma ret_neq_None [simp]: "ret x \<noteq> None" "None \<noteq> ret x"
  by (simp_all add: ret_def)

text \<open>A loop that may not end can sequence runs.\<close>

lemma rbind_bind: "rbind m k = Option.bind m (case_outcome k (\<lambda>f. Some (Ub f)))"
  by (cases m) (auto simp: rbind_def split: outcome.split)

lemma rbind_mono [partial_function_mono]:
  assumes "mono_option B" and "\<And>y. mono_option (C y)"
  shows "mono_option (\<lambda>f. rbind (B f) (\<lambda>y. C y f))"
  unfolding rbind_bind
proof (rule bind_mono [OF assms(1)])
  fix y
  show "mono_option (\<lambda>f. case y of Ret y \<Rightarrow> C y f | Ub u \<Rightarrow> Some (Ub u))"
    by (cases y) (simp_all add: assms(2) option.const_mono)
qed

lemma obind_eq_Ret: "obind m k = Ret y \<longleftrightarrow> (\<exists>x. m = Ret x \<and> k x = Ret y)"
  by (cases m) auto

lemma obind_assoc: "obind (obind m k) l = obind m (\<lambda>x. obind (k x) l)"
  by (cases m) auto

subsection \<open>Addresses, bytes, error codes\<close>

text \<open>Address 0 is \<open>NULL\<close>.\<close>

type_synonym addr = nat
type_synonym u8 = "8 word"
type_synonym u16 = "16 word"
type_synonym u32 = "32 word"
type_synonym bytes = "u8 list"

definition bytes_of :: "string \<Rightarrow> bytes" where
  "bytes_of s = map of_char s"

text \<open>The codes are C \<open>int\<close>s; \<open>artik_error\<close> is a typedef of \<open>int\<close>.\<close>

type_synonym artik_error = int

definition S_OK :: artik_error where [err_simps]: "S_OK = 0"
definition E_BAD_ARGS :: artik_error where [err_simps]: "E_BAD_ARGS = -1"
definition E_BUSY :: artik_error where [err_simps]: "E_BUSY = -2"
definition E_NOT_INITIALIZED :: artik_error where [err_simps]: "E_NOT_INITIALIZED = -3"
definition E_NO_MEM :: artik_error where [err_simps]: "E_NO_MEM = -4"
definition E_NOT_SUPPORTED :: artik_error where [err_simps]: "E_NOT_SUPPORTED = -5"
definition E_OVERFLOW :: artik_error where [err_simps]: "E_OVERFLOW = -6"
definition E_ACCESS_DENIED :: artik_error where [err_simps]: "E_ACCESS_DENIED = -7"
definition E_INTERRUPTED :: artik_error where [err_simps]: "E_INTERRUPTED = -8"
definition E_TRY_AGAIN :: artik_error where [err_simps]: "E_TRY_AGAIN = -9"
definition E_INVALID_VALUE :: artik_error where [err_simps]: "E_INVALID_VALUE = -11"
definition E_HTTP_ERROR :: artik_error where [err_simps]: "E_HTTP_ERROR = -1000"
definition E_NETWORK_ERROR :: artik_error where [err_simps]: "E_NETWORK_ERROR = -7000"

subsection \<open>Decimal numbers (\<^verbatim>\<open>printf\<close>'s \<^verbatim>\<open>%d\<close> and \<^verbatim>\<open>%u\<close>)\<close>

fun nat_str :: "nat \<Rightarrow> string" where
  "nat_str n = (if n < 10 then [char_of (48 + n)]
                else nat_str (n div 10) @ [char_of (48 + n mod 10)])"

declare nat_str.simps [simp del]

definition int_str :: "int \<Rightarrow> string" where
  "int_str i = (if i < 0 then ''-'' @ nat_str (nat (- i)) else nat_str (nat i))"

subsection \<open>Generic list facts\<close>

fun remove_first :: "('a \<Rightarrow> bool) \<Rightarrow> 'a list \<Rightarrow> 'a list" where
  "remove_first P [] = []"
| "remove_first P (x # xs) = (if P x then xs else x # remove_first P xs)"

lemma set_remove_first_subset: "set (remove_first P xs) \<subseteq> set xs"
  by (induction xs) auto

lemma distinct_remove_first [simp]: "distinct xs \<Longrightarrow> distinct (remove_first P xs)"
  using set_remove_first_subset by (induction xs) fastforce+

lemma remove_first_append:
  "remove_first P (xs @ ys) = (if \<exists>x\<in>set xs. P x then remove_first P xs @ ys else xs @ remove_first P ys)"
  by (induction xs) auto

lemma remove_first_none [simp]: "(\<And>x. x \<in> set xs \<Longrightarrow> \<not> P x) \<Longrightarrow> remove_first P xs = xs"
  by (induction xs) auto

lemma map_remove_first: "map f (remove_first (P \<circ> f) xs) = remove_first P (map f xs)"
  by (induction xs) auto

lemma length_remove_first:
  "length (remove_first P xs) = (if \<exists>x\<in>set xs. P x then length xs - 1 else length xs)"
  by (induction xs) (auto simp: Suc_diff_1 length_pos_if_in_set dest: length_pos_if_in_set)

lemma remove_first_distinct_map:
  "distinct (map f xs) \<Longrightarrow> remove_first (\<lambda>x. f x = k) xs = filter (\<lambda>x. f x \<noteq> k) xs"
proof (induction xs)
  case (Cons x xs)
  have "filter (\<lambda>x. f x \<noteq> k) xs = xs" if "f x = k"
  proof -
    have "\<forall>y\<in>set xs. f y \<noteq> k"
      using Cons.prems that by (metis distinct.simps(2) imageI list.simps(9) set_map)
    then show ?thesis by (simp add: filter_id_conv)
  qed
  with Cons show ?case by auto
qed simp

lemma find_None_iff_set: "List.find P xs = None \<longleftrightarrow> (\<forall>x\<in>set xs. \<not> P x)"
  by (auto simp: find_None_iff)

lemma find_SomeD: "List.find P xs = Some x \<Longrightarrow> x \<in> set xs \<and> P x"
  by (auto simp: find_Some_iff)

end
