(* ===== verification/World.thy ===== *)
theory World
  imports Prelude
begin

section \<open>The outside world: calls that leave the SDK\<close>

text \<open>
  The SDK's effects are calls of the C library, of the kernel and, through function pointers, of
  other modules. They are code the repository does not hold (or, for another module, code this
  component only reaches through a table of pointers), so their answers come from an arbitrary
  environment: a function of the whole history of calls. The \<open>world\<close> carries that
  environment and the history, in order. Nothing is assumed about the answers unless a theorem
  says so; what a component did is read off the history.
\<close>

text \<open>TLS settings handed to a request: the caller's, at an address, or the ones of a secure element.\<close>

datatype ssl_choice = SslAt addr | SslSecureElement

datatype (plugins only: code size) xcall =
    Open string nat            \<comment> \<open>path, flags\<close>
  | Close int
  | Read int nat
  | Write int bytes
  | Lseek int
  | Ioctl int string bytes     \<comment> \<open>descriptor, request name, the bytes passed in\<close>
  | Malloc nat
  | Free addr
  | Socket string              \<comment> \<open>the kind: udp, icmp, packet\<close>
  | Setsockopt int string
  | Bind int u32 nat           \<comment> \<open>descriptor, address (network order), port\<close>
  | SendTo int bytes u32 nat   \<comment> \<open>descriptor, datagram, address (network order), port\<close>
  | Recv int nat
  | Select int
  | Tcgetattr int
  | Tcsetattr int bytes        \<comment> \<open>the \<^verbatim>\<open>struct termios\<close> as bytes\<close>
  | Tcflush int
  | I2cRdwr int "(u16 \<times> u16 \<times> u16 \<times> bytes) list"   \<comment> \<open>address, flags, length, data of each message\<close>
  | SpiMessage int "bytes option" bool nat   \<comment> \<open>transmitted bytes, is there a receive buffer, length\<close>
  | GetPlatform                \<comment> \<open>\<^verbatim>\<open>artik_get_platform\<close>\<close>
  | System string
  | Fopen string string        \<comment> \<open>path, mode; 0 is a null stream\<close>
  | Fprintf addr bytes
  | Fclose addr
  | ClockGettime
  | ModRequest string          \<comment> \<open>\<^verbatim>\<open>artik_request_api_module\<close>\<close>
  | ModRelease addr            \<comment> \<open>\<^verbatim>\<open>artik_release_api_module\<close>\<close>
  | AddFdWatch addr int nat addr   \<comment> \<open>loop module, descriptor, io mask, user data\<close>
  | RemoveFdWatch addr int
  | Callback addr int          \<comment> \<open>user data, value: the application's function is called\<close>
  | Gethostbyname bytes        \<comment> \<open>0: null, 1: not an IPv4 address, else the address is the number output\<close>
  | Connect int u32 u16        \<comment> \<open>descriptor, address (network order), port\<close>
  | Send int bytes
  | TlsCall string int         \<comment> \<open>mbed TLS function on the session of a descriptor\<close>
  | TlsFree int                \<comment> \<open>\<^verbatim>\<open>mbedtls_net_free\<close>, which closes the descriptor\<close>
  | TlsSetHostname int bytes
  | TlsWrite int bytes
  | TlsRead int nat
  | Realloc nat
  | MallocOf string            \<comment> \<open>the size of a type that is not in the repository\<close>
  | UvCall string addr "int list"   \<comment> \<open>libuv function on a handle, with its other numbers\<close>
  | UserCallback addr addr     \<comment> \<open>the application's function is called with its user data\<close>
  | WatchCallback addr int u32 addr   \<comment> \<open>a watch callback, with the descriptor and the events\<close>
  | Gettimeofday               \<comment> \<open>the number output is microseconds since the epoch\<close>
  | Settimeofday int           \<comment> \<open>seconds\<close>
  | ClockSettime int           \<comment> \<open>seconds\<close>
  | Getprotobyname string
  | AddTimeout addr u32 addr addr   \<comment> \<open>loop module, milliseconds, function, user data; the number output is its id\<close>
  | Http addr string bytes "(bytes \<times> bytes) list" "bytes option" ssl_choice
      \<comment> \<open>HTTP module, method, URL, headers, body; the number output is the status\<close>
  | WsRequest addr bytes ssl_choice   \<comment> \<open>websocket module, URI; the number output is the handle\<close>
  | WsCall string addr addr    \<comment> \<open>operation of the websocket module on a handle\<close>
  | WsWrite addr addr bytes
  | WsSetCallback string addr addr addr addr   \<comment> \<open>operation, module, handle, function, user data\<close>
  | WsCallback addr addr int   \<comment> \<open>the application's function, its user data, the event\<close>
  | StreamCallback bytes       \<comment> \<open>the application is handed a block of data\<close>
  | Fgets addr nat             \<comment> \<open>stream, size; 0 at the end of the file\<close>
  | Dlopen string              \<comment> \<open>0: not loaded\<close>
  | Dlsym addr string          \<comment> \<open>with \<^verbatim>\<open>dlerror\<close> after it: \<open>errno\<close> is 0 if there was no error\<close>
  | Dlclose addr
  | Fcontents addr             \<comment> \<open>what the stream holds, up to its end\<close>
  | RemoveTimeout addr int     \<comment> \<open>loop module, the id of a timeout\<close>
  | LoopQuit addr              \<comment> \<open>loop module\<close>
  | SysCall string "int list" bytes   \<comment> \<open>function of the system below the SDK, its numbers, its data\<close>

text \<open>An answer: the returned value, \<open>errno\<close> as it reads after the call, the number and the bytes that output
  parameters receive.\<close>

record answer =
  retv :: int
  errno :: int
  oval :: int
  outb :: bytes

record world =
  hist :: "xcall list"
  env :: "xcall list \<Rightarrow> xcall \<Rightarrow> answer"

definition xc :: "xcall \<Rightarrow> world \<Rightarrow> answer \<times> world" where
  "xc c w = (env w (hist w) c, w\<lparr>hist := hist w @ [c]\<rparr>)"

text \<open>Only the returned value, or nothing, is used by most callers.\<close>

definition xcv :: "xcall \<Rightarrow> world \<Rightarrow> int \<times> world" where
  "xcv c w = (retv (env w (hist w) c), w\<lparr>hist := hist w @ [c]\<rparr>)"

definition xcu :: "xcall \<Rightarrow> world \<Rightarrow> world" where
  "xcu c w = w\<lparr>hist := hist w @ [c]\<rparr>"

named_theorems world_simps "stepping the outside world"

declare xc_def [world_simps] xcv_def [world_simps] xcu_def [world_simps]

lemma hist_xcu [simp]: "hist (xcu c w) = hist w @ [c]"
  by (simp add: xcu_def)

lemma env_xcu [simp]: "env (xcu c w) = env w"
  by (simp add: xcu_def)

subsection \<open>Descriptors that stay open\<close>

text \<open>
  \<open>opened\<close> replays a history: which descriptors were returned by a successful open or socket
  call and not closed since. It is a list, since a leak of several descriptors counts each.
\<close>

fun fd_step :: "(xcall list \<Rightarrow> xcall \<Rightarrow> answer) \<Rightarrow> xcall list \<Rightarrow> xcall \<Rightarrow> int list \<Rightarrow> int list" where
  "fd_step e pre (Open p f) fds =
     (let r = retv (e pre (Open p f)) in if r < 0 then fds else r # fds)"
| "fd_step e pre (Socket k) fds =
     (let r = retv (e pre (Socket k)) in if r < 0 then fds else r # fds)"
| "fd_step e pre (Close fd) fds = remove1 fd fds"
| "fd_step e pre (TlsFree fd) fds = remove1 fd fds"
| "fd_step e pre _ fds = fds"

fun fd_run :: "(xcall list \<Rightarrow> xcall \<Rightarrow> answer) \<Rightarrow> xcall list \<Rightarrow> xcall list \<Rightarrow> int list \<Rightarrow> int list" where
  "fd_run e pre [] fds = fds"
| "fd_run e pre (c # cs) fds = fd_run e (pre @ [c]) cs (fd_step e pre c fds)"

definition opened :: "world \<Rightarrow> int list" where
  "opened w = fd_run (env w) [] (hist w) []"

lemma fd_run_append:
  "fd_run e pre (cs @ ds) fds = fd_run e (pre @ cs) ds (fd_run e pre cs fds)"
  by (induction cs arbitrary: pre fds) auto

lemma opened_step:
  "opened (w\<lparr>hist := hist w @ [c]\<rparr>) = fd_step (env w) (hist w) c (opened w)"
  by (simp add: opened_def fd_run_append)

lemma opened_xc [simp]: "opened (snd (xc c w)) = fd_step (env w) (hist w) c (opened w)"
  by (simp add: xc_def opened_step)

lemma opened_xcu [simp]: "opened (xcu c w) = fd_step (env w) (hist w) c (opened w)"
  by (simp add: xcu_def opened_step)


lemma hist_xc [simp]: "hist (snd (xc c w)) = hist w @ [c]"
  by (simp add: xc_def)

lemma fst_xc [simp]: "fst (xc c w) = env w (hist w) c"
  by (simp add: xc_def)

lemma env_xc [simp]: "env (snd (xc c w)) = env w"
  by (simp add: xc_def)

lemma fd_step_nonneg: "\<forall>fd\<in>set fds. 0 \<le> fd \<Longrightarrow> \<forall>fd\<in>set (fd_step e pre c fds). 0 \<le> fd"
  by (cases c) (auto simp: Let_def dest: notin_set_remove1)

lemma fd_run_nonneg: "\<forall>fd\<in>set fds. 0 \<le> fd \<Longrightarrow> \<forall>fd\<in>set (fd_run e pre cs fds). 0 \<le> fd"
proof (induction cs arbitrary: pre fds)
  case (Cons c cs)
  from Cons.IH [OF fd_step_nonneg [OF Cons.prems]] show ?case by simp
qed simp

lemma opened_nonneg: "fd \<in> set (opened w) \<Longrightarrow> 0 \<le> fd"
  using fd_run_nonneg [of "[]"] by (auto simp: opened_def)

lemma remove1_opened_neg [simp]: "fd < 0 \<Longrightarrow> remove1 fd (opened w) = opened w"
  using opened_nonneg by (intro remove1_idem) force

text \<open>Calls that open or close nothing.\<close>

definition fd_neutral :: "xcall \<Rightarrow> bool" where
  "fd_neutral c = (case c of Open p f \<Rightarrow> False | Close fd \<Rightarrow> False | Socket k \<Rightarrow> False | TlsFree fd \<Rightarrow> False
     | _ \<Rightarrow> True)"

lemma fd_step_neutral [simp]: "fd_neutral c \<Longrightarrow> fd_step e pre c fds = fds"
  by (cases c) (auto simp: fd_neutral_def)

text \<open>The rules for walking through straight-line code that threads the world.\<close>

lemmas walk_simps = Let_def case_prod_beta fd_neutral_def

text \<open>References taken on and given back to the API modules.\<close>

definition mod_requests :: "world \<Rightarrow> nat" where
  "mod_requests w = length (filter (\<lambda>c. case c of ModRequest s \<Rightarrow> True | _ \<Rightarrow> False) (hist w))"

definition mod_releases :: "world \<Rightarrow> nat" where
  "mod_releases w = length (filter (\<lambda>c. case c of ModRelease a \<Rightarrow> True | _ \<Rightarrow> False) (hist w))"

subsection \<open>Later worlds\<close>

text \<open>A component only appends calls to the history and never changes the environment.\<close>

definition later :: "world \<Rightarrow> world \<Rightarrow> bool" where
  "later w w' \<longleftrightarrow> env w' = env w \<and> (\<exists>cs. hist w' = hist w @ cs)"

lemma later_refl [simp, intro]: "later w w"
  by (simp add: later_def)

lemma later_trans [trans]: "later w w' \<Longrightarrow> later w' w'' \<Longrightarrow> later w w''"
  by (auto simp: later_def)

lemma later_xc [simp, intro]: "later w w' \<Longrightarrow> later w (snd (xc c w'))"
  by (auto simp: later_def)

lemma later_xcu [simp, intro]: "later w w' \<Longrightarrow> later w (xcu c w')"
  by (auto simp: later_def)

subsection \<open>What was written to which file\<close>

text \<open>
  \<open>file_log\<close> replays a history into the bytes that were written, each with the path its
  descriptor was opened on. Most of the SDK's Linux back ends act on the hardware by writing
  numbers and keywords to files of \<^verbatim>\<open>/sys\<close>, so their effect is this list.
\<close>

fun file_step :: "(xcall list \<Rightarrow> xcall \<Rightarrow> answer) \<Rightarrow> xcall list \<Rightarrow> xcall
    \<Rightarrow> (int \<Rightarrow> string option) \<times> (string option \<times> bytes) list
    \<Rightarrow> (int \<Rightarrow> string option) \<times> (string option \<times> bytes) list" where
  "file_step e pre (Open p f) (m, l) = (m(retv (e pre (Open p f)) \<mapsto> p), l)"
| "file_step e pre (Close fd) (m, l) = (m(fd := None), l)"
| "file_step e pre (Write fd bs) (m, l) =
     (if retv (e pre (Write fd bs)) = -1 then (m, l) else (m, l @ [(m fd, bs)]))"
| "file_step e pre _ s = s"

fun file_run :: "(xcall list \<Rightarrow> xcall \<Rightarrow> answer) \<Rightarrow> xcall list \<Rightarrow> xcall list
    \<Rightarrow> (int \<Rightarrow> string option) \<times> (string option \<times> bytes) list
    \<Rightarrow> (int \<Rightarrow> string option) \<times> (string option \<times> bytes) list" where
  "file_run e pre [] s = s"
| "file_run e pre (c # cs) s = file_run e (pre @ [c]) cs (file_step e pre c s)"

definition files :: "world \<Rightarrow> (int \<Rightarrow> string option) \<times> (string option \<times> bytes) list" where
  "files w = file_run (env w) [] (hist w) (Map.empty, [])"

definition file_log :: "world \<Rightarrow> (string option \<times> bytes) list" where
  "file_log w = snd (files w)"

lemma file_run_append:
  "file_run e pre (cs @ ds) s = file_run e (pre @ cs) ds (file_run e pre cs s)"
  by (induction cs arbitrary: pre s) auto

lemma files_step: "files (w\<lparr>hist := hist w @ [c]\<rparr>) = file_step (env w) (hist w) c (files w)"
  by (simp add: files_def file_run_append)

lemma files_xc: "files (snd (xc c w)) = file_step (env w) (hist w) c (files w)"
  by (simp add: xc_def files_step)

definition file_neutral :: "xcall \<Rightarrow> bool" where
  "file_neutral c =
     (case c of Open p f \<Rightarrow> False | Close fd \<Rightarrow> False | Write fd bs \<Rightarrow> False | _ \<Rightarrow> True)"

lemma file_log_neutral [simp]: "file_neutral c \<Longrightarrow> file_log (snd (xc c w)) = file_log w"
  by (cases c; cases "files w") (auto simp: file_neutral_def file_log_def files_xc)

lemma file_log_Open [simp]: "file_log (snd (xc (Open p f) w)) = file_log w"
  by (cases "files w") (simp add: file_log_def files_xc)

lemma file_log_Close [simp]: "file_log (snd (xc (Close fd) w)) = file_log w"
  by (cases "files w") (simp add: file_log_def files_xc)

lemma file_log_Write:
  "file_log (snd (xc (Write fd bs) w)) = file_log w @
     (if retv (env w (hist w) (Write fd bs)) = -1 then [] else [(fst (files w) fd, bs)])"
  by (cases "files w") (simp add: file_log_def files_xc)

lemma files_Open [simp]: "fst (files (snd (xc (Open p f) w))) (retv (env w (hist w) (Open p f))) = Some p"
  by (cases "files w") (simp add: files_xc)

lemma files_neutral [simp]:
  "file_neutral c \<Longrightarrow> files (snd (xc c w)) = files w"
  "file_neutral c \<Longrightarrow> files (xcu c w) = files w"
  by (cases c; cases "files w"; simp add: file_neutral_def files_xc xcu_def files_step)+

lemma file_log_xcu [simp]: "file_neutral c \<Longrightarrow> file_log (xcu c w) = file_log w"
  by (simp add: file_log_def)

lemma files_Write [simp]: "fst (files (snd (xc (Write fd bs) w))) = fst (files w)"
  by (cases "files w") (simp add: files_xc)

text \<open>The kernel gives out descriptors that are not in use.\<close>

definition fresh_fds :: "(xcall list \<Rightarrow> xcall \<Rightarrow> answer) \<Rightarrow> bool" where
  "fresh_fds e \<longleftrightarrow> (\<forall>h p f. 0 \<le> retv (e h (Open p f)) \<longrightarrow>
     fst (file_run e [] h (Map.empty, [])) (retv (e h (Open p f))) = None)"

lemma fresh_fdsD:
  "fresh_fds (env w) \<Longrightarrow> 0 \<le> retv (env w (hist w) (Open p f)) \<Longrightarrow>
     fst (files w) (retv (env w (hist w) (Open p f))) = None"
  by (simp add: fresh_fds_def files_def)

text \<open>Closing a negative number fails, as POSIX says.\<close>

definition posix_close :: "(xcall list \<Rightarrow> xcall \<Rightarrow> answer) \<Rightarrow> bool" where
  "posix_close e \<longleftrightarrow> (\<forall>h fd. fd < 0 \<longrightarrow> retv (e h (Close fd)) = -1)"

text \<open>What POSIX says of \<^verbatim>\<open>errno\<close>: a failed call sets it to a positive number, and no
  library function sets it to zero.\<close>

definition posix_errno :: "(xcall list \<Rightarrow> xcall \<Rightarrow> answer) \<Rightarrow> bool" where
  "posix_errno e \<longleftrightarrow>
     (\<forall>h p f. retv (e h (Open p f)) = -1 \<longrightarrow> 0 < errno (e h (Open p f))) \<and>
     (\<forall>h fd bs fd'. retv (e h (Write fd bs)) = -1 \<longrightarrow> 0 < errno (e (h @ [Write fd bs]) (Close fd')))"

definition O_RDWR :: nat where "O_RDWR = 2"
definition O_SYNC_WRONLY :: nat where "O_SYNC_WRONLY = 0x101001"
definition EAGAIN :: int where "EAGAIN = 11"

subsection \<open>A concrete environment\<close>

text \<open>An environment in which every call succeeds, for witnesses: descriptors and addresses
  are 3, everything else returns 0 unless it transfers bytes.\<close>

definition good_env :: "xcall list \<Rightarrow> xcall \<Rightarrow> answer" where
  "good_env h c = (case c of
      Open p f \<Rightarrow> \<lparr>retv = 3, errno = 0, oval = 0, outb = []\<rparr>
    | Socket k \<Rightarrow> \<lparr>retv = 3, errno = 0, oval = 0, outb = []\<rparr>
    | Malloc n \<Rightarrow> \<lparr>retv = 64, errno = 0, oval = 0, outb = []\<rparr>
    | ModRequest s \<Rightarrow> \<lparr>retv = 80, errno = 0, oval = 0, outb = []\<rparr>
    | Write fd bs \<Rightarrow> \<lparr>retv = int (length bs), errno = 0, oval = 0, outb = []\<rparr>
    | Read fd n \<Rightarrow> \<lparr>retv = int n, errno = 0, oval = 0, outb = replicate n 49\<rparr>
    | SendTo fd bs a p \<Rightarrow> \<lparr>retv = int (length bs), errno = 0, oval = 0, outb = []\<rparr>
    | Send fd bs \<Rightarrow> \<lparr>retv = int (length bs), errno = 0, oval = 0, outb = []\<rparr>
    | Gethostbyname s \<Rightarrow> \<lparr>retv = 2, errno = 0, oval = 0x0100007F, outb = []\<rparr>
    | _ \<Rightarrow> \<lparr>retv = 0, errno = 0, oval = 0, outb = []\<rparr>)"

definition good_world :: world where
  "good_world = \<lparr>hist = [], env = good_env\<rparr>"

lemma good_env_simps [simp]:
  "good_env h (Open p f) = \<lparr>retv = 3, errno = 0, oval = 0, outb = []\<rparr>"
  "good_env h (Close fd) = \<lparr>retv = 0, errno = 0, oval = 0, outb = []\<rparr>"
  "good_env h (Socket k) = \<lparr>retv = 3, errno = 0, oval = 0, outb = []\<rparr>"
  "good_env h (Malloc n) = \<lparr>retv = 64, errno = 0, oval = 0, outb = []\<rparr>"
  "good_env h (ModRequest s) = \<lparr>retv = 80, errno = 0, oval = 0, outb = []\<rparr>"
  "good_env h (Write fd bs) = \<lparr>retv = int (length bs), errno = 0, oval = 0, outb = []\<rparr>"
  "good_env h (Read fd n) = \<lparr>retv = int n, errno = 0, oval = 0, outb = replicate n 49\<rparr>"
  "good_env h (SendTo fd bs a q) = \<lparr>retv = int (length bs), errno = 0, oval = 0, outb = []\<rparr>"
  "good_env h (Bind fd a q) = \<lparr>retv = 0, errno = 0, oval = 0, outb = []\<rparr>"
  "good_env h (Setsockopt fd o') = \<lparr>retv = 0, errno = 0, oval = 0, outb = []\<rparr>"
  "good_env h (Ioctl fd o' bs) = \<lparr>retv = 0, errno = 0, oval = 0, outb = []\<rparr>"
  "good_env h (Send fd bs) = \<lparr>retv = int (length bs), errno = 0, oval = 0, outb = []\<rparr>"
  "good_env h (Gethostbyname b) = \<lparr>retv = 2, errno = 0, oval = 0x0100007F, outb = []\<rparr>"
  "good_env h (Connect fd a prt) = \<lparr>retv = 0, errno = 0, oval = 0, outb = []\<rparr>"
  "good_env h ClockGettime = \<lparr>retv = 0, errno = 0, oval = 0, outb = []\<rparr>"
  "good_env h (Recv fd n) = \<lparr>retv = 0, errno = 0, oval = 0, outb = []\<rparr>"
  by (simp_all add: good_env_def)

text \<open>Another, in which every open or socket call returns a descriptor of its own.\<close>

definition counting_env :: "xcall list \<Rightarrow> xcall \<Rightarrow> answer" where
  "counting_env h c = (case c of
      Open p f \<Rightarrow> \<lparr>retv = 3 + int (length h), errno = 0, oval = 0, outb = []\<rparr>
    | Socket k \<Rightarrow> \<lparr>retv = 3 + int (length h), errno = 0, oval = 0, outb = []\<rparr>
    | Close fd \<Rightarrow> \<lparr>retv = if fd < 0 then -1 else 0, errno = 0, oval = 0, outb = []\<rparr>
    | _ \<Rightarrow> good_env h c)"

definition counting_world :: world where
  "counting_world = \<lparr>hist = [], env = counting_env\<rparr>"

lemma counting_world_simps [simp]: "env counting_world = counting_env" "hist counting_world = []"
  by (simp_all add: counting_world_def)

lemma posix_close_counting [simp]: "posix_close counting_env"
  by (simp add: posix_close_def counting_env_def)

lemma file_step_dom:
  "fst (file_step e pre c s) fd = Some q \<Longrightarrow> fst s fd \<noteq> None \<or> (\<exists>p f. c = Open p f \<and> fd = retv (e pre c))"
  by (cases s; cases c) (auto split: if_splits)

lemma counting_files_below:
  assumes "\<forall>fd\<in>dom (fst s). fd < 3 + int (length pre)"
  shows "\<forall>fd\<in>dom (fst (file_run counting_env pre cs s)). fd < 3 + int (length pre + length cs)"
  using assms
proof (induction cs arbitrary: pre s)
  case (Cons c cs)
  have "\<forall>fd\<in>dom (fst (file_step counting_env pre c s)). fd < 3 + int (length (pre @ [c]))"
  proof
    fix fd assume "fd \<in> dom (fst (file_step counting_env pre c s))"
    then have "fd \<in> dom (fst s) \<or> fd = 3 + int (length pre)"
      using file_step_dom [of counting_env pre c s fd] by (auto simp: counting_env_def)
    then show "fd < 3 + int (length (pre @ [c]))"
    proof
      assume "fd \<in> dom (fst s)"
      with Cons.prems have "fd < 3 + int (length pre)" by blast
      then show ?thesis by simp
    qed simp
  qed
  from Cons.IH [OF this] show ?case by simp
qed simp

lemma fresh_fds_counting [simp]: "fresh_fds counting_env"
proof -
  have "fst (file_run counting_env [] h (Map.empty, [])) (3 + int (length h)) = None" for h
    using counting_files_below [of "(Map.empty, [])" "[]" h] by force
  then show ?thesis by (simp add: fresh_fds_def counting_env_def)
qed

lemma counting_env_simps [simp]:
  "counting_env h (Open p f) = \<lparr>retv = 3 + int (length h), errno = 0, oval = 0, outb = []\<rparr>"
  "counting_env h (Close fd) = \<lparr>retv = if fd < 0 then -1 else 0, errno = 0, oval = 0, outb = []\<rparr>"
  "counting_env h (Malloc n) = \<lparr>retv = 64, errno = 0, oval = 0, outb = []\<rparr>"
  "counting_env h (Write fd bs) = \<lparr>retv = int (length bs), errno = 0, oval = 0, outb = []\<rparr>"
  by (simp_all add: counting_env_def)

lemma good_world_simps [simp]: "env good_world = good_env" "hist good_world = []"
  by (simp_all add: good_world_def)

lemma posix_errno_good_env [simp]: "posix_errno good_env"
  by (simp add: posix_errno_def good_env_def)

end
