(* ===== verification/ArtikList.thy ===== *)
theory ArtikList
  imports Prelude
begin

section \<open>The generic linked list (\<^verbatim>\<open>inc/base/artik_list.h\<close>)\<close>

text \<open>
  The list functions on an explicit heap of nodes, pointer by pointer, and the proof that on a
  well-formed list they implement the operations of a sequence of nodes. Every other component
  keeps its handles in such a list; the last part of the theory gives the sequence operations
  they are modelled with.

  A node of the heap is the C structure \<^verbatim>\<open>artik_list\<close> followed by the bytes of the
  structure that embeds it (\<open>body\<close>; \<open>memset\<close> to zero is the value \<open>zero\<close>).
  Function pointers and the \<open>data\<close> pointer are addresses. The result of \<^verbatim>\<open>malloc\<close> is an
  argument (0 when it fails). A load through an address that holds no node is a fault. The
  functions that take \<^verbatim>\<open>artik_list **list\<close> take the value of that argument as an
  option (\<open>None\<close> is a null \<open>list\<close>) and return the new value of \<open>*list\<close>.
\<close>

record 'c lnode =
  nxt :: addr
  clr :: addr
  hdl :: addr
  size_data :: u32
  dat :: addr
  body :: 'c

type_synonym 'c lheap = "addr \<rightharpoonup> 'c lnode"

text \<open>What a deletion does beyond the heap: the \<open>clear\<close> callback runs on the node, and the
  node's \<open>data\<close> and the node itself are freed.\<close>

datatype lev = ClearCall addr addr | FreeData addr | FreeNode addr

definition sizeof_artik_list :: int where
  "sizeof_artik_list = 40"

definition load :: "'c lheap \<Rightarrow> addr \<Rightarrow> 'c lnode outcome" where
  "load h p = (if p = 0 then Ub NullDeref
               else case h p of None \<Rightarrow> Ub UseAfterFree | Some n \<Rightarrow> Ret n)"

subsection \<open>Traversals\<close>

text \<open>\<open>while (elem && elem->next) elem = elem->next;\<close>\<close>

partial_function (option) list_end_loop :: "'c lheap \<Rightarrow> addr \<Rightarrow> addr run" where
  "list_end_loop h elem =
     (if elem = 0 then Some (Ret 0)
      else case load h elem of
        Ub f \<Rightarrow> Some (Ub f)
      | Ret n \<Rightarrow> if nxt n = 0 then Some (Ret elem) else list_end_loop h (nxt n))"

text \<open>\<open>while (elem && !found(elem)) { prev = elem; elem = elem->next; }\<close>, the search that
  the deletions and the lookups share; it returns the last \<open>prev\<close> and \<open>elem\<close>.\<close>

partial_function (option) list_search ::
  "(addr \<Rightarrow> 'c lnode \<Rightarrow> bool) \<Rightarrow> 'c lheap \<Rightarrow> addr \<Rightarrow> addr \<Rightarrow> (addr \<times> addr) run" where
  "list_search P h prev elem =
     (if elem = 0 then Some (Ret (prev, 0))
      else case load h elem of
        Ub f \<Rightarrow> Some (Ub f)
      | Ret n \<Rightarrow> if P elem n then Some (Ret (prev, elem))
                 else list_search P h elem (nxt n))"

partial_function (option) list_size_loop :: "'c lheap \<Rightarrow> addr \<Rightarrow> u32 \<Rightarrow> u32 run" where
  "list_size_loop h elem res =
     (if elem = 0 then Some (Ret res)
      else case load h elem of
        Ub f \<Rightarrow> Some (Ub f)
      | Ret n \<Rightarrow> list_size_loop h (nxt n) (res + 1))"

text \<open>The walk to a position, with the previous node.\<close>

partial_function (option) list_nth_loop ::
  "'c lheap \<Rightarrow> addr \<Rightarrow> addr \<Rightarrow> u32 \<Rightarrow> (addr \<times> addr) run" where
  "list_nth_loop h prev elem pos =
     (if elem = 0 \<or> pos = 0 then Some (Ret (prev, elem))
      else case load h elem of
        Ub f \<Rightarrow> Some (Ub f)
      | Ret n \<Rightarrow> list_nth_loop h elem (nxt n) (pos - 1))"

subsection \<open>The operations\<close>

definition artik_list_add ::
  "'c \<Rightarrow> addr \<Rightarrow> 'c lheap \<Rightarrow> addr \<Rightarrow> addr \<Rightarrow> int \<Rightarrow> ('c lheap \<times> addr \<times> addr) run" where
  "artik_list_add zero m h list handle size_of_node =
     rbind (list_end_loop h list) (\<lambda>elem.
       let new = \<lparr>nxt = 0, clr = 0, hdl = (if handle \<noteq> 0 then handle else m),
                  size_data = word_of_int (size_of_node - sizeof_artik_list), dat = 0,
                  body = zero\<rparr>
       in if elem \<noteq> 0 then
            (case load h elem of
               Ub f \<Rightarrow> ub f
             | Ret n \<Rightarrow>
                 if m = 0 then ret (h(elem \<mapsto> n\<lparr>nxt := 0\<rparr>), list, 0)
                 else ret (h(elem \<mapsto> n\<lparr>nxt := m\<rparr>, m \<mapsto> new), list, m))
          else if m = 0 then ret (h, list, 0)
          else ret (h(m \<mapsto> new), m, m))"

text \<open>\<open>if (elem->clear) (*elem->clear)(elem); if (elem->data) free(elem->data); free(elem);\<close>\<close>

definition dispose :: "addr \<Rightarrow> 'c lnode \<Rightarrow> lev list" where
  "dispose elem n =
     (if clr n \<noteq> 0 then [ClearCall (clr n) elem] else [])
     @ (if dat n \<noteq> 0 then [FreeData (dat n)] else []) @ [FreeNode elem]"

text \<open>The end of every deletion: unlink \<open>elem\<close>, run its \<open>clear\<close>, free its data and itself.\<close>

definition unlink_free ::
  "'c lheap \<Rightarrow> addr \<Rightarrow> addr \<Rightarrow> addr \<Rightarrow> ('c lheap \<times> addr \<times> lev list \<times> artik_error) run" where
  "unlink_free h list prev elem =
     (case load h elem of
        Ub f \<Rightarrow> ub f
      | Ret n \<Rightarrow>
          (let h1 = (if prev = 0 then Ret h
                     else case load h prev of
                            Ub f \<Rightarrow> Ub f
                          | Ret pn \<Rightarrow> Ret (h(prev \<mapsto> pn\<lparr>nxt := nxt n\<rparr>)));
               list' = (if elem = list then nxt n else list)
           in case h1 of
                Ub f \<Rightarrow> ub f
              | Ret h1 \<Rightarrow> ret (h1(elem := None), list', dispose elem n, S_OK)))"

definition artik_list_delete_node ::
  "'c lheap \<Rightarrow> addr option \<Rightarrow> addr \<Rightarrow> ('c lheap \<times> addr \<times> lev list \<times> artik_error) run" where
  "artik_list_delete_node h list node =
     (case list of
        None \<Rightarrow> ub NullDeref
      | Some l \<Rightarrow>
          if l = 0 \<or> node = 0 then ret (h, l, [], E_BAD_ARGS)
          else rbind (list_search (\<lambda>a n. a = node) h 0 l) (\<lambda>(prev, elem).
            if elem = 0 then ret (h, l, [], E_BAD_ARGS) else unlink_free h l prev elem))"

definition artik_list_delete_handle ::
  "'c lheap \<Rightarrow> addr option \<Rightarrow> addr \<Rightarrow> ('c lheap \<times> addr \<times> lev list \<times> artik_error) run" where
  "artik_list_delete_handle h list handle =
     (case list of
        None \<Rightarrow> ub NullDeref
      | Some l \<Rightarrow>
          if l = 0 \<or> handle = 0 then ret (h, l, [], E_BAD_ARGS)
          else rbind (list_search (\<lambda>a n. hdl n = handle) h 0 l) (\<lambda>(prev, elem).
            if elem = 0 then ret (h, l, [], E_BAD_ARGS) else unlink_free h l prev elem))"

definition artik_list_size :: "'c lheap \<Rightarrow> addr \<Rightarrow> u32 run" where
  "artik_list_size h list = list_size_loop h list 0"

definition artik_list_delete_pos ::
  "'c lheap \<Rightarrow> addr option \<Rightarrow> u32 \<Rightarrow> ('c lheap \<times> addr \<times> lev list \<times> artik_error) run" where
  "artik_list_delete_pos h list pos =
     (case list of
        None \<Rightarrow> ub NullDeref
      | Some l \<Rightarrow>
          if l = 0 then ret (h, l, [], E_BAD_ARGS)
          else rbind (artik_list_size h l) (\<lambda>sz.
            if pos \<ge> sz then ret (h, l, [], E_BAD_ARGS)
            else rbind (list_nth_loop h 0 l pos) (\<lambda>(prev, elem).
              if elem = 0 then ret (h, l, [], E_BAD_ARGS) else unlink_free h l prev elem)))"

text \<open>The comparison function is a pure function of the node; a null one is \<open>None\<close>.\<close>

definition artik_list_delete_check ::
  "'c lheap \<Rightarrow> addr option \<Rightarrow> (addr \<Rightarrow> 'c lnode \<Rightarrow> bool) option
     \<Rightarrow> ('c lheap \<times> addr \<times> lev list \<times> artik_error) run" where
  "artik_list_delete_check h list check_func =
     (case list of
        None \<Rightarrow> ub NullDeref
      | Some l \<Rightarrow>
          (case check_func of
             None \<Rightarrow> ret (h, l, [], E_BAD_ARGS)
           | Some P \<Rightarrow>
               if l = 0 then ret (h, l, [], E_BAD_ARGS)
               else rbind (list_search P h 0 l) (\<lambda>(prev, elem).
                 if elem = 0 then ret (h, l, [], E_BAD_ARGS) else unlink_free h l prev elem)))"

partial_function (option) delete_all_loop ::
  "'c lheap \<Rightarrow> addr \<Rightarrow> lev list \<Rightarrow> ('c lheap \<times> lev list) run" where
  "delete_all_loop h l evs =
     (if l = 0 then Some (Ret (h, evs))
      else case load h l of
        Ub f \<Rightarrow> Some (Ub f)
      | Ret n \<Rightarrow> delete_all_loop (h(l := None)) (nxt n) (evs @ dispose l n))"

definition artik_list_delete_all ::
  "'c lheap \<Rightarrow> addr option \<Rightarrow> ('c lheap \<times> addr \<times> lev list \<times> artik_error) run" where
  "artik_list_delete_all h list =
     (case list of
        None \<Rightarrow> ret (h, 0, [], E_BAD_ARGS)
      | Some l \<Rightarrow>
          if l = 0 then ret (h, l, [], E_BAD_ARGS)
          else rbind (delete_all_loop h l []) (\<lambda>(h', evs). ret (h', 0, evs, S_OK)))"

definition artik_list_get_by_handle :: "'c lheap \<Rightarrow> addr \<Rightarrow> addr \<Rightarrow> addr run" where
  "artik_list_get_by_handle h list handle =
     (if list = 0 \<or> handle = 0 then ret 0
      else rbind (list_search (\<lambda>a n. hdl n = handle) h 0 list) (\<lambda>(prev, elem). ret elem))"

definition artik_list_get_by_pos :: "'c lheap \<Rightarrow> addr \<Rightarrow> u32 \<Rightarrow> addr run" where
  "artik_list_get_by_pos h list pos =
     (if list = 0 then ret 0
      else rbind (artik_list_size h list) (\<lambda>sz.
        if pos \<ge> sz then ret 0
        else rbind (list_nth_loop h 0 list pos) (\<lambda>(prev, elem). ret elem)))"

definition artik_list_get_by_check ::
  "'c lheap \<Rightarrow> addr \<Rightarrow> (addr \<Rightarrow> 'c lnode \<Rightarrow> bool) option \<Rightarrow> addr run" where
  "artik_list_get_by_check h list check_func =
     (case check_func of
        None \<Rightarrow> ret 0
      | Some P \<Rightarrow> if list = 0 then ret 0
                  else rbind (list_search P h 0 list) (\<lambda>(prev, elem). ret elem))"

definition artik_list_end :: "'c lheap \<Rightarrow> addr \<Rightarrow> addr run" where
  "artik_list_end h list = list_end_loop h list"

text \<open>
  \<open>artik_list_cpy\<close>: \<open>res\<close> is the location being filled: \<open>None\<close> is \<open>*dest\<close>,
  \<open>Some a\<close> is \<open>a->next\<close>. The addresses that the calls of \<^verbatim>\<open>malloc\<close> return are the
  list \<open>ms\<close>; a failing one (0) makes the \<open>memcpy\<close> a null access. The copy moves the list
  header only: what follows it is \<open>junk\<close> in a new node and unchanged in an old one.
\<close>

definition cpy_target ::
  "'c \<Rightarrow> 'c lheap \<Rightarrow> addr \<Rightarrow> addr \<Rightarrow> addr option \<Rightarrow> addr list
     \<Rightarrow> ('c lheap \<times> addr \<times> 'c \<times> addr list) outcome" where
  "cpy_target junk h elem dest res ms =
     obind (case res of None \<Rightarrow> Ret dest | Some a \<Rightarrow> obind (load h a) (\<lambda>n. Ret (nxt n))) (\<lambda>c.
       if c \<noteq> 0 then obind (load h c) (\<lambda>t. Ret (h, c, body t, ms))
       else (case ms of
               [] \<Rightarrow> Ub NullDeref
             | m # ms' \<Rightarrow>
                 if m = 0 then Ub NullDeref
                 else (case res of
                         None \<Rightarrow> Ret (h, m, junk, ms')
                       | Some a \<Rightarrow> obind (load h a) (\<lambda>n.
                           Ret (h(a \<mapsto> n\<lparr>nxt := m\<rparr>), m, junk, ms')))))"

partial_function (option) cpy_loop ::
  "'c \<Rightarrow> 'c lheap \<Rightarrow> addr \<Rightarrow> addr \<Rightarrow> addr option \<Rightarrow> addr list \<Rightarrow> ('c lheap \<times> addr) run" where
  "cpy_loop junk h elem dest res ms =
     (if elem = 0 then Some (Ret (h, dest))
      else case cpy_target junk h elem dest res ms of
        Ub f \<Rightarrow> Some (Ub f)
      | Ret (h1, tgt, b, ms') \<Rightarrow>
          (case load h1 elem of
             Ub f \<Rightarrow> Some (Ub f)
           | Ret n \<Rightarrow>
               (case load (h1(tgt \<mapsto> n\<lparr>body := b\<rparr>)) elem of
                  Ub f \<Rightarrow> Some (Ub f)
                | Ret n' \<Rightarrow>
                    cpy_loop junk (h1(tgt \<mapsto> n\<lparr>body := b\<rparr>)) (nxt n')
                      (if res = None then tgt else dest) (Some tgt) ms')))"

definition artik_list_cpy ::
  "'c \<Rightarrow> 'c lheap \<Rightarrow> addr \<Rightarrow> addr \<Rightarrow> addr list \<Rightarrow> ('c lheap \<times> addr \<times> artik_error) run" where
  "artik_list_cpy junk h list dest ms =
     (if list = 0 then ret (h, dest, E_BAD_ARGS)
      else rbind (cpy_loop junk h list dest None ms) (\<lambda>(h', d). ret (h', d, S_OK)))"

subsection \<open>Well-formed lists\<close>

fun lseg :: "'c lheap \<Rightarrow> addr \<Rightarrow> addr list \<Rightarrow> addr \<Rightarrow> bool" where
  "lseg h p [] q = (p = q)"
| "lseg h p (a # as) q =
     (p = a \<and> a \<noteq> 0 \<and> (case h a of None \<Rightarrow> False | Some n \<Rightarrow> lseg h (nxt n) as q))"

definition is_list :: "'c lheap \<Rightarrow> addr \<Rightarrow> addr list \<Rightarrow> bool" where
  "is_list h p as \<longleftrightarrow> lseg h p as 0 \<and> distinct as"

lemma lseg_append:
  "lseg h p (as @ bs) q \<longleftrightarrow> (\<exists>r. lseg h p as r \<and> lseg h r bs q)"
  by (induction as arbitrary: p) (auto split: option.splits)

lemma lseg_upd_other [simp]: "x \<notin> set as \<Longrightarrow> lseg (h(x := v)) p as q = lseg h p as q"
  by (induction as arbitrary: p) (auto split: option.splits)

lemma lseg_dom: "lseg h p as q \<Longrightarrow> a \<in> set as \<Longrightarrow> \<exists>n. h a = Some n \<and> a \<noteq> 0"
  by (induction as arbitrary: p) (auto split: option.splits)

lemma lseg_null [simp]: "lseg h 0 as 0 \<longleftrightarrow> as = []"
  by (cases as) auto

lemma lseg_head: "lseg h p as 0 \<Longrightarrow> p = (case as of [] \<Rightarrow> 0 | a # _ \<Rightarrow> a)"
  by (cases as) auto

lemma lseg_eq_null: "lseg h p as 0 \<Longrightarrow> p = 0 \<longleftrightarrow> as = []"
  by (cases as) auto

lemma lseg_end_unique: "lseg h p as q \<Longrightarrow> lseg h p as r \<Longrightarrow> q = r"
  by (induction as arbitrary: p) (auto split: option.splits)

lemma list_end_loop_lseg:
  "lseg h p as 0 \<Longrightarrow> list_end_loop h p = ret (if as = [] then 0 else last as)"
proof (induction as arbitrary: p)
  case Nil
  then show ?case by (simp add: list_end_loop.simps ret_def)
next
  case (Cons a as)
  then obtain n where n: "p = a" "a \<noteq> 0" "h a = Some n" "lseg h (nxt n) as 0"
    by (auto split: option.splits)
  show ?case
  proof (cases "as = []")
    case True
    with n show ?thesis by (subst list_end_loop.simps) (simp add: load_def ret_def)
  next
    case False
    then have "nxt n \<noteq> 0" using n(4) by (cases as) auto
    with n False Cons.IH [OF n(4)] show ?thesis
      by (subst list_end_loop.simps) (simp add: load_def)
  qed
qed

text \<open>The search stops at the first node that satisfies the test, with its predecessor.\<close>

fun search_spec ::
  "(addr \<Rightarrow> 'c lnode \<Rightarrow> bool) \<Rightarrow> 'c lheap \<Rightarrow> addr \<Rightarrow> addr list \<Rightarrow> addr \<times> addr" where
  "search_spec P h prev [] = (prev, 0)"
| "search_spec P h prev (a # as) =
     (if P a (the (h a)) then (prev, a) else search_spec P h a as)"

lemma list_search_lseg:
  "lseg h p as 0 \<Longrightarrow> list_search P h prev p = ret (search_spec P h prev as)"
proof (induction as arbitrary: p prev)
  case Nil
  then show ?case by (simp add: list_search.simps ret_def)
next
  case (Cons a as)
  then obtain n where n: "p = a" "a \<noteq> 0" "h a = Some n" "lseg h (nxt n) as 0"
    by (auto split: option.splits)
  with Cons.IH [OF n(4)] show ?case
    by (subst list_search.simps) (simp add: load_def ret_def)
qed

lemma search_spec_found:
  "search_spec P h prev as = (q, a) \<Longrightarrow> a \<noteq> 0 \<Longrightarrow>
     \<exists>bs cs. as = bs @ a # cs \<and> q = (if bs = [] then prev else last bs)
       \<and> P a (the (h a)) \<and> (\<forall>b\<in>set bs. \<not> P b (the (h b)))"
proof (induction as arbitrary: prev)
  case (Cons c as)
  show ?case
  proof (cases "P c (the (h c))")
    case True
    with Cons.prems show ?thesis by (intro exI [of _ "[]"] exI [of _ as]) auto
  next
    case False
    with Cons.prems have "search_spec P h c as = (q, a)" by simp
    from Cons.IH [OF this Cons.prems(2)] obtain bs cs where
      "as = bs @ a # cs" "q = (if bs = [] then c else last bs)"
      "P a (the (h a))" "\<forall>b\<in>set bs. \<not> P b (the (h b))" by blast
    with False show ?thesis by (intro exI [of _ "c # bs"] exI [of _ cs]) auto
  qed
qed simp

lemma search_spec_none:
  "\<forall>a\<in>set as. a \<noteq> 0 \<Longrightarrow> snd (search_spec P h prev as) = 0 \<longleftrightarrow> (\<forall>a\<in>set as. \<not> P a (the (h a)))"
  by (induction as arbitrary: prev) auto

lemma search_spec_find:
  "\<forall>a\<in>set as. a \<noteq> 0 \<Longrightarrow>
   snd (search_spec P h prev as) =
     (case List.find (\<lambda>a. P a (the (h a))) as of None \<Rightarrow> 0 | Some a \<Rightarrow> a)"
  by (induction as arbitrary: prev) auto

lemma list_size_loop_lseg:
  "lseg h p as 0 \<Longrightarrow> list_size_loop h p r = ret (r + of_nat (length as))"
proof (induction as arbitrary: p r)
  case Nil
  then show ?case by (simp add: list_size_loop.simps ret_def)
next
  case (Cons a as)
  then obtain n where n: "p = a" "a \<noteq> 0" "h a = Some n" "lseg h (nxt n) as 0"
    by (auto split: option.splits)
  with Cons.IH [OF n(4)] show ?case
    by (subst list_size_loop.simps) (simp add: load_def add.assoc)
qed


lemma list_nth_loop_lseg:
  "lseg h p as 0 \<Longrightarrow> k < length as \<Longrightarrow> k < 2 ^ 32 \<Longrightarrow>
     list_nth_loop h prev p (of_nat k) = ret (if k = 0 then prev else as ! (k - 1), as ! k)"
proof (induction as arbitrary: p prev k)
  case (Cons a as)
  then obtain n where n: "p = a" "a \<noteq> 0" "h a = Some n" "lseg h (nxt n) as 0"
    by (auto split: option.splits)
  show ?case
  proof (cases k)
    case 0
    with n show ?thesis by (subst list_nth_loop.simps) (simp add: ret_def)
  next
    case (Suc j)
    have nz: "(of_nat k :: u32) \<noteq> 0"
    proof
      assume "(of_nat k :: u32) = 0"
      then have "unat (of_nat k :: u32) = 0" by simp
      with Cons.prems(3) have "k = 0" by (simp add: unat_of_nat)
      with Suc show False by simp
    qed
    have "(of_nat k :: u32) - 1 = of_nat j" using Suc by simp
    moreover have "list_nth_loop h a (nxt n) (of_nat j)
        = ret (if j = 0 then a else as ! (j - 1), as ! j)"
      using Cons.IH [OF n(4)] Cons.prems Suc by simp
    ultimately show ?thesis using n nz Suc
      by (subst list_nth_loop.simps) (auto simp: load_def nth_Cons' )
  qed
qed simp

subsection \<open>The sequence a list stands for\<close>

text \<open>
  \<open>nodes h as\<close>: the nodes at the addresses \<open>as\<close>, without their links. \<open>is_list\<close> is a
  representation invariant, and each operation acts on \<open>nodes\<close> as the sequence operation does.
\<close>

definition nodes :: "'c lheap \<Rightarrow> addr list \<Rightarrow> (addr \<times> 'c lnode) list" where
  "nodes h as = map (\<lambda>a. (a, (the (h a))\<lparr>nxt := 0\<rparr>)) as"

lemma nodes_upd_other [simp]: "x \<notin> set as \<Longrightarrow> nodes (h(x := v)) as = nodes h as"
  by (auto simp: nodes_def)

lemma nodes_upd_nxt [simp]:
  "h x = Some n \<Longrightarrow> nodes (h(x \<mapsto> n\<lparr>nxt := q\<rparr>)) as = nodes h as"
  by (auto simp: nodes_def)

lemma nodes_append [simp]: "nodes h (as @ bs) = nodes h as @ nodes h bs"
  by (simp add: nodes_def)

lemma unlink_free_refines:
  assumes l: "lseg h l (bs @ a # cs) 0" and d: "distinct (bs @ a # cs)"
  defines "prev \<equiv> if bs = [] then 0 else last bs"
  shows "\<exists>h' l'. unlink_free h l prev a = ret (h', l', dispose a (the (h a)), S_OK)
           \<and> is_list h' l' (bs @ cs) \<and> nodes h' (bs @ cs) = nodes h (bs @ cs) \<and> h' a = None
           \<and> (\<forall>x. x \<notin> set (bs @ a # cs) \<longrightarrow> h' x = h x)"
proof (cases bs rule: rev_cases)
  case Nil
  with l obtain n where n: "l = a" "a \<noteq> 0" "h a = Some n" "lseg h (nxt n) cs 0"
    by (auto split: option.splits)
  have "unlink_free h l prev a = ret (h(a := None), nxt n, dispose a n, S_OK)"
    using n Nil by (simp add: unlink_free_def load_def prev_def)
  moreover have "is_list (h(a := None)) (nxt n) cs"
    using n d by (simp add: is_list_def Nil)
  ultimately show ?thesis using n d Nil by auto
next
  case (snoc ds p)
  with l obtain np n where *: "lseg h l ds p" "p \<noteq> 0" "h p = Some np" "nxt np = a"
      "a \<noteq> 0" "h a = Some n" "lseg h (nxt n) cs 0"
    by (auto simp: lseg_append split: option.splits)
  have pa: "p \<noteq> a" "p \<notin> set cs" "a \<notin> set ds" "p \<notin> set ds" "a \<notin> set cs" using d snoc by auto
  have la: "l \<noteq> a"
    using * pa by (cases ds) (auto split: option.splits)
  let ?h = "h(p \<mapsto> np\<lparr>nxt := nxt n\<rparr>, a := None)"
  have "unlink_free h l prev a = ret (?h, l, dispose a n, S_OK)"
    using * snoc la by (simp add: unlink_free_def load_def prev_def)
  moreover have "is_list ?h l (bs @ cs)"
    using * pa d snoc by (auto simp: is_list_def lseg_append)
  moreover have "nodes ?h (bs @ cs) = nodes h (bs @ cs)"
    using * pa snoc by (simp add: nodes_def)
  ultimately show ?thesis using * snoc by auto
qed

lemma add_refines:
  assumes "is_list h p as" and "m \<noteq> 0" and "h m = None"
  shows "\<exists>h' p'. artik_list_add zero m h p handle sz = ret (h', p', m) \<and> is_list h' p' (as @ [m])
     \<and> nodes h' (as @ [m]) = nodes h as @ [(m, \<lparr>nxt = 0, clr = 0,
          hdl = (if handle \<noteq> 0 then handle else m),
          size_data = word_of_int (sz - sizeof_artik_list), dat = 0, body = zero\<rparr>)]
     \<and> (\<forall>x. x \<notin> set as \<and> x \<noteq> m \<longrightarrow> h' x = h x)"
proof -
  let ?new = "\<lparr>nxt = 0, clr = 0, hdl = (if handle \<noteq> 0 then handle else m),
          size_data = word_of_int (sz - sizeof_artik_list), dat = 0, body = zero\<rparr>"
  have l: "lseg h p as 0" and d: "distinct as" using assms(1) by (auto simp: is_list_def)
  have m: "m \<notin> set as" using lseg_dom [OF l] assms(3) by fastforce
  note loop = list_end_loop_lseg [OF l]
  show ?thesis
  proof (cases as rule: rev_cases)
    case Nil
    then have "artik_list_add zero m h p handle sz = ret (h(m \<mapsto> ?new), m, m)"
      using loop assms by (simp add: artik_list_add_def)
    with Nil assms show ?thesis by (auto simp: is_list_def nodes_def)
  next
    case (snoc ds q)
    with l obtain nq where *: "lseg h p ds q" "q \<noteq> 0" "h q = Some nq" "nxt nq = 0"
      by (auto simp: lseg_append split: option.splits)
    have qm: "q \<noteq> m" "m \<notin> set ds" "q \<notin> set ds" using m d snoc by auto
    let ?h = "h(q \<mapsto> nq\<lparr>nxt := m\<rparr>, m \<mapsto> ?new)"
    have "artik_list_add zero m h p handle sz = ret (?h, p, m)"
      using loop snoc * assms(2) by (simp add: artik_list_add_def load_def Let_def)
    moreover have "is_list ?h p (as @ [m])"
      using * qm d m snoc assms(2) by (auto simp: is_list_def lseg_append)
    moreover have "nodes ?h (as @ [m]) = nodes h as @ [(m, ?new)]"
      using * m snoc by (simp add: nodes_def qm)
    ultimately show ?thesis using snoc by auto
  qed
qed


lemma add_alloc_fails:
  assumes "is_list h p as"
  shows "artik_list_add zero 0 h p handle sz = ret (h, p, 0)"
proof -
  have l: "lseg h p as 0" using assms by (auto simp: is_list_def)
  show ?thesis
  proof (cases as rule: rev_cases)
    case Nil
    with list_end_loop_lseg [OF l] show ?thesis by (simp add: artik_list_add_def)
  next
    case (snoc ds q)
    with l obtain nq where *: "lseg h p ds q" "q \<noteq> 0" "h q = Some nq" "nxt nq = 0"
      by (auto simp: lseg_append split: option.splits)
    have "nq\<lparr>nxt := 0\<rparr> = nq" using *(4) by (cases nq) simp
    with list_end_loop_lseg [OF l] snoc * show ?thesis
      by (simp add: artik_list_add_def load_def Let_def fun_upd_idem)
  qed
qed

text \<open>What all the deletions do: search, then unlink what was found.\<close>

lemma search_unlink_refines:
  assumes "is_list h p as" and "List.find (\<lambda>a. P a (the (h a))) as = Some a"
  shows "\<exists>prev h' p'. list_search P h 0 p = ret (prev, a) \<and> a \<noteq> 0
     \<and> unlink_free h p prev a = ret (h', p', dispose a (the (h a)), S_OK)
     \<and> is_list h' p' (remove1 a as)
     \<and> nodes h' (remove1 a as) = remove_first (\<lambda>(x, n). x = a) (nodes h as)
     \<and> h' a = None \<and> (\<forall>x. x \<notin> set as \<longrightarrow> h' x = h x)"
proof -
  have l: "lseg h p as 0" and d: "distinct as" using assms(1) by (auto simp: is_list_def)
  have nz: "\<forall>a\<in>set as. a \<noteq> 0" using lseg_dom [OF l] by blast
  obtain prev e where e: "search_spec P h 0 as = (prev, e)" by force
  with search_spec_find [OF nz, of P h 0] assms(2) have "e = a" by simp
  have "a \<in> set as" using assms(2) find_SomeD by fast
  with nz have a0: "a \<noteq> 0" by blast
  from search_spec_found [OF e [unfolded \<open>e = a\<close>] a0] obtain bs cs where
    *: "as = bs @ a # cs" "prev = (if bs = [] then 0 else last bs)" by blast
  have ra: "remove1 a as = bs @ cs" using * d by (simp add: remove1_append)
  have rn: "remove_first (\<lambda>(x, n). x = a) (nodes h as) = nodes h (bs @ cs)"
    using * d by (auto simp: nodes_def remove_first_append remove_first_none)
  show ?thesis
    using unlink_free_refines [of h p bs a cs] l d * list_search_lseg [OF l, of P 0] e a0
      \<open>e = a\<close> ra rn by auto
qed

lemma search_none:
  assumes "is_list h p as" and "List.find (\<lambda>a. P a (the (h a))) as = None"
  shows "\<exists>prev. list_search P h 0 p = ret (prev, 0)"
proof -
  have l: "lseg h p as 0" using assms(1) by (auto simp: is_list_def)
  have nz: "\<forall>a\<in>set as. a \<noteq> 0" using lseg_dom [OF l] by blast
  from search_spec_find [OF nz, of P h 0] assms(2)
  have "snd (search_spec P h 0 as) = 0" by simp
  with list_search_lseg [OF l, of P 0] show ?thesis by (metis prod.collapse)
qed

lemma search_find:
  assumes "is_list h p as"
  shows "\<exists>prev. list_search P h 0 p
     = ret (prev, case List.find (\<lambda>a. P a (the (h a))) as of None \<Rightarrow> 0 | Some a \<Rightarrow> a)"
  using search_none [OF assms, of P] search_unlink_refines [OF assms, of P]
  by (cases "List.find (\<lambda>a. P a (the (h a))) as") auto

lemma is_list_null [simp]: "is_list h 0 as \<longleftrightarrow> as = []"
  by (auto simp: is_list_def)

lemma find_nodes:
  "List.find (\<lambda>a. P a (the (h a))) as = Some a \<Longrightarrow>
   (\<And>a n. P a (n\<lparr>nxt := 0\<rparr>) = P a n) \<Longrightarrow> distinct as \<Longrightarrow>
   remove_first (\<lambda>(x, n). x = a) (nodes h as) = remove_first (\<lambda>(x, n). P x n) (nodes h as)"
  by (induction as)
    (auto simp: nodes_def split: if_splits intro!: remove_first_none dest: find_SomeD)

lemma delete_all_loop_lseg:
  "lseg h p as 0 \<Longrightarrow> distinct as \<Longrightarrow>
   delete_all_loop h p evs =
     ret (h |` (- set as), evs @ concat (map (\<lambda>a. dispose a (the (h a))) as))"
proof (induction as arbitrary: h p evs)
  case Nil
  then show ?case by (simp add: delete_all_loop.simps ret_def restrict_map_def)
next
  case (Cons a as)
  then obtain n where n: "p = a" "a \<noteq> 0" "h a = Some n" "lseg h (nxt n) as 0"
    by (auto split: option.splits)
  have "lseg (h(a := None)) (nxt n) as 0" using n Cons.prems by simp
  then have "delete_all_loop (h(a := None)) (nxt n) (evs @ dispose a n)
      = ret ((h(a := None)) |` (- set as), (evs @ dispose a n)
          @ concat (map (\<lambda>x. dispose x (the ((h(a := None)) x))) as))"
    by (rule Cons.IH) (use Cons.prems in simp)
  also have "(h(a := None)) |` (- set as) = h |` (- set (a # as))"
    by (rule ext) (simp add: restrict_map_def)
  also have "map (\<lambda>x. dispose x (the ((h(a := None)) x))) as
      = map (\<lambda>x. dispose x (the (h x))) as"
    using Cons.prems by auto
  finally have *: "delete_all_loop (h(a := None)) (nxt n) (evs @ dispose a n)
      = ret (h |` (- set (a # as)), (evs @ dispose a n)
          @ concat (map (\<lambda>x. dispose x (the (h x))) as))" .
  have "delete_all_loop h p evs = delete_all_loop (h(a := None)) (nxt n) (evs @ dispose a n)"
    using n by (subst delete_all_loop.simps) (simp add: load_def)
  with * n show ?case by simp
qed

subsection \<open>The operations refine the sequence operations\<close>

text \<open>Adding a node to a well-formed list, with a fresh block from \<^verbatim>\<open>malloc\<close>, appends
  one zeroed node whose handle is the caller's, or its own address when the caller gives none;
  the nodes before it, and every other block of the heap, keep their contents.\<close>

theorem artik_list_add_appends:
  assumes "is_list h p as" and "m \<noteq> 0" and "h m = None"
  shows "\<exists>h' p'. artik_list_add zero m h p handle sz = ret (h', p', m) \<and> is_list h' p' (as @ [m])
     \<and> nodes h' (as @ [m]) = nodes h as @ [(m, \<lparr>nxt = 0, clr = 0,
          hdl = (if handle \<noteq> 0 then handle else m),
          size_data = word_of_int (sz - sizeof_artik_list), dat = 0, body = zero\<rparr>)]
     \<and> (\<forall>x. x \<notin> set as \<and> x \<noteq> m \<longrightarrow> h' x = h x)"
  using assms by (rule add_refines)

definition one_node_heap :: "nat lheap" where
  "one_node_heap = [8 \<mapsto> \<lparr>nxt = 0, clr = 0, hdl = 8, size_data = 0, dat = 0, body = 7\<rparr>]"

theorem artik_list_add_appends_witness:
  "\<exists>h' p'. artik_list_add 0 16 one_node_heap 8 0 48 = ret (h', p', 16) \<and> is_list h' p' [8, 16]"
proof -
  have "is_list one_node_heap 8 [8]" by (simp add: one_node_heap_def is_list_def)
  moreover have "one_node_heap 16 = None" by (simp add: one_node_heap_def)
  ultimately show ?thesis
    using artik_list_add_appends [of one_node_heap 8 "[8]" 16 0 0 48] by auto
qed

text \<open>Deleting by handle on a well-formed list removes the first node with that handle and
  nothing else, frees it exactly once after its \<open>clear\<close> callback and its data, and reports
  \<open>E_BAD_ARGS\<close>, with nothing changed, when no node has the handle.\<close>

theorem artik_list_delete_handle_removes:
  assumes "is_list h p as"
  shows "\<exists>h' p' as' evs e. artik_list_delete_handle h (Some p) k = ret (h', p', evs, e)
     \<and> is_list h' p' as'
     \<and> (if k \<noteq> 0 \<and> (\<exists>a\<in>set as. hdl (the (h a)) = k)
        then \<exists>a\<in>set as. hdl (the (h a)) = k \<and> e = S_OK \<and> evs = dispose a (the (h a))
               \<and> as' = remove1 a as \<and> h' a = None
               \<and> nodes h' as' = remove_first (\<lambda>(x, n). hdl n = k) (nodes h as)
        else e = E_BAD_ARGS \<and> evs = [] \<and> h' = h \<and> p' = p \<and> as' = as)"
proof (cases "k = 0 \<or> p = 0")
  case True
  with assms show ?thesis by (auto simp: artik_list_delete_handle_def)
next
  case False
  have d: "distinct as" using assms by (simp add: is_list_def)
  let ?P = "\<lambda>a n. hdl n = k"
  show ?thesis
  proof (cases "List.find (\<lambda>a. ?P a (the (h a))) as")
    case None
    then have "\<not> (\<exists>a\<in>set as. hdl (the (h a)) = k)" by (auto simp: find_None_iff)
    with search_none [OF assms, of ?P] None assms False show ?thesis
      by (auto simp: artik_list_delete_handle_def)
  next
    case (Some a)
    from find_SomeD [OF Some] have a: "a \<in> set as" "hdl (the (h a)) = k" by auto
    have "remove_first (\<lambda>(x, n). x = a) (nodes h as)
        = remove_first (\<lambda>(x, n). hdl n = k) (nodes h as)"
      using find_nodes [of ?P h as a] Some d by simp
    with search_unlink_refines [OF assms, of ?P a] Some obtain prev h' p' where
      *: "list_search ?P h 0 p = ret (prev, a)" "a \<noteq> 0"
        "unlink_free h p prev a = ret (h', p', dispose a (the (h a)), S_OK)"
        "is_list h' p' (remove1 a as)" "h' a = None"
        "nodes h' (remove1 a as) = remove_first (\<lambda>(x, n). hdl n = k) (nodes h as)"
      by auto
    then have "artik_list_delete_handle h (Some p) k = ret (h', p', dispose a (the (h a)), S_OK)"
      using False by (simp add: artik_list_delete_handle_def)
    moreover have "k \<noteq> 0 \<and> (\<exists>a\<in>set as. hdl (the (h a)) = k)" using a False by blast
    ultimately show ?thesis using * a by metis
  qed
qed

theorem artik_list_delete_handle_removes_witness:
  "\<exists>h' p' evs. artik_list_delete_handle one_node_heap (Some 8) 8 = ret (h', p', evs, S_OK)
     \<and> is_list h' p' []"
proof -
  have "is_list one_node_heap 8 [8]" by (simp add: one_node_heap_def is_list_def)
  from artik_list_delete_handle_removes [OF this, of 8] show ?thesis
    by (auto simp: one_node_heap_def)
qed


text \<open>Deleting a position inside a well-formed list removes exactly the node at that
  position and frees it; a position past the end changes nothing and returns
  \<open>E_BAD_ARGS\<close>.\<close>

theorem artik_list_delete_pos_removes:
  assumes "is_list h p as" and "length as < 2 ^ 32" and "k < 2 ^ 32"
  shows "if k < length as
    then \<exists>h' p'. artik_list_delete_pos h (Some p) (of_nat k)
             = ret (h', p', dispose (as ! k) (the (h (as ! k))), S_OK)
           \<and> is_list h' p' (take k as @ drop (Suc k) as)
           \<and> nodes h' (take k as @ drop (Suc k) as) = nodes h (take k as @ drop (Suc k) as)
           \<and> h' (as ! k) = None
    else artik_list_delete_pos h (Some p) (of_nat k) = ret (h, p, [], E_BAD_ARGS)"
proof -
  have l: "lseg h p as 0" and d: "distinct as" using assms(1) by (auto simp: is_list_def)
  have size: "artik_list_size h p = ret (of_nat (length as))"
    using list_size_loop_lseg [OF l, of 0] by (simp add: artik_list_size_def)
  have cmp: "(of_nat (length as) :: u32) \<le> of_nat k \<longleftrightarrow> length as \<le> k"
    using assms(2,3) by (simp add: word_le_nat_alt unat_of_nat)
  show ?thesis
  proof (cases "k < length as")
    case False
    with size cmp assms(1) show ?thesis by (auto simp: artik_list_delete_pos_def)
  next
    case True
    let ?prev = "if take k as = [] then 0 else last (take k as)"
    have prev: "(if k = 0 then 0 else as ! (k - 1)) = ?prev"
      using True by (auto simp: last_conv_nth)
    have split: "as = take k as @ as ! k # drop (Suc k) as"
      using True by (rule id_take_nth_drop)
    have "as ! k \<noteq> 0" using lseg_dom [OF l] True nth_mem by blast
    moreover have "p \<noteq> 0" using lseg_eq_null [OF l] True by auto
    moreover have "list_nth_loop h 0 p (of_nat k) = ret (?prev, as ! k)"
      using list_nth_loop_lseg [OF l True assms(3), of 0] prev by simp
    moreover obtain h' p' where
      "unlink_free h p ?prev (as ! k) = ret (h', p', dispose (as ! k) (the (h (as ! k))), S_OK)"
      "is_list h' p' (take k as @ drop (Suc k) as)" "h' (as ! k) = None"
      "nodes h' (take k as @ drop (Suc k) as) = nodes h (take k as @ drop (Suc k) as)"
      using unlink_free_refines [of h p "take k as" "as ! k" "drop (Suc k) as"] l d split
      by metis
    ultimately show ?thesis using True size cmp
      by (simp add: artik_list_delete_pos_def del: take_eq_Nil)
  qed
qed

theorem artik_list_delete_pos_removes_witness:
  "\<exists>h' p' evs. artik_list_delete_pos one_node_heap (Some 8) 0 = ret (h', p', evs, S_OK)
     \<and> is_list h' p' []"
proof -
  have "is_list one_node_heap 8 [8]" by (simp add: one_node_heap_def is_list_def)
  from artik_list_delete_pos_removes [OF this, of 0] show ?thesis by auto
qed

text \<open>Deleting a whole well-formed list frees every node exactly once, in list order, each
  after its \<open>clear\<close> callback and its data; the list becomes empty and no other block of the
  heap changes.\<close>

theorem artik_list_delete_all_frees:
  assumes "is_list h p as" and "as \<noteq> []"
  shows "artik_list_delete_all h (Some p)
     = ret (h |` (- set as), 0, concat (map (\<lambda>a. dispose a (the (h a))) as), S_OK)"
proof -
  have l: "lseg h p as 0" and d: "distinct as" using assms(1) by (auto simp: is_list_def)
  moreover have "p \<noteq> 0" using lseg_eq_null [OF l] assms(2) by auto
  ultimately show ?thesis
    using delete_all_loop_lseg [OF l d, of "[]"] by (simp add: artik_list_delete_all_def)
qed

theorem artik_list_delete_all_frees_witness:
  "artik_list_delete_all one_node_heap (Some 8) = ret (one_node_heap |` (- {8}), 0, [FreeNode 8], S_OK)"
proof -
  have "is_list one_node_heap 8 [8]" by (simp add: one_node_heap_def is_list_def)
  from artik_list_delete_all_frees [OF this] show ?thesis
    by (simp add: one_node_heap_def dispose_def)
qed

text \<open>Once the copy has reached a node of the source, the loop copies each node onto itself.\<close>

lemma cpy_loop_self:
  "lseg h e as 0 \<Longrightarrow> h q = Some nq \<Longrightarrow> q \<noteq> 0 \<Longrightarrow> nxt nq = e \<Longrightarrow> dest \<noteq> 0 \<Longrightarrow>
   cpy_loop junk h e dest (Some q) ms = ret (h, dest)"
proof (induction as arbitrary: e q nq)
  case Nil
  then show ?case by (simp add: cpy_loop.simps ret_def)
next
  case (Cons a as)
  then obtain n where n: "e = a" "a \<noteq> 0" "h a = Some n" "lseg h (nxt n) as 0"
    by (auto split: option.splits)
  have same: "h(a \<mapsto> n\<lparr>body := body n\<rparr>) = h"
    using n by (simp add: fun_upd_idem)
  have "cpy_loop junk h (nxt n) dest (Some a) ms = ret (h, dest)"
    by (rule Cons.IH [OF n(4) n(3) n(2)]) (use Cons.prems in auto)
  with n Cons.prems same show ?case
    by (subst cpy_loop.simps) (simp add: load_def cpy_target_def)
qed

text \<open>Copying a well-formed list does not copy it: whatever its length, one node is
  allocated, for the head, and the copy's second and later nodes are the nodes of the source
  (so a change to one list, or its deletion, is a change to the other).\<close>

theorem artik_list_cpy_shares_tail:
  assumes "is_list h p (a # as)" and "m \<noteq> 0" and "h m = None"
  shows "\<exists>h'. artik_list_cpy junk h p 0 (m # ms) = ret (h', m, S_OK)
     \<and> h' = h(m \<mapsto> (the (h a))\<lparr>body := junk\<rparr>)
     \<and> is_list h' m (m # as) \<and> is_list h' p (a # as)"
proof -
  have l: "lseg h p (a # as) 0" and d: "distinct (a # as)" using assms(1) by (auto simp: is_list_def)
  then obtain n where n: "p = a" "a \<noteq> 0" "h a = Some n" "lseg h (nxt n) as 0"
    by (auto split: option.splits)
  have ma: "m \<noteq> a" "m \<notin> set as" using assms(3) n lseg_dom [OF n(4)] by fastforce+
  let ?h = "h(m \<mapsto> n\<lparr>body := junk\<rparr>)"
  have "cpy_loop junk ?h (nxt n) m (Some m) ms = ret (?h, m)"
    by (rule cpy_loop_self [where as = as and nq = "n\<lparr>body := junk\<rparr>"]) (use n ma assms(2) in auto)
  then have "cpy_loop junk h p 0 None (m # ms) = ret (?h, m)"
    using n ma assms(2,3) by (subst cpy_loop.simps) (simp add: load_def cpy_target_def)
  moreover have "is_list ?h m (m # as)" "is_list ?h p (a # as)"
    using n ma d assms(2) by (auto simp: is_list_def)
  ultimately show ?thesis using n by (auto simp: artik_list_cpy_def)
qed

definition two_node_heap :: "nat lheap" where
  "two_node_heap =
     [8 \<mapsto> \<lparr>nxt = 16, clr = 0, hdl = 8, size_data = 0, dat = 0, body = 7\<rparr>,
      16 \<mapsto> \<lparr>nxt = 0, clr = 0, hdl = 16, size_data = 0, dat = 0, body = 9\<rparr>]"

theorem artik_list_cpy_shares_tail_witness:
  "\<exists>h'. artik_list_cpy 0 two_node_heap 8 0 [24, 32] = ret (h', 24, S_OK) \<and> is_list h' 24 [24, 16]"
proof -
  have "is_list two_node_heap 8 [8, 16]" by (simp add: two_node_heap_def is_list_def)
  moreover have "two_node_heap 24 = None" by (simp add: two_node_heap_def)
  ultimately show ?thesis
    using artik_list_cpy_shares_tail [of two_node_heap 8 8 "[16]" 24 0 "[32]"] by auto
qed

text \<open>A null \<^verbatim>\<open>list\<close> is dereferenced before it is compared with \<^verbatim>\<open>NULL\<close>.\<close>

lemma delete_null_list_faults:
  "artik_list_delete_node h None node = ub NullDeref"
  "artik_list_delete_handle h None k = ub NullDeref"
  "artik_list_delete_pos h None pos = ub NullDeref"
  "artik_list_delete_check h None P = ub NullDeref"
  by (simp_all add: artik_list_delete_node_def artik_list_delete_handle_def
      artik_list_delete_pos_def artik_list_delete_check_def)

end
