(* ===== verification/HandleTable.thy ===== *)
theory HandleTable
  imports ArtikList World
begin

section \<open>Handle tables and the contract of a front end\<close>

text \<open>
  Every front end of \<^verbatim>\<open>src/modules/systemio\<close> (and many others) keeps one static list
  \<^verbatim>\<open>requested_node\<close> of nodes that embed the list header, and uses the address of a node as
  the handle it gives out. This theory gives that use of the list as a table, an association list
  from handles to configurations in list order, proves that the pointer operations of ArtikList
  implement the table operations, and states the contract that a front end's \<^verbatim>\<open>request\<close>
  and \<^verbatim>\<open>release\<close> keep, as the locale \<open>front_end\<close>.
\<close>

type_synonym 'c tab = "(addr \<times> 'c) list"

definition tab_add :: "'c tab \<Rightarrow> addr \<Rightarrow> 'c \<Rightarrow> 'c tab" where
  "tab_add t m c = t @ [(m, c)]"

definition tab_delete_node :: "addr \<Rightarrow> 'c tab \<Rightarrow> 'c tab" where
  "tab_delete_node a t = remove_first (\<lambda>x. fst x = a) t"

definition tab_get_by_handle :: "addr \<Rightarrow> 'c tab \<Rightarrow> (addr \<times> 'c) option" where
  "tab_get_by_handle k t = (if k = 0 then None else List.find (\<lambda>x. fst x = k) t)"

definition tab_get_by_check :: "('c \<Rightarrow> bool) \<Rightarrow> 'c tab \<Rightarrow> (addr \<times> 'c) option" where
  "tab_get_by_check P t = List.find (\<lambda>x. P (snd x)) t"

text \<open>The store of \<^verbatim>\<open>memcpy(&node->config, config, sizeof(node->config))\<close>.\<close>

definition tab_set :: "addr \<Rightarrow> 'c \<Rightarrow> 'c tab \<Rightarrow> 'c tab" where
  "tab_set a c t = map (\<lambda>x. if fst x = a then (a, c) else x) t"

lemma tab_set_id [simp]: "a \<notin> fst ` set t \<Longrightarrow> tab_set a c t = t"
  by (induction t) (auto simp: tab_set_def)

lemma tab_set_add [simp]: "a \<notin> fst ` set t \<Longrightarrow> tab_set a c (tab_add t a c0) = t @ [(a, c)]"
  by (induction t) (auto simp: tab_set_def tab_add_def)

lemma map_fst_tab_set [simp]: "map fst (tab_set a c t) = map fst t"
  by (induction t) (auto simp: tab_set_def)

lemma tab_delete_add [simp]: "a \<notin> fst ` set t \<Longrightarrow> tab_delete_node a (tab_add t a c) = t"
  by (induction t) (auto simp: tab_delete_node_def tab_add_def)

lemma tab_delete_set [simp]:
  "distinct (map fst t) \<Longrightarrow> tab_delete_node a (tab_set a c t) = tab_delete_node a t"
proof (induction t)
  case (Cons x t)
  show ?case
  proof (cases "fst x = a")
    case True
    have "tab_set a c t = t" using True Cons.prems by (intro tab_set_id) auto
    with True show ?thesis by (simp add: tab_set_def tab_delete_node_def)
  qed (use Cons in \<open>simp add: tab_set_def tab_delete_node_def\<close>)
qed (simp add: tab_set_def)

lemma tab_get_by_handle_None:
  "tab_get_by_handle k t = None \<longleftrightarrow> k = 0 \<or> k \<notin> fst ` set t"
  by (force simp: tab_get_by_handle_def find_None_iff)

lemma tab_get_stale [simp]: "k = 0 \<or> k \<notin> fst ` set t \<Longrightarrow> tab_get_by_handle k t = None"
  by (simp add: tab_get_by_handle_None)

lemma tab_get_by_handle_Some:
  "tab_get_by_handle k t = Some x \<Longrightarrow> x \<in> set t \<and> fst x = k \<and> k \<noteq> 0"
  by (auto simp: tab_get_by_handle_def dest: find_SomeD split: if_splits)

lemma tab_get_set: "tab_get_by_handle k t = Some (a, c) \<Longrightarrow> tab_get_by_handle k (tab_set a d t) = Some (a, d)"
  by (induction t) (auto simp: tab_get_by_handle_def tab_set_def split: if_splits)

lemma tab_get_by_check_None:
  "tab_get_by_check P t = None \<longleftrightarrow> (\<forall>x\<in>set t. \<not> P (snd x))"
  by (auto simp: tab_get_by_check_def find_None_iff)

subsection \<open>The list on the heap is the table\<close>

definition tab_of :: "'c lheap \<Rightarrow> addr list \<Rightarrow> 'c tab" where
  "tab_of h as = map (\<lambda>a. (a, body (the (h a)))) as"

text \<open>A heap list stands for a table: well-formed, every node its own handle.\<close>

definition stands_for :: "'c lheap \<Rightarrow> addr \<Rightarrow> 'c tab \<Rightarrow> bool" where
  "stands_for h p t \<longleftrightarrow>
     (\<exists>as. is_list h p as \<and> (\<forall>a\<in>set as. hdl (the (h a)) = a) \<and> t = tab_of h as)"

lemma find_tab_of:
  "List.find (\<lambda>x. P (fst x) (snd x)) (tab_of h as)
     = map_option (\<lambda>a. (a, body (the (h a)))) (List.find (\<lambda>a. P a (body (the (h a)))) as)"
  by (induction as) (auto simp: tab_of_def)

lemma tab_of_nodes: "tab_of h as = map (\<lambda>(a, n). (a, body n)) (nodes h as)"
  by (simp add: tab_of_def nodes_def)

lemma hdl_nodes: "hdl (the (h a)) = hdl (snd (a, (the (h a))\<lparr>nxt := 0\<rparr>))"
  by simp

lemma own_handles_nodes:
  "(\<forall>a\<in>set as. hdl (the (h a)) = a) \<longleftrightarrow> (\<forall>(a, n)\<in>set (nodes h as). hdl n = a)"
  by (auto simp: nodes_def)

lemma stands_for_add:
  assumes "stands_for h p t" and "m \<noteq> 0" and "h m = None"
  shows "\<exists>h' p'. artik_list_add zero m h p 0 sz = ret (h', p', m)
     \<and> stands_for h' p' (tab_add t m zero)"
proof -
  from assms(1) obtain as where as: "is_list h p as" "\<forall>a\<in>set as. hdl (the (h a)) = a"
    "t = tab_of h as" by (auto simp: stands_for_def)
  from add_refines [OF as(1) assms(2,3), of zero 0 sz] obtain h' p' where
    *: "artik_list_add zero m h p 0 sz = ret (h', p', m)" "is_list h' p' (as @ [m])"
      "nodes h' (as @ [m]) = nodes h as @ [(m, \<lparr>nxt = 0, clr = 0, hdl = m,
          size_data = word_of_int (sz - sizeof_artik_list), dat = 0, body = zero\<rparr>)]"
    by auto
  have "\<forall>a\<in>set (as @ [m]). hdl (the (h' a)) = a"
    using as(2) by (simp only: own_handles_nodes *(3)) simp
  moreover have "tab_of h' (as @ [m]) = tab_add t m zero"
    using *(3) as(3) by (simp add: tab_of_nodes tab_add_def del: nodes_append)
  ultimately have "stands_for h' p' (tab_add t m zero)"
    using *(2) unfolding stands_for_def by metis
  with *(1) show ?thesis by blast
qed

lemma stands_for_delete:
  assumes "stands_for h p t" and "a \<in> fst ` set t"
  shows "\<exists>h' p' evs. artik_list_delete_node h (Some p) a = ret (h', p', evs, S_OK)
     \<and> stands_for h' p' (tab_delete_node a t)"
proof -
  from assms(1) obtain as where as: "is_list h p as" "\<forall>a\<in>set as. hdl (the (h a)) = a"
    "t = tab_of h as" by (auto simp: stands_for_def)
  have a: "a \<in> set as" using assms(2) as(3) by (auto simp: tab_of_def)
  let ?P = "\<lambda>x (n :: 'a lnode). x = a"
  have fst: "(\<lambda>(x, n). x = a) = (\<lambda>x. fst x = a)" by auto
  have f: "List.find (\<lambda>x. ?P x (the (h x))) as = Some a"
    using a by (induction as) auto
  from search_unlink_refines [OF as(1), of ?P a] f obtain prev h' p' where
    *: "list_search ?P h 0 p = ret (prev, a)" "a \<noteq> 0"
      "unlink_free h p prev a = ret (h', p', dispose a (the (h a)), S_OK)"
      "is_list h' p' (remove1 a as)"
      "nodes h' (remove1 a as) = remove_first (\<lambda>(x, n). x = a) (nodes h as)"
    by auto
  have "p \<noteq> 0" using a as(1) by (auto simp: is_list_def dest: lseg_eq_null)
  with * have "artik_list_delete_node h (Some p) a = ret (h', p', dispose a (the (h a)), S_OK)"
    by (simp add: artik_list_delete_node_def)
  moreover have "\<forall>x\<in>set (remove1 a as). hdl (the (h' x)) = x"
    using as(2) set_remove_first_subset [of "\<lambda>(x, n). x = a" "nodes h as"]
    by (simp only: own_handles_nodes *(5)) blast
  moreover have "tab_of h' (remove1 a as) = tab_delete_node a t"
    using *(5) as(3) map_remove_first [of "\<lambda>(x, n). (x, body n)" "\<lambda>x. fst x = a" "nodes h as"]
    by (simp add: tab_of_nodes tab_delete_node_def comp_def case_prod_beta fst)
  ultimately show ?thesis using *(4) by (auto simp: stands_for_def)
qed

lemma stands_for_lookup:
  assumes "stands_for h p t"
  shows "artik_list_get_by_handle h p k
           = ret (case tab_get_by_handle k t of None \<Rightarrow> 0 | Some x \<Rightarrow> fst x)"
    and "artik_list_get_by_check h p (Some (\<lambda>a n. P (body n)))
           = ret (case tab_get_by_check P t of None \<Rightarrow> 0 | Some x \<Rightarrow> fst x)"
proof -
  from assms obtain as where as: "is_list h p as" "\<forall>a\<in>set as. hdl (the (h a)) = a"
    "t = tab_of h as" by (auto simp: stands_for_def)
  have eq: "List.find (\<lambda>a. hdl (the (h a)) = k) as = List.find (\<lambda>a. a = k) as"
    using as(2) by (induction as) auto
  obtain prev where "list_search (\<lambda>a n. hdl n = k) h 0 p
      = ret (prev, case List.find (\<lambda>a. a = k) as of None \<Rightarrow> 0 | Some a \<Rightarrow> a)"
    using search_find [OF as(1), of "\<lambda>a n. hdl n = k"] eq by auto
  then show "artik_list_get_by_handle h p k
           = ret (case tab_get_by_handle k t of None \<Rightarrow> 0 | Some x \<Rightarrow> fst x)"
    using as find_tab_of [of "\<lambda>a c. a = k" h as]
    by (auto simp: artik_list_get_by_handle_def tab_get_by_handle_def tab_of_def
        split: option.split)
  obtain prev where "list_search (\<lambda>a n. P (body n)) h 0 p
      = ret (prev, case List.find (\<lambda>a. P (body (the (h a)))) as of None \<Rightarrow> 0 | Some a \<Rightarrow> a)"
    using search_find [OF as(1), of "\<lambda>a n. P (body n)"] by auto
  then show "artik_list_get_by_check h p (Some (\<lambda>a n. P (body n)))
           = ret (case tab_get_by_check P t of None \<Rightarrow> 0 | Some x \<Rightarrow> fst x)"
    using as find_tab_of [of "\<lambda>a c. P c" h as]
    by (auto simp: artik_list_get_by_check_def tab_get_by_check_def tab_of_def
        split: option.split)
qed

text \<open>C1. The list code implements the handle table: on a list that stands for a table, adding a
  fresh node, deleting a node, and both lookups return what the table operations return, and the
  resulting list stands for the resulting table.\<close>

theorem list_implements_handle_table:
  assumes "stands_for h p t"
  shows "(m \<noteq> 0 \<and> h m = None \<longrightarrow>
           (\<exists>h' p'. artik_list_add zero m h p 0 sz = ret (h', p', m)
              \<and> stands_for h' p' (tab_add t m zero)))
       \<and> (a \<in> fst ` set t \<longrightarrow>
           (\<exists>h' p' evs. artik_list_delete_node h (Some p) a = ret (h', p', evs, S_OK)
              \<and> stands_for h' p' (tab_delete_node a t)))
       \<and> artik_list_get_by_handle h p k
           = ret (case tab_get_by_handle k t of None \<Rightarrow> 0 | Some x \<Rightarrow> fst x)
       \<and> artik_list_get_by_check h p (Some (\<lambda>a n. P (body n)))
           = ret (case tab_get_by_check P t of None \<Rightarrow> 0 | Some x \<Rightarrow> fst x)"
  using stands_for_add [OF assms] stands_for_delete [OF assms] stands_for_lookup [OF assms]
  by blast

theorem list_implements_handle_table_witness:
  "artik_list_get_by_handle two_node_heap 8 16 = ret 16
   \<and> (\<exists>h' p' evs. artik_list_delete_node two_node_heap (Some 8) 8 = ret (h', p', evs, S_OK)
        \<and> stands_for h' p' [(16, 9)])"
proof -
  have "is_list two_node_heap 8 [8, 16]" by (simp add: two_node_heap_def is_list_def)
  then have "stands_for two_node_heap 8 [(8, 7), (16, 9)]"
    by (auto simp: stands_for_def tab_of_def two_node_heap_def intro!: exI [of _ "[8, 16]"])
  from list_implements_handle_table [OF this, of 1 0 0 8 16] show ?thesis
    by (simp add: tab_get_by_handle_def tab_delete_node_def)
qed

subsection \<open>The contract of a front end\<close>

text \<open>
  \<open>request m c t w\<close>: a request with configuration \<open>c\<close> on table \<open>t\<close>, \<open>m\<close> being the
  block \<^verbatim>\<open>malloc\<close> returns; it yields the error, the handle written (if any), the
  configuration as the OS layer updated it, the table and the world. \<open>key\<close> is the resource a
  configuration names. \<open>fe_inv\<close> is the invariant a client can rely on.
\<close>

type_synonym 'c fe_request =
  "addr \<Rightarrow> 'c \<Rightarrow> 'c tab \<Rightarrow> world \<Rightarrow> (artik_error \<times> addr option \<times> 'c \<times> 'c tab \<times> world) outcome"

type_synonym 'c fe_release =
  "addr \<Rightarrow> 'c tab \<Rightarrow> world \<Rightarrow> (artik_error \<times> 'c tab \<times> world) outcome"

definition fe_inv :: "('c \<Rightarrow> 'k) \<Rightarrow> 'c tab \<Rightarrow> bool" where
  "fe_inv key t \<longleftrightarrow> distinct (map fst t) \<and> 0 \<notin> fst ` set t \<and> distinct (map (key \<circ> snd) t)"

lemma fe_inv_distinct: "fe_inv key t \<Longrightarrow> distinct (map fst t)"
  by (simp add: fe_inv_def)

lemma fe_inv_Nil [simp]: "fe_inv key []"
  by (simp add: fe_inv_def)

lemma fe_inv_tab_set:
  assumes "fe_inv key t" and "(a, c0) \<in> set t" and "key c = key c0"
  shows "fe_inv key (tab_set a c t)"
proof -
  have "x = (a, c0)" if "x \<in> set t" "fst x = a" for x
    using assms(1,2) that by (force simp: fe_inv_def distinct_map inj_on_def)
  then have "map (key \<circ> snd) (tab_set a c t) = map (key \<circ> snd) t"
    using assms(3) by (fastforce simp: tab_set_def)
  moreover have "fst ` set (tab_set a c t) = fst ` set t"
    by (metis list.set_map map_fst_tab_set)
  ultimately show ?thesis using assms(1) by (simp add: fe_inv_def)
qed

lemma tab_get_held:
  "fe_inv key t \<Longrightarrow> (a, c) \<in> set t \<Longrightarrow> tab_get_by_handle a t = Some (a, c)"
proof -
  assume t: "fe_inv key t" and a: "(a, c) \<in> set t"
  then obtain x where x: "tab_get_by_handle a t = Some x"
    by (cases "tab_get_by_handle a t") (force simp: tab_get_by_handle_None fe_inv_def)+
  with tab_get_by_handle_Some [OF x] t a show ?thesis
    by (force simp: fe_inv_def distinct_map inj_on_def)
qed

lemma set_tab_set: "x \<in> set (tab_set a c t) \<Longrightarrow> x \<in> set t \<or> x = (a, c)"
  by (auto simp: tab_set_def split: if_splits)

lemma set_tab_delete: "x \<in> set (tab_delete_node a t) \<Longrightarrow> x \<in> set t"
  using set_remove_first_subset by (fastforce simp: tab_delete_node_def)

text \<open>
  The states an application can bring a module to: it starts with an empty table, requests and
  releases, \<^verbatim>\<open>malloc\<close> never returning a block in use, and calls the other operations.
\<close>

inductive fe_reach :: "'c fe_request \<Rightarrow> 'c fe_release
    \<Rightarrow> ('c tab \<Rightarrow> world \<Rightarrow> 'c tab \<Rightarrow> world \<Rightarrow> bool) \<Rightarrow> 'c tab \<Rightarrow> world \<Rightarrow> bool"
  for req rel oth where
  start: "fe_reach req rel oth [] w"
| request: "fe_reach req rel oth t w \<Longrightarrow> req m c t w = Ret (e, ho, c', t', w') \<Longrightarrow> m \<notin> fst ` set t
     \<Longrightarrow> fe_reach req rel oth t' w'"
| release: "fe_reach req rel oth t w \<Longrightarrow> rel hnd t w = Ret (e, t', w') \<Longrightarrow> fe_reach req rel oth t' w'"
| other: "fe_reach req rel oth t w \<Longrightarrow> oth t w t' w' \<Longrightarrow> fe_reach req rel oth t' w'"

text \<open>A module whose other operations leave the table alone.\<close>

definition same_table :: "'c tab \<Rightarrow> world \<Rightarrow> 'c tab \<Rightarrow> world \<Rightarrow> bool" where
  "same_table t w t' w' \<longleftrightarrow> t' = t \<and> later w w'"

locale front_end =
  fixes request :: "addr \<Rightarrow> 'c \<Rightarrow> 'c tab \<Rightarrow> world \<Rightarrow> (artik_error \<times> addr option \<times> 'c \<times> 'c tab \<times> world) outcome"
    and release :: "addr \<Rightarrow> 'c tab \<Rightarrow> world \<Rightarrow> (artik_error \<times> 'c tab \<times> world) outcome"
    and key :: "'c \<Rightarrow> 'k"
  assumes request_busy:
    "\<exists>x\<in>set t. key (snd x) = key c \<Longrightarrow> request m c t w = Ret (E_BUSY, None, c, t, w)"
  assumes request_cases:
    "request m c t w = Ret (e, ho, c', t', w') \<Longrightarrow> m \<notin> fst ` set t \<Longrightarrow>
       (e = S_OK \<and> m \<noteq> 0 \<and> ho = Some m \<and> key c' = key c \<and> t' = t @ [(m, c')])
       \<or> (e \<noteq> S_OK \<and> ho = None \<and> t' = t)"
  assumes release_stale:
    "hnd = 0 \<or> hnd \<notin> fst ` set t \<Longrightarrow> release hnd t w = Ret (E_BAD_ARGS, t, w)"
  assumes release_cases:
    "release hnd t w = Ret (e, t', w') \<Longrightarrow> distinct (map fst t) \<Longrightarrow>
       (e = S_OK \<and> t' = tab_delete_node hnd t) \<or> (e \<noteq> S_OK \<and> t' = t)"
begin

lemma request_inv:
  assumes "request m c t w = Ret (e, ho, c', t', w')" and "m \<notin> fst ` set t" and "fe_inv key t"
  shows "fe_inv key t'"
proof (cases "\<exists>x\<in>set t. key (snd x) = key c")
  case True
  with request_busy assms(1,3) show ?thesis by fastforce
next
  case False
  from request_cases [OF assms(1,2)] False assms(2,3) show ?thesis
    by (force simp: fe_inv_def)
qed

lemma release_inv:
  assumes "release hnd t w = Ret (e, t', w')" and "fe_inv key t"
  shows "fe_inv key t'"
proof -
  have "fe_inv key (tab_delete_node a t)" for a
    using assms(2) set_remove_first_subset [of "\<lambda>x. fst x = a" t]
      distinct_remove_first [of "map fst t" "\<lambda>x. x = a"]
    unfolding fe_inv_def tab_delete_node_def
    by (metis (no_types, lifting) distinct_map distinct_remove_first image_mono inj_on_subset subset_eq)
  with release_cases [OF assms(1)] assms(2) fe_inv_distinct show ?thesis by auto
qed

text \<open>A resource that is held cannot be requested again; once its handle is released it can.\<close>

lemma held_is_busy:
  "(hnd, c) \<in> set t \<Longrightarrow> key c' = key c \<Longrightarrow> request m c' t w = Ret (E_BUSY, None, c', t, w)"
  by (rule request_busy) force

lemma released_is_free:
  assumes "fe_inv key t" and "(hnd, c) \<in> set t" and "release hnd t w = Ret (S_OK, t', w')"
  shows "\<forall>x\<in>set t'. key (snd x) \<noteq> key c"
proof -
  from release_cases [OF assms(3)] fe_inv_distinct [OF assms(1)] have t': "t' = tab_delete_node hnd t" by auto
  have "t' = filter (\<lambda>x. fst x \<noteq> hnd) t"
    using t' assms(1) remove_first_distinct_map [of fst t hnd]
    by (simp add: tab_delete_node_def fe_inv_def)
  moreover have "x = (hnd, c)" if "x \<in> set t" "key (snd x) = key c" for x
    using assms(1,2) that by (force simp: fe_inv_def distinct_map inj_on_def)
  ultimately show ?thesis by auto
qed

lemma released_gone:
  assumes "fe_inv key t" and "release hnd t w = Ret (S_OK, t', w')"
  shows "hnd = 0 \<or> hnd \<notin> fst ` set t'"
proof -
  from release_cases [OF assms(2)] fe_inv_distinct [OF assms(1)] have t': "t' = tab_delete_node hnd t"
    by auto
  have "t' = filter (\<lambda>x. fst x \<noteq> hnd) t"
    using t' assms(1) remove_first_distinct_map [of fst t hnd]
    by (simp add: tab_delete_node_def fe_inv_def)
  then show ?thesis by auto
qed

lemma released_is_dead:
  assumes "fe_inv key t" and "release hnd t w = Ret (S_OK, t', w')"
  shows "release hnd t' w2 = Ret (E_BAD_ARGS, t', w2)"
  by (rule release_stale [OF released_gone [OF assms]])

text \<open>The invariant of all reachable tables, with a property \<open>Q\<close> of every configuration that a
  successful request establishes and the other operations keep.\<close>

lemma reach_inv:
  assumes "fe_reach request release oth t w"
    and req: "\<And>m c t w ho c' t' w'. request m c t w = Ret (S_OK, ho, c', t', w') \<Longrightarrow> Q c'"
    and oth: "\<And>t w t' w'. oth t w t' w' \<Longrightarrow> fe_inv key t \<Longrightarrow> (\<forall>x\<in>set t. Q (snd x)) \<Longrightarrow>
       fe_inv key t' \<and> (\<forall>x\<in>set t'. Q (snd x))"
  shows "fe_inv key t \<and> (\<forall>x\<in>set t. Q (snd x))"
  using assms(1)
proof (induction rule: fe_reach.induct)
  case (request t w m c e ho c' t' w')
  have "fe_inv key t'" using request_inv request by blast
  moreover have "\<forall>x\<in>set t'. Q (snd x)"
    using request_cases [OF request(2,3)] request(2,4) req by fastforce
  ultimately show ?case ..
next
  case (release t w hnd e t' w')
  have "fe_inv key t'" using release_inv release by blast
  moreover have "\<forall>x\<in>set t'. Q (snd x)"
    using release_cases [OF release(2)] release(3) fe_inv_distinct set_tab_delete by metis
  ultimately show ?case ..
qed (use oth in auto)

lemma reach_table:
  assumes "fe_reach request release same_table t w"
  shows "fe_inv key t"
  using reach_inv [OF assms, of "\<lambda>_. True"] by (simp add: same_table_def)

end

subsection \<open>Front ends on a layer that only sees configurations\<close>

text \<open>
  The front ends of PWM, I2C, SPI and the serial ports have the same \<^verbatim>\<open>request\<close> and
  \<^verbatim>\<open>release\<close> up to names: look for a node of the same resource, add a node, let the OS
  layer work on the configuration, copy it into the node or delete the node again. \<open>zero\<close> is the
  configuration of a node fresh from \<^verbatim>\<open>memset\<close>.
\<close>

definition table_request :: "('c \<Rightarrow> 'k) \<Rightarrow> 'c
    \<Rightarrow> ('c \<Rightarrow> world \<Rightarrow> (artik_error \<times> 'c \<times> world) outcome) \<Rightarrow> 'c fe_request" where
  "table_request key zero os_request m config t w =
     (case tab_get_by_check (\<lambda>x. key x = key config) t of
        Some _ \<Rightarrow> Ret (E_BUSY, None, config, t, w)
      | None \<Rightarrow>
          if m = 0 then Ret (E_NO_MEM, None, config, t, w)
          else let t1 = tab_add t m zero
               in obind (os_request config w) (\<lambda>(r, config', w1).
                    if r = S_OK then Ret (S_OK, Some m, config', tab_set m config' t1, w1)
                    else Ret (r, None, config', tab_delete_node m t1, w1)))"

definition table_release :: "('c \<Rightarrow> world \<Rightarrow> (artik_error \<times> world) outcome) \<Rightarrow> 'c fe_release" where
  "table_release os_release hnd t w =
     (case tab_get_by_handle hnd t of
        None \<Rightarrow> Ret (E_BAD_ARGS, t, w)
      | Some (a, c) \<Rightarrow>
          obind (os_release c w) (\<lambda>(r, w1).
            if r \<noteq> S_OK then Ret (r, t, w1) else Ret (r, tab_delete_node a t, w1)))"

text \<open>What the other operations do with a handle.\<close>

definition on_handle :: "addr \<Rightarrow> 'c tab \<Rightarrow> ('c \<Rightarrow> world \<Rightarrow> (artik_error \<times> world) outcome) \<Rightarrow> world
    \<Rightarrow> (artik_error \<times> world) outcome" where
  "on_handle hnd t f w =
     (case tab_get_by_handle hnd t of None \<Rightarrow> Ret (E_BAD_ARGS, w) | Some (a, c) \<Rightarrow> f c w)"

text \<open>What the OS layer has to promise: a request does not change which resource is meant.\<close>

locale os_layer =
  fixes os_request :: "'c \<Rightarrow> world \<Rightarrow> (artik_error \<times> 'c \<times> world) outcome"
    and os_release :: "'c \<Rightarrow> world \<Rightarrow> (artik_error \<times> world) outcome"
    and key :: "'c \<Rightarrow> 'k"
    and zero :: 'c
  assumes os_request_key: "os_request c w = Ret (e, c', w') \<Longrightarrow> key c' = key c"

sublocale os_layer \<subseteq> front_end "table_request key zero os_request" "table_release os_release" key
proof
  fix t :: "'c tab" and c :: 'c and m w
  assume "\<exists>x\<in>set t. key (snd x) = key c"
  then have "tab_get_by_check (\<lambda>x. key x = key c) t \<noteq> None"
    by (simp add: tab_get_by_check_None)
  then show "table_request key zero os_request m c t w = Ret (E_BUSY, None, c, t, w)"
    by (auto simp: table_request_def split: option.splits)
next
  fix t :: "'c tab" and c :: 'c and m w e ho c' t' w'
  assume "table_request key zero os_request m c t w = Ret (e, ho, c', t', w')" "m \<notin> fst ` set t"
  then show "(e = S_OK \<and> m \<noteq> 0 \<and> ho = Some m \<and> key c' = key c \<and> t' = t @ [(m, c')])
       \<or> (e \<noteq> S_OK \<and> ho = None \<and> t' = t)"
    by (auto simp: table_request_def obind_eq_Ret err_simps Let_def
        dest: os_request_key split: option.splits if_splits)
next
  fix hnd and t :: "'c tab" and w
  assume "hnd = 0 \<or> hnd \<notin> fst ` set t"
  then show "table_release os_release hnd t w = Ret (E_BAD_ARGS, t, w)"
    by (simp add: table_release_def)
next
  fix hnd and t :: "'c tab" and w e t' w'
  assume "table_release os_release hnd t w = Ret (e, t', w')" "distinct (map fst t)"
  then show "(e = S_OK \<and> t' = tab_delete_node hnd t) \<or> (e \<noteq> S_OK \<and> t' = t)"
    by (auto simp: table_release_def obind_eq_Ret err_simps
        dest!: tab_get_by_handle_Some split: option.splits if_splits)
qed

lemma table_request_ok:
  "table_request key zero os m c t w = Ret (S_OK, ho, c', t', w') \<Longrightarrow> os c w = Ret (S_OK, c', w')"
  by (auto simp: table_request_def obind_eq_Ret err_simps Let_def split: option.splits if_splits)

end
