(* ===== verification/Gpio.thy ===== *)
theory Gpio
  imports HandleTable
begin

section \<open>GPIO (\<^verbatim>\<open>src/modules/systemio/gpio\<close>)\<close>

text \<open>
  The front end \<^verbatim>\<open>artik_gpio.c\<close> (a handle table keyed by the pin) on the Linux back end
  \<^verbatim>\<open>linux_gpio.c\<close> (the sysfs files of the pin). The back end's private data, which
  \<^verbatim>\<open>config->user_data\<close> points to, is kept inside the configuration with its address
  (\<open>None\<close> is a null pointer). The result is an \<open>outcome\<close> where the code may follow a null pointer or read an
  uninitialised buffer. The buffers of 128 bytes hold every path and number formatted here.
\<close>

datatype artik_gpio_dir = GPIO_OUT | GPIO_IN | GPIO_DIR_INVALID

datatype artik_gpio_edge =
  GPIO_EDGE_NONE | GPIO_EDGE_RISING | GPIO_EDGE_FALLING | GPIO_EDGE_BOTH | GPIO_EDGE_INVALID

record os_gpio_data =
  g_watch_id :: int
  g_fd :: int
  g_callback :: addr
  g_cb_data :: addr
  g_loop :: addr

record artik_gpio_config =
  gpio_id :: u32
  gpio_name :: string
  gpio_dir :: artik_gpio_dir
  gpio_edge :: artik_gpio_edge
  initial_value :: int
  gpio_user_data :: "(addr \<times> os_gpio_data) option"

definition zero_gpio_data :: os_gpio_data where
  "zero_gpio_data = \<lparr>g_watch_id = 0, g_fd = 0, g_callback = 0, g_cb_data = 0, g_loop = 0\<rparr>"

definition zero_gpio_config :: artik_gpio_config where
  "zero_gpio_config = \<lparr>gpio_id = 0, gpio_name = [], gpio_dir = GPIO_OUT,
     gpio_edge = GPIO_EDGE_NONE, initial_value = 0, gpio_user_data = None\<rparr>"

subsection \<open>The back end\<close>

definition O_RDONLY :: nat where "O_RDONLY = 0"
definition O_WRONLY :: nat where "O_WRONLY = 1"
definition EACCES :: int where "EACCES = 13"

definition write_sysfs_entry :: "string \<Rightarrow> string \<Rightarrow> world \<Rightarrow> int \<times> world" where
  "write_sysfs_entry entry v w =
     (let (a, w1) = xc (Open entry O_WRONLY) w; fd = retv a
      in if fd = -1 then (- errno a, w1)
         else let (b, w2) = xc (Write fd (bytes_of v)) w1; (c, w3) = xc (Close fd) w2
              in if retv b = -1 then (- errno c, w3) else (0, w3))"

text \<open>The bytes read, on success. The test \<open>!fd\<close> is the code's: it lets -1 through.\<close>

definition read_sysfs_entry :: "string \<Rightarrow> world \<Rightarrow> int \<times> bytes \<times> world" where
  "read_sysfs_entry entry w =
     (let (a, w1) = xc (Open entry O_RDONLY) w; fd = retv a
      in if fd = 0 then (- errno a, [], w1)
         else let (_, w2) = xc (Lseek fd) w1;
                  (b, w3) = xc (Read fd 128) w2;
                  (c, w4) = xc (Close fd) w3
              in if retv b = -1 then (- errno c, [], w4)
                 else (0, take (nat (retv b)) (outb b), w4))"

definition gpio_attr :: "u32 \<Rightarrow> string \<Rightarrow> string" where
  "gpio_attr pin attr = ''/sys/class/gpio/gpio'' @ int_str (sint pin) @ ''/'' @ attr"

definition edge_value :: "artik_gpio_edge \<Rightarrow> string" where
  "edge_value e = (case e of
      GPIO_EDGE_RISING \<Rightarrow> ''rising''
    | GPIO_EDGE_FALLING \<Rightarrow> ''falling''
    | GPIO_EDGE_BOTH \<Rightarrow> ''both''
    | _ \<Rightarrow> ''none'')"

text \<open>The steps of a request after the export, up to the first failure: direction, then the
  initial value of an output or the edge of an input, then the private data.\<close>

definition gpio_setup :: "artik_gpio_config \<Rightarrow> world \<Rightarrow> int \<times> artik_gpio_config \<times> world" where
  "gpio_setup c w =
     (let (r, w1) = write_sysfs_entry (gpio_attr (gpio_id c) ''direction'')
                      (if gpio_dir c = GPIO_OUT then ''out'' else ''in'') w
      in if r < 0 then (r, c, w1)
         else let (r, w2) =
                (if gpio_dir c = GPIO_OUT
                 then write_sysfs_entry (gpio_attr (gpio_id c) ''value'')
                        (if initial_value c \<noteq> 0 then ''1'' else ''0'') w1
                 else if gpio_dir c = GPIO_IN
                 then write_sysfs_entry (gpio_attr (gpio_id c) ''edge'') (edge_value (gpio_edge c)) w1
                 else (r, w1))
              in if r < 0 then (r, c, w2)
                 else let (a, w3) = xc (Malloc 40) w2
                      in if retv a = 0 then (E_NO_MEM, c, w3)
                         else (S_OK, c\<lparr>gpio_user_data := Some (nat (retv a), zero_gpio_data)\<rparr>, w3))"

definition os_gpio_request :: "artik_gpio_config \<Rightarrow> world \<Rightarrow> artik_error \<times> artik_gpio_config \<times> world" where
  "os_gpio_request c w =
     (if sint (gpio_id c) < 0 \<or> gpio_dir c = GPIO_DIR_INVALID \<or> gpio_edge c = GPIO_EDGE_INVALID
      then (E_BAD_ARGS, c, w)
      else let num = int_str (sint (gpio_id c));
               (r, w1) = write_sysfs_entry ''/sys/class/gpio/export'' num w;
               (r, c', w2) = (if r < 0 then (r, c, w1) else gpio_setup c w1)
           in if r = S_OK then (S_OK, c', w2)
              else let (_, w3) = write_sysfs_entry ''/sys/class/gpio/unexport'' num w2
                   in (if r = - EACCES then E_ACCESS_DENIED else E_BUSY, c', w3))"

definition os_gpio_release :: "artik_gpio_config \<Rightarrow> world \<Rightarrow> artik_error \<times> artik_gpio_config \<times> world" where
  "os_gpio_release c w =
     (let num = int_str (sint (gpio_id c));
          (_, w1) = write_sysfs_entry ''/sys/class/gpio/unexport'' num w;
          (_, w2) = write_sysfs_entry ''/sys/class/gpio/unexport'' num w1
      in case gpio_user_data c of
           None \<Rightarrow> (S_OK, c, w2)
         | Some (p, _) \<Rightarrow> (S_OK, c\<lparr>gpio_user_data := None\<rparr>, xcu (Free p) w2))"

definition os_gpio_read :: "artik_gpio_config \<Rightarrow> world \<Rightarrow> (int \<times> world) outcome" where
  "os_gpio_read c w =
     (if gpio_dir c \<noteq> GPIO_IN then Ret (E_ACCESS_DENIED, w)
      else let (r, bs, w1) = read_sysfs_entry (gpio_attr (gpio_id c) ''value'') w
           in if r < 0 then Ret (-1, w1)
              else case bs of
                     [] \<Rightarrow> Ub Uninitialised
                   | b # _ \<Rightarrow> Ret (if b = 48 then 0 else if b = 49 then 1 else -1, w1))"

definition os_gpio_write :: "artik_gpio_config \<Rightarrow> int \<Rightarrow> world \<Rightarrow> artik_error \<times> world" where
  "os_gpio_write c v w =
     (if gpio_dir c \<noteq> GPIO_OUT then (E_ACCESS_DENIED, w)
      else let (r, w1) = write_sysfs_entry (gpio_attr (gpio_id c) ''value'')
                           (if v \<noteq> 0 then ''1'' else ''0'') w
           in (if r < 0 then E_BUSY else S_OK, w1))"

text \<open>The watch callback the loop calls when the pin changes; it keeps the watch iff it
  returns 1.\<close>

definition os_gpio_change_callback :: "os_gpio_data option \<Rightarrow> world \<Rightarrow> (int \<times> world) outcome" where
  "os_gpio_change_callback data w =
     (case data of
        None \<Rightarrow> Ret (0, w)
      | Some d \<Rightarrow>
          (let (_, w1) = xc (Lseek (g_fd d)) w;
               (a, w2) = xc (Read (g_fd d) 1) w1
           in if retv a < 0 then Ret (0, w2)
              else case take (nat (retv a)) (outb a) of
                     [] \<Rightarrow> Ub Uninitialised
                   | b # _ \<Rightarrow>
                       (let val = (if b = 48 then 0 else 1 :: int)
                        in if g_callback d \<noteq> 0
                           then Ret (1, xcu (Callback (g_cb_data d) val) w2)
                           else Ret (1, w2))))"

definition WATCH_IO_ERR_HUP_NVAL :: nat where
  "WATCH_IO_ERR_HUP_NVAL = 8 + 16 + 32"

text \<open>The steps of \<open>os_gpio_set_change_callback\<close> between the open and the label
  \<^verbatim>\<open>exit\<close>: read once, get the loop module, watch the descriptor; and what the code does at the label.\<close>

definition gpio_watch_fd :: "addr \<Rightarrow> os_gpio_data \<Rightarrow> world \<Rightarrow> artik_error \<times> os_gpio_data \<times> world" where
  "gpio_watch_fd p d w =
     (let (_, w1) = xc (Lseek (g_fd d)) w; (b, w2) = xc (Read (g_fd d) 1) w1
      in if retv b < 0 then (E_ACCESS_DENIED, d, w2)
         else let (l, w3) = xc (ModRequest ''loop'') w2;
                  d1 = d\<lparr>g_loop := nat (retv l)\<rparr>
              in if g_loop d1 = 0 then (E_BUSY, d1, w3)
                 else let (k, w4) = xc (AddFdWatch (g_loop d1) (g_fd d1) WATCH_IO_ERR_HUP_NVAL p) w3
                      in (retv k, d1\<lparr>g_watch_id := oval k\<rparr>, w4))"

definition gpio_watch_exit :: "artik_error \<Rightarrow> os_gpio_data \<Rightarrow> world \<Rightarrow> os_gpio_data \<times> world" where
  "gpio_watch_exit e d w =
     (if e = S_OK then (d, w)
      else let w1 = (if g_loop d \<noteq> 0 then xcu (ModRelease (g_loop d)) w else w)
           in (d\<lparr>g_loop := 0, g_fd := 0\<rparr>, xcu (Close (g_fd d)) w1))"

definition os_gpio_set_change_callback ::
  "artik_gpio_config \<Rightarrow> addr \<Rightarrow> addr \<Rightarrow> world \<Rightarrow> (artik_error \<times> artik_gpio_config \<times> world) outcome" where
  "os_gpio_set_change_callback c callback user_data w =
     (if gpio_dir c \<noteq> GPIO_IN then Ret (E_BAD_ARGS, c, w)
      else case gpio_user_data c of
        None \<Rightarrow> Ub NullDeref
      | Some (p, d) \<Rightarrow>
          (let (a, w1) = xc (Open (gpio_attr (gpio_id c) ''value'') O_RDONLY) w;
               d1 = d\<lparr>g_fd := retv a\<rparr>
           in if retv a = 0 then Ret (E_BUSY, c\<lparr>gpio_user_data := Some (p, d1)\<rparr>, w1)
              else let (e, d2, w2) = gpio_watch_fd p (d1\<lparr>g_callback := callback, g_cb_data := user_data\<rparr>) w1;
                       (d3, w3) = gpio_watch_exit e d2 w2
                   in Ret (e, c\<lparr>gpio_user_data := Some (p, d3)\<rparr>, w3)))"

definition os_gpio_unset_change_callback ::
  "artik_gpio_config \<Rightarrow> world \<Rightarrow> (artik_gpio_config \<times> world) outcome" where
  "os_gpio_unset_change_callback c w =
     (let (l, w1) = xc (ModRequest ''loop'') w; loop = nat (retv l)
      in case gpio_user_data c of
           None \<Rightarrow> Ub NullDeref
         | Some (p, d) \<Rightarrow>
             if g_fd d \<noteq> 0 then
               let w2 = xcu (Close (g_fd d)) w1;
                   w3 = (if g_loop d \<noteq> 0
                         then xcu (ModRelease loop) (xcu (RemoveFdWatch (g_loop d) (g_watch_id d)) w2)
                         else w2)
               in Ret (c\<lparr>gpio_user_data := Some (p, zero_gpio_data)\<rparr>, w3)
             else Ret (c, w1))"

subsection \<open>The front end\<close>

definition artik_gpio_request :: "artik_gpio_config fe_request" where
  "artik_gpio_request m config t w =
     (case tab_get_by_check (\<lambda>x. gpio_id x = gpio_id config) t of
        Some _ \<Rightarrow> Ret (E_BUSY, None, config, t, w)
      | None \<Rightarrow>
          if m = 0 then Ret (E_NO_MEM, None, config, t, w)
          else let t1 = tab_add t m zero_gpio_config;
                   (r, config', w1) = os_gpio_request config w
               in if r \<noteq> S_OK then Ret (E_BAD_ARGS, None, config', tab_delete_node m t1, w1)
                  else Ret (S_OK, Some m, config', tab_set m config' t1, w1))"

definition artik_gpio_release :: "artik_gpio_config fe_release" where
  "artik_gpio_release hnd t w =
     (case tab_get_by_handle hnd t of
        None \<Rightarrow> Ret (E_BAD_ARGS, t, w)
      | Some (a, c) \<Rightarrow>
          (let (r, c', w1) = os_gpio_release c w
           in if r \<noteq> S_OK then Ret (r, tab_set a c' t, w1)
              else Ret (S_OK, tab_delete_node a (tab_set a c' t), w1)))"

definition artik_gpio_read :: "addr \<Rightarrow> artik_gpio_config tab \<Rightarrow> world \<Rightarrow> (int \<times> world) outcome" where
  "artik_gpio_read hnd t w =
     (case tab_get_by_handle hnd t of
        None \<Rightarrow> Ret (E_BAD_ARGS, w)
      | Some (a, c) \<Rightarrow> os_gpio_read c w)"

definition artik_gpio_write :: "addr \<Rightarrow> int \<Rightarrow> artik_gpio_config tab \<Rightarrow> world \<Rightarrow> artik_error \<times> world" where
  "artik_gpio_write hnd v t w =
     (case tab_get_by_handle hnd t of
        None \<Rightarrow> (E_BAD_ARGS, w)
      | Some (a, c) \<Rightarrow> os_gpio_write c v w)"

definition artik_gpio_get_name :: "addr \<Rightarrow> artik_gpio_config tab \<Rightarrow> string option" where
  "artik_gpio_get_name hnd t = map_option (\<lambda>x. gpio_name (snd x)) (tab_get_by_handle hnd t)"

definition artik_gpio_get_direction :: "addr \<Rightarrow> artik_gpio_config tab \<Rightarrow> artik_gpio_dir" where
  "artik_gpio_get_direction hnd t =
     (case tab_get_by_handle hnd t of None \<Rightarrow> GPIO_DIR_INVALID | Some (a, c) \<Rightarrow> gpio_dir c)"

definition artik_gpio_get_id :: "addr \<Rightarrow> artik_gpio_config tab \<Rightarrow> u32" where
  "artik_gpio_get_id hnd t =
     (case tab_get_by_handle hnd t of None \<Rightarrow> -1 | Some (a, c) \<Rightarrow> gpio_id c)"

definition artik_gpio_set_change_callback ::
  "addr \<Rightarrow> addr \<Rightarrow> addr \<Rightarrow> artik_gpio_config tab \<Rightarrow> world
     \<Rightarrow> (artik_error \<times> artik_gpio_config tab \<times> world) outcome" where
  "artik_gpio_set_change_callback hnd callback user_data t w =
     (case tab_get_by_handle hnd t of
        None \<Rightarrow> Ret (E_BAD_ARGS, t, w)
      | Some (a, c) \<Rightarrow>
          obind (os_gpio_set_change_callback c callback user_data w)
            (\<lambda>(r, c', w1). Ret (r, tab_set a c' t, w1)))"

definition artik_gpio_unset_change_callback ::
  "addr \<Rightarrow> artik_gpio_config tab \<Rightarrow> world \<Rightarrow> (artik_gpio_config tab \<times> world) outcome" where
  "artik_gpio_unset_change_callback hnd t w =
     (case tab_get_by_handle hnd t of
        None \<Rightarrow> Ret (t, w)
      | Some (a, c) \<Rightarrow>
          obind (os_gpio_unset_change_callback c w) (\<lambda>(c', w1). Ret (tab_set a c' t, w1)))"

subsection \<open>Facts of the back end\<close>

lemmas gpio_os_defs = write_sysfs_entry_def read_sysfs_entry_def gpio_setup_def os_gpio_request_def
  os_gpio_release_def os_gpio_read_def os_gpio_write_def gpio_watch_fd_def gpio_watch_exit_def
  os_gpio_set_change_callback_def
  os_gpio_unset_change_callback_def

lemma write_sysfs_opened [simp]:
  "opened (snd (write_sysfs_entry e v w)) = opened w"
  by (auto simp: write_sysfs_entry_def walk_simps)

lemma write_sysfs_env [simp]: "env (snd (write_sysfs_entry e v w)) = env w"
  by (auto simp: write_sysfs_entry_def walk_simps)

lemma write_sysfs_logs:
  assumes "posix_errno (env w)" and "0 \<le> fst (write_sysfs_entry e v w)"
  shows "fst (write_sysfs_entry e v w) = 0
    \<and> file_log (snd (write_sysfs_entry e v w)) = file_log w @ [(Some e, bytes_of v)]"
proof -
  let ?o = "Open e O_WRONLY"
  let ?fd = "retv (env w (hist w) ?o)"
  have o: "?fd \<noteq> -1"
    using assms by (force simp: write_sysfs_entry_def walk_simps posix_errno_def)
  have "retv (env w (hist w @ [?o]) (Write ?fd (bytes_of v))) \<noteq> -1"
  proof
    assume f: "retv (env w (hist w @ [?o]) (Write ?fd (bytes_of v))) = -1"
    with assms(1) have "0 < errno (env w ((hist w @ [?o]) @ [Write ?fd (bytes_of v)]) (Close ?fd))"
      unfolding posix_errno_def by blast
    with f o assms(2) show False by (simp add: write_sysfs_entry_def walk_simps)
  qed
  with o show ?thesis by (simp add: write_sysfs_entry_def walk_simps file_log_Write)
qed

lemma gpio_setup_id [simp]: "gpio_id (fst (snd (gpio_setup c w))) = gpio_id c"
  by (auto simp: gpio_setup_def Let_def case_prod_beta)

lemma gpio_setup_opened [simp]: "opened (snd (snd (gpio_setup c w))) = opened w"
  by (auto simp: gpio_setup_def walk_simps)

lemma os_gpio_request_opened [simp]: "opened (snd (snd (os_gpio_request c w))) = opened w"
  by (auto simp: os_gpio_request_def Let_def case_prod_beta)

lemma os_gpio_request_id [simp]: "gpio_id (fst (snd (os_gpio_request c w))) = gpio_id c"
  by (auto simp: os_gpio_request_def Let_def case_prod_beta)

interpretation gpio: front_end artik_gpio_request artik_gpio_release "gpio_id :: artik_gpio_config \<Rightarrow> u32"
proof
  fix t :: "artik_gpio_config tab" and c :: artik_gpio_config and m w
  assume "\<exists>x\<in>set t. gpio_id (snd x) = gpio_id c"
  then have "tab_get_by_check (\<lambda>x. gpio_id x = gpio_id c) t \<noteq> None"
    by (simp add: tab_get_by_check_None)
  then show "artik_gpio_request m c t w = Ret (E_BUSY, None, c, t, w)"
    by (auto simp: artik_gpio_request_def split: option.splits)
next
  fix t :: "artik_gpio_config tab" and c :: artik_gpio_config and m w e ho c' t' w'
  assume "artik_gpio_request m c t w = Ret (e, ho, c', t', w')" "m \<notin> fst ` set t"
  then show "(e = S_OK \<and> m \<noteq> 0 \<and> ho = Some m \<and> gpio_id c' = gpio_id c \<and> t' = t @ [(m, c')])
       \<or> (e \<noteq> S_OK \<and> ho = None \<and> t' = t)"
    using os_gpio_request_id [of c w]
    by (auto simp: artik_gpio_request_def Let_def case_prod_beta err_simps simp del: os_gpio_request_id
        split: option.splits if_splits)
next
  fix hnd and t :: "artik_gpio_config tab" and w
  assume "hnd = 0 \<or> hnd \<notin> fst ` set t"
  then show "artik_gpio_release hnd t w = Ret (E_BAD_ARGS, t, w)"
    by (simp add: artik_gpio_release_def)
next
  fix hnd and t :: "artik_gpio_config tab" and w e t' w'
  assume "artik_gpio_release hnd t w = Ret (e, t', w')" "distinct (map fst t)"
  then show "(e = S_OK \<and> t' = tab_delete_node hnd t) \<or> (e \<noteq> S_OK \<and> t' = t)"
    by (auto simp: artik_gpio_release_def os_gpio_release_def Let_def case_prod_beta err_simps
        dest!: tab_get_by_handle_Some split: option.splits if_splits)
qed

subsection \<open>Reachable states\<close>

text \<open>One call of the module by an application; \<open>malloc\<close> never returns a block that is in use.
  Reads, writes and the getters leave the table alone.\<close>

inductive gpio_step ::
  "artik_gpio_config tab \<times> world \<Rightarrow> artik_gpio_config tab \<times> world \<Rightarrow> bool" where
  request: "artik_gpio_request m c t w = Ret (e, ho, c', t', w') \<Longrightarrow> m \<notin> fst ` set t
     \<Longrightarrow> gpio_step (t, w) (t', w')"
| release: "artik_gpio_release hnd t w = Ret (e, t', w') \<Longrightarrow> gpio_step (t, w) (t', w')"
| rd: "artik_gpio_read hnd t w = Ret (r, w') \<Longrightarrow> gpio_step (t, w) (t, w')"
| wr: "artik_gpio_write hnd v t w = (e, w') \<Longrightarrow> gpio_step (t, w) (t, w')"
| set_cb: "artik_gpio_set_change_callback hnd cb ud t w = Ret (e, t', w')
     \<Longrightarrow> gpio_step (t, w) (t', w')"
| unset_cb: "artik_gpio_unset_change_callback hnd t w = Ret (t', w')
     \<Longrightarrow> gpio_step (t, w) (t', w')"

inductive gpio_reach :: "artik_gpio_config tab \<times> world \<Rightarrow> bool" where
  start: "gpio_reach ([], w)"
| step: "gpio_reach s \<Longrightarrow> gpio_step s s' \<Longrightarrow> gpio_reach s'"

inductive_cases gpio_stepE: "gpio_step (t, w) (t', w')"

definition gpio_ok :: "artik_gpio_config \<Rightarrow> bool" where
  "gpio_ok c \<longleftrightarrow> gpio_dir c \<noteq> GPIO_DIR_INVALID \<and> gpio_edge c \<noteq> GPIO_EDGE_INVALID
     \<and> 0 \<le> sint (gpio_id c) \<and> gpio_user_data c \<noteq> None"

definition gpio_inv :: "artik_gpio_config tab \<Rightarrow> bool" where
  "gpio_inv t \<longleftrightarrow> fe_inv gpio_id t \<and> (\<forall>x\<in>set t. gpio_ok (snd x))"

lemma gpio_setup_ok:
  "gpio_setup c w = (S_OK, c', w') \<Longrightarrow> \<exists>d. c' = c\<lparr>gpio_user_data := Some d\<rparr>"
  by (auto simp: gpio_setup_def walk_simps err_simps split: if_splits)

lemma os_gpio_request_ok:
  assumes "os_gpio_request c w = (S_OK, c', w')"
  shows "gpio_ok c'"
proof -
  let ?w1 = "snd (write_sysfs_entry ''/sys/class/gpio/export'' (int_str (sint (gpio_id c))) w)"
  obtain r d w2 where s: "gpio_setup c ?w1 = (r, d, w2)" by (metis prod_cases3)
  with assms have "r = S_OK \<and> d = c' \<and> 0 \<le> sint (gpio_id c)
      \<and> gpio_dir c \<noteq> GPIO_DIR_INVALID \<and> gpio_edge c \<noteq> GPIO_EDGE_INVALID"
    by (auto simp: os_gpio_request_def walk_simps err_simps not_less split: if_splits)
  with gpio_setup_ok s show ?thesis by (fastforce simp: gpio_ok_def)
qed

lemma os_gpio_set_change_callback_cases:
  assumes "gpio_ok c" and "os_gpio_set_change_callback c cb ud w = Ret (e, c', w')"
  shows "gpio_ok c' \<and> gpio_id c' = gpio_id c"
  using assms
  by (auto simp: os_gpio_set_change_callback_def walk_simps gpio_ok_def split: if_splits option.splits)

lemma os_gpio_unset_change_callback_cases:
  assumes "gpio_ok c" and "os_gpio_unset_change_callback c w = Ret (c', w')"
  shows "gpio_ok c' \<and> gpio_id c' = gpio_id c"
  using assms
  by (auto simp: os_gpio_unset_change_callback_def walk_simps gpio_ok_def split: if_splits option.splits)

lemma gpio_request_inv:
  assumes "artik_gpio_request m c t w = Ret (e, ho, c', t', w')" and "m \<notin> fst ` set t" and "gpio_inv t"
  shows "gpio_inv t'"
proof -
  have "fe_inv gpio_id t'" using gpio.request_inv assms by (auto simp: gpio_inv_def)
  moreover have "x \<in> set t \<or> gpio_ok (snd x)" if "x \<in> set t'" for x
    using assms(1,2) that os_gpio_request_ok [of c w]
    by (cases "os_gpio_request c w")
      (auto simp: artik_gpio_request_def Let_def dest!: set_tab_set set_tab_delete split: option.splits if_splits)
  ultimately show ?thesis using assms(3) by (auto simp: gpio_inv_def)
qed

lemma gpio_release_inv:
  assumes "artik_gpio_release hnd t w = Ret (e, t', w')" and "gpio_inv t"
  shows "gpio_inv t'"
proof -
  have "fe_inv gpio_id t'" using gpio.release_inv assms by (auto simp: gpio_inv_def)
  moreover have "x \<in> set t" if "x \<in> set t'" for x
    using gpio.release_cases [OF assms(1)] that assms(2) set_tab_delete [of x hnd t]
    by (auto simp: gpio_inv_def fe_inv_def)
  ultimately show ?thesis using assms(2) by (auto simp: gpio_inv_def)
qed

lemma gpio_tab_set_inv:
  assumes "gpio_inv t" and "(a, c) \<in> set t" and "gpio_ok c'" and "gpio_id c' = gpio_id c"
  shows "gpio_inv (tab_set a c' t)"
  using assms fe_inv_tab_set [of gpio_id t a c c'] set_tab_set by (fastforce simp: gpio_inv_def)

lemma gpio_held_ok:
  "gpio_inv t \<Longrightarrow> tab_get_by_handle hnd t = Some (a, c) \<Longrightarrow> gpio_ok c \<and> (a, c) \<in> set t"
  by (auto simp: gpio_inv_def dest!: tab_get_by_handle_Some)

lemma gpio_set_cb_inv:
  assumes "artik_gpio_set_change_callback hnd cb ud t w = Ret (e, t', w')" and "gpio_inv t"
  shows "gpio_inv t'"
proof (cases "tab_get_by_handle hnd t")
  case (Some x)
  obtain a c where x: "x = (a, c)" by (cases x)
  from assms(1) Some x obtain c' where c': "os_gpio_set_change_callback c cb ud w = Ret (e, c', w')"
    "t' = tab_set a c' t" by (auto simp: artik_gpio_set_change_callback_def obind_eq_Ret)
  with gpio_held_ok [OF assms(2) Some [unfolded x]] os_gpio_set_change_callback_cases assms(2)
  show ?thesis by (blast intro: gpio_tab_set_inv)
qed (use assms in \<open>simp add: artik_gpio_set_change_callback_def\<close>)

lemma gpio_unset_cb_inv:
  assumes "artik_gpio_unset_change_callback hnd t w = Ret (t', w')" and "gpio_inv t"
  shows "gpio_inv t'"
proof (cases "tab_get_by_handle hnd t")
  case (Some x)
  obtain a c where x: "x = (a, c)" by (cases x)
  from assms(1) Some x obtain c' where c': "os_gpio_unset_change_callback c w = Ret (c', w')"
    "t' = tab_set a c' t" by (auto simp: artik_gpio_unset_change_callback_def obind_eq_Ret)
  with gpio_held_ok [OF assms(2) Some [unfolded x]] os_gpio_unset_change_callback_cases assms(2)
  show ?thesis by (blast intro: gpio_tab_set_inv)
qed (use assms in \<open>simp add: artik_gpio_unset_change_callback_def\<close>)

lemma gpio_step_inv: "gpio_step s s' \<Longrightarrow> gpio_inv (fst s) \<Longrightarrow> gpio_inv (fst s')"
  by (induction rule: gpio_step.induct)
    (auto intro: gpio_request_inv gpio_release_inv gpio_set_cb_inv gpio_unset_cb_inv)

lemma gpio_reach_inv: "gpio_reach s \<Longrightarrow> gpio_inv (fst s)"
proof (induction rule: gpio_reach.induct)
  case (step s s')
  then show ?case by (metis gpio_step_inv)
qed (simp add: gpio_inv_def)

subsection \<open>Properties\<close>


definition gpio_led :: artik_gpio_config where
  "gpio_led = zero_gpio_config\<lparr>gpio_id := 22, gpio_dir := GPIO_OUT, initial_value := 1\<rparr>"

definition gpio_led_requested :: "artik_gpio_config tab \<times> world" where
  "gpio_led_requested =
     (case artik_gpio_request 96 gpio_led [] good_world of Ret (e, ho, c', t', w') \<Rightarrow> (t', w'))"

lemma gpio_led_runs:
  "artik_gpio_request 96 gpio_led [] good_world
     = Ret (S_OK, Some 96, gpio_led\<lparr>gpio_user_data := Some (64, zero_gpio_data)\<rparr>,
            [(96, gpio_led\<lparr>gpio_user_data := Some (64, zero_gpio_data)\<rparr>)], snd gpio_led_requested)"
  by (simp add: gpio_led_requested_def artik_gpio_request_def tab_get_by_check_def gpio_led_def
      zero_gpio_config_def gpio_os_defs walk_simps good_world_def good_env_def err_simps tab_set_def
      tab_add_def)

lemma gpio_led_tab: "fst gpio_led_requested = [(96, gpio_led\<lparr>gpio_user_data := Some (64, zero_gpio_data)\<rparr>)]"
  by (subst gpio_led_requested_def, subst gpio_led_runs) simp

lemma gpio_led_reach: "gpio_reach gpio_led_requested"
proof -
  have "gpio_step ([], good_world) (fst gpio_led_requested, snd gpio_led_requested)"
    using gpio_step.request [OF gpio_led_runs] by (simp add: gpio_led_tab)
  from gpio_reach.step [OF gpio_reach.start this] show ?thesis by simp
qed


lemma gpio_setup_logs:
  assumes "posix_errno (env w)" and "gpio_setup c w = (S_OK, c', w')" and "gpio_dir c \<noteq> GPIO_DIR_INVALID"
  shows "file_log w' = file_log w @
     [(Some (gpio_attr (gpio_id c) ''direction''), bytes_of (if gpio_dir c = GPIO_OUT then ''out'' else ''in'')),
      (if gpio_dir c = GPIO_OUT
       then (Some (gpio_attr (gpio_id c) ''value''), bytes_of (if initial_value c \<noteq> 0 then ''1'' else ''0''))
       else (Some (gpio_attr (gpio_id c) ''edge''), bytes_of (edge_value (gpio_edge c))))]
   \<and> (\<exists>p. c' = c\<lparr>gpio_user_data := Some (p, zero_gpio_data)\<rparr>)"
proof -
  let ?d = "write_sysfs_entry (gpio_attr (gpio_id c) ''direction'')
      (if gpio_dir c = GPIO_OUT then ''out'' else ''in'') w"
  let ?v = "if gpio_dir c = GPIO_OUT
      then (gpio_attr (gpio_id c) ''value'', if initial_value c \<noteq> 0 then ''1'' else ''0'')
      else (gpio_attr (gpio_id c) ''edge'', edge_value (gpio_edge c))"
  let ?x = "write_sysfs_entry (fst ?v) (snd ?v) (snd ?d)"
  have dir: "gpio_dir c = GPIO_OUT \<or> gpio_dir c = GPIO_IN" using assms(3) by (cases "gpio_dir c") auto
  have *: "0 \<le> fst ?d" "0 \<le> fst ?x" "w' = snd (xc (Malloc 40) (snd ?x))"
    "\<exists>p. c' = c\<lparr>gpio_user_data := Some (p, zero_gpio_data)\<rparr>"
    using assms(2) dir by (auto simp: gpio_setup_def walk_simps err_simps not_less split: if_splits)
  have "posix_errno (env (snd ?d))" using assms(1) by simp
  from write_sysfs_logs [OF this *(2)] write_sysfs_logs [OF assms(1) *(1)] *(3,4) dir
  show ?thesis by (auto simp: file_neutral_def)
qed

text \<open>C3. A GPIO request that succeeds has written exactly the pin number to export, the
  direction to the pin's direction file, and then the initial value of an output, or the edge of an
  input, in that order; it leaves no descriptor open and hands over fresh private data.\<close>

theorem gpio_request_programs_the_pin:
  assumes "posix_errno (env w)" and "os_gpio_request c w = (S_OK, c', w')"
  shows "file_log w' = file_log w @
     [(Some ''/sys/class/gpio/export'', bytes_of (int_str (sint (gpio_id c)))),
      (Some (gpio_attr (gpio_id c) ''direction''), bytes_of (if gpio_dir c = GPIO_OUT then ''out'' else ''in'')),
      (if gpio_dir c = GPIO_OUT
       then (Some (gpio_attr (gpio_id c) ''value''), bytes_of (if initial_value c \<noteq> 0 then ''1'' else ''0''))
       else (Some (gpio_attr (gpio_id c) ''edge''), bytes_of (edge_value (gpio_edge c))))]
   \<and> opened w' = opened w
   \<and> (\<exists>p. c' = c\<lparr>gpio_user_data := Some (p, zero_gpio_data)\<rparr>)"
proof -
  let ?e = "write_sysfs_entry ''/sys/class/gpio/export'' (int_str (sint (gpio_id c))) w"
  let ?w1 = "snd ?e"
  obtain r d w2 where s: "gpio_setup c ?w1 = (r, d, w2)" by (metis prod_cases3)
  with assms(2) have *: "0 \<le> fst ?e" "r = S_OK" "d = c'" "w2 = w'" "gpio_dir c \<noteq> GPIO_DIR_INVALID"
    by (auto simp: os_gpio_request_def walk_simps err_simps not_less split: if_splits)
  have e: "file_log ?w1 = file_log w @ [(Some ''/sys/class/gpio/export'', bytes_of (int_str (sint (gpio_id c))))]"
    using write_sysfs_logs [OF assms(1) *(1)] by simp
  have "opened w' = opened w"
    using assms(2) os_gpio_request_opened [of c w] by simp
  with e gpio_setup_logs [of ?w1 c c' w'] s * assms(1) show ?thesis by simp
qed

theorem gpio_request_programs_the_pin_witness:
  "file_log (snd (snd (os_gpio_request gpio_led good_world))) =
     [(Some ''/sys/class/gpio/export'', bytes_of ''22''),
      (Some ''/sys/class/gpio/gpio22/direction'', bytes_of ''out''),
      (Some ''/sys/class/gpio/gpio22/value'', bytes_of ''1'')]"
proof -
  have run: "os_gpio_request gpio_led good_world
      = (S_OK, fst (snd (os_gpio_request gpio_led good_world)), snd (snd (os_gpio_request gpio_led good_world)))"
    by (simp add: gpio_led_def zero_gpio_config_def gpio_os_defs walk_simps good_world_def good_env_def
        err_simps)
  have "posix_errno (env good_world)" by (simp add: good_world_def)
  from gpio_request_programs_the_pin [OF this run]
  have "file_log (snd (snd (os_gpio_request gpio_led good_world))) = file_log good_world @
     [(Some ''/sys/class/gpio/export'', bytes_of (int_str 22)),
      (Some (gpio_attr 22 ''direction''), bytes_of ''out''),
      (Some (gpio_attr 22 ''value''), bytes_of ''1'')]"
    by (simp add: gpio_led_def zero_gpio_config_def)
  moreover have "file_log good_world = []" by (simp add: file_log_def files_def good_world_def)
  moreover have "int_str 22 = ''22''" by code_simp
  ultimately show ?thesis by (simp add: gpio_attr_def)
qed

lemma gpio_watch_fd_ok:
  "gpio_watch_fd p d w = (S_OK, d', w') \<Longrightarrow> g_fd d' = g_fd d \<and> g_loop d' \<noteq> 0
     \<and> opened w' = opened w \<and> mod_requests w' = mod_requests w + 1 \<and> mod_releases w' = mod_releases w"
  by (auto simp: gpio_watch_fd_def walk_simps err_simps mod_requests_def mod_releases_def
      split: if_splits)

text \<open>Setting a change callback and clearing it again gives back every descriptor, but takes
  two references on the loop module and gives back only one of them.\<close>

theorem gpio_callback_cycle_keeps_a_reference:
  assumes "os_gpio_set_change_callback c cb ud w = Ret (S_OK, c1, w1)"
    and "retv (env w (hist w) (Open (gpio_attr (gpio_id c) ''value'') O_RDONLY)) \<noteq> 0"
  shows "\<exists>c2 w2. os_gpio_unset_change_callback c1 w1 = Ret (c2, w2)
    \<and> opened w2 = opened w
    \<and> gpio_user_data c2 = map_option (\<lambda>(p, d). (p, zero_gpio_data)) (gpio_user_data c)
    \<and> mod_requests w2 = mod_requests w + 2 \<and> mod_releases w2 = mod_releases w + 1"
proof -
  obtain p d where d: "gpio_user_data c = Some (p, d)"
    using assms(1) by (force simp: os_gpio_set_change_callback_def err_simps split: option.splits if_splits)
  let ?o = "Open (gpio_attr (gpio_id c) ''value'') O_RDONLY"
  let ?d1 = "d\<lparr>g_fd := retv (env w (hist w) ?o), g_callback := cb, g_cb_data := ud\<rparr>"
  obtain e d2 w2 where f: "gpio_watch_fd p ?d1 (snd (xc ?o w)) = (e, d2, w2)" by (metis prod_cases3)
  with assms d have c1: "e = S_OK" "c1 = c\<lparr>gpio_user_data := Some (p, d2)\<rparr>" "w1 = w2"
    by (auto simp: os_gpio_set_change_callback_def walk_simps gpio_watch_exit_def err_simps
        split: if_splits prod.splits)
  with gpio_watch_fd_ok [of p ?d1 "snd (xc ?o w)" d2 w2] f assms(2) d show ?thesis
    by (auto simp: os_gpio_unset_change_callback_def walk_simps mod_requests_def mod_releases_def)
qed

definition gpio_button :: artik_gpio_config where
  "gpio_button = zero_gpio_config\<lparr>gpio_id := 30, gpio_dir := GPIO_IN, gpio_edge := GPIO_EDGE_BOTH,
     gpio_user_data := Some (64, zero_gpio_data)\<rparr>"

theorem gpio_callback_cycle_keeps_a_reference_witness:
  "\<exists>c1 w1 c2 w2. os_gpio_set_change_callback gpio_button 5 6 good_world = Ret (S_OK, c1, w1)
    \<and> os_gpio_unset_change_callback c1 w1 = Ret (c2, w2)
    \<and> opened w2 = [] \<and> mod_requests w2 = 2 \<and> mod_releases w2 = 1"
proof -
  obtain c1 w1 where run: "os_gpio_set_change_callback gpio_button 5 6 good_world = Ret (S_OK, c1, w1)"
    by (simp add: gpio_button_def zero_gpio_config_def gpio_os_defs walk_simps good_world_def good_env_def
        err_simps zero_gpio_data_def)
  have "retv (env good_world (hist good_world) (Open (gpio_attr (gpio_id gpio_button) ''value'') O_RDONLY)) \<noteq> 0"
    by (simp add: good_world_def good_env_def)
  from gpio_callback_cycle_keeps_a_reference [OF run this] run show ?thesis
    by (auto simp: good_world_def opened_def mod_requests_def mod_releases_def)
qed

end
