(* ===== verification/Bytes.thy ===== *)
theory Bytes
  imports Prelude
begin

unbundle bit_operations_syntax

section \<open>Words in memory and in packets\<close>

text \<open>
  The boards are little-endian: a 32-bit word in memory is its bytes from the least significant
  one, and \<^verbatim>\<open>htonl\<close> reverses them. The network code copies words into packets with
  \<^verbatim>\<open>memcpy\<close>, so what a packet holds is \<open>le32\<close> of the word that was copied. Reads at an
  index of a buffer are \<open>rd\<close>, which fails past the end.
\<close>

definition le32 :: "u32 \<Rightarrow> bytes" where
  "le32 x = [word_of_nat (unat x), word_of_nat (unat x div 256), word_of_nat (unat x div 65536),
             word_of_nat (unat x div 16777216)]"

fun of_le32 :: "bytes \<Rightarrow> u32" where
  "of_le32 [a, b, c, d] =
     word_of_nat (unat a + 256 * unat b + 65536 * unat c + 16777216 * unat d)"
| "of_le32 _ = 0"

definition le16 :: "u16 \<Rightarrow> bytes" where
  "le16 x = [word_of_nat (unat x), word_of_nat (unat x div 256)]"

fun of_le16 :: "bytes \<Rightarrow> u16" where
  "of_le16 [a, b] = word_of_nat (unat a + 256 * unat b)"
| "of_le16 _ = 0"

definition htonl :: "u32 \<Rightarrow> u32" where
  "htonl x = of_le32 (rev (le32 x))"

definition htons :: "u16 \<Rightarrow> u16" where
  "htons x = of_le16 (rev (le16 x))"

abbreviation "ntohl \<equiv> htonl"

definition rd :: "bytes \<Rightarrow> nat \<Rightarrow> u8 outcome" where
  "rd bs i = (if i < length bs then Ret (bs ! i) else Ub OutOfBounds)"

text \<open>\<^verbatim>\<open>memcpy\<close> of \<open>n\<close> bytes out of a buffer, and into one.\<close>

definition rd_n :: "bytes \<Rightarrow> nat \<Rightarrow> nat \<Rightarrow> bytes outcome" where
  "rd_n bs i n = (if i + n \<le> length bs then Ret (take n (drop i bs)) else Ub OutOfBounds)"

definition wr_n :: "bytes \<Rightarrow> nat \<Rightarrow> bytes \<Rightarrow> bytes outcome" where
  "wr_n bs i xs = (if i + length xs \<le> length bs
     then Ret (take i bs @ xs @ drop (i + length xs) bs) else Ub OutOfBounds)"

lemma replicate4: "replicate 4 x = [x, x, x, x]"
  by (simp add: numeral_eq_Suc)

lemma replicate6: "replicate 6 x = [x, x, x, x, x, x]"
  by (simp add: numeral_eq_Suc)

lemma replicate8: "replicate 8 x = [x, x, x, x, x, x, x, x]"
  by (simp add: numeral_eq_Suc)

lemma length_le32 [simp]: "length (le32 x) = 4"
  by (simp add: le32_def)

lemma length_le16 [simp]: "length (le16 x) = 2"
  by (simp add: le16_def)

lemma unat_word_of_nat8 [simp]: "unat (word_of_nat k :: u8) = k mod 256"
  by (simp add: unat_of_nat)

lemma base256:
  fixes n :: nat
  assumes "n < 4294967296"
  shows "n mod 256 + 256 * (n div 256 mod 256) + 65536 * (n div 65536 mod 256)
           + 16777216 * (n div 16777216 mod 256) = n"
proof -
  let ?a = "n div 256" and ?b = "n div 65536" and ?c = "n div 16777216"
  have d: "?b = ?a div 256" "?c = ?b div 256"
    by (simp_all add: div_mult2_eq [symmetric])
  have "?c < 256" using assms by (simp add: less_mult_imp_div_less)
  then have "?c mod 256 = ?c" by simp
  moreover have "?b mod 256 + 256 * ?c = ?b" unfolding d(2) by (rule mod_mult_div_eq)
  moreover have "?a mod 256 + 256 * ?b = ?a" unfolding d(1) by (rule mod_mult_div_eq)
  moreover have "n mod 256 + 256 * ?a = n" by (rule mod_mult_div_eq)
  ultimately show ?thesis by linarith
qed

lemma digit256:
  fixes x y :: nat
  assumes "x < 256"
  shows "(x + 256 * y) mod 256 = x" and "(x + 256 * y) div 256 = y"
  using assms by simp_all

lemma unat32_of_nat: "k < 4294967296 \<Longrightarrow> unat (word_of_nat k :: u32) = k"
  by (subst unat_of_nat) simp

lemma unat16_of_nat: "k < 65536 \<Longrightarrow> unat (word_of_nat k :: u16) = k"
  by (subst unat_of_nat) simp

lemma unat32_less: "unat (x :: u32) < 4294967296"
  using unsigned_less [of x] by simp

lemma unat16_less: "unat (x :: u16) < 65536"
  using unsigned_less [of x] by simp

lemma of_le32_le32 [simp]: "of_le32 (le32 x) = x"
proof -
  have "unat (of_le32 (le32 x)) = unat x"
    unfolding le32_def of_le32.simps unat_word_of_nat8 base256 [OF unat32_less]
    by (rule unat32_of_nat [OF unat32_less])
  then show ?thesis by (simp add: word_unat_eq_iff)
qed

lemma unat8_less [simp]: "unat (a :: u8) < 256"
  using unsigned_less [of a] by simp

lemma le32_of_le32: "length bs = 4 \<Longrightarrow> le32 (of_le32 bs) = bs"
proof -
  assume "length bs = 4"
  then obtain a b c d where bs: "bs = [a, b, c, d]"
    by (auto simp: numeral_eq_Suc length_Suc_conv)
  let ?n = "unat a + 256 * unat b + 65536 * unat c + 16777216 * unat d"
  have l: "unat a < 256" "unat b < 256" "unat c < 256" "unat d < 256" by simp_all
  then have "?n < 4294967296" by linarith
  then have u: "unat (of_le32 bs) = ?n" unfolding bs of_le32.simps by (rule unat32_of_nat)
  let ?m1 = "unat b + 256 * (unat c + 256 * unat d)"
  have n: "?n = unat a + 256 * ?m1" by simp
  have e: "?n div 65536 = ?n div 256 div 256" "?n div 16777216 = ?n div 256 div 256 div 256"
    by (simp_all add: div_mult2_eq [symmetric])
  have q0: "?n mod 256 = unat a" "?n div 256 = ?m1" unfolding n by (rule digit256 [OF l(1)])+
  have q1: "?m1 mod 256 = unat b" "?m1 div 256 = unat c + 256 * unat d" by (rule digit256 [OF l(2)])+
  have q2: "(unat c + 256 * unat d) mod 256 = unat c" "(unat c + 256 * unat d) div 256 = unat d"
    by (rule digit256 [OF l(3)])+
  have q: "?n mod 256 = unat a" "?n div 256 mod 256 = unat b"
    "?n div 65536 mod 256 = unat c" "?n div 16777216 mod 256 = unat d"
    unfolding e q0(2) q1 q2 using l q0 by simp_all
  have w: "word_of_nat k = (y :: u8)" if "k mod 256 = unat y" for k y
    using that by (metis unat_word_of_nat8 word_unat_eq_iff)
  have "le32 (of_le32 bs) = [a, b, c, d]"
    unfolding le32_def u w [OF q(1)] w [OF q(2)] w [OF q(3)] w [OF q(4)] ..
  then show ?thesis by (simp only: bs)
qed

lemma le32_htonl [simp]: "le32 (htonl x) = rev (le32 x)"
  by (simp add: htonl_def le32_of_le32)

lemma htonl_htonl [simp]: "htonl (htonl x) = x"
  by (metis htonl_def le32_htonl of_le32_le32 rev_rev_ident)

lemma le32_inject [simp]: "le32 x = le32 y \<longleftrightarrow> x = y"
  by (metis of_le32_le32)

lemma htonl_of_le32: "length bs = 4 \<Longrightarrow> htonl (of_le32 bs) = of_le32 (rev bs)"
  by (simp add: htonl_def le32_of_le32)

lemma of_le16_le16 [simp]: "of_le16 (le16 x) = x"
proof -
  have "unat x div 256 < 256" using unat16_less [of x] by (simp add: less_mult_imp_div_less)
  then have "unat x div 256 mod 256 = unat x div 256" by simp
  then have e: "unat x mod 256 + 256 * (unat x div 256 mod 256) = unat x" by simp
  have "unat (of_le16 (le16 x)) = unat x"
    unfolding le16_def of_le16.simps unat_word_of_nat8 e by (rule unat16_of_nat [OF unat16_less])
  then show ?thesis by (simp add: word_unat_eq_iff)
qed

lemma le16_of_le16: "length bs = 2 \<Longrightarrow> le16 (of_le16 bs) = bs"
proof -
  assume "length bs = 2"
  then obtain a b where bs: "bs = [a, b]"
    by (auto simp: numeral_eq_Suc length_Suc_conv)
  let ?n = "unat a + 256 * unat b"
  have l: "unat a < 256" "unat b < 256" by simp_all
  then have "?n < 65536" by linarith
  then have u: "unat (of_le16 bs) = ?n" unfolding bs of_le16.simps by (rule unat16_of_nat)
  have w: "word_of_nat k = (y :: u8)" if "k mod 256 = unat y" for k y
    using that by (metis unat_word_of_nat8 word_unat_eq_iff)
  have "?n mod 256 = unat a" "?n div 256 mod 256 = unat b"
    unfolding digit256 [OF l(1)] using l by simp_all
  then have "word_of_nat ?n = a" "word_of_nat (?n div 256) = b" using w by blast+
  then show ?thesis unfolding le16_def u unfolding bs by simp
qed

lemma be32_of_halves:
  assumes "length bs = 4"
  shows "push_bit 16 (ucast (htons (of_le16 (take 2 bs)))) OR ucast (htons (of_le16 (drop 2 bs)))
    = of_le32 (rev bs)"
proof -
  obtain a b c d where bs: "bs = [a, b, c, d]"
    using assms by (auto simp: numeral_eq_Suc length_Suc_conv)
  have h: "htons (of_le16 [x, y]) = word_of_nat (unat y + 256 * unat x)" for x y
  proof -
    have "le16 (of_le16 [x, y]) = [x, y]" by (rule le16_of_le16) simp
    then show ?thesis by (simp only: htons_def rev.simps append.simps of_le16.simps)
  qed
  have k: "unat y + 256 * unat x < 65536" for x y :: u8
    using unat8_less [of x] unat8_less [of y] by linarith
  have c: "ucast (word_of_nat n :: u16) = (word_of_nat n :: u32)" if n: "n < 65536" for n
  proof -
    have "n < 4294967296" using n by simp
    moreover from this have "take_bit LENGTH(32) n = n" by (intro take_bit_nat_eq_self) simp
    ultimately show ?thesis
      using n by (intro word_unat_eq_iff [THEN iffD2]) (simp only: unsigned_ucast_eq unat16_of_nat unat32_of_nat)
  qed
  have "push_bit 16 (ucast p :: u32) AND ucast (q :: u16) = 0" for p :: u16 and q
    by (rule bit_eqI) (auto simp: bit_simps dest: bit_imp_le_length)
  then have o: "push_bit 16 (ucast p :: u32) OR ucast q = push_bit 16 (ucast p) + ucast q" for p :: u16 and q :: u16
    by (simp add: disjunctive_add_eq_or)
  have "of_le32 (rev bs) = word_of_nat (unat d + 256 * unat c) + 65536 * word_of_nat (unat b + 256 * unat a)"
    by (simp add: bs)
  then have e: "of_le32 (rev bs) = push_bit 16 (word_of_nat (unat b + 256 * unat a))
      + word_of_nat (unat d + 256 * unat c)"
    by (simp add: push_bit_eq_mult)
  have "take 2 bs = [a, b]" "drop 2 bs = [c, d]" by (simp_all add: bs)
  then show ?thesis
    using o [of "word_of_nat (unat b + 256 * unat a)" "word_of_nat (unat d + 256 * unat c)"]
    by (simp only: h c [OF k] e)
qed

lemma rd_Ret [simp]: "i < length bs \<Longrightarrow> rd bs i = Ret (bs ! i)"
  by (simp add: rd_def)

lemma length_wr_n: "wr_n bs i xs = Ret ys \<Longrightarrow> length ys = length bs"
  by (auto simp: wr_n_def split: if_splits)

subsection \<open>Signed readings and the largest word\<close>

lemma nat_sint32:
  fixes d :: u32
  assumes "0 \<le> sint d"
  shows "nat (sint d) = unat d"
proof -
  have "sint d < 2 ^ 31" using sint_less [of d] by simp
  moreover have "uint d = sint d mod 2 ^ LENGTH(32)"
  proof -
    have "word_of_int (sint d) = d" by (metis scast_eq scast_id)
    with uint_word_of_int [of "sint d", where 'a = 32] show ?thesis by simp
  qed
  ultimately show ?thesis using assms by (simp add: unat_eq_nat_uint)
qed

lemma next_address:
  fixes ip stop :: u32
  assumes "ip \<le> stop" and "stop \<noteq> 0xFFFFFFFF"
  shows "unat (ip + 1) = Suc (unat ip)" and "ip \<le> ip + 1"
proof -
  have "unat stop \<noteq> 4294967295" using assms(2) by (simp add: word_unat_eq_iff)
  then have "unat ip + 1 < 4294967296"
    using assms(1) unat32_less [of stop] by (simp add: word_le_nat_alt)
  then show "unat (ip + 1) = Suc (unat ip)" by (simp add: unat_word_ariths)
  then show "ip \<le> ip + 1" by (simp add: word_le_nat_alt)
qed

end
