(* ===== verification/NetLib.thy ===== *)
theory NetLib
  imports World Bytes
begin

section \<open>Network interface helpers (\<^verbatim>\<open>netutils/netlib.c\<close>)\<close>

text \<open>
  The helpers read and set the addresses of an interface by one ioctl on a socket of their own.
  Their pointer arguments are options: \<open>None\<close> is \<open>NULL\<close>, \<open>Some a\<close> points to an address
  (kept in network order, as \<^verbatim>\<open>struct in_addr\<close> does). The bytes passed to an ioctl are the
  fields of the request that it uses: the interface name, then the address; the kernel's answer
  is the address it writes into the request.
\<close>

definition ERROR :: int where [err_simps]: "ERROR = -1"
definition OK :: int where [err_simps]: "OK = 0"

definition ifr_name :: "string \<Rightarrow> bytes" where
  "ifr_name ifname = take 16 (bytes_of ifname @ replicate 16 0)"

text \<open>The four bytes of an address that the kernel wrote.\<close>

definition ip_of :: "bytes \<Rightarrow> u32" where
  "ip_of bs = of_le32 (take 4 (bs @ replicate 4 0))"

definition ifreq_get :: "string \<Rightarrow> string option \<Rightarrow> u32 option \<Rightarrow> world \<Rightarrow> int \<times> u32 option \<times> world" where
  "ifreq_get request ifname addr w =
     (case (ifname, addr) of
        (Some n, Some old) \<Rightarrow>
          (let (s, w1) = xc (Socket ''udp'') w
           in if 0 \<le> retv s then
                let (r, w2) = xc (Ioctl (retv s) request (ifr_name n)) w1
                in (retv r, Some (if retv r = 0 then ip_of (outb r) else old), xcu (Close (retv s)) w2)
              else (ERROR, addr, w1))
      | _ \<Rightarrow> (ERROR, addr, w))"

definition ifreq_set :: "string \<Rightarrow> string option \<Rightarrow> u32 option \<Rightarrow> world \<Rightarrow> int \<times> world" where
  "ifreq_set request ifname addr w =
     (case (ifname, addr) of
        (Some n, Some a) \<Rightarrow>
          (let (s, w1) = xc (Socket ''udp'') w
           in if 0 \<le> retv s then
                let (r, w2) = xc (Ioctl (retv s) request (ifr_name n @ le32 a)) w1
                in (retv r, xcu (Close (retv s)) w2)
              else (ERROR, w1))
      | _ \<Rightarrow> (ERROR, w))"

definition get_ipv4addr :: "string option \<Rightarrow> u32 option \<Rightarrow> world \<Rightarrow> int \<times> u32 option \<times> world" where
  "get_ipv4addr = ifreq_get ''SIOCGIFADDR''"

definition set_ipv4addr :: "string option \<Rightarrow> u32 option \<Rightarrow> world \<Rightarrow> int \<times> world" where
  "set_ipv4addr = ifreq_set ''SIOCSIFADDR''"

definition get_dripv4addr :: "string option \<Rightarrow> u32 option \<Rightarrow> world \<Rightarrow> int \<times> u32 option \<times> world" where
  "get_dripv4addr = ifreq_get ''SIOCGIFDSTADDR''"

definition set_dripv4addr :: "string option \<Rightarrow> u32 option \<Rightarrow> world \<Rightarrow> int \<times> world" where
  "set_dripv4addr = ifreq_set ''SIOCSIFDSTADDR''"

definition get_ipv4netmask :: "string option \<Rightarrow> u32 option \<Rightarrow> world \<Rightarrow> int \<times> u32 option \<times> world" where
  "get_ipv4netmask = ifreq_get ''SIOCGIFNETMASK''"

definition set_ipv4netmask :: "string option \<Rightarrow> u32 option \<Rightarrow> world \<Rightarrow> int \<times> world" where
  "set_ipv4netmask = ifreq_set ''SIOCSIFNETMASK''"

text \<open>\<open>None\<close> in the result: the buffer of the caller is left as it was.\<close>

definition getmacaddr :: "string option \<Rightarrow> world \<Rightarrow> int \<times> bytes option \<times> world" where
  "getmacaddr ifname w =
     (case ifname of
        None \<Rightarrow> (ERROR, None, w)
      | Some n \<Rightarrow>
          (let (s, w1) = xc (Socket ''udp'') w
           in if 0 \<le> retv s then
                let (r, w2) = xc (Ioctl (retv s) ''SIOCGIFHWADDR'' (ifr_name n)) w1
                in (retv r,
                    if retv r = 0 then Some (take 6 (outb r @ replicate 6 0)) else None,
                    xcu (Close (retv s)) w2)
              else (ERROR, None, w1)))"

text \<open>The route request: gateway, destination 0.0.0.0, mask 0.0.0.0, flags (RTF_UP is 1,
  RTF_GATEWAY is 2), device.\<close>

definition set_defaultroute :: "string option \<Rightarrow> u32 option \<Rightarrow> bool \<Rightarrow> world \<Rightarrow> int \<times> world" where
  "set_defaultroute ifname addr gateway w =
     (case (ifname, addr) of
        (Some n, Some a) \<Rightarrow>
          (let (s, w1) = xc (Socket ''udp'') w
           in if 0 \<le> retv s then
                let (r, w2) = xc (Ioctl (retv s) ''SIOCADDRT''
                       (le32 a @ le32 0 @ le32 0 @ [if gateway then 3 else 1] @ bytes_of n)) w1
                in (retv r, xcu (Close (retv s)) w2)
              else (ERROR, w1))
      | _ \<Rightarrow> (ERROR, w))"

text \<open>\<^verbatim>\<open>sprintf\<close> into 256 bytes, unchecked.\<close>

definition del_allroutes_interface :: "string \<Rightarrow> world \<Rightarrow> (int \<times> world) outcome" where
  "del_allroutes_interface ifname w =
     (let cmd = ''ip route flush dev '' @ ifname
      in if 256 \<le> length cmd then Ub OutOfBounds
         else let (r, w1) = xc (System cmd) w in Ret (retv r, w1))"

text \<open>\<^verbatim>\<open>inet_ntop\<close> of an address in network order.\<close>

definition inet_ntop :: "u32 \<Rightarrow> string" where
  "inet_ntop a = (case map (\<lambda>b. nat_str (unat b)) (le32 a) of
      [p, q, r, s] \<Rightarrow> p @ ''.'' @ q @ ''.'' @ r @ ''.'' @ s)"

definition dns_add_nameserver :: "bool \<Rightarrow> u32 \<Rightarrow> bool \<Rightarrow> world \<Rightarrow> int \<times> world" where
  "dns_add_nameserver is_inet a app w =
     (let (s, w1) = xc (Fopen ''/etc/resolv.conf'' (if app then ''at'' else ''wt'')) w
      in if retv s = 0 then (ERROR, w1)
         else let (r, w2) =
                (if is_inet
                 then let (p, w2) = xc (Fprintf (nat (retv s))
                            (bytes_of (''nameserver '' @ inet_ntop a @ [CHR 10]))) w1
                      in (if retv p < 0 then ERROR else OK, w2)
                 else (ERROR, w1))
              in (r, xcu (Fclose (nat (retv s))) w2))"

definition set_ipv4dnsaddr :: "u32 option \<Rightarrow> bool \<Rightarrow> world \<Rightarrow> int \<times> world" where
  "set_ipv4dnsaddr inaddr app w =
     (case inaddr of None \<Rightarrow> (ERROR, w) | Some a \<Rightarrow> dns_add_nameserver True a app w)"

text \<open>
  Is an address in use? One echo request, at most one reply: every path of the source's
  \<^verbatim>\<open>for (;;)\<close> leaves it in its first round. 8 is ICMP_ECHO, 0 ICMP_ECHOREPLY; the header
  is type, code, checksum, id (1234, little-endian), sequence.
\<close>

definition icmp_echo :: bytes where
  "icmp_echo = [8, 0, 0, 0, 210, 4, 0, 0] @ bytes_of ''hello''"

definition verify_ipv4addr_in_used :: "u32 \<Rightarrow> world \<Rightarrow> int \<times> world" where
  "verify_ipv4addr_in_used a w =
     (let (c, w1) = xc (System ''sysctl -w net.ipv4.ping_group_range=\"0 0\" > NUL'') w
      in if retv c < 0 then (ERROR, w1)
         else let (s, w2) = xc (Socket ''icmp'') w1
              in if retv s < 0 then (ERROR, w2)
                 else let (r, w3) = xc (SendTo (retv s) icmp_echo a 0) w2
                      in if retv r \<le> 0 then (ERROR, w3)
                         else let (r, w4) = xc (Select (retv s)) w3
                              in if retv r \<le> 0 then (ERROR, w4)
                                 else let (r, w5) = xc (Recv (retv s) 2048) w4
                                      in if retv r < 8 then (ERROR, w5)
                                         else (if take 1 (outb r) = [0] then OK else ERROR, w5))"

lemmas net_defs = ifreq_get_def ifreq_set_def get_ipv4addr_def set_ipv4addr_def get_dripv4addr_def
  set_dripv4addr_def get_ipv4netmask_def set_ipv4netmask_def getmacaddr_def set_defaultroute_def

lemma length_ifr_name [simp]: "length (ifr_name n) = 16"
  by (simp add: ifr_name_def)

lemma ip_of_le32 [simp]: "ip_of (le32 a) = a"
  by (simp add: ip_of_def)

lemma ifreq_opened [simp]:
  "opened (snd (snd (ifreq_get q n a w))) = opened w"
  "opened (snd (ifreq_set q n a w)) = opened w"
  by (auto simp: ifreq_get_def ifreq_set_def walk_simps split: option.split)

lemma set_defaultroute_opened [simp]: "opened (snd (set_defaultroute n a g w)) = opened w"
  by (auto simp: set_defaultroute_def walk_simps split: option.split)

lemma getmacaddr_opened [simp]: "opened (snd (snd (getmacaddr n w))) = opened w"
  by (auto simp: getmacaddr_def walk_simps split: option.split)

text \<open>The interface helpers give their socket back on every path; the address check
  \<open>verify_ipv4addr_in_used\<close> never does: each call that gets a socket leaves it open.\<close>

theorem netlib_sockets:
  "opened (snd (snd (get_ipv4addr n a w))) = opened w
   \<and> opened (snd (set_ipv4addr n a w)) = opened w
   \<and> opened (snd (snd (get_dripv4addr n a w))) = opened w
   \<and> opened (snd (set_dripv4addr n a w)) = opened w
   \<and> opened (snd (snd (get_ipv4netmask n a w))) = opened w
   \<and> opened (snd (set_ipv4netmask n a w)) = opened w
   \<and> opened (snd (snd (getmacaddr n w))) = opened w
   \<and> opened (snd (set_defaultroute n a g w)) = opened w
   \<and> (let w1 = snd (xc (System ''sysctl -w net.ipv4.ping_group_range=\"0 0\" > NUL'') w);
          s = retv (env w (hist w1) (Socket ''icmp''))
      in opened (snd (verify_ipv4addr_in_used ip w)) =
           (if retv (env w (hist w) (System ''sysctl -w net.ipv4.ping_group_range=\"0 0\" > NUL'')) < 0
              \<or> s < 0 then opened w else s # opened w))"
  by (simp add: get_ipv4addr_def set_ipv4addr_def get_dripv4addr_def set_dripv4addr_def
      get_ipv4netmask_def set_ipv4netmask_def verify_ipv4addr_in_used_def walk_simps)

end
