(* ===== verification/DhcpMsg.thy ===== *)
theory DhcpMsg
  imports NetLib
begin

section \<open>DHCP messages\<close>

text \<open>
  The message structure that \<^verbatim>\<open>dhcpd.c\<close> and \<^verbatim>\<open>dhcpc.c\<close> share (both declare it), its
  bytes in memory, which are the bytes on the wire, and the option codes and message types.
  Multi-byte members of type \<^verbatim>\<open>uint8_t[]\<close> are byte lists.
\<close>

record dhcpmsg =
  m_op :: u8
  m_htype :: u8
  m_hlen :: u8
  m_hops :: u8
  m_xid :: bytes
  m_secs :: u16
  m_flags :: u16
  m_ciaddr :: bytes
  m_yiaddr :: bytes
  m_siaddr :: bytes
  m_giaddr :: bytes
  m_chaddr :: bytes
  m_sname :: bytes
  m_file :: bytes
  m_options :: bytes

definition wf_msg :: "dhcpmsg \<Rightarrow> bool" where
  "wf_msg m \<longleftrightarrow> length (m_xid m) = 4 \<and> length (m_ciaddr m) = 4 \<and> length (m_yiaddr m) = 4
     \<and> length (m_siaddr m) = 4 \<and> length (m_giaddr m) = 4 \<and> length (m_chaddr m) = 16
     \<and> length (m_sname m) = 64 \<and> length (m_file m) = 128 \<and> length (m_options m) = 312"

definition zero_msg :: dhcpmsg where
  "zero_msg = \<lparr>m_op = 0, m_htype = 0, m_hlen = 0, m_hops = 0, m_xid = replicate 4 0, m_secs = 0,
     m_flags = 0, m_ciaddr = replicate 4 0, m_yiaddr = replicate 4 0, m_siaddr = replicate 4 0,
     m_giaddr = replicate 4 0, m_chaddr = replicate 16 0, m_sname = replicate 64 0,
     m_file = replicate 128 0, m_options = replicate 312 0\<rparr>"

definition msg_header :: "dhcpmsg \<Rightarrow> bytes" where
  "msg_header m = [m_op m, m_htype m, m_hlen m, m_hops m] @ m_xid m @ le16 (m_secs m)
     @ le16 (m_flags m) @ m_ciaddr m @ m_yiaddr m @ m_siaddr m @ m_giaddr m @ m_chaddr m
     @ m_sname m @ m_file m"

definition msg_bytes :: "dhcpmsg \<Rightarrow> bytes" where
  "msg_bytes m = msg_header m @ m_options m"

definition msg_of_bytes :: "bytes \<Rightarrow> dhcpmsg" where
  "msg_of_bytes bs = \<lparr>m_op = bs ! 0, m_htype = bs ! 1, m_hlen = bs ! 2, m_hops = bs ! 3,
     m_xid = take 4 (drop 4 bs), m_secs = of_le16 (take 2 (drop 8 bs)),
     m_flags = of_le16 (take 2 (drop 10 bs)), m_ciaddr = take 4 (drop 12 bs),
     m_yiaddr = take 4 (drop 16 bs), m_siaddr = take 4 (drop 20 bs), m_giaddr = take 4 (drop 24 bs),
     m_chaddr = take 16 (drop 28 bs), m_sname = take 64 (drop 44 bs), m_file = take 128 (drop 108 bs),
     m_options = take 312 (drop 236 bs)\<rparr>"

text \<open>A received datagram overwrites the first bytes of the packet buffer only.\<close>

definition overlay :: "bytes \<Rightarrow> dhcpmsg \<Rightarrow> dhcpmsg" where
  "overlay bs m = msg_of_bytes (take 548 bs @ drop (length (take 548 bs)) (msg_bytes m))"

definition MAGIC :: bytes where "MAGIC = [99, 130, 83, 99]"

definition DHCPDISCOVER :: u8 where "DHCPDISCOVER = 1"
definition DHCPOFFER :: u8 where "DHCPOFFER = 2"
definition DHCPREQUEST :: u8 where "DHCPREQUEST = 3"
definition DHCPDECLINE :: u8 where "DHCPDECLINE = 4"
definition DHCPACK :: u8 where "DHCPACK = 5"
definition DHCPNAK :: u8 where "DHCPNAK = 6"
definition DHCPRELEASE :: u8 where "DHCPRELEASE = 7"

lemmas dhcp_types = DHCPDISCOVER_def DHCPOFFER_def DHCPREQUEST_def DHCPDECLINE_def DHCPACK_def
  DHCPNAK_def DHCPRELEASE_def

lemma length_msg_header: "wf_msg m \<Longrightarrow> length (msg_header m) = 236"
  by (simp add: wf_msg_def msg_header_def)

lemma length_msg_bytes: "wf_msg m \<Longrightarrow> length (msg_bytes m) = 548"
  by (simp add: msg_bytes_def length_msg_header) (simp add: wf_msg_def)

lemma wf_zero_msg [simp]: "wf_msg zero_msg"
  by (simp add: wf_msg_def zero_msg_def)

lemma wf_msg_of_bytes: "548 \<le> length bs \<Longrightarrow> wf_msg (msg_of_bytes bs)"
  by (simp add: wf_msg_def msg_of_bytes_def)

lemma wf_overlay: "wf_msg m \<Longrightarrow> wf_msg (overlay bs m)"
  unfolding overlay_def by (rule wf_msg_of_bytes) (simp add: length_msg_bytes min_def)

lemma msg_of_bytes_msg_bytes:
  assumes "wf_msg m"
  shows "msg_of_bytes (msg_bytes m) = m"
proof -
  have l: "length (m_xid m) = 4" "length (m_ciaddr m) = 4" "length (m_yiaddr m) = 4"
    "length (m_siaddr m) = 4" "length (m_giaddr m) = 4" "length (m_chaddr m) = 16"
    "length (m_sname m) = 64" "length (m_file m) = 128" "length (m_options m) = 312"
    using assms by (simp_all add: wf_msg_def)
  show ?thesis
    by (simp add: msg_of_bytes_def msg_bytes_def msg_header_def l)
qed

lemma overlay_full: "wf_msg m' \<Longrightarrow> wf_msg m \<Longrightarrow> overlay (msg_bytes m') m = m'"
  by (simp add: overlay_def length_msg_bytes msg_of_bytes_msg_bytes)

end
