(* ===== verification/DhcpServer.thy ===== *)
theory DhcpServer
  imports DhcpMsg
begin

unbundle bit_operations_syntax

section \<open>The DHCP server (\<^verbatim>\<open>netutils/dhcpd.c\<close>)\<close>

text \<open>
  The server keeps its whole state in \<^verbatim>\<open>g_state\<close>: the packet buffers, the options parsed
  from the last packet, the write position in the outgoing options and the lease table, one slot
  per address. \<open>loop_handler\<close> is called for each datagram. Addresses are in host order
  where the source says so and in network order otherwise, as in the code.
\<close>

record lease =
  l_mac :: bytes
  l_allocated :: bool
  l_expiry :: int

definition zero_lease :: lease where
  "zero_lease = \<lparr>l_mac = replicate 6 0, l_allocated = False, l_expiry = 0\<rparr>"

text \<open>The options of the incoming message.\<close>

record dhcpd_opts =
  ds_optmsgtype :: u8
  ds_optreqip :: u32
  ds_optserverip :: u32
  ds_optleasetime :: u32

definition zero_opts :: dhcpd_opts where
  "zero_opts = \<lparr>ds_optmsgtype = 0, ds_optreqip = 0, ds_optserverip = 0, ds_optleasetime = 0\<rparr>"

text \<open>\<open>ds_optend\<close> is an offset into the outgoing options, \<open>None\<close> for a null pointer.\<close>

record dhcpd_state =
  ds_serverip :: u32
  ds_inpacket :: dhcpmsg
  ds_outpacket :: dhcpmsg
  ds_opts :: dhcpd_opts
  ds_optend :: "nat option"
  ds_leases :: "lease list"

record dhcp_server_handle =
  num_leases :: u32
  interface :: string
  startip :: u32
  endip :: u32
  netmask :: u32
  gw_addr :: u32
  dns_addr :: "u32 list"

definition LEASETIME :: u32 where "LEASETIME = 864000"
definition MINLEASETIME :: u32 where "MINLEASETIME = 86400"
definition MAXLEASETIME :: u32 where "MAXLEASETIME = 2592000"
definition OFFERTIME :: int where "OFFERTIME = 3600"
definition DECLINETIME :: int where "DECLINETIME = 3600"

subsection \<open>Sockets and time\<close>

text \<open>The ARP request: protocol address, hardware address, device, flags (ATF_COM is 2).\<close>

definition set_arpmapping :: "bytes \<Rightarrow> bytes \<Rightarrow> string \<Rightarrow> world \<Rightarrow> int \<times> world" where
  "set_arpmapping ip mac ifname w =
     (let (s, w1) = xc (Socket ''udp'') w
      in if 0 \<le> retv s then
           let (r, w2) = xc (Ioctl (retv s) ''SIOCSARP'' (ip @ take 6 mac @ ifr_name ifname @ [2])) w1
           in (if retv r < 0 then - errno r else retv r, xcu (Close (retv s)) w2)
         else (-22, w1))"

definition dhcpd_arpupdate :: "bytes \<Rightarrow> bytes \<Rightarrow> string \<Rightarrow> world \<Rightarrow> world" where
  "dhcpd_arpupdate ip mac ifname w = snd (set_arpmapping ip mac ifname w)"

definition dhcpd_time :: "world \<Rightarrow> int \<times> world" where
  "dhcpd_time w = (let (a, w1) = xc ClockGettime w in (if retv a = OK then oval a else 0, w1))"

definition dhcpd_socket :: "world \<Rightarrow> int \<times> world" where
  "dhcpd_socket w =
     (let (s, w1) = xc (Socket ''udp'') w
      in if retv s < 0 then (ERROR, w1)
         else let (r, w2) = xc (Setsockopt (retv s) ''SO_REUSEADDR'') w1
              in if retv r < 0 then (ERROR, xcu (Close (retv s)) w2)
                 else let (r, w3) = xc (Setsockopt (retv s) ''SO_BROADCAST'') w2
                      in if retv r < 0 then (ERROR, xcu (Close (retv s)) w3) else (retv s, w3))"

definition dhcpd_openresponder :: "u32 \<Rightarrow> world \<Rightarrow> int \<times> world" where
  "dhcpd_openresponder serverip w =
     (let (s, w1) = dhcpd_socket w
      in if s < 0 then (ERROR, w1)
         else let (r, w2) = xc (Bind s serverip 67) w1
              in if retv r < 0 then (ERROR, xcu (Close s) w2) else (s, w2))"

subsection \<open>The lease table\<close>

definition dhcpd_leaseexpired ::
  "nat \<Rightarrow> dhcpd_state \<Rightarrow> world \<Rightarrow> (bool \<times> dhcpd_state \<times> world) outcome" where
  "dhcpd_leaseexpired i st w =
     (if i < length (ds_leases st) then
        let (now, w1) = dhcpd_time w
        in if now < l_expiry (ds_leases st ! i) then Ret (False, st, w1)
           else Ret (True, st\<lparr>ds_leases := (ds_leases st)[i := zero_lease]\<rparr>, w1)
      else Ub OutOfBounds)"

text \<open>\<open>ndx\<close> is a signed \<^verbatim>\<open>int\<close>; the result is the index of the lease, \<open>None\<close> for
  NULL.\<close>

definition dhcpd_setlease ::
  "bytes \<Rightarrow> u32 \<Rightarrow> int \<Rightarrow> u32 \<Rightarrow> u32 \<Rightarrow> dhcpd_state \<Rightarrow> world \<Rightarrow> (nat option \<times> dhcpd_state \<times> world) outcome" where
  "dhcpd_setlease mac ipaddr expiry num start st w =
     (let ndx = sint (ipaddr - start)
      in if 0 \<le> ndx \<and> ndx < int (unat num) then
           if nat ndx < length (ds_leases st) then
             let (now, w1) = dhcpd_time w
             in Ret (Some (nat ndx),
                     st\<lparr>ds_leases := (ds_leases st)[nat ndx :=
                        \<lparr>l_mac = take 6 mac, l_allocated = True, l_expiry = now + expiry\<rparr>]\<rparr>, w1)
           else Ub OutOfBounds
         else Ret (None, st, w))"

definition dhcp_leaseipaddr :: "nat \<Rightarrow> u32 \<Rightarrow> u32" where
  "dhcp_leaseipaddr i start = word_of_nat i + start"

text \<open>\<open>k\<close> counts the slots left, \<open>i\<close> is the index.\<close>

fun findbymac_loop :: "bytes \<Rightarrow> nat \<Rightarrow> nat \<Rightarrow> lease list \<Rightarrow> nat option outcome" where
  "findbymac_loop mac 0 i ls = Ret None"
| "findbymac_loop mac (Suc k) i ls =
     (if i < length ls then
        if l_mac (ls ! i) = take 6 mac then Ret (Some i) else findbymac_loop mac k (Suc i) ls
      else Ub OutOfBounds)"

definition dhcpd_findbymac :: "bytes \<Rightarrow> u32 \<Rightarrow> dhcpd_state \<Rightarrow> nat option outcome" where
  "dhcpd_findbymac mac num st = findbymac_loop mac (unat num) 0 (ds_leases st)"

definition dhcpd_findbyipaddr :: "u32 \<Rightarrow> u32 \<Rightarrow> u32 \<Rightarrow> dhcpd_state \<Rightarrow> nat option outcome" where
  "dhcpd_findbyipaddr ipaddr start stop st =
     (if start \<le> ipaddr \<and> ipaddr \<le> stop then
        let i = unat (ipaddr - start)
        in if i < length (ds_leases st)
           then Ret (if l_allocated (ds_leases st ! i) then Some i else None)
           else Ub OutOfBounds
      else Ret None)"

text \<open>The slot of a free address is reserved for the offer, without an owner.\<close>

definition alloc_take :: "u32 \<Rightarrow> u32 \<Rightarrow> dhcpd_state \<Rightarrow> world \<Rightarrow> (u32 \<times> dhcpd_state \<times> world) outcome" where
  "alloc_take ipaddr start st w =
     (let i = unat (ipaddr - start)
      in if i < length (ds_leases st) then
           let (now, w1) = dhcpd_time w
           in Ret (ipaddr, st\<lparr>ds_leases := (ds_leases st)[i :=
                \<lparr>l_mac = replicate 6 0, l_allocated = True, l_expiry = now + OFFERTIME\<rparr>]\<rparr>, w1)
         else Ub OutOfBounds)"

partial_function (option) alloc_loop ::
  "u32 \<Rightarrow> u32 \<Rightarrow> u32 \<Rightarrow> dhcpd_state \<Rightarrow> world \<Rightarrow> (u32 \<times> dhcpd_state \<times> world) run" where
  "alloc_loop ipaddr start stop st w =
     (if ipaddr \<le> stop then
        if fst (verify_ipv4addr_in_used (htonl ipaddr) w) = OK
        then alloc_loop (ipaddr + 1) start stop st (snd (verify_ipv4addr_in_used (htonl ipaddr) w))
        else if unat ipaddr mod 256 = 0 \<or> unat ipaddr mod 256 = 255
        then alloc_loop (ipaddr + 1) start stop st (snd (verify_ipv4addr_in_used (htonl ipaddr) w))
        else case dhcpd_findbyipaddr ipaddr start stop st of
               Ub f \<Rightarrow> Some (Ub f)
             | Ret None \<Rightarrow>
                 Some (alloc_take ipaddr start st (snd (verify_ipv4addr_in_used (htonl ipaddr) w)))
             | Ret (Some i) \<Rightarrow>
                 (case dhcpd_leaseexpired i st (snd (verify_ipv4addr_in_used (htonl ipaddr) w)) of
                    Ub f \<Rightarrow> Some (Ub f)
                  | Ret (expired, st1, w2) \<Rightarrow>
                      if expired then Some (alloc_take ipaddr start st1 w2)
                      else alloc_loop (ipaddr + 1) start stop st1 w2)
      else Some (Ret (0, st, w)))"

definition dhcpd_allocipaddr :: "u32 \<Rightarrow> u32 \<Rightarrow> dhcpd_state \<Rightarrow> world \<Rightarrow> (u32 \<times> dhcpd_state \<times> world) run" where
  "dhcpd_allocipaddr start stop st w = alloc_loop start start stop st w"

definition dhcpd_verifyreqip :: "u32 \<Rightarrow> u32 \<Rightarrow> dhcpd_state \<Rightarrow> world \<Rightarrow> (bool \<times> dhcpd_state \<times> world) outcome" where
  "dhcpd_verifyreqip start stop st w =
     (let r = ds_optreqip (ds_opts st)
      in if start \<le> r \<and> r \<le> stop then
           obind (dhcpd_findbyipaddr r start stop st) (\<lambda>l.
             case l of None \<Rightarrow> Ret (True, st, w) | Some i \<Rightarrow> dhcpd_leaseexpired i st w)
         else Ret (False, st, w))"

text \<open>\<open>None\<close>: the client requested no lease time.\<close>

definition dhcpd_verifyreqleasetime :: "dhcpd_state \<Rightarrow> u32 option" where
  "dhcpd_verifyreqleasetime st =
     (let tmp = ds_optleasetime (ds_opts st)
      in if tmp \<noteq> 0
         then Some (if tmp > MAXLEASETIME then MAXLEASETIME
                    else if tmp < MINLEASETIME then MINLEASETIME else tmp)
         else None)"

subsection \<open>Parsing the options of a message\<close>

text \<open>
  The read position is a field (0 options, 1 file, 2 sname) and an offset in it. \<open>p_optlen\<close>
  keeps its value over an END that moves to the next field, as the C variable does.
\<close>

record parse_state =
  p_field :: nat
  p_off :: nat
  p_rem :: int
  p_optlen :: int
  p_over :: u8
  p_opts :: dhcpd_opts

datatype pstep = Done bool parse_state | More parse_state

definition field_bytes :: "dhcpmsg \<Rightarrow> nat \<Rightarrow> bytes" where
  "field_bytes m f = (if f = 0 then m_options m else if f = 1 then m_file m else m_sname m)"

definition rd32 :: "bytes \<Rightarrow> nat \<Rightarrow> u32 outcome" where
  "rd32 bs i = obind (rd_n bs i 4) (\<lambda>x. Ret (ntohl (of_le32 x)))"

text \<open>The options that are stored: the least \<open>optlen\<close> that is accepted and the store itself.\<close>

definition known_option :: "u8 \<Rightarrow> (int \<times> (bytes \<Rightarrow> nat \<Rightarrow> parse_state \<Rightarrow> parse_state outcome)) option" where
  "known_option code =
     (if code = 52 then Some (1, \<lambda>bs d p. obind (rd bs d) (\<lambda>x. Ret (p\<lparr>p_over := x\<rparr>)))
      else if code = 50 then Some (4, \<lambda>bs d p. obind (rd32 bs d) (\<lambda>x.
        Ret (p\<lparr>p_opts := (p_opts p)\<lparr>ds_optreqip := x\<rparr>\<rparr>)))
      else if code = 51 then Some (4, \<lambda>bs d p. obind (rd32 bs d) (\<lambda>x.
        Ret (p\<lparr>p_opts := (p_opts p)\<lparr>ds_optleasetime := x\<rparr>\<rparr>)))
      else if code = 53 then Some (1, \<lambda>bs d p. obind (rd bs d) (\<lambda>x.
        Ret (p\<lparr>p_opts := (p_opts p)\<lparr>ds_optmsgtype := x\<rparr>\<rparr>)))
      else if code = 54 then Some (4, \<lambda>bs d p. obind (rd32 bs d) (\<lambda>x.
        Ret (p\<lparr>p_opts := (p_opts p)\<lparr>ds_optserverip := x\<rparr>\<rparr>)))
      else None)"

text \<open>The data is used if \<open>lo \<le> optlen < remaining\<close>; other options are skipped by their length.\<close>

definition take_option :: "dhcpmsg \<Rightarrow> u8 \<Rightarrow> parse_state \<Rightarrow> parse_state outcome" where
  "take_option m code p =
     (let bs = field_bytes m (p_field p)
      in obind (rd bs (p_off p + 1)) (\<lambda>l.
        let optlen = int (unat l) + 2
        in obind (case known_option code of
                    Some (lo, store) \<Rightarrow>
                      if lo \<le> optlen \<and> optlen < p_rem p then store bs (p_off p + 2) p else Ret p
                  | None \<Rightarrow> Ret p)
             (\<lambda>p'. Ret (p'\<lparr>p_optlen := optlen\<rparr>))))"

definition parse_option :: "dhcpmsg \<Rightarrow> parse_state \<Rightarrow> pstep outcome" where
  "parse_option m p =
     obind (rd (field_bytes m (p_field p)) (p_off p)) (\<lambda>code.
       if code = 0 then Ret (More (p\<lparr>p_optlen := 1\<rparr>))
       else if code = 255 then
         (if p_field p = 0 \<and> p_over p AND 1 \<noteq> 0
          then Ret (More (p\<lparr>p_field := 1, p_off := 0, p_rem := 128\<rparr>))
          else if p_field p = 1 \<and> p_over p AND 2 \<noteq> 0
          then Ret (More (p\<lparr>p_field := 2, p_off := 0, p_rem := 64\<rparr>))
          else Ret (Done True p))
       else obind (take_option m code p) (\<lambda>p'. Ret (More p')))"

text \<open>\<^verbatim>\<open>ptr += optlen; remaining -= optlen; while (remaining > 0)\<close>\<close>

definition parse_step :: "dhcpmsg \<Rightarrow> parse_state \<Rightarrow> pstep outcome" where
  "parse_step m p =
     obind (parse_option m p) (\<lambda>r. case r of
         Done b p' \<Rightarrow> Ret (Done b p')
       | More p' \<Rightarrow>
           (let q = p'\<lparr>p_off := p_off p' + nat (p_optlen p'), p_rem := p_rem p' - p_optlen p'\<rparr>
            in Ret (if p_rem q > 0 then More q else Done False q)))"

lemma known_option_keeps:
  "known_option code = Some (lo, store) \<Longrightarrow> store bs d p = Ret q
     \<Longrightarrow> p_field q = p_field p \<and> p_rem q = p_rem p \<and> p_off q = p_off p"
  by (auto simp: known_option_def obind_eq_Ret split: if_splits)

lemma take_option_keeps:
  assumes "take_option m code p = Ret q"
  shows "p_field q = p_field p \<and> p_rem q = p_rem p \<and> p_off q = p_off p \<and> 2 \<le> p_optlen q"
proof (cases "known_option code")
  case None
  with assms show ?thesis by (auto simp: take_option_def obind_eq_Ret Let_def)
next
  case (Some x)
  obtain lo store where x: "x = (lo, store)" by (cases x)
  show ?thesis
    using assms Some x known_option_keeps [of code lo store]
    by (auto simp: take_option_def obind_eq_Ret Let_def split: if_splits)
qed

lemma parse_option_More:
  assumes "parse_option m p = Ret (More q)"
  shows "(p_field q = p_field p \<and> p_rem q = p_rem p \<and> 1 \<le> p_optlen q)
       \<or> (p_field p < p_field q \<and> p_field q \<le> 2)"
proof -
  from assms obtain code where "rd (field_bytes m (p_field p)) (p_off p) = Ret code"
    unfolding parse_option_def obind_eq_Ret by blast
  note c = assms [unfolded parse_option_def this obind.simps]
  show ?thesis
  proof (cases "code = 0 \<or> code = 255")
    case True
    with c show ?thesis by (auto split: if_split_asm)
  next
    case False
    with c have "take_option m code p = Ret q" by (simp add: obind_eq_Ret)
    from take_option_keeps [OF this] show ?thesis by simp
  qed
qed

lemma parse_step_More:
  assumes "parse_step m p = Ret (More q)"
  shows "(p_field q = p_field p \<and> p_rem q < p_rem p \<and> 0 < p_rem q)
       \<or> (p_field p < p_field q \<and> p_field q \<le> 2)"
proof -
  from assms obtain r where r: "parse_option m p = Ret r"
    unfolding parse_step_def obind_eq_Ret by blast
  note c = assms [unfolded parse_step_def this obind.simps]
  obtain p' where p': "parse_option m p = Ret (More p')"
    "q = p'\<lparr>p_off := p_off p' + nat (p_optlen p'), p_rem := p_rem p' - p_optlen p'\<rparr>" "0 < p_rem q"
    using r c by (cases r) (auto simp: Let_def split: if_split_asm)
  from parse_option_More [OF p'(1)] p'(2,3) show ?thesis by auto
qed

text \<open>The loop ends: every round either shortens what remains of the field or moves to the next
  field.\<close>

function parse_loop :: "dhcpmsg \<Rightarrow> parse_state \<Rightarrow> (bool \<times> parse_state) outcome" where
  "parse_loop m p =
     (case parse_step m p of
        Ub f \<Rightarrow> Ub f
      | Ret (Done b p') \<Rightarrow> Ret (b, p')
      | Ret (More p') \<Rightarrow> parse_loop m p')"
  by pat_completeness auto

termination
  by (relation "measures [\<lambda>(m, p). 2 - p_field p, \<lambda>(m, p). nat (p_rem p)]")
    (auto dest!: parse_step_More)

declare parse_loop.simps [simp del]

definition parse_start :: parse_state where
  "parse_start = \<lparr>p_field = 0, p_off = 4, p_rem = 308, p_optlen = 0, p_over = 0, p_opts = zero_opts\<rparr>"

definition dhcpd_parseoptions :: "dhcpd_state \<Rightarrow> (bool \<times> dhcpd_state) outcome" where
  "dhcpd_parseoptions st =
     (if take 4 (m_options (ds_inpacket st)) \<noteq> MAGIC then Ret (False, st)
      else obind (parse_loop (ds_inpacket st) parse_start) (\<lambda>(b, p).
        Ret (b, st\<lparr>ds_opts := p_opts p, ds_optend := None\<rparr>)))"

subsection \<open>Building a reply\<close>

definition dhcpd_addoption :: "bytes \<Rightarrow> dhcpd_state \<Rightarrow> (int \<times> dhcpd_state) outcome" where
  "dhcpd_addoption option st =
     (case ds_optend st of
        None \<Rightarrow> Ret (4, st)
      | Some e \<Rightarrow>
          obind (rd option 1) (\<lambda>l.
            let offset = - int e; len = unat l + 2
            in if offset + int len + 1 < 312 then
                 obind (rd_n option 0 len) (\<lambda>src.
                 obind (wr_n (m_options (ds_outpacket st)) e src) (\<lambda>o1.
                 obind (wr_n o1 (e + len) [255]) (\<lambda>o2.
                   Ret (int len, st\<lparr>ds_outpacket := (ds_outpacket st)\<lparr>m_options := o2\<rparr>,
                                    ds_optend := Some (e + len)\<rparr>))))
               else Ret (int len, st)))"

definition dhcpd_addoption8 :: "u8 \<Rightarrow> u8 \<Rightarrow> dhcpd_state \<Rightarrow> (int \<times> dhcpd_state) outcome" where
  "dhcpd_addoption8 code v st = dhcpd_addoption [code, 1, v] st"

definition dhcpd_addoption32 :: "u8 \<Rightarrow> u32 \<Rightarrow> dhcpd_state \<Rightarrow> (int \<times> dhcpd_state) outcome" where
  "dhcpd_addoption32 code v st = dhcpd_addoption ([code, 4] @ le32 v) st"

definition dhcp_addoption32p :: "u8 \<Rightarrow> u32 \<Rightarrow> dhcpd_state \<Rightarrow> (int \<times> dhcpd_state) outcome" where
  "dhcp_addoption32p code v st = dhcpd_addoption ([code, 4] @ le32 v) st"

text \<open>The test on \<open>giaddr\<close> reads the outgoing packet, which has just been cleared, as the source
  does.\<close>

definition dhcpd_initpacket :: "u8 \<Rightarrow> dhcpd_state \<Rightarrow> dhcpd_state outcome" where
  "dhcpd_initpacket mtype st =
     (let inp = ds_inpacket st;
          o1 = zero_msg\<lparr>m_op := 2, m_htype := m_htype inp, m_hlen := m_hlen inp,
                 m_xid := m_xid inp, m_chaddr := m_chaddr inp\<rparr>;
          o2 = o1\<lparr>m_flags := (if m_giaddr o1 \<noteq> le32 0 then m_flags inp else 0)\<rparr>;
          o3 = o2\<lparr>m_giaddr := le32 0, m_options := MAGIC @ [255] @ drop 5 (m_options o2)\<rparr>
      in obind (dhcpd_addoption8 53 mtype (st\<lparr>ds_outpacket := o3, ds_optend := Some 4\<rparr>)) (\<lambda>(_, st1).
         obind (dhcpd_addoption32 54 (ds_serverip st1) st1) (\<lambda>(_, st2). Ret st2)))"

text \<open>The destination: broadcast, the client's own address, or the offered one.\<close>

definition dhcpd_dest :: "bool \<Rightarrow> string \<Rightarrow> dhcpd_state \<Rightarrow> world \<Rightarrow> u32 \<times> world" where
  "dhcpd_dest bbroadcast ifname st w =
     (let out = ds_outpacket st
      in if bbroadcast then (0xFFFFFFFF, w)
         else if m_ciaddr out \<noteq> replicate 4 0
         then (of_le32 (m_ciaddr out), dhcpd_arpupdate (m_ciaddr out) (m_chaddr out) ifname w)
         else if m_flags out AND htons 0x8000 \<noteq> 0 then (0xFFFFFFFF, w)
         else (of_le32 (m_yiaddr out), dhcpd_arpupdate (m_yiaddr out) (m_chaddr out) ifname w))"

definition dhcpd_sendpacket :: "bool \<Rightarrow> string \<Rightarrow> dhcpd_state \<Rightarrow> world \<Rightarrow> (int \<times> world) outcome" where
  "dhcpd_sendpacket bbroadcast ifname st w =
     (let (ipaddr, w1) = dhcpd_dest bbroadcast ifname st w;
          (s, w2) = dhcpd_openresponder (ds_serverip st) w1
      in if 0 \<le> s then
           (case ds_optend st of
              None \<Rightarrow> Ub NullDeref
            | Some e \<Rightarrow>
                let len = 236 + e + 1;
                    (r, w3) = xc (SendTo s (take len (msg_bytes (ds_outpacket st))) ipaddr 68) w2
                in Ret (retv r, xcu (Close s) w3))
         else Ret (ERROR, w2))"

fun add_dns :: "u32 list \<Rightarrow> dhcpd_state \<Rightarrow> dhcpd_state outcome" where
  "add_dns [] st = Ret st"
| "add_dns (d # ds) st =
     (if d \<noteq> 0 then obind (dhcp_addoption32p 6 d st) (\<lambda>(_, st1). add_dns ds st1) else add_dns ds st)"

text \<open>The address, lease time, mask, router and name server options of an offer or an ACK.\<close>

definition add_lease_options :: "u32 \<Rightarrow> u32 \<Rightarrow> u32 \<Rightarrow> u32 list \<Rightarrow> dhcpd_state \<Rightarrow> dhcpd_state outcome" where
  "add_lease_options leasetime nm gw dns st =
     obind (dhcpd_addoption32 51 (htonl leasetime) st) (\<lambda>(_, st1).
     obind (dhcpd_addoption32 1 nm st1) (\<lambda>(_, st2).
     obind (dhcpd_addoption32 3 gw st2) (\<lambda>(_, st3). add_dns dns st3)))"

definition set_yiaddr :: "u32 \<Rightarrow> dhcpd_state \<Rightarrow> dhcpd_state" where
  "set_yiaddr ipaddr st = st\<lparr>ds_outpacket := (ds_outpacket st)\<lparr>m_yiaddr := le32 (htonl ipaddr)\<rparr>\<rparr>"

definition set_ciaddr :: "dhcpd_state \<Rightarrow> dhcpd_state" where
  "set_ciaddr st = st\<lparr>ds_outpacket := (ds_outpacket st)\<lparr>m_ciaddr := m_ciaddr (ds_inpacket st)\<rparr>\<rparr>"

text \<open>\<^verbatim>\<open>malloc\<close> of the array of name servers is not checked, it is written at once. The
  offer converts every name server address with \<^verbatim>\<open>htonl\<close>, the ACK does not.\<close>

definition dhcpd_sendoffer ::
  "u32 \<Rightarrow> dhcp_server_handle \<Rightarrow> u32 \<Rightarrow> dhcpd_state \<Rightarrow> world \<Rightarrow> (int \<times> dhcpd_state \<times> world) outcome" where
  "dhcpd_sendoffer ipaddr sv leasetime st w =
     (let (a, w1) = xc (Malloc 8) w
      in if retv a = 0 then Ub NullDeref
         else obind (dhcpd_initpacket DHCPOFFER st) (\<lambda>st1.
              obind (add_lease_options leasetime (netmask sv) (gw_addr sv) (map htonl (dns_addr sv))
                       (set_yiaddr ipaddr st1)) (\<lambda>st2.
              obind (dhcpd_sendpacket True (interface sv) st2 (xcu (Free (nat (retv a))) w1)) (\<lambda>(r, w2).
                Ret (r, st2, w2)))))"

definition dhcpd_sendnak :: "dhcp_server_handle \<Rightarrow> dhcpd_state \<Rightarrow> world \<Rightarrow> (int \<times> dhcpd_state \<times> world) outcome" where
  "dhcpd_sendnak sv st w =
     obind (dhcpd_initpacket DHCPNAK st) (\<lambda>st1.
     obind (dhcpd_sendpacket True (interface sv) (set_ciaddr st1) w) (\<lambda>(r, w1).
       Ret (r, set_ciaddr st1, w1)))"

definition dhcpd_sendack ::
  "u32 \<Rightarrow> dhcp_server_handle \<Rightarrow> dhcpd_state \<Rightarrow> world \<Rightarrow> (int \<times> dhcpd_state \<times> world) outcome" where
  "dhcpd_sendack ipaddr sv st w =
     (let (a, w1) = xc (Malloc 8) w
      in if retv a = 0 then Ub NullDeref
         else obind (dhcpd_initpacket DHCPACK st) (\<lambda>st1.
              let st2 = set_yiaddr ipaddr (set_ciaddr st1);
                  leasetime = (case dhcpd_verifyreqleasetime st2 of None \<Rightarrow> LEASETIME | Some t \<Rightarrow> t)
              in obind (add_lease_options leasetime (netmask sv) (gw_addr sv) (dns_addr sv) st2) (\<lambda>st3.
                 obind (dhcpd_sendpacket False (interface sv) st3 (xcu (Free (nat (retv a))) w1)) (\<lambda>(r, w2).
                   if r < 0 then Ret (ERROR, st3, w2)
                   else obind (dhcpd_setlease (m_chaddr (ds_inpacket st3)) ipaddr (int (unat leasetime))
                                 (num_leases sv) (startip sv) st3 w2) (\<lambda>(_, st4, w3).
                        Ret (OK, st4, w3))))))"

subsection \<open>The message handlers\<close>

text \<open>The lease time a client that already has slot \<open>i\<close> is offered, and its address.\<close>

definition discover_known ::
  "nat \<Rightarrow> dhcp_server_handle \<Rightarrow> dhcpd_state \<Rightarrow> world \<Rightarrow> (u32 \<times> u32 \<times> dhcpd_state \<times> world) outcome" where
  "discover_known i sv st w =
     obind (dhcpd_leaseexpired i st w) (\<lambda>(expired, st1, w1).
       if expired then Ret (dhcp_leaseipaddr i (startip sv), LEASETIME, st1, w1)
       else let (now, w2) = dhcpd_time w1;
                t = word_of_int (l_expiry (ds_leases st1 ! i) - now)
            in Ret (dhcp_leaseipaddr i (startip sv), if t < MINLEASETIME then MINLEASETIME else t, st1, w2))"

definition discover_address ::
  "dhcp_server_handle \<Rightarrow> dhcpd_state \<Rightarrow> world \<Rightarrow> (u32 \<times> u32 \<times> dhcpd_state \<times> world) run" where
  "discover_address sv st w =
     rbind (Some (dhcpd_findbymac (m_chaddr (ds_inpacket st)) (num_leases sv) st)) (\<lambda>l. case l of
         Some i \<Rightarrow> Some (discover_known i sv st w)
       | None \<Rightarrow>
           rbind (Some (dhcpd_verifyreqip (startip sv) (endip sv) st w)) (\<lambda>(ok, st1, w1).
             if ok then ret (ds_optreqip (ds_opts st1), LEASETIME, st1, w1)
             else rbind (dhcpd_allocipaddr (startip sv) (endip sv) st1 w1) (\<lambda>(ip, st2, w2).
                  ret (ip, LEASETIME, st2, w2))))"

definition dhcpd_discover :: "dhcp_server_handle \<Rightarrow> dhcpd_state \<Rightarrow> world \<Rightarrow> (int \<times> dhcpd_state \<times> world) run" where
  "dhcpd_discover sv st w =
     rbind (discover_address sv st w) (\<lambda>(ipaddr, leasetime, st1, w1).
       if ipaddr = 0 then ret (ERROR, st1, w1)
       else rbind (Some (dhcpd_setlease (m_chaddr (ds_inpacket st1)) ipaddr OFFERTIME
                           (num_leases sv) (startip sv) st1 w1)) (\<lambda>(l, st2, w2).
              if l = None then ret (ERROR, st2, w2)
              else Some (dhcpd_sendoffer ipaddr sv
                     (case dhcpd_verifyreqleasetime st2 of None \<Rightarrow> leasetime | Some t \<Rightarrow> t) st2 w2)))"

text \<open>The reply to a request of a client that has slot \<open>i\<close>. The \<open>\<or>\<close> is the source's.\<close>

definition request_known :: "nat \<Rightarrow> dhcp_server_handle \<Rightarrow> dhcpd_state \<Rightarrow> u8" where
  "request_known i sv st =
     (let ipaddr = dhcp_leaseipaddr i (startip sv); o' = ds_opts st
      in if ds_optserverip o' \<noteq> 0 then
           (if ds_optserverip o' = ntohl (ds_serverip st)
               \<and> (ds_optreqip o' \<noteq> 0 \<or> ds_optreqip o' = ipaddr) then DHCPACK else DHCPNAK)
         else if ds_optreqip o' \<noteq> 0 then (if ipaddr = ds_optreqip o' then DHCPACK else DHCPNAK)
         else if le32 (htonl ipaddr) = m_ciaddr (ds_inpacket st) then DHCPACK else DHCPNAK)"

definition request_response ::
  "dhcp_server_handle \<Rightarrow> dhcpd_state \<Rightarrow> world \<Rightarrow> (u8 \<times> u32 \<times> dhcpd_state \<times> world) outcome" where
  "request_response sv st w =
     obind (dhcpd_findbymac (m_chaddr (ds_inpacket st)) (num_leases sv) st) (\<lambda>l. case l of
         Some i \<Rightarrow> Ret (request_known i sv st, dhcp_leaseipaddr i (startip sv), st, w)
       | None \<Rightarrow>
           (let r = ds_optreqip (ds_opts st)
            in if r \<noteq> 0 \<and> ds_optserverip (ds_opts st) = 0 then
                 obind (dhcpd_findbyipaddr r (startip sv) (endip sv) st) (\<lambda>l. case l of
                     Some i \<Rightarrow> obind (dhcpd_leaseexpired i st w) (\<lambda>(expired, st1, w1).
                       Ret (if expired then 0 else DHCPNAK, 0, st1, w1))
                   | None \<Rightarrow>
                       Ret (if r < startip sv \<or> r > endip sv then DHCPNAK else 0, 0, st, w))
               else Ret (0, 0, st, w)))"

definition dhcpd_request :: "dhcp_server_handle \<Rightarrow> dhcpd_state \<Rightarrow> world \<Rightarrow> (int \<times> dhcpd_state \<times> world) outcome" where
  "dhcpd_request sv st w =
     obind (request_response sv st w) (\<lambda>(response, ipaddr, st1, w1).
       if response = DHCPACK then
         obind (dhcpd_sendack ipaddr sv st1 w1) (\<lambda>(_, st2, w2). Ret (OK, st2, w2))
       else if response = DHCPNAK then
         obind (dhcpd_sendnak sv st1 w1) (\<lambda>(_, st2, w2). Ret (OK, st2, w2))
       else Ret (OK, st1, w1))"

definition dhcpd_decline :: "u32 \<Rightarrow> dhcpd_state \<Rightarrow> world \<Rightarrow> (int \<times> dhcpd_state \<times> world) outcome" where
  "dhcpd_decline num st w =
     obind (dhcpd_findbymac (m_chaddr (ds_inpacket st)) num st) (\<lambda>l. case l of
         None \<Rightarrow> Ret (OK, st, w)
       | Some i \<Rightarrow>
           (let (now, w1) = dhcpd_time w
            in Ret (OK, st\<lparr>ds_leases := (ds_leases st)[i := (ds_leases st ! i)
                      \<lparr>l_mac := replicate 6 0, l_expiry := now + DECLINETIME\<rparr>]\<rparr>, w1)))"

definition dhcpd_release :: "u32 \<Rightarrow> dhcpd_state \<Rightarrow> world \<Rightarrow> (int \<times> dhcpd_state \<times> world) outcome" where
  "dhcpd_release num st w =
     obind (dhcpd_findbymac (m_chaddr (ds_inpacket st)) num st) (\<lambda>l. case l of
         None \<Rightarrow> Ret (OK, st, w)
       | Some i \<Rightarrow> Ret (OK, st\<lparr>ds_leases := (ds_leases st)[i := zero_lease]\<rparr>, w))"

definition dhcpd_dispatch :: "dhcp_server_handle \<Rightarrow> dhcpd_state \<Rightarrow> world \<Rightarrow> (dhcpd_state \<times> world) run" where
  "dhcpd_dispatch sv st w =
     (let t = ds_optmsgtype (ds_opts st); fin = (\<lambda>(_, st', w'). ret (st', w'))
      in if t = DHCPDISCOVER then rbind (dhcpd_discover sv st w) fin
         else if t = DHCPREQUEST then rbind (Some (dhcpd_request sv st w)) fin
         else if t = DHCPDECLINE then rbind (Some (dhcpd_decline (num_leases sv) st w)) fin
         else if t = DHCPRELEASE then rbind (Some (dhcpd_release (num_leases sv) st w)) fin
         else ret (st, w))"

text \<open>The datagram overwrites the packet buffer; on an error other than EINTR (4) the socket is
  closed.\<close>

definition dhcpd_receive :: "int \<Rightarrow> dhcpd_state \<Rightarrow> world \<Rightarrow> dhcpd_state \<times> world" where
  "dhcpd_receive fd st w =
     (let (a, w1) = xc (Recv fd 548) w
      in if retv a < 0 then (st, if errno a \<noteq> 4 then xcu (Close fd) w1 else w1)
         else (st\<lparr>ds_inpacket := overlay (take (nat (retv a)) (outb a)) (ds_inpacket st)\<rparr>, w1))"

text \<open>One call of the watch: the datagram, the options, the message by its type. A failure to
  receive or to parse is only logged. The callback returns 1: the watch stays.\<close>

definition loop_handler :: "int \<Rightarrow> dhcp_server_handle \<Rightarrow> dhcpd_state \<Rightarrow> world \<Rightarrow> (int \<times> dhcpd_state \<times> world) run" where
  "loop_handler fd sv st w =
     (let (st1, w1) = dhcpd_receive fd st w
      in rbind (Some (dhcpd_parseoptions st1)) (\<lambda>(_, st2).
         rbind (dhcpd_dispatch sv st2 w1) (\<lambda>(st3, w2). ret (1, st3, w2))))"

subsection \<open>Starting the server\<close>

definition dhcpd_openlistener :: "string \<Rightarrow> dhcpd_state \<Rightarrow> world \<Rightarrow> int \<times> dhcpd_state \<times> world" where
  "dhcpd_openlistener ifname st w =
     (let (s, w1) = dhcpd_socket w
      in if s < 0 then (ERROR, st, w1)
         else let (r, w2) = xc (Ioctl s ''SIOCGIFADDR'' (ifr_name ifname)) w1
              in if retv r < 0 then (ERROR, st, xcu (Close s) w2)
                 else let st1 = st\<lparr>ds_serverip := ip_of (outb r)\<rparr>;
                          (b, w3) = xc (Bind s 0 67) w2
                      in if retv b < 0 then (ERROR, st1, xcu (Close s) w3) else (s, st1, w3))"

text \<open>The configuration of the application: addresses as strings. \<open>inet_addr\<close> is the C
  library's function, a parameter.\<close>

record dhcp_server_config =
  cf_wifi :: bool
  cf_start_addr :: string
  cf_num_leases :: u32
  cf_netmask :: string
  cf_gw_addr :: string
  cf_dns_addr :: "string list"

definition server_of_config :: "(string \<Rightarrow> u32) \<Rightarrow> dhcp_server_config \<Rightarrow> dhcp_server_handle" where
  "server_of_config inet_addr c =
     (let start = htonl (inet_addr (cf_start_addr c))
      in \<lparr>num_leases = cf_num_leases c, interface = (if cf_wifi c then ''wlan0'' else ''eth0''),
          startip = start, endip = start + cf_num_leases c - 1,
          netmask = inet_addr (cf_netmask c), gw_addr = inet_addr (cf_gw_addr c),
          dns_addr = map (\<lambda>s. if s = [] then 0 else inet_addr s) (cf_dns_addr c)\<rparr>)"

definition zero_state :: "u32 \<Rightarrow> dhcpd_state" where
  "zero_state num = \<lparr>ds_serverip = 0, ds_inpacket = zero_msg, ds_outpacket = zero_msg,
     ds_opts = zero_opts, ds_optend = None, ds_leases = replicate (unat num) zero_lease\<rparr>"

text \<open>The server, the socket, the watch id and the state. The sizes are those of 32-bit boards
  (\<^verbatim>\<open>struct lease_s\<close> has 12 bytes): an allocation of 0 bytes or of a size that wrapped
  is overrun when the leases are cleared.\<close>

definition dhcpd_run ::
  "(string \<Rightarrow> u32) \<Rightarrow> dhcp_server_config \<Rightarrow> world
     \<Rightarrow> (dhcp_server_handle \<times> int \<times> int \<times> dhcpd_state \<times> world) outcome" where
  "dhcpd_run inet_addr c w =
     (let (l, w1) = xc (ModRequest ''loop'') w;
          (a, w2) = xc (Malloc 28) w1
      in if retv a = 0 then Ub NullDeref
         else let (b, w3) = xc (Malloc 8) w2
              in if retv b = 0 then Ub NullDeref
                 else let sv = server_of_config inet_addr c;
                          (d, w4) = xc (Malloc (unat (num_leases sv) * 12 mod 2 ^ 32)) w3
                      in if retv d = 0 then Ub NullDeref
                         else if num_leases sv = 0 \<or> 2 ^ 32 \<le> unat (num_leases sv) * 12
                         then Ub OutOfBounds
                         else let (s, st, w5) = dhcpd_openlistener (interface sv) (zero_state (num_leases sv)) w4
                              in if retv l = 0 then Ub NullDeref
                                 else let (k, w6) = xc (AddFdWatch (nat (retv l)) s 57 (nat (retv a))) w5
                                      in Ret (sv, s, oval k, st, w6))"

end
