(* ===== verification/DhcpServerProps.thy ===== *)
theory DhcpServerProps
  imports DhcpServer
begin

section \<open>Properties of the DHCP server\<close>

text \<open>
  The packets the server builds, option by option; the parser against the encoding of options; the
  invariant of the lease table, that a valid lease of another client is never touched; termination
  of the handler.
\<close>

subsection \<open>Building replies\<close>

text \<open>\<open>built bs st\<close>: the outgoing options are \<open>bs\<close>, an END, and zeros.\<close>

definition built :: "bytes \<Rightarrow> dhcpd_state \<Rightarrow> bool" where
  "built bs st \<longleftrightarrow> length bs < 312 \<and> ds_optend st = Some (length bs)
     \<and> m_options (ds_outpacket st) = bs @ [255] @ replicate (311 - length bs) 0"

definition set_out :: "bytes \<Rightarrow> dhcpd_state \<Rightarrow> dhcpd_state" where
  "set_out bs st = st\<lparr>ds_outpacket := (ds_outpacket st)
     \<lparr>m_options := bs @ [255] @ replicate (311 - length bs) 0\<rparr>, ds_optend := Some (length bs)\<rparr>"

lemma built_set_out [simp]: "length bs < 312 \<Longrightarrow> built bs (set_out bs st)"
  by (simp add: built_def set_out_def)

lemma set_out_set_out [simp]: "set_out bs (set_out cs st) = set_out bs st"
  by (simp add: set_out_def)

lemma addoption_append:
  assumes "built bs st" and "1 < length option" and "length option = unat (option ! 1) + 2"
    and "length bs + length option < 312"
  shows "dhcpd_addoption option st = Ret (int (length option), set_out (bs @ option) st)"
proof -
  let ?n = "length bs" and ?k = "length option"
  let ?o = "bs @ [255] @ replicate (311 - ?n) 0"
  have o: "m_options (ds_outpacket st) = ?o" and e: "ds_optend st = Some ?n"
    using assms(1) by (auto simp: built_def)
  have len: "length ?o = 312" using assms(1) by (simp add: built_def)
  have w1: "wr_n ?o ?n option = Ret (bs @ option @ drop (?n + ?k) ?o)"
    using assms(4) len by (simp add: wr_n_def)
  have d: "drop (?n + ?k) ?o = replicate (312 - ?n - ?k) 0"
    using assms(2,4) by (cases ?k) auto
  have s: "312 - ?n - ?k = Suc (311 - ?n - ?k)" using assms(4) by simp
  have w2: "wr_n (bs @ option @ replicate (312 - ?n - ?k) 0) (?n + ?k) [255]
      = Ret ((bs @ option) @ [255] @ replicate (311 - length (bs @ option)) 0)"
    using assms(4) by (simp add: wr_n_def s)
  have r: "rd_n option 0 ?k = Ret option" by (simp add: rd_n_def)
  have rd1: "rd option 1 = Ret (option ! 1)" using assms(2) by simp
  have c: "- int ?n + int ?k + 1 < 312" using assms(3) unat8_less [of "option ! 1"] by linarith
  show ?thesis
    unfolding dhcpd_addoption_def e option.case rd1 obind.simps Let_def o assms(3) [symmetric]
    by (simp only: c if_True r w1 d w2 obind.simps) (simp add: set_out_def)
qed

lemma addoption8 [simp]:
  "built bs st \<Longrightarrow> length bs + 3 < 312
     \<Longrightarrow> dhcpd_addoption8 code v st = Ret (3, set_out (bs @ [code, 1, v]) st)"
  using addoption_append [of bs st "[code, 1, v]"] by (simp add: dhcpd_addoption8_def)

lemma addoption32 [simp]:
  assumes "built bs st" and "length bs + 6 < 312"
  shows "dhcpd_addoption32 code v st = Ret (6, set_out (bs @ [code, 4] @ le32 v) st)"
    and "dhcp_addoption32p code v st = Ret (6, set_out (bs @ [code, 4] @ le32 v) st)"
  using addoption_append [of bs st "[code, 4] @ le32 v"] assms
  by (simp_all add: dhcpd_addoption32_def dhcp_addoption32p_def)

lemma addoption_set_out [simp]:
  assumes "length bs + 6 < 312"
  shows "dhcpd_addoption32 code v (set_out bs st) = Ret (6, set_out (bs @ [code, 4] @ le32 v) st)"
    and "dhcp_addoption32p code v (set_out bs st) = Ret (6, set_out (bs @ [code, 4] @ le32 v) st)"
    and "dhcpd_addoption8 code w (set_out bs st) = Ret (3, set_out (bs @ [code, 1, w]) st)"
  using addoption32 [of bs "set_out bs st"] addoption8 [of bs "set_out bs st"] assms by simp_all

text \<open>What a reply of each kind holds.\<close>

definition opt32 :: "u8 \<Rightarrow> u32 \<Rightarrow> bytes" where
  "opt32 code v = [code, 4] @ le32 v"

definition reply_start :: "u8 \<Rightarrow> u32 \<Rightarrow> bytes" where
  "reply_start mtype serverip = MAGIC @ [53, 1, mtype] @ opt32 54 serverip"

definition reply_lease :: "u32 \<Rightarrow> u32 \<Rightarrow> u32 \<Rightarrow> u32 list \<Rightarrow> bytes" where
  "reply_lease leasetime nm gw dns = opt32 51 (htonl leasetime) @ opt32 1 nm @ opt32 3 gw
     @ concat (map (opt32 6) (filter (\<lambda>d. d \<noteq> 0) dns))"

lemma length_opt32 [simp]: "length (opt32 c v) = 6"
  by (simp add: opt32_def)

lemma length_reply_start [simp]: "length (reply_start t s) = 13"
  by (simp add: reply_start_def MAGIC_def)

lemma length_opt32s: "length (concat (map (opt32 c) ds)) = 6 * length ds"
  by (induction ds) auto

text \<open>The outgoing packet that answers an incoming one, before the options.\<close>

definition reply_packet :: "dhcpd_state \<Rightarrow> dhcpmsg" where
  "reply_packet st = zero_msg\<lparr>m_op := 2, m_htype := m_htype (ds_inpacket st),
     m_hlen := m_hlen (ds_inpacket st), m_xid := m_xid (ds_inpacket st),
     m_chaddr := m_chaddr (ds_inpacket st)\<rparr>"

lemma initpacket_built:
  "dhcpd_initpacket t st = Ret (set_out (reply_start t (ds_serverip st)) (st\<lparr>ds_outpacket := reply_packet st\<rparr>))"
proof -
  let ?o = "(reply_packet st)\<lparr>m_options := MAGIC @ [255] @ drop 5 (m_options (reply_packet st))\<rparr>"
  let ?st = "st\<lparr>ds_outpacket := ?o, ds_optend := Some 4\<rparr>"
  have b: "built MAGIC ?st"
    by (simp add: built_def reply_packet_def zero_msg_def MAGIC_def)
  have z: "replicate 4 0 = le32 0"
    by (simp add: le32_def) (simp add: numeral_eq_Suc)
  have len: "length MAGIC = 4" by (simp add: MAGIC_def)
  have a8: "dhcpd_addoption8 53 t ?st = Ret (3, set_out (MAGIC @ [53, 1, t]) ?st)"
    by (rule addoption8 [OF b]) (simp add: len)
  have a32: "dhcpd_addoption32 54 v (set_out (MAGIC @ [53, 1, t]) ?st)
      = Ret (6, set_out ((MAGIC @ [53, 1, t]) @ [54, 4] @ le32 v) ?st)" for v
    by (rule addoption_set_out(1)) (simp add: len)
  have sv: "ds_serverip (set_out bs ?st) = ds_serverip st" for bs
    by (simp add: set_out_def)
  have "dhcpd_initpacket t st =
      obind (dhcpd_addoption8 53 t ?st) (\<lambda>(_, st1).
      obind (dhcpd_addoption32 54 (ds_serverip st1) st1) (\<lambda>(_, st2). Ret st2))"
    by (simp add: dhcpd_initpacket_def Let_def reply_packet_def zero_msg_def z)
  also have "\<dots> = Ret (set_out (MAGIC @ [53, 1, t] @ [54, 4] @ le32 (ds_serverip st)) ?st)"
    by (simp only: a8 a32 sv obind.simps prod.case append_assoc)
  also have "\<dots> = Ret (set_out (reply_start t (ds_serverip st)) (st\<lparr>ds_outpacket := reply_packet st\<rparr>))"
    by (simp add: reply_start_def opt32_def set_out_def reply_packet_def)
  finally show ?thesis .
qed

lemma add_dns_built:
  assumes "built bs st" and "length bs + 6 * length dns < 312"
  shows "add_dns dns st = Ret (set_out (bs @ concat (map (opt32 6) (filter (\<lambda>d. d \<noteq> 0) dns))) st)"
  using assms
proof (induction dns arbitrary: bs st)
  case Nil
  then show ?case by (simp add: built_def set_out_def)
next
  case (Cons d ds)
  show ?case
  proof (cases "d = 0")
    case True
    with Cons show ?thesis by simp
  next
    case False
    have "built (bs @ opt32 6 d) (set_out (bs @ opt32 6 d) st)" using Cons.prems by simp
    from Cons.IH [OF this] False Cons.prems show ?thesis by (simp add: opt32_def)
  qed
qed

lemma add_lease_options_built:
  assumes "built bs st" and "length bs + 18 + 6 * length dns < 312"
  shows "add_lease_options t nm gw dns st = Ret (set_out (bs @ reply_lease t nm gw dns) st)"
proof -
  let ?b1 = "bs @ opt32 51 (htonl t)"
  let ?b2 = "?b1 @ opt32 1 nm"
  let ?b3 = "?b2 @ opt32 3 gw"
  have "dhcpd_addoption32 51 (htonl t) st = Ret (6, set_out ?b1 st)"
    using assms by (simp add: opt32_def)
  moreover have "dhcpd_addoption32 1 nm (set_out ?b1 st) = Ret (6, set_out ?b2 st)"
    using assms addoption_set_out(1) [of ?b1 1 nm st] by (simp add: opt32_def)
  moreover have "dhcpd_addoption32 3 gw (set_out ?b2 st) = Ret (6, set_out ?b3 st)"
    using assms addoption_set_out(1) [of ?b2 3 gw st] by (simp add: opt32_def)
  moreover have "add_dns dns (set_out ?b3 st)
      = Ret (set_out (?b3 @ concat (map (opt32 6) (filter (\<lambda>d. d \<noteq> 0) dns))) st)"
    using add_dns_built [of ?b3 "set_out ?b3 st" dns] assms(2) by simp
  ultimately show ?thesis by (simp add: add_lease_options_def reply_lease_def)
qed

subsection \<open>Parsing what was encoded\<close>

definition enc_opt :: "u8 \<times> bytes \<Rightarrow> bytes" where
  "enc_opt x = [fst x, word_of_nat (length (snd x))] @ snd x"

text \<open>An option a sender may use: not a pad, an overload or an end; with enough data.\<close>

definition good_opt :: "u8 \<times> bytes \<Rightarrow> bool" where
  "good_opt x \<longleftrightarrow> fst x \<notin> {0, 52, 255} \<and> length (snd x) < 256
     \<and> (if fst x \<in> {50, 51, 54} then 4 \<le> length (snd x) else True)
     \<and> (if fst x = 53 then 1 \<le> length (snd x) else True)"

text \<open>What an option means: the abstract reading of the options the server understands.\<close>

definition apply_opt :: "u8 \<times> bytes \<Rightarrow> dhcpd_opts \<Rightarrow> dhcpd_opts" where
  "apply_opt x o' =
     (let be32 = of_le32 (rev (take 4 (snd x)))
      in if fst x = 50 then o'\<lparr>ds_optreqip := be32\<rparr>
         else if fst x = 51 then o'\<lparr>ds_optleasetime := be32\<rparr>
         else if fst x = 53 then o'\<lparr>ds_optmsgtype := snd x ! 0\<rparr>
         else if fst x = 54 then o'\<lparr>ds_optserverip := be32\<rparr>
         else o')"

lemma rd_drop: "k + i < length bs \<Longrightarrow> rd bs (k + i) = Ret (drop k bs ! i)"
  by simp

lemma known_option_store:
  assumes "good_opt (c, d)" and "drop (j + 2) bs = d @ rest" and "rest \<noteq> []"
    and "known_option c = Some (lo, store)"
  shows "lo \<le> int (length d) + 2 \<and> store bs (j + 2) p = Ret (p\<lparr>p_opts := apply_opt (c, d) (p_opts p)\<rparr>)"
proof -
  have l: "j + 2 + length d < length bs" using assms(2,3)
    by (metis add_less_cancel_left drop_append length_append length_drop length_greater_0_conv
        less_add_same_cancel1 less_diff_conv add.commute)
  have n: "rd bs (j + 2) = Ret (d ! 0)" if "1 \<le> length d"
    using that l assms(2) rd_drop [of "j + 2" 0 bs] by (cases d) auto
  have r: "rd32 bs (j + 2) = Ret (of_le32 (rev (take 4 d)))" if "4 \<le> length d"
    using that l assms(2) htonl_of_le32 [of "take 4 d"] by (simp add: rd32_def rd_n_def)
  show ?thesis
    using assms(1,4) n r
    by (auto simp: known_option_def good_opt_def apply_opt_def Let_def split: if_split_asm)
qed

lemma take_option_stores:
  assumes "good_opt (c, d)" and "length (m_options m) = 312" and "rest \<noteq> []"
    and "p_field p = 0" and "p_rem p = 312 - int (p_off p)"
    and os: "drop (p_off p) (m_options m) = enc_opt (c, d) @ rest"
  shows "take_option m c p = Ret (p\<lparr>p_opts := apply_opt (c, d) (p_opts p), p_optlen := int (length d) + 2\<rparr>)"
proof -
  let ?k = "p_off p"
  have len: "length (m_options m) - ?k = 2 + length d + length rest"
    using arg_cong [OF os, of length] by (simp add: enc_opt_def)
  have k: "?k + 2 + length d < 312" using len assms(2,3) by (cases rest) auto
  have u: "unat (word_of_nat (length d) :: u8) = length d"
    using assms(1) by (simp add: good_opt_def unat_of_nat)
  then have u: "uint (word_of_nat (length d) :: u8) = int (length d)" by (metis uint_nat)
  have l: "rd (m_options m) (?k + 1) = Ret (word_of_nat (length d))"
    using rd_drop [of ?k 1 "m_options m"] k assms(2) os by (simp add: enc_opt_def)
  have "drop (?k + 2) (m_options m) = drop 2 (drop ?k (m_options m))" by simp
  then have d: "drop (?k + 2) (m_options m) = d @ rest" using os by (simp add: enc_opt_def)
  show ?thesis
  proof (cases "known_option c")
    case None
    then have "apply_opt (c, d) o' = o'" for o'
      by (auto simp: known_option_def apply_opt_def split: if_split_asm)
    then show ?thesis
      using None l assms(4) u by (simp add: take_option_def Let_def field_bytes_def)
  next
    case (Some x)
    obtain lo store where x: "x = (lo, store)" by (cases x)
    from known_option_store [OF assms(1) d assms(3) Some [unfolded x], of p]
    have s: "lo \<le> int (length d) + 2" "store (m_options m) (?k + 2) p
        = Ret (p\<lparr>p_opts := apply_opt (c, d) (p_opts p)\<rparr>)" by auto
    have "int (length d) + 2 < p_rem p" using k assms(5) by linarith
    then show ?thesis
      using Some x s l assms(4) u by (simp add: take_option_def Let_def field_bytes_def)
  qed
qed

lemma parse_step_stores:
  assumes "good_opt (c, d)" and "length (m_options m) = 312" and "rest \<noteq> []"
    and "p_field p = 0" and "p_rem p = 312 - int (p_off p)"
    and os: "drop (p_off p) (m_options m) = enc_opt (c, d) @ rest"
  shows "parse_step m p = Ret (More (p\<lparr>p_off := p_off p + (2 + length d),
     p_rem := 312 - int (p_off p + (2 + length d)), p_optlen := int (length d) + 2,
     p_opts := apply_opt (c, d) (p_opts p)\<rparr>))"
proof -
  have len: "length (m_options m) - p_off p = 2 + length d + length rest"
    using arg_cong [OF os, of length] by (simp add: enc_opt_def)
  have k: "p_off p + 2 + length d < 312" using len assms(2,3) by (cases rest) auto
  have "rd (m_options m) (p_off p) = Ret c"
    using rd_drop [of "p_off p" 0 "m_options m"] k assms(2) os by (simp add: enc_opt_def)
  moreover have "c \<noteq> 0" "c \<noteq> 255" using assms(1) by (auto simp: good_opt_def)
  ultimately have "parse_option m p
      = Ret (More (p\<lparr>p_opts := apply_opt (c, d) (p_opts p), p_optlen := int (length d) + 2\<rparr>))"
    using take_option_stores [OF assms] assms(4) by (simp add: parse_option_def field_bytes_def)
  then show ?thesis using k assms(5) by (simp add: parse_step_def Let_def)
qed

lemma parse_loop_options:
  assumes "list_all good_opt opts" and "length (m_options m) = 312" and "p_over p = 0"
    and "p_field p = 0" and "p_rem p = 312 - int (p_off p)"
    and "drop (p_off p) (m_options m) = concat (map enc_opt opts) @ 255 # rest"
  shows "\<exists>p'. parse_loop m p = Ret (True, p') \<and> p_opts p' = fold apply_opt opts (p_opts p)"
  using assms
proof (induction opts arbitrary: p)
  case Nil
  then have l: "p_off p < length (m_options m)"
    by (metis append_Nil concat.simps(1) drop_all list.distinct(1) list.simps(8) not_le)
  with Nil.prems have "rd (m_options m) (p_off p) = Ret 255"
    using rd_drop [of "p_off p" 0 "m_options m"] by simp
  with Nil.prems have "parse_step m p = Ret (Done True p)"
    by (simp add: parse_step_def parse_option_def field_bytes_def)
  then show ?case by (subst parse_loop.simps) simp
next
  case (Cons x opts)
  obtain c d where x: "x = (c, d)" by (cases x)
  let ?q = "p\<lparr>p_off := p_off p + (2 + length d),
     p_rem := 312 - int (p_off p + (2 + length d)), p_optlen := int (length d) + 2,
     p_opts := apply_opt (c, d) (p_opts p)\<rparr>"
  have os: "drop (p_off p) (m_options m) = enc_opt (c, d) @ (concat (map enc_opt opts) @ 255 # rest)"
    using Cons.prems(6) x by simp
  have s: "parse_step m p = Ret (More ?q)"
    using Cons.prems x by (intro parse_step_stores [OF _ _ _ _ _ os]) auto
  have "drop (p_off p + (2 + length d)) (m_options m) = drop (2 + length d) (drop (p_off p) (m_options m))"
    by (simp add: add.commute)
  also have "\<dots> = concat (map enc_opt opts) @ 255 # rest"
    unfolding os by (simp add: enc_opt_def)
  finally have "\<exists>p'. parse_loop m ?q = Ret (True, p') \<and> p_opts p' = fold apply_opt opts (p_opts ?q)"
    using Cons.prems by (intro Cons.IH) auto
  then show ?case by (subst parse_loop.simps) (simp add: s x)
qed

text \<open>C6. The parser reads back what was encoded: for a message whose options are the magic cookie,
  any list of well-formed options that fits, an END and anything after it, it succeeds and yields
  the fields that the options say, the last one winning; the rest of the state is untouched.\<close>

theorem dhcpd_parseoptions_decodes:
  assumes "list_all good_opt opts" and "length (m_options (ds_inpacket st)) = 312"
    and "m_options (ds_inpacket st) = MAGIC @ concat (map enc_opt opts) @ [255] @ rest"
  shows "dhcpd_parseoptions st
     = Ret (True, st\<lparr>ds_opts := fold apply_opt opts zero_opts, ds_optend := None\<rparr>)"
proof -
  have "drop (p_off parse_start) (m_options (ds_inpacket st)) = concat (map enc_opt opts) @ 255 # rest"
    by (simp add: parse_start_def assms(3) MAGIC_def)
  from parse_loop_options [OF assms(1,2) _ _ _ this]
  obtain p' where "parse_loop (ds_inpacket st) parse_start = Ret (True, p')"
    "p_opts p' = fold apply_opt opts zero_opts"
    by (auto simp: parse_start_def)
  moreover have "take 4 (m_options (ds_inpacket st)) = MAGIC"
    by (simp add: assms(3)) (simp add: MAGIC_def)
  ultimately show ?thesis by (simp add: dhcpd_parseoptions_def)
qed

text \<open>A DHCPREQUEST as \<^verbatim>\<open>dhcpc.c\<close> sends it, for address 192.168.1.4.\<close>

definition sample_request :: dhcpmsg where
  "sample_request = zero_msg\<lparr>m_op := 1, m_xid := [0xad, 0xde, 0x12, 0x23], m_chaddr := [2, 0, 0, 0, 0, 7] @ replicate 10 0,
     m_options := MAGIC @ concat (map enc_opt [(53, [3]), (54, [192, 168, 1, 1]), (50, [192, 168, 1, 4])])
                    @ [255] @ replicate 292 0\<rparr>"

theorem dhcpd_parseoptions_decodes_witness:
  "\<exists>st. dhcpd_parseoptions ((zero_state 4)\<lparr>ds_inpacket := sample_request\<rparr>) = Ret (True, st)
     \<and> ds_opts st = \<lparr>ds_optmsgtype = 3, ds_optreqip = 0xC0A80104, ds_optserverip = 0xC0A80101,
                      ds_optleasetime = 0\<rparr>"
proof -
  let ?opts = "[(53, [3]), (54, [192, 168, 1, 1]), (50, [192, 168, 1, 4])] :: (u8 \<times> bytes) list"
  let ?st = "(zero_state 4)\<lparr>ds_inpacket := sample_request\<rparr>"
  have g: "list_all good_opt ?opts" by (simp add: good_opt_def)
  have l: "length (m_options (ds_inpacket ?st)) = 312"
    by (simp add: sample_request_def enc_opt_def MAGIC_def)
  have o: "m_options (ds_inpacket ?st) = MAGIC @ concat (map enc_opt ?opts) @ [255] @ replicate 292 0"
    by (simp add: sample_request_def)
  from dhcpd_parseoptions_decodes [OF g l o] show ?thesis
    by (simp add: zero_opts_def apply_opt_def)
qed

subsection \<open>What the steps do to the lease table\<close>

text \<open>\<open>clock_below e w\<close>: no reading of the clock from now on reaches \<open>e\<close>.\<close>

definition clock_below :: "int \<Rightarrow> world \<Rightarrow> bool" where
  "clock_below e w \<longleftrightarrow> (\<forall>cs. fst (dhcpd_time (w\<lparr>hist := hist w @ cs\<rparr>)) < e)"

lemma clock_below_now: "clock_below e w \<Longrightarrow> fst (dhcpd_time w) < e"
  unfolding clock_below_def by (drule spec [of _ "[]"]) simp

lemma clock_below_later: "clock_below e w \<Longrightarrow> later w w' \<Longrightarrow> clock_below e w'"
proof -
  assume c: "clock_below e w" and "later w w'"
  then obtain cs where w': "w' = w\<lparr>hist := hist w @ cs\<rparr>"
    by (cases w, cases w') (auto simp: later_def)
  from c show ?thesis unfolding clock_below_def w' by (auto dest: spec [of _ "cs @ _"])
qed

lemma later_dhcpd_time [simp, intro]: "later w (snd (dhcpd_time w))"
  by (auto simp: dhcpd_time_def walk_simps)

lemma later_verify [simp, intro]: "later w (snd (verify_ipv4addr_in_used a w))"
  by (auto simp: verify_ipv4addr_in_used_def walk_simps)

lemma later_arpupdate [simp, intro]: "later w (dhcpd_arpupdate ip mac n w)"
  by (auto simp: dhcpd_arpupdate_def set_arpmapping_def walk_simps)

lemma later_dhcpd_socket [simp, intro]: "later w (snd (dhcpd_socket w))"
  by (auto simp: dhcpd_socket_def walk_simps)

lemma later_openresponder [simp, intro]: "later w (snd (dhcpd_openresponder ip w))"
  using later_dhcpd_socket [of w] by (auto simp: dhcpd_openresponder_def walk_simps)

lemma later_dest [simp, intro]: "later w (snd (dhcpd_dest b n st w))"
  by (auto simp: dhcpd_dest_def Let_def)

lemma later_sendpacket: "dhcpd_sendpacket b n st w = Ret (r, w') \<Longrightarrow> later w w'"
  using later_trans [OF later_dest [of w b n st] later_openresponder]
  by (auto simp: dhcpd_sendpacket_def walk_simps split: option.splits if_splits)

text \<open>A lease that is allocated and will not expire while the message is handled.\<close>

definition protected :: "nat \<Rightarrow> dhcpd_state \<Rightarrow> world \<Rightarrow> bool" where
  "protected i st w \<longleftrightarrow> i < length (ds_leases st) \<and> l_allocated (ds_leases st ! i)
     \<and> clock_below (l_expiry (ds_leases st ! i)) w"

definition same_input :: "dhcpd_state \<Rightarrow> dhcpd_state \<Rightarrow> bool" where
  "same_input st st' \<longleftrightarrow> ds_inpacket st' = ds_inpacket st \<and> ds_opts st' = ds_opts st
     \<and> ds_serverip st' = ds_serverip st"

definition no_mac :: bytes where
  "no_mac = replicate 6 0"

text \<open>A step that only clears slots: each is kept, or was not protected and loses its owner.\<close>

definition clears :: "dhcpd_state \<Rightarrow> world \<Rightarrow> dhcpd_state \<Rightarrow> world \<Rightarrow> bool" where
  "clears st w st' w' \<longleftrightarrow> later w w' \<and> same_input st st'
     \<and> length (ds_leases st') = length (ds_leases st)
     \<and> (\<forall>i<length (ds_leases st). ds_leases st' ! i = ds_leases st ! i
          \<or> (\<not> protected i st w \<and> l_mac (ds_leases st' ! i) = no_mac))"

lemma clears_refl: "later w w' \<Longrightarrow> clears st w st w'"
  by (simp add: clears_def same_input_def)

lemma clears_protected: "clears st w st1 w1 \<Longrightarrow> protected i st w \<Longrightarrow> protected i st1 w1"
  unfolding clears_def protected_def by (metis clock_below_later)

lemma clears_trans:
  assumes "clears st w st1 w1" and "clears st1 w1 st2 w2"
  shows "clears st w st2 w2"
  using assms clears_protected [OF assms(1)]
  unfolding clears_def same_input_def by (metis later_trans)

lemma clears_update:
  assumes "later w w'" and "\<not> protected i st w" and "l_mac x = no_mac"
  shows "clears st w (st\<lparr>ds_leases := (ds_leases st)[i := x]\<rparr>) w'"
proof -
  have "(ds_leases st)[i := x] ! j = ds_leases st ! j
      \<or> (\<not> protected j st w \<and> l_mac ((ds_leases st)[i := x] ! j) = no_mac)"
    if "j < length (ds_leases st)" for j
    using assms(2,3) that by (cases "j = i") simp_all
  with assms(1) show ?thesis by (simp add: clears_def same_input_def)
qed

lemma leaseexpired_clears:
  assumes "dhcpd_leaseexpired i st w = Ret (b, st', w')"
  shows "clears st w st' w' \<and> (b \<longrightarrow> \<not> protected i st w) \<and> (\<not> b \<longrightarrow> st' = st)"
proof -
  have "clock_below (l_expiry (ds_leases st ! i)) w \<Longrightarrow> fst (dhcpd_time w) < l_expiry (ds_leases st ! i)"
    by (rule clock_below_now)
  moreover have "l_mac zero_lease = no_mac" by (simp add: zero_lease_def no_mac_def)
  ultimately show ?thesis
    using assms clears_update [of w "snd (dhcpd_time w)" i st zero_lease]
      clears_refl [of w "snd (dhcpd_time w)" st]
    by (auto simp: dhcpd_leaseexpired_def case_prod_beta Let_def protected_def split: if_splits)
qed

lemma findbyipaddr_cases:
  assumes "dhcpd_findbyipaddr ip start stop st = Ret l"
  shows "(\<forall>i. l = Some i \<longrightarrow> i = unat (ip - start))
    \<and> (l = None \<longrightarrow> start \<le> ip \<longrightarrow> ip \<le> stop \<longrightarrow> \<not> protected (unat (ip - start)) st w)"
  using assms by (auto simp: dhcpd_findbyipaddr_def protected_def Let_def split: if_splits)

lemma verifyreqip_clears:
  assumes "dhcpd_verifyreqip start stop st w = Ret (b, st', w')"
  shows "clears st w st' w' \<and> (b \<longrightarrow> \<not> protected (unat (ds_optreqip (ds_opts st') - start)) st w)"
proof (cases "start \<le> ds_optreqip (ds_opts st) \<and> ds_optreqip (ds_opts st) \<le> stop")
  case True
  with assms obtain l where l: "dhcpd_findbyipaddr (ds_optreqip (ds_opts st)) start stop st = Ret l"
    "(case l of None \<Rightarrow> Ret (True, st, w) | Some i \<Rightarrow> dhcpd_leaseexpired i st w) = Ret (b, st', w')"
    by (auto simp: dhcpd_verifyreqip_def Let_def obind_eq_Ret)
  show ?thesis
  proof (cases l)
    case None
    with l findbyipaddr_cases [OF l(1), of w] True show ?thesis
      by (auto intro: clears_refl)
  next
    case (Some i)
    with l have e: "dhcpd_leaseexpired i st w = Ret (b, st', w')" by simp
    from leaseexpired_clears [OF e] findbyipaddr_cases [OF l(1)] Some show ?thesis
      by (auto simp: clears_def same_input_def)
  qed
next
  case False
  with assms show ?thesis by (auto simp: dhcpd_verifyreqip_def Let_def intro: clears_refl)
qed

lemma alloc_take_clears:
  assumes "alloc_take ip start st w = Ret (ip', st', w')" and "\<not> protected (unat (ip - start)) st w"
  shows "ip' = ip \<and> clears st w st' w'"
  using assms clears_update [of w "snd (dhcpd_time w)" "unat (ip - start)" st]
  by (auto simp: alloc_take_def Let_def case_prod_beta no_mac_def split: if_splits)

text \<open>The loop over the pool, for a pool that does not end at the last address.\<close>

definition alloc_result :: "u32 \<Rightarrow> u32 \<Rightarrow> dhcpd_state \<Rightarrow> world \<Rightarrow> u32 \<times> dhcpd_state \<times> world \<Rightarrow> bool" where
  "alloc_result start stop st w r =
     (case r of (ip, st', w') \<Rightarrow> clears st w st' w'
        \<and> (ip \<noteq> 0 \<longrightarrow> start \<le> ip \<and> ip \<le> stop \<and> \<not> protected (unat (ip - start)) st w))"

lemma alloc_result_trans:
  "clears st w st1 w1 \<Longrightarrow> alloc_result start stop st1 w1 r
     \<Longrightarrow> (\<And>i. protected i st w \<Longrightarrow> protected i st1 w1) \<Longrightarrow> alloc_result start stop st w r"
  by (auto simp: alloc_result_def dest: clears_trans)

lemma protected_later: "protected i st w \<Longrightarrow> later w w' \<Longrightarrow> protected i st w'"
  by (auto simp: protected_def clock_below_later)

lemma alloc_loop_result:
  assumes "start \<le> ip" and stop: "stop \<noteq> 0xFFFFFFFF"
  shows "\<exists>out. alloc_loop ip start stop st w = Some out
     \<and> (\<forall>r. out = Ret r \<longrightarrow> alloc_result start stop st w r)"
  using assms(1)
proof (induction "unat stop + 1 - unat ip" arbitrary: ip st w rule: less_induct)
  case less
  let ?v = "verify_ipv4addr_in_used (htonl ip) w"
  have more: "\<exists>out. alloc_loop (ip + 1) start stop st' w' = Some out
      \<and> (\<forall>r. out = Ret r \<longrightarrow> alloc_result start stop st w r)"
    if "ip \<le> stop" "clears st w st' w'" "\<And>i. protected i st w \<Longrightarrow> protected i st' w'" for st' w'
  proof -
    have "unat stop + 1 - unat (ip + 1) < unat stop + 1 - unat ip"
      using that(1) next_address(1) [OF that(1) stop] by (simp add: word_le_nat_alt)
    from less.hyps [OF this, of st' w'] next_address(2) [OF that(1) stop] less.prems that(2,3)
    show ?thesis by (meson alloc_result_trans order_trans)
  qed
  have vv: "later w (snd ?v)" by simp
  show ?case
  proof (cases "ip \<le> stop")
    case False
    then show ?thesis by (subst alloc_loop.simps) (auto simp: alloc_result_def intro: clears_refl)
  next
    case le: True
    show ?thesis
    proof (cases "fst ?v = OK \<or> unat ip mod 256 = 0 \<or> unat ip mod 256 = 255")
      case True
      then have "alloc_loop ip start stop st w = alloc_loop (ip + 1) start stop st (snd ?v)"
        using le by (subst alloc_loop.simps) (auto split: if_splits)
      with more [OF le clears_refl [OF vv]] protected_later [OF _ vv] show ?thesis by metis
    next
      case False
      show ?thesis
      proof (cases "dhcpd_findbyipaddr ip start stop st")
        case (Ub f)
        with le False show ?thesis by (subst alloc_loop.simps) simp
      next
        case l: (Ret l)
        show ?thesis
        proof (cases l)
          case None
          have n: "\<not> protected (unat (ip - start)) st w'" for w'
            using findbyipaddr_cases [OF l] None le less.prems by blast
          have "alloc_result start stop st w r" if t: "alloc_take ip start st (snd ?v) = Ret r" for r
          proof -
            obtain ip' st' w' where r: "r = (ip', st', w')" by (metis prod_cases3)
            from alloc_take_clears [OF t [unfolded r] n] n le less.prems clears_refl [OF vv, of st]
            show ?thesis by (auto simp: r alloc_result_def intro: clears_trans)
          qed
          with le False l None show ?thesis by (subst alloc_loop.simps) simp
        next
          case (Some i)
          have i: "i = unat (ip - start)" using findbyipaddr_cases [OF l] Some by blast
          show ?thesis
          proof (cases "dhcpd_leaseexpired i st (snd ?v)")
            case (Ub f)
            with le False l Some show ?thesis by (subst alloc_loop.simps) simp
          next
            case e: (Ret x)
            obtain b st1 w2 where x: "x = (b, st1, w2)" by (metis prod_cases3)
            note c = leaseexpired_clears [OF e [unfolded x]]
            have c': "clears st w st1 w2" using clears_trans [OF clears_refl [OF vv]] c by blast
            show ?thesis
            proof (cases b)
              case True
              have n0: "\<not> protected i st w" using c True protected_later [OF _ vv] by blast
              have n: "\<not> protected i st1 w2"
                using e x True by (auto simp: dhcpd_leaseexpired_def case_prod_beta Let_def protected_def
                    zero_lease_def split: if_splits)
              have "alloc_result start stop st w r" if t: "alloc_take ip start st1 w2 = Ret r" for r
              proof -
                obtain ip' st' w' where r: "r = (ip', st', w')" by (metis prod_cases3)
                from alloc_take_clears [OF t [unfolded r]] n n0 c' le less.prems i show ?thesis
                  by (auto simp: r alloc_result_def dest: clears_trans)
              qed
              with le False l Some e x True show ?thesis by (subst alloc_loop.simps) simp
            next
              case b: False
              have "\<And>j. protected j st w \<Longrightarrow> protected j st1 w2"
                using c b c' by (auto simp: clears_def intro: protected_later)
              from more [OF le c' this] le False l Some e x b show ?thesis
                by (subst alloc_loop.simps) simp
            qed
          qed
        qed
      qed
    qed
  qed
qed

subsection \<open>The owner of each slot\<close>

definition macs_unique :: "dhcpd_state \<Rightarrow> bool" where
  "macs_unique st \<longleftrightarrow> (\<forall>i<length (ds_leases st). \<forall>j<length (ds_leases st).
     i \<noteq> j \<longrightarrow> l_mac (ds_leases st ! i) = l_mac (ds_leases st ! j) \<longrightarrow> l_mac (ds_leases st ! i) = no_mac)"

text \<open>Slot \<open>x\<close> is the only one client \<open>c\<close> may have.\<close>

definition only_slot :: "bytes \<Rightarrow> nat \<Rightarrow> dhcpd_state \<Rightarrow> bool" where
  "only_slot c x st \<longleftrightarrow> (\<forall>i<length (ds_leases st). i \<noteq> x \<longrightarrow> l_mac (ds_leases st ! i) = c \<longrightarrow> c = no_mac)"

text \<open>The server serves client \<open>c\<close>: the packets read stay, the table changes only in slots of
  \<open>c\<close> or in slots that are not protected.\<close>

definition serves :: "bytes \<Rightarrow> dhcpd_state \<Rightarrow> world \<Rightarrow> dhcpd_state \<Rightarrow> world \<Rightarrow> bool" where
  "serves c st w st' w' \<longleftrightarrow> later w w' \<and> same_input st st'
     \<and> length (ds_leases st') = length (ds_leases st)
     \<and> (\<forall>i<length (ds_leases st). protected i st w \<longrightarrow> l_mac (ds_leases st ! i) \<noteq> c
          \<longrightarrow> ds_leases st' ! i = ds_leases st ! i)
     \<and> (macs_unique st \<longrightarrow> macs_unique st')"

lemma clears_macs_unique: "clears st w st' w' \<Longrightarrow> macs_unique st \<Longrightarrow> macs_unique st'"
  unfolding clears_def macs_unique_def by metis

lemma clears_only_slot:
  "clears st w st' w' \<Longrightarrow> only_slot c x st \<Longrightarrow> only_slot c x st'"
  unfolding clears_def only_slot_def by metis

lemma clears_serves: "clears st w st' w' \<Longrightarrow> serves c st w st' w'"
  using clears_macs_unique by (auto simp: serves_def clears_def)

lemma macs_unique_update:
  assumes "macs_unique st" and "only_slot (l_mac x) i st"
  shows "macs_unique (st\<lparr>ds_leases := (ds_leases st)[i := x]\<rparr>)"
proof -
  have "l_mac ((ds_leases st)[i := x] ! j) = no_mac"
    if "j < length (ds_leases st)" "k < length (ds_leases st)" "j \<noteq> k"
      "l_mac ((ds_leases st)[i := x] ! j) = l_mac ((ds_leases st)[i := x] ! k)" for j k
    using that assms unfolding macs_unique_def only_slot_def
    by (cases "j = i"; cases "k = i") (auto dest: sym)
  then show ?thesis by (auto simp: macs_unique_def)
qed

lemma setlease_cases:
  assumes "dhcpd_setlease mac ip ex num start st w = Ret (l, st', w')"
  shows "(l = None \<and> st' = st \<and> w' = w)
    \<or> (l = Some (unat (ip - start)) \<and> unat (ip - start) < length (ds_leases st)
        \<and> w' = snd (dhcpd_time w)
        \<and> st' = st\<lparr>ds_leases := (ds_leases st)[unat (ip - start) :=
             \<lparr>l_mac = take 6 mac, l_allocated = True, l_expiry = fst (dhcpd_time w) + ex\<rparr>]\<rparr>)"
  using assms nat_sint32 [of "ip - start"]
  by (auto simp: dhcpd_setlease_def Let_def case_prod_beta split: if_splits)

lemma clears_assign_serves:
  assumes "clears st w st1 w1" and "later w1 w2"
    and "only_slot c i st" and "l_mac (ds_leases st ! i) = c \<or> \<not> protected i st w" and "l_mac x = c"
  shows "serves c st w (st1\<lparr>ds_leases := (ds_leases st1)[i := x]\<rparr>) w2"
proof -
  have "(ds_leases st1)[i := x] ! j = ds_leases st ! j"
    if "protected j st w" "l_mac (ds_leases st ! j) \<noteq> c" for j
    using assms(1,4) that by (cases "j = i") (auto simp: clears_def protected_def)
  moreover have "macs_unique (st1\<lparr>ds_leases := (ds_leases st1)[i := x]\<rparr>)" if "macs_unique st"
    using assms(1,3,5) that clears_macs_unique clears_only_slot macs_unique_update by blast
  ultimately show ?thesis
    using assms(1,2) by (auto simp: serves_def clears_def same_input_def intro: later_trans)
qed

lemma findbymac_loop_cases:
  "findbymac_loop mac k i ls = Ret l \<Longrightarrow>
     (\<forall>j. l = Some j \<longrightarrow> i \<le> j \<and> j < i + k \<and> j < length ls \<and> l_mac (ls ! j) = take 6 mac)
     \<and> (l = None \<longrightarrow> (\<forall>j. i \<le> j \<longrightarrow> j < i + k \<longrightarrow> l_mac (ls ! j) \<noteq> take 6 mac))"
proof (induction k arbitrary: i)
  case (Suc k)
  show ?case
  proof (cases "l_mac (ls ! i) = take 6 mac")
    case True
    with Suc.prems show ?thesis by (auto split: if_splits)
  next
    case False
    with Suc.prems have "findbymac_loop mac k (Suc i) ls = Ret l" by (auto split: if_splits)
    from Suc.IH [OF this] False show ?thesis
      by (metis Suc_leI add_Suc_right add_Suc_shift le_less less_SucI Suc_leD)
  qed
qed simp

lemma findbymac_only_slot:
  assumes "dhcpd_findbymac mac num st = Ret l" and "length (ds_leases st) = unat num" and "macs_unique st"
  shows "case l of
      Some i \<Rightarrow> i < unat num \<and> l_mac (ds_leases st ! i) = take 6 mac \<and> only_slot (take 6 mac) i st
    | None \<Rightarrow> (\<forall>x. only_slot (take 6 mac) x st)"
proof (cases l)
  case None
  with findbymac_loop_cases [OF assms(1) [unfolded dhcpd_findbymac_def]] assms(2)
  show ?thesis by (auto simp: only_slot_def)
next
  case (Some i)
  with findbymac_loop_cases [OF assms(1) [unfolded dhcpd_findbymac_def]]
  have i: "i < unat num" "l_mac (ds_leases st ! i) = take 6 mac" by auto
  with assms(2,3) have "only_slot (take 6 mac) i st"
    unfolding only_slot_def macs_unique_def by metis
  with i Some show ?thesis by simp
qed

subsection \<open>The handlers\<close>

lemma lease_address_slot:
  "i < unat (num :: u32) \<Longrightarrow> unat (dhcp_leaseipaddr i start - start) = i"
  using unat32_less [of num] by (simp add: dhcp_leaseipaddr_def unat32_of_nat)

text \<open>A server whose table has the size it was given, with the two name server entries
  \<^verbatim>\<open>dhcpd_run\<close> makes, and whose pool does not end at 255.255.255.255.\<close>

definition server_ok :: "dhcp_server_handle \<Rightarrow> dhcpd_state \<Rightarrow> bool" where
  "server_ok sv st \<longleftrightarrow> length (ds_leases st) = unat (num_leases sv) \<and> endip sv \<noteq> 0xFFFFFFFF
     \<and> length (dns_addr sv) = 2"

lemma discover_known_result:
  assumes "discover_known i sv st w = Ret (ip, lt, st1, w1)"
  shows "clears st w st1 w1 \<and> ip = dhcp_leaseipaddr i (startip sv)"
proof -
  from assms obtain b st0 w0 where e: "dhcpd_leaseexpired i st w = Ret (b, st0, w0)"
    by (auto simp: discover_known_def obind_eq_Ret)
  have "later w0 (snd (dhcpd_time w0))" by simp
  with e assms leaseexpired_clears [OF e] show ?thesis
    by (auto simp: discover_known_def Let_def case_prod_beta dest: clears_trans intro: clears_refl
        split: if_splits)
qed

lemma discover_address_result:
  assumes "discover_address sv st w = Some (Ret (ip, lt, st1, w1))"
    and "server_ok sv st" and "macs_unique st"
  defines "x \<equiv> unat (ip - startip sv)" and "c \<equiv> take 6 (m_chaddr (ds_inpacket st))"
  shows "clears st w st1 w1 \<and> (ip \<noteq> 0 \<longrightarrow> only_slot c x st
     \<and> (l_mac (ds_leases st ! x) = c \<or> \<not> protected x st w))"
proof -
  have len: "length (ds_leases st) = unat (num_leases sv)" using assms(2) by (simp add: server_ok_def)
  obtain l where l: "dhcpd_findbymac (m_chaddr (ds_inpacket st)) (num_leases sv) st = Ret l"
    using assms(1) by (cases "dhcpd_findbymac (m_chaddr (ds_inpacket st)) (num_leases sv) st")
      (auto simp: discover_address_def rbind_def)
  note only = findbymac_only_slot [OF l len assms(3)]
  show ?thesis
  proof (cases l)
    case (Some i)
    with assms(1) l have "discover_known i sv st w = Ret (ip, lt, st1, w1)"
      by (simp add: discover_address_def rbind_def)
    from discover_known_result [OF this] only Some lease_address_slot show ?thesis
      by (auto simp: x_def c_def)
  next
    case None
    obtain b st2 w2 where v: "dhcpd_verifyreqip (startip sv) (endip sv) st w = Ret (b, st2, w2)"
      using assms(1) l None
      by (cases "dhcpd_verifyreqip (startip sv) (endip sv) st w") (auto simp: discover_address_def rbind_def)
    note vc = verifyreqip_clears [OF v]
    show ?thesis
    proof (cases b)
      case True
      with assms(1) l None v have "ip = ds_optreqip (ds_opts st2)" "st1 = st2" "w1 = w2"
        by (auto simp: discover_address_def rbind_def ret_def)
      with vc True only None show ?thesis by (auto simp: x_def c_def)
    next
      case False
      obtain out where out: "alloc_loop (startip sv) (startip sv) (endip sv) st2 w2 = Some out"
        "\<forall>r. out = Ret r \<longrightarrow> alloc_result (startip sv) (endip sv) st2 w2 r"
        using alloc_loop_result [of "startip sv" "startip sv" "endip sv" st2 w2] assms(2)
        by (auto simp: server_ok_def)
      with assms(1) l None v False have "out = Ret (ip, st1, w1)"
        by (cases out) (auto simp: discover_address_def rbind_def ret_def dhcpd_allocipaddr_def)
      with out(2) have a: "alloc_result (startip sv) (endip sv) st2 w2 (ip, st1, w1)" by simp
      have "protected i st2 w2" if "protected i st w" for i
        using that vc clears_protected by blast
      with a vc only None show ?thesis
        by (auto simp: alloc_result_def x_def c_def dest: clears_trans)
    qed
  qed
qed

subsection \<open>What is sent\<close>

lemma set_yiaddr_set_out [simp]: "set_yiaddr ip (set_out bs st) = set_out bs (set_yiaddr ip st)"
  by (simp add: set_yiaddr_def set_out_def)

lemma set_ciaddr_set_out [simp]: "set_ciaddr (set_out bs st) = set_out bs (set_ciaddr st)"
  by (simp add: set_ciaddr_def set_out_def)

definition offer_state :: "u32 \<Rightarrow> dhcp_server_handle \<Rightarrow> u32 \<Rightarrow> dhcpd_state \<Rightarrow> dhcpd_state" where
  "offer_state ip sv lt st =
     set_out (reply_start DHCPOFFER (ds_serverip st)
                @ reply_lease lt (netmask sv) (gw_addr sv) (map htonl (dns_addr sv)))
       (set_yiaddr ip (st\<lparr>ds_outpacket := reply_packet st\<rparr>))"

definition ack_state :: "u32 \<Rightarrow> dhcp_server_handle \<Rightarrow> u32 \<Rightarrow> dhcpd_state \<Rightarrow> dhcpd_state" where
  "ack_state ip sv lt st =
     set_out (reply_start DHCPACK (ds_serverip st)
                @ reply_lease lt (netmask sv) (gw_addr sv) (dns_addr sv))
       (set_yiaddr ip (set_ciaddr (st\<lparr>ds_outpacket := reply_packet st\<rparr>)))"

definition nak_state :: "dhcpd_state \<Rightarrow> dhcpd_state" where
  "nak_state st = set_out (reply_start DHCPNAK (ds_serverip st))
     (set_ciaddr (st\<lparr>ds_outpacket := reply_packet st\<rparr>))"

definition ack_leasetime :: "dhcpd_state \<Rightarrow> u32" where
  "ack_leasetime st = (case dhcpd_verifyreqleasetime st of None \<Rightarrow> LEASETIME | Some t \<Rightarrow> t)"

lemma reply_lease_built:
  assumes "length dns = 2"
  shows "add_lease_options lt nm gw dns (set_out (reply_start t sip) st)
     = Ret (set_out (reply_start t sip @ reply_lease lt nm gw dns) st)"
  using add_lease_options_built [of "reply_start t sip" "set_out (reply_start t sip) st" dns lt nm gw] assms
  by simp

lemma sendoffer_eq:
  assumes "server_ok sv st"
  shows "dhcpd_sendoffer ip sv lt st w =
    (let (a, w1) = xc (Malloc 8) w
     in if retv a = 0 then Ub NullDeref
        else obind (dhcpd_sendpacket True (interface sv) (offer_state ip sv lt st)
                      (xcu (Free (nat (retv a))) w1)) (\<lambda>(r, w2). Ret (r, offer_state ip sv lt st, w2)))"
proof -
  have "length (map htonl (dns_addr sv)) = 2" using assms by (simp add: server_ok_def)
  note b = reply_lease_built [OF this]
  show ?thesis
    by (cases "retv (fst (xc (Malloc 8) w)) = 0")
      (simp_all add: dhcpd_sendoffer_def initpacket_built offer_state_def walk_simps b)
qed

lemma same_input_set_out [simp]:
  "ds_leases (set_out bs st) = ds_leases st" "ds_inpacket (set_out bs st) = ds_inpacket st"
  "ds_opts (set_out bs st) = ds_opts st" "ds_serverip (set_out bs st) = ds_serverip st"
  "ds_leases (set_yiaddr ip st) = ds_leases st" "ds_inpacket (set_yiaddr ip st) = ds_inpacket st"
  "ds_opts (set_yiaddr ip st) = ds_opts st" "ds_serverip (set_yiaddr ip st) = ds_serverip st"
  "ds_leases (set_ciaddr st) = ds_leases st" "ds_inpacket (set_ciaddr st) = ds_inpacket st"
  "ds_opts (set_ciaddr st) = ds_opts st" "ds_serverip (set_ciaddr st) = ds_serverip st"
  by (simp_all add: set_out_def set_yiaddr_def set_ciaddr_def)

lemma ack_leasetime_simps [simp]:
  "ack_leasetime (set_out bs st) = ack_leasetime st"
  "ack_leasetime (set_yiaddr ip st) = ack_leasetime st"
  "ack_leasetime (set_ciaddr st) = ack_leasetime st"
  "ack_leasetime (st\<lparr>ds_outpacket := x\<rparr>) = ack_leasetime st"
  by (simp_all add: ack_leasetime_def dhcpd_verifyreqleasetime_def)

lemma sendack_eq:
  assumes "server_ok sv st"
  defines "lt \<equiv> ack_leasetime st"
  shows "dhcpd_sendack ip sv st w =
    (let (a, w1) = xc (Malloc 8) w
     in if retv a = 0 then Ub NullDeref
        else obind (dhcpd_sendpacket False (interface sv) (ack_state ip sv lt st)
                      (xcu (Free (nat (retv a))) w1)) (\<lambda>(r, w2).
             if r < 0 then Ret (ERROR, ack_state ip sv lt st, w2)
             else obind (dhcpd_setlease (m_chaddr (ds_inpacket st)) ip (int (unat lt))
                    (num_leases sv) (startip sv) (ack_state ip sv lt st) w2) (\<lambda>(_, st4, w3).
                  Ret (OK, st4, w3))))"
proof -
  have i: "ds_inpacket (ack_state ip sv t st) = ds_inpacket st" for t
    by (simp add: ack_state_def)
  show ?thesis
  proof (cases "retv (fst (xc (Malloc 8) w)) = 0")
    case False
    have "length (dns_addr sv) = 2" using assms(1) by (simp add: server_ok_def)
    note b = reply_lease_built [OF this]
    from False show ?thesis
      by (simp add: dhcpd_sendack_def initpacket_built walk_simps i b lt_def
          flip: ack_leasetime_def)
        (simp add: ack_state_def lt_def cong: if_cong)
  qed (simp add: dhcpd_sendack_def walk_simps)
qed

lemma sendnak_eq:
  "dhcpd_sendnak sv st w =
     obind (dhcpd_sendpacket True (interface sv) (nak_state st) w) (\<lambda>(r, w1). Ret (r, nak_state st, w1))"
  by (simp add: dhcpd_sendnak_def initpacket_built nak_state_def)

text \<open>The datagram of a packet under construction.\<close>

definition datagram :: "dhcpd_state \<Rightarrow> bytes \<Rightarrow> bytes" where
  "datagram st bs = msg_header (ds_outpacket st) @ bs @ [255]"

lemma sendpacket_sends:
  assumes "dhcpd_sendpacket b n (set_out bs st) w = Ret (r, w')" and "0 \<le> r"
    and "length (msg_header (ds_outpacket st)) = 236"
  shows "\<exists>fd. SendTo fd (datagram st bs) (fst (dhcpd_dest b n (set_out bs st) w)) 68
           \<in> set (drop (length (hist w)) (hist w'))"
proof -
  let ?d = "dhcpd_dest b n (set_out bs st) w"
  let ?s = "dhcpd_openresponder (ds_serverip st) (snd ?d)"
  have h: "msg_header (ds_outpacket (set_out bs st)) = msg_header (ds_outpacket st)"
    by (simp add: set_out_def msg_header_def)
  have t: "take (236 + length bs + 1) (msg_bytes (ds_outpacket (set_out bs st))) = datagram st bs"
    unfolding msg_bytes_def h datagram_def using assms(3) by (simp add: set_out_def)
  have l: "later w (snd ?s)" by (rule later_trans [OF later_dest later_openresponder])
  have "ds_optend (set_out bs st) = Some (length bs)" by (simp add: set_out_def)
  with assms(1,2) t have "w' = xcu (Close (fst ?s)) (snd (xc (SendTo (fst ?s) (datagram st bs) (fst ?d) 68) (snd ?s)))"
    by (auto simp: dhcpd_sendpacket_def Let_def case_prod_beta ERROR_def split: if_splits)
  with l show ?thesis by (auto simp: later_def)
qed

lemma length_reply_header:
  assumes "wf_msg (ds_inpacket st)"
  shows "length (msg_header (ds_outpacket (set_yiaddr ip (st\<lparr>ds_outpacket := reply_packet st\<rparr>)))) = 236"
    and "length (msg_header (ds_outpacket (set_yiaddr ip (set_ciaddr (st\<lparr>ds_outpacket := reply_packet st\<rparr>))))) = 236"
  using assms
  by (auto intro!: length_msg_header simp: wf_msg_def set_yiaddr_def set_ciaddr_def reply_packet_def zero_msg_def)

lemma ack_leasetime_bounds: "86400 \<le> unat (ack_leasetime st) \<and> unat (ack_leasetime st) \<le> 2592000"
  by (auto simp: ack_leasetime_def dhcpd_verifyreqleasetime_def Let_def LEASETIME_def
      MAXLEASETIME_def MINLEASETIME_def word_le_nat_alt word_less_nat_alt not_less split: option.split)

lemma sendack_sends:
  assumes "dhcpd_sendack ip sv st w = Ret (OK, st', w')"
    and "server_ok sv st" and "wf_msg (ds_inpacket st)" and "unat (ip - startip sv) < unat (num_leases sv)"
    and "0 \<le> sint (ip - startip sv)"
  shows "\<exists>now fd dest. SendTo fd
        (msg_header (zero_msg\<lparr>m_op := 2, m_htype := m_htype (ds_inpacket st),
           m_hlen := m_hlen (ds_inpacket st), m_xid := m_xid (ds_inpacket st),
           m_chaddr := m_chaddr (ds_inpacket st), m_ciaddr := m_ciaddr (ds_inpacket st),
           m_yiaddr := rev (le32 ip)\<rparr>)
         @ [99, 130, 83, 99, 53, 1, 5, 54, 4] @ le32 (ds_serverip st) @ [51, 4] @ rev (le32 (ack_leasetime st))
         @ [1, 4] @ le32 (netmask sv) @ [3, 4] @ le32 (gw_addr sv)
         @ concat (map (\<lambda>d. [6, 4] @ le32 d) (filter (\<lambda>d. d \<noteq> 0) (dns_addr sv))) @ [255]) dest 68
      \<in> set (drop (length (hist w)) (hist w'))
    \<and> ds_leases st' = (ds_leases st)[unat (ip - startip sv) :=
        \<lparr>l_mac = take 6 (m_chaddr (ds_inpacket st)), l_allocated = True, l_expiry = now + int (unat (ack_leasetime st))\<rparr>]"
proof -
  let ?t = "ack_leasetime st"
  let ?bs = "reply_start DHCPACK (ds_serverip st) @ reply_lease ?t (netmask sv) (gw_addr sv) (dns_addr sv)"
  let ?st = "set_yiaddr ip (set_ciaddr (st\<lparr>ds_outpacket := reply_packet st\<rparr>))"
  let ?m = "xc (Malloc 8) w"
  let ?w1 = "xcu (Free (nat (retv (fst ?m)))) (snd ?m)"
  from assms(1) obtain r w2 where p: "dhcpd_sendpacket False (interface sv) (set_out ?bs ?st) ?w1 = Ret (r, w2)"
      "0 \<le> r" and l: "\<exists>l. dhcpd_setlease (m_chaddr (ds_inpacket st)) ip (int (unat ?t)) (num_leases sv)
          (startip sv) (set_out ?bs ?st) w2 = Ret (l, st', w')"
    unfolding sendack_eq [OF assms(2)] ack_state_def
    by (auto simp: walk_simps obind_eq_Ret ERROR_def OK_def split: if_splits)
  have "sint (ip - startip sv) < int (unat (num_leases sv))"
    using nat_sint32 [OF assms(5)] assms(4,5) by linarith
  with l have st': "ds_leases st' = (ds_leases st)[unat (ip - startip sv) :=
      \<lparr>l_mac = take 6 (m_chaddr (ds_inpacket st)), l_allocated = True,
       l_expiry = fst (dhcpd_time w2) + int (unat ?t)\<rparr>]" and w': "w' = snd (dhcpd_time w2)"
    using assms(2,4,5) nat_sint32 [OF assms(5)]
    by (auto simp: dhcpd_setlease_def Let_def case_prod_beta server_ok_def split: if_splits)
  obtain fd where fd: "SendTo fd (datagram ?st ?bs) (fst (dhcpd_dest False (interface sv) (set_out ?bs ?st) ?w1)) 68
      \<in> set (drop (length (hist ?w1)) (hist w2))"
    using sendpacket_sends [OF p length_reply_header(2) [OF assms(3)]] by blast
  have sub: "set (drop (length (hist ?w1)) (hist w2)) \<subseteq> set (drop (length (hist w)) (hist w'))"
  proof -
    have "later ?w1 w'" unfolding w' using later_sendpacket [OF p(1)] later_trans later_dhcpd_time by blast
    moreover have "later w ?w1" by simp
    moreover have "later w2 w'" unfolding w' by simp
    ultimately show ?thesis
      using later_sendpacket [OF p(1)] by (auto simp: later_def)
  qed
  have dg: "datagram ?st ?bs = msg_header (zero_msg\<lparr>m_op := 2, m_htype := m_htype (ds_inpacket st),
           m_hlen := m_hlen (ds_inpacket st), m_xid := m_xid (ds_inpacket st),
           m_chaddr := m_chaddr (ds_inpacket st), m_ciaddr := m_ciaddr (ds_inpacket st),
           m_yiaddr := rev (le32 ip)\<rparr>)
         @ [99, 130, 83, 99, 53, 1, 5, 54, 4] @ le32 (ds_serverip st) @ [51, 4] @ rev (le32 ?t)
         @ [1, 4] @ le32 (netmask sv) @ [3, 4] @ le32 (gw_addr sv)
         @ concat (map (\<lambda>d. [6, 4] @ le32 d) (filter (\<lambda>d. d \<noteq> 0) (dns_addr sv))) @ [255]"
    by (simp add: datagram_def set_yiaddr_def set_ciaddr_def reply_packet_def reply_start_def
        reply_lease_def opt32_def [abs_def] MAGIC_def DHCPACK_def)
  from fd sub have "SendTo fd (datagram ?st ?bs)
      (fst (dhcpd_dest False (interface sv) (set_out ?bs ?st) ?w1)) 68 \<in> set (drop (length (hist w)) (hist w'))"
    by blast
  from this [unfolded dg] st' show ?thesis by blast
qed


definition sample_server :: dhcp_server_handle where
  "sample_server = \<lparr>num_leases = 8, interface = ''wlan0'', startip = 0xC0A80100, endip = 0xC0A80107,
     netmask = 0x00FFFFFF, gw_addr = 0x0101A8C0, dns_addr = [0x0101A8C0, 0]\<rparr>"

definition sample_state :: dhcpd_state where
  "sample_state = (zero_state 8)\<lparr>ds_serverip := 0x0101A8C0, ds_inpacket := sample_request\<rparr>"

lemma sample_server_ok [simp]: "server_ok sample_server sample_state"
  by (simp add: server_ok_def sample_server_def sample_state_def zero_state_def)

lemma sample_request_ok [simp]: "wf_msg sample_request"
  by (simp add: wf_msg_def sample_request_def zero_msg_def MAGIC_def enc_opt_def)

lemma good_openresponder: "env w = good_env \<Longrightarrow> fst (dhcpd_openresponder ip w) = 3"
  by (simp add: dhcpd_openresponder_def dhcpd_socket_def walk_simps)

lemma good_sendpacket:
  assumes "env w = good_env"
  shows "\<exists>r w'. dhcpd_sendpacket b n (set_out bs st) w = Ret (r, w') \<and> 0 \<le> r"
proof -
  let ?d = "dhcpd_dest b n (set_out bs st) w"
  let ?s = "dhcpd_openresponder (ds_serverip st) (snd ?d)"
  have "env (snd ?d) = good_env" using later_dest [of w b n "set_out bs st"] assms by (simp add: later_def)
  moreover from good_openresponder [OF this] have "fst ?s = 3" .
  moreover have "env (snd ?s) = env (snd ?d)" using later_openresponder [of "snd ?d"] by (simp add: later_def)
  moreover have "ds_optend (set_out bs st) = Some (length bs)" by (simp add: set_out_def)
  ultimately show ?thesis by (simp add: dhcpd_sendpacket_def walk_simps)
qed

lemma sample_ack_runs:
  "\<exists>st' w'. dhcpd_sendack 0xC0A80104 sample_server sample_state good_world = Ret (OK, st', w')"
proof -
  let ?w1 = "xcu (Free 64) (snd (xc (Malloc 8) good_world))"
  have "env ?w1 = good_env" by (simp add: good_world_def)
  from good_sendpacket [OF this] obtain r w2 where
    "dhcpd_sendpacket False (interface sample_server)
       (ack_state 0xC0A80104 sample_server (ack_leasetime sample_state) sample_state) ?w1 = Ret (r, w2)" "0 \<le> r"
    unfolding ack_state_def by blast
  moreover have "retv (fst (xc (Malloc 8) good_world)) = 64"
    by (simp add: good_world_def good_env_def)
  moreover have "length (ds_leases (ack_state ip sample_server t sample_state)) = 8" for ip t
    by (simp add: ack_state_def) (simp add: sample_state_def zero_state_def)
  ultimately show ?thesis
    unfolding sendack_eq [OF sample_server_ok]
    by (simp add: case_prod_beta Let_def dhcpd_setlease_def) (simp add: sample_server_def)
qed


text \<open>The offer: when \<open>dhcpd_sendoffer\<close> reports success it has broadcast one datagram that
  names the offered address and lists the same options as an ACK, except that the address of every
  name server is sent with its bytes reversed; the lease table is not touched.\<close>

theorem dhcpd_sendoffer_reverses_dns:
  assumes "dhcpd_sendoffer ip sv lt st w = Ret (r, st', w')" and "0 \<le> r"
    and "server_ok sv st" and "wf_msg (ds_inpacket st)"
  shows "\<exists>fd. SendTo fd
        (msg_header (zero_msg\<lparr>m_op := 2, m_htype := m_htype (ds_inpacket st),
           m_hlen := m_hlen (ds_inpacket st), m_xid := m_xid (ds_inpacket st),
           m_chaddr := m_chaddr (ds_inpacket st), m_yiaddr := rev (le32 ip)\<rparr>)
         @ [99, 130, 83, 99, 53, 1, 2, 54, 4] @ le32 (ds_serverip st) @ [51, 4] @ rev (le32 lt)
         @ [1, 4] @ le32 (netmask sv) @ [3, 4] @ le32 (gw_addr sv)
         @ concat (map (\<lambda>d. [6, 4] @ rev (le32 d)) (filter (\<lambda>d. d \<noteq> 0) (dns_addr sv))) @ [255])
        0xFFFFFFFF 68
      \<in> set (drop (length (hist w)) (hist w')) \<and> ds_leases st' = ds_leases st"
proof -
  let ?bs = "reply_start DHCPOFFER (ds_serverip st)
      @ reply_lease lt (netmask sv) (gw_addr sv) (map htonl (dns_addr sv))"
  let ?st = "set_yiaddr ip (st\<lparr>ds_outpacket := reply_packet st\<rparr>)"
  let ?w1 = "xcu (Free (nat (retv (fst (xc (Malloc 8) w))))) (snd (xc (Malloc 8) w))"
  from assms(1) have p: "dhcpd_sendpacket True (interface sv) (set_out ?bs ?st) ?w1 = Ret (r, w')"
    and st': "st' = offer_state ip sv lt st"
    unfolding sendoffer_eq [OF assms(3)] offer_state_def
    by (auto simp: walk_simps obind_eq_Ret split: if_splits)
  obtain fd where fd: "SendTo fd (datagram ?st ?bs) 0xFFFFFFFF 68 \<in> set (drop (length (hist ?w1)) (hist w'))"
    using sendpacket_sends [OF p assms(2) length_reply_header(1) [OF assms(4)]]
    by (auto simp: dhcpd_dest_def)
  have sub: "set (drop (length (hist ?w1)) (hist w')) \<subseteq> set (drop (length (hist w)) (hist w'))"
    using later_sendpacket [OF p] by (auto simp: later_def)
  have z: "htonl d = 0 \<longleftrightarrow> d = 0" for d
  proof -
    have "htonl 0 = 0" by (simp add: htonl_def le32_def)
    then show ?thesis by (metis htonl_htonl)
  qed
  have "concat (map (opt32 6) (filter (\<lambda>d. d \<noteq> 0) (map htonl ds)))
      = concat (map (\<lambda>d. [6, 4] @ rev (le32 d)) (filter (\<lambda>d. d \<noteq> 0) ds))" for ds
    by (induction ds) (auto simp: z opt32_def)
  then have dg: "datagram ?st ?bs = msg_header (zero_msg\<lparr>m_op := 2, m_htype := m_htype (ds_inpacket st),
           m_hlen := m_hlen (ds_inpacket st), m_xid := m_xid (ds_inpacket st),
           m_chaddr := m_chaddr (ds_inpacket st), m_yiaddr := rev (le32 ip)\<rparr>)
         @ [99, 130, 83, 99, 53, 1, 2, 54, 4] @ le32 (ds_serverip st) @ [51, 4] @ rev (le32 lt)
         @ [1, 4] @ le32 (netmask sv) @ [3, 4] @ le32 (gw_addr sv)
         @ concat (map (\<lambda>d. [6, 4] @ rev (le32 d)) (filter (\<lambda>d. d \<noteq> 0) (dns_addr sv))) @ [255]"
    by (simp add: datagram_def set_yiaddr_def reply_packet_def reply_start_def
        reply_lease_def opt32_def MAGIC_def DHCPOFFER_def)
  from fd sub have "SendTo fd (datagram ?st ?bs) 0xFFFFFFFF 68 \<in> set (drop (length (hist w)) (hist w'))"
    by blast
  note this [unfolded dg]
  moreover have "ds_leases st' = ds_leases st" by (simp add: st' offer_state_def)
  ultimately show ?thesis by blast
qed

theorem dhcpd_sendoffer_reverses_dns_witness:
  "\<exists>r st' w' pre. dhcpd_sendoffer 0xC0A80104 sample_server 86400 sample_state good_world = Ret (r, st', w')
     \<and> (\<exists>fd. SendTo fd (pre @ [6, 4, 1, 1, 168, 192, 255]) 0xFFFFFFFF 68 \<in> set (hist w'))"
proof -
  let ?w1 = "xcu (Free 64) (snd (xc (Malloc 8) good_world))"
  have "env ?w1 = good_env" by simp
  from good_sendpacket [OF this] obtain r w' where
    s: "dhcpd_sendpacket True (interface sample_server) (offer_state 0xC0A80104 sample_server 86400 sample_state)
       ?w1 = Ret (r, w')" "0 \<le> r"
    unfolding offer_state_def by blast
  have run: "dhcpd_sendoffer 0xC0A80104 sample_server 86400 sample_state good_world
      = Ret (r, offer_state 0xC0A80104 sample_server 86400 sample_state, w')"
    unfolding sendoffer_eq [OF sample_server_ok] by (simp add: walk_simps s)
  have wf: "wf_msg (ds_inpacket sample_state)" by (simp add: sample_state_def)
  have "concat (map (\<lambda>d. [6, 4] @ rev (le32 d)) (filter (\<lambda>d. d \<noteq> 0) (dns_addr sample_server)))
      = [6, 4, 1, 1, 168, 192]"
    by (simp add: sample_server_def le32_def)
  from dhcpd_sendoffer_reverses_dns [OF run s(2) sample_server_ok wf, unfolded this]
  obtain fd where "SendTo fd (msg_header (zero_msg\<lparr>m_op := 2, m_htype := m_htype (ds_inpacket sample_state),
           m_hlen := m_hlen (ds_inpacket sample_state), m_xid := m_xid (ds_inpacket sample_state),
           m_chaddr := m_chaddr (ds_inpacket sample_state), m_yiaddr := rev (le32 0xC0A80104)\<rparr>)
         @ [99, 130, 83, 99, 53, 1, 2, 54, 4] @ le32 (ds_serverip sample_state) @ [51, 4] @ rev (le32 86400)
         @ [1, 4] @ le32 (netmask sample_server) @ [3, 4] @ le32 (gw_addr sample_server)
         @ [6, 4, 1, 1, 168, 192] @ [255]) 0xFFFFFFFF 68 \<in> set (hist w')" by auto
  then have "SendTo fd ((msg_header (zero_msg\<lparr>m_op := 2, m_htype := m_htype (ds_inpacket sample_state),
           m_hlen := m_hlen (ds_inpacket sample_state), m_xid := m_xid (ds_inpacket sample_state),
           m_chaddr := m_chaddr (ds_inpacket sample_state), m_yiaddr := rev (le32 0xC0A80104)\<rparr>)
         @ [99, 130, 83, 99, 53, 1, 2, 54, 4] @ le32 (ds_serverip sample_state) @ [51, 4] @ rev (le32 86400)
         @ [1, 4] @ le32 (netmask sample_server) @ [3, 4] @ le32 (gw_addr sample_server))
         @ [6, 4, 1, 1, 168, 192, 255]) 0xFFFFFFFF 68 \<in> set (hist w')" by (simp only: append_assoc append_Cons append_Nil)
  with run show ?thesis by blast
qed

subsection \<open>Whom a message can affect\<close>

abbreviation client :: "dhcpd_state \<Rightarrow> bytes" where
  "client st \<equiv> take 6 (m_chaddr (ds_inpacket st))"

lemma serves_refl: "later w w' \<Longrightarrow> serves c st w st w'"
  by (simp add: serves_def same_input_def)

lemma serves_output:
  assumes "serves c st w st1 w1" and "ds_leases st2 = ds_leases st1" and "same_input st1 st2" and "later w1 w2"
  shows "serves c st w st2 w2"
  using assms by (auto simp: serves_def same_input_def macs_unique_def intro: later_trans)

lemma clears_output:
  "ds_leases st' = ds_leases st \<Longrightarrow> same_input st st' \<Longrightarrow> later w w' \<Longrightarrow> clears st w st' w'"
  by (simp add: clears_def)

lemma same_input_states [simp]:
  "same_input st (offer_state ip sv lt st)" "same_input st (ack_state ip sv lt st)"
  "same_input st (nak_state st)"
  "ds_leases (offer_state ip sv lt st) = ds_leases st" "ds_leases (ack_state ip sv lt st) = ds_leases st"
  "ds_leases (nak_state st) = ds_leases st"
  by (simp_all add: same_input_def offer_state_def ack_state_def nak_state_def)

lemma serves_assign:
  assumes "only_slot c i st" and "l_mac (ds_leases st ! i) = c \<or> \<not> protected i st w"
    and "clears st w st1 w1" and "later w1 w2" and "l_mac x = c"
    and "ds_leases st2 = (ds_leases st1)[i := x]" and "same_input st1 st2"
  shows "serves c st w st2 w2"
proof -
  have "serves c st w (st1\<lparr>ds_leases := (ds_leases st1)[i := x]\<rparr>) w2"
    by (rule clears_assign_serves [OF assms(3,4,1,2,5)])
  with assms(6,7) show ?thesis
    by (auto simp: serves_def same_input_def macs_unique_def)
qed

lemma discover_serves:
  assumes run: "dhcpd_discover sv st w = Some (Ret (r, st', w'))" and "server_ok sv st" and "macs_unique st"
  shows "serves (client st) st w st' w'"
proof -
  obtain ip lt st1 w1 where a: "discover_address sv st w = Some (Ret (ip, lt, st1, w1))"
    using run by (auto simp: dhcpd_discover_def rbind_def split: option.splits outcome.splits)
  note res = discover_address_result [OF a assms(2,3)]
  have in1: "ds_inpacket st1 = ds_inpacket st" using res by (simp add: clears_def same_input_def)
  show ?thesis
  proof (cases "ip = 0")
    case True
    with run a have "st' = st1" "w' = w1" by (auto simp: dhcpd_discover_def rbind_def ret_def)
    with res show ?thesis by (auto intro: clears_serves)
  next
    case False
    then obtain l st2 w2 where l: "dhcpd_setlease (m_chaddr (ds_inpacket st1)) ip OFFERTIME
        (num_leases sv) (startip sv) st1 w1 = Ret (l, st2, w2)"
      using run a by (auto simp: dhcpd_discover_def rbind_def split: outcome.splits)
    have s2: "serves (client st) st w st2 w2"
    proof (cases l)
      case None
      with setlease_cases [OF l] res show ?thesis by (auto intro: clears_serves)
    next
      case (Some i)
      with setlease_cases [OF l] have i: "i = unat (ip - startip sv)" "w2 = snd (dhcpd_time w1)"
        "st2 = st1\<lparr>ds_leases := (ds_leases st1)[i := \<lparr>l_mac = client st1, l_allocated = True,
           l_expiry = fst (dhcpd_time w1) + OFFERTIME\<rparr>]\<rparr>" by auto
      have o: "only_slot (client st) i st" "l_mac (ds_leases st ! i) = client st \<or> \<not> protected i st w"
        using res False i(1) by auto
      show ?thesis
        by (rule serves_assign [OF o, of st1 w1]) (use res i in1 in \<open>auto simp: same_input_def\<close>)
    qed
    show ?thesis
    proof (cases l)
      case None
      with run a False l have "st' = st2" "w' = w2" by (auto simp: dhcpd_discover_def rbind_def ret_def)
      with s2 show ?thesis by simp
    next
      case (Some i)
      have ok2: "server_ok sv st2" using s2 assms(2) by (simp add: server_ok_def serves_def)
      obtain lt' where o: "dhcpd_sendoffer ip sv lt' st2 w2 = Ret (r, st', w')"
        using run a False l Some by (auto simp: dhcpd_discover_def rbind_def)
      then have "st' = offer_state ip sv lt' st2"
        and p: "dhcpd_sendpacket True (interface sv) st' (xcu (Free (nat (retv (fst (xc (Malloc 8) w2)))))
                  (snd (xc (Malloc 8) w2))) = Ret (r, w')"
        unfolding sendoffer_eq [OF ok2] by (auto simp: walk_simps obind_eq_Ret split: if_splits)
      moreover have "later w2 w'"
        using later_sendpacket [OF p] by (auto simp: later_def)
      ultimately show ?thesis using s2 by (auto intro: serves_output)
    qed
  qed
qed

lemma request_response_cases:
  assumes "request_response sv st w = Ret (resp, ip, st1, w1)" and "server_ok sv st" and "macs_unique st"
  shows "clears st w st1 w1 \<and> (resp = DHCPACK \<longrightarrow> st1 = st \<and>
    (\<exists>i<unat (num_leases sv). ip = dhcp_leaseipaddr i (startip sv)
       \<and> l_mac (ds_leases st ! i) = client st \<and> only_slot (client st) i st))"
proof -
  have len: "length (ds_leases st) = unat (num_leases sv)" using assms(2) by (simp add: server_ok_def)
  obtain l where l: "dhcpd_findbymac (m_chaddr (ds_inpacket st)) (num_leases sv) st = Ret l"
    using assms(1) by (auto simp: request_response_def obind_eq_Ret)
  note only = findbymac_only_slot [OF l len assms(3)]
  show ?thesis
  proof (cases l)
    case (Some i)
    with assms(1) l have "ip = dhcp_leaseipaddr i (startip sv)" "st1 = st" "w1 = w"
      by (auto simp: request_response_def)
    with only Some show ?thesis by (auto intro: clears_refl)
  next
    case None
    have "clears st w st1 w1 \<and> resp \<noteq> DHCPACK"
      using assms(1) l None
      by (auto simp: request_response_def Let_def obind_eq_Ret dhcp_types
          dest!: leaseexpired_clears intro: clears_refl split: if_splits option.splits)
    then show ?thesis by simp
  qed
qed

lemma sendack_serves:
  assumes "dhcpd_sendack ip sv st w = Ret (r, st', w')" and "server_ok sv st"
    and i: "i < unat (num_leases sv)" "ip = dhcp_leaseipaddr i (startip sv)"
      "l_mac (ds_leases st ! i) = client st" "only_slot (client st) i st"
  shows "serves (client st) st w st' w'"
proof -
  let ?t = "ack_leasetime st"
  let ?a = "ack_state ip sv ?t st"
  let ?w1 = "xcu (Free (nat (retv (fst (xc (Malloc 8) w))))) (snd (xc (Malloc 8) w))"
  from assms(1) obtain q w2 where p: "dhcpd_sendpacket False (interface sv) ?a ?w1 = Ret (q, w2)"
      and c: "(st' = ?a \<and> w' = w2) \<or> (\<exists>l. dhcpd_setlease (m_chaddr (ds_inpacket st)) ip (int (unat ?t))
          (num_leases sv) (startip sv) ?a w2 = Ret (l, st', w'))"
    unfolding sendack_eq [OF assms(2)]
    by (auto simp: walk_simps obind_eq_Ret split: if_splits)
  have "later w w2" using later_sendpacket [OF p] by (auto simp: later_def)
  then have a: "clears st w ?a w2" by (intro clears_output) auto
  from c show ?thesis
  proof
    assume "st' = ?a \<and> w' = w2"
    with a show ?thesis by (auto intro: clears_serves)
  next
    assume "\<exists>l. dhcpd_setlease (m_chaddr (ds_inpacket st)) ip (int (unat ?t))
          (num_leases sv) (startip sv) ?a w2 = Ret (l, st', w')"
    then obtain l where "dhcpd_setlease (m_chaddr (ds_inpacket st)) ip (int (unat ?t))
          (num_leases sv) (startip sv) ?a w2 = Ret (l, st', w')" ..
    from setlease_cases [OF this] show ?thesis
    proof
      assume "l = None \<and> st' = ?a \<and> w' = w2"
      with a show ?thesis by (auto intro: clears_serves)
    next
      assume s: "l = Some (unat (ip - startip sv)) \<and> unat (ip - startip sv) < length (ds_leases ?a)
        \<and> w' = snd (dhcpd_time w2)
        \<and> st' = ?a\<lparr>ds_leases := (ds_leases ?a)[unat (ip - startip sv) :=
             \<lparr>l_mac = client st, l_allocated = True, l_expiry = fst (dhcpd_time w2) + int (unat ?t)\<rparr>]\<rparr>"
      have "unat (ip - startip sv) = i" using lease_address_slot [OF i(1)] i(2) by simp
      with s i(3,4) a show ?thesis
        by (intro serves_assign [OF i(4) _ a]) (auto simp: same_input_def)
    qed
  qed
qed

lemma request_serves:
  assumes run: "dhcpd_request sv st w = Ret (r, st', w')" and "server_ok sv st" and "macs_unique st"
  shows "serves (client st) st w st' w'"
proof -
  obtain resp ip st1 w1 where q: "request_response sv st w = Ret (resp, ip, st1, w1)"
    using run by (auto simp: dhcpd_request_def obind_eq_Ret)
  note res = request_response_cases [OF q assms(2,3)]
  show ?thesis
  proof (cases "resp = DHCPACK")
    case True
    with res obtain i where i: "st1 = st" "i < unat (num_leases sv)" "ip = dhcp_leaseipaddr i (startip sv)"
      "l_mac (ds_leases st ! i) = client st" "only_slot (client st) i st" "later w w1"
      by (auto simp: clears_def)
    with run q True obtain r' where "dhcpd_sendack ip sv st w1 = Ret (r', st', w')"
      by (auto simp: dhcpd_request_def obind_eq_Ret)
    from sendack_serves [OF this assms(2) i(2-5)] i(6) show ?thesis
      by (auto simp: serves_def dest: protected_later intro: later_trans)
  next
    case False
    have "clears st w st' w'"
    proof (cases "resp = DHCPNAK")
      case True
      with run q False have "st' = nak_state st1"
        and p: "\<exists>r. dhcpd_sendpacket True (interface sv) (nak_state st1) w1 = Ret (r, w')"
        by (auto simp: dhcpd_request_def sendnak_eq obind_eq_Ret dhcp_types)
      moreover have "later w1 w'" using p later_sendpacket by blast
      ultimately have "clears st1 w1 st' w'" by (auto intro: clears_output)
      with res show ?thesis by (blast intro: clears_trans)
    next
      case False
      with run q \<open>resp \<noteq> DHCPACK\<close> have "st' = st1" "w' = w1" by (auto simp: dhcpd_request_def)
      with res show ?thesis by simp
    qed
    then show ?thesis by (rule clears_serves)
  qed
qed

lemma freed_slot_serves:
  assumes "dhcpd_findbymac (m_chaddr (ds_inpacket st)) num st = Ret (Some i)"
    and "length (ds_leases st) = unat num" and "macs_unique st" and "l_mac x = no_mac" and "later w w'"
  shows "serves (client st) st w (st\<lparr>ds_leases := (ds_leases st)[i := x]\<rparr>) w'"
proof -
  from findbymac_only_slot [OF assms(1-3)] have i: "l_mac (ds_leases st ! i) = client st"
    "only_slot (client st) i st" by auto
  have "only_slot no_mac i st" by (simp add: only_slot_def)
  with macs_unique_update [OF assms(3), of x i] assms(4)
  have "macs_unique (st\<lparr>ds_leases := (ds_leases st)[i := x]\<rparr>)" by simp
  moreover have "(ds_leases st)[i := x] ! j = ds_leases st ! j" if "l_mac (ds_leases st ! j) \<noteq> client st" for j
    using i(1) that by (cases "j = i") auto
  ultimately show ?thesis using assms(5) by (simp add: serves_def same_input_def)
qed

lemma decline_serves:
  assumes "dhcpd_decline (num_leases sv) st w = Ret (r, st', w')" and "server_ok sv st" and "macs_unique st"
  shows "serves (client st) st w st' w'"
  using assms freed_slot_serves [of st "num_leases sv"]
  by (auto simp: dhcpd_decline_def obind_eq_Ret case_prod_beta Let_def server_ok_def no_mac_def
      intro: serves_refl split: option.splits)

lemma release_serves:
  assumes "dhcpd_release (num_leases sv) st w = Ret (r, st', w')" and "server_ok sv st" and "macs_unique st"
  shows "serves (client st) st w st' w'"
  using assms freed_slot_serves [of st "num_leases sv" _ zero_lease w w]
  by (auto simp: dhcpd_release_def obind_eq_Ret server_ok_def no_mac_def zero_lease_def
      intro: serves_refl split: option.splits)

lemma rbind_finish:
  "rbind m (\<lambda>(_, y). ret y) = ret x \<longleftrightarrow> (\<exists>r. m = Some (Ret (r, x)))"
  by (auto simp: rbind_def ret_def split: option.splits outcome.splits)

lemma dispatch_serves:
  assumes "dhcpd_dispatch sv st w = ret (st', w')" and "server_ok sv st" and "macs_unique st"
  shows "serves (client st) st w st' w'"
  using assms
  by (auto simp: dhcpd_dispatch_def Let_def rbind_finish intro: discover_serves request_serves
      decline_serves release_serves serves_refl split: if_splits)

lemma parseoptions_keeps:
  "dhcpd_parseoptions st = Ret (b, st') \<Longrightarrow>
     ds_leases st' = ds_leases st \<and> ds_inpacket st' = ds_inpacket st \<and> ds_serverip st' = ds_serverip st"
  by (auto simp: dhcpd_parseoptions_def obind_eq_Ret split: if_splits)

text \<open>C4. Leases are never stolen: whatever datagram the server handles, every slot that is
  allocated to another hardware address than the one in the datagram and does not expire while it
  is handled is left exactly as it was; and no two slots ever belong to the same (non-zero)
  hardware address.\<close>

theorem dhcpd_never_steals:
  assumes "loop_handler fd sv st w = ret (k, st', w')" and "server_ok sv st" and "macs_unique st"
  shows "(\<forall>i<length (ds_leases st). l_allocated (ds_leases st ! i)
       \<longrightarrow> clock_below (l_expiry (ds_leases st ! i)) w
       \<longrightarrow> l_mac (ds_leases st ! i) \<noteq> take 6 (m_chaddr (ds_inpacket st'))
       \<longrightarrow> ds_leases st' ! i = ds_leases st ! i)
    \<and> macs_unique st' \<and> server_ok sv st'"
proof -
  obtain st1 w1 where r: "dhcpd_receive fd st w = (st1, w1)" by (cases "dhcpd_receive fd st w")
  with assms(1) obtain b st2 where p: "dhcpd_parseoptions st1 = Ret (b, st2)"
    "dhcpd_dispatch sv st2 w1 = ret (st', w')"
    by (cases "dhcpd_parseoptions st1") (auto simp: loop_handler_def rbind_def [of "Some _"] rbind_eq_ret)
  have 1: "later w w1" "ds_leases st1 = ds_leases st" "dhcpd_parseoptions st1 = Ret (b, st2)"
      "dhcpd_dispatch sv st2 w1 = ret (st', w')"
    using r p by (auto simp: dhcpd_receive_def walk_simps split: if_splits)
  note k = parseoptions_keeps [OF 1(3)]
  have ok: "server_ok sv st2" "macs_unique st2"
    using assms(2,3) k 1(2) by (auto simp: server_ok_def macs_unique_def)
  note d = dispatch_serves [OF 1(4) ok]
  have "protected i st2 w1" if "i < length (ds_leases st)" "l_allocated (ds_leases st ! i)"
    "clock_below (l_expiry (ds_leases st ! i)) w" for i
    using that k 1(1,2) clock_below_later by (auto simp: protected_def)
  with d ok k 1(2) show ?thesis
    by (auto simp: serves_def same_input_def server_ok_def)
qed

text \<open>Two clients hold leases; the buffer holds a packet of the first one without the magic
  cookie, and the last message handled was a DHCPRELEASE.\<close>

definition two_leases :: dhcpd_state where
  "two_leases = (zero_state 8)\<lparr>ds_inpacket := zero_msg\<lparr>m_chaddr := replicate 6 1 @ replicate 10 0\<rparr>,
     ds_opts := zero_opts\<lparr>ds_optmsgtype := DHCPRELEASE\<rparr>,
     ds_leases := (replicate 8 zero_lease)
       [2 := \<lparr>l_mac = replicate 6 1, l_allocated = True, l_expiry = 50\<rparr>,
        3 := \<lparr>l_mac = replicate 6 9, l_allocated = True, l_expiry = 100\<rparr>]\<rparr>"

lemma two_leases_release:
  "\<exists>w'. loop_handler 3 sample_server two_leases good_world
     = ret (1, two_leases\<lparr>ds_leases := (ds_leases two_leases)[2 := zero_lease]\<rparr>, w')"
proof -
  let ?w = "snd (xc (Recv 3 548) good_world)"
  have "wf_msg (ds_inpacket two_leases)" by (simp add: two_leases_def wf_msg_def zero_msg_def)
  then have "overlay [] (ds_inpacket two_leases) = ds_inpacket two_leases"
    by (simp add: overlay_def msg_of_bytes_msg_bytes)
  then have r: "dhcpd_receive 3 two_leases good_world = (two_leases, ?w)"
    by (simp add: dhcpd_receive_def walk_simps)
  have "replicate 4 0 \<noteq> ([99, 130, 83, 99] :: bytes)" by (simp add: replicate4)
  then have p: "dhcpd_parseoptions two_leases = Ret (False, two_leases)"
    by (simp add: dhcpd_parseoptions_def two_leases_def zero_msg_def MAGIC_def)
  have l: "ds_leases two_leases = [zero_lease, zero_lease, \<lparr>l_mac = replicate 6 1, l_allocated = True, l_expiry = 50\<rparr>,
      \<lparr>l_mac = replicate 6 9, l_allocated = True, l_expiry = 100\<rparr>, zero_lease, zero_lease, zero_lease, zero_lease]"
    by (simp add: two_leases_def replicate8)
  have c: "client two_leases = replicate 6 1" by (simp add: two_leases_def)
  have n: "unat (num_leases sample_server) = Suc (Suc (Suc 5))" by (simp add: sample_server_def)
  have "replicate 6 0 \<noteq> (replicate 6 1 :: bytes)" by (simp add: replicate6)
  then have "dhcpd_findbymac (m_chaddr (ds_inpacket two_leases)) (num_leases sample_server) two_leases
      = Ret (Some 2)"
    unfolding dhcpd_findbymac_def n findbymac_loop.simps c l by (simp add: zero_lease_def numeral_eq_Suc)
  then have d: "dhcpd_dispatch sample_server two_leases ?w
      = ret (two_leases\<lparr>ds_leases := (ds_leases two_leases)[2 := zero_lease]\<rparr>, ?w)"
    by (simp add: dhcpd_dispatch_def dhcpd_release_def rbind_def ret_def two_leases_def dhcp_types)
  show ?thesis by (simp add: loop_handler_def r p rbind_def [of "Some _"] d)
qed

theorem dhcpd_never_steals_witness:
  "\<exists>st' w'. loop_handler 3 sample_server two_leases good_world = ret (1, st', w')
     \<and> ds_leases st' ! 3 = \<lparr>l_mac = replicate 6 9, l_allocated = True, l_expiry = 100\<rparr>
     \<and> macs_unique st'"
proof -
  obtain w' where run: "loop_handler 3 sample_server two_leases good_world
     = ret (1, two_leases\<lparr>ds_leases := (ds_leases two_leases)[2 := zero_lease]\<rparr>, w')"
    using two_leases_release by blast
  have ok: "server_ok sample_server two_leases"
    by (simp add: server_ok_def sample_server_def two_leases_def)
  have l: "ds_leases two_leases = [zero_lease, zero_lease, \<lparr>l_mac = replicate 6 1, l_allocated = True, l_expiry = 50\<rparr>,
      \<lparr>l_mac = replicate 6 9, l_allocated = True, l_expiry = 100\<rparr>, zero_lease, zero_lease, zero_lease, zero_lease]"
    by (simp add: two_leases_def replicate8)
  have ne: "replicate 6 9 \<noteq> (replicate 6 1 :: bytes)" by (simp add: replicate6)
  have z: "l_mac zero_lease = no_mac" by (simp add: zero_lease_def no_mac_def)
  have mu: "macs_unique two_leases"
    using ne unfolding macs_unique_def l by (simp add: All_less_Suc z eval_nat_numeral)
  have cb: "clock_below 100 good_world"
    by (simp add: clock_below_def dhcpd_time_def walk_simps OK_def)
  have c: "take 6 (m_chaddr (ds_inpacket (two_leases\<lparr>ds_leases := x\<rparr>))) = replicate 6 1" for x
    by (simp add: two_leases_def)
  from dhcpd_never_steals [OF run ok mu] cb ne run show ?thesis
    by (auto simp: c l dest: spec [of _ 3])
qed

text \<open>C7. The server always comes back: handling a datagram ends, in a result or a fault, when the
  pool does not end at 255.255.255.255.\<close>

theorem dhcpd_handler_ends:
  assumes "endip sv \<noteq> 0xFFFFFFFF"
  shows "loop_handler fd sv st w \<noteq> None"
proof -
  have al: False if "alloc_loop (startip sv) (startip sv) (endip sv) st' w' = None" for st' w'
    using alloc_loop_result [of "startip sv" "startip sv" "endip sv" st' w'] assms that by auto
  have a: False if "discover_address sv st w = None" for st w
    using that by (auto simp: discover_address_def rbind_eq_None dhcpd_allocipaddr_def
        dest: al split: option.splits if_splits)
  have d: False if "dhcpd_discover sv st w = None" for st w
    using that by (auto simp: dhcpd_discover_def rbind_eq_None dest: a split: if_splits)
  have e: False if "dhcpd_dispatch sv st w = None" for st w
    using that by (auto simp: dhcpd_dispatch_def Let_def rbind_eq_None dest: d split: if_splits)
  have False if "loop_handler fd sv st w = None"
    using that by (auto simp: loop_handler_def Let_def rbind_eq_None dest: e split: prod.splits)
  then show ?thesis by blast
qed

theorem dhcpd_handler_ends_witness:
  "loop_handler 3 sample_server sample_state good_world \<noteq> None"
  by (rule dhcpd_handler_ends) (simp add: sample_server_def)

text \<open>A client that has a slot and names this server in its request is acknowledged whatever
  non-zero address it asked for, with the address of its own slot: the requested address is not
  compared with the leased one.\<close>

theorem dhcpd_acks_any_address:
  assumes "dhcpd_findbymac (m_chaddr (ds_inpacket st)) (num_leases sv) st = Ret (Some i)"
    and "ds_optserverip (ds_opts st) = ntohl (ds_serverip st)" and "ds_serverip st \<noteq> 0"
    and "ds_optreqip (ds_opts st) \<noteq> 0"
  shows "request_response sv st w = Ret (DHCPACK, startip sv + word_of_nat i, st, w)"
proof -
  have "ntohl (ds_serverip st) \<noteq> 0"
  proof
    assume "ntohl (ds_serverip st) = 0"
    then have "ds_serverip st = ntohl 0" by (metis htonl_htonl)
    with assms(3) show False by (simp add: htonl_def le32_def)
  qed
  with assms show ?thesis
    by (simp add: request_response_def request_known_def Let_def dhcp_leaseipaddr_def add.commute)
qed

definition other_address :: dhcpd_state where
  "other_address = (zero_state 1)\<lparr>ds_serverip := 0x0101A8C0,
     ds_opts := \<lparr>ds_optmsgtype = DHCPREQUEST, ds_optreqip = 0xC0A80163, ds_optserverip = 0xC0A80101,
                ds_optleasetime = 0\<rparr>\<rparr>"

theorem dhcpd_acks_any_address_witness:
  "request_response (sample_server\<lparr>num_leases := 1\<rparr>) other_address good_world
     = Ret (DHCPACK, 0xC0A80100, other_address, good_world)
   \<and> ds_optreqip (ds_opts other_address) = 0xC0A80163"
proof -
  have f: "dhcpd_findbymac (m_chaddr (ds_inpacket other_address)) (num_leases (sample_server\<lparr>num_leases := 1\<rparr>)) other_address
      = Ret (Some 0)"
    by (simp add: dhcpd_findbymac_def other_address_def zero_state_def zero_msg_def zero_lease_def)
  have s: "ds_optserverip (ds_opts other_address) = ntohl (ds_serverip other_address)"
    by (simp add: other_address_def htonl_def le32_def)
  have n: "ds_serverip other_address \<noteq> 0" "ds_optreqip (ds_opts other_address) \<noteq> 0"
    by (simp_all add: other_address_def)
  from dhcpd_acks_any_address [OF f s n] show ?thesis
    by (simp add: sample_server_def) (simp add: other_address_def)
qed

text \<open>Padding is skipped byte by byte.\<close>

lemma parse_loop_pads:
  assumes "length (m_options m) = 312" and "p_field p = 0" and "p_rem p = 312 - int (p_off p)"
    and "drop (p_off p) (m_options m) = replicate n 0 @ x # rest"
  shows "\<exists>q. parse_loop m p = parse_loop m q \<and> p_field q = 0 \<and> p_off q = p_off p + n
    \<and> p_rem q = 312 - int (p_off q)"
  using assms
proof (induction n arbitrary: p)
  case (Suc n)
  let ?q = "p\<lparr>p_off := p_off p + 1, p_rem := 312 - int (p_off p + 1), p_optlen := 1\<rparr>"
  have k: "p_off p + 1 < 312"
    using Suc.prems(1) arg_cong [OF Suc.prems(4), of length] by simp
  have "rd (m_options m) (p_off p) = Ret 0"
    using rd_drop [of "p_off p" 0 "m_options m"] k Suc.prems by simp
  then have "parse_step m p = Ret (More ?q)"
    using k Suc.prems(2,3) by (simp add: parse_step_def parse_option_def field_bytes_def)
  then have e: "parse_loop m p = parse_loop m ?q" by (subst parse_loop.simps) simp
  have "drop (p_off ?q) (m_options m) = drop 1 (drop (p_off p) (m_options m))" by simp
  also have "\<dots> = replicate n 0 @ x # rest" using Suc.prems(4) by simp
  finally have "\<exists>q. parse_loop m ?q = parse_loop m q \<and> p_field q = 0 \<and> p_off q = p_off ?q + n
    \<and> p_rem q = 312 - int (p_off q)"
    using Suc.prems by (intro Suc.IH) auto
  with e show ?case by auto
qed auto

text \<open>A datagram can make the parser read past the options: when the last byte of the field is
  an option code (anything but a pad or an END), its length is read from the byte after it.\<close>

theorem dhcpd_parser_reads_past_the_end:
  assumes "m_options (ds_inpacket st) = MAGIC @ replicate 307 0 @ [code]" and "code \<notin> {0, 255}"
  shows "dhcpd_parseoptions st = Ub OutOfBounds"
proof -
  let ?m = "ds_inpacket st"
  have len: "length (m_options ?m) = 312" by (simp add: assms(1) MAGIC_def)
  have d: "drop (p_off parse_start) (m_options ?m) = replicate 307 0 @ code # []"
    by (simp add: parse_start_def assms(1) MAGIC_def)
  obtain q where q: "parse_loop ?m parse_start = parse_loop ?m q" "p_field q = 0" "p_off q = 311"
    using parse_loop_pads [OF len _ _ d] by (auto simp: parse_start_def)
  have "rd (m_options ?m) 311 = Ret code"
    using len by (simp add: assms(1) MAGIC_def nth_append)
  moreover have "rd (m_options ?m) 312 = Ub OutOfBounds" by (simp add: rd_def len)
  ultimately have "parse_step ?m q = Ub OutOfBounds"
    using q assms(2) by (simp add: parse_step_def parse_option_def take_option_def field_bytes_def)
  then have "parse_loop ?m q = Ub OutOfBounds" by (subst parse_loop.simps) simp
  moreover have "take 4 (m_options ?m) = MAGIC" by (simp add: assms(1)) (simp add: MAGIC_def)
  ultimately show ?thesis by (simp add: dhcpd_parseoptions_def q)
qed

theorem dhcpd_parser_reads_past_the_end_witness:
  "dhcpd_parseoptions ((zero_state 1)\<lparr>ds_inpacket :=
     zero_msg\<lparr>m_options := MAGIC @ replicate 307 0 @ [53]\<rparr>\<rparr>) = Ub OutOfBounds"
  by (rule dhcpd_parser_reads_past_the_end [where code = 53]) simp_all

end
