(* ===== verification/DhcpClient.thy ===== *)
theory DhcpClient
  imports DhcpMsg
begin

unbundle bit_operations_syntax

section \<open>The DHCP client (\<^verbatim>\<open>netutils/dhcpc.c\<close>)\<close>

text \<open>
  The client's packet buffer serves for sending and receiving. What it learns is written to the
  caller's \<^verbatim>\<open>struct dhcpc_state\<close>, all addresses in network order. \<open>dhcpc_request\<close> is the
  protocol: DISCOVER until an offer comes, REQUEST at most three times, and again from the start
  until a lease is acknowledged.
\<close>

record dhcpc_result =
  dr_serverid :: u32
  dr_ipaddr :: u32
  dr_netmask :: u32
  dr_dnsaddr :: u32
  dr_default_router :: u32
  dr_lease_time :: u32

record dhcpc_handle =
  dc_maclen :: int
  dc_sockfd :: int
  dc_ipaddr :: u32
  dc_serverid :: u32
  dc_packet :: dhcpmsg

definition client_xid :: bytes where
  "client_xid = [0xad, 0xde, 0x12, 0x23]"

subsection \<open>Building a message\<close>

text \<open>Options are written at a pointer into the packet's option field: the field and the offset.\<close>

definition put_bytes :: "bytes \<Rightarrow> bytes \<times> nat \<Rightarrow> (bytes \<times> nat) outcome" where
  "put_bytes bs s = obind (wr_n (fst s) (snd s) bs) (\<lambda>o1. Ret (o1, snd s + length bs))"

definition dhcpc_addmsgtype :: "u8 \<Rightarrow> bytes \<times> nat \<Rightarrow> (bytes \<times> nat) outcome" where
  "dhcpc_addmsgtype t s = put_bytes [53, 1, t] s"

definition dhcpc_addserverid :: "u32 \<Rightarrow> bytes \<times> nat \<Rightarrow> (bytes \<times> nat) outcome" where
  "dhcpc_addserverid a s = put_bytes ([54, 4] @ le32 a) s"

definition dhcpc_addreqipaddr :: "u32 \<Rightarrow> bytes \<times> nat \<Rightarrow> (bytes \<times> nat) outcome" where
  "dhcpc_addreqipaddr a s = put_bytes ([50, 4] @ le32 a) s"

definition dhcpc_addreqoptions :: "bytes \<times> nat \<Rightarrow> (bytes \<times> nat) outcome" where
  "dhcpc_addreqoptions s = put_bytes [55, 3, 1, 3, 6] s"

definition dhcpc_addend :: "bytes \<times> nat \<Rightarrow> (bytes \<times> nat) outcome" where
  "dhcpc_addend s = put_bytes [255] s"

text \<open>The part of a message that depends on its type: flags, \<open>ciaddr\<close>, options, destination;
  \<open>None\<close> for a type the client does not send.\<close>

definition specific_part ::
  "dhcpc_handle \<Rightarrow> dhcpc_result \<Rightarrow> u8 \<Rightarrow> bool \<Rightarrow> dhcpmsg \<Rightarrow> bytes \<times> nat
     \<Rightarrow> (dhcpmsg \<times> (bytes \<times> nat) \<times> u32) outcome option" where
  "specific_part pd pr msgtype renew m s =
     (if msgtype = DHCPDISCOVER then
        Some (obind (dhcpc_addreqoptions s) (\<lambda>s1. Ret (m\<lparr>m_flags := htons 0x8000\<rparr>, s1, 0xFFFFFFFF)))
      else if msgtype = DHCPREQUEST then
        Some (let m1 = m\<lparr>m_flags := htons 0x8000, m_ciaddr := le32 (dc_ipaddr pd)\<rparr>
              in if renew then Ret (m1, s, 0xFFFFFFFF)
                 else obind (dhcpc_addserverid (dc_serverid pd) s) (\<lambda>s1.
                      obind (dhcpc_addreqipaddr (dc_ipaddr pd) s1) (\<lambda>s2. Ret (m1, s2, 0xFFFFFFFF))))
      else if msgtype = DHCPDECLINE then
        Some (obind (dhcpc_addserverid (dr_serverid pr) s) (\<lambda>s1.
                Ret (m\<lparr>m_ciaddr := le32 (dr_ipaddr pr)\<rparr>, s1, dr_serverid pr)))
      else if msgtype = DHCPRELEASE then
        Some (obind (dhcpc_addserverid (dc_serverid pd) s) (\<lambda>s1.
              obind (dhcpc_addreqipaddr (dc_ipaddr pd) s1) (\<lambda>s2.
                Ret (m\<lparr>m_ciaddr := le32 (dc_ipaddr pd)\<rparr>, s2, 0xFFFFFFFF))))
      else None)"

text \<open>\<^verbatim>\<open>mac\<close> is a buffer of 6 bytes, filled when the ioctl returns 0.\<close>

definition common_header :: "dhcpc_handle \<Rightarrow> bytes \<Rightarrow> dhcpmsg outcome" where
  "common_header pd mac =
     (if 0 \<le> dc_maclen pd \<and> dc_maclen pd \<le> 6 then
        Ret (zero_msg\<lparr>m_op := 1, m_htype := 1, m_hlen := word_of_int (dc_maclen pd), m_xid := client_xid,
               m_chaddr := take (nat (dc_maclen pd)) mac @ replicate (16 - nat (dc_maclen pd)) 0\<rparr>)
      else Ub OutOfBounds)"

definition dhcpc_sendmsg ::
  "dhcpc_handle \<Rightarrow> dhcpc_result \<Rightarrow> u8 \<Rightarrow> string \<Rightarrow> bool \<Rightarrow> world \<Rightarrow> (int \<times> dhcpc_handle \<times> world) outcome" where
  "dhcpc_sendmsg pd pr msgtype ifname renew w =
     (let (r, mac, w1) = getmacaddr (Some ifname) w
      in if r = ERROR then Ret (E_NETWORK_ERROR, pd, w1)
         else case mac of
           None \<Rightarrow> Ub Uninitialised
         | Some mac \<Rightarrow>
             obind (common_header pd mac) (\<lambda>m.
             obind (put_bytes MAGIC (m_options m, 0)) (\<lambda>s0.
             obind (dhcpc_addmsgtype msgtype s0) (\<lambda>s1.
               case specific_part pd pr msgtype renew m s1 of
                 None \<Rightarrow> Ret (ERROR, pd\<lparr>dc_packet := m\<lparr>m_options := fst s1\<rparr>\<rparr>, w1)
               | Some p \<Rightarrow>
                   obind p (\<lambda>(m1, s2, dest).
                   obind (dhcpc_addend s2) (\<lambda>s3.
                     let m2 = m1\<lparr>m_options := fst s3\<rparr>;
                         (a, w2) = xc (SendTo (dc_sockfd pd) (take (236 + snd s3) (msg_bytes m2)) dest 67) w1
                     in Ret (retv a, pd\<lparr>dc_packet := m2\<rparr>, w2)))))))"

subsection \<open>Reading a message\<close>

text \<open>\<open>off\<close> is the read position in the option field, \<open>stop\<close> where the loop ends;
  a read past the field is a fault.\<close>

definition cl_option :: "bytes \<Rightarrow> nat \<Rightarrow> u8 \<Rightarrow> u8 \<Rightarrow> dhcpc_result \<Rightarrow> (u8 \<times> dhcpc_result) outcome" where
  "cl_option os off code t pr =
     (if code = 1 then obind (rd_n os (off + 2) 4) (\<lambda>b. Ret (t, pr\<lparr>dr_netmask := of_le32 b\<rparr>))
      else if code = 3 then obind (rd_n os (off + 2) 4) (\<lambda>b. Ret (t, pr\<lparr>dr_default_router := of_le32 b\<rparr>))
      else if code = 6 then obind (rd_n os (off + 2) 4) (\<lambda>b. Ret (t, pr\<lparr>dr_dnsaddr := of_le32 b\<rparr>))
      else if code = 53 then obind (rd os (off + 2)) (\<lambda>b. Ret (b, pr))
      else if code = 54 then obind (rd_n os (off + 2) 4) (\<lambda>b. Ret (t, pr\<lparr>dr_serverid := of_le32 b\<rparr>))
      else if code = 51 then obind (rd_n os (off + 2) 4) (\<lambda>b.
        Ret (t, pr\<lparr>dr_lease_time := push_bit 16 (ucast (htons (of_le16 (take 2 b))))
                                    OR ucast (htons (of_le16 (drop 2 b)))\<rparr>))
      else Ret (t, pr))"

function dhcpc_parseoptions :: "bytes \<Rightarrow> nat \<Rightarrow> nat \<Rightarrow> u8 \<Rightarrow> dhcpc_result \<Rightarrow> (u8 \<times> dhcpc_result) outcome" where
  "dhcpc_parseoptions os off stop t pr =
     (if off < stop then
        obind (rd os off) (\<lambda>code.
        obind (cl_option os off code t pr) (\<lambda>(t1, pr1).
          if code = 255 then Ret (t1, pr1)
          else obind (rd os (off + 1)) (\<lambda>l. dhcpc_parseoptions os (off + (unat l + 2)) stop t1 pr1)))
      else Ret (t, pr))"
  by pat_completeness auto

termination
  by (relation "measure (\<lambda>(os, off, stop, t, pr). stop - off)") auto

declare dhcpc_parseoptions.simps [simp del]

definition dhcpc_parsemsg :: "dhcpc_handle \<Rightarrow> nat \<Rightarrow> dhcpc_result \<Rightarrow> (u8 \<times> dhcpc_result) outcome" where
  "dhcpc_parsemsg pd buflen pr =
     (let m = dc_packet pd
      in if m_op m = 2 \<and> m_xid m = client_xid
         then dhcpc_parseoptions (m_options m) 4 (4 + buflen) 0 (pr\<lparr>dr_ipaddr := of_le32 (m_yiaddr m)\<rparr>)
         else Ret (0, pr))"

subsection \<open>Opening and closing\<close>

text \<open>The handle, \<open>None\<close> for \<open>NULL\<close>, with the address of its structure.\<close>

definition dhcpc_open :: "int \<Rightarrow> world \<Rightarrow> (addr \<times> dhcpc_handle) option \<times> world" where
  "dhcpc_open maclen w =
     (let (a, w1) = xc (Malloc 568) w; p = nat (retv a)
      in if retv a = 0 then (None, w1)
         else let (s, w2) = xc (Socket ''udp'') w1; fd = retv s
              in if fd < 0 then (None, xcu (Free p) w2)
                 else let (b, w3) = xc (Bind fd 0 68) w2
                      in if retv b < 0 then (None, xcu (Free p) (xcu (Close fd) w3))
                         else let (t, w4) = xc (Setsockopt fd ''SO_RCVTIMEO'') w3
                              in if retv t < 0 then (None, xcu (Free p) (xcu (Close fd) w4))
                                 else let (c, w5) = xc (Setsockopt fd ''SO_BROADCAST'') w4
                                      in if retv c < 0 then (None, xcu (Free p) (xcu (Close fd) w5))
                                         else (Some (p, \<lparr>dc_maclen = maclen, dc_sockfd = fd, dc_ipaddr = 0,
                                                 dc_serverid = 0, dc_packet = zero_msg\<rparr>), w5))"

definition dhcpc_close :: "(addr \<times> dhcpc_handle) option \<Rightarrow> world \<Rightarrow> world" where
  "dhcpc_close h w =
     (case h of
        None \<Rightarrow> w
      | Some (p, pd) \<Rightarrow> xcu (Free p) (if dc_sockfd pd \<noteq> 0 then xcu (Close (dc_sockfd pd)) w else w))"

subsection \<open>The protocol\<close>

text \<open>\<^verbatim>\<open>recv\<close> into the packet buffer and parsing; \<open>None\<close> if it failed, with
  \<^verbatim>\<open>errno\<close>.\<close>

definition recv_msg ::
  "dhcpc_handle \<Rightarrow> dhcpc_result \<Rightarrow> world \<Rightarrow> (u8 option \<times> int \<times> dhcpc_handle \<times> dhcpc_result \<times> world) outcome" where
  "recv_msg pd pr w =
     (let (a, w1) = xc (Recv (dc_sockfd pd) 548) w
      in if 0 \<le> retv a then
           let n = nat (retv a); pd1 = pd\<lparr>dc_packet := overlay (take n (outb a)) (dc_packet pd)\<rparr>
           in obind (dhcpc_parsemsg pd1 n pr) (\<lambda>(t, pr1). Ret (Some t, errno a, pd1, pr1, w1))
         else Ret (None, errno a, pd, pr, w1))"

text \<open>The outcome of a phase: the whole request fails, or it goes on with a state, which for the
  first phase includes how many DISCOVERs are left.\<close>

datatype 'a phase = Failed | Going 'a

text \<open>DISCOVER until an OFFER, \<open>count\<close> being the counter of the source.\<close>

fun discover_loop ::
  "string \<Rightarrow> u32 \<Rightarrow> bool \<Rightarrow> nat \<Rightarrow> dhcpc_handle \<Rightarrow> dhcpc_result \<Rightarrow> world
     \<Rightarrow> (nat phase \<times> dhcpc_handle \<times> dhcpc_result \<times> world) outcome" where
  "discover_loop ifname oldaddr renew 0 pd pr w =
     obind (dhcpc_sendmsg pd pr DHCPDISCOVER ifname renew w) (\<lambda>(r, pd1, w1).
       if r < 0 then Ret (Failed, pd1, pr, w1)
       else Ret (Failed, pd1, pr, snd (set_ipv4addr (Some ifname) (Some oldaddr) w1)))"
| "discover_loop ifname oldaddr renew (Suc count) pd pr w =
     obind (dhcpc_sendmsg pd pr DHCPDISCOVER ifname renew w) (\<lambda>(r, pd1, w1).
       if r < 0 then Ret (Failed, pd1, pr, w1)
       else obind (recv_msg pd1 pr w1) (\<lambda>(t, e, pd2, pr1, w2). case t of
              Some msgtype \<Rightarrow>
                if msgtype = DHCPOFFER
                then Ret (Going count,
                          pd2\<lparr>dc_ipaddr := dr_ipaddr pr1, dc_serverid := dr_serverid pr1\<rparr>, pr1,
                          snd (set_ipv4addr (Some ifname) (Some (dr_ipaddr pr1)) w2))
                else discover_loop ifname oldaddr renew count pd2 pr1 w2
            | None \<Rightarrow>
                if e \<noteq> EAGAIN then Ret (Failed, pd2, pr1, w2)
                else discover_loop ifname oldaddr renew count pd2 pr1 w2))"

text \<open>REQUEST, \<open>left\<close> times at most: whether the lease was acknowledged, and \<open>renew\<close>, which
  the third attempt clears (a NAK leaves the loop before that).\<close>

fun request_loop ::
  "string \<Rightarrow> u32 \<Rightarrow> u32 \<Rightarrow> bool \<Rightarrow> nat \<Rightarrow> dhcpc_handle \<Rightarrow> dhcpc_result \<Rightarrow> world
     \<Rightarrow> ((bool \<times> bool) phase \<times> dhcpc_handle \<times> dhcpc_result \<times> world) outcome" where
  "request_loop ifname oldaddr addr renew 0 pd pr w = Ret (Going (False, renew), pd, pr, w)"
| "request_loop ifname oldaddr addr renew (Suc left) pd pr w =
     (let pd0 = (if renew then pd\<lparr>dc_ipaddr := addr\<rparr> else pd); renew' = (if left = 0 then False else renew)
      in obind (dhcpc_sendmsg pd0 pr DHCPREQUEST ifname renew w) (\<lambda>(r, pd1, w1).
           if r < 0 then Ret (Failed, pd1, pr, w1)
           else obind (recv_msg pd1 pr w1) (\<lambda>(t, e, pd2, pr1, w2). case t of
                  Some msgtype \<Rightarrow>
                    if msgtype = DHCPACK then Ret (Going (True, renew'), pd2, pr1, w2)
                    else if msgtype = DHCPNAK then Ret (Going (False, renew), pd2, pr1, w2)
                    else if msgtype = DHCPOFFER then
                      obind (dhcpc_sendmsg pd2 pr1 DHCPDECLINE ifname renew w2) (\<lambda>(_, pd3, w3).
                        request_loop ifname oldaddr addr renew' left pd3 pr1 w3)
                    else request_loop ifname oldaddr addr renew' left pd2 pr1 w2
                | None \<Rightarrow>
                    if e \<noteq> EAGAIN
                    then Ret (Failed, pd2, pr1, snd (set_ipv4addr (Some ifname) (Some oldaddr) w2))
                    else request_loop ifname oldaddr addr renew' left pd2 pr1 w2)))"

text \<open>Before a DISCOVER the interface gets address 0.0.0.0, and a default route if it had another:
  true when this went well.\<close>

definition reset_address :: "string \<Rightarrow> u32 \<Rightarrow> world \<Rightarrow> bool \<times> world" where
  "reset_address ifname oldaddr w =
     (let (r, w1) = set_ipv4addr (Some ifname) (Some 0) w
      in if r = ERROR then (False, w1)
         else if oldaddr \<noteq> 0 then
           let (r, w2) = set_defaultroute (Some ifname) (Some 0) False w1 in (r \<noteq> ERROR, w2)
         else (True, w1))"

text \<open>One round up to the offer: failed, or how many DISCOVERs are left.\<close>

definition first_phase ::
  "string \<Rightarrow> u32 \<Rightarrow> bool \<Rightarrow> nat \<Rightarrow> dhcpc_handle \<Rightarrow> dhcpc_result \<Rightarrow> world
     \<Rightarrow> (nat phase \<times> dhcpc_handle \<times> dhcpc_result \<times> world) outcome" where
  "first_phase ifname oldaddr renew count pd pr w =
     (if renew then Ret (Going count, pd, pr, w)
      else let (ok, w1) = reset_address ifname oldaddr w
           in if ok then discover_loop ifname oldaddr renew count pd pr w1
              else Ret (Failed, pd, pr, w1))"

partial_function (option) lease_loop ::
  "string \<Rightarrow> u32 \<Rightarrow> u32 \<Rightarrow> bool \<Rightarrow> nat \<Rightarrow> dhcpc_handle \<Rightarrow> dhcpc_result \<Rightarrow> world
     \<Rightarrow> (int \<times> dhcpc_handle \<times> dhcpc_result \<times> world) run" where
  "lease_loop ifname oldaddr addr renew count pd pr w =
     (case first_phase ifname oldaddr renew count pd pr w of
        Ub f \<Rightarrow> Some (Ub f)
      | Ret (ph, pd1, pr1, w1) \<Rightarrow>
          (case ph of
             Failed \<Rightarrow> Some (Ret (ERROR, pd1, pr1, w1))
           | Going count' \<Rightarrow>
               (case request_loop ifname oldaddr addr renew 3 pd1 pr1 w1 of
                  Ub f \<Rightarrow> Some (Ub f)
                | Ret (ph2, pd2, pr2, w2) \<Rightarrow>
                    (case ph2 of
                       Failed \<Rightarrow> Some (Ret (ERROR, pd2, pr2, w2))
                     | Going (leased, renew') \<Rightarrow>
                         if leased then Some (Ret (OK, pd2, pr2, w2))
                         else lease_loop ifname oldaddr addr renew' count' pd2 pr2 w2))))"

definition dhcpc_request ::
  "string \<Rightarrow> u32 \<Rightarrow> bool \<Rightarrow> dhcpc_handle \<Rightarrow> dhcpc_result \<Rightarrow> world
     \<Rightarrow> (int \<times> dhcpc_handle \<times> dhcpc_result \<times> world) run" where
  "dhcpc_request ifname addr renew pd pr w =
     (let (_, old, w1) = get_ipv4addr (Some ifname) (Some 0) w
      in lease_loop ifname (case old of None \<Rightarrow> 0 | Some a \<Rightarrow> a) addr renew 5 pd pr w1)"

end
