(* ===== verification/DhcpClientProps.thy ===== *)
theory DhcpClientProps
  imports DhcpClient DhcpServerProps
begin

section \<open>Properties of the DHCP client, and of client and server together\<close>

text \<open>
  A request that does not renew always ends, since the DISCOVERs are counted; a renewal that is
  refused every time never does. The requests of the client and the acknowledgements of the server
  are understood by the other side.
\<close>

subsection \<open>Termination\<close>

lemma discover_loop_counts:
  "discover_loop ifname old renew count pd pr w = Ret (Going c, pd', pr', w') \<Longrightarrow> c < count"
proof (induction count arbitrary: pd pr w)
  case 0
  then show ?case by (auto simp: obind_eq_Ret split: if_splits)
next
  case (Suc count)
  then show ?case by (auto simp: obind_eq_Ret less_Suc_eq split: if_splits option.splits)
qed

lemma request_loop_keeps_no_renew:
  "request_loop ifname old addr False k pd pr w = Ret (Going (b, r), pd', pr', w') \<Longrightarrow> \<not> r"
proof (induction k arbitrary: pd pr w)
  case (Suc k)
  from Suc.prems obtain s pd1 w1 t e pd2 pr1 w2
    where s: "dhcpc_sendmsg pd pr DHCPREQUEST ifname False w = Ret (s, pd1, w1)"
      and r: "\<not> s < 0 \<Longrightarrow> recv_msg pd1 pr w1 = Ret (t, e, pd2, pr1, w2)"
    by (auto simp: obind_eq_Ret split: if_splits)
  with Suc.prems have "\<not> s < 0" by auto
  note sr = s this r [OF this]
  show ?case
  proof (cases t)
    case None
    with Suc sr show ?thesis by (auto split: if_splits)
  next
    case (Some m)
    show ?thesis
    proof (cases "m = DHCPACK \<or> m = DHCPNAK")
      case True
      with Suc.prems sr Some show ?thesis by (auto split: if_splits)
    next
      case False
      show ?thesis
      proof (cases "m = DHCPOFFER")
        case True
        with False Suc.prems sr Some obtain x pd3 w3
          where "request_loop ifname old addr False k pd3 pr1 w3 = Ret (Going (b, r), pd', pr', w')"
          by (auto simp: obind_eq_Ret)
        then show ?thesis by (rule Suc.IH)
      next
        case f: False
        with False Suc.prems sr Some show ?thesis by (auto dest: Suc.IH)
      qed
    qed
  qed
qed simp

lemma first_phase_counts:
  "first_phase ifname old False count pd pr w = Ret (Going c, pd', pr', w') \<Longrightarrow> c < count"
  by (auto simp: first_phase_def Let_def case_prod_beta split: if_splits intro: discover_loop_counts)

lemma lease_loop_ends: "lease_loop ifname old addr False count pd pr w \<noteq> None"
proof (induction count arbitrary: pd pr w rule: less_induct)
  case (less count)
  show ?case
  proof (cases "first_phase ifname old False count pd pr w")
    case (Ub f)
    then show ?thesis by (subst lease_loop.simps) simp
  next
    case 1: (Ret x)
    obtain ph pd1 pr1 w1 where x: "x = (ph, pd1, pr1, w1)" by (metis prod_cases4)
    show ?thesis
    proof (cases ph)
      case Failed
      with 1 x show ?thesis by (subst lease_loop.simps) simp
    next
      case (Going c)
      with 1 x have c: "c < count" using first_phase_counts by blast
      show ?thesis
      proof (cases "request_loop ifname old addr False 3 pd1 pr1 w1")
        case (Ub f)
        with 1 x Going show ?thesis by (subst lease_loop.simps) simp
      next
        case 2: (Ret y)
        obtain ph2 pd2 pr2 w2 where y: "y = (ph2, pd2, pr2, w2)" by (metis prod_cases4)
        show ?thesis
        proof (cases ph2)
          case Failed
          with 1 2 x y Going show ?thesis by (subst lease_loop.simps) simp
        next
          case g: (Going br)
          obtain b r where br: "br = (b, r)" by (cases br)
          with 2 y g have "\<not> r" using request_loop_keeps_no_renew by blast
          with 1 2 x y Going g br less.IH [OF c] show ?thesis
            by (subst lease_loop.simps) simp
        qed
      qed
    qed
  qed
qed

text \<open>C8. A request for a new lease always ends, whatever is received: the counter of DISCOVERs
  is never reset, so after at most six of them the client gives up.\<close>

theorem dhcpc_new_lease_ends:
  "dhcpc_request ifname addr False pd pr w \<noteq> None"
  by (simp add: dhcpc_request_def case_prod_beta Let_def lease_loop_ends del: not_None_eq)

subsection \<open>A renewal that is refused\<close>

lemma rd_n_drop:
  assumes "drop k bs = d @ rest" and "n \<le> length d" and "0 < n"
  shows "rd_n bs k n = Ret (take n d)"
proof -
  have "n \<le> length bs - k"
    using arg_cong [OF assms(1), of length] assms(2) by simp
  with assms show ?thesis by (simp add: rd_n_def)
qed

text \<open>What an option means to the client, and what it needs of one.\<close>

definition cl_apply :: "u8 \<times> bytes \<Rightarrow> u8 \<times> dhcpc_result \<Rightarrow> u8 \<times> dhcpc_result" where
  "cl_apply x s =
     (let a = of_le32 (take 4 (snd x))
      in if fst x = 1 then (fst s, (snd s)\<lparr>dr_netmask := a\<rparr>)
         else if fst x = 3 then (fst s, (snd s)\<lparr>dr_default_router := a\<rparr>)
         else if fst x = 6 then (fst s, (snd s)\<lparr>dr_dnsaddr := a\<rparr>)
         else if fst x = 53 then (snd x ! 0, snd s)
         else if fst x = 54 then (fst s, (snd s)\<lparr>dr_serverid := a\<rparr>)
         else if fst x = 51 then (fst s, (snd s)\<lparr>dr_lease_time := of_le32 (rev (take 4 (snd x)))\<rparr>)
         else s)"

definition cl_good :: "u8 \<times> bytes \<Rightarrow> bool" where
  "cl_good x \<longleftrightarrow> fst x \<noteq> 255 \<and> length (snd x) < 256
     \<and> (if fst x \<in> {1, 3, 6, 51, 54} then 4 \<le> length (snd x) else True)
     \<and> (if fst x = 53 then 1 \<le> length (snd x) else True)"

lemma cl_option_apply:
  assumes "cl_good (c, d)" and "drop (off + 2) os = d @ rest" and "off + 2 + length d \<le> length os"
  shows "cl_option os off c t pr = Ret (cl_apply (c, d) (t, pr))"
proof -
  have r: "rd_n os (off + 2) 4 = Ret (take 4 d)" if "4 \<le> length d"
    using rd_n_drop [OF assms(2) that] by simp
  have n: "rd os (off + 2) = Ret (d ! 0)" if "1 \<le> length d"
    using that assms(2,3) rd_drop [of "off + 2" 0 os] by (cases d) auto
  have l: "push_bit 16 (ucast (htons (of_le16 (take 2 (take 4 d))))) OR ucast (htons (of_le16 (drop 2 (take 4 d))))
      = of_le32 (rev (take 4 d))" if "4 \<le> length d"
    using be32_of_halves [of "take 4 d"] that by simp
  show ?thesis
    unfolding cl_option_def cl_apply_def Let_def fst_conv snd_conv
    using assms(1) r n l by (auto simp: cl_good_def)
qed

lemma cl_parse_options:
  assumes "list_all cl_good opts" and "drop off os = concat (map enc_opt opts) @ 255 # rest"
    and "off + length (concat (map enc_opt opts)) < stop"
  shows "dhcpc_parseoptions os off stop t pr = Ret (fold cl_apply opts (t, pr))"
  using assms
proof (induction opts arbitrary: off t pr)
  case Nil
  then have "rd os off = Ret 255"
    using rd_drop [of off 0 os] by (cases "off < length os") auto
  with Nil show ?case by (subst dhcpc_parseoptions.simps) (simp add: cl_option_def)
next
  case (Cons x opts)
  obtain c d where x: "x = (c, d)" by (cases x)
  let ?tail = "concat (map enc_opt opts) @ 255 # rest"
  have o: "drop off os = c # word_of_nat (length d) # d @ ?tail"
    using Cons.prems(2) x by (simp add: enc_opt_def [of "(c, d)"])
  have len: "length os - off = 2 + length d + length ?tail"
    using arg_cong [OF o, of length] by simp
  have u: "length d mod 256 = length d"
    using Cons.prems(1) x by (simp add: cl_good_def)
  have r: "rd os off = Ret c" "rd os (off + 1) = Ret (word_of_nat (length d))"
    using rd_drop [of off 0 os] rd_drop [of off 1 os] o len by simp_all
  have "drop (off + 2) os = drop 2 (drop off os)" by (simp add: add.commute)
  then have d: "drop (off + 2) os = d @ ?tail" using o by simp
  have "drop (off + (length d + 2)) os = drop (length d) (drop (off + 2) os)"
    by (simp add: add.commute add.left_commute)
  also have "\<dots> = ?tail" unfolding d by simp
  finally have t: "drop (off + (length d + 2)) os = ?tail" .
  have p: "cl_option os off c t pr = Ret (cl_apply (c, d) (t, pr))"
    using cl_option_apply [OF _ d] Cons.prems(1) x len by simp
  obtain t' pr' where a: "cl_apply (c, d) (t, pr) = (t', pr')" by (cases "cl_apply (c, d) (t, pr)")
  have "dhcpc_parseoptions os (off + (length d + 2)) stop t' pr' = Ret (fold cl_apply opts (t', pr'))"
    using Cons.prems x by (intro Cons.IH [OF _ t]) (auto simp: enc_opt_def)
  moreover have "c \<noteq> 255" using Cons.prems(1) x by (simp add: cl_good_def)
  moreover have "off < stop" using Cons.prems(3) by simp
  ultimately show ?case
    using r by (subst dhcpc_parseoptions.simps) (simp add: p x a u)
qed


subsection \<open>What the client sends\<close>

text \<open>An option field under construction: the bytes written, padded, and their number.\<close>

definition cl_built :: "bytes \<Rightarrow> bytes \<times> nat" where
  "cl_built bs = (bs @ replicate (312 - length bs) 0, length bs)"

lemma put_bytes_built:
  "length bs + length xs \<le> 312 \<Longrightarrow> put_bytes xs (cl_built bs) = Ret (cl_built (bs @ xs))"
  by (simp add: put_bytes_def cl_built_def wr_n_def)

lemmas put_simps = dhcpc_addmsgtype_def dhcpc_addserverid_def dhcpc_addreqipaddr_def
  dhcpc_addreqoptions_def dhcpc_addend_def put_bytes_built

lemma common_header_ok:
  assumes "0 \<le> dc_maclen pd" and "dc_maclen pd \<le> 6" and "length mac = 6"
  shows "\<exists>m. common_header pd mac = Ret m \<and> wf_msg m \<and> m_options m = replicate 312 0
    \<and> m_op m = 1 \<and> m_xid m = client_xid \<and> m_chaddr m = take (nat (dc_maclen pd)) mac @ replicate (16 - nat (dc_maclen pd)) 0"
  using assms by (auto simp: common_header_def wf_msg_def zero_msg_def client_xid_def)

lemma later_getmacaddr [simp, intro]: "later w (snd (snd (getmacaddr n w)))"
  by (auto simp: getmacaddr_def walk_simps split: option.split)

lemma getmacaddr_mac: "getmacaddr n w = (r, Some mac, w') \<Longrightarrow> length mac = 6"
  by (auto simp: getmacaddr_def walk_simps split: option.splits if_splits)

text \<open>A REQUEST for an offered address: the message, its option bytes and the datagram.\<close>

definition request_options :: "dhcpc_handle \<Rightarrow> bytes" where
  "request_options pd = MAGIC @ concat (map enc_opt [(53, [DHCPREQUEST]), (54, le32 (dc_serverid pd)),
     (50, le32 (dc_ipaddr pd))])"

lemma enc_opt_le32: "enc_opt (c, le32 a) = [c, 4] @ le32 a"
  by (simp add: enc_opt_def)

lemma sendmsg_request:
  assumes "getmacaddr (Some ifname) w = (r, Some mac, w1)" and "r \<noteq> ERROR"
    and "0 \<le> dc_maclen pd" and "dc_maclen pd \<le> 6"
  shows "\<exists>m. dhcpc_sendmsg pd pr DHCPREQUEST ifname False w =
      Ret (retv (fst (xc (SendTo (dc_sockfd pd) (msg_header m @ request_options pd @ [255]) 0xFFFFFFFF 67) w1)),
           pd\<lparr>dc_packet := m\<rparr>,
           snd (xc (SendTo (dc_sockfd pd) (msg_header m @ request_options pd @ [255]) 0xFFFFFFFF 67) w1))
    \<and> wf_msg m \<and> m_op m = 1 \<and> m_xid m = client_xid \<and> m_ciaddr m = le32 (dc_ipaddr pd)
    \<and> m_chaddr m = take (nat (dc_maclen pd)) mac @ replicate (16 - nat (dc_maclen pd)) 0"
proof -
  obtain m0 where m0: "common_header pd mac = Ret m0" "wf_msg m0" "m_options m0 = replicate 312 0"
    "m_op m0 = 1" "m_xid m0 = client_xid"
    "m_chaddr m0 = take (nat (dc_maclen pd)) mac @ replicate (16 - nat (dc_maclen pd)) 0"
    using common_header_ok [OF assms(3,4) getmacaddr_mac [OF assms(1)]] by blast
  let ?bs = "request_options pd @ [255]"
  define m where "m = m0\<lparr>m_flags := htons 0x8000, m_ciaddr := le32 (dc_ipaddr pd),
    m_options := fst (cl_built ?bs)\<rparr>"
  have l: "length MAGIC = 4" "length ?bs = 20"
    by (simp_all add: MAGIC_def request_options_def enc_opt_def)
  have c: "(replicate 312 0, 0) = cl_built []" by (simp add: cl_built_def)
  have wf: "wf_msg m" using m0(2) l(2) by (simp add: wf_msg_def m_def cl_built_def)
  have t: "take (236 + length ?bs) (msg_bytes m) = msg_header m @ ?bs"
    unfolding msg_bytes_def using length_msg_header [OF wf] by (simp add: m_def cl_built_def)
  have b: "MAGIC @ [53, 1, DHCPREQUEST] @ [54, 4] @ le32 (dc_serverid pd) @ [50, 4] @ le32 (dc_ipaddr pd)
      = request_options pd"
    by (simp add: request_options_def enc_opt_le32) (simp add: enc_opt_def)
  have "specific_part pd pr DHCPREQUEST False m0 (cl_built (MAGIC @ [53, 1, DHCPREQUEST]))
      = Some (Ret (m0\<lparr>m_flags := htons 0x8000, m_ciaddr := le32 (dc_ipaddr pd)\<rparr>,
          cl_built (request_options pd), 0xFFFFFFFF))"
    unfolding b [symmetric] by (simp add: specific_part_def dhcp_types put_simps l)
  moreover have "dhcpc_addend (cl_built (request_options pd)) = Ret (cl_built ?bs)"
    using l(2) by (simp add: put_simps)
  moreover have "snd (cl_built ?bs) = length ?bs" by (simp add: cl_built_def)
  ultimately have "dhcpc_sendmsg pd pr DHCPREQUEST ifname False w =
      Ret (retv (fst (xc (SendTo (dc_sockfd pd) (msg_header m @ ?bs) 0xFFFFFFFF 67) w1)), pd\<lparr>dc_packet := m\<rparr>,
           snd (xc (SendTo (dc_sockfd pd) (msg_header m @ ?bs) 0xFFFFFFFF 67) w1))"
    using assms(1,2) m0(1,3) t
    by (simp add: dhcpc_sendmsg_def c dhcpc_addmsgtype_def put_bytes_built l m_def [symmetric] case_prod_beta Let_def)
  with wf m0 show ?thesis by (auto simp: m_def)
qed

lemma overlay_datagram:
  assumes "wf_msg h" and "wf_msg m" and "length os \<le> 312"
  shows "overlay (msg_header h @ os) m = h\<lparr>m_options := os @ drop (length os) (m_options m)\<rparr>"
proof -
  let ?h = "h\<lparr>m_options := os @ drop (length os) (m_options m)\<rparr>"
  have l: "length (msg_header h) = 236" "length (msg_header m) = 236" "length (m_options m) = 312"
    using assms length_msg_header by (auto simp: wf_msg_def)
  have "wf_msg ?h" using assms by (simp add: wf_msg_def)
  moreover have "msg_header ?h = msg_header h" by (simp add: msg_header_def)
  moreover have "take 548 (msg_header h @ os) = msg_header h @ os" using l assms(3) by simp
  ultimately show ?thesis
    using msg_of_bytes_msg_bytes [of ?h] l by (simp add: overlay_def msg_bytes_def)
qed

text \<open>C10. The server understands the client's REQUEST: when \<open>dhcpc_sendmsg\<close> has sent one for an
  offered address, it has broadcast a datagram from which the server's parser reads a DHCPREQUEST
  for exactly that address, addressed to exactly the server that offered it.\<close>

theorem dhcp_request_understood:
  assumes "dhcpc_sendmsg pd pr DHCPREQUEST ifname False w = Ret (r, pd', w')" and "0 \<le> r"
    and "wf_msg (ds_inpacket st)"
  shows "\<exists>bs. SendTo (dc_sockfd pd) bs 0xFFFFFFFF 67 \<in> set (drop (length (hist w)) (hist w'))
    \<and> m_op (overlay bs (ds_inpacket st)) = 1 \<and> m_xid (overlay bs (ds_inpacket st)) = client_xid
    \<and> dhcpd_parseoptions (st\<lparr>ds_inpacket := overlay bs (ds_inpacket st)\<rparr>)
      = Ret (True, st\<lparr>ds_inpacket := overlay bs (ds_inpacket st), ds_optend := None,
          ds_opts := \<lparr>ds_optmsgtype = DHCPREQUEST, ds_optreqip = htonl (dc_ipaddr pd),
             ds_optserverip = htonl (dc_serverid pd), ds_optleasetime = 0\<rparr>\<rparr>)"
proof -
  obtain q mac w1 where g: "getmacaddr (Some ifname) w = (q, Some mac, w1)" "q \<noteq> ERROR"
    using assms(1,2) by (cases "getmacaddr (Some ifname) w")
      (auto simp: dhcpc_sendmsg_def E_NETWORK_ERROR_def split: if_splits option.splits)
  have n: "0 \<le> dc_maclen pd" "dc_maclen pd \<le> 6"
    using assms(1) g by (auto simp: dhcpc_sendmsg_def common_header_def split: if_splits)
  from sendmsg_request [OF g n, of pr] obtain m where
    s: "dhcpc_sendmsg pd pr DHCPREQUEST ifname False w =
      Ret (retv (fst (xc (SendTo (dc_sockfd pd) (msg_header m @ request_options pd @ [255]) 0xFFFFFFFF 67) w1)),
           pd\<lparr>dc_packet := m\<rparr>,
           snd (xc (SendTo (dc_sockfd pd) (msg_header m @ request_options pd @ [255]) 0xFFFFFFFF 67) w1))"
    and m: "wf_msg m" "m_op m = 1" "m_xid m = client_xid" by auto
  let ?bs = "msg_header m @ request_options pd @ [255]"
  have o: "overlay ?bs (ds_inpacket st) = m\<lparr>m_options := (request_options pd @ [255])
      @ drop (length (request_options pd @ [255])) (m_options (ds_inpacket st))\<rparr>" (is "_ = ?m")
    by (rule overlay_datagram [OF m(1) assms(3)]) (simp add: request_options_def MAGIC_def enc_opt_def)
  let ?opts = "[(53, [DHCPREQUEST]), (54, le32 (dc_serverid pd)), (50, le32 (dc_ipaddr pd))]"
  have "drop (p_off parse_start) (m_options ?m) = concat (map enc_opt ?opts)
      @ 255 # drop (length (request_options pd @ [255])) (m_options (ds_inpacket st))"
    by (simp add: parse_start_def request_options_def MAGIC_def)
  moreover have "list_all good_opt ?opts" by (simp add: good_opt_def)
  moreover have "length (m_options ?m) = 312"
    using assms(3) by (simp add: wf_msg_def request_options_def MAGIC_def enc_opt_def)
  ultimately obtain p' where p: "parse_loop ?m parse_start = Ret (True, p')"
      "p_opts p' = fold apply_opt ?opts zero_opts"
    using parse_loop_options [of ?opts ?m parse_start] by (auto simp: parse_start_def)
  have "take 4 (m_options ?m) = MAGIC" by (simp add: request_options_def MAGIC_def)
  moreover have "fold apply_opt ?opts zero_opts = \<lparr>ds_optmsgtype = DHCPREQUEST, ds_optreqip = htonl (dc_ipaddr pd),
             ds_optserverip = htonl (dc_serverid pd), ds_optleasetime = 0\<rparr>"
    by (simp add: apply_opt_def zero_opts_def htonl_def)
  ultimately have "dhcpd_parseoptions (st\<lparr>ds_inpacket := ?m\<rparr>)
      = Ret (True, st\<lparr>ds_inpacket := ?m, ds_optend := None,
          ds_opts := \<lparr>ds_optmsgtype = DHCPREQUEST, ds_optreqip = htonl (dc_ipaddr pd),
             ds_optserverip = htonl (dc_serverid pd), ds_optleasetime = 0\<rparr>\<rparr>)"
    using p by (simp add: dhcpd_parseoptions_def)
  moreover have "later w w1" using g(1) later_getmacaddr [of w "Some ifname"] by simp
  then have "SendTo (dc_sockfd pd) ?bs 0xFFFFFFFF 67 \<in> set (drop (length (hist w)) (hist w'))"
    using s assms(1) by (auto simp: later_def)
  ultimately show ?thesis using m by (intro exI [of _ ?bs]) (simp add: o)
qed

definition sample_client :: dhcpc_handle where
  "sample_client = \<lparr>dc_maclen = 6, dc_sockfd = 5, dc_ipaddr = 0x0401A8C0, dc_serverid = 0x0101A8C0,
     dc_packet = zero_msg\<rparr>"

definition no_result :: dhcpc_result where
  "no_result = \<lparr>dr_serverid = 0, dr_ipaddr = 0, dr_netmask = 0, dr_dnsaddr = 0, dr_default_router = 0,
     dr_lease_time = 0\<rparr>"

lemma good_getmacaddr:
  "env w = good_env \<Longrightarrow> \<exists>mac w1. getmacaddr (Some n) w = (0, Some mac, w1) \<and> env w1 = good_env"
  by (simp add: getmacaddr_def walk_simps)

theorem dhcp_request_understood_witness:
  "\<exists>bs st. \<exists>w' :: world. SendTo 5 bs 0xFFFFFFFF 67 \<in> set (hist w')
     \<and> dhcpd_parseoptions (sample_state\<lparr>ds_inpacket := overlay bs sample_request\<rparr>) = Ret (True, st)
     \<and> ds_optreqip (ds_opts st) = 0xC0A80104 \<and> ds_optserverip (ds_opts st) = 0xC0A80101"
proof -
  obtain mac w1 where g: "getmacaddr (Some ''wlan0'') good_world = (0, Some mac, w1)" "env w1 = good_env"
    using good_getmacaddr [of good_world] by fastforce
  have n: "0 \<le> dc_maclen sample_client" "dc_maclen sample_client \<le> 6" by (simp_all add: sample_client_def)
  obtain r pd' w' where s: "dhcpc_sendmsg sample_client no_result DHCPREQUEST ''wlan0'' False good_world
      = Ret (r, pd', w')" "0 \<le> r"
    using sendmsg_request [OF g(1) _ n, of no_result] g(2) by (auto simp: ERROR_def)
  have "wf_msg (ds_inpacket sample_state)" by (simp add: sample_state_def)
  from dhcp_request_understood [OF s this]
  obtain bs where b: "SendTo 5 bs 0xFFFFFFFF 67 \<in> set (hist w')"
    "dhcpd_parseoptions (sample_state\<lparr>ds_inpacket := overlay bs sample_request\<rparr>)
      = Ret (True, sample_state\<lparr>ds_inpacket := overlay bs sample_request, ds_optend := None,
          ds_opts := \<lparr>ds_optmsgtype = DHCPREQUEST, ds_optreqip = htonl 0x0401A8C0,
             ds_optserverip = htonl 0x0101A8C0, ds_optleasetime = 0\<rparr>\<rparr>)"
    by (auto simp: sample_client_def sample_state_def)
  have "htonl 0x0401A8C0 = 0xC0A80104" "htonl 0x0101A8C0 = 0xC0A80101"
    by (simp_all add: htonl_def le32_def)
  with b(2) obtain st where "dhcpd_parseoptions (sample_state\<lparr>ds_inpacket := overlay bs sample_request\<rparr>)
      = Ret (True, st)" "ds_optreqip (ds_opts st) = 0xC0A80104" "ds_optserverip (ds_opts st) = 0xC0A80101"
    by (intro that) (assumption | simp)+
  with b(1) show ?thesis by blast
qed

subsection \<open>What the client learns from an acknowledgement\<close>

definition ack_options :: "u32 \<Rightarrow> u32 \<Rightarrow> dhcp_server_handle \<Rightarrow> (u8 \<times> bytes) list" where
  "ack_options serverip t sv = [(53, [5]), (54, le32 serverip), (51, rev (le32 t)), (1, le32 (netmask sv)),
     (3, le32 (gw_addr sv))] @ map (\<lambda>d. (6, le32 d)) (filter (\<lambda>d. d \<noteq> 0) (dns_addr sv))"

lemma enc_ack_options:
  "concat (map enc_opt (ack_options s t sv)) = [53, 1, 5, 54, 4] @ le32 s @ [51, 4] @ rev (le32 t)
     @ [1, 4] @ le32 (netmask sv) @ [3, 4] @ le32 (gw_addr sv)
     @ concat (map (\<lambda>d. [6, 4] @ le32 d) (filter (\<lambda>d. d \<noteq> 0) (dns_addr sv)))"
  by (simp add: ack_options_def comp_def enc_opt_le32) (simp add: enc_opt_def)

lemma fold_dns: "fold cl_apply (map (\<lambda>d. (6, le32 d)) ds) (t, pr)
    = (t, pr\<lparr>dr_dnsaddr := last (dr_dnsaddr pr # ds)\<rparr>)"
  by (induction ds arbitrary: pr) (auto simp: cl_apply_def)

lemma fold_ack_options:
  "fold cl_apply (ack_options s t sv) (0, pr) = (DHCPACK, pr\<lparr>dr_serverid := s, dr_lease_time := t,
     dr_netmask := netmask sv, dr_default_router := gw_addr sv,
     dr_dnsaddr := last (dr_dnsaddr pr # filter (\<lambda>d. d \<noteq> 0) (dns_addr sv))\<rparr>)"
proof -
  have "fold cl_apply [(53, [5]), (54, le32 s), (51, rev (le32 t)), (1, le32 (netmask sv)), (3, le32 (gw_addr sv))] (0, pr)
      = (DHCPACK, pr\<lparr>dr_serverid := s, dr_lease_time := t, dr_netmask := netmask sv, dr_default_router := gw_addr sv\<rparr>)"
    by (simp add: cl_apply_def DHCPACK_def)
  then show ?thesis by (simp only: ack_options_def fold_append comp_apply fold_dns) simp
qed

lemma cl_good_ack_options [simp]: "list_all cl_good (ack_options s t sv)"
  by (simp add: ack_options_def cl_good_def list_all_iff)

lemma parsemsg_datagram:
  assumes "wf_msg h" and "wf_msg (dc_packet pd)" and "m_op h = 2" and "m_xid h = client_xid"
    and "list_all cl_good opts" and "length (concat (map enc_opt opts)) < 308"
    and "bs = msg_header h @ MAGIC @ concat (map enc_opt opts) @ [255]"
  shows "dhcpc_parsemsg (pd\<lparr>dc_packet := overlay bs (dc_packet pd)\<rparr>) (length bs) pr
    = Ret (fold cl_apply opts (0, pr\<lparr>dr_ipaddr := of_le32 (m_yiaddr h)\<rparr>))"
proof -
  have m: "length MAGIC = 4" by (simp add: MAGIC_def)
  let ?os = "MAGIC @ concat (map enc_opt opts) @ [255]"
  define m where "m = overlay bs (dc_packet pd)"
  have "m = h\<lparr>m_options := ?os @ drop (length ?os) (m_options (dc_packet pd))\<rparr>"
    unfolding assms(7) m_def using assms(6) m by (intro overlay_datagram [OF assms(1,2)]) simp
  then have h: "m_op m = 2" "m_xid m = client_xid" "m_yiaddr m = m_yiaddr h"
    and o: "m_options m = ?os @ drop (length ?os) (m_options (dc_packet pd))"
    using assms(3,4) by simp_all
  have "dhcpc_parseoptions (m_options m) 4 (4 + length bs) 0 pr' = Ret (fold cl_apply opts (0, pr'))" for pr'
    unfolding o by (rule cl_parse_options [OF assms(5)]) (simp_all add: m assms(7))
  then show ?thesis unfolding m_def [symmetric] by (simp add: dhcpc_parsemsg_def h)
qed



subsection \<open>A renewal that is always refused\<close>

definition nak_msg :: dhcpmsg where
  "nak_msg = zero_msg\<lparr>m_op := 2, m_xid := client_xid,
     m_options := MAGIC @ concat (map enc_opt [(53, [DHCPNAK])]) @ [255] @ replicate 304 0\<rparr>"

text \<open>A network whose server refuses everything.\<close>

definition nak_env :: "xcall list \<Rightarrow> xcall \<Rightarrow> answer" where
  "nak_env h c = (case c of
      Recv fd n \<Rightarrow> \<lparr>retv = 548, errno = 0, oval = 0, outb = msg_bytes nak_msg\<rparr>
    | _ \<Rightarrow> good_env h c)"

lemma wf_nak_msg [simp]: "wf_msg nak_msg"
  by (simp add: nak_msg_def wf_msg_def zero_msg_def client_xid_def MAGIC_def enc_opt_def)

lemma nak_env_simps [simp]:
  "nak_env h (Recv fd n) = \<lparr>retv = 548, errno = 0, oval = 0, outb = msg_bytes nak_msg\<rparr>"
  "nak_env h (Socket k) = good_env h (Socket k)" "nak_env h (Ioctl fd q bs) = good_env h (Ioctl fd q bs)"
  "nak_env h (SendTo fd bs a p) = good_env h (SendTo fd bs a p)"
  by (simp_all add: nak_env_def)

lemma nak_received:
  assumes "env w = nak_env" and "wf_msg (dc_packet pd)"
  shows "\<exists>pr1. recv_msg pd pr w = Ret (Some DHCPNAK, 0, pd\<lparr>dc_packet := nak_msg\<rparr>, pr1,
    snd (xc (Recv (dc_sockfd pd) 548) w))"
proof -
  have t: "take 548 (msg_bytes nak_msg) = msg_bytes nak_msg"
    by (simp add: length_msg_bytes)
  have "dhcpc_parseoptions (m_options nak_msg) 4 (4 + 548) 0 pr' = Ret (fold cl_apply [(53, [DHCPNAK])] (0, pr'))" for pr'
    by (rule cl_parse_options [where rest = "replicate 304 0"])
      (simp_all add: cl_good_def nak_msg_def MAGIC_def enc_opt_def)
  moreover have "m_op nak_msg = 2" "m_xid nak_msg = client_xid" by (simp_all add: nak_msg_def)
  ultimately have "dhcpc_parsemsg (pd\<lparr>dc_packet := nak_msg\<rparr>) 548 pr
      = Ret (fold cl_apply [(53, [DHCPNAK])] (0, pr\<lparr>dr_ipaddr := of_le32 (m_yiaddr nak_msg)\<rparr>))"
    by (simp add: dhcpc_parsemsg_def)
  moreover have "fold cl_apply [(53, [DHCPNAK])] (0, q) = (DHCPNAK, q)" for q
    by (simp add: cl_apply_def)
  ultimately show ?thesis
    using assms overlay_full [OF wf_nak_msg assms(2)] t by (simp add: recv_msg_def case_prod_beta Let_def)
qed

lemma renewal_sends:
  assumes "env w = nak_env" and "0 \<le> dc_maclen pd" and "dc_maclen pd \<le> 6"
  shows "\<exists>r m w1. dhcpc_sendmsg pd pr DHCPREQUEST ifname True w = Ret (r, pd\<lparr>dc_packet := m\<rparr>, w1)
    \<and> 0 \<le> r \<and> wf_msg m \<and> env w1 = nak_env"
proof -
  obtain mac w1 where g: "getmacaddr (Some ifname) w = (0, Some mac, w1)" "env w1 = nak_env"
    using assms(1) by (simp add: getmacaddr_def walk_simps)
  obtain m0 where m0: "common_header pd mac = Ret m0" "wf_msg m0" "m_options m0 = replicate 312 0"
    using common_header_ok [OF assms(2,3) getmacaddr_mac [OF g(1)]] by blast
  have l: "length MAGIC = 4" by (simp add: MAGIC_def)
  have c: "(replicate 312 0, 0) = cl_built []" by (simp add: cl_built_def)
  have "wf_msg (m0\<lparr>m_flags := f, m_ciaddr := le32 a, m_options := fst (cl_built (MAGIC @ [53, 1, 3, 255]))\<rparr>)" for f a
    using m0(2) l by (simp add: wf_msg_def cl_built_def)
  then show ?thesis
    using g m0 l
    by (simp add: dhcpc_sendmsg_def c put_simps specific_part_def dhcp_types ERROR_def case_prod_beta Let_def)
      (intro exI conjI, rule refl, blast)
qed

lemma renewal_refused:
  assumes "env w = nak_env" and "0 \<le> dc_maclen pd" and "dc_maclen pd \<le> 6"
  shows "\<exists>pd' pr' w'. request_loop ifname old addr True 3 pd pr w = Ret (Going (False, True), pd', pr', w')
    \<and> env w' = nak_env \<and> dc_maclen pd' = dc_maclen pd"
proof -
  let ?pd = "pd\<lparr>dc_ipaddr := addr\<rparr>"
  obtain r m w1 where s: "dhcpc_sendmsg ?pd pr DHCPREQUEST ifname True w = Ret (r, ?pd\<lparr>dc_packet := m\<rparr>, w1)"
    "0 \<le> r" "wf_msg m" "env w1 = nak_env"
    using renewal_sends [of w ?pd pr ifname] assms by (simp; blast)
  obtain pr1 where "recv_msg (?pd\<lparr>dc_packet := m\<rparr>) pr w1 = Ret (Some DHCPNAK, 0, ?pd\<lparr>dc_packet := nak_msg\<rparr>, pr1,
      snd (xc (Recv (dc_sockfd pd) 548) w1))"
    using nak_received [OF s(4), of "?pd\<lparr>dc_packet := m\<rparr>" pr] s(3) by auto
  with s show ?thesis by (simp add: numeral_3_eq_3 dhcp_types)
qed

lemma renewal_never_ends:
  assumes "lease_loop ifname old addr renew count pd pr w = Some y"
  shows "\<not> (renew \<and> env w = nak_env \<and> 0 \<le> dc_maclen pd \<and> dc_maclen pd \<le> 6)"
proof (rule lease_loop.raw_induct [OF _ assms, where P = "\<lambda>ifname old addr renew count pd pr w y.
    \<not> (renew \<and> env w = nak_env \<and> 0 \<le> dc_maclen pd \<and> dc_maclen pd \<le> 6)"], rule notI, goal_cases)
  case (1 f ifname old addr renew count pd pr w y)
  then have e: "env w = nak_env" "0 \<le> dc_maclen pd" "dc_maclen pd \<le> 6" by simp_all
  obtain pd' pr' w' where
    r: "request_loop ifname old addr True 3 pd pr w = Ret (Going (False, True), pd', pr', w')"
      "env w' = nak_env" "dc_maclen pd' = dc_maclen pd"
    using renewal_refused [OF e, of ifname old addr pr] by blast
  with 1(2,3) have "f ifname old addr True count pd' pr' w' = Some y"
    by (simp add: first_phase_def)
  from 1(1) [OF this] r 1(3) show False by auto
qed

text \<open>C11. Renewing has no such bound: against a server that refuses every request,
  \<open>dhcpc_request\<close> with \<open>renew\<close> set never returns.\<close>

theorem dhcpc_renewal_may_never_end:
  assumes "0 \<le> dc_maclen pd" and "dc_maclen pd \<le> 6"
  shows "dhcpc_request ifname addr True pd pr \<lparr>hist = h, env = nak_env\<rparr> = None"
proof -
  let ?g = "get_ipv4addr (Some ifname) (Some 0) \<lparr>hist = h, env = nak_env\<rparr>"
  have "env (snd (snd ?g)) = nak_env"
    by (simp add: get_ipv4addr_def ifreq_get_def walk_simps)
  then show ?thesis
    using renewal_never_ends assms by (simp add: dhcpc_request_def case_prod_beta Let_def) (metis not_None_eq)
qed

theorem dhcpc_renewal_may_never_end_witness:
  "dhcpc_request ''wlan0'' 0x0401A8C0 True sample_client no_result \<lparr>hist = [], env = nak_env\<rparr> = None"
  by (rule dhcpc_renewal_may_never_end) (simp_all add: sample_client_def)

subsection \<open>Opening and closing\<close>

text \<open>Opening a client and closing it leaves no descriptor behind, whatever call fails: the
  one exception is a socket that happens to be descriptor 0, which \<open>dhcpc_close\<close> takes for none.\<close>

theorem dhcpc_open_close:
  "opened (dhcpc_close (fst (dhcpc_open maclen w)) (snd (dhcpc_open maclen w)))
     = (case fst (dhcpc_open maclen w) of
          Some (p, pd) \<Rightarrow> if dc_sockfd pd = 0 then 0 # opened w else opened w
        | None \<Rightarrow> opened w)"
  by (auto simp: dhcpc_open_def dhcpc_close_def walk_simps)
end
