(* ===== verification/Serial.thy ===== *)
theory Serial
  imports HandleTable Bytes
begin

unbundle bit_operations_syntax

section \<open>Serial ports (\<^verbatim>\<open>src/modules/systemio/serial\<close>)\<close>

text \<open>
  The front end \<^verbatim>\<open>artik_serial.c\<close> (a handle table keyed by the port number) on the Linux
  back end \<^verbatim>\<open>linux_serial.c\<close>. \<^verbatim>\<open>struct termios\<close> is a record with its layout in memory;
  the flags and \<^verbatim>\<open>cfsetispeed\<close>, \<^verbatim>\<open>cfsetospeed\<close>, \<^verbatim>\<open>cfmakeraw\<close> are those of
  the C library on Linux. The private data that \<^verbatim>\<open>config->data_user\<close> points to is kept in the
  configuration with its address. \<^verbatim>\<open>fd_set\<close> is a set of descriptors, with
  \<^verbatim>\<open>FD_SET\<close> and \<^verbatim>\<open>FD_CLR\<close> undefined outside 0 to 1023.
\<close>

datatype artik_serial_baudrate =
  BAUD_4800 | BAUD_9600 | BAUD_14400 | BAUD_19200 | BAUD_38400 | BAUD_57600 | BAUD_115200

datatype artik_serial_parity = PARITY_NONE | PARITY_ODD | PARITY_EVEN

datatype artik_serial_data_bits = DATA_7BIT | DATA_8BIT

datatype artik_serial_stop_bits = STOP_1BIT | STOP_2BIT

datatype artik_serial_flowcontrol = FLOWCTRL_NONE | FLOWCTRL_HARD | FLOWCTRL_SOFT

record os_serial_data =
  sd_fd :: int
  sd_watch_id :: int
  sd_rdfs :: "int set"
  sd_callback :: addr
  sd_user_data :: addr
  sd_loop :: addr

record artik_serial_config =
  port_num :: u32
  serial_name :: string
  baudrate :: artik_serial_baudrate
  parity :: artik_serial_parity
  data_bits :: artik_serial_data_bits
  stop_bits :: artik_serial_stop_bits
  flowctrl :: artik_serial_flowcontrol
  data_user :: "(addr \<times> os_serial_data) option"

definition zero_serial_data :: os_serial_data where
  "zero_serial_data = \<lparr>sd_fd = 0, sd_watch_id = 0, sd_rdfs = {}, sd_callback = 0, sd_user_data = 0, sd_loop = 0\<rparr>"

definition zero_serial_config :: artik_serial_config where
  "zero_serial_config = \<lparr>port_num = 0, serial_name = [], baudrate = BAUD_4800, parity = PARITY_NONE,
     data_bits = DATA_7BIT, stop_bits = STOP_1BIT, flowctrl = FLOWCTRL_NONE, data_user = None\<rparr>"

subsection \<open>Terminal attributes\<close>

record termios =
  c_iflag :: u32
  c_oflag :: u32
  c_cflag :: u32
  c_lflag :: u32
  c_line :: u8
  c_cc :: bytes
  c_ispeed :: u32
  c_ospeed :: u32

definition termios_bytes :: "termios \<Rightarrow> bytes" where
  "termios_bytes t = le32 (c_iflag t) @ le32 (c_oflag t) @ le32 (c_cflag t) @ le32 (c_lflag t)
     @ [c_line t] @ c_cc t @ replicate 3 0 @ le32 (c_ispeed t) @ le32 (c_ospeed t)"

text \<open>What \<^verbatim>\<open>tcgetattr\<close> stores: 60 bytes.\<close>

definition termios_of :: "bytes \<Rightarrow> termios" where
  "termios_of xs =
     (let bs = take 60 (xs @ replicate 60 0); word = (\<lambda>i. of_le32 (take 4 (drop i bs)))
      in \<lparr>c_iflag = word 0, c_oflag = word 4, c_cflag = word 8, c_lflag = word 12, c_line = bs ! 16,
          c_cc = take 32 (drop 17 bs), c_ispeed = word 52, c_ospeed = word 56\<rparr>)"

abbreviation (input) "IXON \<equiv> 0x400 :: u32"
abbreviation (input) "IXANY \<equiv> 0x800 :: u32"
abbreviation (input) "IXOFF \<equiv> 0x1000 :: u32"
abbreviation (input) "CSIZE \<equiv> 0x30 :: u32"
abbreviation (input) "CS7 \<equiv> 0x20 :: u32"
abbreviation (input) "CS8 \<equiv> 0x30 :: u32"
abbreviation (input) "CSTOPB \<equiv> 0x40 :: u32"
abbreviation (input) "CREAD \<equiv> 0x80 :: u32"
abbreviation (input) "PARENB \<equiv> 0x100 :: u32"
abbreviation (input) "PARODD \<equiv> 0x200 :: u32"
abbreviation (input) "CLOCAL \<equiv> 0x800 :: u32"
abbreviation (input) "CBAUD \<equiv> 0x100F :: u32"
abbreviation (input) "CRTSCTS \<equiv> 0x80000000 :: u32"

definition baudrate_value :: "artik_serial_baudrate \<Rightarrow> u32" where
  "baudrate_value b = (case b of
      BAUD_4800 \<Rightarrow> 0xC
    | BAUD_9600 \<Rightarrow> 0xD
    | BAUD_14400 \<Rightarrow> 14400
    | BAUD_19200 \<Rightarrow> 0xE
    | BAUD_38400 \<Rightarrow> 0xF
    | BAUD_57600 \<Rightarrow> 0x1001
    | BAUD_115200 \<Rightarrow> 0x1002)"

text \<open>A speed that is no speed code is refused and changes nothing.\<close>

definition bad_speed :: "u32 \<Rightarrow> bool" where
  "bad_speed s \<longleftrightarrow> s AND NOT CBAUD \<noteq> 0 \<and> (s < 0x1001 \<or> 0x100F < s)"

definition cfsetispeed :: "u32 \<Rightarrow> termios \<Rightarrow> termios" where
  "cfsetispeed s t =
     (if bad_speed s then t
      else let t1 = t\<lparr>c_ispeed := s\<rparr>
           in if s = 0 then t1\<lparr>c_iflag := c_iflag t1 OR 0x80000000\<rparr>
              else t1\<lparr>c_iflag := c_iflag t1 AND NOT 0x80000000, c_cflag := (c_cflag t1 AND NOT CBAUD) OR s\<rparr>)"

definition cfsetospeed :: "u32 \<Rightarrow> termios \<Rightarrow> termios" where
  "cfsetospeed s t =
     (if bad_speed s then t else t\<lparr>c_ospeed := s, c_cflag := (c_cflag t AND NOT CBAUD) OR s\<rparr>)"

definition cfmakeraw :: "termios \<Rightarrow> termios" where
  "cfmakeraw t = t\<lparr>c_iflag := c_iflag t AND NOT 0x5EB, c_oflag := c_oflag t AND NOT 1,
     c_lflag := c_lflag t AND NOT 0x804B, c_cflag := (c_cflag t AND NOT (CSIZE OR PARENB)) OR CS8,
     c_cc := (c_cc t)[6 := 1, 5 := 0]\<rparr>"

text \<open>The attributes that \<open>os_serial_request\<close> applies. The cases of the three switches fall
  through in the code, and so they do here.\<close>

definition set_flowctrl :: "artik_serial_flowcontrol \<Rightarrow> u32 \<Rightarrow> u32" where
  "set_flowctrl f c = (case f of
      FLOWCTRL_HARD \<Rightarrow> (c OR CRTSCTS) OR (IXON OR IXOFF OR IXANY)
    | FLOWCTRL_SOFT \<Rightarrow> c OR (IXON OR IXOFF OR IXANY)
    | FLOWCTRL_NONE \<Rightarrow> c)"

definition set_parity :: "artik_serial_parity \<Rightarrow> u32 \<Rightarrow> u32" where
  "set_parity p c = (case p of
      PARITY_ODD \<Rightarrow> (c OR (PARENB OR PARODD)) OR PARENB
    | PARITY_EVEN \<Rightarrow> c OR PARENB
    | PARITY_NONE \<Rightarrow> c)"

definition set_data_bits :: "artik_serial_data_bits \<Rightarrow> u32 \<Rightarrow> u32" where
  "set_data_bits d c = (case d of DATA_7BIT \<Rightarrow> (c OR CS7) OR CS8 | DATA_8BIT \<Rightarrow> c OR CS8)"

definition serial_termios :: "artik_serial_config \<Rightarrow> termios \<Rightarrow> termios" where
  "serial_termios c t =
     (let t1 = t\<lparr>c_iflag := c_iflag t AND NOT (IXON OR IXOFF OR IXANY OR CSIZE OR CSTOPB OR PARENB OR PARODD
                   OR CBAUD OR CRTSCTS),
                 c_cflag := c_cflag t OR (CREAD OR CLOCAL), c_cc := (c_cc t)[6 := 1, 5 := 5]\<rparr>;
          b = baudrate_value (baudrate c);
          t2 = cfmakeraw (cfsetospeed b (cfsetispeed b t1));
          f = set_parity (parity c) (set_flowctrl (flowctrl c) (c_cflag t2));
          f = (if stop_bits c = STOP_2BIT then f OR CSTOPB else f)
      in t2\<lparr>c_cflag := set_data_bits (data_bits c) f\<rparr>)"

subsection \<open>The back end\<close>

definition plat_port :: "string list" where
  "plat_port = [''/dev/ttyS'', ''/dev/ttySAC'', ''/dev/ttySAC'', ''/dev/ttySAC'', ''/dev/ttyAMA'']"

definition O_RDWR_NOCTTY_NONBLOCK :: nat where "O_RDWR_NOCTTY_NONBLOCK = 0x902"

definition fd_ok :: "int \<Rightarrow> bool" where
  "fd_ok fd \<longleftrightarrow> 0 \<le> fd \<and> fd < 1024"

definition os_serial_release :: "artik_serial_config \<Rightarrow> world \<Rightarrow> (artik_error \<times> world) outcome" where
  "os_serial_release c w =
     (case data_user c of
        None \<Rightarrow> Ret (S_OK, w)
      | Some (p, d) \<Rightarrow>
          if fd_ok (sd_fd d)
          then Ret (S_OK, xcu (Free p) (if 0 \<le> sd_fd d then xcu (Close (sd_fd d)) w else w))
          else Ub OutOfBounds)"

text \<open>The port is released and E_ACCESS_DENIED returned.\<close>

definition serial_abort :: "artik_serial_config \<Rightarrow> world \<Rightarrow> (artik_error \<times> artik_serial_config \<times> world) outcome" where
  "serial_abort c w = obind (os_serial_release c w) (\<lambda>(_, w1). Ret (E_ACCESS_DENIED, c, w1))"

definition serial_attributes :: "artik_serial_config \<Rightarrow> int \<Rightarrow> world \<Rightarrow> (artik_error \<times> artik_serial_config \<times> world) outcome" where
  "serial_attributes c fd w =
     (let (g, w1) = xc (Tcgetattr fd) w
      in if retv g \<noteq> 0 then serial_abort c w1
         else let w2 = xcu (Tcflush fd) w1;
                  (s, w3) = xc (Tcsetattr fd (termios_bytes (serial_termios c (termios_of (outb g))))) w2
              in if retv s \<noteq> 0 then serial_abort c w3 else Ret (S_OK, c, w3))"

definition os_serial_request :: "artik_serial_config \<Rightarrow> world \<Rightarrow> (artik_error \<times> artik_serial_config \<times> world) outcome" where
  "os_serial_request c w =
     (let (pl, w1) = xc GetPlatform w; (a, w2) = xc (Malloc 148) w1
      in if retv a = 0 then Ret (- E_NO_MEM, c, w2)
         else if retv pl < 0 \<or> int (length plat_port) \<le> retv pl then Ub OutOfBounds
         else let entry = plat_port ! nat (retv pl) @ int_str (sint (port_num c));
                  (o', w3) = xc (Open entry O_RDWR_NOCTTY_NONBLOCK) w2; fd = retv o';
                  c1 = c\<lparr>data_user := Some (nat (retv a), zero_serial_data\<lparr>sd_fd := fd\<rparr>)\<rparr>;
                  c2 = c\<lparr>data_user := Some (nat (retv a), zero_serial_data\<lparr>sd_fd := fd, sd_rdfs := {fd}\<rparr>)\<rparr>
              in if fd < 0 then serial_abort c1 w3
                 else if \<not> fd_ok fd then Ub OutOfBounds
                 else serial_attributes c2 fd w3)"

text \<open>The bytes read and their number replace \<^verbatim>\<open>buf\<close> and \<^verbatim>\<open>*len\<close> on success.\<close>

definition os_serial_read :: "artik_serial_config \<Rightarrow> nat \<Rightarrow> world \<Rightarrow> (artik_error \<times> bytes \<times> world) outcome" where
  "os_serial_read c len w =
     (case data_user c of
        None \<Rightarrow> Ub NullDeref
      | Some (p, d) \<Rightarrow>
          if sd_fd d < 0 then Ret (E_ACCESS_DENIED, [], w)
          else let (a, w1) = xc (Read (sd_fd d) len) w
               in if retv a < 0
                  then Ret (if errno a = EAGAIN then E_TRY_AGAIN else E_ACCESS_DENIED, [], w1)
                  else Ret (S_OK, take (nat (retv a)) (outb a), w1))"

text \<open>The number of bytes written replaces \<^verbatim>\<open>*len\<close> on success.\<close>

definition os_serial_write :: "artik_serial_config \<Rightarrow> bytes \<Rightarrow> world \<Rightarrow> (artik_error \<times> int \<times> world) outcome" where
  "os_serial_write c buf w =
     (case data_user c of
        None \<Rightarrow> Ub NullDeref
      | Some (p, d) \<Rightarrow>
          if sd_fd d < 0 then Ret (E_ACCESS_DENIED, int (length buf), w)
          else let (a, w1) = xc (Write (sd_fd d) buf) w
               in if retv a < 0 then Ret (E_ACCESS_DENIED, int (length buf), w1)
                  else Ret (S_OK, retv a, w1))"

text \<open>\<^verbatim>\<open>select\<close> on the read set: its answer and what it leaves in the set (\<^verbatim>\<open>oval\<close>
  says if the descriptor is ready); on error the set is untouched.\<close>

definition select_rdfs :: "int \<Rightarrow> int set \<Rightarrow> world \<Rightarrow> int \<times> int set \<times> world" where
  "select_rdfs n s w =
     (let (a, w1) = xc (Select n) w
      in (retv a, if retv a < 0 then s else if oval a \<noteq> 0 then s else {}, w1))"

text \<open>The watch callback: what it returns, and the data afterwards. \<open>cb_args\<close> of a call is the
  number of bytes passed, 0 for \<^verbatim>\<open>NULL\<close>.\<close>

definition serial_poll :: "os_serial_data \<Rightarrow> world \<Rightarrow> int \<times> os_serial_data \<times> world" where
  "serial_poll d w =
     (let (res, s, w1) = select_rdfs (sd_fd d + 1) (sd_rdfs d) w;
          (res, w2) = (if res \<noteq> 0 \<and> sd_fd d \<in> s
                       then let (a, w2) = xc (Read (sd_fd d) 255) w1 in (retv a, w2)
                       else if res > 0 then (0, w1) else (res, w1))
      in (res, d\<lparr>sd_rdfs := insert (sd_fd d) s\<rparr>, w2))"

definition serial_notify :: "int \<Rightarrow> int \<Rightarrow> os_serial_data \<Rightarrow> world \<Rightarrow> int \<times> os_serial_data \<times> world" where
  "serial_notify fd res d w =
     (if sd_callback d = 0 then (res, d, w)
      else let w1 = xcu (Callback (sd_user_data d) res) w;
               (res', s, w2) = select_rdfs (fd + 1) (sd_rdfs d) w1;
               w3 = (if res' = 0 \<or> 0 < res' \<and> fd \<notin> s then xcu (Callback (sd_user_data d) 0) w2 else w2)
           in (res', d\<lparr>sd_rdfs := s\<rparr>, w3))"

definition os_serial_change_callback ::
  "int \<Rightarrow> os_serial_data option \<Rightarrow> world \<Rightarrow> (int \<times> os_serial_data option \<times> world) outcome" where
  "os_serial_change_callback fd user_data w =
     (case user_data of
        None \<Rightarrow> Ret (0, None, w)
      | Some d \<Rightarrow>
          if sd_fd d < 0 then Ret (0, Some d, w)
          else if \<not> fd_ok (sd_fd d) \<or> \<not> fd_ok fd then Ub OutOfBounds
          else let (res, d1, w1) = serial_poll d w
               in if res < 0 then Ret (0, Some d1, w1)
                  else let (res', d2, w2) = serial_notify fd res d1 w1;
                           s = sd_rdfs d2 - {fd}
                       in Ret (1, Some (d2\<lparr>sd_rdfs := if res' \<noteq> 0 then insert fd s else s\<rparr>), w2))"

definition WATCH_IO_ERR_IN_HUP_NVAL :: nat where
  "WATCH_IO_ERR_IN_HUP_NVAL = 8 + 1 + 16 + 32"

definition os_serial_set_received_callback ::
  "artik_serial_config \<Rightarrow> addr \<Rightarrow> addr \<Rightarrow> world \<Rightarrow> (artik_error \<times> artik_serial_config \<times> world) outcome" where
  "os_serial_set_received_callback c callback user_data w =
     (case data_user c of
        None \<Rightarrow> Ub NullDeref
      | Some (p, d) \<Rightarrow>
          if sd_fd d = -1 then Ret (E_BUSY, c, w)
          else let (l, w1) = xc (ModRequest ''loop'') w;
                   d1 = d\<lparr>sd_callback := callback, sd_user_data := user_data, sd_loop := nat (retv l)\<rparr>
               in if sd_loop d1 = 0 then Ret (E_BUSY, c\<lparr>data_user := Some (p, d1)\<rparr>, w1)
                  else let (k, w2) = xc (AddFdWatch (sd_loop d1) (sd_fd d1) WATCH_IO_ERR_IN_HUP_NVAL p) w1;
                           d2 = d1\<lparr>sd_watch_id := oval k\<rparr>
                       in if retv k \<noteq> S_OK
                          then Ret (retv k, c\<lparr>data_user := Some (p, d2\<lparr>sd_loop := 0\<rparr>)\<rparr>,
                                    xcu (ModRelease (sd_loop d2)) w2)
                          else Ret (S_OK, c\<lparr>data_user := Some (p, d2)\<rparr>, w2))"

definition os_serial_unset_received_callback ::
  "artik_serial_config \<Rightarrow> world \<Rightarrow> (artik_error \<times> artik_serial_config \<times> world) outcome" where
  "os_serial_unset_received_callback c w =
     (let (l, w1) = xc (ModRequest ''loop'') w; loop = nat (retv l)
      in case data_user c of
           None \<Rightarrow> Ub NullDeref
         | Some (p, d) \<Rightarrow>
             if sd_fd d \<noteq> 0 then
               let w2 = (if sd_loop d \<noteq> 0
                         then xcu (ModRelease loop) (xcu (RemoveFdWatch (sd_loop d) (sd_watch_id d)) w1)
                         else w1)
               in Ret (S_OK, c\<lparr>data_user := Some (p, zero_serial_data)\<rparr>, w2)
             else Ret (S_OK, c, w1))"

subsection \<open>The front end\<close>

definition artik_serial_request :: "artik_serial_config fe_request" where
  "artik_serial_request = table_request port_num zero_serial_config os_serial_request"

definition artik_serial_release :: "artik_serial_config fe_release" where
  "artik_serial_release = table_release os_serial_release"

definition artik_serial_read :: "addr \<Rightarrow> nat \<Rightarrow> artik_serial_config tab \<Rightarrow> world \<Rightarrow> (artik_error \<times> bytes \<times> world) outcome" where
  "artik_serial_read hnd len t w =
     (case tab_get_by_handle hnd t of
        None \<Rightarrow> Ret (E_BAD_ARGS, [], w)
      | Some (a, c) \<Rightarrow> os_serial_read c len w)"

definition artik_serial_write :: "addr \<Rightarrow> bytes \<Rightarrow> artik_serial_config tab \<Rightarrow> world \<Rightarrow> (artik_error \<times> int \<times> world) outcome" where
  "artik_serial_write hnd buf t w =
     (case tab_get_by_handle hnd t of
        None \<Rightarrow> Ret (E_BAD_ARGS, int (length buf), w)
      | Some (a, c) \<Rightarrow> os_serial_write c buf w)"

definition artik_serial_set_received_callback ::
  "addr \<Rightarrow> addr \<Rightarrow> addr \<Rightarrow> artik_serial_config tab \<Rightarrow> world
     \<Rightarrow> (artik_error \<times> artik_serial_config tab \<times> world) outcome" where
  "artik_serial_set_received_callback hnd callback user_data t w =
     (case tab_get_by_handle hnd t of
        None \<Rightarrow> Ret (E_BAD_ARGS, t, w)
      | Some (a, c) \<Rightarrow>
          obind (os_serial_set_received_callback c callback user_data w)
            (\<lambda>(r, c', w1). Ret (r, tab_set a c' t, w1)))"

definition artik_serial_unset_received_callback ::
  "addr \<Rightarrow> artik_serial_config tab \<Rightarrow> world \<Rightarrow> (artik_error \<times> artik_serial_config tab \<times> world) outcome" where
  "artik_serial_unset_received_callback hnd t w =
     (case tab_get_by_handle hnd t of
        None \<Rightarrow> Ret (E_BAD_ARGS, t, w)
      | Some (a, c) \<Rightarrow>
          obind (os_serial_unset_received_callback c w)
            (\<lambda>(r, c', w1). Ret (r, tab_set a c' t, w1)))"

subsection \<open>The contract of the front end\<close>

lemma os_serial_release_S_OK: "os_serial_release c w = Ret (e, w') \<Longrightarrow> e = S_OK"
  by (auto simp: os_serial_release_def split: option.splits if_splits)

lemma serial_abort_cases:
  "serial_abort c w = Ret (e, c', w') \<Longrightarrow> e = E_ACCESS_DENIED \<and> c' = c"
  by (auto simp: serial_abort_def obind_eq_Ret)

lemma serial_attributes_cases:
  "serial_attributes c fd w = Ret (e, c', w') \<Longrightarrow> c' = c \<and> (e = S_OK \<or> e = E_ACCESS_DENIED)"
  by (auto simp: serial_attributes_def walk_simps dest: serial_abort_cases split: if_splits)

text \<open>The private data that every held port has.\<close>

definition serial_ok :: "artik_serial_config \<Rightarrow> bool" where
  "serial_ok c \<longleftrightarrow> (\<exists>p d. data_user c = Some (p, d) \<and> fd_ok (sd_fd d))"

lemma os_serial_request_cases:
  assumes "os_serial_request c w = Ret (e, c', w')"
  shows "port_num c' = port_num c \<and> (e = S_OK \<longrightarrow> serial_ok c')"
  using assms
  by (auto simp: os_serial_request_def walk_simps serial_ok_def err_simps
      dest!: serial_abort_cases serial_attributes_cases split: if_splits)

interpretation serial: os_layer os_serial_request os_serial_release port_num zero_serial_config
  rewrites "table_request port_num zero_serial_config os_serial_request = artik_serial_request"
    and "table_release os_serial_release = artik_serial_release"
  by unfold_locales (auto simp: artik_serial_request_def artik_serial_release_def dest: os_serial_request_cases)

subsection \<open>Reachable states\<close>

text \<open>The operations besides request and release, the watch callback included, which updates the
  private data of the port it watches.\<close>

inductive serial_other :: "artik_serial_config tab \<Rightarrow> world \<Rightarrow> artik_serial_config tab \<Rightarrow> world \<Rightarrow> bool" where
  rd: "artik_serial_read hnd n t w = Ret (e, bs, w') \<Longrightarrow> serial_other t w t w'"
| wr: "artik_serial_write hnd buf t w = Ret (e, n, w') \<Longrightarrow> serial_other t w t w'"
| set_cb: "artik_serial_set_received_callback hnd cb ud t w = Ret (e, t', w') \<Longrightarrow> serial_other t w t' w'"
| unset_cb: "artik_serial_unset_received_callback hnd t w = Ret (e, t', w') \<Longrightarrow> serial_other t w t' w'"
| event: "(a, c) \<in> set t \<Longrightarrow> data_user c = Some (p, d)
    \<Longrightarrow> os_serial_change_callback fd (Some d) w = Ret (r, Some d', w')
    \<Longrightarrow> serial_other t w (tab_set a (c\<lparr>data_user := Some (p, d')\<rparr>) t) w'"

lemma serial_set_cases:
  assumes "serial_ok c" and "os_serial_set_received_callback c cb ud w = Ret (e, c', w')"
  shows "serial_ok c' \<and> port_num c' = port_num c"
  using assms
  by (auto simp: os_serial_set_received_callback_def serial_ok_def walk_simps split: if_splits)

lemma serial_unset_cases:
  assumes "serial_ok c" and "os_serial_unset_received_callback c w = Ret (e, c', w')"
  shows "serial_ok c' \<and> port_num c' = port_num c"
  using assms
  by (auto simp: os_serial_unset_received_callback_def serial_ok_def walk_simps zero_serial_data_def
      fd_ok_def split: if_splits)

lemma serial_event_fd:
  "os_serial_change_callback fd (Some d) w = Ret (r, Some d', w') \<Longrightarrow> sd_fd d' = sd_fd d"
  by (auto simp: os_serial_change_callback_def serial_poll_def serial_notify_def walk_simps split: if_splits)

definition serial_inv :: "artik_serial_config tab \<Rightarrow> bool" where
  "serial_inv t \<longleftrightarrow> fe_inv port_num t \<and> (\<forall>x\<in>set t. serial_ok (snd x))"

lemma serial_tab_set_inv:
  assumes "serial_inv t" and "(a, c) \<in> set t" and "serial_ok c' \<and> port_num c' = port_num c"
  shows "serial_inv (tab_set a c' t)"
  using assms fe_inv_tab_set [of port_num t a c c'] set_tab_set by (fastforce simp: serial_inv_def)

lemma serial_held:
  "serial_inv t \<Longrightarrow> tab_get_by_handle hnd t = Some (a, c) \<Longrightarrow> serial_ok c \<and> (a, c) \<in> set t"
  by (auto simp: serial_inv_def dest!: tab_get_by_handle_Some)

lemma serial_other_inv: "serial_other t w t' w' \<Longrightarrow> serial_inv t \<Longrightarrow> serial_inv t'"
proof (induction rule: serial_other.induct)
  case (set_cb hnd cb ud t w e t' w')
  show ?case
  proof (cases "tab_get_by_handle hnd t")
    case (Some x)
    obtain a c where x: "x = (a, c)" by (cases x)
    with set_cb(1) Some obtain c' where "os_serial_set_received_callback c cb ud w = Ret (e, c', w')"
      "t' = tab_set a c' t" by (auto simp: artik_serial_set_received_callback_def obind_eq_Ret)
    with serial_held [OF set_cb(2) Some [unfolded x]] set_cb(2) serial_set_cases show ?thesis
      by (blast intro: serial_tab_set_inv)
  qed (use set_cb in \<open>simp add: artik_serial_set_received_callback_def\<close>)
next
  case (unset_cb hnd t w e t' w')
  show ?case
  proof (cases "tab_get_by_handle hnd t")
    case (Some x)
    obtain a c where x: "x = (a, c)" by (cases x)
    with unset_cb(1) Some obtain c' where "os_serial_unset_received_callback c w = Ret (e, c', w')"
      "t' = tab_set a c' t" by (auto simp: artik_serial_unset_received_callback_def obind_eq_Ret)
    with serial_held [OF unset_cb(2) Some [unfolded x]] unset_cb(2) serial_unset_cases show ?thesis
      by (blast intro: serial_tab_set_inv)
  qed (use unset_cb in \<open>simp add: artik_serial_unset_received_callback_def\<close>)
next
  case (event a c t p d fd w r d' w')
  then have "serial_ok c" by (force simp: serial_inv_def)
  with event serial_event_fd [OF event(3)] show ?case
    by (intro serial_tab_set_inv) (auto simp: serial_ok_def)
qed auto

lemma serial_reach_inv:
  assumes "fe_reach artik_serial_request artik_serial_release serial_other t w"
  shows "serial_inv t"
proof -
  have "serial_ok c'" if "artik_serial_request m c t w = Ret (S_OK, ho, c', t', w')" for m c t w ho c' t' w'
    using os_serial_request_cases [OF table_request_ok [OF that [unfolded artik_serial_request_def]]] by simp
  then show ?thesis
    using serial.reach_inv [OF assms, of serial_ok] serial_other_inv by (auto simp: serial_inv_def)
qed


subsection \<open>What a request makes of the line\<close>

lemmas mask_simps = bit.conj_disj_distrib bit.conj_disj_distrib2 and.assoc or.assoc

text \<open>The control flags in one expression, for the flag computations below.\<close>

lemma cflag_simps:
  "c_cflag (serial_termios c t) =
     set_data_bits (data_bits c) ((if stop_bits c = STOP_2BIT then (\<lambda>f. f OR CSTOPB) else (\<lambda>f. f))
       (set_parity (parity c) (set_flowctrl (flowctrl c)
         ((((if baudrate c = BAUD_14400 then c_cflag t OR 0x880
             else ((c_cflag t OR 0x880) AND NOT CBAUD) OR baudrate_value (baudrate c))
             AND NOT 0x130) OR 0x30)))))"
  by (cases "baudrate c") (auto simp: serial_termios_def Let_def cfmakeraw_def cfsetospeed_def
      cfsetispeed_def bad_speed_def baudrate_value_def mask_simps)

lemmas cflag_defs = cflag_simps set_data_bits_def set_parity_def set_flowctrl_def baudrate_value_def mask_simps

lemma cflag_csize: "c_cflag (serial_termios c t) AND 0x30 = 0x30"
  by (cases "baudrate c"; cases "parity c"; cases "flowctrl c"; cases "data_bits c"; cases "stop_bits c")
    (simp_all add: cflag_defs)

lemma cflag_parenb: "c_cflag (serial_termios c t) AND 0x100 = (if parity c = PARITY_NONE then 0 else 0x100)"
  by (cases "baudrate c"; cases "parity c"; cases "flowctrl c"; cases "data_bits c"; cases "stop_bits c")
    (simp_all add: cflag_defs)

lemma cflag_parodd:
  "c_cflag (serial_termios c t) AND 0x200 = (if parity c = PARITY_ODD then 0x200 else c_cflag t AND 0x200)"
  by (cases "baudrate c"; cases "parity c"; cases "flowctrl c"; cases "data_bits c"; cases "stop_bits c")
    (simp_all add: cflag_defs)

lemma cflag_cstopb:
  "c_cflag (serial_termios c t) AND 0x40 = (if stop_bits c = STOP_2BIT then 0x40 else c_cflag t AND 0x40)"
  by (cases "baudrate c"; cases "parity c"; cases "flowctrl c"; cases "data_bits c"; cases "stop_bits c")
    (simp_all add: cflag_defs)

lemma cflag_cbaud:
  "c_cflag (serial_termios c t) AND 0x100F =
     (if baudrate c = BAUD_14400 then c_cflag t AND 0x100F else baudrate_value (baudrate c))
     OR (if flowctrl c = FLOWCTRL_NONE then 0 else 0x1000)"
  by (cases "baudrate c"; cases "parity c"; cases "flowctrl c"; cases "data_bits c"; cases "stop_bits c")
    (simp_all add: cflag_defs)

text \<open>A successful request opens the port, applies the attributes once, and keeps it open.\<close>

lemma serial_attributes_applied:
  assumes "serial_attributes c fd w = Ret (S_OK, c', w')"
  shows "\<exists>t. Tcsetattr fd (termios_bytes (serial_termios c t)) \<in> set (drop (length (hist w)) (hist w'))
    \<and> later w w' \<and> opened w' = opened w"
  using assms by (auto simp: serial_attributes_def walk_simps err_simps later_def opened_step
      dest!: serial_abort_cases split: if_splits)

lemma serial_termios_cong:
  "serial_termios (c\<lparr>data_user := x\<rparr>) t = serial_termios c t"
  by (simp add: serial_termios_def)

lemma os_serial_request_applied:
  assumes "os_serial_request c w = Ret (S_OK, c', w')"
  shows "\<exists>p fd t. Tcsetattr fd (termios_bytes (serial_termios c t)) \<in> set (drop (length (hist w)) (hist w'))
    \<and> opened w' = fd # opened w \<and> c' = c\<lparr>data_user := Some (p, zero_serial_data\<lparr>sd_fd := fd, sd_rdfs := {fd}\<rparr>)\<rparr>"
proof -
  let ?w2 = "snd (xc (Malloc 148) (snd (xc GetPlatform w)))"
  let ?p = "nat (retv (fst (xc (Malloc 148) (snd (xc GetPlatform w)))))"
  let ?entry = "plat_port ! nat (retv (fst (xc GetPlatform w))) @ int_str (sint (port_num c))"
  let ?o = "xc (Open ?entry O_RDWR_NOCTTY_NONBLOCK) ?w2"
  let ?fd = "retv (fst ?o)"
  let ?c2 = "c\<lparr>data_user := Some (?p, zero_serial_data\<lparr>sd_fd := ?fd, sd_rdfs := {?fd}\<rparr>)\<rparr>"
  have a: "serial_attributes ?c2 ?fd (snd ?o) = Ret (S_OK, c', w')" and fd: "0 \<le> ?fd"
    using assms by (auto simp: os_serial_request_def walk_simps err_simps fd_ok_def
        dest!: serial_abort_cases split: if_splits)
  have "opened (snd ?o) = ?fd # opened w" using fd by (simp add: walk_simps)
  moreover have "c' = ?c2" using serial_attributes_cases [OF a] by simp
  moreover obtain t where "Tcsetattr ?fd (termios_bytes (serial_termios ?c2 t))
      \<in> set (drop (length (hist (snd ?o))) (hist w'))" "later (snd ?o) w'" "opened w' = opened (snd ?o)"
    using serial_attributes_applied [OF a] by blast
  moreover from this(2) have "set (drop (length (hist (snd ?o))) (hist w')) \<subseteq> set (drop (length (hist w)) (hist w'))"
    by (auto simp: later_def)
  ultimately show ?thesis by (auto simp: serial_termios_cong)
qed

text \<open>C13. The line a successful request sets up: the port is left open as the only new descriptor
  and is given attributes in which parity is on exactly when asked for and odd when odd is asked for,
  two stop bits are set when asked for, and the speed without flow control is the one asked for,
  14400 apart; but the character size is 8 bits even when 7 are asked for.\<close>

theorem serial_line_settings:
  assumes "os_serial_request c w = Ret (S_OK, c', w')"
  shows "\<exists>fd t. Tcsetattr fd (termios_bytes t) \<in> set (drop (length (hist w)) (hist w'))
    \<and> opened w' = fd # opened w \<and> map_option (\<lambda>x. sd_fd (snd x)) (data_user c') = Some fd
    \<and> c_cflag t AND CSIZE = CS8
    \<and> (c_cflag t AND PARENB \<noteq> 0 \<longleftrightarrow> parity c \<noteq> PARITY_NONE)
    \<and> (parity c = PARITY_ODD \<longrightarrow> c_cflag t AND PARODD \<noteq> 0)
    \<and> (stop_bits c = STOP_2BIT \<longrightarrow> c_cflag t AND CSTOPB \<noteq> 0)
    \<and> (flowctrl c = FLOWCTRL_NONE \<longrightarrow> baudrate c \<noteq> BAUD_14400 \<longrightarrow>
         c_cflag t AND CBAUD = baudrate_value (baudrate c))"
proof -
  obtain p fd t where r: "Tcsetattr fd (termios_bytes (serial_termios c t)) \<in> set (drop (length (hist w)) (hist w'))"
    "opened w' = fd # opened w" "c' = c\<lparr>data_user := Some (p, zero_serial_data\<lparr>sd_fd := fd, sd_rdfs := {fd}\<rparr>)\<rparr>"
    using os_serial_request_applied [OF assms] by blast
  show ?thesis
    by (rule exI [of _ fd], rule exI [of _ "serial_termios c t"])
      (use r in \<open>simp add: cflag_csize cflag_parenb cflag_parodd cflag_cstopb cflag_cbaud\<close>)
qed

definition console :: artik_serial_config where
  "console = zero_serial_config\<lparr>port_num := 3, baudrate := BAUD_9600, data_bits := DATA_7BIT\<rparr>"

lemma console_runs:
  "\<exists>c' w'. os_serial_request (console\<lparr>flowctrl := f\<rparr>) good_world = Ret (S_OK, c', w')
     \<and> data_user c' = Some (64, zero_serial_data\<lparr>sd_fd := 3, sd_rdfs := {3}\<rparr>) \<and> env w' = good_env"
  by (simp add: os_serial_request_def serial_attributes_def walk_simps good_world_def good_env_def
      err_simps fd_ok_def plat_port_def)

theorem serial_line_settings_witness:
  "\<exists>c' w' fd t. os_serial_request console good_world = Ret (S_OK, c', w')
     \<and> Tcsetattr fd (termios_bytes t) \<in> set (hist w') \<and> data_bits console = DATA_7BIT
     \<and> c_cflag t AND CSIZE = CS8 \<and> c_cflag t AND CBAUD = 0xD"
proof -
  have "console\<lparr>flowctrl := FLOWCTRL_NONE\<rparr> = console" by (simp add: console_def zero_serial_config_def)
  then obtain c' w' where run: "os_serial_request console good_world = Ret (S_OK, c', w')"
    using console_runs [of FLOWCTRL_NONE] by auto
  from serial_line_settings [OF this] run show ?thesis
    by (fastforce simp: console_def zero_serial_config_def baudrate_value_def)
qed

text \<open>Asking for flow control changes the speed: the input flags that the code sets among the
  control flags include the extended speed bit, so with hardware or software flow control a port
  asked to run at 9600 is set to the code of 3000000.\<close>

theorem serial_flow_control_breaks_the_baudrate:
  assumes "os_serial_request c w = Ret (S_OK, c', w')" and "flowctrl c \<noteq> FLOWCTRL_NONE"
    and "baudrate c \<noteq> BAUD_14400"
  shows "\<exists>fd t. Tcsetattr fd (termios_bytes t) \<in> set (drop (length (hist w)) (hist w'))
    \<and> c_cflag t AND CBAUD = baudrate_value (baudrate c) OR 0x1000
    \<and> (baudrate c = BAUD_9600 \<longrightarrow> c_cflag t AND CBAUD = 0x100D)"
proof -
  obtain p fd t where "Tcsetattr fd (termios_bytes (serial_termios c t)) \<in> set (drop (length (hist w)) (hist w'))"
    using os_serial_request_applied [OF assms(1)] by blast
  with assms(2,3) show ?thesis
    by (intro exI [of _ fd] exI [of _ "serial_termios c t"]) (simp add: cflag_cbaud baudrate_value_def)
qed

theorem serial_flow_control_breaks_the_baudrate_witness:
  "\<exists>c' w' fd t. os_serial_request (console\<lparr>flowctrl := FLOWCTRL_SOFT\<rparr>) good_world = Ret (S_OK, c', w')
     \<and> Tcsetattr fd (termios_bytes t) \<in> set (hist w') \<and> c_cflag t AND CBAUD = 0x100D"
proof -
  obtain c' w' where run: "os_serial_request (console\<lparr>flowctrl := FLOWCTRL_SOFT\<rparr>) good_world = Ret (S_OK, c', w')"
    using console_runs by blast
  from serial_flow_control_breaks_the_baudrate [OF this] run show ?thesis
    by (fastforce simp: console_def zero_serial_config_def)
qed

subsection \<open>The callback\<close>

text \<open>Clearing the callback forgets the port: after a callback has been set and cleared, the port's
  descriptor is still open but no longer known to the module, reads go to descriptor 0, and releasing
  the port closes descriptor 0 instead.\<close>

theorem serial_callback_cycle_loses_the_port:
  assumes "os_serial_set_received_callback c cb ud w = Ret (S_OK, c1, w1)"
    and "data_user c = Some (p, d)" and "0 < sd_fd d"
  shows "\<exists>c2 w2 w3. os_serial_unset_received_callback c1 w1 = Ret (S_OK, c2, w2)
    \<and> data_user c2 = Some (p, zero_serial_data) \<and> opened w2 = opened w
    \<and> (\<exists>r. os_serial_read c2 n w2 = Ret r \<and> last (hist (snd (snd r))) = Read 0 n)
    \<and> os_serial_release c2 w2 = Ret (S_OK, w3) \<and> Close 0 \<in> set (drop (length (hist w2)) (hist w3))
    \<and> opened w3 = remove1 0 (opened w)"
proof -
  from assms have c1: "\<exists>d1. c1 = c\<lparr>data_user := Some (p, d1)\<rparr> \<and> sd_fd d1 = sd_fd d"
    and w1: "opened w1 = opened w"
    by (auto simp: os_serial_set_received_callback_def walk_simps err_simps split: if_splits)
  with assms(3) show ?thesis
    by (auto simp: os_serial_unset_received_callback_def os_serial_read_def os_serial_release_def
        walk_simps zero_serial_data_def fd_ok_def)
qed

theorem serial_callback_cycle_loses_the_port_witness:
  "\<exists>c w c1 w1 c2 w2. os_serial_request console good_world = Ret (S_OK, c, w)
     \<and> os_serial_set_received_callback c 5 6 w = Ret (S_OK, c1, w1)
     \<and> os_serial_unset_received_callback c1 w1 = Ret (S_OK, c2, w2)
     \<and> map_option (\<lambda>x. sd_fd (snd x)) (data_user c) = Some 3
     \<and> map_option (\<lambda>x. sd_fd (snd x)) (data_user c2) = Some 0"
proof -
  have "console\<lparr>flowctrl := FLOWCTRL_NONE\<rparr> = console" by (simp add: console_def zero_serial_config_def)
  then obtain c w where run: "os_serial_request console good_world = Ret (S_OK, c, w)" "env w = good_env"
      "data_user c = Some (64, zero_serial_data\<lparr>sd_fd := 3, sd_rdfs := {3}\<rparr>)"
    using console_runs [of FLOWCTRL_NONE] by auto
  then obtain c1 w1 where set: "os_serial_set_received_callback c 5 6 w = Ret (S_OK, c1, w1)"
    by (simp add: os_serial_set_received_callback_def walk_simps good_env_def err_simps zero_serial_data_def)
  from serial_callback_cycle_loses_the_port [OF set run(3), of 1] obtain c2 w2 where
    "os_serial_unset_received_callback c1 w1 = Ret (S_OK, c2, w2)" "data_user c2 = Some (64, zero_serial_data)"
    by auto
  with run set show ?thesis by (fastforce simp: zero_serial_data_def)
qed

text \<open>A port that cannot be opened: the error path clears descriptor -1 in a descriptor set, which
  is undefined, before it would report E_ACCESS_DENIED.\<close>

theorem serial_missing_port_is_undefined:
  assumes "0 \<le> retv (env w (hist w) GetPlatform)" and "retv (env w (hist w) GetPlatform) < 5"
    and "\<forall>h n. retv (env w h (Malloc n)) \<noteq> 0" and "\<forall>h q f. retv (env w h (Open q f)) = -1"
  shows "os_serial_request c w = Ub OutOfBounds"
  using assms by (simp add: os_serial_request_def walk_simps plat_port_def serial_abort_def
      os_serial_release_def fd_ok_def)

definition no_port_world :: world where
  "no_port_world = \<lparr>hist = [], env = (\<lambda>h c. case c of
     Open q f \<Rightarrow> \<lparr>retv = -1, errno = 2, oval = 0, outb = []\<rparr> | _ \<Rightarrow> good_env h c)\<rparr>"

theorem serial_missing_port_is_undefined_witness:
  "os_serial_request console no_port_world = Ub OutOfBounds"
  by (rule serial_missing_port_is_undefined) (simp_all add: no_port_world_def good_env_def)

definition console_tab :: "artik_serial_config tab" where
  "console_tab = [(96, console\<lparr>data_user := Some (64, zero_serial_data\<lparr>sd_fd := 3, sd_rdfs := {3}\<rparr>)\<rparr>)]"


end
