(* ===== verification/Pwm.thy ===== *)
theory Pwm
  imports HandleTable Bytes "HOL-Library.Multiset"
begin

unbundle bit_operations_syntax

section \<open>PWM (\<^verbatim>\<open>src/modules/systemio/pwm\<close>)\<close>

text \<open>
  The front end \<^verbatim>\<open>artik_pwm.c\<close> (a handle table keyed by the pin) on the Linux back end
  \<^verbatim>\<open>linux_pwm.c\<close>, which keeps the sysfs files of a channel open in an array of six
  descriptors. The array comes from \<^verbatim>\<open>malloc\<close> and is not cleared, so an entry is \<open>None\<close>
  until it is written and reading it before that is a fault. \<^verbatim>\<open>config->user_data\<close> is kept in
  the configuration with its address; it dangles after a release, and nothing uses it then.
\<close>

datatype artik_pwm_path_index = PWM_EXP | PWM_UEXP | PWM_ENB | PWM_CYCL | PWM_PERD | PWM_POLR

fun path_ix :: "artik_pwm_path_index \<Rightarrow> nat" where
  "path_ix PWM_EXP = 0"
| "path_ix PWM_UEXP = 1"
| "path_ix PWM_ENB = 2"
| "path_ix PWM_CYCL = 3"
| "path_ix PWM_PERD = 4"
| "path_ix PWM_POLR = 5"

datatype artik_pwm_polarity = POLR_NORMAL | POLR_INVERT | POLR_OTHER

record artik_pwm_user_data =
  pd_fd :: addr
  pd_fds :: "int option list"
  pd_chip :: u32
  pd_port :: u32

record artik_pwm_config =
  pwm_pin :: u32
  pwm_name :: string
  period :: u32
  duty_cycle :: u32
  polarity :: artik_pwm_polarity
  pwm_user_data :: "(addr \<times> artik_pwm_user_data) option"

definition zero_pwm_config :: artik_pwm_config where
  "zero_pwm_config = \<lparr>pwm_pin = 0, pwm_name = [], period = 0, duty_cycle = 0, polarity = POLR_NORMAL,
     pwm_user_data = None\<rparr>"

subsection \<open>The back end\<close>

definition tab_value_polarity :: "artik_pwm_polarity \<Rightarrow> string" where
  "tab_value_polarity p = (if p = POLR_NORMAL then ''normal'' else ''inversed'')"

definition tab_value_path :: "artik_pwm_path_index \<Rightarrow> u32 \<Rightarrow> u32 \<Rightarrow> string" where
  "tab_value_path i chip port =
     (let dir = ''/sys/class/pwm/pwmchip'' @ int_str (sint chip) @ ''/'';
          pwm = dir @ ''pwm'' @ int_str (sint port) @ ''/''
      in case i of
           PWM_EXP \<Rightarrow> dir @ ''export''
         | PWM_UEXP \<Rightarrow> dir @ ''unexport''
         | PWM_ENB \<Rightarrow> pwm @ ''enable''
         | PWM_CYCL \<Rightarrow> pwm @ ''duty_cycle''
         | PWM_PERD \<Rightarrow> pwm @ ''period''
         | PWM_POLR \<Rightarrow> pwm @ ''polarity'')"

text \<open>A number in a block of its own; \<^verbatim>\<open>snprintf\<close> writes to it even if it is null.\<close>

definition os_pwm_itoa :: "u32 \<Rightarrow> world \<Rightarrow> ((addr \<times> string) \<times> world) outcome" where
  "os_pwm_itoa nb w =
     (let (a, w1) = xc (Malloc 128) w
      in if retv a = 0 then Ub NullDeref else Ret ((nat (retv a), nat_str (unat nb)), w1))"

definition pwm_errno :: "int \<Rightarrow> artik_error" where
  "pwm_errno e =
     (if e = 22 then E_INVALID_VALUE
      else if e = 9 \<or> e = 28 then E_BAD_ARGS
      else if e = 89 then E_NOT_INITIALIZED
      else if e = 11 then E_TRY_AGAIN
      else if e = 27 then E_OVERFLOW
      else if e = 4 \<or> e = 32 then E_INTERRUPTED
      else if e = 5 then E_BUSY
      else E_NO_MEM)"

definition fd_at :: "artik_pwm_user_data \<Rightarrow> artik_pwm_path_index \<Rightarrow> int outcome" where
  "fd_at d i =
     (if pd_fd d = 0 then Ub NullDeref
      else case pd_fds d ! path_ix i of None \<Rightarrow> Ub Uninitialised | Some fd \<Rightarrow> Ret fd)"

text \<open>The value written comes with the address of its block, which is freed except for the
  enable character and the constants of the polarity.\<close>

definition os_pwm_ioctl ::
  "artik_pwm_user_data \<Rightarrow> artik_pwm_path_index \<Rightarrow> addr \<times> string \<Rightarrow> world \<Rightarrow> (artik_error \<times> world) outcome" where
  "os_pwm_ioctl d i v w =
     obind (fd_at d i) (\<lambda>fd.
       let (a, w1) = xc (Write fd (bytes_of (snd v))) w;
           res = (if retv a < 0 then pwm_errno (errno a) else S_OK);
           w2 = (if i \<noteq> PWM_POLR \<and> i \<noteq> PWM_ENB then xcu (Free (fst v)) w1 else w1)
       in Ret (if S_OK \<le> res then S_OK else res, w2))"

definition os_pwm_open ::
  "artik_pwm_user_data \<Rightarrow> artik_pwm_path_index \<Rightarrow> world \<Rightarrow> (int \<times> artik_pwm_user_data \<times> world) outcome" where
  "os_pwm_open d i w =
     (let (a, w1) = xc (Open (tab_value_path i (pd_chip d) (pd_port d)) O_SYNC_WRONLY) w
      in if pd_fd d = 0 then Ub NullDeref
         else Ret (retv a, d\<lparr>pd_fds := (pd_fds d)[path_ix i := Some (retv a)]\<rparr>, w1))"

text \<open>A failed open leaves \<^verbatim>\<open>res\<close> at S_OK, so -1 is closed; a failed write keeps the
  descriptor open.\<close>

definition uexport_write :: "artik_pwm_user_data \<Rightarrow> artik_pwm_path_index \<Rightarrow> int \<Rightarrow> world \<Rightarrow> (artik_error \<times> world) outcome" where
  "uexport_write d i fd w =
     (if S_OK \<le> fd then obind (os_pwm_itoa (pd_port d) w) (\<lambda>(v, w1). os_pwm_ioctl d i v w1)
      else Ret (S_OK, w))"

definition os_pwm_uexport ::
  "artik_pwm_user_data \<Rightarrow> artik_pwm_path_index \<Rightarrow> world \<Rightarrow> (artik_error \<times> artik_pwm_user_data \<times> world) outcome" where
  "os_pwm_uexport d i w =
     obind (os_pwm_open d i w) (\<lambda>(fd, d1, w1).
     obind (uexport_write d1 i fd w1) (\<lambda>(res, w2).
       if res \<noteq> S_OK then Ret (res, d1, w2)
       else obind (fd_at d1 i) (\<lambda>fd. Ret (retv (fst (xc (Close fd) w2)), d1, snd (xc (Close fd) w2)))))"

fun pwm_open_all ::
  "artik_pwm_path_index list \<Rightarrow> artik_pwm_user_data \<Rightarrow> world \<Rightarrow> (artik_error \<times> artik_pwm_user_data \<times> world) outcome" where
  "pwm_open_all [] d w = Ret (S_OK, d, w)"
| "pwm_open_all (i # is) d w =
     obind (os_pwm_open d i w) (\<lambda>(fd, d1, w1).
       if fd < S_OK then Ret (E_BAD_ARGS, d1, w1) else pwm_open_all is d1 w1)"

definition pwm_open_channel :: "artik_pwm_user_data \<Rightarrow> world \<Rightarrow> (artik_error \<times> artik_pwm_user_data \<times> world) outcome" where
  "pwm_open_channel d w =
     obind (os_pwm_uexport d PWM_EXP w) (\<lambda>(r, d1, w1).
       if r \<noteq> S_OK then Ret (E_BUSY, d1, w1)
       else pwm_open_all [PWM_ENB, PWM_CYCL, PWM_PERD, PWM_POLR] d1 w1)"

definition pwm_new :: "u32 \<Rightarrow> addr \<Rightarrow> artik_pwm_user_data" where
  "pwm_new pin q = \<lparr>pd_fd = q, pd_fds = replicate 6 None,
     pd_chip = drop_bit 8 (pin AND 0xFF00) AND 0xFF, pd_port = pin AND 0xFF\<rparr>"

definition os_pwm_init ::
  "artik_pwm_config \<Rightarrow> world \<Rightarrow> (artik_error \<times> artik_pwm_config \<times> world) outcome" where
  "os_pwm_init c w =
     (let (a, w1) = xc (Malloc 12) w; (b, w2) = xc (Malloc 24) w1
      in if retv a = 0 then Ub NullDeref
         else obind (pwm_open_channel (pwm_new (pwm_pin c) (nat (retv b))) w2) (\<lambda>(r, d, w3).
                Ret (r, c\<lparr>pwm_user_data := Some (nat (retv a), d)\<rparr>, w3)))"

text \<open>The loop stops one short of the array: the polarity file is not closed.\<close>

fun pwm_close_all :: "artik_pwm_path_index list \<Rightarrow> artik_pwm_user_data \<Rightarrow> world \<Rightarrow> world outcome" where
  "pwm_close_all [] d w = Ret w"
| "pwm_close_all (i # is) d w =
     obind (fd_at d i) (\<lambda>fd. pwm_close_all is d (if fd \<noteq> -1 then xcu (Close fd) w else w))"

definition os_pwm_clean ::
  "(addr \<times> artik_pwm_user_data) option \<Rightarrow> world \<Rightarrow> (artik_error \<times> world) outcome" where
  "os_pwm_clean ud w =
     (case ud of
        None \<Rightarrow> Ret (S_OK, w)
      | Some (p, d) \<Rightarrow>
          if pd_fd d = 0 then Ret (S_OK, xcu (Free p) w)
          else obind (pwm_close_all [PWM_ENB, PWM_CYCL, PWM_PERD] d w) (\<lambda>w1.
                 Ret (S_OK, xcu (Free p) (xcu (Free (pd_fd d)) w1))))"

definition os_pwm_enable :: "artik_pwm_config \<Rightarrow> char \<Rightarrow> world \<Rightarrow> (artik_error \<times> world) outcome" where
  "os_pwm_enable c v w =
     (case pwm_user_data c of None \<Rightarrow> Ub NullDeref | Some (p, d) \<Rightarrow> os_pwm_ioctl d PWM_ENB (0, [v]) w)"

definition pwm_set :: "artik_pwm_config \<Rightarrow> artik_pwm_path_index
    \<Rightarrow> (world \<Rightarrow> ((addr \<times> string) \<times> world) outcome) \<Rightarrow> world \<Rightarrow> (artik_error \<times> world) outcome" where
  "pwm_set c i val w =
     obind (os_pwm_enable c CHR ''0'' w) (\<lambda>(r, w1).
       if r \<noteq> S_OK then Ret (E_BUSY, w1)
       else obind (val w1) (\<lambda>(v, w2).
            case pwm_user_data c of
              None \<Rightarrow> Ub NullDeref
            | Some (p, d) \<Rightarrow>
                obind (os_pwm_ioctl d i v w2) (\<lambda>(res, w3).
                obind (os_pwm_enable c CHR ''1'' w3) (\<lambda>(_, w4). Ret (res, w4)))))"

definition os_pwm_set_period :: "artik_pwm_config \<Rightarrow> u32 \<Rightarrow> world \<Rightarrow> (artik_error \<times> world) outcome" where
  "os_pwm_set_period c v w = pwm_set c PWM_PERD (os_pwm_itoa v) w"

definition os_pwm_set_polarity ::
  "artik_pwm_config \<Rightarrow> artik_pwm_polarity \<Rightarrow> world \<Rightarrow> (artik_error \<times> world) outcome" where
  "os_pwm_set_polarity c v w =
     (if v = POLR_NORMAL \<or> v = POLR_INVERT
      then pwm_set c PWM_POLR (\<lambda>w. Ret ((0, tab_value_polarity v), w)) w
      else Ret (E_BUSY, w))"

definition os_pwm_set_duty_cycle :: "artik_pwm_config \<Rightarrow> u32 \<Rightarrow> world \<Rightarrow> (artik_error \<times> world) outcome" where
  "os_pwm_set_duty_cycle c v w = pwm_set c PWM_CYCL (os_pwm_itoa v) w"

definition os_pwm_release :: "artik_pwm_config \<Rightarrow> world \<Rightarrow> (artik_error \<times> world) outcome" where
  "os_pwm_release c w =
     obind (os_pwm_set_duty_cycle c 0 w) (\<lambda>(r, w1).
     obind (if r = S_OK then os_pwm_enable c CHR ''0'' w1 else Ret (r, w1)) (\<lambda>(r, w2).
       case pwm_user_data c of
         None \<Rightarrow> if r = S_OK then Ub NullDeref else os_pwm_clean None w2
       | Some (p, d) \<Rightarrow>
           obind (if r = S_OK then os_pwm_uexport d PWM_UEXP w2 else Ret (r, d, w2)) (\<lambda>(r, d1, w3).
             os_pwm_clean (Some (p, d1)) w3)))"

text \<open>The steps of a request that follow a successful initialisation, up to the first failure.\<close>

definition pwm_program :: "artik_pwm_config \<Rightarrow> world \<Rightarrow> (artik_error \<times> world) outcome" where
  "pwm_program c w =
     obind (os_pwm_enable c CHR ''1'' w) (\<lambda>(r, w1). if r \<noteq> S_OK then Ret (r, w1) else
     obind (os_pwm_set_polarity c (polarity c) w1) (\<lambda>(r, w2). if r \<noteq> S_OK then Ret (r, w2) else
     obind (os_pwm_set_period c (period c) w2) (\<lambda>(r, w3). if r \<noteq> S_OK then Ret (r, w3) else
     os_pwm_set_duty_cycle c (duty_cycle c) w3)))"

definition os_pwm_request :: "artik_pwm_config \<Rightarrow> world \<Rightarrow> (artik_error \<times> artik_pwm_config \<times> world) outcome" where
  "os_pwm_request c0 w =
     (let c = (if duty_cycle c0 = 0 then c0\<lparr>duty_cycle := period c0 div 2\<rparr> else c0)
      in obind (os_pwm_init c w) (\<lambda>(r, c1, w1).
         obind (if r = S_OK then pwm_program c1 w1 else Ret (r, w1)) (\<lambda>(r, w2).
           if r \<noteq> S_OK then obind (os_pwm_release c1 w2) (\<lambda>(_, w3). Ret (E_BAD_ARGS, c1, w3))
           else Ret (S_OK, c1, w2))))"

subsection \<open>The front end\<close>

definition artik_pwm_request :: "artik_pwm_config fe_request" where
  "artik_pwm_request = table_request pwm_pin zero_pwm_config os_pwm_request"

definition artik_pwm_release :: "artik_pwm_config fe_release" where
  "artik_pwm_release = table_release os_pwm_release"

definition artik_pwm_enable :: "addr \<Rightarrow> artik_pwm_config tab \<Rightarrow> world \<Rightarrow> (artik_error \<times> world) outcome" where
  "artik_pwm_enable hnd t w = on_handle hnd t (\<lambda>c. os_pwm_enable c CHR ''1'') w"

definition artik_pwm_disable :: "addr \<Rightarrow> artik_pwm_config tab \<Rightarrow> world \<Rightarrow> (artik_error \<times> world) outcome" where
  "artik_pwm_disable hnd t w = on_handle hnd t (\<lambda>c. os_pwm_enable c CHR ''0'') w"

definition artik_pwm_set_period :: "addr \<Rightarrow> u32 \<Rightarrow> artik_pwm_config tab \<Rightarrow> world \<Rightarrow> (artik_error \<times> world) outcome" where
  "artik_pwm_set_period hnd v t w = on_handle hnd t (\<lambda>c. os_pwm_set_period c v) w"

definition artik_pwm_set_polarity ::
  "addr \<Rightarrow> artik_pwm_polarity \<Rightarrow> artik_pwm_config tab \<Rightarrow> world \<Rightarrow> (artik_error \<times> world) outcome" where
  "artik_pwm_set_polarity hnd v t w = on_handle hnd t (\<lambda>c. os_pwm_set_polarity c v) w"

definition artik_pwm_set_duty_cycle :: "addr \<Rightarrow> u32 \<Rightarrow> artik_pwm_config tab \<Rightarrow> world \<Rightarrow> (artik_error \<times> world) outcome" where
  "artik_pwm_set_duty_cycle hnd v t w = on_handle hnd t (\<lambda>c. os_pwm_set_duty_cycle c v) w"

subsection \<open>The contract of the front end\<close>

lemma os_pwm_init_pin: "os_pwm_init c w = Ret (e, c', w') \<Longrightarrow> pwm_pin c' = pwm_pin c"
  by (auto simp: os_pwm_init_def Let_def obind_eq_Ret split: if_splits prod.splits)

lemma os_pwm_request_pin: "os_pwm_request c w = Ret (e, c', w') \<Longrightarrow> pwm_pin c' = pwm_pin c"
  by (auto simp: os_pwm_request_def Let_def obind_eq_Ret dest!: os_pwm_init_pin split: if_splits)

interpretation pwm: os_layer os_pwm_request os_pwm_release pwm_pin zero_pwm_config
  rewrites "table_request pwm_pin zero_pwm_config os_pwm_request = artik_pwm_request"
    and "table_release os_pwm_release = artik_pwm_release"
  by unfold_locales (auto simp: artik_pwm_request_def artik_pwm_release_def dest: os_pwm_request_pin)

subsection \<open>What a request writes\<close>

lemma pwm_errno_neg [simp]: "pwm_errno e < 0"
  by (simp add: pwm_errno_def err_simps)

lemma ioctl_frame:
  assumes "os_pwm_ioctl d i v w = Ret (r, w')"
  shows "env w' = env w \<and> opened w' = opened w \<and> fst (files w') = fst (files w) \<and> later w w'"
  using assms by (auto simp: os_pwm_ioctl_def obind_eq_Ret walk_simps file_neutral_def split: if_splits)

text \<open>What an ioctl adds to the log.\<close>

lemma ioctl_log:
  assumes "os_pwm_ioctl d i v w = Ret (r, w')" and "fd_at d i = Ret fd"
  shows "file_log w' = file_log w \<and> r \<noteq> S_OK \<or> file_log w' = file_log w @ [(fst (files w) fd, bytes_of (snd v))]"
proof -
  have "pwm_errno e \<noteq> S_OK \<and> \<not> S_OK \<le> pwm_errno e" for e
    using pwm_errno_neg [of e] unfolding S_OK_def by linarith
  then show ?thesis using assms
    by (auto simp: os_pwm_ioctl_def walk_simps file_neutral_def file_log_Write split: if_splits)
qed

text \<open>The four files of a channel are open on the paths they belong to.\<close>

definition pwm_holds :: "artik_pwm_user_data \<Rightarrow> artik_pwm_path_index list \<Rightarrow> world \<Rightarrow> bool" where
  "pwm_holds d is w \<longleftrightarrow> pd_fd d \<noteq> 0 \<and> length (pd_fds d) = 6 \<and>
     (\<forall>i\<in>set is. \<exists>fd. pd_fds d ! path_ix i = Some fd \<and> 0 \<le> fd
        \<and> fst (files w) fd = Some (tab_value_path i (pd_chip d) (pd_port d)))"

lemma pwm_holds_fd:
  "pwm_holds d is w \<Longrightarrow> i \<in> set is \<Longrightarrow>
     \<exists>fd. fd_at d i = Ret fd \<and> fst (files w) fd = Some (tab_value_path i (pd_chip d) (pd_port d))"
  by (force simp: pwm_holds_def fd_at_def)

lemma pwm_holds_cong: "fst (files w') = fst (files w) \<Longrightarrow> pwm_holds d is w' = pwm_holds d is w"
  by (simp add: pwm_holds_def)

lemma ioctl_holds:
  assumes "os_pwm_ioctl d i v w = Ret (r, w')" and "pwm_holds d is w" and "i \<in> set is"
  shows "pwm_holds d is w' \<and> (file_log w' = file_log w \<and> r \<noteq> S_OK
    \<or> file_log w' = file_log w @ [(Some (tab_value_path i (pd_chip d) (pd_port d)), bytes_of (snd v))])"
proof -
  obtain fd where fd: "fd_at d i = Ret fd" "fst (files w) fd = Some (tab_value_path i (pd_chip d) (pd_port d))"
    using pwm_holds_fd [OF assms(2,3)] by blast
  have "fst (files w') = fst (files w)" using ioctl_frame [OF assms(1)] by simp
  from pwm_holds_cong [OF this, of d "is"] assms(2) have "pwm_holds d is w'" by simp
  with ioctl_log [OF assms(1) fd(1)] fd(2) show ?thesis by simp
qed

definition not_enable :: "artik_pwm_user_data \<Rightarrow> world \<Rightarrow> (string option \<times> bytes) list" where
  "not_enable d w = filter (\<lambda>x. fst x \<noteq> Some (tab_value_path PWM_ENB (pd_chip d) (pd_port d))) (file_log w)"

abbreviation (input) "channel_files \<equiv> [PWM_ENB, PWM_CYCL, PWM_PERD, PWM_POLR]"

lemma enable_quiet:
  assumes "os_pwm_enable c v w = Ret (r, w')" and "pwm_user_data c = Some (p, d)" and "pwm_holds d channel_files w"
  shows "pwm_holds d channel_files w' \<and> not_enable d w' = not_enable d w"
  using assms ioctl_holds [of d PWM_ENB "(0, [v])" w r w' channel_files]
  by (auto simp: os_pwm_enable_def not_enable_def)

text \<open>A value whose formatting leaves the log alone.\<close>

definition quiet_value :: "(world \<Rightarrow> ((addr \<times> string) \<times> world) outcome) \<Rightarrow> string \<Rightarrow> bool" where
  "quiet_value val s \<longleftrightarrow> (\<forall>w v w'. val w = Ret (v, w') \<longrightarrow>
     snd v = s \<and> files w' = files w \<and> env w' = env w \<and> opened w' = opened w)"

lemma quiet_itoa [simp]: "quiet_value (os_pwm_itoa n) (nat_str (unat n))"
  by (auto simp: quiet_value_def os_pwm_itoa_def walk_simps file_neutral_def split: if_splits)

lemma quiet_constant [simp]: "quiet_value (\<lambda>w. Ret ((0, s), w)) s"
  by (simp add: quiet_value_def)

lemma pwm_set_logs:
  assumes "pwm_set c i val w = Ret (S_OK, w')" and "pwm_user_data c = Some (p, d)"
    and "pwm_holds d channel_files w" and "quiet_value val s" and "i \<in> {PWM_CYCL, PWM_PERD, PWM_POLR}"
  shows "pwm_holds d channel_files w' \<and>
    not_enable d w' = not_enable d w @ [(Some (tab_value_path i (pd_chip d) (pd_port d)), bytes_of s)]"
proof -
  obtain w1 v w2 w3 r4 where e: "os_pwm_enable c CHR ''0'' w = Ret (S_OK, w1)" and v: "val w1 = Ret (v, w2)"
    and x: "os_pwm_ioctl d i v w2 = Ret (S_OK, w3)" and f: "os_pwm_enable c CHR ''1'' w3 = Ret (r4, w')"
    using assms(1,2) by (auto simp: pwm_set_def obind_eq_Ret err_simps split: if_splits)
  have h1: "pwm_holds d channel_files w1" "not_enable d w1 = not_enable d w"
    using enable_quiet [OF e assms(2,3)] by auto
  have q: "snd v = s" "files w2 = files w1" using assms(4) v unfolding quiet_value_def by blast+
  then have h2: "pwm_holds d channel_files w2" "not_enable d w2 = not_enable d w1"
    using h1(1) pwm_holds_cong [of w2 w1 d] by (simp_all add: not_enable_def file_log_def)
  have ne: "tab_value_path i ch po \<noteq> tab_value_path PWM_ENB ch po" for ch po
    using assms(5) by (auto simp: tab_value_path_def Let_def)
  have "pwm_holds d channel_files w3" "not_enable d w3 = not_enable d w2
      @ [(Some (tab_value_path i (pd_chip d) (pd_port d)), bytes_of s)]"
    using ioctl_holds [OF x h2(1)] assms(5) q(1) ne by (auto simp: not_enable_def)
  with enable_quiet [OF f assms(2)] h1 h2 show ?thesis by simp
qed

lemma pwm_program_logs:
  assumes "pwm_program c w = Ret (S_OK, w')" and "pwm_user_data c = Some (p, d)"
    and "pwm_holds d channel_files w"
  shows "not_enable d w' = not_enable d w @
    [(Some (tab_value_path PWM_POLR (pd_chip d) (pd_port d)), bytes_of (tab_value_polarity (polarity c))),
     (Some (tab_value_path PWM_PERD (pd_chip d) (pd_port d)), bytes_of (nat_str (unat (period c)))),
     (Some (tab_value_path PWM_CYCL (pd_chip d) (pd_port d)), bytes_of (nat_str (unat (duty_cycle c))))]"
proof -
  obtain w1 w2 w3 where e: "os_pwm_enable c CHR ''1'' w = Ret (S_OK, w1)"
    and s1: "os_pwm_set_polarity c (polarity c) w1 = Ret (S_OK, w2)"
    and s2: "os_pwm_set_period c (period c) w2 = Ret (S_OK, w3)"
    and s3: "os_pwm_set_duty_cycle c (duty_cycle c) w3 = Ret (S_OK, w')"
    using assms(1) by (auto simp: pwm_program_def obind_eq_Ret split: if_splits)
  have h: "pwm_holds d channel_files w1" "not_enable d w1 = not_enable d w"
    using enable_quiet [OF e assms(2,3)] by auto
  have "pwm_set c PWM_POLR (\<lambda>w. Ret ((0, tab_value_polarity (polarity c)), w)) w1 = Ret (S_OK, w2)"
    using s1 by (auto simp: os_pwm_set_polarity_def err_simps split: if_splits)
  from pwm_set_logs [OF this assms(2) h(1) quiet_constant]
  have 1: "pwm_holds d channel_files w2" "not_enable d w2 = not_enable d w1 @
      [(Some (tab_value_path PWM_POLR (pd_chip d) (pd_port d)), bytes_of (tab_value_polarity (polarity c)))]"
    by auto
  from pwm_set_logs [OF s2 [unfolded os_pwm_set_period_def] assms(2) 1(1) quiet_itoa]
  have 2: "pwm_holds d channel_files w3" "not_enable d w3 = not_enable d w2 @
      [(Some (tab_value_path PWM_PERD (pd_chip d) (pd_port d)), bytes_of (nat_str (unat (period c))))]"
    by auto
  from pwm_set_logs [OF s3 [unfolded os_pwm_set_duty_cycle_def] assms(2) 2(1) quiet_itoa]
  show ?thesis using h 1 2 by auto
qed

text \<open>Opening the four files.\<close>

lemma pwm_open_cases:
  assumes "os_pwm_open d i w = Ret (fd, d', w')"
  shows "pd_fd d \<noteq> 0 \<and> d' = d\<lparr>pd_fds := (pd_fds d)[path_ix i := Some fd]\<rparr> \<and> env w' = env w
    \<and> opened w' = (if fd < 0 then opened w else fd # opened w) \<and> file_log w' = file_log w
    \<and> fst (files w') = (fst (files w))(fd \<mapsto> tab_value_path i (pd_chip d) (pd_port d))
    \<and> (fresh_fds (env w) \<longrightarrow> 0 \<le> fd \<longrightarrow> fst (files w) fd = None)"
proof -
  let ?o = "Open (tab_value_path i (pd_chip d) (pd_port d)) O_SYNC_WRONLY"
  have "pd_fd d \<noteq> 0" "fd = retv (env w (hist w) ?o)" "w' = snd (xc ?o w)"
    "d' = d\<lparr>pd_fds := (pd_fds d)[path_ix i := Some fd]\<rparr>"
    using assms by (auto simp: os_pwm_open_def walk_simps split: if_splits)
  moreover from this(2) have "fresh_fds (env w) \<Longrightarrow> 0 \<le> fd \<Longrightarrow> fst (files w) fd = None"
    using fresh_fdsD by simp
  ultimately show ?thesis by (cases "files w") (auto simp: Let_def files_xc)
qed

lemma path_ix_less [simp]: "path_ix i < 6"
  by (cases i) auto

lemma path_ix_inject [simp]: "path_ix i = path_ix j \<longleftrightarrow> i = j"
  by (cases i; cases j) auto

lemma pwm_open_holds:
  assumes "os_pwm_open d i w = Ret (fd, d', w')" and "0 \<le> fd" and "pwm_holds d is w" and "fresh_fds (env w)"
  shows "pwm_holds d' (i # is) w'"
proof -
  note c = pwm_open_cases [OF assms(1)]
  have "\<exists>fd'. pd_fds d' ! path_ix j = Some fd' \<and> 0 \<le> fd'
      \<and> fst (files w') fd' = Some (tab_value_path j (pd_chip d') (pd_port d'))" if j: "j \<in> set is" "j \<noteq> i" for j
  proof -
    obtain fd' where "pd_fds d ! path_ix j = Some fd'" "0 \<le> fd'"
      "fst (files w) fd' = Some (tab_value_path j (pd_chip d) (pd_port d))"
      using assms(3) j(1) unfolding pwm_holds_def by blast
    moreover from this have "fd' \<noteq> fd" using c assms(2,4) by auto
    ultimately show ?thesis using c assms(3) j(2) by (auto simp: pwm_holds_def)
  qed
  moreover have "\<exists>fd'. pd_fds d' ! path_ix i = Some fd' \<and> 0 \<le> fd'
      \<and> fst (files w') fd' = Some (tab_value_path i (pd_chip d') (pd_port d'))"
    using c assms(2,3) by (simp add: pwm_holds_def)
  moreover have "pd_fd d' \<noteq> 0" "length (pd_fds d') = 6" using c assms(3) by (simp_all add: pwm_holds_def)
  ultimately show ?thesis unfolding pwm_holds_def by (metis set_ConsD)
qed

lemma pwm_open_all_holds:
  assumes "pwm_open_all is d w = Ret (S_OK, d', w')" and "pwm_holds d js w" and "fresh_fds (env w)"
  shows "pwm_holds d' (rev is @ js) w' \<and> file_log w' = file_log w \<and> pd_chip d' = pd_chip d \<and> pd_port d' = pd_port d"
  using assms
proof (induction "is" arbitrary: d w js)
  case (Cons i "is")
  from Cons.prems(1) obtain fd d1 w1 where o: "os_pwm_open d i w = Ret (fd, d1, w1)" "0 \<le> fd"
    "pwm_open_all is d1 w1 = Ret (S_OK, d', w')"
    by (auto simp: obind_eq_Ret err_simps split: if_splits)
  note c = pwm_open_cases [OF o(1)]
  from Cons.IH [OF o(3) pwm_open_holds [OF o(1,2) Cons.prems(2,3)]] c Cons.prems(3) show ?case by simp
qed simp

lemma uexport_logs:
  assumes "os_pwm_uexport d i w = Ret (S_OK, d', w')" and "length (pd_fds d) = 6" and "posix_close (env w)"
  shows "file_log w' = file_log w @ [(Some (tab_value_path i (pd_chip d) (pd_port d)), bytes_of (nat_str (unat (pd_port d))))]
    \<and> opened w' = opened w \<and> env w' = env w
    \<and> pd_fd d' \<noteq> 0 \<and> length (pd_fds d') = 6 \<and> pd_chip d' = pd_chip d \<and> pd_port d' = pd_port d"
proof -
  from assms(1) obtain fd d1 w1 w3 a where o: "os_pwm_open d i w = Ret (fd, d1, w1)"
    and r: "uexport_write d1 i fd w1 = Ret (S_OK, w3)" and d: "d' = d1" and cl: "fd_at d1 i = Ret a"
      "retv (fst (xc (Close a) w3)) = S_OK" "w' = snd (xc (Close a) w3)"
    by (auto simp: os_pwm_uexport_def obind_eq_Ret simp del: fst_xc split: if_splits)
  note c = pwm_open_cases [OF o]
  have fa: "fd_at d1 i = Ret fd" using c assms(2) by (auto simp: fd_at_def)
  have fd: "0 \<le> fd"
  proof (rule ccontr)
    assume "\<not> 0 \<le> fd"
    moreover from this r have "w3 = w1" by (simp add: uexport_write_def err_simps)
    ultimately show False using cl fa c assms(3) by (auto simp: posix_close_def err_simps)
  qed
  with r obtain v w2 where v: "os_pwm_itoa (pd_port d1) w1 = Ret (v, w2)" "os_pwm_ioctl d1 i v w2 = Ret (S_OK, w3)"
    by (auto simp: uexport_write_def obind_eq_Ret err_simps)
  have q: "snd v = nat_str (unat (pd_port d1))" "files w2 = files w1" "env w2 = env w1" "opened w2 = opened w1"
    using quiet_itoa [of "pd_port d1"] v(1) unfolding quiet_value_def by blast+
  have "file_log w3 = file_log w2 @ [(fst (files w2) fd, bytes_of (snd v))]"
    using ioctl_log [OF v(2) fa] by simp
  moreover have "file_log w2 = file_log w1" using q(2) by (simp add: file_log_def)
  ultimately show ?thesis using cl c d q fa fd assms(2) ioctl_frame [OF v(2)] by auto
qed

lemma channel_logs:
  assumes "pwm_open_channel d w = Ret (S_OK, d', w')" and "length (pd_fds d) = 6"
    and "posix_close (env w)" and "fresh_fds (env w)"
  shows "pwm_holds d' channel_files w' \<and> pd_chip d' = pd_chip d \<and> pd_port d' = pd_port d
    \<and> file_log w' = file_log w @ [(Some (tab_value_path PWM_EXP (pd_chip d) (pd_port d)), bytes_of (nat_str (unat (pd_port d))))]"
proof -
  obtain d1 w1 where u: "os_pwm_uexport d PWM_EXP w = Ret (S_OK, d1, w1)"
    and o: "pwm_open_all channel_files d1 w1 = Ret (S_OK, d', w')"
    using assms(1) by (auto simp: pwm_open_channel_def obind_eq_Ret err_simps simp del: pwm_open_all.simps split: if_splits)
  note l = uexport_logs [OF u assms(2,3)]
  then have "pwm_holds d1 [] w1" by (simp add: pwm_holds_def)
  from pwm_open_all_holds [OF o this] l assms(4) show ?thesis
    by (auto simp: pwm_holds_def)
qed

lemma os_pwm_request_ok:
  assumes "os_pwm_request c w = Ret (S_OK, c', w')"
  shows "\<exists>p q d w1 w2. pwm_open_channel (pwm_new (pwm_pin c) q) w1 = Ret (S_OK, d, w2)
    \<and> files w1 = files w \<and> opened w1 = opened w \<and> env w1 = env w
    \<and> c' = c\<lparr>duty_cycle := (if duty_cycle c = 0 then period c div 2 else duty_cycle c), pwm_user_data := Some (p, d)\<rparr>
    \<and> pwm_program c' w2 = Ret (S_OK, w')"
proof -
  let ?c = "if duty_cycle c = 0 then c\<lparr>duty_cycle := period c div 2\<rparr> else c"
  let ?w1 = "snd (xc (Malloc 24) (snd (xc (Malloc 12) w)))"
  have c: "?c\<lparr>pwm_user_data := x\<rparr>
      = c\<lparr>duty_cycle := (if duty_cycle c = 0 then period c div 2 else duty_cycle c), pwm_user_data := x\<rparr>" for x
    by simp
  obtain w2 where i: "os_pwm_init ?c w = Ret (S_OK, c', w2)" and p: "pwm_program c' w2 = Ret (S_OK, w')"
    using assms by (auto simp: os_pwm_request_def Let_def obind_eq_Ret err_simps split: if_splits)
  let ?p = "nat (retv (fst (xc (Malloc 12) w)))" and ?q = "nat (retv (fst (xc (Malloc 24) (snd (xc (Malloc 12) w)))))"
  from i obtain d where "pwm_open_channel (pwm_new (pwm_pin ?c) ?q) ?w1 = Ret (S_OK, d, w2)"
    "c' = ?c\<lparr>pwm_user_data := Some (?p, d)\<rparr>"
    by (auto simp: os_pwm_init_def case_prod_beta Let_def obind_eq_Ret split: if_splits)
  moreover have "files ?w1 = files w" "opened ?w1 = opened w" "env ?w1 = env w"
    by (simp_all add: file_neutral_def fd_neutral_def)
  moreover have "pwm_pin ?c = pwm_pin c" by simp
  ultimately show ?thesis using p unfolding c by metis
qed

subsection \<open>A run\<close>

definition fan :: artik_pwm_config where
  "fan = \<lparr>pwm_pin = 0x0102, pwm_name = ''fan'', period = 1000, duty_cycle = 0, polarity = POLR_INVERT, pwm_user_data = None\<rparr>"

lemmas pwm_run_simps = os_pwm_request_def os_pwm_init_def pwm_open_channel_def pwm_new_def os_pwm_uexport_def
  os_pwm_open_def uexport_write_def os_pwm_itoa_def os_pwm_ioctl_def fd_at_def pwm_program_def os_pwm_enable_def
  os_pwm_set_polarity_def os_pwm_set_period_def os_pwm_set_duty_cycle_def pwm_set_def os_pwm_release_def os_pwm_clean_def

lemma fan_init:
  "\<exists>p d w. os_pwm_init (fan\<lparr>duty_cycle := 500\<rparr>) counting_world = Ret (S_OK, fan\<lparr>duty_cycle := 500, pwm_user_data := Some (p, d)\<rparr>, w)
    \<and> env w = counting_env \<and> pd_fd d = 64 \<and> (\<exists>a b c e f. pd_fds d = [Some f, None, Some a, Some b, Some c, Some e])"
  by (simp add: pwm_run_simps fan_def case_prod_beta Let_def S_OK_def replicate6)

lemma fan_program:
  assumes "pwm_user_data c = Some (p, d)" and "pd_fd d = 64" and "pd_fds d = [Some f, None, Some a, Some b, Some e, Some g]"
    and "polarity c = POLR_INVERT" and "env w = counting_env"
  shows "\<exists>w'. pwm_program c w = Ret (S_OK, w') \<and> env w' = counting_env"
  using assms by (simp add: pwm_run_simps case_prod_beta Let_def S_OK_def)
lemma fan_release:
  assumes "pwm_user_data c = Some (p, d)" and "pd_fd d = 64" and "pd_fds d = [Some f, None, Some a, Some b, Some e, Some g]"
    and "env w = counting_env"
  shows "\<exists>w'. os_pwm_release c w = Ret (S_OK, w') \<and> env w' = counting_env"
  using assms by (simp add: pwm_run_simps case_prod_beta Let_def S_OK_def)

lemma fan_runs:
  "\<exists>c' w'. os_pwm_request fan counting_world = Ret (S_OK, c', w')
     \<and> (\<exists>w''. os_pwm_release c' w' = Ret (S_OK, w''))"
proof -
  obtain p d w a b c e f where i: "os_pwm_init (fan\<lparr>duty_cycle := 500\<rparr>) counting_world
      = Ret (S_OK, fan\<lparr>duty_cycle := 500, pwm_user_data := Some (p, d)\<rparr>, w)"
    and d: "pd_fd d = 64" "pd_fds d = [Some f, None, Some a, Some b, Some c, Some e]" and w: "env w = counting_env"
    using fan_init by blast
  let ?c = "fan\<lparr>duty_cycle := 500, pwm_user_data := Some (p, d)\<rparr>"
  have "pwm_user_data ?c = Some (p, d)" "polarity ?c = POLR_INVERT" by (simp_all add: fan_def)
  from fan_program [OF this(1) d this(2) w] fan_release [OF this(1) d]
  obtain w' w'' where "pwm_program ?c w = Ret (S_OK, w')" "os_pwm_release ?c w' = Ret (S_OK, w'')"
    by metis
  moreover have "(if duty_cycle fan = 0 then fan\<lparr>duty_cycle := period fan div 2\<rparr> else fan) = fan\<lparr>duty_cycle := 500\<rparr>"
    by (simp add: fan_def)
  ultimately show ?thesis using i by (simp add: os_pwm_request_def)
qed

text \<open>A PWM request that succeeds has exported the channel and then written, besides the enable
  file, exactly the polarity, the period and the duty cycle, in that order; a duty cycle of 0 stands for
  half the period.\<close>

theorem pwm_request_programs_the_channel:
  assumes "os_pwm_request c w = Ret (S_OK, c', w')" and "fresh_fds (env w)" and "posix_close (env w)"
  shows "\<exists>chip port. chip = drop_bit 8 (pwm_pin c AND 0xFF00) AND 0xFF \<and> port = pwm_pin c AND 0xFF
    \<and> filter (\<lambda>x. fst x \<noteq> Some (tab_value_path PWM_ENB chip port)) (file_log w')
      = filter (\<lambda>x. fst x \<noteq> Some (tab_value_path PWM_ENB chip port)) (file_log w)
        @ [(Some (tab_value_path PWM_EXP chip port), bytes_of (nat_str (unat port))),
           (Some (tab_value_path PWM_POLR chip port), bytes_of (tab_value_polarity (polarity c))),
           (Some (tab_value_path PWM_PERD chip port), bytes_of (nat_str (unat (period c)))),
           (Some (tab_value_path PWM_CYCL chip port),
              bytes_of (nat_str (unat (if duty_cycle c = 0 then period c div 2 else duty_cycle c))))]"
proof -
  obtain p q d w1 w2 where o: "pwm_open_channel (pwm_new (pwm_pin c) q) w1 = Ret (S_OK, d, w2)"
    and w1: "files w1 = files w" "env w1 = env w"
    and c': "c' = c\<lparr>duty_cycle := (if duty_cycle c = 0 then period c div 2 else duty_cycle c), pwm_user_data := Some (p, d)\<rparr>"
    and p: "pwm_program c' w2 = Ret (S_OK, w')"
    using os_pwm_request_ok [OF assms(1)] by blast
  have "length (pd_fds (pwm_new (pwm_pin c) q)) = 6" by (simp add: pwm_new_def)
  from channel_logs [OF o this] assms(2,3) w1(2)
  have h: "pwm_holds d channel_files w2" and ch: "pd_chip d = drop_bit 8 (pwm_pin c AND 0xFF00) AND 0xFF"
    and po: "pd_port d = pwm_pin c AND 0xFF" and l: "file_log w2 = file_log w1
      @ [(Some (tab_value_path PWM_EXP (pd_chip d) (pd_port d)), bytes_of (nat_str (unat (pd_port d))))]"
    by (simp_all add: pwm_new_def)
  have "pwm_user_data c' = Some (p, d)" by (simp add: c')
  from pwm_program_logs [OF p this h] have "not_enable d w' = not_enable d w2 @
    [(Some (tab_value_path PWM_POLR (pd_chip d) (pd_port d)), bytes_of (tab_value_polarity (polarity c))),
     (Some (tab_value_path PWM_PERD (pd_chip d) (pd_port d)), bytes_of (nat_str (unat (period c)))),
     (Some (tab_value_path PWM_CYCL (pd_chip d) (pd_port d)),
        bytes_of (nat_str (unat (if duty_cycle c = 0 then period c div 2 else duty_cycle c))))]"
    by (simp add: c')
  moreover have "file_log w1 = file_log w" using w1(1) by (simp add: file_log_def)
  moreover have "tab_value_path PWM_EXP (pd_chip d) (pd_port d) \<noteq> tab_value_path PWM_ENB (pd_chip d) (pd_port d)"
    by (simp add: tab_value_path_def Let_def)
  ultimately show ?thesis
    by (intro exI [of _ "pd_chip d"] exI [of _ "pd_port d"] conjI ch po) (simp add: not_enable_def l)
qed

theorem pwm_request_programs_the_channel_witness:
  "\<exists>c' w'. os_pwm_request fan counting_world = Ret (S_OK, c', w')
     \<and> (Some (tab_value_path PWM_CYCL 1 2), bytes_of (nat_str 500)) \<in> set (file_log w')"
proof -
  obtain c' w' where run: "os_pwm_request fan counting_world = Ret (S_OK, c', w')" using fan_runs by blast
  have "fresh_fds (env counting_world)" "posix_close (env counting_world)" by simp_all
  from pwm_request_programs_the_channel [OF run this]
  have "(Some (tab_value_path PWM_CYCL 1 2), bytes_of (nat_str 500)) \<in>
      set (filter (\<lambda>x. fst x \<noteq> Some (tab_value_path PWM_ENB 1 2)) (file_log w'))"
    by (auto simp: fan_def)
  with run show ?thesis by auto
qed

subsection \<open>What a release leaves open\<close>

lemma pwm_open_all_opened:
  assumes "pwm_open_all is d w = Ret (S_OK, d', w')" and "distinct is" and "length (pd_fds d) = 6"
  shows "\<exists>f. (\<forall>i\<in>set is. pd_fds d' ! path_ix i = Some (f i) \<and> 0 \<le> f i)
    \<and> (\<forall>j. j \<notin> set is \<longrightarrow> pd_fds d' ! path_ix j = pd_fds d ! path_ix j)
    \<and> mset (opened w') = mset (opened w) + mset (map f is) \<and> (is \<noteq> [] \<longrightarrow> pd_fd d' \<noteq> 0) \<and> length (pd_fds d') = 6"
  using assms
proof (induction "is" arbitrary: d w)
  case (Cons i "is")
  from Cons.prems(1) obtain fd d1 w1 where o: "os_pwm_open d i w = Ret (fd, d1, w1)" "0 \<le> fd"
    "pwm_open_all is d1 w1 = Ret (S_OK, d', w')"
    by (auto simp: obind_eq_Ret err_simps split: if_splits)
  note c = pwm_open_cases [OF o(1)]
  obtain f where f: "\<forall>i\<in>set is. pd_fds d' ! path_ix i = Some (f i) \<and> 0 \<le> f i"
    "\<forall>j. j \<notin> set is \<longrightarrow> pd_fds d' ! path_ix j = pd_fds d1 ! path_ix j"
    "mset (opened w') = mset (opened w1) + mset (map f is)" "is \<noteq> [] \<longrightarrow> pd_fd d' \<noteq> 0" "length (pd_fds d') = 6"
    using Cons.IH [OF o(3)] Cons.prems(2,3) c by auto
  have "map (f(i := fd)) is = map f is" using Cons.prems(2) by auto
  moreover have "pd_fd d' \<noteq> 0"
  proof (cases "is")
    case Nil
    have "pd_fd d1 \<noteq> 0" using c by auto
    moreover have "d' = d1" using o(3) Nil by simp
    ultimately show ?thesis by simp
  qed (use f(4) in simp)
  ultimately show ?case
    using f c o(2) Cons.prems(2,3) by (intro exI [of _ "f(i := fd)"]) (auto intro: image_mset_cong)
qed simp

lemma pwm_set_opened:
  assumes "pwm_set c i val w = Ret (r, w')" and "quiet_value val s"
  shows "opened w' = opened w"
proof -
  have e: "opened w'' = opened w0" if "os_pwm_enable c v w0 = Ret (x, w'')" for v w0 x w''
    using that ioctl_frame by (auto simp: os_pwm_enable_def split: option.splits)
  have q: "opened w'' = opened w0" if "val w0 = Ret (x, w'')" for w0 x w''
    using assms(2) that unfolding quiet_value_def by blast
  from assms(1) show ?thesis
    by (auto simp: pwm_set_def obind_eq_Ret dest!: e q ioctl_frame split: if_splits option.splits)
qed

lemma pwm_program_opened: "pwm_program c w = Ret (S_OK, w') \<Longrightarrow> opened w' = opened w"
proof -
  have e: "opened w'' = opened w0" if "os_pwm_enable c v w0 = Ret (x, w'')" for v w0 x w''
    using that ioctl_frame by (auto simp: os_pwm_enable_def split: option.splits)
  have s: "opened w'' = opened w0" if "os_pwm_set_polarity c v w0 = Ret (x, w'')" for v w0 x w''
  proof (cases "v = POLR_NORMAL \<or> v = POLR_INVERT")
    case True
    with that have "pwm_set c PWM_POLR (\<lambda>w. Ret ((0, tab_value_polarity v), w)) w0 = Ret (x, w'')"
      by (simp add: os_pwm_set_polarity_def)
    then show ?thesis by (rule pwm_set_opened [OF _ quiet_constant])
  qed (use that in \<open>simp add: os_pwm_set_polarity_def\<close>)
  have p: "opened w'' = opened w0" if "os_pwm_set_period c v w0 = Ret (x, w'')" for v w0 x w''
    using that unfolding os_pwm_set_period_def by (rule pwm_set_opened [OF _ quiet_itoa])
  have d: "opened w'' = opened w0" if "os_pwm_set_duty_cycle c v w0 = Ret (x, w'')" for v w0 x w''
    using that unfolding os_pwm_set_duty_cycle_def by (rule pwm_set_opened [OF _ quiet_itoa])
  assume "pwm_program c w = Ret (S_OK, w')"
  then obtain w1 w2 w3 where "os_pwm_enable c CHR ''1'' w = Ret (S_OK, w1)"
    "os_pwm_set_polarity c (polarity c) w1 = Ret (S_OK, w2)"
    "os_pwm_set_period c (period c) w2 = Ret (S_OK, w3)" "os_pwm_set_duty_cycle c (duty_cycle c) w3 = Ret (S_OK, w')"
    by (auto simp: pwm_program_def obind_eq_Ret split: if_splits)
  then show "opened w' = opened w" using e s p d by metis
qed

lemma uexport_opened:
  assumes "os_pwm_uexport d i w = Ret (r, d', w')" and "length (pd_fds d) = 6"
  shows "(\<exists>L. length L \<le> 1 \<and> opened w' = L @ opened w) \<and> (\<forall>j. j \<noteq> i \<longrightarrow> pd_fds d' ! path_ix j = pd_fds d ! path_ix j)
    \<and> pd_fd d' \<noteq> 0 \<and> length (pd_fds d') = 6 \<and> (posix_close (env w) \<longrightarrow> r = S_OK \<longrightarrow> opened w' = opened w)"
proof -
  from assms(1) obtain fd w1 res w2 where o: "os_pwm_open d i w = Ret (fd, d', w1)"
    and x: "uexport_write d' i fd w1 = Ret (res, w2)"
    and cl: "res \<noteq> S_OK \<and> w' = w2 \<and> r = res \<or> res = S_OK \<and> (\<exists>a. fd_at d' i = Ret a \<and> w' = snd (xc (Close a) w2))"
    by (auto simp: os_pwm_uexport_def obind_eq_Ret split: if_splits)
  note c = pwm_open_cases [OF o]
  have fa: "fd_at d' i = Ret fd" using c assms(2) by (auto simp: fd_at_def)
  have w2: "opened w2 = opened w1"
    using x quiet_itoa [of "pd_port d'"]
    by (auto simp: uexport_write_def obind_eq_Ret quiet_value_def dest!: ioctl_frame split: if_splits)
  have "opened w' = (if res = S_OK then remove1 fd (opened w1) else opened w1)"
    using cl fa w2 by auto
  then have ow: "opened w' = (if res \<noteq> S_OK \<and> 0 \<le> fd then fd # opened w else opened w)"
    using c by auto
  then have "\<exists>L. length L \<le> 1 \<and> opened w' = L @ opened w"
    by (cases "res \<noteq> S_OK \<and> 0 \<le> fd") (auto intro: exI [of _ "[fd]"])
  moreover have "r = S_OK \<Longrightarrow> res = S_OK" using cl by auto
  ultimately show ?thesis using c assms(2) ow by auto
qed

lemma release_opened:
  assumes "os_pwm_release c w = Ret (r, w')" and "pwm_user_data c = Some (p, d)" and "length (pd_fds d) = 6"
    and "\<forall>i\<in>{PWM_ENB, PWM_CYCL, PWM_PERD}. pd_fds d ! path_ix i = Some (f i) \<and> 0 \<le> f i"
  shows "\<exists>L. length L \<le> 1 \<and> mset (opened w') = mset L + mset (opened w) - {#f PWM_ENB#} - {#f PWM_CYCL#} - {#f PWM_PERD#}"
proof -
  have e: "opened w'' = opened w0" if "os_pwm_enable c v w0 = Ret (x, w'')" for v w0 x w''
    using that ioctl_frame by (auto simp: os_pwm_enable_def split: option.splits)
  obtain r1 w1 r2 w2 where 1: "os_pwm_set_duty_cycle c 0 w = Ret (r1, w1)"
    and 2: "(if r1 = S_OK then os_pwm_enable c CHR ''0'' w1 else Ret (r1, w1)) = Ret (r2, w2)"
    using assms(1) by (auto simp: os_pwm_release_def obind_eq_Ret)
  then obtain r3 d3 w3 where 3: "(if r2 = S_OK then os_pwm_uexport d PWM_UEXP w2 else Ret (r2, d, w2)) = Ret (r3, d3, w3)"
    and 4: "os_pwm_clean (Some (p, d3)) w3 = Ret (r, w')"
    using assms(1,2) by (simp add: os_pwm_release_def) (auto simp: obind_eq_Ret)
  have "opened w1 = opened w" using pwm_set_opened [OF 1 [unfolded os_pwm_set_duty_cycle_def] quiet_itoa] .
  moreover have "opened w2 = opened w1" using 2 e by (auto split: if_splits)
  moreover have "\<exists>L. length L \<le> 1 \<and> opened w3 = L @ opened w2"
    using 3 uexport_opened [OF _ assms(3)] by (fastforce split: if_splits)
  ultimately obtain L where L: "length L \<le> 1" "opened w3 = L @ opened w" by auto
  have pd: "pd_fd d \<noteq> 0"
    using 1 assms(2) by (force simp: os_pwm_set_duty_cycle_def pwm_set_def os_pwm_enable_def os_pwm_ioctl_def fd_at_def
        obind_eq_Ret split: if_splits)
  have "pd_fd d3 \<noteq> 0" and f: "\<forall>i\<in>{PWM_ENB, PWM_CYCL, PWM_PERD}. fd_at d3 i = Ret (f i) \<and> 0 \<le> f i"
    using 3 assms(4) pd uexport_opened [OF _ assms(3)]
    by (fastforce simp: fd_at_def split: if_splits)+
  with 4 have "opened w' = remove1 (f PWM_PERD) (remove1 (f PWM_CYCL) (remove1 (f PWM_ENB) (opened w3)))"
    by (auto simp: os_pwm_clean_def fd_neutral_def)
  with L show ?thesis by auto
qed

text \<open>Releasing a channel does not give back all its descriptors: after a request that succeeded and
  its release, the descriptor of the polarity file is open, and at most one more besides those
  that were open before.\<close>

theorem pwm_release_keeps_polarity_open:
  assumes "os_pwm_request c w = Ret (S_OK, c', w')" and "os_pwm_release c' w' = Ret (r, w'')"
    and "posix_close (env w)"
  shows "\<exists>p d fd L. pwm_user_data c' = Some (p, d) \<and> pd_fds d ! path_ix PWM_POLR = Some fd
    \<and> length L \<le> 1 \<and> mset (opened w'') = add_mset fd (mset (opened w) + mset L)"
proof -
  obtain p q d w1 w2 where o: "pwm_open_channel (pwm_new (pwm_pin c) q) w1 = Ret (S_OK, d, w2)"
    and w1: "opened w1 = opened w" "env w1 = env w"
    and c': "c' = c\<lparr>duty_cycle := (if duty_cycle c = 0 then period c div 2 else duty_cycle c), pwm_user_data := Some (p, d)\<rparr>"
    and p: "pwm_program c' w2 = Ret (S_OK, w')"
    using os_pwm_request_ok [OF assms(1)] by blast
  obtain d1 w3 where u: "os_pwm_uexport (pwm_new (pwm_pin c) q) PWM_EXP w1 = Ret (S_OK, d1, w3)"
    and oa: "pwm_open_all channel_files d1 w3 = Ret (S_OK, d, w2)"
    using o by (auto simp: pwm_open_channel_def obind_eq_Ret err_simps simp del: pwm_open_all.simps split: if_splits)
  have "length (pd_fds (pwm_new (pwm_pin c) q)) = 6" by (simp add: pwm_new_def)
  note ue = uexport_opened [OF u this]
  then have "length (pd_fds d1) = 6" by simp
  then obtain f where f: "\<forall>i\<in>set channel_files. pd_fds d ! path_ix i = Some (f i) \<and> 0 \<le> f i"
    "mset (opened w2) = mset (opened w3) + mset (map f channel_files)" "length (pd_fds d) = 6"
    using pwm_open_all_opened [OF oa] by auto
  have ud: "pwm_user_data c' = Some (p, d)" by (simp add: c')
  have ow: "mset (opened w') = mset (opened w) + mset (map f channel_files)"
    using f(2) ue assms(3) w1 pwm_program_opened [OF p] by simp
  have "\<forall>i\<in>{PWM_ENB, PWM_CYCL, PWM_PERD}. pd_fds d ! path_ix i = Some (f i) \<and> 0 \<le> f i" using f(1) by simp
  from release_opened [OF assms(2) ud f(3) this] obtain L where
    "length L \<le> 1" "mset (opened w'') = mset L + mset (opened w') - {#f PWM_ENB#} - {#f PWM_CYCL#} - {#f PWM_PERD#}"
    by blast
  with ow have "length L \<le> 1 \<and> mset (opened w'') = add_mset (f PWM_POLR) (mset (opened w) + mset L)"
    by (simp add: ac_simps)
  moreover have "pd_fds d ! path_ix PWM_POLR = Some (f PWM_POLR)" using f(1) by simp
  ultimately show ?thesis using ud by blast
qed

theorem pwm_release_keeps_polarity_open_witness:
  "\<exists>c' w' w''. os_pwm_request fan counting_world = Ret (S_OK, c', w') \<and> os_pwm_release c' w' = Ret (S_OK, w'')
     \<and> opened counting_world = [] \<and> opened w'' \<noteq> []"
proof -
  obtain c' w' w'' where run: "os_pwm_request fan counting_world = Ret (S_OK, c', w')"
    "os_pwm_release c' w' = Ret (S_OK, w'')" using fan_runs by blast
  have "posix_close (env counting_world)" by simp
  from pwm_release_keeps_polarity_open [OF run this] have "opened w'' \<noteq> []" by auto
  moreover have "opened counting_world = []" by (simp add: opened_def)
  ultimately show ?thesis using run by blast
qed

text \<open>When the channel cannot be exported, because it already is, the request does not report
  E_BUSY: its error path writes to descriptors that were never opened, an uninitialised read.\<close>

theorem pwm_busy_channel_is_undefined:
  assumes "\<forall>h n. 0 < retv (env w h (Malloc n))" and "\<forall>h q f. 0 \<le> retv (env w h (Open q f))"
    and "\<forall>h fd bs. retv (env w h (Write fd bs)) = -1"
  shows "os_pwm_request c w = Ub Uninitialised"
proof -
  let ?c = "if duty_cycle c = 0 then c\<lparr>duty_cycle := period c div 2\<rparr> else c"
  have ex: "\<exists>r d1 w1. os_pwm_uexport d PWM_EXP w0 = Ret (r, d1, w1) \<and> r \<noteq> S_OK \<and> pd_fd d1 \<noteq> 0
      \<and> pd_fds d1 ! path_ix PWM_ENB = None"
    if "env w0 = env w" "pd_fd d \<noteq> 0" "pd_fds d = replicate 6 None" for d w0
  proof -
    have neg: "pwm_errno e \<noteq> S_OK \<and> \<not> S_OK \<le> pwm_errno e" for e
      using pwm_errno_neg [of e] unfolding S_OK_def by linarith
    have "retv (env w h (Malloc n)) \<noteq> 0" for h n using assms(1) by (metis less_irrefl)
    with that assms(2,3) neg show ?thesis
      by (simp add: os_pwm_uexport_def os_pwm_open_def uexport_write_def os_pwm_itoa_def os_pwm_ioctl_def
          fd_at_def walk_simps S_OK_def)
  qed
  let ?w2 = "snd (xc (Malloc 24) (snd (xc (Malloc 12) w)))"
  let ?q = "nat (retv (fst (xc (Malloc 24) (snd (xc (Malloc 12) w)))))"
  have "?q \<noteq> 0" using assms(1) by (simp add: not_le)
  then obtain r d1 w3 where u: "os_pwm_uexport (pwm_new (pwm_pin ?c) ?q) PWM_EXP ?w2 = Ret (r, d1, w3)" "r \<noteq> S_OK"
    "pd_fd d1 \<noteq> 0" "pd_fds d1 ! path_ix PWM_ENB = None"
    using ex [of ?w2 "pwm_new (pwm_pin ?c) ?q"] by (auto simp: pwm_new_def)
  have "retv (fst (xc (Malloc 12) w)) \<noteq> 0" using assms(1) by (simp add: less_imp_neq [symmetric])
  then obtain p where i: "os_pwm_init ?c w = Ret (E_BUSY, ?c\<lparr>pwm_user_data := Some (p, d1)\<rparr>, w3)"
    using u(1,2) by (simp add: os_pwm_init_def pwm_open_channel_def case_prod_beta Let_def)
  then have "os_pwm_release (?c\<lparr>pwm_user_data := Some (p, d1)\<rparr>) w3 = Ub Uninitialised"
    using u(3,4) by (simp add: os_pwm_release_def os_pwm_set_duty_cycle_def pwm_set_def os_pwm_enable_def
        os_pwm_ioctl_def fd_at_def)
  with i show ?thesis by (simp add: os_pwm_request_def Let_def err_simps del: if_split)
qed

definition read_only_world :: world where
  "read_only_world = \<lparr>hist = [], env = (\<lambda>h c. case c of
     Write fd bs \<Rightarrow> \<lparr>retv = -1, errno = 16, oval = 0, outb = []\<rparr> | _ \<Rightarrow> good_env h c)\<rparr>"

theorem pwm_busy_channel_is_undefined_witness:
  "os_pwm_request fan read_only_world = Ub Uninitialised"
  by (rule pwm_busy_channel_is_undefined) (simp_all add: read_only_world_def)

end
