(* ===== verification/I2c.thy ===== *)
theory I2c
  imports HandleTable Bytes
begin

section \<open>I2C (\<^verbatim>\<open>src/modules/systemio/i2c\<close>)\<close>

text \<open>
  The front end \<^verbatim>\<open>artik_i2c.c\<close> (a handle table keyed by bus and slave address) on the Linux
  back end \<^verbatim>\<open>linux_i2c.c\<close>, which opens the bus anew for every transfer. Lengths of the
  caller's buffers are naturals; a buffer to be filled is as long as the caller says.
\<close>

datatype artik_i2c_wordsize = I2C_8BIT | I2C_16BIT | I2C_WORDSIZE_INVALID

fun wordsize_of :: "artik_i2c_wordsize \<Rightarrow> nat" where
  "wordsize_of I2C_8BIT = 1"
| "wordsize_of I2C_16BIT = 2"
| "wordsize_of I2C_WORDSIZE_INVALID = 3"

record artik_i2c_config =
  i2c_id :: u32
  frequency :: int
  wordsize :: artik_i2c_wordsize
  address :: u8

definition zero_i2c_config :: artik_i2c_config where
  "zero_i2c_config = \<lparr>i2c_id = 0, frequency = 0, wordsize = I2C_8BIT, address = 0\<rparr>"

subsection \<open>The back end\<close>

definition i2c_devname :: "artik_i2c_config \<Rightarrow> string" where
  "i2c_devname c = ''/dev/i2c-'' @ int_str (sint (i2c_id c))"

text \<open>Opening the bus and setting the slave address: what every operation starts with. No
  descriptor if the open failed; else the descriptor, and if the address was accepted.\<close>

definition i2c_open :: "artik_i2c_config \<Rightarrow> world \<Rightarrow> (int \<times> bool) option \<times> world" where
  "i2c_open c w =
     (let (a, w1) = xc (Open (i2c_devname c) O_RDWR) w
      in if retv a < 0 then (None, w1)
         else let (s, w2) = xc (Ioctl (retv a) ''I2C_SLAVE'' [address c]) w1
              in (Some (retv a, 0 \<le> retv s), w2))"

definition os_i2c_request :: "artik_i2c_config \<Rightarrow> world \<Rightarrow> (artik_error \<times> artik_i2c_config \<times> world) outcome" where
  "os_i2c_request c w =
     (case i2c_open c w of
        (None, w1) \<Rightarrow> Ret (E_ACCESS_DENIED, c, w1)
      | (Some (fd, ok), w1) \<Rightarrow> Ret (if ok then S_OK else E_ACCESS_DENIED, c, xcu (Close fd) w1))"

definition os_i2c_release :: "artik_i2c_config \<Rightarrow> world \<Rightarrow> (artik_error \<times> world) outcome" where
  "os_i2c_release c w = Ret (S_OK, w)"

text \<open>The bytes read, if all of them came.\<close>

definition os_i2c_read :: "artik_i2c_config \<Rightarrow> nat \<Rightarrow> world \<Rightarrow> artik_error \<times> bytes \<times> world" where
  "os_i2c_read c len w =
     (case i2c_open c w of
        (None, w1) \<Rightarrow> (E_ACCESS_DENIED, [], w1)
      | (Some (fd, ok), w1) \<Rightarrow>
          if \<not> ok then (E_ACCESS_DENIED, [], xcu (Close fd) w1)
          else let (r, w2) = xc (Read fd len) w1
               in if retv r \<noteq> int len then (E_ACCESS_DENIED, [], xcu (Close fd) w2)
                  else (S_OK, take len (outb r), xcu (Close fd) w2))"

definition os_i2c_write :: "artik_i2c_config \<Rightarrow> bytes \<Rightarrow> world \<Rightarrow> artik_error \<times> world" where
  "os_i2c_write c buf w =
     (case i2c_open c w of
        (None, w1) \<Rightarrow> (E_ACCESS_DENIED, w1)
      | (Some (fd, ok), w1) \<Rightarrow>
          if \<not> ok then (E_ACCESS_DENIED, xcu (Close fd) w1)
          else let (r, w2) = xc (Write fd buf) w1
               in (if retv r \<noteq> int (length buf) then E_ACCESS_DENIED else S_OK, xcu (Close fd) w2))"

text \<open>The exit path of the register operations looks at \<^verbatim>\<open>data.msgs\<close> even when the slave
  address was refused and nothing was stored there.\<close>

definition reg_bytes :: "artik_i2c_config \<Rightarrow> u32 \<Rightarrow> bytes" where
  "reg_bytes c reg = take (wordsize_of (wordsize c)) (le32 reg)"

definition I2C_M_RD :: u16 where "I2C_M_RD = 1"

definition os_i2c_read_register ::
  "artik_i2c_config \<Rightarrow> u32 \<Rightarrow> nat \<Rightarrow> world \<Rightarrow> (artik_error \<times> bytes \<times> world) outcome" where
  "os_i2c_read_register c reg len w =
     (case i2c_open c w of
        (None, w1) \<Rightarrow> Ret (E_ACCESS_DENIED, [], w1)
      | (Some (fd, ok), w1) \<Rightarrow>
          if \<not> ok then Ub Uninitialised
          else let (m, w2) = xc (Malloc 24) w1
               in if retv m = 0 then Ret (- E_NO_MEM, [], xcu (Close fd) w2)
                  else let n = word_of_nat (len * wordsize_of (wordsize c));
                           (r, w3) = xc (I2cRdwr fd
                             [(ucast (address c), 0, word_of_nat (wordsize_of (wordsize c)), reg_bytes c reg),
                              (ucast (address c), I2C_M_RD, n, [])]) w2;
                           w4 = xcu (Close fd) (xcu (Free (nat (retv m))) w3)
                       in if retv r < 0 then Ret (E_ACCESS_DENIED, [], w4)
                          else Ret (S_OK, take (unat n) (outb r), w4))"

definition os_i2c_write_register ::
  "artik_i2c_config \<Rightarrow> u32 \<Rightarrow> bytes \<Rightarrow> nat \<Rightarrow> world \<Rightarrow> (artik_error \<times> world) outcome" where
  "os_i2c_write_register c reg buf len w =
     (case i2c_open c w of
        (None, w1) \<Rightarrow> Ret (E_ACCESS_DENIED, w1)
      | (Some (fd, ok), w1) \<Rightarrow>
          if \<not> ok then Ub Uninitialised
          else let (m, w2) = xc (Malloc 12) w1
               in if retv m = 0 then Ub NullDeref
                  else let ws = wordsize_of (wordsize c); (b, w3) = xc (Malloc ((len + 1) * ws)) w2
                       in if retv b = 0 then Ret (- E_NO_MEM, xcu (Close fd) (xcu (Free (nat (retv m))) w3))
                          else if length buf < len * ws then Ub OutOfBounds
                          else let (r, w4) = xc (I2cRdwr fd
                                     [(ucast (address c), 0, word_of_nat ((len + 1) * ws),
                                       reg_bytes c reg @ take (len * ws) buf)]) w3
                               in Ret (if retv r < 0 then E_ACCESS_DENIED else S_OK,
                                    xcu (Close fd) (xcu (Free (nat (retv m))) (xcu (Free (nat (retv b))) w4))))"

subsection \<open>The front end\<close>

text \<open>What names a slave: \<^verbatim>\<open>check_exist\<close> compares both members.\<close>

definition i2c_slave :: "artik_i2c_config \<Rightarrow> u32 \<times> u8" where
  "i2c_slave c = (i2c_id c, address c)"

definition artik_i2c_request :: "artik_i2c_config fe_request" where
  "artik_i2c_request = table_request i2c_slave zero_i2c_config os_i2c_request"

definition artik_i2c_release :: "artik_i2c_config fe_release" where
  "artik_i2c_release = table_release os_i2c_release"

definition artik_i2c_read :: "addr \<Rightarrow> nat \<Rightarrow> artik_i2c_config tab \<Rightarrow> world \<Rightarrow> artik_error \<times> bytes \<times> world" where
  "artik_i2c_read hnd len t w =
     (case tab_get_by_handle hnd t of None \<Rightarrow> (E_BAD_ARGS, [], w) | Some (a, c) \<Rightarrow> os_i2c_read c len w)"

definition artik_i2c_write :: "addr \<Rightarrow> bytes \<Rightarrow> artik_i2c_config tab \<Rightarrow> world \<Rightarrow> artik_error \<times> world" where
  "artik_i2c_write hnd buf t w =
     (case tab_get_by_handle hnd t of None \<Rightarrow> (E_BAD_ARGS, w) | Some (a, c) \<Rightarrow> os_i2c_write c buf w)"

definition artik_i2c_read_register ::
  "addr \<Rightarrow> u32 \<Rightarrow> nat \<Rightarrow> artik_i2c_config tab \<Rightarrow> world \<Rightarrow> (artik_error \<times> bytes \<times> world) outcome" where
  "artik_i2c_read_register hnd reg len t w =
     (case tab_get_by_handle hnd t of
        None \<Rightarrow> Ret (E_BAD_ARGS, [], w) | Some (a, c) \<Rightarrow> os_i2c_read_register c reg len w)"

definition artik_i2c_write_register ::
  "addr \<Rightarrow> u32 \<Rightarrow> bytes \<Rightarrow> nat \<Rightarrow> artik_i2c_config tab \<Rightarrow> world \<Rightarrow> (artik_error \<times> world) outcome" where
  "artik_i2c_write_register hnd reg buf len t w =
     on_handle hnd t (\<lambda>c. os_i2c_write_register c reg buf len) w"

lemma os_i2c_request_config: "os_i2c_request c w = Ret (e, c', w') \<Longrightarrow> c' = c"
  by (auto simp: os_i2c_request_def split: prod.splits option.splits)

interpretation i2c: os_layer os_i2c_request os_i2c_release i2c_slave zero_i2c_config
  rewrites "table_request i2c_slave zero_i2c_config os_i2c_request = artik_i2c_request"
    and "table_release os_i2c_release = artik_i2c_release"
  by unfold_locales (auto simp: artik_i2c_request_def artik_i2c_release_def dest: os_i2c_request_config)

subsection \<open>Transfers\<close>

lemmas i2c_walk = i2c_open_def os_i2c_request_def os_i2c_read_def os_i2c_write_def
  os_i2c_read_register_def os_i2c_write_register_def walk_simps

text \<open>Whatever fails, no I2C operation that returns leaves a descriptor open.\<close>

theorem i2c_descriptors_balanced:
  "(\<forall>e c' w'. os_i2c_request c w = Ret (e, c', w') \<longrightarrow> opened w' = opened w)
   \<and> opened (snd (snd (os_i2c_read c n w))) = opened w \<and> opened (snd (os_i2c_write c buf w)) = opened w
   \<and> (\<forall>e bs w'. os_i2c_read_register c reg n w = Ret (e, bs, w') \<longrightarrow> opened w' = opened w)
   \<and> (\<forall>e w'. os_i2c_write_register c reg buf n w = Ret (e, w') \<longrightarrow> opened w' = opened w)"
proof (intro conjI allI impI)
  show "opened w' = opened w" if "os_i2c_request c w = Ret (e, c', w')" for e c' w'
    using that by (auto simp: i2c_walk split: if_splits)
  show "opened (snd (snd (os_i2c_read c n w))) = opened w" by (simp add: i2c_walk)
  show "opened (snd (os_i2c_write c buf w)) = opened w" by (simp add: i2c_walk)
  show "opened w' = opened w" if "os_i2c_read_register c reg n w = Ret (e, bs, w')" for e bs w'
    using that by (auto simp: i2c_walk split: if_splits)
  show "opened w' = opened w" if "os_i2c_write_register c reg buf n w = Ret (e, w')" for e w'
    using that by (auto simp: i2c_walk split: if_splits)
qed

theorem i2c_descriptors_balanced_witness:
  "\<exists>c' w'. os_i2c_request \<lparr>i2c_id = 1, frequency = 2000, wordsize = I2C_8BIT, address = 0x6A\<rparr> good_world
     = Ret (S_OK, c', w') \<and> opened w' = []"
proof -
  obtain c' w' where "os_i2c_request \<lparr>i2c_id = 1, frequency = 2000, wordsize = I2C_8BIT, address = 0x6A\<rparr> good_world
     = Ret (S_OK, c', w')" by (simp add: i2c_walk err_simps)
  with i2c_descriptors_balanced [of _ good_world] show ?thesis by (fastforce simp: opened_def)
qed

text \<open>A register write that succeeds is one transaction of one message: the slave's address, the
  register in as many low bytes as a word has, then the words of the buffer, with the message length
  kept to 16 bits.\<close>

theorem i2c_write_register_message:
  assumes "os_i2c_write_register c reg buf n w = Ret (S_OK, w')"
  shows "\<exists>fd. 0 \<le> fd \<and> I2cRdwr fd [(ucast (address c), 0, word_of_nat ((n + 1) * wordsize_of (wordsize c)),
      take (wordsize_of (wordsize c)) (le32 reg) @ take (n * wordsize_of (wordsize c)) buf)]
    \<in> set (drop (length (hist w)) (hist w'))
    \<and> Ioctl fd ''I2C_SLAVE'' [address c] \<in> set (drop (length (hist w)) (hist w'))
    \<and> n * wordsize_of (wordsize c) \<le> length buf"
proof -
  let ?fd = "retv (env w (hist w) (Open (i2c_devname c) O_RDWR))"
  have "0 \<le> ?fd" using assms by (auto simp: i2c_walk err_simps split: if_splits)
  with assms show ?thesis
    by (intro exI [of _ ?fd]) (auto simp: i2c_walk err_simps reg_bytes_def split: if_splits)
qed

definition imu :: artik_i2c_config where
  "imu = \<lparr>i2c_id = 1, frequency = 2000, wordsize = I2C_8BIT, address = 0x6A\<rparr>"

lemma imu_writes: "\<exists>w'. os_i2c_write_register imu 0x10 [0x60] 1 good_world = Ret (S_OK, w')"
  by (simp add: i2c_walk imu_def err_simps good_env_def)

theorem i2c_write_register_message_witness:
  "\<exists>fd w'. os_i2c_write_register imu 0x10 [0x60] 1 good_world = Ret (S_OK, w')
    \<and> I2cRdwr fd [(0x6A, 0, 2, [0x10, 0x60])] \<in> set (hist w')"
proof -
  obtain w' where run: "os_i2c_write_register imu 0x10 [0x60] 1 good_world = Ret (S_OK, w')"
    using imu_writes by blast
  have "take (wordsize_of (wordsize imu)) (le32 0x10) @ take (1 * wordsize_of (wordsize imu)) [0x60] = [0x10, 0x60]"
    by (simp add: imu_def le32_def)
  with i2c_write_register_message [OF run] run show ?thesis by (auto simp: imu_def)
qed

text \<open>When the bus refuses the slave address, the register operations read a pointer that was never
  set, where the plain read and write report E_ACCESS_DENIED.\<close>

theorem i2c_refused_slave_is_undefined:
  assumes "\<forall>h. 0 \<le> retv (env w h (Open (i2c_devname c) O_RDWR))"
    and "\<forall>h fd. retv (env w h (Ioctl fd ''I2C_SLAVE'' [address c])) < 0"
  shows "os_i2c_read_register c reg n w = Ub Uninitialised \<and> os_i2c_write_register c reg buf n w = Ub Uninitialised
    \<and> fst (os_i2c_read c n w) = E_ACCESS_DENIED \<and> fst (os_i2c_write c buf w) = E_ACCESS_DENIED"
  using assms by (simp add: i2c_walk not_less not_le)

definition deaf_bus :: world where
  "deaf_bus = \<lparr>hist = [], env = (\<lambda>h c. case c of
     Ioctl fd q bs \<Rightarrow> \<lparr>retv = -1, errno = 16, oval = 0, outb = []\<rparr> | _ \<Rightarrow> good_env h c)\<rparr>"

theorem i2c_refused_slave_is_undefined_witness:
  "os_i2c_read_register imu 0x0F 1 deaf_bus = Ub Uninitialised"
proof -
  have "\<forall>h. 0 \<le> retv (env deaf_bus h (Open (i2c_devname imu) O_RDWR))"
    "\<forall>h fd. retv (env deaf_bus h (Ioctl fd ''I2C_SLAVE'' [address imu])) < 0"
    by (simp_all add: deaf_bus_def)
  then show ?thesis using i2c_refused_slave_is_undefined by blast
qed

end
