(* ===== verification/Spi.thy ===== *)
theory Spi
  imports HandleTable Bytes
begin

section \<open>SPI (\<^verbatim>\<open>src/modules/systemio/spi\<close>)\<close>

text \<open>
  The front end \<^verbatim>\<open>artik_spi.c\<close> (a handle table keyed by the bus) on the Linux back end
  \<^verbatim>\<open>linux_spi.c\<close>. The back end is only called with the configuration of a node or of a
  caller that has read it, so its tests for a null configuration are left out; a null buffer is
  \<open>None\<close> (or \<open>False\<close> where only its presence matters).
\<close>

datatype artik_spi_mode = SPI_MODE0 | SPI_MODE1 | SPI_MODE2 | SPI_MODE3 | SPI_MODE_INVALID

fun mode_byte :: "artik_spi_mode \<Rightarrow> u8" where
  "mode_byte SPI_MODE0 = 0"
| "mode_byte SPI_MODE1 = 1"
| "mode_byte SPI_MODE2 = 2"
| "mode_byte SPI_MODE3 = 3"
| "mode_byte SPI_MODE_INVALID = 4"

record artik_spi_config =
  spi_bus :: u32
  spi_cs :: u32
  spi_mode :: artik_spi_mode
  bits_per_word :: u32
  max_speed :: u32

definition zero_spi_config :: artik_spi_config where
  "zero_spi_config = \<lparr>spi_bus = 0, spi_cs = 0, spi_mode = SPI_MODE0, bits_per_word = 0, max_speed = 0\<rparr>"

subsection \<open>The back end\<close>

text \<open>Settings are written and read back one after the other, up to the first failure.\<close>

fun spi_ioctls :: "int \<Rightarrow> (string \<times> bytes) list \<Rightarrow> world \<Rightarrow> int \<times> world" where
  "spi_ioctls fd [] w = (0, w)"
| "spi_ioctls fd ((q, bs) # qs) w =
     (let (a, w1) = xc (Ioctl fd q bs) w
      in if retv a < 0 then (retv a, w1) else spi_ioctls fd qs w1)"

definition spi_setup :: "int \<Rightarrow> u8 \<Rightarrow> u8 \<Rightarrow> u32 \<Rightarrow> world \<Rightarrow> int \<times> world" where
  "spi_setup fd mode bits speed =
     spi_ioctls fd [(''SPI_IOC_WR_MODE'', [mode]), (''SPI_IOC_RD_MODE'', []),
       (''SPI_IOC_WR_BITS_PER_WORD'', [bits]), (''SPI_IOC_RD_BITS_PER_WORD'', []),
       (''SPI_IOC_WR_MAX_SPEED_HZ'', le32 speed), (''SPI_IOC_RD_MAX_SPEED_HZ'', [])]"

definition spi_devname :: "artik_spi_config \<Rightarrow> string" where
  "spi_devname c = ''/dev/spidev'' @ int_str (sint (spi_bus c)) @ ''.'' @ int_str (sint (spi_cs c))"

definition os_spi_request :: "artik_spi_config \<Rightarrow> world \<Rightarrow> (artik_error \<times> artik_spi_config \<times> world) outcome" where
  "os_spi_request c w =
     (if spi_mode c = SPI_MODE_INVALID then Ret (E_NOT_INITIALIZED, c, w)
      else let (a, w1) = xc (Open (spi_devname c) O_SYNC_WRONLY) w; fd = retv a
           in if fd < 0 then Ret (E_ACCESS_DENIED, c, w1)
              else let (r, w2) = spi_setup fd (mode_byte (spi_mode c)) (ucast (bits_per_word c)) (max_speed c) w1
                   in Ret (if r < 0 then E_ACCESS_DENIED else r, c, xcu (Close fd) w2))"

definition os_spi_release :: "artik_spi_config \<Rightarrow> world \<Rightarrow> (artik_error \<times> world) outcome" where
  "os_spi_release c w = Ret (S_OK, w)"

definition os_spi_read :: "artik_spi_config \<Rightarrow> bool \<Rightarrow> int \<Rightarrow> world \<Rightarrow> artik_error \<times> bytes \<times> world" where
  "os_spi_read c buf len w =
     (if spi_mode c = SPI_MODE_INVALID then (E_NOT_INITIALIZED, [], w)
      else if \<not> buf \<or> len \<le> 0 then (E_BAD_ARGS, [], w)
      else let (a, w1) = xc (Open (spi_devname c) O_RDWR) w; fd = retv a
           in if fd < 0 then (E_ACCESS_DENIED, [], w1)
              else let (r, w2) = xc (Read fd (nat len)) w1; w3 = xcu (Close fd) w2
                   in if retv r \<noteq> len then (E_ACCESS_DENIED, [], w3) else (S_OK, take (nat len) (outb r), w3))"

text \<open>One transfer of \<open>len\<close> bytes; the bytes received, if there is a receive buffer.\<close>

definition spi_transfer :: "artik_spi_config \<Rightarrow> bytes \<Rightarrow> bool \<Rightarrow> int \<Rightarrow> world \<Rightarrow> artik_error \<times> bytes \<times> world" where
  "spi_transfer c tx rx len w =
     (let (a, w1) = xc (Open (spi_devname c) O_SYNC_WRONLY) w; fd = retv a
      in if fd < 0 then (E_ACCESS_DENIED, [], w1)
         else let (r, w2) = xc (SpiMessage fd (Some (take (nat len) tx)) rx (nat len)) w1; w3 = xcu (Close fd) w2
              in if retv r < 0 then (E_ACCESS_DENIED, [], w3)
                 else (S_OK, if rx then take (nat len) (outb r) else [], w3))"

definition os_spi_write :: "artik_spi_config \<Rightarrow> bytes option \<Rightarrow> int \<Rightarrow> world \<Rightarrow> artik_error \<times> world" where
  "os_spi_write c buf len w =
     (if spi_mode c = SPI_MODE_INVALID then (E_NOT_INITIALIZED, w)
      else case buf of
        None \<Rightarrow> (E_BAD_ARGS, w)
      | Some tx \<Rightarrow> if len \<le> 0 then (E_BAD_ARGS, w)
                   else let (e, _, w1) = spi_transfer c tx False len w in (e, w1))"

definition os_spi_read_write ::
  "artik_spi_config \<Rightarrow> bytes option \<Rightarrow> bool \<Rightarrow> int \<Rightarrow> world \<Rightarrow> artik_error \<times> bytes \<times> world" where
  "os_spi_read_write c tx_buf rx_buf len w =
     (if spi_mode c = SPI_MODE_INVALID then (E_NOT_INITIALIZED, [], w)
      else case tx_buf of
        None \<Rightarrow> (E_BAD_ARGS, [], w)
      | Some tx \<Rightarrow> if \<not> rx_buf \<or> len \<le> 0 then (E_BAD_ARGS, [], w) else spi_transfer c tx True len w)"

subsection \<open>The front end\<close>

definition artik_spi_request :: "artik_spi_config fe_request" where
  "artik_spi_request = table_request spi_bus zero_spi_config os_spi_request"

definition artik_spi_release :: "artik_spi_config fe_release" where
  "artik_spi_release = table_release os_spi_release"

definition artik_spi_read :: "addr \<Rightarrow> bool \<Rightarrow> int \<Rightarrow> artik_spi_config tab \<Rightarrow> world \<Rightarrow> artik_error \<times> bytes \<times> world" where
  "artik_spi_read hnd buf len t w =
     (case tab_get_by_handle hnd t of None \<Rightarrow> (E_BAD_ARGS, [], w) | Some (a, c) \<Rightarrow> os_spi_read c buf len w)"

definition artik_spi_write :: "addr \<Rightarrow> bytes option \<Rightarrow> int \<Rightarrow> artik_spi_config tab \<Rightarrow> world \<Rightarrow> artik_error \<times> world" where
  "artik_spi_write hnd buf len t w =
     (case tab_get_by_handle hnd t of None \<Rightarrow> (E_BAD_ARGS, w) | Some (a, c) \<Rightarrow> os_spi_write c buf len w)"

definition artik_spi_read_write ::
  "addr \<Rightarrow> bytes option \<Rightarrow> bool \<Rightarrow> int \<Rightarrow> artik_spi_config tab \<Rightarrow> world \<Rightarrow> artik_error \<times> bytes \<times> world" where
  "artik_spi_read_write hnd tx_buf rx_buf len t w =
     (case tab_get_by_handle hnd t of
        None \<Rightarrow> (E_BAD_ARGS, [], w) | Some (a, c) \<Rightarrow> os_spi_read_write c tx_buf rx_buf len w)"

lemma os_spi_request_config: "os_spi_request c w = Ret (e, c', w') \<Longrightarrow> c' = c"
  by (auto simp: os_spi_request_def Let_def case_prod_beta split: if_splits)

interpretation spi: os_layer os_spi_request os_spi_release spi_bus zero_spi_config
  rewrites "table_request spi_bus zero_spi_config os_spi_request = artik_spi_request"
    and "table_release os_spi_release = artik_spi_release"
  by unfold_locales (auto simp: artik_spi_request_def artik_spi_release_def dest: os_spi_request_config)

subsection \<open>Settings and transfers\<close>

lemma spi_ioctls_hist:
  "spi_ioctls fd qs w = (r, w') \<Longrightarrow> env w' = env w \<and> opened w' = opened w
     \<and> (0 \<le> r \<longrightarrow> r = 0 \<and> hist w' = hist w @ map (\<lambda>q. Ioctl fd (fst q) (snd q)) qs)"
proof (induction qs arbitrary: w)
  case (Cons q qs)
  obtain n bs where q: "q = (n, bs)" by (cases q)
  show ?case
  proof (cases "retv (env w (hist w) (Ioctl fd n bs)) < 0")
    case True
    with Cons.prems q show ?thesis by (auto simp: walk_simps)
  next
    case False
    with Cons.prems q have "spi_ioctls fd qs (snd (xc (Ioctl fd n bs) w)) = (r, w')"
      by (simp add: case_prod_beta Let_def)
    from Cons.IH [OF this] q show ?thesis by (simp add: fd_neutral_def)
  qed
qed auto

text \<open>A request that succeeds has applied the mode, the word size cut to 8 bits and the speed, each
  followed by reading it back, and has closed the device; every operation that returns leaves the
  open descriptors as they were, and none touches the device when the mode is the invalid one.\<close>

theorem spi_request_applies_settings:
  "(os_spi_request c w = Ret (S_OK, c', w') \<longrightarrow>
     (\<exists>fd. 0 \<le> fd \<and> hist w' = hist w @ [Open (spi_devname c) O_SYNC_WRONLY,
        Ioctl fd ''SPI_IOC_WR_MODE'' [mode_byte (spi_mode c)], Ioctl fd ''SPI_IOC_RD_MODE'' [],
        Ioctl fd ''SPI_IOC_WR_BITS_PER_WORD'' [ucast (bits_per_word c)], Ioctl fd ''SPI_IOC_RD_BITS_PER_WORD'' [],
        Ioctl fd ''SPI_IOC_WR_MAX_SPEED_HZ'' (le32 (max_speed c)), Ioctl fd ''SPI_IOC_RD_MAX_SPEED_HZ'' [],
        Close fd]))
   \<and> (os_spi_request c w = Ret (e, c', w') \<longrightarrow> opened w' = opened w)
   \<and> opened (snd (snd (os_spi_read c b n w))) = opened w \<and> opened (snd (os_spi_write c tx n w)) = opened w
   \<and> opened (snd (snd (os_spi_read_write c tx b n w))) = opened w
   \<and> (spi_mode c = SPI_MODE_INVALID \<longrightarrow> os_spi_request c w = Ret (E_NOT_INITIALIZED, c, w)
        \<and> snd (snd (os_spi_read c b n w)) = w \<and> snd (os_spi_write c tx n w) = w
        \<and> snd (snd (os_spi_read_write c tx b n w)) = w)"
proof -
  let ?o = "Open (spi_devname c) O_SYNC_WRONLY"
  let ?fd = "retv (env w (hist w) ?o)"
  obtain r w2 where s: "spi_setup ?fd (mode_byte (spi_mode c)) (ucast (bits_per_word c)) (max_speed c) (snd (xc ?o w)) = (r, w2)"
    by (metis surj_pair)
  note h = spi_ioctls_hist [OF s [unfolded spi_setup_def]]
  have "\<exists>fd. 0 \<le> fd \<and> hist w' = hist w @ [?o,
        Ioctl fd ''SPI_IOC_WR_MODE'' [mode_byte (spi_mode c)], Ioctl fd ''SPI_IOC_RD_MODE'' [],
        Ioctl fd ''SPI_IOC_WR_BITS_PER_WORD'' [ucast (bits_per_word c)], Ioctl fd ''SPI_IOC_RD_BITS_PER_WORD'' [],
        Ioctl fd ''SPI_IOC_WR_MAX_SPEED_HZ'' (le32 (max_speed c)), Ioctl fd ''SPI_IOC_RD_MAX_SPEED_HZ'' [],
        Close fd]" if "os_spi_request c w = Ret (S_OK, c', w')"
    using that s h by (intro exI [of _ ?fd]) (auto simp: os_spi_request_def case_prod_beta Let_def err_simps split: if_splits)
  moreover have "opened w' = opened w" if "os_spi_request c w = Ret (e, c', w')"
    using that s h by (auto simp: os_spi_request_def walk_simps split: if_splits)
  moreover have tr: "opened (snd (snd (spi_transfer c tx' b n w))) = opened w" for tx' b n
    by (simp add: spi_transfer_def walk_simps)
  then have "opened (snd (os_spi_write c tx n w)) = opened w" "opened (snd (snd (os_spi_read_write c tx b n w))) = opened w"
    by (auto simp: os_spi_write_def os_spi_read_write_def case_prod_beta Let_def split: option.split)
  moreover have "opened (snd (snd (os_spi_read c b n w))) = opened w"
    by (simp add: os_spi_read_def walk_simps)
  ultimately show ?thesis
    by (simp add: os_spi_request_def os_spi_read_def os_spi_write_def os_spi_read_write_def)
qed

definition flash :: artik_spi_config where
  "flash = \<lparr>spi_bus = 0, spi_cs = 1, spi_mode = SPI_MODE3, bits_per_word = 8, max_speed = 500000\<rparr>"

theorem spi_request_applies_settings_witness:
  "\<exists>w' fd. os_spi_request flash good_world = Ret (S_OK, flash, w') \<and> Ioctl fd ''SPI_IOC_WR_MODE'' [3] \<in> set (hist w')"
proof -
  obtain w' where run: "os_spi_request flash good_world = Ret (S_OK, flash, w')"
    by (simp add: os_spi_request_def spi_setup_def flash_def walk_simps err_simps)
  then obtain fd where "Ioctl fd ''SPI_IOC_WR_MODE'' [mode_byte (spi_mode flash)] \<in> set (hist w')"
    using spi_request_applies_settings [of flash good_world flash w' S_OK False 0 None] by auto
  with run show ?thesis by (auto simp: flash_def)
qed

end
