(* ===== verification/Adc.thy ===== *)
theory Adc
  imports HandleTable Bytes
begin

section \<open>ADC (\<^verbatim>\<open>src/modules/systemio/adc\<close>)\<close>

text \<open>
  The front end \<^verbatim>\<open>artik_adc.c\<close> (a handle table keyed by the pin) on the Linux back end
  \<^verbatim>\<open>linux_adc.c\<close>, which reads a number as text from a file of \<^verbatim>\<open>/sys\<close> and converts it
  with \<^verbatim>\<open>strtoul\<close>. The buffer is not terminated: a conversion that runs past what was read
  looks at uninitialised bytes, or past the buffer. \<^verbatim>\<open>unsigned long\<close> has 32 bits. The
  descriptor in the private data is only used within one call and is left out of it.
\<close>

record artik_adc_user_data =
  ad_path_ptr :: addr
  ad_path :: string

record artik_adc_config =
  adc_pin :: u32
  adc_name :: string
  adc_user_data :: "(addr \<times> artik_adc_user_data) option"

definition zero_adc_config :: artik_adc_config where
  "zero_adc_config = \<lparr>adc_pin = 0, adc_name = [], adc_user_data = None\<rparr>"

subsection \<open>\<^verbatim>\<open>strtoul\<close> with base 0\<close>

definition digit_val :: "u8 \<Rightarrow> nat option" where
  "digit_val c =
     (let n = unat c
      in if 48 \<le> n \<and> n \<le> 57 then Some (n - 48)
         else if 65 \<le> n \<and> n \<le> 90 then Some (n - 55)
         else if 97 \<le> n \<and> n \<le> 122 then Some (n - 87)
         else None)"

definition is_digit :: "nat \<Rightarrow> u8 \<Rightarrow> bool" where
  "is_digit base c = (case digit_val c of None \<Rightarrow> False | Some d \<Rightarrow> d < base)"

text \<open>\<open>f\<close> is the fault of reading past the bytes.\<close>

fun scan_digits :: "fault \<Rightarrow> nat \<Rightarrow> bytes \<Rightarrow> nat \<Rightarrow> nat outcome" where
  "scan_digits f base [] acc = Ub f"
| "scan_digits f base (c # cs) acc =
     (if is_digit base c then scan_digits f base cs (acc * base + the (digit_val c)) else Ret acc)"

fun scan_base :: "fault \<Rightarrow> bytes \<Rightarrow> nat option outcome" where
  "scan_base f [] = Ub f"
| "scan_base f (c # cs) =
     (if c = 48 then
        (case cs of
           [] \<Rightarrow> Ub f
         | x # ds \<Rightarrow>
             if x = 120 \<or> x = 88 then
               (case ds of
                  [] \<Rightarrow> Ub f
                | d # _ \<Rightarrow> if is_digit 16 d then obind (scan_digits f 16 ds 0) (\<lambda>n. Ret (Some n)) else Ret (Some 0))
             else obind (scan_digits f 8 cs 0) (\<lambda>n. Ret (Some n)))
      else if is_digit 10 c then obind (scan_digits f 10 (c # cs) 0) (\<lambda>n. Ret (Some n))
      else Ret None)"

fun skip_space :: "fault \<Rightarrow> bytes \<Rightarrow> bytes outcome" where
  "skip_space f [] = Ub f"
| "skip_space f (c # cs) = (if c = 32 \<or> 9 \<le> c \<and> c \<le> 13 then skip_space f cs else Ret (c # cs))"

definition ULONG_MAX :: nat where "ULONG_MAX = 4294967295"

text \<open>The value, or nothing if there was no number (\<^verbatim>\<open>endptr\<close> is the start).\<close>

definition strtoul :: "fault \<Rightarrow> bytes \<Rightarrow> nat option outcome" where
  "strtoul f bs =
     obind (skip_space f bs) (\<lambda>cs.
     obind (if hd cs = 45 \<or> hd cs = 43 then scan_base f (tl cs) else scan_base f cs) (\<lambda>r.
       Ret (map_option (\<lambda>n. if ULONG_MAX < n then ULONG_MAX
                            else if hd cs = 45 then (4294967296 - n) mod 4294967296 else n) r)))"

subsection \<open>The back end\<close>

definition adc_path_of :: "u32 \<Rightarrow> string" where
  "adc_path_of pin = ''/sys/bus/iio/devices/iio:device0/in_voltage'' @ int_str (sint pin) @ ''_raw''"

definition O_SYNC_RDONLY :: nat where "O_SYNC_RDONLY = 0x101000"

text \<open>The descriptor, and the error.\<close>

definition os_adc_open :: "artik_adc_config \<Rightarrow> world \<Rightarrow> (artik_error \<times> int \<times> world) outcome" where
  "os_adc_open c w =
     (case adc_user_data c of
        None \<Rightarrow> Ub NullDeref
      | Some (p, d) \<Rightarrow>
          let (a, w1) = xc (Open (ad_path d) O_SYNC_RDONLY) w
          in Ret (if retv a < 0 then E_BUSY else S_OK, retv a, w1))"

text \<open>The conversion of what was read: the error and the value stored, if any.\<close>

definition adc_convert :: "bytes \<Rightarrow> (artik_error \<times> int option) outcome" where
  "adc_convert bs =
     obind (strtoul (if length bs < 128 then Uninitialised else OutOfBounds) bs) (\<lambda>r.
       case r of
         None \<Rightarrow> Ret (E_BUSY, None)
       | Some n \<Rightarrow> if n = ULONG_MAX then Ret (E_BUSY, None)
                    else Ret (S_OK, Some (sint (word_of_nat n :: u32))))"

definition os_adc_get_value ::
  "artik_adc_config \<Rightarrow> bool \<Rightarrow> world \<Rightarrow> (artik_error \<times> int option \<times> world) outcome" where
  "os_adc_get_value c value w =
     (if \<not> value then Ret (E_BAD_ARGS, None, w)
      else obind (os_adc_open c w) (\<lambda>(e, fd, w1).
             if e \<noteq> S_OK then Ret (E_BAD_ARGS, None, w1)
             else let (r, w2) = xc (Read fd 128) w1
                  in if retv r = -1 then Ret (E_BUSY, None, w2)
                     else obind (adc_convert (take (nat (retv r)) (outb r))) (\<lambda>(e, v).
                            Ret (e, v, xcu (Close fd) w2))))"

definition os_adc_request :: "artik_adc_config \<Rightarrow> world \<Rightarrow> (artik_error \<times> artik_adc_config \<times> world) outcome" where
  "os_adc_request c w =
     (let (a, w1) = xc (Malloc 8) w
      in if retv a = 0 then Ret (E_NO_MEM, c, w1)
         else let (b, w2) = xc (Malloc 129) w1
              in if retv b = 0 then Ret (E_NO_MEM, c, xcu (Free (nat (retv a))) w2)
                 else let c1 = c\<lparr>adc_user_data := Some (nat (retv a),
                               \<lparr>ad_path_ptr = nat (retv b), ad_path = adc_path_of (adc_pin c)\<rparr>)\<rparr>
                      in obind (os_adc_get_value c1 True w2) (\<lambda>(e, _, w3). Ret (e, c1, w3)))"

definition os_adc_release :: "artik_adc_config \<Rightarrow> world \<Rightarrow> artik_error \<times> world" where
  "os_adc_release c w =
     (case adc_user_data c of
        None \<Rightarrow> (S_OK, w)
      | Some (p, d) \<Rightarrow>
          (S_OK, xcu (Free p) (if ad_path_ptr d \<noteq> 0 then xcu (Free (ad_path_ptr d)) w else w)))"

subsection \<open>The front end\<close>

text \<open>The node is only added when the OS layer has accepted the request, and is not checked for
  null.\<close>

definition artik_adc_request :: "artik_adc_config fe_request" where
  "artik_adc_request m config t w =
     (case tab_get_by_check (\<lambda>x. adc_pin x = adc_pin config) t of
        Some _ \<Rightarrow> Ret (E_BUSY, None, config, t, w)
      | None \<Rightarrow>
          obind (os_adc_request config w) (\<lambda>(r, config', w1).
            if r \<noteq> S_OK then Ret (r, None, config', t, w1)
            else if m = 0 then Ub NullDeref
            else Ret (S_OK, Some m, config', tab_set m config' (tab_add t m zero_adc_config), w1)))"

definition artik_adc_release :: "artik_adc_config fe_release" where
  "artik_adc_release hnd t w =
     (case tab_get_by_handle hnd t of
        None \<Rightarrow> Ret (E_BAD_ARGS, t, w)
      | Some (a, c) \<Rightarrow>
          let (r, w1) = os_adc_release c w
          in Ret (r, if r = S_OK then tab_delete_node a t else t, w1))"

definition artik_adc_get_value ::
  "addr \<Rightarrow> bool \<Rightarrow> artik_adc_config tab \<Rightarrow> world \<Rightarrow> (artik_error \<times> int option \<times> world) outcome" where
  "artik_adc_get_value hnd value t w =
     (case tab_get_by_handle hnd t of
        None \<Rightarrow> Ret (E_BAD_ARGS, None, w)
      | Some (a, c) \<Rightarrow> os_adc_get_value c value w)"

lemma os_adc_request_pin: "os_adc_request c w = Ret (e, c', w') \<Longrightarrow>
    adc_pin c' = adc_pin c \<and> (e = S_OK \<longrightarrow> adc_user_data c' \<noteq> None)"
  by (auto simp: os_adc_request_def Let_def case_prod_beta obind_eq_Ret err_simps split: if_splits)

interpretation adc: front_end artik_adc_request artik_adc_release adc_pin
proof
  fix t :: "artik_adc_config tab" and c :: artik_adc_config and m w
  assume "\<exists>x\<in>set t. adc_pin (snd x) = adc_pin c"
  then have "tab_get_by_check (\<lambda>x. adc_pin x = adc_pin c) t \<noteq> None"
    by (simp add: tab_get_by_check_None)
  then show "artik_adc_request m c t w = Ret (E_BUSY, None, c, t, w)"
    by (auto simp: artik_adc_request_def split: option.splits)
next
  fix t :: "artik_adc_config tab" and c :: artik_adc_config and m w e ho c' t' w'
  assume "artik_adc_request m c t w = Ret (e, ho, c', t', w')" "m \<notin> fst ` set t"
  then show "(e = S_OK \<and> m \<noteq> 0 \<and> ho = Some m \<and> adc_pin c' = adc_pin c \<and> t' = t @ [(m, c')])
       \<or> (e \<noteq> S_OK \<and> ho = None \<and> t' = t)"
    by (auto simp: artik_adc_request_def obind_eq_Ret err_simps
        dest!: os_adc_request_pin split: option.splits if_splits)
next
  fix hnd and t :: "artik_adc_config tab" and w
  assume "hnd = 0 \<or> hnd \<notin> fst ` set t"
  then show "artik_adc_release hnd t w = Ret (E_BAD_ARGS, t, w)"
    by (simp add: artik_adc_release_def)
next
  fix hnd and t :: "artik_adc_config tab" and w e t' w'
  assume "artik_adc_release hnd t w = Ret (e, t', w')" "distinct (map fst t)"
  then show "(e = S_OK \<and> t' = tab_delete_node hnd t) \<or> (e \<noteq> S_OK \<and> t' = t)"
    by (auto simp: artik_adc_release_def os_adc_release_def err_simps
        dest!: tab_get_by_handle_Some split: option.splits)
qed

subsection \<open>Reading a number\<close>

lemma byte_of_code: "k < 256 \<Longrightarrow> (of_char (char_of (k :: nat)) :: u8) = word_of_nat k"
  by (metis of_char_of of_nat_of_char mod_less)

lemma digit_byte:
  assumes "d < 10"
  shows "unat (of_char (char_of (48 + d :: nat)) :: u8) = 48 + d"
proof -
  have "(of_char (char_of (48 + d :: nat)) :: u8) = word_of_nat (48 + d)"
    by (rule byte_of_code) (use assms in simp)
  moreover have "48 + d < 2 ^ LENGTH(8)" using assms by simp
  ultimately show ?thesis by (simp only: unat_of_nat mod_less)
qed

lemma digit_val_byte: "d < 10 \<Longrightarrow> digit_val (of_char (char_of (48 + d :: nat))) = Some d"
  by (simp add: digit_val_def digit_byte)

lemma bytes_of_append [simp]: "bytes_of (s @ t) = bytes_of s @ bytes_of t"
  by (simp add: bytes_of_def)

lemma scan_decimal:
  "scan_digits f 10 (bytes_of (nat_str n) @ cs) acc = scan_digits f 10 cs (acc * 10 ^ length (nat_str n) + n)"
proof (induction n arbitrary: cs acc rule: nat_str.induct)
  case (1 n)
  show ?case
  proof (cases "n < 10")
    case True
    then show ?thesis
      by (simp add: nat_str.simps [of n] bytes_of_def is_digit_def digit_val_byte)
  next
    case False
    have d: "n mod 10 < 10" by simp
    from False have "bytes_of (nat_str n) @ cs
        = bytes_of (nat_str (n div 10)) @ (of_char (char_of (48 + n mod 10)) # cs)"
      by (subst nat_str.simps) (simp add: bytes_of_def)
    moreover have "length (nat_str n) = Suc (length (nat_str (n div 10)))"
      using False by (subst nat_str.simps) simp
    moreover have "is_digit 10 (of_char (char_of (48 + n mod 10)))" "digit_val (of_char (char_of (48 + n mod 10))) = Some (n mod 10)"
      using digit_val_byte [OF d] by (simp_all add: is_digit_def)
    ultimately show ?thesis using 1 [OF False, of "of_char (char_of (48 + n mod 10)) # cs" acc]
      by (simp add: algebra_simps)
  qed
qed

lemma nat_str_first:
  "0 < n \<Longrightarrow> \<exists>(d :: nat) s. nat_str n = char_of (48 + d) # s \<and> 0 < d \<and> d < 10"
proof (induction n rule: nat_str.induct)
  case (1 n)
  show ?case
  proof (cases "n < 10")
    case True
    with 1 show ?thesis by (subst nat_str.simps) (auto intro!: exI [of _ n])
  next
    case False
    with 1 have "\<exists>(d :: nat) s. nat_str (n div 10) = char_of (48 + d) # s \<and> 0 < d \<and> d < 10" by simp
    then obtain d :: nat and s where "nat_str (n div 10) = char_of (48 + d) # s" "0 < d" "d < 10" by blast
    with False show ?thesis by (subst nat_str.simps) (auto intro!: exI [of _ d])
  qed
qed

lemma strtoul_decimal:
  assumes "n \<le> ULONG_MAX"
  shows "strtoul f (bytes_of (nat_str n) @ 10 # cs) = Ret (Some n)"
proof (cases "n = 0")
  case True
  have "bytes_of (nat_str 0) = [48]"
    using byte_of_code [of 48] by (simp add: nat_str.simps bytes_of_def)
  with True assms show ?thesis
    by (simp add: strtoul_def is_digit_def digit_val_def)
next
  case False
  then obtain d :: nat and s where n: "nat_str n = char_of (48 + d) # s" and d: "0 < d" "d < 10"
    using nat_str_first by blast
  let ?c = "of_char (char_of (48 + d)) :: u8"
  have u: "unat ?c = 48 + d" by (rule digit_byte [OF d(2)])
  have c: "?c \<noteq> 48" "?c \<noteq> 32" "?c \<noteq> 45" "?c \<noteq> 43" "\<not> ?c \<le> 13"
    using u d by (auto simp: word_le_nat_alt dest: arg_cong [of _ _ unat])
  have dig: "is_digit 10 ?c" using digit_val_byte [OF d(2)] d by (simp add: is_digit_def)
  have b: "bytes_of (nat_str n) @ 10 # cs = ?c # (bytes_of s @ 10 # cs)" by (simp add: n bytes_of_def)
  have "scan_digits f 10 (bytes_of (nat_str n) @ 10 # cs) 0 = Ret n"
    by (simp add: scan_decimal is_digit_def digit_val_def)
  then have "scan_base f (bytes_of (nat_str n) @ 10 # cs) = Ret (Some n)"
    unfolding b using c dig by simp
  moreover have "skip_space f (bytes_of (nat_str n) @ 10 # cs) = Ret (bytes_of (nat_str n) @ 10 # cs)"
    unfolding b using c by simp
  moreover have "hd (bytes_of (nat_str n) @ 10 # cs) = ?c" unfolding b by simp
  ultimately show ?thesis using c assms by (simp add: strtoul_def)
qed

text \<open>Reading a channel returns the number its file holds: for the decimal text of any number
  below the largest, ended by a newline, the call succeeds with that number as a C int, and closes
  the file.\<close>

theorem adc_reads_the_number:
  assumes "adc_user_data c = Some (p, d)" and "0 \<le> retv (fst (xc (Open (ad_path d) O_SYNC_RDONLY) w))"
    and "fst (xc (Read (retv (fst (xc (Open (ad_path d) O_SYNC_RDONLY) w))) 128) (snd (xc (Open (ad_path d) O_SYNC_RDONLY) w))) = r"
    and "0 \<le> retv r" and "take (nat (retv r)) (outb r) = bytes_of (nat_str n) @ 10 # cs" and "n < ULONG_MAX"
  shows "\<exists>w'. os_adc_get_value c True w = Ret (S_OK, Some (sint (word_of_nat n :: u32)), w') \<and> opened w' = opened w"
proof -
  have "adc_convert (take (nat (retv r)) (outb r)) = Ret (S_OK, Some (sint (word_of_nat n :: u32)))"
    unfolding assms(5) using assms(6) by (simp add: adc_convert_def strtoul_decimal)
  with assms(1-4) show ?thesis
    by (auto simp: os_adc_get_value_def os_adc_open_def walk_simps err_simps)
qed

definition adc_env :: "xcall list \<Rightarrow> xcall \<Rightarrow> answer" where
  "adc_env h c = (case c of
      Read fd n \<Rightarrow> \<lparr>retv = 4, errno = 0, oval = 0, outb = bytes_of (nat_str 731) @ [10]\<rparr>
    | _ \<Rightarrow> good_env h c)"

definition pot :: artik_adc_config where
  "pot = zero_adc_config\<lparr>adc_pin := 2, adc_user_data := Some (64, \<lparr>ad_path_ptr = 64, ad_path = adc_path_of 2\<rparr>)\<rparr>"

theorem adc_reads_the_number_witness:
  "\<exists>w'. os_adc_get_value pot True \<lparr>hist = [], env = adc_env\<rparr> = Ret (S_OK, Some 731, w')"
proof -
  let ?w = "\<lparr>hist = [], env = adc_env\<rparr>"
  let ?r = "\<lparr>retv = 4, errno = 0, oval = 0, outb = bytes_of (nat_str 731) @ [10]\<rparr>"
  have "adc_user_data pot = Some (64, \<lparr>ad_path_ptr = 64, ad_path = adc_path_of 2\<rparr>)" by (simp add: pot_def)
  moreover have "0 \<le> retv (fst (xc (Open (ad_path \<lparr>ad_path_ptr = 64, ad_path = adc_path_of 2\<rparr>) O_SYNC_RDONLY) ?w))"
    by (simp add: adc_env_def)
  moreover have "take (nat (retv ?r)) (outb ?r) = bytes_of (nat_str 731) @ 10 # []"
    by (simp add: nat_str.simps bytes_of_def)
  ultimately show ?thesis
    using adc_reads_the_number [of pot 64 _ ?w ?r 731 "[]"] by (auto simp: adc_env_def ULONG_MAX_def)
qed

text \<open>A read that fails loses the descriptor: the call reports E_BUSY and the file stays open.\<close>

theorem adc_failed_read_leaks:
  assumes "adc_user_data c = Some (p, d)" and "0 \<le> retv (fst (xc (Open (ad_path d) O_SYNC_RDONLY) w))"
    and "retv (fst (xc (Read (retv (fst (xc (Open (ad_path d) O_SYNC_RDONLY) w))) 128) (snd (xc (Open (ad_path d) O_SYNC_RDONLY) w)))) = -1"
  shows "\<exists>fd w'. os_adc_get_value c True w = Ret (E_BUSY, None, w') \<and> opened w' = fd # opened w"
  using assms by (auto simp: os_adc_get_value_def os_adc_open_def walk_simps err_simps)

theorem adc_failed_read_leaks_witness:
  "\<exists>w'. os_adc_get_value pot True \<lparr>hist = [], env = (\<lambda>h c. case c of
      Read fd n \<Rightarrow> \<lparr>retv = -1, errno = 5, oval = 0, outb = []\<rparr> | _ \<Rightarrow> good_env h c)\<rparr> = Ret (E_BUSY, None, w')
     \<and> opened w' \<noteq> []"
proof -
  let ?w = "\<lparr>hist = [], env = (\<lambda>h c. case c of
      Read fd n \<Rightarrow> \<lparr>retv = -1, errno = 5, oval = 0, outb = []\<rparr> | _ \<Rightarrow> good_env h c)\<rparr>"
  let ?d = "\<lparr>ad_path_ptr = 64, ad_path = adc_path_of 2\<rparr>"
  have "adc_user_data pot = Some (64, ?d)" by (simp add: pot_def)
  from adc_failed_read_leaks [OF this, of ?w] show ?thesis by auto
qed

end
