(* ===== verification/SystemIo.thy ===== *)
theory SystemIo
  imports Gpio Serial Pwm I2c Spi Adc
begin

section \<open>The system I/O modules together (\<^verbatim>\<open>src/modules/systemio\<close>)\<close>

text \<open>
  An application uses the six modules in any order. Each keeps a table of its own; they share the
  heap the nodes come from and the kernel below. A handle is a bare pointer
  (\<^verbatim>\<open>artik_gpio_handle\<close> and the others are all \<^verbatim>\<open>void *\<close>), so the
  compiler does not keep the handles of the modules apart: that they cannot be confused rests on the
  modules' tables, and is what this theory shows of every reachable state.
\<close>

record sysio =
  gpios :: "artik_gpio_config tab"
  serials :: "artik_serial_config tab"
  pwms :: "artik_pwm_config tab"
  i2cs :: "artik_i2c_config tab"
  spis :: "artik_spi_config tab"
  adcs :: "artik_adc_config tab"
  sys_world :: world

definition handles :: "sysio \<Rightarrow> addr list" where
  "handles s = map fst (gpios s) @ map fst (serials s) @ map fst (pwms s) @ map fst (i2cs s)
     @ map fst (spis s) @ map fst (adcs s)"

subsection \<open>One call of one module\<close>

inductive fe_step :: "'c fe_request \<Rightarrow> 'c fe_release
    \<Rightarrow> ('c tab \<Rightarrow> world \<Rightarrow> 'c tab \<Rightarrow> world \<Rightarrow> bool) \<Rightarrow> 'c tab \<Rightarrow> world \<Rightarrow> 'c tab \<Rightarrow> world \<Rightarrow> bool"
  for req rel oth where
  request: "req m c t w = Ret (e, ho, c', t', w') \<Longrightarrow> m \<notin> fst ` set t \<Longrightarrow> fe_step req rel oth t w t' w'"
| release: "rel hnd t w = Ret (e, t', w') \<Longrightarrow> fe_step req rel oth t w t' w'"
| other: "oth t w t' w' \<Longrightarrow> fe_step req rel oth t w t' w'"

inductive pwm_other :: "artik_pwm_config tab \<Rightarrow> world \<Rightarrow> artik_pwm_config tab \<Rightarrow> world \<Rightarrow> bool" where
  enable: "artik_pwm_enable hnd t w = Ret (e, w') \<Longrightarrow> pwm_other t w t w'"
| disable: "artik_pwm_disable hnd t w = Ret (e, w') \<Longrightarrow> pwm_other t w t w'"
| set_period: "artik_pwm_set_period hnd v t w = Ret (e, w') \<Longrightarrow> pwm_other t w t w'"
| set_polarity: "artik_pwm_set_polarity hnd p t w = Ret (e, w') \<Longrightarrow> pwm_other t w t w'"
| set_duty_cycle: "artik_pwm_set_duty_cycle hnd v t w = Ret (e, w') \<Longrightarrow> pwm_other t w t w'"

inductive i2c_other :: "artik_i2c_config tab \<Rightarrow> world \<Rightarrow> artik_i2c_config tab \<Rightarrow> world \<Rightarrow> bool" where
  rd: "artik_i2c_read hnd n t w = (e, bs, w') \<Longrightarrow> i2c_other t w t w'"
| wr: "artik_i2c_write hnd bs t w = (e, w') \<Longrightarrow> i2c_other t w t w'"
| rd_reg: "artik_i2c_read_register hnd reg n t w = Ret (e, bs, w') \<Longrightarrow> i2c_other t w t w'"
| wr_reg: "artik_i2c_write_register hnd reg bs n t w = Ret (e, w') \<Longrightarrow> i2c_other t w t w'"

inductive spi_other :: "artik_spi_config tab \<Rightarrow> world \<Rightarrow> artik_spi_config tab \<Rightarrow> world \<Rightarrow> bool" where
  rd: "artik_spi_read hnd b n t w = (e, bs, w') \<Longrightarrow> spi_other t w t w'"
| wr: "artik_spi_write hnd tx n t w = (e, w') \<Longrightarrow> spi_other t w t w'"
| rdwr: "artik_spi_read_write hnd tx b n t w = (e, bs, w') \<Longrightarrow> spi_other t w t w'"

inductive adc_other :: "artik_adc_config tab \<Rightarrow> world \<Rightarrow> artik_adc_config tab \<Rightarrow> world \<Rightarrow> bool" where
  get: "artik_adc_get_value hnd v t w = Ret (e, x, w') \<Longrightarrow> adc_other t w t w'"

text \<open>The heap is shared: a block that becomes a node was no node of any module.\<close>

definition new_blocks :: "sysio \<Rightarrow> 'c tab \<Rightarrow> 'c tab \<Rightarrow> bool" where
  "new_blocks s t t' \<longleftrightarrow> set (map fst t') \<inter> set (handles s) \<subseteq> set (map fst t)"

inductive sysio_step :: "sysio \<Rightarrow> sysio \<Rightarrow> bool" where
  gpio: "gpio_step (gpios s, sys_world s) (t, w) \<Longrightarrow> new_blocks s (gpios s) t
     \<Longrightarrow> sysio_step s (s\<lparr>gpios := t, sys_world := w\<rparr>)"
| serial: "fe_step artik_serial_request artik_serial_release serial_other (serials s) (sys_world s) t w
     \<Longrightarrow> new_blocks s (serials s) t \<Longrightarrow> sysio_step s (s\<lparr>serials := t, sys_world := w\<rparr>)"
| pwm: "fe_step artik_pwm_request artik_pwm_release pwm_other (pwms s) (sys_world s) t w
     \<Longrightarrow> new_blocks s (pwms s) t \<Longrightarrow> sysio_step s (s\<lparr>pwms := t, sys_world := w\<rparr>)"
| i2c: "fe_step artik_i2c_request artik_i2c_release i2c_other (i2cs s) (sys_world s) t w
     \<Longrightarrow> new_blocks s (i2cs s) t \<Longrightarrow> sysio_step s (s\<lparr>i2cs := t, sys_world := w\<rparr>)"
| spi: "fe_step artik_spi_request artik_spi_release spi_other (spis s) (sys_world s) t w
     \<Longrightarrow> new_blocks s (spis s) t \<Longrightarrow> sysio_step s (s\<lparr>spis := t, sys_world := w\<rparr>)"
| adc: "fe_step artik_adc_request artik_adc_release adc_other (adcs s) (sys_world s) t w
     \<Longrightarrow> new_blocks s (adcs s) t \<Longrightarrow> sysio_step s (s\<lparr>adcs := t, sys_world := w\<rparr>)"

definition sysio_start :: "world \<Rightarrow> sysio" where
  "sysio_start w = \<lparr>gpios = [], serials = [], pwms = [], i2cs = [], spis = [], adcs = [], sys_world = w\<rparr>"

inductive sysio_reach :: "sysio \<Rightarrow> bool" where
  start: "sysio_reach (sysio_start w)"
| step: "sysio_reach s \<Longrightarrow> sysio_step s s' \<Longrightarrow> sysio_reach s'"

subsection \<open>The joint invariant\<close>

context front_end
begin

lemma step_inv:
  assumes "fe_step request release oth t w t' w'" and "fe_inv key t"
    and "\<And>t w t' w'. oth t w t' w' \<Longrightarrow> t' = t"
  shows "fe_inv key t'"
  using assms(1)
proof cases
  case other
  then show ?thesis using assms(2,3) by metis
qed (use assms(2) request_inv release_inv in blast)+

end

lemma pwm_other_same: "pwm_other t w t' w' \<Longrightarrow> t' = t"
  by (induction rule: pwm_other.induct) auto

lemma i2c_other_same: "i2c_other t w t' w' \<Longrightarrow> t' = t"
  by (induction rule: i2c_other.induct) auto

lemma spi_other_same: "spi_other t w t' w' \<Longrightarrow> t' = t"
  by (induction rule: spi_other.induct) auto

lemma adc_other_same: "adc_other t w t' w' \<Longrightarrow> t' = t"
  by (induction rule: adc_other.induct) auto

lemma serial_step_inv:
  assumes "fe_step artik_serial_request artik_serial_release serial_other t w t' w'" and "serial_inv t"
  shows "serial_inv t'"
  using assms(1)
proof cases
  case (request m c e ho c')
  have "fe_inv port_num t'" using serial.request_inv [OF request] assms(2) by (simp add: serial_inv_def)
  moreover have "serial_ok c'" if "e = S_OK"
    using request(1) that os_serial_request_cases table_request_ok
    unfolding artik_serial_request_def by metis
  ultimately show ?thesis using serial.request_cases [OF request] assms(2)
    by (auto simp: serial_inv_def)
next
  case (release hnd e)
  then show ?thesis
    using serial.release_cases [OF release] serial.release_inv [OF release] assms(2) set_tab_delete
    by (fastforce simp: serial_inv_def fe_inv_def)
qed (use assms(2) serial_other_inv in blast)

definition sysio_inv :: "sysio \<Rightarrow> bool" where
  "sysio_inv s \<longleftrightarrow> distinct (handles s) \<and> gpio_inv (gpios s) \<and> serial_inv (serials s)
     \<and> fe_inv pwm_pin (pwms s) \<and> fe_inv i2c_slave (i2cs s) \<and> fe_inv spi_bus (spis s)
     \<and> fe_inv adc_pin (adcs s)"

text \<open>Replacing one segment of the handles by one without foreign handles.\<close>

lemma distinct_segment:
  assumes "distinct (as @ xs @ bs)" and "distinct ys" and "set ys \<inter> set (as @ xs @ bs) \<subseteq> set xs"
  shows "distinct (as @ ys @ bs)"
  using assms by auto

lemmas segment_simps = handles_def new_blocks_def append_assoc append_Nil append_Nil2 sysio.simps

lemma handles_gpios:
  assumes "distinct (handles s)" and "distinct (map fst t)" and "new_blocks s (gpios s) t"
  shows "distinct (handles (s\<lparr>gpios := t, sys_world := w\<rparr>))"
  using assms distinct_segment [of "[]" "map fst (gpios s)"
      "map fst (serials s) @ map fst (pwms s) @ map fst (i2cs s) @ map fst (spis s) @ map fst (adcs s)" "map fst t"]
  by (cases s) (simp only: segment_simps True_implies_equals)

lemma handles_serials:
  assumes "distinct (handles s)" and "distinct (map fst t)" and "new_blocks s (serials s) t"
  shows "distinct (handles (s\<lparr>serials := t, sys_world := w\<rparr>))"
  using assms distinct_segment [of "map fst (gpios s)" "map fst (serials s)"
      "map fst (pwms s) @ map fst (i2cs s) @ map fst (spis s) @ map fst (adcs s)" "map fst t"]
  by (cases s) (simp only: segment_simps True_implies_equals)

lemma handles_pwms:
  assumes "distinct (handles s)" and "distinct (map fst t)" and "new_blocks s (pwms s) t"
  shows "distinct (handles (s\<lparr>pwms := t, sys_world := w\<rparr>))"
  using assms distinct_segment [of "map fst (gpios s) @ map fst (serials s)" "map fst (pwms s)"
      "map fst (i2cs s) @ map fst (spis s) @ map fst (adcs s)" "map fst t"]
  by (cases s) (simp only: segment_simps True_implies_equals)

lemma handles_i2cs:
  assumes "distinct (handles s)" and "distinct (map fst t)" and "new_blocks s (i2cs s) t"
  shows "distinct (handles (s\<lparr>i2cs := t, sys_world := w\<rparr>))"
  using assms distinct_segment [of "map fst (gpios s) @ map fst (serials s) @ map fst (pwms s)" "map fst (i2cs s)"
      "map fst (spis s) @ map fst (adcs s)" "map fst t"]
  by (cases s) (simp only: segment_simps True_implies_equals)

lemma handles_spis:
  assumes "distinct (handles s)" and "distinct (map fst t)" and "new_blocks s (spis s) t"
  shows "distinct (handles (s\<lparr>spis := t, sys_world := w\<rparr>))"
  using assms distinct_segment [of "map fst (gpios s) @ map fst (serials s) @ map fst (pwms s) @ map fst (i2cs s)" "map fst (spis s)"
      "map fst (adcs s)" "map fst t"]
  by (cases s) (simp only: segment_simps True_implies_equals)

lemma handles_adcs:
  assumes "distinct (handles s)" and "distinct (map fst t)" and "new_blocks s (adcs s) t"
  shows "distinct (handles (s\<lparr>adcs := t, sys_world := w\<rparr>))"
  using assms distinct_segment [of "map fst (gpios s) @ map fst (serials s) @ map fst (pwms s) @ map fst (i2cs s) @ map fst (spis s)" "map fst (adcs s)"
      "[]" "map fst t"]
  by (cases s) (simp only: segment_simps True_implies_equals)

lemma sysio_step_inv:
  assumes "sysio_step s s'" and "sysio_inv s"
  shows "sysio_inv s'"
  using assms
proof (induction rule: sysio_step.induct)
  case (gpio s t w)
  have t: "gpio_inv t" using gpio_step_inv [OF gpio(1)] gpio(3) by (simp add: sysio_inv_def)
  then have "distinct (map fst t)" by (simp add: gpio_inv_def fe_inv_def)
  with t gpio(2,3) handles_gpios show ?case by (simp add: sysio_inv_def)
next
  case (serial s t w)
  have t: "serial_inv t" using serial_step_inv [OF serial(1)] serial(3) by (simp add: sysio_inv_def)
  then have "distinct (map fst t)" by (simp add: serial_inv_def fe_inv_def)
  with t serial(2,3) handles_serials show ?case by (simp add: sysio_inv_def)
next
  case (pwm s t w)
  have t: "fe_inv pwm_pin t" using pwm.step_inv [OF pwm(1)] pwm(3) pwm_other_same by (simp add: sysio_inv_def)
  then have "distinct (map fst t)" by (simp add: fe_inv_def)
  with t pwm(2,3) handles_pwms show ?case by (simp add: sysio_inv_def)
next
  case (i2c s t w)
  have t: "fe_inv i2c_slave t" using i2c.step_inv [OF i2c(1)] i2c(3) i2c_other_same by (simp add: sysio_inv_def)
  then have "distinct (map fst t)" by (simp add: fe_inv_def)
  with t i2c(2,3) handles_i2cs show ?case by (simp add: sysio_inv_def)
next
  case (spi s t w)
  have t: "fe_inv spi_bus t" using spi.step_inv [OF spi(1)] spi(3) spi_other_same by (simp add: sysio_inv_def)
  then have "distinct (map fst t)" by (simp add: fe_inv_def)
  with t spi(2,3) handles_spis show ?case by (simp add: sysio_inv_def)
next
  case (adc s t w)
  have t: "fe_inv adc_pin t" using adc.step_inv [OF adc(1)] adc(3) adc_other_same by (simp add: sysio_inv_def)
  then have "distinct (map fst t)" by (simp add: fe_inv_def)
  with t adc(2,3) handles_adcs show ?case by (simp add: sysio_inv_def)
qed

lemma sysio_reach_inv: "sysio_reach s \<Longrightarrow> sysio_inv s"
proof (induction rule: sysio_reach.induct)
  case (start w)
  then show ?case by (simp add: sysio_start_def sysio_inv_def handles_def gpio_inv_def serial_inv_def)
next
  case (step s s')
  then show ?case by (metis sysio_step_inv)
qed

text \<open>C14. However an application interleaves calls of the six modules, no module holds a resource
  twice, every live handle belongs to one module only, so that releasing it through another module
  is refused and changes nothing, and a request for a held resource is E_BUSY.\<close>

theorem systemio_handles_never_confused:
  assumes "sysio_reach s"
  shows "distinct (handles s) \<and> 0 \<notin> set (handles s)
    \<and> distinct (map (gpio_id \<circ> snd) (gpios s)) \<and> distinct (map (port_num \<circ> snd) (serials s))
    \<and> distinct (map (pwm_pin \<circ> snd) (pwms s)) \<and> distinct (map (i2c_slave \<circ> snd) (i2cs s))
    \<and> distinct (map (spi_bus \<circ> snd) (spis s)) \<and> distinct (map (adc_pin \<circ> snd) (adcs s))
    \<and> (hnd \<notin> fst ` set (gpios s) \<longrightarrow> artik_gpio_release hnd (gpios s) w = Ret (E_BAD_ARGS, gpios s, w))
    \<and> (hnd \<in> fst ` set (gpios s) \<longrightarrow> artik_serial_release hnd (serials s) w = Ret (E_BAD_ARGS, serials s, w)
         \<and> artik_pwm_release hnd (pwms s) w = Ret (E_BAD_ARGS, pwms s, w)
         \<and> artik_i2c_release hnd (i2cs s) w = Ret (E_BAD_ARGS, i2cs s, w)
         \<and> artik_spi_release hnd (spis s) w = Ret (E_BAD_ARGS, spis s, w)
         \<and> artik_adc_release hnd (adcs s) w = Ret (E_BAD_ARGS, adcs s, w))
    \<and> ((hnd, pc) \<in> set (pwms s) \<longrightarrow> pwm_pin pc' = pwm_pin pc \<longrightarrow>
         artik_pwm_request m pc' (pwms s) w = Ret (E_BUSY, None, pc', pwms s, w))
    \<and> ((hnd, ic) \<in> set (i2cs s) \<longrightarrow> i2c_slave ic' = i2c_slave ic \<longrightarrow>
         artik_i2c_request m ic' (i2cs s) w = Ret (E_BUSY, None, ic', i2cs s, w))
    \<and> ((hnd, sc) \<in> set (spis s) \<longrightarrow> spi_bus sc' = spi_bus sc \<longrightarrow>
         artik_spi_request m sc' (spis s) w = Ret (E_BUSY, None, sc', spis s, w))
    \<and> ((hnd, ac) \<in> set (adcs s) \<longrightarrow> adc_pin ac' = adc_pin ac \<longrightarrow>
         artik_adc_request m ac' (adcs s) w = Ret (E_BUSY, None, ac', adcs s, w))"
proof -
  have inv: "sysio_inv s" by (rule sysio_reach_inv [OF assms])
  then have d: "distinct (handles s)" by (simp add: sysio_inv_def)
  have fe: "fe_inv gpio_id (gpios s)" "fe_inv port_num (serials s)" "fe_inv pwm_pin (pwms s)"
    "fe_inv i2c_slave (i2cs s)" "fe_inv spi_bus (spis s)" "fe_inv adc_pin (adcs s)"
    using inv by (auto simp: sysio_inv_def gpio_inv_def serial_inv_def)
  have z: "0 \<notin> set (handles s)" using fe by (simp add: fe_inv_def handles_def)
  have foreign: "hnd \<notin> fst ` set (serials s) \<and> hnd \<notin> fst ` set (pwms s) \<and> hnd \<notin> fst ` set (i2cs s)
      \<and> hnd \<notin> fst ` set (spis s) \<and> hnd \<notin> fst ` set (adcs s)" if "hnd \<in> fst ` set (gpios s)"
  proof -
    have "set (map fst (gpios s)) \<inter> set (map fst (serials s) @ map fst (pwms s) @ map fst (i2cs s)
        @ map fst (spis s) @ map fst (adcs s)) = {}"
      using d unfolding handles_def distinct_append by blast
    with that show ?thesis by (simp add: disjoint_iff)
  qed
  have keys: "distinct (map (gpio_id \<circ> snd) (gpios s))" "distinct (map (port_num \<circ> snd) (serials s))"
    "distinct (map (pwm_pin \<circ> snd) (pwms s))" "distinct (map (i2c_slave \<circ> snd) (i2cs s))"
    "distinct (map (spi_bus \<circ> snd) (spis s))" "distinct (map (adc_pin \<circ> snd) (adcs s))"
    using fe by (simp_all add: fe_inv_def)
  have refused: "artik_serial_release hnd (serials s) w = Ret (E_BAD_ARGS, serials s, w)"
    "artik_pwm_release hnd (pwms s) w = Ret (E_BAD_ARGS, pwms s, w)"
    "artik_i2c_release hnd (i2cs s) w = Ret (E_BAD_ARGS, i2cs s, w)"
    "artik_spi_release hnd (spis s) w = Ret (E_BAD_ARGS, spis s, w)"
    "artik_adc_release hnd (adcs s) w = Ret (E_BAD_ARGS, adcs s, w)" if "hnd \<in> fst ` set (gpios s)"
    using foreign [OF that] by (simp_all add: serial.release_stale pwm.release_stale i2c.release_stale
        spi.release_stale adc.release_stale)
  show ?thesis
    by (intro conjI impI) (rule d z keys refused gpio.release_stale [OF disjI2] pwm.held_is_busy
        i2c.held_is_busy spi.held_is_busy adc.held_is_busy | assumption)+
qed

text \<open>A run in which a bus slave, an SPI device and an ADC channel are requested, at 64, 72 and 80.\<close>

definition board :: sysio where
  "board = (sysio_start good_world)\<lparr>i2cs := [(64, imu)]\<rparr>"

theorem systemio_handles_never_confused_witness:
  "\<exists>w. sysio_reach (board\<lparr>spis := [(72, flash)], sys_world := w\<rparr>)
     \<and> artik_i2c_request 96 imu [(64, imu)] good_world = Ret (E_BUSY, None, imu, [(64, imu)], good_world)"
proof -
  have "\<exists>w1. artik_i2c_request 64 imu [] good_world = Ret (S_OK, Some 64, imu, [(64, imu)], w1)
      \<and> env w1 = good_env"
    by (simp add: artik_i2c_request_def table_request_def os_i2c_request_def i2c_open_def walk_simps
        tab_get_by_check_def tab_set_def tab_add_def err_simps imu_def)
  then obtain w1 where e: "env w1 = good_env"
    and "artik_i2c_request 64 imu [] good_world = Ret (S_OK, Some 64, imu, [(64, imu)], w1)"
    by blast
  then have "sysio_step (sysio_start good_world) (board\<lparr>sys_world := w1\<rparr>)"
    using sysio_step.i2c [of "sysio_start good_world" "[(64, imu)]" w1] fe_step.request
    by (fastforce simp: board_def sysio_start_def new_blocks_def handles_def)
  then have one: "sysio_reach (board\<lparr>sys_world := w1\<rparr>)"
    using sysio_reach.start sysio_reach.step by blast
  obtain w2 where "artik_spi_request 72 flash [] w1 = Ret (S_OK, Some 72, flash, [(72, flash)], w2)"
    using e by (simp add: artik_spi_request_def table_request_def os_spi_request_def spi_setup_def walk_simps
        tab_get_by_check_def tab_set_def tab_add_def err_simps flash_def)
  then have "sysio_step (board\<lparr>sys_world := w1\<rparr>) (board\<lparr>spis := [(72, flash)], sys_world := w2\<rparr>)"
    using sysio_step.spi [of "board\<lparr>sys_world := w1\<rparr>" "[(72, flash)]" w2] fe_step.request
    by (fastforce simp: board_def sysio_start_def new_blocks_def handles_def)
  with one have r: "sysio_reach (board\<lparr>spis := [(72, flash)], sys_world := w2\<rparr>)"
    using sysio_reach.step by blast
  have "(64, imu) \<in> set (i2cs (board\<lparr>spis := [(72, flash)], sys_world := w2\<rparr>))"
    by (simp add: board_def)
  with systemio_handles_never_confused [OF r, of 64 good_world undefined undefined 96 imu imu] r show ?thesis
    by (auto simp: board_def)
qed

end
