(* ===== verification/Webclient.thy ===== *)
theory Webclient
  imports World Bytes
begin

section \<open>The HTTP client of TizenRT (\<^verbatim>\<open>connectivity/http/tinyara/webclient.c\<close>)\<close>

text \<open>
  \<^verbatim>\<open>wget\<close> sends a request and parses the response as it arrives, block by block, handing
  the data after the headers to a callback. Blocks are the bytes \<^verbatim>\<open>recv\<close> put at the start of
  the caller's buffer; \<open>offset\<close> is an index into them.

  Code that is not in the repository: \<^verbatim>\<open>netlib_parsehttpurl\<close> is the parameter \<open>purl\<close>, which
  maps a URL and the current port, host and file to a result code and their new values; the user
  agent, whose text is the build's, is the parameter \<open>agent\<close>; mbed TLS answers through the world.
  \<^verbatim>\<open>CONFIG_NETUTILS_CODECS\<close> and \<^verbatim>\<open>CONFIG_WEBCLIENT_GETMIMETYPE\<close> are
  off, \<^verbatim>\<open>CONFIG_NET_SECURITY_TLS\<close> is on (the file does not compile without it). The
  callback is the one of \<^verbatim>\<open>tinyara_http.c\<close>, which does not change the buffer.
\<close>

subsection \<open>State\<close>

datatype web_state = STATE_STATUSLINE | STATE_HEADERS | STATE_DATA | STATE_CLOSE

datatype http_status = HTTPSTATUS_NONE | HTTPSTATUS_OK | HTTPSTATUS_MOVED | HTTPSTATUS_ERROR

text \<open>The connection with its \<^verbatim>\<open>recv\<close>, \<^verbatim>\<open>send\<close> and \<^verbatim>\<open>close\<close>: a
  socket, or a TLS session on one.\<close>

datatype web_conn = NoConn | RawConn int | TlsConn int

record wget_s =
  w_state :: web_state
  w_status :: http_status
  w_port :: u16
  w_line :: bytes
  w_ndx :: nat
  w_host :: bytes
  w_file :: bytes
  w_conn :: web_conn

definition MAXHTTPLINE :: nat where "MAXHTTPLINE = 600"

type_synonym url_parser = "bytes \<Rightarrow> u16 \<times> bytes \<times> bytes \<Rightarrow> int \<times> u16 \<times> bytes \<times> bytes"

definition wget_init :: wget_s where
  "wget_init = \<lparr>w_state = STATE_STATUSLINE, w_status = HTTPSTATUS_NONE, w_port = 80,
     w_line = replicate MAXHTTPLINE 0, w_ndx = 0, w_host = [], w_file = [], w_conn = NoConn\<rparr>"

subsection \<open>Parsing a response\<close>

definition ISO_nl :: u8 where "ISO_nl = 10"
definition ISO_cr :: u8 where "ISO_cr = 13"

definition put_line :: "u8 \<Rightarrow> wget_s \<Rightarrow> wget_s outcome" where
  "put_line b ws =
     (if w_ndx ws < length (w_line ws) then Ret (ws\<lparr>w_line := (w_line ws)[w_ndx ws := b]\<rparr>) else Ub OutOfBounds)"

text \<open>\<^verbatim>\<open>strncmp(line, s, strlen(s)) == 0\<close>, and without case; \<open>s\<close> has no NUL.\<close>

definition starts :: "string \<Rightarrow> bytes \<Rightarrow> bool" where
  "starts s line \<longleftrightarrow> take (length s) line = bytes_of s"

definition lower :: "u8 \<Rightarrow> u8" where
  "lower b = (if 65 \<le> b \<and> b \<le> 90 then b + 32 else b)"

definition status_of :: "bytes \<Rightarrow> http_status" where
  "status_of line =
     (let dest = drop 9 line
      in if starts ''200 '' dest then HTTPSTATUS_OK
         else if starts ''301 '' dest \<or> starts ''302 '' dest then HTTPSTATUS_MOVED
         else HTTPSTATUS_NONE)"

text \<open>The result is whether the status line was accepted, if one is complete.\<close>

fun wget_parsestatus :: "bytes \<Rightarrow> nat \<Rightarrow> wget_s \<Rightarrow> (bool \<times> wget_s \<times> nat) outcome" where
  "wget_parsestatus [] offset ws = Ret (True, ws, offset)"
| "wget_parsestatus (b # bs) offset ws =
     obind (put_line b ws) (\<lambda>ws1.
       if b = ISO_nl then
         let ws2 = ws1\<lparr>w_line := (w_line ws1)[w_ndx ws1 := 0]\<rparr>
         in if starts ''HTTP/1.0'' (w_line ws2) \<or> starts ''HTTP/1.1'' (w_line ws2)
            then Ret (True, ws2\<lparr>w_status := status_of (w_line ws2), w_state := STATE_HEADERS\<rparr>, offset)
            else Ret (False, ws2, offset)
       else wget_parsestatus bs (offset + 1) (ws1\<lparr>w_ndx := w_ndx ws1 + 1\<rparr>))"

text \<open>A header line that is complete: a new location is taken over, whatever the parser returns.\<close>

definition header_line :: "url_parser \<Rightarrow> wget_s \<Rightarrow> wget_s" where
  "header_line purl ws =
     (if map lower (take 10 (w_line ws)) = bytes_of ''location: '' then
        let (r, p, h, f) = purl (takeWhile (\<lambda>b. b \<noteq> 0) (drop 10 (w_line ws))) (w_port ws, w_host ws, w_file ws)
        in ws\<lparr>w_port := p, w_host := h, w_file := f\<rparr>
      else ws)"

fun wget_parseheaders :: "url_parser \<Rightarrow> bytes \<Rightarrow> nat \<Rightarrow> wget_s \<Rightarrow> (wget_s \<times> nat) outcome" where
  "wget_parseheaders purl [] offset ws = Ret (ws, offset + 1)"
| "wget_parseheaders purl (b # bs) offset ws =
     obind (put_line b ws) (\<lambda>ws1.
       if b = ISO_nl then
         if 0 < w_ndx ws1 \<and> w_line ws1 ! 0 = ISO_cr then Ret (ws1\<lparr>w_state := STATE_DATA\<rparr>, offset + 1)
         else let ws2 = (if 0 < w_ndx ws1
                         then header_line purl (ws1\<lparr>w_line := (w_line ws1)[w_ndx ws1 - 1 := 0]\<rparr>) else ws1)
              in wget_parseheaders purl bs (offset + 1) (ws2\<lparr>w_ndx := 0\<rparr>)
       else wget_parseheaders purl bs (offset + 1) (ws1\<lparr>w_ndx := w_ndx ws1 + 1\<rparr>))"

text \<open>One received block: what to do next, and the data handed to the callback, if any.\<close>

datatype verdict = Abort | More | Redirect

definition wget_block :: "url_parser \<Rightarrow> bytes \<Rightarrow> wget_s \<Rightarrow> (verdict \<times> wget_s \<times> bytes option) outcome" where
  "wget_block purl d ws =
     obind (if w_state ws = STATE_STATUSLINE then wget_parsestatus d 0 ws else Ret (True, ws, 0)) (\<lambda>(ok, ws1, off1).
       if \<not> ok then Ret (Abort, ws1, None)
       else obind (if w_state ws1 = STATE_HEADERS then wget_parseheaders purl (drop off1 d) off1 ws1
                   else Ret (ws1, off1)) (\<lambda>(ws2, off2).
         if w_state ws2 = STATE_DATA then
           if w_status ws2 \<noteq> HTTPSTATUS_MOVED then Ret (More, ws2, Some (drop off2 d))
           else Ret (Redirect, ws2, None)
         else Ret (More, ws2, None)))"

subsection \<open>Connections\<close>

definition WANT_READ :: int where "WANT_READ = - 0x6900"
definition WANT_WRITE :: int where "WANT_WRITE = - 0x6880"
definition NET_SEND_FAILED :: int where "NET_SEND_FAILED = - 0x004E"
definition NET_RECV_FAILED :: int where "NET_RECV_FAILED = - 0x004C"
definition SSL_CONN_EOF :: int where "SSL_CONN_EOF = - 0x7280"
definition PEER_CLOSE_NOTIFY :: int where "PEER_CLOSE_NOTIFY = - 0x7880"
definition EHOSTUNREACH :: int where "EHOSTUNREACH = 113"

partial_function (option) handshake_loop :: "int \<Rightarrow> world \<Rightarrow> (int \<times> world) run" where
  "handshake_loop fd w =
     (let (a, w1) = xc (TlsCall ''mbedtls_ssl_handshake'' fd) w
      in if retv a = 0 then ret (0, w1)
         else if retv a \<noteq> WANT_READ \<and> retv a \<noteq> WANT_WRITE then ret (retv a, w1)
         else handshake_loop fd w1)"

text \<open>The result is 0 on the first three failures: \<^verbatim>\<open>result\<close> is not set there.\<close>

definition wget_tls_handshake :: "bytes \<Rightarrow> int \<Rightarrow> world \<Rightarrow> (int \<times> world) run" where
  "wget_tls_handshake hostname fd w =
     (let w1 = xcu (TlsCall ''mbedtls_ssl_init'' fd) (xcu (TlsCall ''mbedtls_net_init'' fd) w);
          (a, w2) = xc (TlsCall ''mbedtls_net_set_block'' fd) w1
      in if retv a < 0 then ret (0, w2)
         else let (b, w3) = xc (TlsCall ''mbedtls_ssl_setup'' fd) w2
              in if retv b \<noteq> 0 then ret (0, w3)
                 else let (c, w4) = xc (TlsSetHostname fd hostname) w3
                      in if retv c \<noteq> 0 then ret (0, w4)
                         else handshake_loop fd (xcu (TlsCall ''mbedtls_ssl_set_bio'' fd) w4))"

definition wget_tls_ssl_release :: "int \<Rightarrow> world \<Rightarrow> world" where
  "wget_tls_ssl_release fd w =
     xcu (TlsCall ''mbedtls_ssl_free'' fd) (xcu (TlsCall ''mbedtls_ssl_session_reset'' fd) (xcu (TlsFree fd) w))"

fun conn_close :: "web_conn \<Rightarrow> world \<Rightarrow> world" where
  "conn_close NoConn w = w"
| "conn_close (RawConn fd) w = xcu (Close fd) w"
| "conn_close (TlsConn fd) w = wget_tls_ssl_release fd w"

fun conn_send :: "web_conn \<Rightarrow> bytes \<Rightarrow> world \<Rightarrow> (int \<times> world) outcome" where
  "conn_send NoConn bs w = Ub NullDeref"
| "conn_send (RawConn fd) bs w = Ret (xcv (Send fd bs) w)"
| "conn_send (TlsConn fd) bs w = Ret (xcv (TlsWrite fd bs) w)"

fun conn_recv :: "web_conn \<Rightarrow> nat \<Rightarrow> world \<Rightarrow> (int \<times> bytes \<times> world) outcome" where
  "conn_recv NoConn n w = Ub NullDeref"
| "conn_recv (RawConn fd) n w = (let (a, w1) = xc (Recv fd n) w in Ret (retv a, take (nat (retv a)) (outb a), w1))"
| "conn_recv (TlsConn fd) n w =
     (let (a, w1) = xc (TlsRead fd n) w;
          r = (if retv a = PEER_CLOSE_NOTIFY \<or> retv a = SSL_CONN_EOF then 0 else retv a)
      in Ret (r, take (nat r) (outb a), w1))"

text \<open>\<^verbatim>\<open>if (ws.conn)\<close>: socket 0 is a null pointer.\<close>

definition conn_null :: "web_conn \<Rightarrow> bool" where
  "conn_null c \<longleftrightarrow> c = NoConn \<or> c = RawConn 0"

text \<open>One pass of the connection loop, up to the handshake.\<close>

datatype attempt = NoSocket | Failed int int | BadHandshake int int | Connected int

definition wget_attempt :: "bool \<Rightarrow> wget_s \<Rightarrow> world \<Rightarrow> (attempt \<times> world) run" where
  "wget_attempt tls ws w =
     (let (a, w1) = xc (Socket ''tcp'') w; fd = retv a
      in if fd < 0 then ret (NoSocket, w1)
         else let w2 = xcu (Setsockopt fd ''SO_SNDTIMEO'') (xcu (Setsockopt fd ''SO_RCVTIMEO'') w1);
                  (g, w3) = xc (Gethostbyname (w_host ws)) w2
              in if retv g = 0 \<or> retv g = 1 then ret (Failed fd (- EHOSTUNREACH), w3)
                 else let (c, w4) = xc (Connect fd (word_of_int (oval g)) (w_port ws)) w3
                      in if retv c < 0 then ret (Failed fd (retv c), w4)
                         else if tls then
                           rbind (wget_tls_handshake (w_host ws) fd w4) (\<lambda>(r, w5).
                             ret (if r \<noteq> 0 then BadHandshake fd r else Connected fd, w5))
                         else ret (Connected fd, w4))"

text \<open>The error exit. \<open>ctx\<close> is the descriptor in the TLS contexts of \<^verbatim>\<open>wget_base\<close>, \<open>-1\<close> after they
  were freed, and \<open>None\<close> while they are uninitialised.\<close>

definition connect_errout ::
  "bool \<Rightarrow> int \<Rightarrow> int \<Rightarrow> wget_s \<Rightarrow> int option \<Rightarrow> world \<Rightarrow> (int \<times> wget_s \<times> int option \<times> world) run" where
  "connect_errout tls fd r ws ctx w =
     (if tls then (case ctx of
                     None \<Rightarrow> ub Uninitialised
                   | Some c \<Rightarrow> ret (r, ws, Some (-1), wget_tls_ssl_release c w))
      else ret (r, ws, ctx, xcu (Close fd) w))"

text \<open>The first argument counts the retries that are left.\<close>

fun wget_connect ::
  "nat \<Rightarrow> bool \<Rightarrow> wget_s \<Rightarrow> int option \<Rightarrow> world \<Rightarrow> (int \<times> wget_s \<times> int option \<times> world) run" where
  "wget_connect n tls ws ctx w =
     rbind (wget_attempt tls ws w) (\<lambda>(a, w1).
       case a of
         NoSocket \<Rightarrow> ret (-1, ws, ctx, w1)
       | Failed fd r \<Rightarrow> connect_errout tls fd r ws ctx w1
       | BadHandshake fd r \<Rightarrow>
           (case n of
              Suc k \<Rightarrow>
                if r = NET_SEND_FAILED \<or> r = NET_RECV_FAILED \<or> r = SSL_CONN_EOF
                then wget_connect k tls ws (Some (-1)) (xcu (TlsCall ''mbedtls_ssl_free'' fd) (xcu (TlsFree fd) w1))
                else connect_errout tls fd r ws (Some fd) w1
            | 0 \<Rightarrow> connect_errout tls fd r ws (Some fd) w1)
       | Connected fd \<Rightarrow>
           ret (0, ws\<lparr>w_conn := if tls then TlsConn fd else RawConn fd\<rparr>, if tls then Some fd else ctx, w1))"

declare wget_connect.simps [simp del]

definition HANDSHAKE_RETRY :: nat where "HANDSHAKE_RETRY = 3"

subsection \<open>The request\<close>

datatype wget_mode = MODE_GET | MODE_POST

definition crnl :: string where "crnl = [CHR 0x0D, CHR 0x0A]"

definition post_fields :: "bytes \<Rightarrow> bytes" where
  "post_fields posts = bytes_of (''Content-Type: application/x-www-form-urlencoded'' @ crnl
     @ ''Content-Length: '' @ nat_str (length posts) @ crnl)"

definition request_text :: "string \<Rightarrow> wget_mode \<Rightarrow> bytes \<Rightarrow> wget_s \<Rightarrow> bytes" where
  "request_text agent mode posts ws =
     bytes_of (if mode = MODE_POST then ''POST '' else ''GET '') @ w_file ws
     @ bytes_of ('' HTTP/1.0'' @ crnl @ ''host: '') @ w_host ws @ bytes_of crnl
     @ (if mode = MODE_POST then post_fields posts else [])
     @ bytes_of (''Connection: close'' @ crnl @ ''User-Agent: '' @ agent @ crnl @ crnl)
     @ (if mode = MODE_POST then posts else [])"

text \<open>Nothing bounds the text by the size of the buffer, in which it is built with a final NUL, nor the
  digits of the length by the eight bytes of \<^verbatim>\<open>post_size\<close>.\<close>

definition build_request :: "string \<Rightarrow> wget_mode \<Rightarrow> bytes \<Rightarrow> nat \<Rightarrow> wget_s \<Rightarrow> bytes outcome" where
  "build_request agent mode posts buflen ws =
     (if mode = MODE_POST \<and> 8 \<le> length (nat_str (length posts))
        \<or> buflen \<le> length (request_text agent mode posts ws) then Ub OutOfBounds
      else Ret (request_text agent mode posts ws))"

subsection \<open>The transfer\<close>

datatype recv_end = Failure | Lost | Moved

definition handed :: "bytes option \<Rightarrow> world \<Rightarrow> world" where
  "handed data w = (case data of None \<Rightarrow> w | Some d \<Rightarrow> xcu (StreamCallback d) w)"

partial_function (option) wget_transfer :: "url_parser \<Rightarrow> nat \<Rightarrow> wget_s \<Rightarrow> world \<Rightarrow> (recv_end \<times> wget_s \<times> world) run" where
  "wget_transfer purl buflen ws w =
     rbind (Some (conn_recv (w_conn ws) buflen w)) (\<lambda>(r, d, w1).
       if r < 0 then ret (Failure, ws, w1)
       else if r = 0 then ret (Lost, ws, conn_close (w_conn ws) w1)
       else rbind (Some (wget_block purl d ws)) (\<lambda>(v, ws1, data).
              case v of
                Abort \<Rightarrow> ret (Failure, ws1, w1)
              | Redirect \<Rightarrow> ret (Moved, ws1, conn_close (w_conn ws1) w1)
              | More \<Rightarrow> wget_transfer purl buflen ws1 (handed data w1)))"

definition wget_errout :: "wget_s \<Rightarrow> world \<Rightarrow> (int \<times> world) run" where
  "wget_errout ws w = ret (-1, if conn_null (w_conn ws) then w else conn_close (w_conn ws) w)"

text \<open>The loop over redirections.\<close>

partial_function (option) wget_loop ::
  "url_parser \<Rightarrow> string \<Rightarrow> wget_mode \<Rightarrow> bytes \<Rightarrow> nat \<Rightarrow> bool \<Rightarrow> wget_s \<Rightarrow> int option \<Rightarrow> world
     \<Rightarrow> (int \<times> world) run" where
  "wget_loop purl agent mode posts buflen tls ws ctx w =
     rbind (wget_connect HANDSHAKE_RETRY tls (ws\<lparr>w_status := HTTPSTATUS_NONE, w_ndx := 0\<rparr>) ctx w)
       (\<lambda>(r, ws1, ctx1, w1).
         if r \<noteq> 0 then ret (-1, w1)
         else rbind (Some (build_request agent mode posts buflen ws1)) (\<lambda>text.
              rbind (Some (conn_send (w_conn ws1) text w1)) (\<lambda>(s, w2).
                if s < 0 then wget_errout ws1 w2
                else rbind (wget_transfer purl buflen (ws1\<lparr>w_state := STATE_STATUSLINE\<rparr>) w2) (\<lambda>(e, ws2, w3).
                  case e of
                    Failure \<Rightarrow> wget_errout ws2 w3
                  | Lost \<Rightarrow> ret (0, w3)
                  | Moved \<Rightarrow> wget_loop purl agent mode posts buflen tls ws2 (if tls then Some (-1) else ctx1) w3))))"

definition wget_base ::
  "url_parser \<Rightarrow> string \<Rightarrow> bytes \<Rightarrow> nat \<Rightarrow> bytes \<Rightarrow> wget_mode \<Rightarrow> bool \<Rightarrow> world \<Rightarrow> (int \<times> world) run" where
  "wget_base purl agent url buflen posts mode with_tls w =
     (let (r, p, h, f) = purl url (80, [], [])
      in if r \<noteq> 0 then ret (-1, w)
         else wget_loop purl agent mode posts buflen with_tls
                (wget_init\<lparr>w_port := p, w_host := h, w_file := f\<rparr>) None w)"

definition wget :: "url_parser \<Rightarrow> string \<Rightarrow> bytes \<Rightarrow> nat \<Rightarrow> bool \<Rightarrow> world \<Rightarrow> (int \<times> world) run" where
  "wget purl agent url buflen with_tls w = wget_base purl agent url buflen [] MODE_GET with_tls w"

definition wget_post ::
  "url_parser \<Rightarrow> string \<Rightarrow> bytes \<Rightarrow> bytes \<Rightarrow> nat \<Rightarrow> bool \<Rightarrow> world \<Rightarrow> (int \<times> world) run" where
  "wget_post purl agent url posts buflen with_tls w = wget_base purl agent url buflen posts MODE_POST with_tls w"

end
