(* ===== verification/WebclientProps.thy ===== *)
theory WebclientProps
  imports Webclient
begin

section \<open>The HTTP client: what it makes of a response\<close>

text \<open>
  The parser against an automaton that reads one byte at a time: however the response is split into
  blocks, the result is the same. From it, what a well-formed response leads to, what a line that is
  too long does, and the descriptors a transfer leaves open.
\<close>

subsection \<open>One byte at a time\<close>

definition status_byte :: "u8 \<Rightarrow> wget_s \<Rightarrow> (verdict \<times> wget_s \<times> bytes) outcome" where
  "status_byte b ws =
     obind (put_line b ws) (\<lambda>ws1.
       if b \<noteq> ISO_nl then Ret (More, ws1\<lparr>w_ndx := w_ndx ws1 + 1\<rparr>, [])
       else let line = (w_line ws1)[w_ndx ws1 := 0]
            in if starts ''HTTP/1.0'' line \<or> starts ''HTTP/1.1'' line
               then Ret (More, ws1\<lparr>w_line := (w_line ws1)[w_ndx ws1 - 1 := 0], w_status := status_of line,
                                w_state := STATE_HEADERS, w_ndx := 0\<rparr>, [])
               else Ret (Abort, ws1\<lparr>w_line := line\<rparr>, []))"

definition header_byte :: "url_parser \<Rightarrow> u8 \<Rightarrow> wget_s \<Rightarrow> (verdict \<times> wget_s \<times> bytes) outcome" where
  "header_byte purl b ws =
     obind (put_line b ws) (\<lambda>ws1.
       if b \<noteq> ISO_nl then Ret (More, ws1\<lparr>w_ndx := w_ndx ws1 + 1\<rparr>, [])
       else if w_ndx ws1 = 0 then Ret (More, ws1\<lparr>w_ndx := 0\<rparr>, [])
       else if w_line ws1 ! 0 = ISO_cr
         then Ret (if w_status ws1 = HTTPSTATUS_MOVED then Redirect else More, ws1\<lparr>w_state := STATE_DATA\<rparr>, [])
       else Ret (More, (header_line purl (ws1\<lparr>w_line := (w_line ws1)[w_ndx ws1 - 1 := 0]\<rparr>))\<lparr>w_ndx := 0\<rparr>, []))"

definition wget_byte :: "url_parser \<Rightarrow> u8 \<Rightarrow> wget_s \<Rightarrow> (verdict \<times> wget_s \<times> bytes) outcome" where
  "wget_byte purl b ws =
     (case w_state ws of
        STATE_STATUSLINE \<Rightarrow> status_byte b ws
      | STATE_HEADERS \<Rightarrow> header_byte purl b ws
      | STATE_DATA \<Rightarrow> if w_status ws = HTTPSTATUS_MOVED then Ret (Redirect, ws, []) else Ret (More, ws, [b])
      | STATE_CLOSE \<Rightarrow> Ret (More, ws, []))"

text \<open>Going on after a result, and with the data put together.\<close>

definition prepend :: "bytes \<Rightarrow> (verdict \<times> wget_s \<times> bytes) outcome \<Rightarrow> (verdict \<times> wget_s \<times> bytes) outcome" where
  "prepend out m = obind m (\<lambda>(v, ws, out'). Ret (v, ws, out @ out'))"

definition after :: "(verdict \<times> wget_s \<times> bytes) outcome \<Rightarrow> (wget_s \<Rightarrow> (verdict \<times> wget_s \<times> bytes) outcome)
    \<Rightarrow> (verdict \<times> wget_s \<times> bytes) outcome" where
  "after m k = obind m (\<lambda>(v, ws, out). if v \<noteq> More then Ret (v, ws, out) else prepend out (k ws))"

fun wget_run :: "url_parser \<Rightarrow> bytes \<Rightarrow> wget_s \<Rightarrow> (verdict \<times> wget_s \<times> bytes) outcome" where
  "wget_run purl [] ws = Ret (More, ws, [])"
| "wget_run purl (b # bs) ws = after (wget_byte purl b ws) (wget_run purl bs)"

text \<open>The blocks of a response, one after the other, as the loop of \<open>wget_transfer\<close> takes them.\<close>

definition block_result :: "url_parser \<Rightarrow> bytes \<Rightarrow> wget_s \<Rightarrow> (verdict \<times> wget_s \<times> bytes) outcome" where
  "block_result purl d ws =
     obind (wget_block purl d ws) (\<lambda>(v, ws1, data). Ret (v, ws1, case data of None \<Rightarrow> [] | Some x \<Rightarrow> x))"

fun wget_feed :: "url_parser \<Rightarrow> bytes list \<Rightarrow> wget_s \<Rightarrow> (verdict \<times> wget_s \<times> bytes) outcome" where
  "wget_feed purl [] ws = Ret (More, ws, [])"
| "wget_feed purl (d # ds) ws = after (block_result purl d ws) (wget_feed purl ds)"

lemma prepend_simps [simp]:
  "prepend out (Ub f) = Ub f"
  "prepend out (Ret (v, ws, out')) = Ret (v, ws, out @ out')"
  by (simp_all add: prepend_def)

lemma prepend_Nil [simp]: "prepend [] m = m"
  by (cases m) (auto simp: prepend_def)

lemma prepend_prepend [simp]: "prepend a (prepend b m) = prepend (a @ b) m"
  by (cases m) (auto simp: prepend_def)

lemma after_simps [simp]:
  "after (Ub f) k = Ub f"
  "after (Ret (Abort, ws, out)) k = Ret (Abort, ws, out)"
  "after (Ret (Redirect, ws, out)) k = Ret (Redirect, ws, out)"
  "after (Ret (More, ws, out)) k = prepend out (k ws)"
  by (simp_all add: after_def)

lemma result_cases [case_names Ub Abort Redirect More]:
  obtains f where "m = Ub f" | ws out where "m = Ret (Abort, ws, out)"
  | ws out where "m = Ret (Redirect, ws, out)" | ws out where "m = Ret (More, ws, out)"
proof (cases m)
  case (Ret x)
  obtain v ws out where "x = (v, ws, out)" by (cases x)
  with Ret that show ?thesis by (cases v) auto
qed (rule that(1))

lemma after_prepend [simp]: "after (prepend a m) k = prepend a (after m k)"
  by (cases m rule: result_cases) simp_all

lemma after_assoc: "after (after m k) l = after m (\<lambda>ws. after (k ws) l)"
  by (cases m rule: result_cases) simp_all

lemma after_Ret_More [simp]: "after m (\<lambda>ws. Ret (More, ws, [])) = m"
  by (cases m rule: result_cases) simp_all

lemma wget_run_append: "wget_run purl (xs @ ys) ws = after (wget_run purl xs ws) (wget_run purl ys)"
proof (induction xs arbitrary: ws)
  case (Cons x xs)
  then have "wget_run purl (xs @ ys) = (\<lambda>ws. after (wget_run purl xs ws) (wget_run purl ys))" by (rule ext)
  then show ?case by (simp add: after_assoc)
qed simp

subsection \<open>A block is its bytes\<close>

lemma run_data:
  "w_state ws = STATE_DATA \<Longrightarrow> w_status ws \<noteq> HTTPSTATUS_MOVED \<Longrightarrow> wget_run purl d ws = Ret (More, ws, d)"
  by (induction d) (simp_all add: wget_byte_def)

text \<open>What \<open>wget_block\<close> makes of the result of the header parser.\<close>

definition finish :: "bytes \<Rightarrow> wget_s \<times> nat \<Rightarrow> (verdict \<times> wget_s \<times> bytes) outcome" where
  "finish d = (\<lambda>(ws, off).
     if w_state ws = STATE_DATA then
       if w_status ws \<noteq> HTTPSTATUS_MOVED then Ret (More, ws, drop off d) else Ret (Redirect, ws, [])
     else Ret (More, ws, []))"

lemma header_line_state [simp]:
  "w_state (header_line purl ws) = w_state ws" "w_status (header_line purl ws) = w_status ws"
  "w_ndx (header_line purl ws) = w_ndx ws" "w_line (header_line purl ws) = w_line ws"
  by (auto simp: header_line_def case_prod_beta)

lemma put_line_state:
  "put_line b ws = Ret ws1 \<Longrightarrow> w_state ws1 = w_state ws \<and> w_status ws1 = w_status ws \<and> w_ndx ws1 = w_ndx ws"
  by (auto simp: put_line_def split: if_splits)

lemma parseheaders_run:
  "w_state ws = STATE_HEADERS \<Longrightarrow> off + length bs = length d \<Longrightarrow> drop off d = bs \<Longrightarrow>
     obind (wget_parseheaders purl bs off ws) (finish d) = wget_run purl bs ws"
proof (induction bs arbitrary: off ws)
  case (Cons b bs)
  have d: "drop (off + 1) d = bs" "(off + 1) + length bs = length d"
    using Cons.prems(2,3) by (simp_all add: drop_Suc tl_drop [symmetric])
  show ?case
  proof (cases "put_line b ws")
    case (Ret ws1)
    note st = put_line_state [OF Ret]
    have go: "obind (wget_parseheaders purl bs (off + 1) ws') (finish d) = wget_run purl bs ws'"
      if "w_state ws' = STATE_HEADERS" for ws'
      using Cons.IH [OF that d(2,1)] .
    have data: "wget_run purl bs (ws1\<lparr>w_state := STATE_DATA\<rparr>) = Ret (More, ws1\<lparr>w_state := STATE_DATA\<rparr>, bs)"
      if "w_status ws1 \<noteq> HTTPSTATUS_MOVED"
      by (rule run_data) (use that in simp_all)
    show ?thesis
      using Cons.prems(1) Ret st go d data
      by (auto simp: wget_byte_def header_byte_def finish_def)
  qed (use Cons.prems in \<open>simp add: wget_byte_def header_byte_def\<close>)
qed (simp add: finish_def)

lemma starts_nth: "starts s line \<Longrightarrow> i < length s \<Longrightarrow> i < length line \<and> line ! i = of_char (s ! i)"
proof -
  assume s: "starts s line" and i: "i < length s"
  then have "length (take (length s) line) = length s" by (simp add: starts_def bytes_of_def)
  moreover have "take (length s) line ! i = bytes_of s ! i" using s by (simp add: starts_def)
  ultimately show ?thesis using i by (auto simp: bytes_of_def)
qed

lemma http_line:
  assumes "starts ''HTTP/1.0'' line \<or> starts ''HTTP/1.1'' line"
  shows "\<forall>i<8. line ! i \<noteq> 0" and "line ! 0 = 72"
proof -
  show "\<forall>i<8. line ! i \<noteq> 0"
  proof (intro allI impI)
    fix i :: nat assume "i < 8"
    then have "i \<in> {0, 1, 2, 3, 4, 5, 6, 7}" by auto
    with assms show "line ! i \<noteq> 0"
      using starts_nth [of "''HTTP/1.0''" line i] starts_nth [of "''HTTP/1.1''" line i] by auto
  qed
  show "line ! 0 = 72"
    using assms starts_nth [of "''HTTP/1.0''" line 0] starts_nth [of "''HTTP/1.1''" line 0] by auto
qed

text \<open>The newline of the status line is looked at again by the header parser.\<close>

lemma header_after_status:
  assumes "w_line ws1 ! w_ndx ws1 = ISO_nl" and "w_ndx ws1 < length (w_line ws1)"
    and http: "starts ''HTTP/1.0'' ((w_line ws1)[w_ndx ws1 := 0]) \<or> starts ''HTTP/1.1'' ((w_line ws1)[w_ndx ws1 := 0])"
  shows "header_byte purl ISO_nl (ws1\<lparr>w_line := (w_line ws1)[w_ndx ws1 := 0], w_status := st, w_state := STATE_HEADERS\<rparr>)
     = Ret (More, ws1\<lparr>w_line := (w_line ws1)[w_ndx ws1 - 1 := 0], w_status := st,
                     w_state := STATE_HEADERS, w_ndx := 0\<rparr>, [])"
proof -
  have "8 \<le> w_ndx ws1"
    using http_line(1) [OF http] assms(2) by (metis not_less nth_list_update_eq)
  then have h0: "w_line ws1 ! 0 = 72" using http_line(2) [OF http] by (simp add: nth_list_update)
  have l: "(w_line ws1)[w_ndx ws1 := 0, w_ndx ws1 := ISO_nl] = w_line ws1"
    using assms(1) by (metis list_update_id list_update_overwrite)
  have l': "(w_line ws1)[w_ndx ws1 := ISO_nl] = w_line ws1" using assms(1) by (metis list_update_id)
  have "map lower (take 10 ((w_line ws1)[w_ndx ws1 - 1 := 0])) \<noteq> bytes_of ''location: ''"
  proof
    assume eq: "map lower (take 10 ((w_line ws1)[w_ndx ws1 - 1 := 0])) = bytes_of ''location: ''"
    have "w_line ws1 \<noteq> []" using assms(2) by auto
    then have "map lower (take 10 ((w_line ws1)[w_ndx ws1 - 1 := 0])) ! 0 = lower 72"
      using h0 \<open>8 \<le> w_ndx ws1\<close> by (simp add: nth_list_update)
    then show False unfolding eq by (simp add: lower_def bytes_of_def)
  qed
  then show ?thesis
    using assms(2) h0 \<open>8 \<le> w_ndx ws1\<close>
    by (simp add: header_byte_def put_line_def l l' header_line_def ISO_cr_def nth_list_update)
qed

definition status_then :: "url_parser \<Rightarrow> bytes \<Rightarrow> bool \<times> wget_s \<times> nat \<Rightarrow> (verdict \<times> wget_s \<times> bytes) outcome" where
  "status_then purl d = (\<lambda>(ok, ws, off).
     if \<not> ok then Ret (Abort, ws, [])
     else obind (if w_state ws = STATE_HEADERS then wget_parseheaders purl (drop off d) off ws else Ret (ws, off))
            (finish d))"

lemma parsestatus_run:
  "w_state ws = STATE_STATUSLINE \<Longrightarrow> off + length bs = length d \<Longrightarrow> drop off d = bs \<Longrightarrow>
     obind (wget_parsestatus bs off ws) (status_then purl d) = wget_run purl bs ws"
proof (induction bs arbitrary: off ws)
  case (Cons b bs)
  have d: "drop (off + 1) d = bs" "(off + 1) + length bs = length d"
    using Cons.prems(2,3) by (simp_all add: drop_Suc tl_drop [symmetric])
  show ?case
  proof (cases "put_line b ws")
    case (Ret ws1)
    note st = put_line_state [OF Ret]
    have ws1: "w_line ws1 ! w_ndx ws1 = b \<and> w_ndx ws1 < length (w_line ws1)"
      using Ret by (auto simp: put_line_def split: if_splits)
    show ?thesis
    proof (cases "b = ISO_nl")
      case False
      then show ?thesis
        using Cons.IH [of "ws1\<lparr>w_ndx := w_ndx ws1 + 1\<rparr>", OF _ d(2,1)] Cons.prems(1) Ret st
        by (simp add: wget_byte_def status_byte_def)
    next
      case True
      let ?l = "(w_line ws1)[w_ndx ws1 := 0]"
      let ?ws = "ws1\<lparr>w_line := ?l, w_status := status_of ?l, w_state := STATE_HEADERS\<rparr>"
      have "obind (wget_parseheaders purl (b # bs) off ?ws) (finish d) = wget_run purl (b # bs) ?ws"
        by (rule parseheaders_run) (use Cons.prems in simp_all)
      then show ?thesis
        using True Cons.prems Ret st ws1 header_after_status [of ws1 purl "status_of ?l"]
        by (auto simp: wget_byte_def status_byte_def status_then_def Let_def simp del: wget_parseheaders.simps)
    qed
  qed (use Cons.prems in \<open>simp add: wget_byte_def status_byte_def\<close>)
qed (simp add: status_then_def finish_def)

lemma block_run:
  assumes "d \<noteq> []"
  shows "block_result purl d ws = wget_run purl d ws"
proof -
  have b: "block_result purl d ws = obind (if w_state ws = STATE_STATUSLINE then wget_parsestatus d 0 ws
      else Ret (True, ws, 0)) (status_then purl d)"
  proof -
    have fin: "obind (case y of (ws2, off2) \<Rightarrow>
         if w_state ws2 = STATE_DATA then
           if w_status ws2 \<noteq> HTTPSTATUS_MOVED then Ret (More, ws2, Some (drop off2 d)) else Ret (Redirect, ws2, None)
         else Ret (More, ws2, None))
        (\<lambda>(v, ws1, data). Ret (v, ws1, case data of None \<Rightarrow> [] | Some x \<Rightarrow> x)) = finish d y" for y
      by (cases y) (auto simp: finish_def)
    have "obind (case x of (ok, ws1, off1) \<Rightarrow>
         if \<not> ok then Ret (Abort, ws1, None)
         else obind (if w_state ws1 = STATE_HEADERS then wget_parseheaders purl (drop off1 d) off1 ws1
                     else Ret (ws1, off1)) (\<lambda>(ws2, off2).
           if w_state ws2 = STATE_DATA then
             if w_status ws2 \<noteq> HTTPSTATUS_MOVED then Ret (More, ws2, Some (drop off2 d)) else Ret (Redirect, ws2, None)
           else Ret (More, ws2, None)))
        (\<lambda>(v, ws1, data). Ret (v, ws1, case data of None \<Rightarrow> [] | Some x \<Rightarrow> x)) = status_then purl d x" for x
      by (cases x) (simp add: status_then_def obind_assoc fin)
    then show ?thesis by (simp only: block_result_def wget_block_def obind_assoc)
  qed
  show ?thesis
  proof (cases "w_state ws")
    case STATE_STATUSLINE
    then show ?thesis using b parsestatus_run [of ws 0 d d purl] by simp
  next
    case STATE_HEADERS
    then show ?thesis using b parseheaders_run [of ws 0 d d purl] by (simp add: status_then_def)
  next
    case STATE_DATA
    then show ?thesis using b run_data [of ws purl d] assms
      by (cases d) (auto simp: status_then_def finish_def wget_byte_def)
  next
    case STATE_CLOSE
    then have "wget_run purl d ws = Ret (More, ws, [])" by (induction d) (simp_all add: wget_byte_def)
    with STATE_CLOSE b show ?thesis by (simp add: status_then_def finish_def)
  qed
qed

lemma feed_run: "[] \<notin> set ds \<Longrightarrow> wget_feed purl ds ws = wget_run purl (concat ds) ws"
proof (induction ds arbitrary: ws)
  case (Cons d ds)
  then have "wget_feed purl ds = wget_run purl (concat ds)" by (intro ext) simp
  moreover have "d \<noteq> []" using Cons.prems by auto
  ultimately show ?case by (simp add: block_run wget_run_append)
qed simp

subsection \<open>Lines\<close>

definition in_line :: "wget_s \<Rightarrow> bool" where
  "in_line ws \<longleftrightarrow> w_state ws = STATE_STATUSLINE \<or> w_state ws = STATE_HEADERS"

lemma byte_in_line:
  assumes "in_line ws" and "b \<noteq> ISO_nl"
  shows "wget_byte purl b ws =
    (if w_ndx ws < length (w_line ws)
     then Ret (More, ws\<lparr>w_line := (w_line ws)[w_ndx ws := b], w_ndx := w_ndx ws + 1\<rparr>, []) else Ub OutOfBounds)"
  using assms by (auto simp: in_line_def wget_byte_def status_byte_def header_byte_def put_line_def)

lemma run_text:
  "in_line ws \<Longrightarrow> ISO_nl \<notin> set xs \<Longrightarrow> w_ndx ws + length xs \<le> length (w_line ws) \<Longrightarrow>
     wget_run purl xs ws = Ret (More, ws\<lparr>w_line := take (w_ndx ws) (w_line ws) @ xs
       @ drop (w_ndx ws + length xs) (w_line ws), w_ndx := w_ndx ws + length xs\<rparr>, [])"
proof (induction xs arbitrary: ws)
  case (Cons x xs)
  let ?ws = "ws\<lparr>w_line := (w_line ws)[w_ndx ws := x], w_ndx := w_ndx ws + 1\<rparr>"
  have n: "w_ndx ws < length (w_line ws)" using Cons.prems(3) by simp
  have "take (w_ndx ws + 1) ((w_line ws)[w_ndx ws := x]) = take (w_ndx ws) (w_line ws) @ [x]"
    using n by (simp add: take_Suc_conv_app_nth)
  then show ?case
    using Cons.IH [of ?ws] Cons.prems n by (auto simp: byte_in_line in_line_def)
qed simp

lemma run_overflow:
  "in_line ws \<Longrightarrow> ISO_nl \<notin> set xs \<Longrightarrow> length (w_line ws) < w_ndx ws + length xs \<Longrightarrow>
     w_ndx ws \<le> length (w_line ws) \<Longrightarrow> wget_run purl xs ws = Ub OutOfBounds"
proof (induction xs arbitrary: ws)
  case (Cons x xs)
  let ?ws = "ws\<lparr>w_line := (w_line ws)[w_ndx ws := x], w_ndx := w_ndx ws + 1\<rparr>"
  have "x \<noteq> ISO_nl" using Cons.prems(2) by auto
  note byte = byte_in_line [OF Cons.prems(1) this, of purl]
  show ?case
  proof (cases "w_ndx ws < length (w_line ws)")
    case True
    with Cons.prems have "wget_run purl xs ?ws = Ub OutOfBounds"
      by (intro Cons.IH) (simp_all add: in_line_def)
    with True byte show ?thesis by simp
  qed (use byte in simp)
qed simp

text \<open>What stays the same while headers are read.\<close>

definition reading :: "wget_s \<Rightarrow> http_status \<Rightarrow> web_conn \<Rightarrow> bool" where
  "reading ws st cn \<longleftrightarrow> w_state ws = STATE_HEADERS \<and> w_ndx ws = 0 \<and> length (w_line ws) = MAXHTTPLINE
     \<and> w_status ws = st \<and> w_conn ws = cn"

lemma header_line_conn [simp]: "w_conn (header_line purl ws) = w_conn ws"
  by (simp add: header_line_def case_prod_beta)

lemma run_header:
  assumes "reading ws st cn" and "ISO_nl \<notin> set h" and "length h < MAXHTTPLINE" and "take 1 h \<noteq> [ISO_cr]"
  shows "\<exists>ws'. wget_run purl (h @ [ISO_nl]) ws = Ret (More, ws', []) \<and> reading ws' st cn"
proof -
  note r = assms(1) [unfolded reading_def]
  let ?ws = "ws\<lparr>w_line := h @ drop (length h) (w_line ws), w_ndx := length h\<rparr>"
  have run: "wget_run purl h ws = Ret (More, ?ws, [])"
    using run_text [of ws h purl] r assms(2,3) by (simp add: in_line_def)
  have "h \<noteq> [] \<Longrightarrow> h ! 0 \<noteq> ISO_cr" using assms(4) by (cases h) auto
  then have "\<exists>ws'. wget_byte purl ISO_nl ?ws = Ret (More, ws', []) \<and> reading ws' st cn"
    using r assms(3) by (auto simp: wget_byte_def header_byte_def put_line_def reading_def nth_append list_update_append)
  with run show ?thesis by (auto simp: wget_run_append)
qed

lemma run_headers:
  assumes "reading ws st cn" and "\<forall>h\<in>set hs. ISO_nl \<notin> set h \<and> length h < MAXHTTPLINE \<and> take 1 h \<noteq> [ISO_cr]"
  shows "\<exists>ws'. wget_run purl (concat (map (\<lambda>h. h @ [ISO_nl]) hs)) ws = Ret (More, ws', []) \<and> reading ws' st cn"
  using assms
proof (induction hs arbitrary: ws)
  case (Cons h hs)
  obtain ws1 where h: "wget_run purl (h @ [ISO_nl]) ws = Ret (More, ws1, [])" "reading ws1 st cn"
    using run_header [OF Cons.prems(1), of h purl] Cons.prems(2) by auto
  from Cons.IH [OF h(2)] Cons.prems(2) obtain ws2
    where "wget_run purl (concat (map (\<lambda>h. h @ [ISO_nl]) hs)) ws1 = Ret (More, ws2, [])" "reading ws2 st cn"
    by auto
  moreover have "wget_run purl (concat (map (\<lambda>h. h @ [ISO_nl]) (h # hs))) ws
      = after (wget_run purl (h @ [ISO_nl]) ws) (wget_run purl (concat (map (\<lambda>h. h @ [ISO_nl]) hs)))"
    by (simp only: list.map concat.simps wget_run_append)
  ultimately show ?case using h(1) by simp
qed simp

lemma run_status:
  assumes "w_state ws = STATE_STATUSLINE" and "w_ndx ws = 0" and "length (w_line ws) = MAXHTTPLINE"
    and "ISO_nl \<notin> set sl" and "length sl < MAXHTTPLINE" and "13 \<le> length sl"
    and "starts ''HTTP/1.0'' sl \<or> starts ''HTTP/1.1'' sl"
  shows "\<exists>ws'. wget_run purl (sl @ [ISO_nl]) ws = Ret (More, ws', []) \<and> reading ws' (status_of sl) (w_conn ws)"
proof -
  let ?ws = "ws\<lparr>w_line := sl @ drop (length sl) (w_line ws), w_ndx := length sl\<rparr>"
  have run: "wget_run purl sl ws = Ret (More, ?ws, [])"
    using run_text [of ws sl purl] assms by (simp add: in_line_def)
  have "starts s (sl @ rest) = starts s sl" if "length s \<le> length sl" for s rest
    using that by (simp add: starts_def)
  moreover have "starts s (drop 9 (sl @ rest)) = starts s (drop 9 sl)" if "length s = 4" for s rest
    using that assms(6) by (simp add: starts_def)
  ultimately have "\<exists>ws'. wget_byte purl ISO_nl ?ws = Ret (More, ws', []) \<and> reading ws' (status_of sl) (w_conn ws)"
    using assms by (auto simp: wget_byte_def status_byte_def put_line_def reading_def list_update_append
        status_of_def Let_def simp del: drop_append)
  with run show ?thesis by (auto simp: wget_run_append)
qed

text \<open>A response: status line, header lines, the empty line and the body.\<close>

definition response :: "bytes \<Rightarrow> bytes list \<Rightarrow> bytes \<Rightarrow> bytes" where
  "response sl hs body = sl @ [ISO_nl] @ concat (map (\<lambda>h. h @ [ISO_nl]) hs) @ [ISO_cr, ISO_nl] @ body"

definition good_response :: "bytes \<Rightarrow> bytes list \<Rightarrow> bool" where
  "good_response sl hs \<longleftrightarrow> ISO_nl \<notin> set sl \<and> 13 \<le> length sl \<and> length sl < MAXHTTPLINE
     \<and> (starts ''HTTP/1.0'' sl \<or> starts ''HTTP/1.1'' sl)
     \<and> (\<forall>h\<in>set hs. ISO_nl \<notin> set h \<and> length h < MAXHTTPLINE \<and> take 1 h \<noteq> [ISO_cr])"

definition awaiting :: "wget_s \<Rightarrow> bool" where
  "awaiting ws \<longleftrightarrow> w_state ws = STATE_STATUSLINE \<and> w_ndx ws = 0 \<and> length (w_line ws) = MAXHTTPLINE"

lemma run_blank:
  assumes "reading ws st cn"
  shows "\<exists>ws'. wget_run purl [ISO_cr, ISO_nl] ws = Ret (if st = HTTPSTATUS_MOVED then Redirect else More, ws', [])
     \<and> w_state ws' = STATE_DATA \<and> w_status ws' = st \<and> w_conn ws' = cn \<and> length (w_line ws') = MAXHTTPLINE"
proof -
  have "ISO_cr \<noteq> ISO_nl" by (simp add: ISO_cr_def ISO_nl_def)
  then show ?thesis using assms
    by (auto simp: wget_byte_def header_byte_def put_line_def reading_def MAXHTTPLINE_def nth_list_update)
qed

lemma run_response:
  assumes "awaiting ws" and "good_response sl hs"
  shows "\<exists>ws'. wget_run purl (response sl hs body) ws
     = (if status_of sl = HTTPSTATUS_MOVED then Ret (Redirect, ws', []) else Ret (More, ws', body))
     \<and> w_conn ws' = w_conn ws \<and> length (w_line ws') = MAXHTTPLINE"
proof -
  note a = assms(1) [unfolded awaiting_def] and g = assms(2) [unfolded good_response_def]
  have "\<exists>ws1. wget_run purl (sl @ [ISO_nl]) ws = Ret (More, ws1, []) \<and> reading ws1 (status_of sl) (w_conn ws)"
    by (intro run_status) (use a g in simp_all)
  then obtain ws1 where 1: "wget_run purl (sl @ [ISO_nl]) ws = Ret (More, ws1, [])"
    "reading ws1 (status_of sl) (w_conn ws)" by blast
  obtain ws2 where 2: "wget_run purl (concat (map (\<lambda>h. h @ [ISO_nl]) hs)) ws1 = Ret (More, ws2, [])"
    "reading ws2 (status_of sl) (w_conn ws)" using run_headers [OF 1(2), of hs purl] g by blast
  obtain ws3 where 3: "wget_run purl [ISO_cr, ISO_nl] ws2
      = Ret (if status_of sl = HTTPSTATUS_MOVED then Redirect else More, ws3, [])"
    "w_state ws3 = STATE_DATA" "w_status ws3 = status_of sl" "w_conn ws3 = w_conn ws"
    "length (w_line ws3) = MAXHTTPLINE"
    using run_blank [OF 2(2), of purl] by blast
  have "response sl hs body = (sl @ [ISO_nl]) @ (concat (map (\<lambda>h. h @ [ISO_nl]) hs) @ ([ISO_cr, ISO_nl] @ body))"
    by (simp add: response_def)
  then have "wget_run purl (response sl hs body) ws = after (wget_run purl (sl @ [ISO_nl]) ws)
      (wget_run purl (concat (map (\<lambda>h. h @ [ISO_nl]) hs) @ ([ISO_cr, ISO_nl] @ body)))"
    by (simp only: wget_run_append)
  also have "\<dots> = wget_run purl (concat (map (\<lambda>h. h @ [ISO_nl]) hs) @ ([ISO_cr, ISO_nl] @ body)) ws1"
    unfolding 1(1) by simp
  also have "\<dots> = wget_run purl ([ISO_cr, ISO_nl] @ body) ws2"
    unfolding wget_run_append [of purl "concat (map (\<lambda>h. h @ [ISO_nl]) hs)"] 2(1) by simp
  also have "\<dots> = after (wget_run purl [ISO_cr, ISO_nl] ws2) (wget_run purl body)"
    by (rule wget_run_append)
  also have "\<dots> = (if status_of sl = HTTPSTATUS_MOVED then Ret (Redirect, ws3, []) else Ret (More, ws3, body))"
    unfolding 3(1) using run_data [of ws3 purl body] 3(2,3) by simp
  finally show ?thesis using 3 by blast
qed

subsection \<open>Transfers\<close>

text \<open>The data the application was handed, and a peer that sends the blocks \<open>ds\<close> and closes.\<close>

definition streamed :: "world \<Rightarrow> bytes" where
  "streamed w = concat (map (\<lambda>c. case c of StreamCallback d \<Rightarrow> d | _ \<Rightarrow> []) (hist w))"

definition recvs :: "int \<Rightarrow> xcall list \<Rightarrow> nat" where
  "recvs fd h = length (filter (\<lambda>c. case c of Recv fd' n \<Rightarrow> fd' = fd | _ \<Rightarrow> False) h)"

definition serves :: "(xcall list \<Rightarrow> xcall \<Rightarrow> answer) \<Rightarrow> int \<Rightarrow> nat \<Rightarrow> nat \<Rightarrow> bytes list \<Rightarrow> bool" where
  "serves e fd n k ds \<longleftrightarrow> (\<forall>d\<in>set ds. d \<noteq> [] \<and> length d \<le> n) \<and>
     (\<forall>h. k \<le> recvs fd h \<longrightarrow>
        (if recvs fd h - k < length ds
         then retv (e h (Recv fd n)) = int (length (ds ! (recvs fd h - k))) \<and> outb (e h (Recv fd n)) = ds ! (recvs fd h - k)
         else retv (e h (Recv fd n)) = 0))"

lemma streamed_xc [simp]:
  "streamed (snd (xc (Recv fd n) w)) = streamed w" "streamed (xcu (Close fd) w) = streamed w"
  "streamed (handed data w) = streamed w @ (case data of None \<Rightarrow> [] | Some d \<Rightarrow> d)"
  by (auto simp: streamed_def handed_def split: option.split)

lemma recvs_simps [simp]:
  "recvs fd (h @ [Recv fd n]) = recvs fd h + 1" "recvs fd (h @ [StreamCallback d]) = recvs fd h"
  by (simp_all add: recvs_def)

lemma recvs_handed [simp]: "recvs fd (hist (handed data w)) = recvs fd (hist w)" "env (handed data w) = env w"
  by (auto simp: handed_def split: option.split)

lemma serves_Cons:
  assumes "serves e fd n k (d # ds)"
  shows "serves e fd n (k + 1) ds"
proof -
  have "recvs fd h - k < Suc (length ds) \<longleftrightarrow> recvs fd h - (k + 1) < length ds"
    "(d # ds) ! (recvs fd h - k) = ds ! (recvs fd h - (k + 1))" if "k + 1 \<le> recvs fd h" for h
    using that by (auto simp: nth_Cons')
  with assms show ?thesis by (simp add: serves_def)
qed

lemma serves_now:
  assumes "serves e fd n (recvs fd h) ds"
  shows "ds = [] \<Longrightarrow> retv (e h (Recv fd n)) = 0"
    and "ds = d # ds' \<Longrightarrow> retv (e h (Recv fd n)) = int (length d) \<and> outb (e h (Recv fd n)) = d \<and> d \<noteq> []"
  using assms by (auto simp: serves_def)

fun end_of :: "verdict \<Rightarrow> recv_end" where
  "end_of More = Lost" | "end_of Abort = Failure" | "end_of Redirect = Moved"

lemma byte_conn: "wget_byte purl b ws = Ret (v, ws', out) \<Longrightarrow> w_conn ws' = w_conn ws"
  by (auto simp: wget_byte_def status_byte_def header_byte_def put_line_def Let_def
      split: web_state.splits if_splits)

lemma run_conn: "wget_run purl xs ws = Ret (v, ws', out) \<Longrightarrow> w_conn ws' = w_conn ws"
proof (induction xs arbitrary: ws v ws' out)
  case (Cons x xs)
  show ?case
  proof (cases "wget_byte purl x ws" rule: result_cases)
    case (More ws1 o1)
    with Cons.prems obtain o2 where "wget_run purl xs ws1 = Ret (v, ws', o2)"
      by (cases "wget_run purl xs ws1") auto
    with Cons.IH byte_conn [OF More] show ?thesis by simp
  qed (use Cons.prems byte_conn in auto)
qed simp

lemma transfer_feed:
  assumes "w_conn ws = RawConn fd" and "serves (env w) fd n (recvs fd (hist w)) ds"
  shows "case wget_feed purl ds ws of
       Ub f \<Rightarrow> wget_transfer purl n ws w = ub f
     | Ret (v, ws', out) \<Rightarrow> \<exists>w'. wget_transfer purl n ws w = ret (end_of v, ws', w') \<and> streamed w' = streamed w @ out"
  using assms
proof (induction ds arbitrary: ws w)
  case Nil
  then show ?case
    using serves_now(1) [OF Nil(2)] by (subst wget_transfer.simps) (simp add: ret_def [symmetric] case_prod_beta Let_def)
next
  case (Cons d ds)
  note now = serves_now(2) [OF Cons.prems(2) refl]
  let ?w1 = "snd (xc (Recv fd n) w)"
  have t: "wget_transfer purl n ws w = rbind (Some (wget_block purl d ws)) (\<lambda>(v, ws1, data).
      case v of Abort \<Rightarrow> ret (Failure, ws1, ?w1) | Redirect \<Rightarrow> ret (Moved, ws1, conn_close (w_conn ws1) ?w1)
      | More \<Rightarrow> wget_transfer purl n ws1 (handed data ?w1))"
    using now Cons.prems(1) by (subst wget_transfer.simps) (simp add: ret_def [symmetric] case_prod_beta Let_def)
  show ?case
  proof (cases "wget_block purl d ws")
    case (Ub f)
    then show ?thesis by (simp add: t block_result_def ub_def [symmetric])
  next
    case (Ret x)
    obtain v ws1 data where x: "x = (v, ws1, data)" by (cases x)
    let ?o = "case data of None \<Rightarrow> [] | Some d \<Rightarrow> d"
    have b: "block_result purl d ws = Ret (v, ws1, ?o)" using Ret x by (simp add: block_result_def)
    have conn: "w_conn ws1 = RawConn fd"
      using run_conn [of purl d ws] b block_run [of d purl ws] now Cons.prems(1) by simp
    have t': "wget_transfer purl n ws w = (case v of Abort \<Rightarrow> ret (Failure, ws1, ?w1)
        | Redirect \<Rightarrow> ret (Moved, ws1, conn_close (w_conn ws1) ?w1) | More \<Rightarrow> wget_transfer purl n ws1 (handed data ?w1))"
      using t Ret x by (simp add: ret_def [symmetric])
    show ?thesis
    proof (cases v)
      case More
      have "serves (env (handed data ?w1)) fd n (recvs fd (hist (handed data ?w1))) ds"
        using serves_Cons [OF Cons.prems(2)] by simp
      from Cons.IH [OF conn this] More t' b show ?thesis
        by (cases "wget_feed purl ds ws1") (auto split: prod.splits)
    next
      case Abort
      then show ?thesis using t' b by (auto simp: block_result_def wget_block_def obind_eq_Ret
          split: option.splits if_splits)
    next
      case Redirect
      then show ?thesis using t' b conn by (auto simp: block_result_def wget_block_def obind_eq_Ret
          split: option.splits if_splits)
    qed
  qed
qed

text \<open>C15. How the response is split into blocks does not matter: a transfer ends, and hands on the data,
  exactly as the automaton that reads the bytes of the whole response one at a time says.\<close>

theorem wget_transfer_is_bytewise:
  assumes "w_conn ws = RawConn fd" and "serves (env w) fd n (recvs fd (hist w)) ds"
  shows "case wget_run purl (concat ds) ws of
       Ub f \<Rightarrow> wget_transfer purl n ws w = ub f
     | Ret (v, ws', out) \<Rightarrow> \<exists>w'. wget_transfer purl n ws w = ret (end_of v, ws', w') \<and> streamed w' = streamed w @ out"
proof -
  have "[] \<notin> set ds" using assms(2) by (auto simp: serves_def)
  then show ?thesis using transfer_feed [OF assms, of purl] feed_run [of ds purl ws] by simp
qed

definition served_env :: "bytes list \<Rightarrow> xcall list \<Rightarrow> xcall \<Rightarrow> answer" where
  "served_env ds h c = (case c of
      Recv fd n \<Rightarrow> if recvs fd h < length ds
         then \<lparr>retv = int (length (ds ! recvs fd h)), errno = 0, oval = 0, outb = ds ! recvs fd h\<rparr>
         else \<lparr>retv = 0, errno = 0, oval = 0, outb = []\<rparr>
    | _ \<Rightarrow> good_env h c)"

lemma serves_served: "\<forall>d\<in>set ds. d \<noteq> [] \<and> length d \<le> n \<Longrightarrow> serves (served_env ds) fd n 0 ds"
  by (simp add: serves_def served_env_def)

definition ok_line :: bytes where "ok_line = bytes_of ''HTTP/1.1 200 OK'' @ [ISO_cr]"

definition ok_headers :: "bytes list" where
  "ok_headers = [bytes_of ''Server: nginx'' @ [ISO_cr], bytes_of ''Content-Length: 5'' @ [ISO_cr]]"

lemma ok_response: "good_response ok_line ok_headers" "status_of ok_line \<noteq> HTTPSTATUS_MOVED"
  by (simp_all add: good_response_def ok_line_def ok_headers_def ISO_nl_def ISO_cr_def bytes_of_def starts_def
      MAXHTTPLINE_def status_of_def Let_def)

definition ready :: wget_s where "ready = wget_init\<lparr>w_conn := RawConn 3\<rparr>"

lemma ready_awaiting: "awaiting ready" "w_conn ready = RawConn 3"
  by (simp_all add: ready_def awaiting_def wget_init_def)

theorem wget_transfer_is_bytewise_witness:
  "\<exists>ws' w'. wget_transfer (\<lambda>u c. (0, c)) 64 ready \<lparr>hist = [], env = served_env [[72], [84, 84]]\<rparr>
     = ret (Lost, ws', w')"
proof -
  let ?w = "\<lparr>hist = [], env = served_env [[72], [84, 84]]\<rparr>"
  have "serves (env ?w) 3 64 (recvs 3 (hist ?w)) [[72], [84, 84]]"
    using serves_served [of "[[72], [84, 84]]" 64 3] by (simp add: recvs_def)
  note t = wget_transfer_is_bytewise [OF ready_awaiting(2) this, of "\<lambda>u c. (0, c)"]
  have "\<exists>r. wget_run (\<lambda>u c. (0, c)) [72, 84, 84] ready = Ret (More, r, [])"
    using run_text [of ready "[72, 84, 84]"]
    by (simp add: ready_def wget_init_def in_line_def ISO_nl_def MAXHTTPLINE_def del: wget_run.simps)
  with t show ?thesis by (auto simp del: wget_run.simps)
qed

text \<open>C16. A response of a status line, header lines shorter than the line buffer and a body, in whatever
  blocks it arrives, ends the transfer when the peer closes, with exactly the body handed to the
  application; the status matters only if it is a redirection.\<close>

theorem wget_delivers_the_body:
  assumes "awaiting ws" and "w_conn ws = RawConn fd" and "serves (env w) fd n (recvs fd (hist w)) ds"
    and "concat ds = response sl hs body" and "good_response sl hs" and "status_of sl \<noteq> HTTPSTATUS_MOVED"
  shows "\<exists>ws' w'. wget_transfer purl n ws w = ret (Lost, ws', w') \<and> streamed w' = streamed w @ body"
proof -
  have ne: "[] \<notin> set ds" using assms(3) by (auto simp: serves_def)
  obtain ws' where "wget_run purl (concat ds) ws = Ret (More, ws', body)"
    using run_response [OF assms(1,5), of purl body] assms(4,6) by auto
  then show ?thesis using transfer_feed [OF assms(2,3), of purl] feed_run [OF ne, of purl ws] by auto
qed

theorem wget_delivers_the_body_witness:
  "\<exists>ws' w'. wget_transfer (\<lambda>u c. (0, c)) 512 ready \<lparr>hist = [], env = served_env
       [take 20 (response ok_line ok_headers [1, 2, 3, 4, 5]), drop 20 (response ok_line ok_headers [1, 2, 3, 4, 5])]\<rparr>
     = ret (Lost, ws', w') \<and> streamed w' = [1, 2, 3, 4, 5]"
proof -
  let ?r = "response ok_line ok_headers [1, 2, 3, 4, 5]" and ?ds = "[take 20 (response ok_line ok_headers [1, 2, 3, 4, 5]), drop 20 (response ok_line ok_headers [1, 2, 3, 4, 5])]"
  let ?w = "\<lparr>hist = [], env = served_env ?ds\<rparr>"
  have "length ?r = 58" by (simp add: response_def ok_line_def ok_headers_def bytes_of_def)
  then have "\<forall>d\<in>set ?ds. d \<noteq> [] \<and> length d \<le> 512" by auto
  then have "serves (env ?w) 3 512 (recvs 3 (hist ?w)) ?ds"
    using serves_served [of ?ds 512 3] by (simp add: recvs_def)
  moreover have "concat ?ds = ?r" by (simp only: concat.simps append_Nil2 append_take_drop_id)
  ultimately show ?thesis
    using wget_delivers_the_body [OF ready_awaiting _ _ ok_response, of ?w 512 ?ds "[1, 2, 3, 4, 5]" "\<lambda>u c. (0, c)"]
    by (simp add: streamed_def)
qed

text \<open>A peer that sends more than 600 bytes without a newline makes the client write past its line
  buffer.\<close>

theorem wget_long_line_overflows:
  assumes "awaiting ws" and "w_conn ws = RawConn fd" and "serves (env w) fd n (recvs fd (hist w)) ds"
    and "concat ds = xs @ ys" and "ISO_nl \<notin> set xs" and "600 < length xs"
  shows "wget_transfer purl n ws w = ub OutOfBounds"
proof -
  have ne: "[] \<notin> set ds" using assms(3) by (auto simp: serves_def)
  have "wget_run purl xs ws = Ub OutOfBounds"
    using assms(1,5,6) by (intro run_overflow) (simp_all add: awaiting_def in_line_def MAXHTTPLINE_def)
  then have "wget_run purl (concat ds) ws = Ub OutOfBounds" by (simp add: assms(4) wget_run_append)
  then show ?thesis using transfer_feed [OF assms(2,3), of purl] feed_run [OF ne, of purl ws] by simp
qed

theorem wget_long_line_overflows_witness:
  "wget_transfer (\<lambda>u c. (0, c)) 1024 ready \<lparr>hist = [], env = served_env [replicate 601 65]\<rparr> = ub OutOfBounds"
proof -
  let ?w = "\<lparr>hist = [], env = served_env [replicate 601 65]\<rparr>"
  have "serves (env ?w) 3 1024 (recvs 3 (hist ?w)) [replicate 601 65]"
    using serves_served [of "[replicate 601 65]" 1024 3] by (simp add: recvs_def)
  from wget_long_line_overflows [OF ready_awaiting this, of "replicate 601 65" "[]"]
  show ?thesis by (simp add: ISO_nl_def)
qed

subsection \<open>Descriptors\<close>

lemma block_conn: "wget_block purl d ws = Ret (v, ws', data) \<Longrightarrow> d \<noteq> [] \<Longrightarrow> w_conn ws' = w_conn ws"
proof -
  assume b: "wget_block purl d ws = Ret (v, ws', data)" and d: "d \<noteq> []"
  from b have "block_result purl d ws = Ret (v, ws', case data of None \<Rightarrow> [] | Some x \<Rightarrow> x)"
    by (simp add: block_result_def)
  then show ?thesis unfolding block_run [OF d] by (rule run_conn)
qed

definition closed_after :: "int \<Rightarrow> recv_end \<Rightarrow> world \<Rightarrow> world \<Rightarrow> bool" where
  "closed_after fd e w w' \<longleftrightarrow> opened w' = (if e = Failure then opened w else remove1 fd (opened w))"

text \<open>A transfer on a socket closes it, unless it fails.\<close>

lemma opened_handed [simp]: "opened (handed data w) = opened w"
  by (simp add: handed_def fd_neutral_def split: option.split)

lemma transfer_opened:
  assumes "wget_transfer purl n ws w = Some y"
  shows "y = Ret (e, ws', w') \<longrightarrow> w_conn ws = RawConn fd \<longrightarrow> w_conn ws' = RawConn fd \<and> closed_after fd e w w'"
proof (rule wget_transfer.raw_induct [OF _ assms, where P = "\<lambda>purl n ws w y.
    y = Ret (e, ws', w') \<longrightarrow> w_conn ws = RawConn fd \<longrightarrow> w_conn ws' = RawConn fd \<and> closed_after fd e w w'"],
    intro impI, goal_cases)
  case (1 f purl n ws w y)
  let ?a = "env w (hist w) (Recv fd n)" and ?w1 = "snd (xc (Recv fd n) w)"
  let ?d = "take (nat (retv ?a)) (outb ?a)"
  have run: "(if retv ?a < 0 then ret (Failure, ws, ?w1) else if retv ?a = 0 then ret (Lost, ws, xcu (Close fd) ?w1)
      else rbind (Some (wget_block purl ?d ws)) (\<lambda>(v, ws1, data). case v of
          Abort \<Rightarrow> ret (Failure, ws1, ?w1) | Redirect \<Rightarrow> ret (Moved, ws1, conn_close (w_conn ws1) ?w1)
        | More \<Rightarrow> f purl n ws1 (handed data ?w1))) = ret (e, ws', w')"
    using 1(2-4) by (auto simp: ret_def [symmetric] case_prod_beta Let_def split: if_splits)
  show ?case
  proof (cases "retv ?a \<le> 0")
    case True
    with run 1(4) show ?thesis by (auto simp: closed_after_def fd_neutral_def split: if_splits)
  next
    case False
    with run obtain v ws1 data where b: "wget_block purl ?d ws = Ret (v, ws1, data)"
      and k: "(case v of Abort \<Rightarrow> ret (Failure, ws1, ?w1) | Redirect \<Rightarrow> ret (Moved, ws1, conn_close (w_conn ws1) ?w1)
        | More \<Rightarrow> f purl n ws1 (handed data ?w1)) = ret (e, ws', w')"
      by (cases "wget_block purl ?d ws") (auto simp: rbind_def ret_def split: if_splits)
    have c: "w_conn ws1 = RawConn fd"
    proof (cases "?d = []")
      case True
      with b 1(4) show ?thesis
        by (auto simp: wget_block_def split: if_splits)
    next
      case False
      with block_conn [OF b] 1(4) show ?thesis by simp
    qed
    have o: "opened (handed data ?w1) = opened w" by (simp add: fd_neutral_def)
    show ?thesis
    proof (cases v)
      case More
      with k have "f purl n ws1 (handed data ?w1) = Some (Ret (e, ws', w'))" by (simp add: ret_def)
      from 1(1) [OF this] c o show ?thesis by (simp add: closed_after_def)
    qed (use k c in \<open>auto simp: closed_after_def fd_neutral_def\<close>)
  qed
qed

lemma connect_opened:
  assumes "wget_connect n False ws ctx w = ret (r, ws', ctx', w')"
  shows "(r \<noteq> 0 \<longrightarrow> opened w' = opened w)
    \<and> (r = 0 \<longrightarrow> (\<exists>fd. w_conn ws' = RawConn fd \<and> opened w' = fd # opened w))"
  using assms
  by (subst (asm) wget_connect.simps)
    (auto simp: wget_attempt_def connect_errout_def walk_simps EHOSTUNREACH_def split: if_splits)

lemma loop_opened:
  assumes "wget_loop purl agent mode posts buflen tls ws ctx w = Some y"
  shows "\<not> tls \<longrightarrow> y = Ret (r, w') \<longrightarrow> opened w' = opened w \<or> opened w' = 0 # opened w"
proof (rule wget_loop.raw_induct [OF _ assms, where P = "\<lambda>purl agent mode posts buflen tls ws ctx w y.
    \<not> tls \<longrightarrow> y = Ret (r, w') \<longrightarrow> opened w' = opened w \<or> opened w' = 0 # opened w"],
    intro impI, goal_cases)
  case (1 f purl agent mode posts buflen tls ws ctx w y)
  let ?ws = "ws\<lparr>w_status := HTTPSTATUS_NONE, w_ndx := 0\<rparr>"
  from 1(2,4) obtain q ws1 ctx1 w1 where con: "wget_connect HANDSHAKE_RETRY tls ?ws ctx w = ret (q, ws1, ctx1, w1)"
    and k: "(if q \<noteq> 0 then ret (-1, w1)
         else rbind (Some (build_request agent mode posts buflen ws1)) (\<lambda>text.
              rbind (Some (conn_send (w_conn ws1) text w1)) (\<lambda>(s, w2).
                if s < 0 then wget_errout ws1 w2
                else rbind (wget_transfer purl buflen (ws1\<lparr>w_state := STATE_STATUSLINE\<rparr>) w2) (\<lambda>(e, ws2, w3).
                  case e of
                    Failure \<Rightarrow> wget_errout ws2 w3
                  | Lost \<Rightarrow> ret (0, w3)
                  | Moved \<Rightarrow> f purl agent mode posts buflen tls ws2 (if tls then Some (-1) else ctx1) w3)))) = ret (r, w')"
    unfolding ret_def [symmetric] 1(4) by (auto simp: rbind_eq_ret)
  note o = connect_opened [of HANDSHAKE_RETRY ?ws ctx w q ws1 ctx1 w1]
  show ?case
  proof (cases "q = 0")
    case False
    with k o con 1(3) show ?thesis by simp
  next
    case True
    with o con 1(3) obtain fd where fd: "w_conn ws1 = RawConn fd" "opened w1 = fd # opened w" by auto
    with True k obtain req where req: "rbind (Some (conn_send (RawConn fd) req w1)) (\<lambda>(s, w2).
                if s < 0 then wget_errout ws1 w2
                else rbind (wget_transfer purl buflen (ws1\<lparr>w_state := STATE_STATUSLINE\<rparr>) w2) (\<lambda>(e, ws2, w3).
                  case e of
                    Failure \<Rightarrow> wget_errout ws2 w3
                  | Lost \<Rightarrow> ret (0, w3)
                  | Moved \<Rightarrow> f purl agent mode posts buflen tls ws2 (if tls then Some (-1) else ctx1) w3)) = ret (r, w')"
      by (auto simp: rbind_eq_ret)
    let ?s = "retv (env w1 (hist w1) (Send fd req))" and ?w2 = "snd (xcv (Send fd req) w1)"
    have o2: "opened ?w2 = fd # opened w" using fd(2) by (simp add: xcv_def opened_step)
    have err: "opened w' = opened w \<or> opened w' = 0 # opened w"
      if "wget_errout ws' w'' = ret (r, w')" "w_conn ws' = RawConn fd" "opened w'' = fd # opened w" for ws' w''
      using that by (auto simp: wget_errout_def conn_null_def split: if_splits)
    show ?thesis
    proof (cases "?s < 0")
      case True
      with req have "wget_errout ws1 ?w2 = ret (r, w')"
        by (simp add: xcv_def ret_def [symmetric])
      then show ?thesis by (rule err) (use fd o2 in simp_all)
    next
      case False
      with req obtain e ws2 w3 where t: "wget_transfer purl buflen (ws1\<lparr>w_state := STATE_STATUSLINE\<rparr>) ?w2 = ret (e, ws2, w3)"
        and stop: "(case e of Failure \<Rightarrow> wget_errout ws2 w3 | Lost \<Rightarrow> ret (0, w3)
           | Moved \<Rightarrow> f purl agent mode posts buflen tls ws2 (if tls then Some (-1) else ctx1) w3) = ret (r, w')"
        by (auto simp: xcv_def rbind_eq_ret ret_def [symmetric])
      have c: "w_conn ws2 = RawConn fd" "closed_after fd e ?w2 w3"
        using transfer_opened [OF t [unfolded ret_def], of e ws2 w3 fd] fd(1) by simp_all
      show ?thesis
      proof (cases e)
        case Failure
        with stop have "wget_errout ws2 w3 = ret (r, w')" by simp
        then show ?thesis by (rule err) (use c o2 Failure in \<open>simp_all add: closed_after_def\<close>)
      next
        case Lost
        with stop c o2 show ?thesis by (simp add: closed_after_def)
      next
        case Moved
        with stop have "f purl agent mode posts buflen tls ws2 (if tls then Some (-1) else ctx1) w3 = Some (Ret (r, w'))"
          by (simp add: ret_def)
        from 1(1) [OF this] 1(3) c o2 Moved show ?thesis by (simp add: closed_after_def)
      qed
    qed
  qed
qed

text \<open>C17. A request without TLS that returns, after any number of redirections, has closed every socket
  it opened, unless the kernel gave out descriptor 0, which the client takes for none.\<close>

theorem wget_closes_its_sockets:
  assumes "wget_base purl agent url buflen posts mode False w = ret (r, w')"
  shows "opened w' = opened w \<or> opened w' = 0 # opened w"
  using assms loop_opened [of purl agent mode posts buflen False _ None w "Ret (r, w')" r w']
  by (auto simp: wget_base_def case_prod_beta ret_def [symmetric] Let_def split: if_splits)

theorem wget_closes_its_sockets_witness:
  "\<exists>w'. wget_base (\<lambda>u c. (0, 80, bytes_of ''example.org'', bytes_of ''/'')) ''SDK'' [] 512 [] MODE_GET False good_world
     = ret (0, w') \<and> (opened w' = [] \<or> opened w' = [0])"
proof -
  let ?p = "\<lambda>u c. (0, 80, bytes_of ''example.org'', bytes_of ''/'')"
  have "\<exists>w'. wget_base ?p ''SDK'' [] 512 [] MODE_GET False good_world = ret (0, w')"
    by (subst wget_base_def, simp, subst wget_loop.simps, subst wget_connect.simps)
      (simp add: wget_attempt_def walk_simps HANDSHAKE_RETRY_def build_request_def request_text_def crnl_def bytes_of_def
        wget_init_def xcv_def ret_def [symmetric] wget_transfer.simps)
  then obtain w' where "wget_base ?p ''SDK'' [] 512 [] MODE_GET False good_world = ret (0, w')" by blast
  with wget_closes_its_sockets [OF this] show ?thesis by (auto simp: opened_def)
qed

subsection \<open>TLS\<close>

text \<open>When mbed TLS cannot set the session up, the client goes on as if the handshake had succeeded:
  the connection counts as established although no handshake was ever started.\<close>

theorem wget_tls_failure_is_success:
  assumes "\<forall>h. retv (env w h (Socket ''tcp'')) = fd" and "0 \<le> fd"
    and "\<forall>h. retv (env w h (Gethostbyname (w_host ws))) = 2"
    and "\<forall>h a p. retv (env w h (Connect fd a p)) = 0"
    and "\<forall>h. retv (env w h (TlsCall ''mbedtls_ssl_setup'' fd)) \<noteq> 0"
  shows "\<exists>w'. wget_connect n True ws ctx w = ret (0, ws\<lparr>w_conn := TlsConn fd\<rparr>, Some fd, w')
     \<and> TlsCall ''mbedtls_ssl_handshake'' fd \<notin> set (drop (length (hist w)) (hist w'))"
  using assms
  by (subst wget_connect.simps)
    (simp add: wget_attempt_def wget_tls_handshake_def walk_simps split: if_splits)

definition no_tls_world :: world where
  "no_tls_world = \<lparr>hist = [], env = (\<lambda>h c. case c of
     TlsCall f fd \<Rightarrow> \<lparr>retv = if f = ''mbedtls_ssl_setup'' then -0x7F00 else 0, errno = 0, oval = 0, outb = []\<rparr>
   | _ \<Rightarrow> good_env h c)\<rparr>"

theorem wget_tls_failure_is_success_witness:
  "\<exists>w'. wget_connect 3 True wget_init None no_tls_world = ret (0, wget_init\<lparr>w_conn := TlsConn 3\<rparr>, Some 3, w')
     \<and> TlsCall ''mbedtls_ssl_handshake'' 3 \<notin> set (hist w')"
  using wget_tls_failure_is_success [of no_tls_world 3 wget_init 3 None] by (simp add: no_tls_world_def)

subsection \<open>Redirections\<close>

text \<open>\<^verbatim>\<open>netlib_parsehttpurl\<close> keeps to the sizes of the buffers it is given.\<close>

definition fits :: "bytes \<Rightarrow> bytes \<Rightarrow> bool" where
  "fits host file \<longleftrightarrow> length host < 40 \<and> length file < 513"

definition url_fits :: "url_parser \<Rightarrow> bool" where
  "url_fits purl \<longleftrightarrow> (\<forall>u p h f. fits h f \<longrightarrow> (case purl u (p, h, f) of (r, p', h', f') \<Rightarrow> fits h' f'))"

lemma header_line_fits:
  "url_fits purl \<Longrightarrow> fits (w_host ws) (w_file ws)
     \<Longrightarrow> fits (w_host (header_line purl ws)) (w_file (header_line purl ws))"
  by (auto simp: url_fits_def header_line_def split: prod.split)
    (metis (no_types, lifting) case_prod_conv)

lemma byte_fits:
  assumes "url_fits purl" and "fits (w_host ws) (w_file ws)" and "wget_byte purl b ws = Ret (v, ws', out)"
  shows "fits (w_host ws') (w_file ws')"
  using assms header_line_fits [OF assms(1)]
  by (auto simp: wget_byte_def status_byte_def header_byte_def put_line_def Let_def
      split: web_state.splits if_splits)

lemma run_fits:
  "url_fits purl \<Longrightarrow> fits (w_host ws) (w_file ws) \<Longrightarrow> wget_run purl xs ws = Ret (v, ws', out)
     \<Longrightarrow> fits (w_host ws') (w_file ws')"
proof (induction xs arbitrary: ws v ws' out)
  case (Cons x xs)
  show ?case
  proof (cases "wget_byte purl x ws" rule: result_cases)
    case (More ws1 o1)
    with Cons.prems(3) obtain o2 where "wget_run purl xs ws1 = Ret (v, ws', o2)"
      by (cases "wget_run purl xs ws1") auto
    with Cons.IH [OF Cons.prems(1) byte_fits [OF Cons.prems(1,2) More]] show ?thesis by simp
  qed (use Cons.prems byte_fits [OF Cons.prems(1,2)] in auto)
qed simp

definition always_answers :: "(xcall list \<Rightarrow> xcall \<Rightarrow> answer) \<Rightarrow> nat \<Rightarrow> bytes \<Rightarrow> bool" where
  "always_answers e n d \<longleftrightarrow> (\<forall>h. 0 < retv (e h (Socket ''tcp'')) \<and> (\<forall>s. retv (e h (Gethostbyname s)) = 2)
     \<and> (\<forall>fd a p. retv (e h (Connect fd a p)) = 0) \<and> (\<forall>fd bs. 0 \<le> retv (e h (Send fd bs)))
     \<and> (\<forall>fd. retv (e h (Recv fd n)) = int (length d) \<and> outb (e h (Recv fd n)) = d))"

text \<open>One round: connect, send, receive a redirection.\<close>

lemma round_connect:
  assumes "always_answers (env w) n d"
  shows "\<exists>w'. wget_connect k False ws ctx w
     = ret (0, ws\<lparr>w_conn := RawConn (retv (env w (hist w) (Socket ''tcp'')))\<rparr>, ctx, w') \<and> env w' = env w"
proof -
  from assms have a: "0 \<le> retv (env w h (Socket ''tcp''))" "retv (env w h (Gethostbyname s)) = 2"
    "retv (env w h (Connect fd x p)) = 0" for h s fd x p
    unfolding always_answers_def by (auto intro: less_imp_le)
  show ?thesis
    by (subst wget_connect.simps) (simp add: wget_attempt_def walk_simps a not_less)
qed

lemma round_transfer:
  assumes "always_answers (env w) n (response sl hs body)" and "good_response sl hs" and "status_of sl = HTTPSTATUS_MOVED"
    and "awaiting ws" and "w_conn ws = RawConn fd" and "url_fits purl" and "fits (w_host ws) (w_file ws)"
  shows "\<exists>ws' w'. wget_transfer purl n ws w = ret (Moved, ws', w') \<and> env w' = env w
     \<and> length (w_line ws') = MAXHTTPLINE \<and> fits (w_host ws') (w_file ws')"
proof -
  let ?d = "response sl hs body"
  have ne: "?d \<noteq> []" by (simp add: response_def)
  obtain ws' where r: "wget_run purl ?d ws = Ret (Redirect, ws', [])" "length (w_line ws') = MAXHTTPLINE"
    "w_conn ws' = w_conn ws" using run_response [OF assms(4,2), of purl body] assms(3) by auto
  with block_run [OF ne, of purl ws] obtain data where b: "wget_block purl ?d ws = Ret (Redirect, ws', data)"
    by (auto simp: block_result_def obind_eq_Ret)
  have "retv (env w (hist w) (Recv fd n)) = int (length ?d)" "outb (env w (hist w) (Recv fd n)) = ?d"
    using assms(1) by (auto simp: always_answers_def)
  then have "wget_transfer purl n ws w = ret (Moved, ws', xcu (Close fd) (snd (xc (Recv fd n) w)))"
    using b r(3) assms(5) ne by (subst wget_transfer.simps) (simp add: case_prod_beta Let_def ret_def [symmetric])
  then show ?thesis using r(2) run_fits [OF assms(6,7) r(1)] by simp
qed

lemma request_length:
  "fits (w_host ws) (w_file ws) \<Longrightarrow> length (request_text agent MODE_GET posts ws) < 700 + length agent"
  by (simp add: fits_def request_text_def bytes_of_def crnl_def)

lemma redirected_for_ever:
  assumes "wget_loop purl agent mode posts n tls ws ctx w = Some y"
    and d: "good_response sl hs" "status_of sl = HTTPSTATUS_MOVED" and purl: "url_fits purl" and n: "700 + length agent \<le> n"
  shows "\<not> (\<not> tls \<and> mode = MODE_GET \<and> always_answers (env w) n (response sl hs body)
     \<and> length (w_line ws) = MAXHTTPLINE \<and> fits (w_host ws) (w_file ws))"
proof (rule wget_loop.raw_induct [OF _ assms(1), where P = "\<lambda>purl' agent' mode posts n' tls ws ctx w y.
    \<not> (purl' = purl \<and> agent' = agent \<and> n' = n \<and> \<not> tls \<and> mode = MODE_GET
      \<and> always_answers (env w) n (response sl hs body)
      \<and> length (w_line ws) = MAXHTTPLINE \<and> fits (w_host ws) (w_file ws))", simplified simp_thms],
    rule notI, goal_cases)
  case (1 f purl' agent' mode posts n' tls ws ctx w y)
  then have e: "always_answers (env w) n (response sl hs body)" "length (w_line ws) = MAXHTTPLINE"
    "fits (w_host ws) (w_file ws)" "purl' = purl" "agent' = agent" "n' = n" "\<not> tls" "mode = MODE_GET" by simp_all
  let ?ws = "ws\<lparr>w_status := HTTPSTATUS_NONE, w_ndx := 0\<rparr>" and ?fd = "retv (env w (hist w) (Socket ''tcp''))"
  obtain w1 where con: "wget_connect HANDSHAKE_RETRY False ?ws ctx w = ret (0, ?ws\<lparr>w_conn := RawConn ?fd\<rparr>, ctx, w1)"
    and e1: "env w1 = env w" using round_connect [OF e(1)] by blast
  let ?ws1 = "?ws\<lparr>w_conn := RawConn ?fd\<rparr>" and ?rt = "request_text agent MODE_GET posts (?ws\<lparr>w_conn := RawConn ?fd\<rparr>)"
  have req: "build_request agent MODE_GET posts n ?ws1 = Ret ?rt"
    using request_length [of ?ws1 agent posts] e(3) n by (simp add: build_request_def not_le)
  have send: "\<not> retv (env w1 (hist w1) (Send ?fd ?rt)) < 0"
    using e(1) e1 by (simp add: always_answers_def not_less)
  let ?w2 = "snd (xcv (Send ?fd ?rt) w1)"
  have e2: "env ?w2 = env w" by (simp add: xcv_def e1)
  obtain ws3 w3 where t: "wget_transfer purl n (?ws1\<lparr>w_state := STATE_STATUSLINE\<rparr>) ?w2 = ret (Moved, ws3, w3)"
    and e3: "env w3 = env ?w2" "length (w_line ws3) = MAXHTTPLINE" "fits (w_host ws3) (w_file ws3)"
    using round_transfer [of ?w2 n sl hs body "?ws1\<lparr>w_state := STATE_STATUSLINE\<rparr>" ?fd purl] e e2 d purl
    by (auto simp: awaiting_def)
  have "f purl agent MODE_GET posts n False ws3 ctx w3 = Some y"
    using 1(2) con req send t e(4-8) by (simp add: xcv_def ret_def [symmetric])
  from 1(1) [OF this] e(1) e2 e3 show False by simp
qed

text \<open>C18. A server that answers every request with a redirection keeps \<^verbatim>\<open>wget\<close> from ever
  returning: the redirections are not counted.\<close>

theorem wget_redirected_for_ever:
  assumes "purl url (80, [], []) = (0, p, h, f)" and "url_fits purl" and "700 + length agent \<le> n"
    and "good_response sl hs" and "status_of sl = HTTPSTATUS_MOVED"
    and "always_answers (env w) n (response sl hs body)"
  shows "wget purl agent url n False w = None"
proof -
  have "fits [] []" by (simp add: fits_def)
  from assms(2) [unfolded url_fits_def, rule_format, OF this, of url 80] have "fits h f" by (simp add: assms(1))
  then show ?thesis
    using redirected_for_ever [of purl agent MODE_GET "[]" n False "wget_init\<lparr>w_port := p, w_host := h, w_file := f\<rparr>" None w
        _ sl hs body] assms
    by (cases "wget_loop purl agent MODE_GET [] n False (wget_init\<lparr>w_port := p, w_host := h, w_file := f\<rparr>) None w")
      (auto simp: wget_def wget_base_def wget_init_def)
qed

definition moved_line :: bytes where "moved_line = bytes_of ''HTTP/1.1 301 Moved Permanently'' @ [ISO_cr]"

definition moved_env :: "xcall list \<Rightarrow> xcall \<Rightarrow> answer" where
  "moved_env h c = (case c of
     Recv fd n \<Rightarrow> \<lparr>retv = int (length (response moved_line [] [])), errno = 0, oval = 0, outb = response moved_line [] []\<rparr>
   | _ \<Rightarrow> good_env h c)"

theorem wget_redirected_for_ever_witness:
  "wget (\<lambda>u c. (0, 80, bytes_of ''a.b'', bytes_of ''/'')) ''SDK'' (bytes_of ''http://a.b/'') 4096 False \<lparr>hist = [], env = moved_env\<rparr>
     = None"
proof (rule wget_redirected_for_ever)
  show "good_response moved_line []" "status_of moved_line = HTTPSTATUS_MOVED"
    by (simp_all add: good_response_def moved_line_def ISO_nl_def ISO_cr_def bytes_of_def starts_def
        MAXHTTPLINE_def status_of_def Let_def)
  show "always_answers (env \<lparr>hist = [], env = moved_env\<rparr>) 4096 (response moved_line [] [])"
    by (simp add: always_answers_def moved_env_def)
qed (simp_all add: url_fits_def fits_def bytes_of_def)

end
