(* ===== verification/PtrVector.thy ===== *)
theory PtrVector
  imports World
begin

section \<open>The pointer vector (\<^verbatim>\<open>base/loop/tinyara_loop.c\<close>, first half)\<close>

text \<open>
  A growing array of pointers: \<^verbatim>\<open>struct _ptr_vector\<close> with its 16-bit length, whose
  capacity is not stored but recomputed from the length. Elements have the four bytes of a pointer;
  the block is a list of slots, \<open>None\<close> where nothing was stored yet. Lengths are natural numbers
  with the wrap-around of \<^verbatim>\<open>uint16_t\<close> written out. \<^verbatim>\<open>realloc\<close> keeps
  the block where it fails.
\<close>

record pvec =
  pv_data :: "addr option list option"
  pv_len :: nat

definition pvec_empty :: pvec where "pvec_empty = \<lparr>pv_data = None, pv_len = 0\<rparr>"

definition slots :: "pvec \<Rightarrow> addr option list" where
  "slots v = (case pv_data v of None \<Rightarrow> [] | Some d \<Rightarrow> d)"

subsection \<open>Capacities\<close>

fun bit_length :: "nat \<Rightarrow> nat" where
  "bit_length n = (if n = 0 then 0 else Suc (bit_length (n div 2)))"

declare bit_length.simps [simp del]

definition builtin_clz :: "nat \<Rightarrow> nat" where "builtin_clz u = 32 - bit_length u"

definition align_power2_uint :: "nat \<Rightarrow> nat" where
  "align_power2_uint u =
     (if u \<le> 1 then u
      else let left_zeros = builtin_clz (u - 1)
           in if left_zeros \<le> 1 then 4294967295 else 2 ^ (32 - left_zeros))"

definition align_power2_short_uint :: "nat \<Rightarrow> nat" where
  "align_power2_short_uint u =
     (let aligned = align_power2_uint u in if aligned \<le> 65535 then aligned else 65535)"

subsection \<open>Operations\<close>

definition resized :: "nat \<Rightarrow> addr option list \<Rightarrow> addr option list" where
  "resized n d = take n d @ replicate (n - length d) None"

definition vector_grow :: "nat \<Rightarrow> pvec \<Rightarrow> world \<Rightarrow> pvec \<times> world" where
  "vector_grow amount v w =
     (let new_len = (pv_len v + amount) mod 65536;
          old_cap = align_power2_short_uint (pv_len v);
          new_cap = align_power2_short_uint new_len
      in if new_cap \<noteq> old_cap then
           let (a, w1) = xc (Realloc (4 * new_cap)) w
           in (v\<lparr>pv_data := if retv a = 0 then None else Some (resized new_cap (slots v)), pv_len := new_len\<rparr>, w1)
         else (v\<lparr>pv_len := new_len\<rparr>, w))"

text \<open>The index of the first new element; they are cleared.\<close>

definition vector_append_n :: "nat \<Rightarrow> pvec \<Rightarrow> world \<Rightarrow> (nat \<times> pvec \<times> world) outcome" where
  "vector_append_n n v w =
     (let (v1, w1) = vector_grow n v w
      in case pv_data v1 of
           None \<Rightarrow> Ub NullDeref
         | Some d \<Rightarrow>
             if pv_len v1 < n \<or> length d < pv_len v1 then Ub OutOfBounds
             else let i = pv_len v1 - n
                  in Ret (i, v1\<lparr>pv_data := Some (take i d @ replicate n (Some 0) @ drop (i + n) d)\<rparr>, w1))"

definition vector_append :: "pvec \<Rightarrow> world \<Rightarrow> (nat \<times> pvec \<times> world) outcome" where
  "vector_append v w = vector_append_n 1 v w"

definition ptr_vector_append :: "addr \<Rightarrow> pvec \<Rightarrow> world \<Rightarrow> (pvec \<times> world) outcome" where
  "ptr_vector_append p v w =
     obind (vector_append v w) (\<lambda>(i, v1, w1). Ret (v1\<lparr>pv_data := Some ((slots v1)[i := Some p])\<rparr>, w1))"

definition ptr_vector_get_no_check :: "pvec \<Rightarrow> nat \<Rightarrow> addr outcome" where
  "ptr_vector_get_no_check v i =
     (case pv_data v of
        None \<Rightarrow> Ub NullDeref
      | Some d \<Rightarrow> if length d \<le> i then Ub OutOfBounds
                  else case d ! i of None \<Rightarrow> Ub Uninitialised | Some p \<Rightarrow> Ret p)"

definition vector_shrink :: "pvec \<Rightarrow> world \<Rightarrow> pvec \<times> world" where
  "vector_shrink v w =
     (if pv_len v = 0 then (v\<lparr>pv_data := None\<rparr>, w)
      else let old_cap = align_power2_uint (pv_len v + 1); new_cap = align_power2_short_uint (pv_len v)
           in if new_cap = old_cap then (v, w)
              else let (a, w1) = xc (Realloc (4 * new_cap)) w
                   in (if retv a = 0 then v else v\<lparr>pv_data := Some (resized new_cap (slots v))\<rparr>, w1))"

text \<open>\<^verbatim>\<open>memmove\<close> over the tail leaves the last slot as it was.\<close>

definition ptr_vector_del :: "nat \<Rightarrow> pvec \<Rightarrow> world \<Rightarrow> (int \<times> pvec \<times> world) outcome" where
  "ptr_vector_del i v w =
     (if pv_len v \<le> i then Ret (E_INVALID_VALUE, v, w)
      else let len = pv_len v - 1; d = slots v
           in if i < len \<and> length d \<le> len then Ub OutOfBounds
              else let d' = (if i < len then take i d @ drop (i + 1) (take (len + 1) d) @ drop len d else d);
                       (v1, w1) = vector_shrink
                          (v\<lparr>pv_data := (if pv_data v = None then None else Some d'), pv_len := len\<rparr>) w
                   in Ret (0, v1, w1))"

subsection \<open>Capacities are enough\<close>

lemma bit_length_bound: "n < 2 ^ bit_length n"
proof (induction n rule: bit_length.induct)
  case (1 n)
  show ?case
  proof (cases "n = 0")
    case False
    with 1 have "n div 2 < 2 ^ bit_length (n div 2)" by simp
    then have "n < 2 * 2 ^ bit_length (n div 2)" by linarith
    with False show ?thesis by (subst bit_length.simps) simp
  qed simp
qed

lemma bit_length_le: "n < 2 ^ k \<Longrightarrow> bit_length n \<le> k"
proof (induction k arbitrary: n)
  case (Suc k)
  show ?case
  proof (cases "n = 0")
    case False
    from Suc.prems have "n div 2 < 2 ^ k" by (simp add: less_mult_imp_div_less)
    then have "bit_length (n div 2) \<le> k" by (rule Suc.IH)
    with False show ?thesis by (subst bit_length.simps) simp
  qed (simp add: bit_length.simps)
qed (simp add: bit_length.simps)

lemma align_uint: "1 < u \<Longrightarrow> u \<le> 65536 \<Longrightarrow> align_power2_uint u = 2 ^ bit_length (u - 1)"
proof -
  assume u: "1 < u" "u \<le> 65536"
  then have "bit_length (u - 1) \<le> 16" by (intro bit_length_le) simp
  then have "\<not> 32 - bit_length (u - 1) \<le> 1" "32 - (32 - bit_length (u - 1)) = bit_length (u - 1)" by auto
  with u show ?thesis by (simp add: align_power2_uint_def builtin_clz_def Let_def)
qed

lemma align_uint_ge: "u \<le> 65536 \<Longrightarrow> u \<le> align_power2_uint u"
proof (cases "1 < u")
  case True
  assume "u \<le> 65536"
  with True bit_length_bound [of "u - 1"] show ?thesis by (simp add: align_uint)
qed (simp add: align_power2_uint_def)

lemma align_short_ge: "u \<le> 65535 \<Longrightarrow> u \<le> align_power2_short_uint u"
  using align_uint_ge [of u] by (simp add: align_power2_short_uint_def Let_def)

lemma align_short_0 [simp]: "align_power2_short_uint 0 = 0" "align_power2_uint (Suc 0) = 1"
  by (simp_all add: align_power2_short_uint_def align_power2_uint_def)

lemma bit_length_mono: "m \<le> n \<Longrightarrow> bit_length m \<le> bit_length n"
  using bit_length_bound [of n] by (intro bit_length_le) linarith

lemma align_uint_mono: "u \<le> v \<Longrightarrow> v \<le> 65536 \<Longrightarrow> align_power2_uint u \<le> align_power2_uint v"
proof -
  assume uv: "u \<le> v" "v \<le> 65536"
  show ?thesis
  proof (cases "1 < u")
    case True
    with uv have "align_power2_uint u = 2 ^ bit_length (u - 1)" "align_power2_uint v = 2 ^ bit_length (v - 1)"
      by (simp_all add: align_uint)
    moreover have "bit_length (u - 1) \<le> bit_length (v - 1)" by (rule bit_length_mono) (use uv in simp)
    ultimately show ?thesis by simp
  next
    case False
    then have "align_power2_uint u = u" by (simp add: align_power2_uint_def)
    with uv align_uint_ge [of v] show ?thesis by linarith
  qed
qed

lemma align_short_pos: "0 < u \<Longrightarrow> 0 < align_power2_short_uint u"
proof -
  assume u: "0 < u"
  have "0 < align_power2_uint u" using u by (simp add: align_power2_uint_def Let_def)
  then show ?thesis by (simp add: align_power2_short_uint_def Let_def)
qed

subsection \<open>The vector is a list\<close>

definition pvec_is :: "pvec \<Rightarrow> addr list \<Rightarrow> bool" where
  "pvec_is v xs \<longleftrightarrow> pv_len v = length xs \<and> length xs \<le> 65535 \<and> take (length xs) (slots v) = map Some xs
     \<and> align_power2_short_uint (length xs) \<le> length (slots v) \<and> (pv_data v = None \<longleftrightarrow> xs = [])"

lemma pvec_is_empty [simp]: "pvec_is pvec_empty []"
  by (simp add: pvec_is_def pvec_empty_def slots_def)

lemma pvec_is_Some: "pvec_is v xs \<Longrightarrow> xs \<noteq> [] \<Longrightarrow> pv_data v = Some (slots v) \<and> length xs \<le> length (slots v)"
  using align_short_ge [of "length xs"] by (auto simp: pvec_is_def slots_def split: option.splits)

lemma pvec_get:
  assumes "pvec_is v xs" and "i < length xs"
  shows "ptr_vector_get_no_check v i = Ret (xs ! i)"
proof -
  have "xs \<noteq> []" using assms(2) by auto
  note d = pvec_is_Some [OF assms(1) this]
  have "slots v ! i = take (length xs) (slots v) ! i" using assms(2) by simp
  also have "\<dots> = Some (xs ! i)" using assms by (simp add: pvec_is_def)
  finally show ?thesis using d assms(2) by (auto simp: ptr_vector_get_no_check_def)
qed

definition realloc_works :: "(xcall list \<Rightarrow> xcall \<Rightarrow> answer) \<Rightarrow> bool" where
  "realloc_works e \<longleftrightarrow> (\<forall>h n. retv (e h (Realloc n)) \<noteq> 0)"

lemma resized_take: "n \<le> length d \<Longrightarrow> n \<le> k \<Longrightarrow> take n (resized k d) = take n d"
  by (simp add: resized_def min_def)

lemma length_resized [simp]: "length (resized n d) = n"
  by (simp add: resized_def)

text \<open>Growing by one element.\<close>

lemma pvec_grow:
  assumes "pvec_is v xs" and "length xs < 65535" and "realloc_works (env w)"
  shows "\<exists>d w'. vector_grow 1 v w = (\<lparr>pv_data = Some d, pv_len = length xs + 1\<rparr>, w') \<and> env w' = env w
     \<and> hist w' \<in> {hist w, hist w @ [Realloc (4 * align_power2_short_uint (length xs + 1))]}
     \<and> take (length xs) d = map Some xs \<and> align_power2_short_uint (length xs + 1) \<le> length d"
proof -
  let ?n = "length xs" and ?c = "align_power2_short_uint (length xs + 1)"
  note v = assms(1) [unfolded pvec_is_def]
  have len: "(pv_len v + 1) mod 65536 = ?n + 1" using v assms(2) by simp
  have cap: "?n + 1 \<le> ?c" using align_short_ge [of "?n + 1"] assms(2) by simp
  have t: "take ?n (resized ?c (slots v)) = map Some xs"
  proof -
    have "?n \<le> length (slots v)" using v by (metis length_map length_take min.absorb_iff2)
    then show ?thesis using resized_take [of ?n "slots v" ?c] cap v by simp
  qed
  show ?thesis
  proof (cases "?c = align_power2_short_uint (pv_len v)")
    case True
    then have "xs \<noteq> []" using v cap by auto
    with pvec_is_Some [OF assms(1)] True v len show ?thesis
      by (intro exI [of _ "slots v"] exI [of _ w]) (cases v, auto simp: vector_grow_def Let_def)
  next
    case False
    then show ?thesis using len t assms(3) v
      by (intro exI [of _ "resized ?c (slots v)"] exI [of _ "snd (xc (Realloc (4 * ?c)) w)"])
        (cases v, auto simp: vector_grow_def Let_def case_prod_beta realloc_works_def)
  qed
qed

lemma pvec_append:
  assumes "pvec_is v xs" and "length xs < 65535" and "realloc_works (env w)"
  shows "\<exists>v' w'. ptr_vector_append p v w = Ret (v', w') \<and> pvec_is v' (xs @ [p]) \<and> env w' = env w
     \<and> hist w' \<in> {hist w, hist w @ [Realloc (4 * align_power2_short_uint (length xs + 1))]}"
proof -
  let ?n = "length xs"
  obtain d w' where g: "vector_grow 1 v w = (\<lparr>pv_data = Some d, pv_len = ?n + 1\<rparr>, w')" "env w' = env w"
    "hist w' \<in> {hist w, hist w @ [Realloc (4 * align_power2_short_uint (length xs + 1))]}"
    "take ?n d = map Some xs" "align_power2_short_uint (?n + 1) \<le> length d"
    using pvec_grow [OF assms] by blast
  have len: "?n + 1 \<le> length d" using g(5) align_short_ge [of "?n + 1"] assms(2) by simp
  let ?d = "(take ?n d @ [Some 0] @ drop (?n + 1) d)[?n := Some p]"
  have d: "?d = map Some xs @ Some p # drop (?n + 1) d"
    using len g(4) by (simp add: list_update_append)
  have "ptr_vector_append p v w = Ret (\<lparr>pv_data = Some ?d, pv_len = ?n + 1\<rparr>, w')"
    using g(1) len by (simp add: ptr_vector_append_def vector_append_def vector_append_n_def slots_def Let_def)
  moreover have "pvec_is \<lparr>pv_data = Some ?d, pv_len = ?n + 1\<rparr> (xs @ [p])"
    using g(5) assms(2) len unfolding d by (simp add: pvec_is_def slots_def)
  ultimately show ?thesis using g(2,3) by blast
qed

text \<open>Deleting one element; a failure of \<^verbatim>\<open>realloc\<close> does no harm here.\<close>

lemma pvec_shrink:
  assumes "pv_len v = length xs" and "length xs < 65535" and "take (length xs) (slots v) = map Some xs"
    and "align_power2_short_uint (length xs) \<le> length (slots v)" and "pv_data v \<noteq> None"
  shows "pvec_is (fst (vector_shrink v w)) xs"
proof (cases "xs = []")
  case True
  with assms show ?thesis by (simp add: vector_shrink_def pvec_is_def slots_def)
next
  case False
  let ?n = "length xs" and ?c = "align_power2_short_uint (length xs)"
  have "?n \<le> length (slots v)" using assms(3) by (metis length_map length_take min.absorb_iff2)
  moreover have "?n \<le> ?c" using align_short_ge assms(2) by simp
  ultimately have "take ?n (resized ?c (slots v)) = map Some xs"
    using resized_take assms(3) by metis
  with assms False show ?thesis
    by (auto simp: vector_shrink_def pvec_is_def Let_def case_prod_beta slots_def)
qed

lemma env_vector_shrink [simp]: "env (snd (vector_shrink v w)) = env w"
  by (simp add: vector_shrink_def Let_def case_prod_beta)

lemma pvec_del:
  assumes "pvec_is v xs" and "i < length xs"
  shows "\<exists>v' w'. ptr_vector_del i v w = Ret (0, v', w') \<and> pvec_is v' (take i xs @ drop (Suc i) xs) \<and> env w' = env w"
proof -
  let ?n = "length xs - 1" and ?d = "slots v" and ?ys = "take i xs @ drop (Suc i) xs"
  have ne: "xs \<noteq> []" using assms(2) by auto
  note v = assms(1) [unfolded pvec_is_def] and d = pvec_is_Some [OF assms(1) ne]
  let ?d' = "if i < ?n then take i ?d @ drop (i + 1) (take (?n + 1) ?d) @ drop ?n ?d else ?d"
  let ?v = "v\<lparr>pv_data := Some ?d', pv_len := ?n\<rparr>"
  have del: "ptr_vector_del i v w = Ret (0, vector_shrink ?v w)"
    using assms(2) v d by (auto simp: ptr_vector_del_def Let_def case_prod_beta)
  have len: "length ?d' = length ?d" using assms(2) d by auto
  have take: "take ?n ?d' = map Some ?ys"
  proof (cases "i < ?n")
    case True
    have "take ?n ?d' = take i (take (length xs) ?d) @ drop (i + 1) (take (length xs) ?d)"
      using True d Suc_pred' [of "length xs"] ne by (simp add: min_def)
    then show ?thesis using v by (simp add: take_map drop_map)
  next
    case False
    with assms(2) have "i = ?n" by simp
    moreover have "take ?n (slots v) = take ?n (take (length xs) (slots v))" by simp
    ultimately show ?thesis using False v by (simp add: take_map)
  qed
  have lys: "length ?ys = ?n" using assms(2) by simp
  have sv: "slots ?v = ?d'" by (subst slots_def) simp
  have "pvec_is (fst (vector_shrink ?v w)) ?ys"
  proof (rule pvec_shrink)
    show "length ?ys < 65535" unfolding lys using v ne by (cases xs) auto
    show "take (length ?ys) (slots ?v) = map Some ?ys" unfolding sv lys by (rule take)
    have "align_power2_short_uint ?n \<le> align_power2_short_uint (length xs)"
      using align_uint_mono [of ?n "length xs"] v by (simp add: align_power2_short_uint_def Let_def)
    then show "align_power2_short_uint (length ?ys) \<le> length (slots ?v)"
      unfolding lys sv len using v by simp
  qed (use assms(2) in simp_all)
  with del show ?thesis by (metis env_vector_shrink prod.collapse)
qed

end
