(* ===== verification/Loop.thy ===== *)
theory Loop
  imports PtrVector
begin

section \<open>The event loop of TizenRT (\<^verbatim>\<open>base/loop\<close>)\<close>

text \<open>
  The front end \<^verbatim>\<open>artik_loop.c\<close>, whose functions only call the back end, and the back end
  \<^verbatim>\<open>tinyara_loop.c\<close> on libuv, which is not in the repository: its calls go to the world,
  and what it does later is the callbacks it makes. Timeouts, periodic callbacks, watches of
  descriptors and idle callbacks are four kinds of sources with the same life: two blocks from
  \<^verbatim>\<open>malloc\<close>, the source and its libuv handle, an entry in a vector, and a number. A source
  on the heap is a record; \<open>s_id\<close> is \<open>None\<close> until it is written. A freed block is no longer on the
  heap. Callbacks of the application that call the loop module themselves are not modelled.
\<close>

unbundle bit_operations_syntax

datatype source_kind = TimeoutSource | PeriodicSource | WatchSource | IdleSource

record source =
  s_func :: addr
  s_user :: addr
  s_handle :: addr
  s_fd :: "int option"
  s_id :: "int option"

record loop_state =
  l_vec :: "source_kind \<Rightarrow> pvec"
  l_heap :: "addr \<Rightarrow> source option"
  l_data :: "addr \<Rightarrow> addr option"   \<comment> \<open>the member \<^verbatim>\<open>data\<close> of the handles\<close>
  l_next :: "source_kind \<Rightarrow> int"
  l_loop :: bool                     \<comment> \<open>\<^verbatim>\<open>_loop\<close> is not null\<close>

definition loop_start :: loop_state where
  "loop_start = \<lparr>l_vec = \<lambda>_. pvec_empty, l_heap = Map.empty, l_data = Map.empty, l_next = \<lambda>_. 0, l_loop = False\<rparr>"

definition get_loop :: "loop_state \<Rightarrow> world \<Rightarrow> loop_state \<times> world" where
  "get_loop st w = (if l_loop st then (st, w) else (st\<lparr>l_loop := True\<rparr>, xcu (UvCall ''uv_default_loop'' 0 []) w))"

text \<open>Calls on one handle, in order.\<close>

fun uv_calls :: "(string \<times> int list) list \<Rightarrow> addr \<Rightarrow> world \<Rightarrow> world" where
  "uv_calls [] h w = w"
| "uv_calls ((f, xs) # fs) h w = uv_calls fs h (xcu (UvCall f h xs) w)"

subsection \<open>Removing\<close>

fun stop_name :: "source_kind \<Rightarrow> string" where
  "stop_name TimeoutSource = ''uv_timer_stop''"
| "stop_name PeriodicSource = ''uv_timer_stop''"
| "stop_name WatchSource = ''uv_poll_stop''"
| "stop_name IdleSource = ''uv_idle_stop''"

text \<open>Stopping the handle, freeing it, clearing and freeing the source.\<close>

definition free_source :: "source_kind \<Rightarrow> addr \<Rightarrow> source \<Rightarrow> loop_state \<Rightarrow> world \<Rightarrow> loop_state \<times> world" where
  "free_source k p s st w =
     (st\<lparr>l_heap := (l_heap st)(p := None), l_data := (l_data st)(s_handle s := None)\<rparr>,
      xcu (Free p) (xcu (Free (s_handle s)) (xcu (UvCall (stop_name k) (s_handle s) []) w)))"

definition source_at :: "addr \<Rightarrow> loop_state \<Rightarrow> source outcome" where
  "source_at p st =
     (if p = 0 then Ub NullDeref
      else case l_heap st p of None \<Rightarrow> Ub UseAfterFree | Some s \<Rightarrow> Ret s)"

definition source_id :: "addr \<Rightarrow> loop_state \<Rightarrow> int outcome" where
  "source_id p st =
     obind (source_at p st) (\<lambda>s. case s_id s of None \<Rightarrow> Ub Uninitialised | Some i \<Rightarrow> Ret i)"

text \<open>The body of \<^verbatim>\<open>_PTR_VECTOR_FOREACH_REVERSE_IDX\<close> for the elements below the first argument,
  from the last one down.\<close>

fun cleanup_loop :: "nat \<Rightarrow> source_kind \<Rightarrow> int \<Rightarrow> loop_state \<Rightarrow> world \<Rightarrow> (loop_state \<times> world) outcome" where
  "cleanup_loop 0 k n st w = Ret (st, w)"
| "cleanup_loop (Suc i) k n st w =
     obind (ptr_vector_get_no_check (l_vec st k) i) (\<lambda>p.
     obind (source_id p st) (\<lambda>x.
       if x = n then
         obind (source_at p st) (\<lambda>s.
           let (st1, w1) = (if s_handle s \<noteq> 0 then free_source k p s st w else (st, w))
           in obind (ptr_vector_del i (l_vec st1 k) w1) (\<lambda>(r, v, w2).
                cleanup_loop i k n (st1\<lparr>l_vec := (l_vec st1)(k := v)\<rparr>) w2))
       else cleanup_loop i k n st w))"

definition cleanup :: "source_kind \<Rightarrow> int \<Rightarrow> loop_state \<Rightarrow> world \<Rightarrow> (loop_state \<times> world) outcome" where
  "cleanup k n st w = cleanup_loop (pv_len (l_vec st k)) k n st w"

definition timeout_cleanup where "timeout_cleanup = cleanup TimeoutSource"
definition periodic_cleanup where "periodic_cleanup = cleanup PeriodicSource"
definition watch_cleanup where "watch_cleanup = cleanup WatchSource"
definition idle_cleanup where "idle_cleanup = cleanup IdleSource"

type_synonym loop_op = "loop_state \<Rightarrow> world \<Rightarrow> (artik_error \<times> loop_state \<times> world) outcome"

definition os_remove_timeout_callback :: "int \<Rightarrow> loop_op" where
  "os_remove_timeout_callback n st w = obind (timeout_cleanup n st w) (\<lambda>(st1, w1). Ret (S_OK, st1, w1))"

definition os_remove_periodic_callback :: "int \<Rightarrow> loop_op" where
  "os_remove_periodic_callback n st w = obind (periodic_cleanup n st w) (\<lambda>(st1, w1). Ret (S_OK, st1, w1))"

definition os_remove_fd_watch :: "int \<Rightarrow> loop_op" where
  "os_remove_fd_watch n st w = obind (watch_cleanup n st w) (\<lambda>(st1, w1). Ret (S_OK, st1, w1))"

definition os_remove_idle_callback :: "int \<Rightarrow> loop_op" where
  "os_remove_idle_callback n st w = obind (idle_cleanup n st w) (\<lambda>(st1, w1). Ret (S_OK, st1, w1))"

subsection \<open>Adding\<close>

definition fresh_id :: "source_kind \<Rightarrow> loop_state \<Rightarrow> int \<times> loop_state" where
  "fresh_id k st =
     (let n = (if 255 \<le> l_next st k then 0 else l_next st k)
      in (n, st\<lparr>l_next := (l_next st)(k := n + 1)\<rparr>))"

definition set_id :: "addr \<Rightarrow> int \<Rightarrow> loop_state \<Rightarrow> loop_state" where
  "set_id p n st =
     st\<lparr>l_heap := (l_heap st)(p := map_option (\<lambda>s. s\<lparr>s_id := Some n\<rparr>) (l_heap st p))\<rparr>"

definition set_fd :: "addr \<Rightarrow> int \<Rightarrow> loop_state \<Rightarrow> loop_state" where
  "set_fd p fd st =
     st\<lparr>l_heap := (l_heap st)(p := map_option (\<lambda>s. s\<lparr>s_fd := Some fd\<rparr>) (l_heap st p))\<rparr>"

text \<open>The structures have four words, that of a watch five. The results of \<^verbatim>\<open>malloc\<close> are
  not checked.\<close>

definition source_size :: "source_kind \<Rightarrow> nat" where
  "source_size k = (if k = WatchSource then 20 else 16)"

definition new_source :: "source_kind \<Rightarrow> string \<Rightarrow> addr \<Rightarrow> addr \<Rightarrow> loop_state \<Rightarrow> world
    \<Rightarrow> (addr \<times> addr \<times> loop_state \<times> world) outcome" where
  "new_source k handle_type func user st w =
     (let (a, w1) = xc (Malloc (source_size k)) w; p = nat (retv a)
      in if retv a = 0 then Ub NullDeref
         else let (b, w2) = xc (MallocOf handle_type) w1; h = nat (retv b)
              in if retv b = 0 then Ub NullDeref
                 else Ret (p, h, st\<lparr>l_heap := (l_heap st)(p \<mapsto>
                        \<lparr>s_func = func, s_user = user, s_handle = h, s_fd = None, s_id = None\<rparr>),
                        l_data := (l_data st)(h \<mapsto> p)\<rparr>, w2))"

text \<open>The number of the source and its address; the number is not stored in it yet.\<close>

definition add_source :: "source_kind \<Rightarrow> string \<Rightarrow> (string \<times> int list) list \<Rightarrow> addr \<Rightarrow> addr \<Rightarrow> loop_state \<Rightarrow> world
    \<Rightarrow> (int \<times> addr \<times> loop_state \<times> world) outcome" where
  "add_source k handle_type calls func user st w =
     obind (new_source k handle_type func user st w) (\<lambda>(p, h, st1, w1).
       let (st2, w2) = get_loop st1 w1
       in obind (ptr_vector_append p (l_vec st2 k) (uv_calls calls h w2)) (\<lambda>(v, w3).
            let (n, st3) = fresh_id k (st2\<lparr>l_vec := (l_vec st2)(k := v)\<rparr>)
            in Ret (n, p, st3, w3)))"

type_synonym loop_add = "loop_state \<Rightarrow> world \<Rightarrow> (artik_error \<times> int \<times> loop_state \<times> world) outcome"

definition os_add_timeout_callback :: "u32 \<Rightarrow> addr \<Rightarrow> addr \<Rightarrow> loop_add" where
  "os_add_timeout_callback msec func user st w =
     obind (add_source TimeoutSource ''uv_timer_t''
              [(''uv_update_time'', []), (''uv_timer_init'', []), (''uv_timer_start'', [uint msec, 0])] func user st w)
       (\<lambda>(n, p, st1, w1). Ret (S_OK, n, set_id p n st1, w1))"

definition os_add_periodic_callback :: "u32 \<Rightarrow> addr \<Rightarrow> addr \<Rightarrow> loop_add" where
  "os_add_periodic_callback msec func user st w =
     obind (add_source PeriodicSource ''uv_timer_t''
              [(''uv_update_time'', []), (''uv_timer_init'', []), (''uv_timer_start'', [uint msec, 1])] func user st w)
       (\<lambda>(n, p, st1, w1). Ret (S_OK, n, set_id p n st1, w1))"

definition poll_events :: "u32 \<Rightarrow> int" where
  "poll_events io =
     (if io AND 1 \<noteq> 0 then 1 else 0) + (if io AND 2 \<noteq> 0 then 2 else 0) + (if io AND 16 \<noteq> 0 then 4 else 0)"

definition os_add_fd_watch :: "int \<Rightarrow> u32 \<Rightarrow> addr \<Rightarrow> addr \<Rightarrow> loop_add" where
  "os_add_fd_watch fd io func user st w =
     obind (add_source WatchSource ''uv_poll_t''
              [(''uv_poll_init_socket'', [fd]), (''uv_poll_start'', [poll_events io])] func user st w)
       (\<lambda>(n, p, st1, w1). Ret (S_OK, n, set_fd p fd (set_id p n st1), w1))"

text \<open>The number of an idle callback is not stored in it.\<close>

definition os_add_idle_callback :: "addr \<Rightarrow> addr \<Rightarrow> loop_add" where
  "os_add_idle_callback func user st w =
     obind (add_source IdleSource ''uv_idle_t'' [(''uv_idle_init'', []), (''uv_idle_start'', [])] func user st w)
       (\<lambda>(n, p, st1, w1). Ret (S_OK, n, st1, w1))"

subsection \<open>Callbacks from libuv\<close>

text \<open>The end of a callback that is not to be called again: the source is freed, then cleaned up by
  the number read from it.\<close>

definition retire :: "source_kind \<Rightarrow> addr \<Rightarrow> source \<Rightarrow> loop_state \<Rightarrow> world \<Rightarrow> (loop_state \<times> world) outcome" where
  "retire k p s st w =
     (let (st1, w1) = free_source k p s st w
      in obind (source_id p st1) (\<lambda>n. cleanup k n st1 w1))"

definition source_of_handle :: "addr \<Rightarrow> loop_state \<Rightarrow> (addr \<times> source) outcome" where
  "source_of_handle h st =
     (case l_data st h of
        None \<Rightarrow> Ub UseAfterFree
      | Some p \<Rightarrow> obind (source_at p st) (\<lambda>s. Ret (p, s)))"

definition timeout_callback :: "addr \<Rightarrow> loop_state \<Rightarrow> world \<Rightarrow> (loop_state \<times> world) outcome" where
  "timeout_callback handle st w =
     obind (source_of_handle handle st) (\<lambda>(p, s).
       retire TimeoutSource p s st (if s_func s \<noteq> 0 then xcu (UserCallback (s_func s) (s_user s)) w else w))"

definition periodic_callback :: "addr \<Rightarrow> loop_state \<Rightarrow> world \<Rightarrow> (loop_state \<times> world) outcome" where
  "periodic_callback handle st w =
     obind (source_of_handle handle st) (\<lambda>(p, s).
       if s_func s \<noteq> 0 then
         let (a, w1) = xc (UserCallback (s_func s) (s_user s)) w
         in if retv a = 1 then Ret (st, w1) else retire PeriodicSource p s st w1
       else retire PeriodicSource p s st w)"

definition watch_events :: "u32 \<Rightarrow> u32" where
  "watch_events ev =
     (if ev AND 1 \<noteq> 0 then 1 else 0) OR (if ev AND 2 \<noteq> 0 then 2 else 0) OR (if ev AND 4 \<noteq> 0 then 16 else 0)"

definition watch_callback :: "addr \<Rightarrow> u32 \<Rightarrow> loop_state \<Rightarrow> world \<Rightarrow> (loop_state \<times> world) outcome" where
  "watch_callback handle events st w =
     obind (source_of_handle handle st) (\<lambda>(p, s).
       case s_fd s of
         None \<Rightarrow> Ub Uninitialised
       | Some fd \<Rightarrow>
           if s_func s = 0 then Ub NullDeref
           else let (a, w1) = xc (WatchCallback (s_func s) fd (watch_events events) (s_user s)) w
                in if retv a = 0 then retire WatchSource p s st w1 else Ret (st, w1))"

definition idle_callback :: "addr \<Rightarrow> loop_state \<Rightarrow> world \<Rightarrow> (loop_state \<times> world) outcome" where
  "idle_callback handle st w =
     obind (source_of_handle handle st) (\<lambda>(p, s).
       if s_func s = 0 then Ub NullDeref
       else let (a, w1) = xc (UserCallback (s_func s) (s_user s)) w
            in if retv a = 0 then retire IdleSource p s st w1 else Ret (st, w1))"

definition os_loop_run :: "loop_state \<Rightarrow> world \<Rightarrow> loop_state \<times> world" where
  "os_loop_run st w = (let (st1, w1) = get_loop st w in (st1, xcu (UvCall ''uv_run'' 0 []) w1))"

definition os_loop_quit :: "loop_state \<Rightarrow> world \<Rightarrow> loop_state \<times> world" where
  "os_loop_quit st w = (st\<lparr>l_loop := False\<rparr>, if l_loop st then xcu (UvCall ''uv_loop_close'' 0 []) w else w)"

subsection \<open>The front end (\<^verbatim>\<open>artik_loop.c\<close>)\<close>

definition loop_run :: "loop_state \<Rightarrow> world \<Rightarrow> loop_state \<times> world" where
  "loop_run st w = os_loop_run st w"

definition loop_quit :: "loop_state \<Rightarrow> world \<Rightarrow> loop_state \<times> world" where
  "loop_quit st w = os_loop_quit st w"

definition add_timeout_callback :: "u32 \<Rightarrow> addr \<Rightarrow> addr \<Rightarrow> loop_add" where
  "add_timeout_callback msec func user st w = os_add_timeout_callback msec func user st w"

definition remove_timeout_callback :: "int \<Rightarrow> loop_op" where
  "remove_timeout_callback n st w = os_remove_timeout_callback n st w"

definition add_periodic_callback :: "u32 \<Rightarrow> addr \<Rightarrow> addr \<Rightarrow> loop_add" where
  "add_periodic_callback msec func user st w = os_add_periodic_callback msec func user st w"

definition remove_periodic_callback :: "int \<Rightarrow> loop_op" where
  "remove_periodic_callback n st w = os_remove_periodic_callback n st w"

definition add_fd_watch :: "int \<Rightarrow> u32 \<Rightarrow> addr \<Rightarrow> addr \<Rightarrow> loop_add" where
  "add_fd_watch fd io func user st w = os_add_fd_watch fd io func user st w"

definition remove_fd_watch :: "int \<Rightarrow> loop_op" where
  "remove_fd_watch n st w = os_remove_fd_watch n st w"

definition add_idle_callback :: "addr \<Rightarrow> addr \<Rightarrow> loop_add" where
  "add_idle_callback func user st w = os_add_idle_callback func user st w"

definition remove_idle_callback :: "int \<Rightarrow> loop_op" where
  "remove_idle_callback n st w = os_remove_idle_callback n st w"

end
