(* ===== verification/LoopProps.thy ===== *)
theory LoopProps
  imports Loop
begin

section \<open>The event loop: registries of sources\<close>

text \<open>
  The vectors and blocks of the loop module refine four registries, lists of entries (number, function,
  user data) in the order they were added: adding appends, removing drops the entries with the number.
  Then what becomes of sources that fire.
\<close>

text \<open>\<open>P k\<close> are the sources in the vector of kind \<open>k\<close>. All are live, with a live handle that points
  back, and none is in two places.\<close>

definition live :: "loop_state \<Rightarrow> source_kind \<Rightarrow> addr \<Rightarrow> bool" where
  "live st k p \<longleftrightarrow> p \<noteq> 0 \<and> (\<exists>s. l_heap st p = Some s \<and> s_handle s \<noteq> 0 \<and> l_data st (s_handle s) = Some p
     \<and> (k = IdleSource \<longleftrightarrow> s_id s = None) \<and> (k = WatchSource \<longrightarrow> s_fd s \<noteq> None))"

definition linked :: "loop_state \<Rightarrow> (source_kind \<Rightarrow> addr list) \<Rightarrow> bool" where
  "linked st P \<longleftrightarrow> (\<forall>k. pvec_is (l_vec st k) (P k) \<and> distinct (P k) \<and> (\<forall>p\<in>set (P k). live st k p))
     \<and> (\<forall>k k'. k \<noteq> k' \<longrightarrow> set (P k) \<inter> set (P k') = {})"

type_synonym entry = "int option \<times> addr \<times> addr"

definition entry_of :: "loop_state \<Rightarrow> addr \<Rightarrow> entry" where
  "entry_of st p = (let s = the (l_heap st p) in (s_id s, s_func s, s_user s))"

text \<open>The abstract registries.\<close>

type_synonym registry = "source_kind \<Rightarrow> entry list"

definition reg_remove :: "int \<Rightarrow> entry list \<Rightarrow> entry list" where
  "reg_remove n r = filter (\<lambda>e. fst e \<noteq> Some n) r"

definition stands :: "loop_state \<Rightarrow> registry \<Rightarrow> bool" where
  "stands st R \<longleftrightarrow> (\<exists>P. linked st P \<and> (\<forall>k. R k = map (entry_of st) (P k)))"

lemma linked_vec: "linked st P \<Longrightarrow> pvec_is (l_vec st k) (P k)"
  by (simp add: linked_def)

lemma linked_live: "linked st P \<Longrightarrow> p \<in> set (P k) \<Longrightarrow> live st k p"
  by (simp add: linked_def)

lemma live_source:
  assumes "live st k p"
  obtains s where "source_at p st = Ret s" "l_heap st p = Some s" "s_handle s \<noteq> 0" "l_data st (s_handle s) = Some p"
  using assms that by (auto simp: live_def source_at_def)

subsection \<open>Removing\<close>

text \<open>Freeing a source leaves the others alone.\<close>

lemma free_live:
  assumes "l_heap st p = Some s" and "l_data st (s_handle s) = Some p" and "live st k q" and "q \<noteq> p"
  shows "live (fst (free_source k' p s st w)) k q"
proof -
  from assms(3) obtain t where t: "l_heap st q = Some t" "l_data st (s_handle t) = Some q"
    by (auto simp: live_def)
  then have "s_handle t \<noteq> s_handle s" using assms(2,4) by auto
  with assms(3,4) t show ?thesis by (auto simp: live_def free_source_def)
qed

lemma drop_linked:
  assumes "linked st P" and "i < length (P k)" and "l_heap st (P k ! i) = Some s"
    and "l_data st (s_handle s) = Some (P k ! i)"
    and "st1 = fst (free_source k' (P k ! i) s st w)" and "pvec_is v (take i (P k) @ drop (Suc i) (P k))"
  shows "linked (st1\<lparr>l_vec := (l_vec st1)(k := v)\<rparr>) (P(k := take i (P k) @ drop (Suc i) (P k)))"
proof -
  let ?p = "P k ! i" and ?ps = "take i (P k) @ drop (Suc i) (P k)"
  let ?Q = "P(k := ?ps)" and ?st = "st1\<lparr>l_vec := (l_vec st1)(k := v)\<rparr>"
  note L = assms(1) [unfolded linked_def]
  have split: "P k = take i (P k) @ ?p # drop (Suc i) (P k)" using assms(2) by (rule id_take_nth_drop)
  have dist: "distinct (take i (P k) @ ?p # drop (Suc i) (P k))" using L split by metis
  have sub: "set (?Q j) \<subseteq> set (P j)" for j
    using set_take_subset [of i "P k"] set_drop_subset [of "Suc i" "P k"] by auto
  have away: "q \<noteq> ?p" if "q \<in> set (?Q j)" for q j
  proof (cases "j = k")
    case True
    with that dist show ?thesis by auto
  next
    case False
    with that L have "q \<in> set (P j)" "set (P j) \<inter> set (P k) = {}" by auto
    with assms(2) nth_mem show ?thesis by blast
  qed
  have "live ?st j q" if "q \<in> set (?Q j)" for j q
  proof -
    have "live st1 j q"
      unfolding assms(5) using free_live [OF assms(3,4)] linked_live [OF assms(1)] sub that away [OF that] by blast
    then show ?thesis by (simp add: live_def)
  qed
  moreover have "pvec_is (l_vec ?st j) (?Q j) \<and> distinct (?Q j)" for j
    using L dist assms(5,6) by (auto simp: free_source_def)
  moreover have "set (?Q j) \<inter> set (?Q j') = {}" if "j \<noteq> j'" for j j'
    using L that sub by (meson disjoint_iff subsetD)
  ultimately show ?thesis by (simp add: linked_def)
qed

definition has_id :: "loop_state \<Rightarrow> int \<Rightarrow> addr \<Rightarrow> bool" where
  "has_id st n p \<longleftrightarrow> fst (entry_of st p) = Some n"

lemma cleanup_loop_linked:
  assumes "linked st P" and "k \<noteq> IdleSource" and "i \<le> length (P k)"
  shows "\<exists>st' w'. cleanup_loop i k n st w = Ret (st', w')
     \<and> linked st' (P(k := filter (\<lambda>p. \<not> has_id st n p) (take i (P k)) @ drop i (P k)))
     \<and> (\<forall>j. \<forall>p\<in>set ((P(k := filter (\<lambda>p. \<not> has_id st n p) (take i (P k)) @ drop i (P k))) j). l_heap st' p = l_heap st p)
     \<and> env w' = env w"
  using assms
proof (induction i arbitrary: st P w)
  case (Suc i)
  let ?p = "P k ! i" and ?ps = "take i (P k) @ drop (Suc i) (P k)"
  have i: "i < length (P k)" using Suc.prems(3) by simp
  have get: "ptr_vector_get_no_check (l_vec st k) i = Ret ?p"
    by (rule pvec_get [OF linked_vec [OF Suc.prems(1)] i])
  have live: "live st k ?p" using linked_live [OF Suc.prems(1)] i by simp
  then obtain s where s: "source_at ?p st = Ret s" "l_heap st ?p = Some s" "s_handle s \<noteq> 0"
    "l_data st (s_handle s) = Some ?p" by (rule live_source)
  with live Suc.prems(2) obtain x where x: "s_id s = Some x" by (auto simp: live_def)
  have take: "take (Suc i) (P k) = take i (P k) @ [?p]" using i by (rule take_Suc_conv_app_nth)
  have hid: "has_id st n ?p \<longleftrightarrow> x = n" by (simp add: has_id_def entry_of_def s(2) x)
  show ?case
  proof (cases "x = n")
    case False
    with Suc.IH [OF Suc.prems(1,2), of w] i get s x take hid show ?thesis
      by (simp add: source_id_def Cons_nth_drop_Suc)
  next
    case True
    let ?st1 = "fst (free_source k ?p s st w)" and ?w1 = "snd (free_source k ?p s st w)"
    have vec: "pvec_is (l_vec ?st1 k) (P k)" using linked_vec [OF Suc.prems(1)] by (simp add: free_source_def)
    obtain v w2 where del: "ptr_vector_del i (l_vec ?st1 k) ?w1 = Ret (0, v, w2)" "pvec_is v ?ps" "env w2 = env ?w1"
      using pvec_del [OF vec i, of ?w1] by blast
    let ?st2 = "?st1\<lparr>l_vec := (l_vec ?st1)(k := v)\<rparr>"
    let ?P = "P(k := ?ps)"
    have L: "linked ?st2 ?P" by (rule drop_linked [OF Suc.prems(1) i s(2,4) refl del(2)])
    have run: "cleanup_loop (Suc i) k n st w = cleanup_loop i k n ?st2 w2"
      using get s x True del(1) by (simp add: source_id_def case_prod_beta)
    have notin: "?p \<notin> set (?P j)" for j
    proof -
      have "P k = take i (P k) @ ?p # drop (Suc i) (P k)" using i by (rule id_take_nth_drop)
      moreover have "distinct (P k)" using Suc.prems(1) by (simp add: linked_def)
      ultimately have "distinct (take i (P k) @ ?p # drop (Suc i) (P k))" by metis
      moreover have "set (P j) \<inter> set (P k) = {}" if "j \<noteq> k" using Suc.prems(1) that by (simp add: linked_def)
      ultimately show ?thesis using i nth_mem by (cases "j = k") (auto simp: disjoint_iff)
    qed
    have heap: "l_heap ?st2 p = l_heap st p" if "p \<in> set (?P j)" for p j
      using notin [of j] that by (auto simp: free_source_def)
    have tk: "take i (?P k) = take i (P k)" "drop i (?P k) = drop (Suc i) (P k)" using i by simp_all
    have "has_id ?st2 n p = has_id st n p" if "p \<in> set (take i (P k))" for p
    proof -
      have "p \<in> set (?P k)" using that by simp
      from heap [OF this] show ?thesis by (simp add: has_id_def entry_of_def)
    qed
    then have f: "filter (\<lambda>p. \<not> has_id ?st2 n p) (take i (?P k)) = filter (\<lambda>p. \<not> has_id st n p) (take (Suc i) (P k))"
      unfolding tk(1) take using True hid by (simp cong: filter_cong)
    let ?Q = "P(k := filter (\<lambda>p. \<not> has_id st n p) (take (Suc i) (P k)) @ drop (Suc i) (P k))"
    have Q: "?P(k := filter (\<lambda>p. \<not> has_id ?st2 n p) (take i (?P k)) @ drop i (?P k)) = ?Q"
      unfolding f unfolding tk(2) by (simp only: fun_upd_upd)
    have "i \<le> length (?P k)" using i by simp
    note ih = Suc.IH [OF L Suc.prems(2) this, of w2, unfolded Q]
    from ih obtain st' w' where
      r: "cleanup_loop i k n ?st2 w2 = Ret (st', w')" "linked st' ?Q" "env w' = env w2"
        "\<forall>j. \<forall>p\<in>set (?Q j). l_heap st' p = l_heap ?st2 p"
      by (elim exE conjE) (rule that)
    have "\<not> (\<not> has_id st n ?p)" using True hid by simp
    then have fQ: "filter (\<lambda>p. \<not> has_id st n p) (take (Suc i) (P k)) = filter (\<lambda>p. \<not> has_id st n p) (take i (P k))"
      unfolding take by (simp only: filter_append filter.simps if_False append_Nil2)
    have sub: "set (?Q j) \<subseteq> set (?P j)" for j
      unfolding fQ by (cases "j = k") auto
    have "l_heap st' p = l_heap st p" if "p \<in> set (?Q j)" for j p
      using r(4) heap [OF subsetD [OF sub that]] that by simp
    then have same: "\<forall>j. \<forall>p\<in>set (?Q j). l_heap st' p = l_heap st p" by blast
    have run': "cleanup_loop (Suc i) k n st w = Ret (st', w')" unfolding run by (rule r(1))
    have "env w' = env w" using r(3) del(3) by (simp add: free_source_def)
    with run' r(2) same show ?thesis by (intro exI conjI)
  qed
qed simp

lemma cleanup_stands:
  assumes "stands st R" and "k \<noteq> IdleSource"
  shows "\<exists>st' w'. cleanup k n st w = Ret (st', w') \<and> stands st' (R(k := reg_remove n (R k))) \<and> env w' = env w"
proof -
  from assms(1) obtain P where P: "linked st P" "\<forall>k. R k = map (entry_of st) (P k)" by (auto simp: stands_def)
  let ?Q = "P(k := filter (\<lambda>p. \<not> has_id st n p) (P k))"
  obtain st' w' where r: "cleanup_loop (length (P k)) k n st w = Ret (st', w')" "linked st' ?Q" "env w' = env w"
    "\<forall>j. \<forall>p\<in>set (?Q j). l_heap st' p = l_heap st p"
    using cleanup_loop_linked [OF P(1) assms(2), of "length (P k)" n w] by auto
  have "pv_len (l_vec st k) = length (P k)" using linked_vec [OF P(1), of k] by (simp add: pvec_is_def)
  then have run: "cleanup k n st w = Ret (st', w')" using r(1) by (simp add: cleanup_def)
  have "map (entry_of st') (?Q j) = map (entry_of st) (?Q j)" for j
    using r(4) by (simp add: entry_of_def)
  moreover have "(R(k := reg_remove n (R k))) j = map (entry_of st) (?Q j)" for j
    using P(2) by (simp add: reg_remove_def filter_map comp_def has_id_def)
  ultimately have "stands st' (R(k := reg_remove n (R k)))" using r(2) unfolding stands_def by metis
  with run r(3) show ?thesis by blast
qed

subsection \<open>Adding\<close>

text \<open>\<^verbatim>\<open>malloc\<close> returns fresh blocks and \<^verbatim>\<open>realloc\<close> does not fail.\<close>

definition fresh_blocks :: "(xcall list \<Rightarrow> xcall \<Rightarrow> answer) \<Rightarrow> loop_state \<Rightarrow> xcall list \<Rightarrow> source_kind \<Rightarrow> string \<Rightarrow> bool" where
  "fresh_blocks e st h k handle_type \<longleftrightarrow>
     (let p = retv (e h (Malloc (source_size k))); q = retv (e (h @ [Malloc (source_size k)]) (MallocOf handle_type))
      in 0 < p \<and> 0 < q \<and> l_heap st (nat p) = None \<and> l_data st (nat q) = None)"

lemma env_uv_calls [simp]: "env (uv_calls fs h w) = env w"
  by (induction fs h w rule: uv_calls.induct) simp_all

lemma get_loop_frame:
  "l_vec (fst (get_loop st w)) = l_vec st" "l_heap (fst (get_loop st w)) = l_heap st"
  "l_data (fst (get_loop st w)) = l_data st" "l_next (fst (get_loop st w)) = l_next st"
  "env (snd (get_loop st w)) = env w"
  by (simp_all add: get_loop_def)

definition next_id :: "source_kind \<Rightarrow> loop_state \<Rightarrow> int" where
  "next_id k st = (if 255 \<le> l_next st k then 0 else l_next st k)"

text \<open>Adding a source and what the callers then store in it: \<open>fin\<close> is that last step.\<close>

lemma add_source_linked:
  assumes "linked st P" and "fresh_blocks (env w) st (hist w) k handle_type" and "realloc_works (env w)"
    and "length (P k) < 65535"
  shows "\<exists>p h st' w'. add_source k handle_type calls func user st w = Ret (next_id k st, p, st', w') \<and> env w' = env w
     \<and> p \<noteq> 0 \<and> h \<noteq> 0 \<and> l_heap st p = None \<and> l_data st h = None
     \<and> l_heap st' = (l_heap st)(p \<mapsto> \<lparr>s_func = func, s_user = user, s_handle = h, s_fd = None, s_id = None\<rparr>)
     \<and> l_data st' = (l_data st)(h \<mapsto> p) \<and> pvec_is (l_vec st' k) (P k @ [p])
     \<and> (\<forall>j. j \<noteq> k \<longrightarrow> l_vec st' j = l_vec st j)"
proof -
  let ?a = "retv (env w (hist w) (Malloc (source_size k)))" and ?w1 = "snd (xc (Malloc (source_size k)) w)"
  let ?b = "retv (env w (hist w @ [Malloc (source_size k)]) (MallocOf handle_type))"
  let ?p = "nat ?a" and ?h = "nat ?b" and ?w2 = "snd (xc (MallocOf handle_type) ?w1)"
  note F = assms(2) [unfolded fresh_blocks_def Let_def]
  let ?st1 = "st\<lparr>l_heap := (l_heap st)(?p \<mapsto>
      \<lparr>s_func = func, s_user = user, s_handle = ?h, s_fd = None, s_id = None\<rparr>), l_data := (l_data st)(?h \<mapsto> ?p)\<rparr>"
  have new: "new_source k handle_type func user st w = Ret (?p, ?h, ?st1, ?w2)"
    using F by (simp add: new_source_def Let_def case_prod_beta)
  let ?g = "get_loop ?st1 ?w2"
  have vec: "pvec_is (l_vec (fst ?g) k) (P k)" using linked_vec [OF assms(1)] by (simp add: get_loop_frame)
  have "realloc_works (env (uv_calls calls ?h (snd ?g)))" using assms(3) by (simp add: get_loop_frame)
  from pvec_append [OF vec assms(4) this, of ?p] obtain v w3 where
    app: "ptr_vector_append ?p (l_vec (fst ?g) k) (uv_calls calls ?h (snd ?g)) = Ret (v, w3)"
      "pvec_is v (P k @ [?p])" "env w3 = env w" by (auto simp: get_loop_frame)
  let ?st2 = "(fst ?g)\<lparr>l_vec := (l_vec (fst ?g))(k := v)\<rparr>"
  have "add_source k handle_type calls func user st w = Ret (next_id k st, ?p, snd (fresh_id k ?st2), w3)"
    using new app(1) by (simp add: add_source_def case_prod_beta fresh_id_def next_id_def Let_def get_loop_frame)
  then show ?thesis using F app(2,3)
    by (intro exI [of _ ?p] exI [of _ ?h] exI [of _ "snd (fresh_id k ?st2)"] exI [of _ w3])
      (simp add: fresh_id_def Let_def get_loop_frame)
qed

text \<open>With the fields the callers write afterwards, the new source is live and the others stay so.\<close>

lemma linked_added:
  assumes "linked st P" and "p \<noteq> 0" "h \<noteq> 0" "l_heap st p = None" "l_data st h = None"
    and "l_heap st' = (l_heap st)(p \<mapsto> s)" and "s_handle s = h" and "l_data st' = (l_data st)(h \<mapsto> p)"
    and "pvec_is (l_vec st' k) (P k @ [p])" and "\<forall>j. j \<noteq> k \<longrightarrow> l_vec st' j = l_vec st j"
    and "k = IdleSource \<longleftrightarrow> s_id s = None" and "k = WatchSource \<longrightarrow> s_fd s \<noteq> None"
  shows "linked st' (P(k := P k @ [p]))" and "q \<in> set (P j) \<Longrightarrow> l_heap st' q = l_heap st q"
proof -
  note L = assms(1) [unfolded linked_def]
  have new: "p \<notin> set (P j)" for j
    using linked_live [OF assms(1), of p j] assms(4) by (auto simp: live_def)
  have old: "live st' j q" if "q \<in> set (P j)" for j q
  proof -
    have live: "live st j q" using linked_live [OF assms(1) that] .
    then obtain t where t: "l_heap st q = Some t" "l_data st (s_handle t) = Some q" by (rule live_source)
    then have "s_handle t \<noteq> h" using assms(5) by auto
    moreover have "q \<noteq> p" using new that by auto
    ultimately show ?thesis using live t assms(6,8) by (simp add: live_def)
  qed
  have "live st' k p" using assms by (auto simp: live_def)
  with old new L assms(9,10) show "linked st' (P(k := P k @ [p]))"
    by (auto simp: linked_def)
  show "l_heap st' q = l_heap st q" if "q \<in> set (P j)" using new [of j] that assms(6) by auto
qed

lemma added_stands:
  assumes "linked st P" and "\<forall>k. R k = map (entry_of st) (P k)" and "linked st' (P(k := P k @ [p]))"
    and "\<And>q j. q \<in> set (P j) \<Longrightarrow> l_heap st' q = l_heap st q"
  shows "stands st' (R(k := R k @ [entry_of st' p]))"
proof -
  have "map (entry_of st') (P j) = R j" for j
    using assms(2,4) by (simp add: entry_of_def)
  then have "(R(k := R k @ [entry_of st' p])) j = map (entry_of st') ((P(k := P k @ [p])) j)" for j by simp
  with assms(3) show ?thesis unfolding stands_def by blast
qed

text \<open>One addition, with \<open>fin\<close> the fields that the caller writes afterwards.\<close>

lemma registry_add_refines:
  assumes "linked st P" and "\<forall>j. R j = map (entry_of st) (P j)" and "fresh_blocks (env w) st (hist w) k ty"
    and "realloc_works (env w)" and "length (R k) < 65535"
    and fin: "\<And>p n st'. l_heap st' p \<noteq> None \<Longrightarrow>
        fin p n st' = st'\<lparr>l_heap := (l_heap st')(p \<mapsto> upd n (the (l_heap st' p)))\<rparr>"
    and upd: "\<And>n s. s_handle (upd n s) = s_handle s \<and> s_func (upd n s) = s_func s \<and> s_user (upd n s) = s_user s"
    and idle: "\<And>n s. s_id s = None \<Longrightarrow> s_id (upd n s) = (if k = IdleSource then None else Some n)"
    and watch: "\<And>n s. k = WatchSource \<Longrightarrow> s_fd (upd n s) \<noteq> None"
  shows "\<exists>st' w'. obind (add_source k ty calls func user st w) (\<lambda>(n, p, st1, w1). Ret (S_OK, n, fin p n st1, w1))
        = Ret (S_OK, next_id k st, st', w')
      \<and> stands st' (R(k := R k @ [(if k = IdleSource then None else Some (next_id k st), func, user)]))"
proof -
  have "length (P k) < 65535" using assms(2,5) by simp
  from add_source_linked [OF assms(1,3,4) this, of calls func user] obtain p h st1 w1 where
    a: "add_source k ty calls func user st w = Ret (next_id k st, p, st1, w1)"
      "p \<noteq> 0" "h \<noteq> 0" "l_heap st p = None" "l_data st h = None"
      "l_heap st1 = (l_heap st)(p \<mapsto> \<lparr>s_func = func, s_user = user, s_handle = h, s_fd = None, s_id = None\<rparr>)"
      "l_data st1 = (l_data st)(h \<mapsto> p)" "pvec_is (l_vec st1 k) (P k @ [p])"
      "\<forall>j. j \<noteq> k \<longrightarrow> l_vec st1 j = l_vec st j" by blast
  let ?s = "upd (next_id k st) \<lparr>s_func = func, s_user = user, s_handle = h, s_fd = None, s_id = None\<rparr>"
  let ?st = "fin p (next_id k st) st1"
  have f: "?st = st1\<lparr>l_heap := (l_heap st1)(p \<mapsto> ?s)\<rparr>" using fin [of st1 p] a(6) by simp
  have heap: "l_heap ?st = (l_heap st)(p \<mapsto> ?s)" using a(6) unfolding f by simp
  have rest: "l_data ?st = (l_data st)(h \<mapsto> p)" "pvec_is (l_vec ?st k) (P k @ [p])"
    "\<forall>j. j \<noteq> k \<longrightarrow> l_vec ?st j = l_vec st j" using a(7-9) unfolding f by simp_all
  have s: "s_handle ?s = h" "k = IdleSource \<longleftrightarrow> s_id ?s = None" "k = WatchSource \<longrightarrow> s_fd ?s \<noteq> None"
    using upd idle watch by simp_all
  note la = linked_added [OF assms(1) a(2-5) heap s(1) rest s(2,3)]
  have "stands ?st (R(k := R k @ [entry_of ?st p]))"
    by (rule added_stands [OF assms(1,2) la])
  moreover have "entry_of ?st p = (if k = IdleSource then None else Some (next_id k st), func, user)"
    using idle upd by (simp add: entry_of_def heap)
  ultimately show ?thesis using a(1) by auto
qed

text \<open>The registries as a machine of their own: requests, and what they answer.\<close>

datatype request =
    AddTimeout u32 addr addr | AddPeriodic u32 addr addr | AddWatch int u32 addr addr | AddIdle addr addr
  | RemoveTimeout int | RemovePeriodic int | RemoveWatch int

fun serve :: "request \<Rightarrow> loop_state \<Rightarrow> world \<Rightarrow> (artik_error \<times> int option \<times> loop_state \<times> world) outcome" where
  "serve (AddTimeout ms f u) st w = obind (add_timeout_callback ms f u st w) (\<lambda>(r, n, s). Ret (r, Some n, s))"
| "serve (AddPeriodic ms f u) st w = obind (add_periodic_callback ms f u st w) (\<lambda>(r, n, s). Ret (r, Some n, s))"
| "serve (AddWatch fd io f u) st w = obind (add_fd_watch fd io f u st w) (\<lambda>(r, n, s). Ret (r, Some n, s))"
| "serve (AddIdle f u) st w = obind (add_idle_callback f u st w) (\<lambda>(r, n, s). Ret (r, Some n, s))"
| "serve (RemoveTimeout n) st w = obind (remove_timeout_callback n st w) (\<lambda>(r, s). Ret (r, None, s))"
| "serve (RemovePeriodic n) st w = obind (remove_periodic_callback n st w) (\<lambda>(r, s). Ret (r, None, s))"
| "serve (RemoveWatch n) st w = obind (remove_fd_watch n st w) (\<lambda>(r, s). Ret (r, None, s))"

fun reg_serve :: "request \<Rightarrow> (source_kind \<Rightarrow> int) \<Rightarrow> registry \<Rightarrow> int option \<times> registry" where
  "reg_serve (AddTimeout ms f u) N R = (Some (N TimeoutSource),
     R(TimeoutSource := R TimeoutSource @ [(Some (N TimeoutSource), f, u)]))"
| "reg_serve (AddPeriodic ms f u) N R = (Some (N PeriodicSource),
     R(PeriodicSource := R PeriodicSource @ [(Some (N PeriodicSource), f, u)]))"
| "reg_serve (AddWatch fd io f u) N R = (Some (N WatchSource),
     R(WatchSource := R WatchSource @ [(Some (N WatchSource), f, u)]))"
| "reg_serve (AddIdle f u) N R = (Some (N IdleSource), R(IdleSource := R IdleSource @ [(None, f, u)]))"
| "reg_serve (RemoveTimeout n) N R = (None, R(TimeoutSource := reg_remove n (R TimeoutSource)))"
| "reg_serve (RemovePeriodic n) N R = (None, R(PeriodicSource := reg_remove n (R PeriodicSource)))"
| "reg_serve (RemoveWatch n) N R = (None, R(WatchSource := reg_remove n (R WatchSource)))"

lemmas front_defs = add_timeout_callback_def add_periodic_callback_def add_fd_watch_def add_idle_callback_def
  remove_timeout_callback_def remove_periodic_callback_def remove_fd_watch_def
  os_remove_timeout_callback_def os_remove_periodic_callback_def os_remove_fd_watch_def
  timeout_cleanup_def periodic_cleanup_def watch_cleanup_def

lemma serve_add:
  assumes "stands st R" and "\<And>k t. fresh_blocks (env w) st (hist w) k t" and "realloc_works (env w)"
    and "\<And>k. length (R k) < 65535"
  shows "\<exists>st' w'. os_add_timeout_callback ms f u st w = Ret (S_OK, next_id TimeoutSource st, st', w')
      \<and> stands st' (R(TimeoutSource := R TimeoutSource @ [(Some (next_id TimeoutSource st), f, u)]))" (is ?t)
    and "\<exists>st' w'. os_add_periodic_callback ms f u st w = Ret (S_OK, next_id PeriodicSource st, st', w')
      \<and> stands st' (R(PeriodicSource := R PeriodicSource @ [(Some (next_id PeriodicSource st), f, u)]))" (is ?p)
    and "\<exists>st' w'. os_add_fd_watch fd io f u st w = Ret (S_OK, next_id WatchSource st, st', w')
      \<and> stands st' (R(WatchSource := R WatchSource @ [(Some (next_id WatchSource st), f, u)]))" (is ?w)
    and "\<exists>st' w'. os_add_idle_callback f u st w = Ret (S_OK, next_id IdleSource st, st', w')
      \<and> stands st' (R(IdleSource := R IdleSource @ [(None, f, u)]))" (is ?i)
proof -
  from assms(1) obtain P where P: "linked st P" "\<forall>k. R k = map (entry_of st) (P k)" by (auto simp: stands_def)
  note add = registry_add_refines [OF P assms(2,3,4)]
  have id: "set_id p n s = s\<lparr>l_heap := (l_heap s)(p \<mapsto> (the (l_heap s p))\<lparr>s_id := Some n\<rparr>)\<rparr>"
    if "l_heap s p \<noteq> None" for p n s using that by (auto simp: set_id_def)
  have fd: "set_fd p fd (set_id p n s)
      = s\<lparr>l_heap := (l_heap s)(p \<mapsto> (the (l_heap s p))\<lparr>s_id := Some n, s_fd := Some fd\<rparr>)\<rparr>"
    if "l_heap s p \<noteq> None" for p n s using that by (auto simp: set_id_def set_fd_def)
  show ?t unfolding os_add_timeout_callback_def
    using add [where k = TimeoutSource and fin = "\<lambda>p n. set_id p n" and upd = "\<lambda>n s. s\<lparr>s_id := Some n\<rparr>"] id by simp
  show ?p unfolding os_add_periodic_callback_def
    using add [where k = PeriodicSource and fin = "\<lambda>p n. set_id p n" and upd = "\<lambda>n s. s\<lparr>s_id := Some n\<rparr>"] id by simp
  show ?w unfolding os_add_fd_watch_def
    using add [where k = WatchSource and fin = "\<lambda>p n s. set_fd p fd (set_id p n s)"
      and upd = "\<lambda>n s. s\<lparr>s_id := Some n, s_fd := Some fd\<rparr>"] fd by simp
  show ?i unfolding os_add_idle_callback_def
    using add [where k = IdleSource and fin = "\<lambda>p n s. s" and upd = "\<lambda>n s. s"] by simp
qed


text \<open>An environment with room: blocks are numbered as the history grows.\<close>

definition roomy_env :: "xcall list \<Rightarrow> xcall \<Rightarrow> answer" where
  "roomy_env h c = \<lparr>retv = 64 + int (length h), errno = 0, oval = 0, outb = []\<rparr>"

definition roomy_world :: world where "roomy_world = \<lparr>hist = [], env = roomy_env\<rparr>"

lemma loop_start_linked: "linked loop_start (\<lambda>_. [])"
  by (simp add: linked_def loop_start_def)

lemma loop_start_stands: "stands loop_start (\<lambda>_. [])"
  unfolding stands_def using loop_start_linked by fastforce


subsection \<open>Sources that fire\<close>

lemma retire_undefined: "p \<noteq> 0 \<Longrightarrow> retire k p s st w = Ub UseAfterFree"
  by (simp add: retire_def free_source_def source_id_def source_at_def)

lemma fired_source:
  assumes "linked st P" and "p \<in> set (P k)"
  obtains s where "l_heap st p = Some s" "p \<noteq> 0" "source_of_handle (s_handle s) st = Ret (p, s)"
    "k = WatchSource \<Longrightarrow> s_fd s \<noteq> None"
  using linked_live [OF assms] by (auto simp: live_def source_of_handle_def source_at_def)

definition fires :: "source_kind \<Rightarrow> addr \<Rightarrow> u32 \<Rightarrow> loop_state \<Rightarrow> world \<Rightarrow> (loop_state \<times> world) outcome" where
  "fires k handle ev st w =
     (case k of TimeoutSource \<Rightarrow> timeout_callback handle st w | PeriodicSource \<Rightarrow> periodic_callback handle st w
      | WatchSource \<Rightarrow> watch_callback handle ev st w | IdleSource \<Rightarrow> idle_callback handle st w)"

text \<open>The call of the application's function, and whether its answer keeps the source.\<close>

definition user_call :: "source_kind \<Rightarrow> source \<Rightarrow> u32 \<Rightarrow> xcall" where
  "user_call k s ev = (if k = WatchSource
     then WatchCallback (s_func s) (the (s_fd s)) (watch_events ev) (s_user s) else UserCallback (s_func s) (s_user s))"

definition keeps :: "source_kind \<Rightarrow> int \<Rightarrow> bool" where
  "keeps k r = (case k of TimeoutSource \<Rightarrow> False | PeriodicSource \<Rightarrow> r = 1 | _ \<Rightarrow> r \<noteq> 0)"

text \<open>C20. A registered source that fires calls its function with its user data (a watch also with its
  descriptor and the translated events). Where the answer keeps the source, nothing else changes. In every
  other case, and so for every timeout that expires, the code frees the source and then
  reads the number from the freed block: a use after free.\<close>

theorem fired_sources:
  assumes "linked st P" and "p \<in> set (P k)" and "l_heap st p = Some s" and "s_func s \<noteq> 0"
  shows "fires k (s_handle s) ev st w =
     (let (a, w1) = xc (user_call k s ev) w in if keeps k (retv a) then Ret (st, w1) else Ub UseAfterFree)"
proof -
  from fired_source [OF assms(1,2)] assms(3) have p: "p \<noteq> 0" "source_of_handle (s_handle s) st = Ret (p, s)"
    "k = WatchSource \<Longrightarrow> s_fd s \<noteq> None" by auto
  note defs = fires_def user_call_def keeps_def Let_def case_prod_beta
  show ?thesis using p assms(4) retire_undefined [OF p(1)]
    by (cases k) (auto simp: defs timeout_callback_def periodic_callback_def watch_callback_def idle_callback_def)
qed

text \<open>A loop with one source of a kind.\<close>

definition one_source :: "source_kind \<Rightarrow> loop_state" where
  "one_source k = loop_start\<lparr>l_vec := (\<lambda>_. pvec_empty)(k := \<lparr>pv_data = Some [Some 64], pv_len = 1\<rparr>),
     l_heap := [64 \<mapsto> \<lparr>s_func = 9, s_user = 8, s_handle = 65, s_fd = Some 5,
        s_id = if k = IdleSource then None else Some 0\<rparr>], l_data := [65 \<mapsto> 64]\<rparr>"

lemma one_source_linked: "linked (one_source k) ((\<lambda>_. [])(k := [64]))"
proof -
  have v: "pvec_is \<lparr>pv_data = Some [Some 64], pv_len = 1\<rparr> [64]"
    by (simp add: pvec_is_def slots_def align_power2_short_uint_def)
  have "pvec_is (l_vec (one_source k) j) (((\<lambda>_. [])(k := [64])) j)" for j
    using v by (cases "j = k") (simp_all add: one_source_def)
  moreover have "live (one_source k) k 64"
    by (simp add: live_def one_source_def)
  ultimately show ?thesis by (auto simp: linked_def)
qed

theorem fired_sources_witness:
  "fires TimeoutSource 65 0 (one_source TimeoutSource) good_world = Ub UseAfterFree"
proof -
  have "64 \<in> set (((\<lambda>_. [])(TimeoutSource := [64])) TimeoutSource)" by simp
  from fired_sources [OF one_source_linked this, of "the (l_heap (one_source TimeoutSource) 64)" 0 good_world]
  show ?thesis by (simp add: one_source_def keeps_def xc_def)
qed

text \<open>The number an idle callback was given is never written into it, so with one registered, removing
  any idle callback compares an uninitialised number.\<close>

theorem remove_idle_reads_uninitialised:
  assumes "linked st P" and "P IdleSource \<noteq> []"
  shows "remove_idle_callback n st w = Ub Uninitialised"
proof -
  let ?i = "length (P IdleSource) - 1"
  have i: "?i < length (P IdleSource)" using assms(2) by simp
  have "pv_len (l_vec st IdleSource) = Suc ?i" using linked_vec [OF assms(1), of IdleSource] i by (simp add: pvec_is_def)
  moreover have "live st IdleSource (P IdleSource ! ?i)" using linked_live [OF assms(1)] i by simp
  ultimately show ?thesis using pvec_get [OF linked_vec [OF assms(1)] i]
    by (auto simp: remove_idle_callback_def os_remove_idle_callback_def idle_cleanup_def cleanup_def
        source_id_def source_at_def live_def)
qed

theorem remove_idle_witness: "remove_idle_callback 0 (one_source IdleSource) good_world = Ub Uninitialised"
  by (rule remove_idle_reads_uninitialised [OF one_source_linked]) simp

end
