(* ===== verification/Calendar.thy ===== *)
theory Calendar
  imports Prelude
begin

section \<open>The calendar of the C library\<close>

text \<open>
  \<^verbatim>\<open>struct tm\<close>, \<^verbatim>\<open>gmtime\<close>, \<^verbatim>\<open>timegm\<close> and
  \<^verbatim>\<open>mktime\<close>, as far as the time module uses them, and the proof that the first two are inverse
  to each other. Years are those of the Gregorian calendar; a time that does not fit the 32 bits of
  \<^verbatim>\<open>time_t\<close> makes \<^verbatim>\<open>timegm\<close> return -1. The local time zone is a number of seconds
  east of Greenwich, the same all year round.
\<close>

record tm =
  tm_sec :: int
  tm_min :: int
  tm_hour :: int
  tm_mday :: int
  tm_mon :: int
  tm_year :: int
  tm_wday :: int
  tm_yday :: int

definition leap :: "int \<Rightarrow> bool" where
  "leap y \<longleftrightarrow> y mod 4 = 0 \<and> (y mod 100 \<noteq> 0 \<or> y mod 400 = 0)"

definition year_days :: "int \<Rightarrow> int" where
  "year_days y = (if leap y then 366 else 365)"

text \<open>Days from 1 January 1970 to 1 January of a year, and from there to the first of a month.\<close>

definition days_to_year :: "int \<Rightarrow> int" where
  "days_to_year y = 365 * (y - 1970) + (y - 1969) div 4 - (y - 1901) div 100 + (y - 1601) div 400"

definition month_starts :: "int list" where
  "month_starts = [0, 31, 59, 90, 120, 151, 181, 212, 243, 273, 304, 334, 365]"

definition days_to_month :: "int \<Rightarrow> int \<Rightarrow> int" where
  "days_to_month y m = month_starts ! nat m + (if leap y \<and> 1 < m then 1 else 0)"

definition days_of_month :: "int \<Rightarrow> int \<Rightarrow> int" where
  "days_of_month y m = days_to_month y (m + 1) - days_to_month y m"

definition day_number :: "int \<Rightarrow> int \<Rightarrow> int \<Rightarrow> int" where
  "day_number y m d = days_to_year y + days_to_month y m + d - 1"

subsection \<open>Conversions\<close>

text \<open>Fields out of their ranges count on, as the standard says: months into years, and the others
  because they are only added up.\<close>

definition tm_days :: "tm \<Rightarrow> int" where
  "tm_days t = day_number (tm_year t + 1900 + tm_mon t div 12) (tm_mon t mod 12) (tm_mday t)"

definition tm_seconds :: "tm \<Rightarrow> int" where
  "tm_seconds t = tm_days t * 86400 + tm_hour t * 3600 + tm_min t * 60 + tm_sec t"

definition to_time_t :: "int \<Rightarrow> int" where
  "to_time_t n = (if -2147483648 \<le> n \<and> n \<le> 2147483647 then n else -1)"

definition timegm :: "tm \<Rightarrow> int" where
  "timegm t = to_time_t (tm_seconds t)"

definition mktime :: "int \<Rightarrow> tm \<Rightarrow> int" where
  "mktime zone t = to_time_t (tm_seconds t - zone)"

text \<open>The year a day is in, and its number in it, searched from a given year.\<close>

function year_of :: "int \<Rightarrow> int \<Rightarrow> int \<times> int" where
  "year_of y d =
     (if d < 0 then year_of (y - 1) (d + year_days (y - 1))
      else if d < year_days y then (y, d)
      else year_of (y + 1) (d - year_days y))"
  by auto
termination
  by (relation "measure (\<lambda>(y, d). if d < 0 then nat (- d) else if d < year_days y then 0 else nat d)")
    (auto simp: year_days_def)

declare year_of.simps [simp del]

definition month_of :: "int \<Rightarrow> int \<Rightarrow> int" where
  "month_of y d = int (length (filter (\<lambda>m. days_to_month y m \<le> d) [1..11]))"

definition gmtime :: "int \<Rightarrow> tm" where
  "gmtime t =
     (let days = t div 86400; s = t mod 86400; (y, d) = year_of 1970 days; m = month_of y d
      in \<lparr>tm_sec = s mod 60, tm_min = s div 60 mod 60, tm_hour = s div 3600,
          tm_mday = d - days_to_month y m + 1, tm_mon = m, tm_year = y - 1900,
          tm_wday = (days + 4) mod 7, tm_yday = d\<rparr>)"

subsection \<open>They are inverse to each other\<close>

lemma div_Suc_int: "(a + 1) div n = a div n + (if (a + 1) mod n = 0 then 1 else 0)" if "0 < n" for a n :: int
proof -
  have a: "a = n * (a div n) + a mod n" "0 \<le> a mod n" "a mod n < n" using that by simp_all
  show ?thesis
  proof (cases "a mod n = n - 1")
    case True
    with a(1) have e: "a + 1 = n * (a div n + 1)" by (simp add: algebra_simps)
    show ?thesis unfolding e using that by simp
  next
    case False
    with a have "0 \<le> a mod n + 1" "a mod n + 1 < n" by auto
    moreover have "a + 1 = n * (a div n) + (a mod n + 1)" using a(1) by simp
    ultimately have "(a + 1) div n = a div n" "(a + 1) mod n = a mod n + 1"
      by (metis add.commute div_mult_self4 div_pos_pos_trivial add_0 less_irrefl that,
          metis add.commute mod_mult_self2 mod_pos_pos_trivial)
    with a show ?thesis by simp
  qed
qed

lemma leap_count:
  fixes a b c y :: int
  assumes "r \<longrightarrow> q" and "q \<longrightarrow> p"
  shows "365 * (y + 1 - 1970) + (a + (if p then 1 else 0)) - (b + (if q then 1 else 0)) + (c + (if r then 1 else 0))
    = 365 * (y - 1970) + a - b + c + (if p \<and> (\<not> q \<or> r) then 366 else 365)"
  using assms by (cases r; cases q; cases p; simp)

lemma days_to_next_year: "days_to_year (y + 1) = days_to_year y + year_days y"
proof -
  have "(y - 1969 + 1) = y + 4 * (- 492)" "(y - 1901 + 1) = y + 100 * (- 19)" "(y - 1601 + 1) = y + 400 * (- 4)" by simp_all
  then have m: "(y - 1969 + 1) mod 4 = y mod 4" "(y - 1901 + 1) mod 100 = y mod 100" "(y - 1601 + 1) mod 400 = y mod 400"
    by (simp_all only: mod_mult_self2)
  have e: "y + 1 - 1969 = y - 1969 + 1" "y + 1 - 1901 = y - 1901 + 1" "y + 1 - 1601 = y - 1601 + 1" by simp_all
  have d: "(y + 1 - 1969) div 4 = (y - 1969) div 4 + (if y mod 4 = 0 then 1 else 0)"
    "(y + 1 - 1901) div 100 = (y - 1901) div 100 + (if y mod 100 = 0 then 1 else 0)"
    "(y + 1 - 1601) div 400 = (y - 1601) div 400 + (if y mod 400 = 0 then 1 else 0)"
    unfolding e by (subst div_Suc_int, simp, simp only: m)+
  have "(100 :: int) dvd 400" "(4 :: int) dvd 100" by simp_all
  from this [THEN dvd_trans] have "y mod 400 = 0 \<longrightarrow> y mod 100 = 0" "y mod 100 = 0 \<longrightarrow> y mod 4 = 0"
    unfolding dvd_eq_mod_eq_0 [symmetric] by blast+
  then show ?thesis unfolding days_to_year_def d year_days_def leap_def by (rule leap_count)
qed

lemma days_to_1970 [simp]: "days_to_year 1970 = 0"
  by (simp add: days_to_year_def)

lemma year_of_bounds:
  assumes "year_of y d = (y', d')"
  shows "days_to_year y' + d' = days_to_year y + d \<and> 0 \<le> d' \<and> d' < year_days y'"
  using assms
proof (induction y d arbitrary: y' d' rule: year_of.induct)
  case (1 y d)
  consider "d < 0" | "0 \<le> d" "d < year_days y" | "0 \<le> d" "\<not> d < year_days y" by linarith
  then show ?case
  proof cases
    case 1
    have "days_to_year y = days_to_year (y - 1) + year_days (y - 1)" using days_to_next_year [of "y - 1"] by simp
    with 1 "1.IH"(1) [of y' d'] "1.prems" show ?thesis by (subst (asm) (2) year_of.simps) simp
  next
    case 2
    with "1.prems" show ?thesis by (subst (asm) year_of.simps) simp
  next
    case 3
    with "1.IH"(2) [of y' d'] "1.prems" show ?thesis
      by (subst (asm) (2) year_of.simps) (simp add: days_to_next_year)
  qed
qed

lemma days_to_year_mono: "y \<le> z \<Longrightarrow> days_to_year y \<le> days_to_year z"
proof (induction z rule: int_ge_induct)
  case (step z)
  then show ?case by (simp add: days_to_next_year year_days_def)
qed simp

lemma year_of_unique:
  assumes "0 \<le> d" and "d < year_days y"
  shows "year_of 1970 (days_to_year y + d) = (y, d)"
proof -
  obtain y' d' where r: "year_of 1970 (days_to_year y + d) = (y', d')" by fastforce
  from year_of_bounds [OF r] have b: "days_to_year y' + d' = days_to_year y + d" "0 \<le> d'" "d' < year_days y'" by auto
  have "\<not> y < y'"
  proof
    assume "y < y'"
    then have "days_to_year (y + 1) \<le> days_to_year y'" by (intro days_to_year_mono) simp
    with b assms show False by (simp add: days_to_next_year)
  qed
  moreover have "\<not> y' < y"
  proof
    assume "y' < y"
    then have "days_to_year (y' + 1) \<le> days_to_year y" by (intro days_to_year_mono) simp
    with b assms show False by (simp add: days_to_next_year)
  qed
  ultimately show ?thesis using r b by auto
qed

lemma month_cases:
  fixes m :: int
  assumes "0 \<le> m" and "m < 12"
  shows "m = 0 \<or> m = 1 \<or> m = 2 \<or> m = 3 \<or> m = 4 \<or> m = 5 \<or> m = 6 \<or> m = 7 \<or> m = 8 \<or> m = 9 \<or> m = 10 \<or> m = 11"
  using assms by presburger

lemma days_of_month_ge:
  assumes "0 \<le> m" and "m < 12"
  shows "28 \<le> days_of_month y m"
  using month_cases [OF assms] by (elim disjE) (simp_all add: days_of_month_def days_to_month_def month_starts_def)

lemma days_to_month_mono: "m \<le> n \<Longrightarrow> 0 \<le> m \<Longrightarrow> n \<le> 12 \<Longrightarrow> days_to_month y m \<le> days_to_month y n"
proof (induction n rule: int_ge_induct)
  case (step n)
  then show ?case using days_of_month_ge [of n y] by (simp add: days_of_month_def)
qed simp

lemma days_to_month_ends [simp]: "days_to_month y 0 = 0" "days_to_month y 12 = year_days y"
  by (simp_all add: days_to_month_def month_starts_def year_days_def)

lemma month_of_bounds: "0 \<le> month_of y d" "month_of y d < 12"
proof -
  have "length (filter (\<lambda>m. days_to_month y m \<le> d) [1..11]) \<le> 11"
    by (rule order_trans [OF length_filter_le]) simp
  then show "0 \<le> month_of y d" "month_of y d < 12" by (simp_all add: month_of_def)
qed

theorem timegm_gmtime: "tm_seconds (gmtime t) = t"
proof -
  obtain y d where r: "year_of 1970 (t div 86400) = (y, d)" by fastforce
  from year_of_bounds [OF r] have b: "days_to_year y + d = t div 86400" by simp
  let ?s = "t mod 86400"
  let ?q = "?s div 60"
  have "?s div 3600 = ?q div 60" by (simp add: zdiv_zmult2_eq [symmetric])
  moreover have "?q div 60 * 60 + ?q mod 60 = ?q" "?q * 60 + ?s mod 60 = ?s" by simp_all
  ultimately have s: "?s div 3600 * 3600 + ?q mod 60 * 60 + ?s mod 60 = ?s" by linarith
  have "t div 86400 * 86400 + ?s = t" by simp
  have g: "gmtime t = \<lparr>tm_sec = ?s mod 60, tm_min = ?q mod 60, tm_hour = ?s div 3600,
      tm_mday = d - days_to_month y (month_of y d) + 1, tm_mon = month_of y d, tm_year = y - 1900,
      tm_wday = (t div 86400 + 4) mod 7, tm_yday = d\<rparr>"
    by (simp add: gmtime_def r Let_def)
  have "tm_days (gmtime t) = t div 86400"
    using b month_of_bounds [of y d] by (simp add: g tm_days_def day_number_def)
  then show ?thesis using s \<open>t div 86400 * 86400 + ?s = t\<close> by (simp only: tm_seconds_def g tm.simps)
qed

definition valid_tm :: "tm \<Rightarrow> bool" where
  "valid_tm t \<longleftrightarrow> 0 \<le> tm_sec t \<and> tm_sec t < 60 \<and> 0 \<le> tm_min t \<and> tm_min t < 60 \<and> 0 \<le> tm_hour t \<and> tm_hour t < 24
     \<and> 0 \<le> tm_mon t \<and> tm_mon t < 12 \<and> 1 \<le> tm_mday t \<and> tm_mday t \<le> days_of_month (tm_year t + 1900) (tm_mon t)"

lemma month_of_unique:
  assumes "0 \<le> m" and "m < 12" and "0 \<le> d" and "d < days_of_month y m"
  shows "month_of y (days_to_month y m + d) = m" and "0 \<le> days_to_month y m + d"
    and "days_to_month y m + d < year_days y"
proof -
  let ?d = "days_to_month y m + d"
  have next_month: "?d < days_to_month y (m + 1)" using assms(4) by (simp add: days_of_month_def)
  have "days_to_month y k \<le> ?d \<longleftrightarrow> k \<le> m" if "k \<in> set [1..11]" for k
  proof
    assume k: "days_to_month y k \<le> ?d"
    show "k \<le> m"
    proof (rule ccontr)
      assume "\<not> k \<le> m"
      then have "days_to_month y (m + 1) \<le> days_to_month y k" using that assms by (intro days_to_month_mono) auto
      with k next_month show False by simp
    qed
  next
    assume "k \<le> m"
    then have "days_to_month y k \<le> days_to_month y m" using that assms by (intro days_to_month_mono) auto
    with assms(3) show "days_to_month y k \<le> ?d" by simp
  qed
  then have "filter (\<lambda>k. days_to_month y k \<le> ?d) [1..11] = filter (\<lambda>k. k \<le> m) [1..11]" by (rule filter_cong [OF refl])
  also have "\<dots> = [1..m]"
  proof -
    have "[1..11] = [1..m] @ [m + 1..11]" using assms(1,2) by (cases "m = 0") (auto intro: upto_split2)
    then show ?thesis by (simp add: filter_empty_conv)
  qed
  finally show "month_of y ?d = m" using assms(1) by (simp add: month_of_def)
  show "0 \<le> ?d" using days_to_month_mono [of 0 m y] assms by simp
  show "?d < year_days y" using days_to_month_mono [of "m + 1" 12 y] assms next_month by simp
qed

lemma sexagesimal:
  fixes a b :: int
  assumes "0 \<le> b" and "b < n"
  shows "(a * n + b) div n = a" and "(a * n + b) mod n = b"
  using assms by simp_all

theorem gmtime_timegm:
  assumes "valid_tm t"
  shows "gmtime (tm_seconds t) = t\<lparr>tm_wday := (tm_days t + 4) mod 7,
     tm_yday := days_to_month (tm_year t + 1900) (tm_mon t) + tm_mday t - 1\<rparr>"
proof -
  note v = assms [unfolded valid_tm_def]
  let ?y = "tm_year t + 1900" and ?s = "tm_hour t * 3600 + tm_min t * 60 + tm_sec t"
  let ?d = "days_to_month ?y (tm_mon t) + (tm_mday t - 1)"
  have s: "0 \<le> ?s" "?s < 86400" using v by auto
  have days: "tm_seconds t div 86400 = tm_days t" "tm_seconds t mod 86400 = ?s"
    using s by (simp_all add: tm_seconds_def add.assoc)
  have "tm_days t = days_to_year ?y + ?d" using v by (simp add: tm_days_def day_number_def)
  moreover note m = month_of_unique [of "tm_mon t" "tm_mday t - 1" ?y]
  ultimately have y: "year_of 1970 (tm_days t) = (?y, ?d)" using year_of_unique v by simp
  have mo: "month_of ?y ?d = tm_mon t" using m(1) v by simp
  have "0 \<le> tm_min t * 60 + tm_sec t" "tm_min t * 60 + tm_sec t < 3600" using v by linarith+
  from sexagesimal [OF this, of "tm_hour t"] have h: "?s div 3600 = tm_hour t" by (simp add: add.assoc)
  have e: "?s = (tm_hour t * 60 + tm_min t) * 60 + tm_sec t" by simp
  have q: "?s div 60 = tm_hour t * 60 + tm_min t" "?s mod 60 = tm_sec t"
    unfolding e by (rule sexagesimal; simp add: v)+
  have t: "?s div 60 mod 60 = tm_min t" unfolding q using sexagesimal [of "tm_min t" 60] v by simp
  show ?thesis unfolding gmtime_def days y Let_def prod.case mo h t q(2)
    by (rule tm.equality) (simp_all add: algebra_simps)
qed

end
