(* ===== verification/TimeModule.thy ===== *)
theory TimeModule
  imports World Calendar Bytes
begin

section \<open>The time module (\<^verbatim>\<open>base/time\<close>)\<close>

text \<open>
  The front end \<^verbatim>\<open>artik_time.c\<close> and the Linux back end \<^verbatim>\<open>linux_time.c\<close>. Dates have the
  members of \<^verbatim>\<open>artik_time\<close>, which the back end copies over the first eight members of
  \<^verbatim>\<open>struct tm\<close>. Alarms live on the heap at the addresses \<^verbatim>\<open>malloc\<close> returned; the
  loop module that runs them is reached through the world. \<^verbatim>\<open>time_t\<close> and
  \<^verbatim>\<open>artik_msecond\<close> have 32 bits. \<open>zone\<close> is the local time zone of \<^verbatim>\<open>mktime\<close>.
\<close>

record artik_time =
  second :: u32
  minute :: u32
  hour :: u32
  day :: u32
  month :: u32
  year :: u32
  day_of_week :: u32
  msecond :: u32

definition EPOCH_DEF :: int where "EPOCH_DEF = 1900"

type_synonym time_zone = u32

definition zone_ok :: "time_zone \<Rightarrow> bool" where "zone_ok gmt \<longleftrightarrow> uint gmt \<le> 12"

text \<open>The checks of \<^verbatim>\<open>os_time_set_time\<close> and \<^verbatim>\<open>os_time_create_alarm_date\<close>: the members read as
  \<^verbatim>\<open>int\<close>.\<close>

definition date_ok :: "artik_time \<Rightarrow> bool" where
  "date_ok d \<longleftrightarrow> 0 \<le> sint (second d) \<and> sint (second d) \<le> 59 \<and> 0 \<le> sint (minute d) \<and> sint (minute d) \<le> 59
     \<and> 0 \<le> sint (hour d) \<and> sint (hour d) \<le> 23 \<and> 1 \<le> sint (day d) \<and> sint (day d) \<le> 31
     \<and> 1 \<le> sint (month d) \<and> sint (month d) \<le> 12 \<and> EPOCH_DEF \<le> sint (year d)
     \<and> 0 \<le> sint (day_of_week d) \<and> sint (day_of_week d) \<le> 6 \<and> 0 \<le> sint (msecond d)"

text \<open>\<^verbatim>\<open>memcpy(&tm, &date, sizeof(date))\<close>\<close>

definition tm_of_date :: "artik_time \<Rightarrow> tm" where
  "tm_of_date d = \<lparr>tm_sec = sint (second d), tm_min = sint (minute d), tm_hour = sint (hour d), tm_mday = sint (day d),
     tm_mon = sint (month d), tm_year = sint (year d), tm_wday = sint (day_of_week d), tm_yday = sint (msecond d)\<rparr>"

definition os_time_struct_empty :: "artik_time \<Rightarrow> artik_error" where
  "os_time_struct_empty d =
     (let check_set = second d OR minute d OR hour d OR day d OR month d OR year d OR day_of_week d OR msecond d
      in if 0 < sint check_set then S_OK else E_BAD_ARGS)"

subsection \<open>The clock\<close>

text \<open>\<^verbatim>\<open>None\<close> where \<^verbatim>\<open>gettimeofday\<close> fails; then the caller's structure keeps what it held.\<close>

definition os_time_get_sys :: "time_zone \<Rightarrow> world \<Rightarrow> tm option \<times> world" where
  "os_time_get_sys gmt w =
     (let (a, w1) = xc Gettimeofday w
      in if retv a < 0 then (None, w1)
         else let t = gmtime (oval a div 1000000)
              in (Some (t\<lparr>tm_hour := (tm_hour t + uint gmt) mod 24, tm_year := tm_year t + EPOCH_DEF\<rparr>), w1))"

definition os_time_set_time :: "artik_time \<Rightarrow> time_zone \<Rightarrow> world \<Rightarrow> artik_error \<times> world" where
  "os_time_set_time date gmt w =
     (if \<not> zone_ok gmt \<or> \<not> date_ok date then (E_BAD_ARGS, w)
      else let t = tm_of_date date;
               h = tm_hour t - uint gmt;
               sec = timegm (t\<lparr>tm_year := tm_year t - EPOCH_DEF, tm_mon := tm_mon t - 1, tm_hour := if h < 0 then 23 else h\<rparr>)
           in if sec < 0 then (E_BAD_ARGS, w)
              else let (r, w1) = xcv (ClockSettime sec) w in (if r < 0 then E_BAD_ARGS else S_OK, w1))"

definition os_time_get_time :: "time_zone \<Rightarrow> world \<Rightarrow> artik_error \<times> artik_time option \<times> world" where
  "os_time_get_time gmt w =
     (if \<not> zone_ok gmt then (E_BAD_ARGS, None, w)
      else let (a, w1) = xc Gettimeofday w
           in if retv a < 0 then (E_INVALID_VALUE, None, w1)
              else let t = gmtime (oval a div 1000000)
                   in (S_OK, Some \<lparr>second = word_of_int (tm_sec t), minute = word_of_int (tm_min t),
                        hour = word_of_int ((tm_hour t + uint gmt) mod 24), day = word_of_int (tm_mday t),
                        month = word_of_int (tm_mon t + 1), year = word_of_int (tm_year t + EPOCH_DEF),
                        day_of_week = word_of_int (tm_wday t), msecond = word_of_int (oval a mod 1000000 div 1000)\<rparr>, w1))"

text \<open>\<^verbatim>\<open>memset\<close> of a \<^verbatim>\<open>struct tm\<close> with zeros, and with ones.\<close>

definition tm_filled :: "int \<Rightarrow> tm" where
  "tm_filled x = \<lparr>tm_sec = x, tm_min = x, tm_hour = x, tm_mday = x, tm_mon = x, tm_year = x, tm_wday = x, tm_yday = x\<rparr>"

definition memset_0 :: tm where "memset_0 = tm_filled 0"
definition memset_1 :: tm where "memset_1 = tm_filled 0x01010101"

text \<open>The current time as the alarms compute it, from what the structure was initialised to. The callers
  ignore the failure of \<^verbatim>\<open>os_time_get_sys\<close>.\<close>

definition now_seconds :: "int \<Rightarrow> tm \<Rightarrow> time_zone \<Rightarrow> world \<Rightarrow> int \<times> world" where
  "now_seconds zone init gmt w =
     (let (r, w1) = os_time_get_sys gmt w; t = (case r of None \<Rightarrow> init | Some t \<Rightarrow> t)
      in (mktime zone (t\<lparr>tm_yday := 0, tm_year := tm_year t - EPOCH_DEF\<rparr>), w1))"

text \<open>Seconds times a thousand as \<^verbatim>\<open>long\<close>; the day of the year over a thousand is 0.\<close>

definition os_time_get_tick :: "int \<Rightarrow> world \<Rightarrow> (u32 \<times> world) outcome" where
  "os_time_get_tick zone w =
     (let (r, w1) = os_time_get_sys 0 w; t = (case r of None \<Rightarrow> memset_0 | Some t \<Rightarrow> t); ms = tm_yday t;
          sec = mktime zone (t\<lparr>tm_yday := 0, tm_year := tm_year t - EPOCH_DEF, tm_mon := tm_mon t + 1\<rparr>)
      in if sec = -1 then Ret (0, w1)
         else let tick = sec * 1000 + ms div 1000
              in if tick < -2147483648 \<or> 2147483647 < tick then Ub Overflow else Ret (word_of_int tick, w1))"

subsection \<open>Dates as strings\<close>

definition digits :: "nat \<Rightarrow> int \<Rightarrow> string" where
  "digits n x = (let s = int_str x in replicate (n - length s) CHR ''0'' @ s)"

text \<open>\<^verbatim>\<open>strftime\<close>: the conversions of the default format and \<^verbatim>\<open>%H\<close>, as the header lists them;
  \<open>conv\<close> is what the C library makes of the others.\<close>

definition strf_conv :: "(char \<Rightarrow> tm \<Rightarrow> string) \<Rightarrow> char \<Rightarrow> tm \<Rightarrow> string" where
  "strf_conv conv c t =
     (if c = CHR ''I'' then digits 2 ((tm_hour t + 11) mod 12 + 1)
      else if c = CHR ''H'' then digits 2 (tm_hour t)
      else if c = CHR ''M'' then digits 2 (tm_min t)
      else if c = CHR ''S'' then digits 2 (tm_sec t)
      else if c = CHR ''w'' then digits 1 (tm_wday t)
      else if c = CHR ''d'' then digits 2 (tm_mday t)
      else if c = CHR ''m'' then digits 2 (tm_mon t + 1)
      else if c = CHR ''Y'' then digits 1 (tm_year t + 1900)
      else if c = CHR ''%'' then ''%''
      else conv c t)"

fun strf :: "(char \<Rightarrow> tm \<Rightarrow> string) \<Rightarrow> string \<Rightarrow> tm \<Rightarrow> string" where
  "strf conv [] t = []"
| "strf conv [c] t = [c]"
| "strf conv (c # d # cs) t = (if c = CHR ''%'' then strf_conv conv d t @ strf conv cs t else c # strf conv (d # cs) t)"

text \<open>The number of bytes, and the buffer where the result fits it with its terminator.\<close>

definition strftime :: "(char \<Rightarrow> tm \<Rightarrow> string) \<Rightarrow> nat \<Rightarrow> string \<Rightarrow> tm \<Rightarrow> nat \<times> string option" where
  "strftime conv len fmt t = (let s = strf conv fmt t in if length s < len then (length s, Some s) else (0, None))"

definition ARTIK_TIME_DFORMAT :: string where "ARTIK_TIME_DFORMAT = ''%I:%M:%S-%w-%d/%m/%Y''"

text \<open>The string is \<open>None\<close> where the buffer does not hold a result.\<close>

definition os_time_get_time_str :: "(char \<Rightarrow> tm \<Rightarrow> string) \<Rightarrow> bool \<Rightarrow> int \<Rightarrow> string option \<Rightarrow> time_zone \<Rightarrow> world
    \<Rightarrow> artik_error \<times> string option \<times> world" where
  "os_time_get_time_str conv date_str len fmt gmt w =
     (if \<not> date_str then (E_BAD_ARGS, None, w)
      else if len \<le> 0 then (E_BAD_ARGS, None, w)
      else if \<not> zone_ok gmt then (E_BAD_ARGS, None, w)
      else let (r, w1) = os_time_get_sys gmt w; t = (case r of None \<Rightarrow> memset_0 | Some t \<Rightarrow> t);
               (n, s) = strftime conv (nat len) (case fmt of None \<Rightarrow> ARTIK_TIME_DFORMAT | Some f \<Rightarrow> f)
                          (t\<lparr>tm_year := tm_year t - EPOCH_DEF\<rparr>)
           in if n = 0 then (E_BAD_ARGS, None, w1) else (S_OK, s, w1))"

subsection \<open>Alarms\<close>

record alarm =
  al_gmt :: time_zone
  al_func :: addr
  al_date :: u32
  al_loop :: addr
  al_id :: int

type_synonym alarms = "addr \<Rightarrow> alarm option"

text \<open>The error, what is stored in \<^verbatim>\<open>*handle\<close> (\<open>None\<close>: nothing) and the heap.\<close>

type_synonym alarm_result = "(artik_error \<times> addr option \<times> alarms \<times> world) outcome"

definition os_time_create_alarm_second :: "int \<Rightarrow> time_zone \<Rightarrow> addr \<Rightarrow> addr \<Rightarrow> u32 \<Rightarrow> alarms \<Rightarrow> world \<Rightarrow> alarm_result" where
  "os_time_create_alarm_second zone gmt func user sec al w =
     (if \<not> zone_ok gmt then Ret (E_BAD_ARGS, None, al, w)
      else if sint sec < 0 then Ret (E_BAD_ARGS, None, al, w)
      else if func = 0 then Ret (E_BAD_ARGS, None, al, w)
      else let (now, w1) = now_seconds zone memset_1 gmt w
           in if now < 0 then Ret (E_BAD_ARGS, None, al, w1)
              else if 2147483647 < now + sint sec then Ub Overflow
              else let (a, w2) = xc (Malloc 20) w1; p = nat (retv a)
                   in if retv a = 0 then Ub NullDeref
                      else let (l, w3) = xc (ModRequest ''loop'') w2;
                               r = \<lparr>al_gmt = gmt, al_func = func, al_date = word_of_int (now + sint sec),
                                    al_loop = nat (retv l), al_id = 0\<rparr>
                           in if retv l = 0 then Ret (E_BUSY, Some p, al(p \<mapsto> r), w3)
                              else let (b, w4) = xc (AddTimeout (nat (retv l)) (sec * 1000) func user) w3
                                   in Ret (retv b, Some p, al(p \<mapsto> r\<lparr>al_id := oval b\<rparr>), w4))"

text \<open>The difference is a \<^verbatim>\<open>double\<close>; converting a negative one to an unsigned type is
  undefined.\<close>

definition os_time_create_alarm_date :: "int \<Rightarrow> time_zone \<Rightarrow> addr \<Rightarrow> addr \<Rightarrow> artik_time \<Rightarrow> alarms \<Rightarrow> world \<Rightarrow> alarm_result" where
  "os_time_create_alarm_date zone gmt func user date al w =
     (if \<not> zone_ok gmt then Ret (E_BAD_ARGS, None, al, w)
      else if os_time_struct_empty date \<noteq> S_OK then Ret (E_BAD_ARGS, None, al, w)
      else if func = 0 then Ret (E_BAD_ARGS, None, al, w)
      else if \<not> date_ok date then Ret (E_BAD_ARGS, None, al, w)
      else let (now, w1) = now_seconds zone memset_0 gmt w
           in if now < 0 then Ret (E_INVALID_VALUE, None, al, w1)
              else let t = tm_of_date date;
                       t1 = (if EPOCH_DEF < tm_year t then t\<lparr>tm_year := tm_year t - EPOCH_DEF, tm_mon := tm_mon t - 1\<rparr> else t);
                       then_s = mktime zone (t1\<lparr>tm_yday := 0\<rparr>)
                   in if then_s < 0 then Ret (E_INVALID_VALUE, None, al, w1)
                      else if then_s < now then Ub Overflow
                      else os_time_create_alarm_second zone gmt func user (word_of_int (then_s - now)) al w1)"

text \<open>The timeout of the loop module is not removed.\<close>

definition os_time_delete_alarm :: "addr \<Rightarrow> alarms \<Rightarrow> world \<Rightarrow> (artik_error \<times> alarms \<times> world) outcome" where
  "os_time_delete_alarm h al w =
     (if h = 0 then Ret (S_OK, al, w)
      else if al h = None then Ub UseAfterFree
      else Ret (S_OK, al(h := None), xcu (Free h) w))"

definition os_time_get_delay_alarm :: "int \<Rightarrow> addr \<Rightarrow> alarms \<Rightarrow> world \<Rightarrow> (artik_error \<times> u32 \<times> world) outcome" where
  "os_time_get_delay_alarm zone h al w =
     (case al h of
        None \<Rightarrow> Ub UseAfterFree
      | Some a \<Rightarrow>
          (case os_time_get_sys (al_gmt a) w of
             (None, w1) \<Rightarrow> Ret (E_BAD_ARGS, 0, w1)
           | (Some t, w1) \<Rightarrow>
               let res = mktime zone (t\<lparr>tm_year := tm_year t - EPOCH_DEF, tm_yday := 0\<rparr>)
               in if res < 0 then Ret (E_INVALID_VALUE, 0, w1)
                  else let now = word_of_int res :: u32
                       in Ret (S_OK, if al_date a \<le> now then 0 else al_date a - now, w1)))"

subsection \<open>Network time\<close>

definition NTP_PORT :: nat where "NTP_PORT = 123"
definition EPOCH_BALANCE :: u32 where "EPOCH_BALANCE = 2208988800"

definition ntp_request :: bytes where "ntp_request = 8 # replicate 47 0"

text \<open>\<^verbatim>\<open>buf[4]\<close>: the fifth 32-bit word of the answer.\<close>

definition ntp_seconds :: "bytes \<Rightarrow> u32" where
  "ntp_seconds buf = ntohl (of_le32 (take 4 (drop 16 buf))) - EPOCH_BALANCE"

definition os_time_sync_ntp :: "bytes option \<Rightarrow> world \<Rightarrow> (artik_error \<times> world) outcome" where
  "os_time_sync_ntp hostname w =
     (case hostname of
        None \<Rightarrow> Ret (E_BAD_ARGS, w)
      | Some host \<Rightarrow>
          let (p, w1) = xcv (Getprotobyname ''udp'') w
          in if p = 0 then Ub NullDeref
             else let (sock, w2) = xcv (Socket ''udp'') w1;
                      (so, w3) = xcv (Setsockopt sock ''SO_RCVTIMEO'') w2
                  in if so < 0 then Ret (E_BAD_ARGS, w3)
                     else let (h, w4) = xc (Gethostbyname host) w3
                          in if retv h = 0 then Ret (E_HTTP_ERROR, w4)
                             else let (n, w5) = xcv (SendTo sock ntp_request (word_of_int (oval h)) NTP_PORT) w4
                                  in if n \<noteq> 48 then Ret (E_BAD_ARGS, w5)
                                     else let (a, w6) = xc (Recv sock 48) w5
                                          in if retv a \<noteq> 48 then Ret (E_BAD_ARGS, w6)
                                             else let (r, w7) = xcv (Settimeofday (sint (ntp_seconds (outb a)))) w6
                                                  in Ret (if r \<noteq> 0 then E_BAD_ARGS else S_OK, w7))"

subsection \<open>The front end (\<^verbatim>\<open>artik_time.c\<close>)\<close>

definition artik_time_set_time :: "artik_time \<Rightarrow> time_zone \<Rightarrow> world \<Rightarrow> artik_error \<times> world" where
  "artik_time_set_time date gmt w = os_time_set_time date gmt w"

text \<open>\<open>date\<close>: is the pointer not null?\<close>

definition artik_time_get_time :: "time_zone \<Rightarrow> bool \<Rightarrow> world \<Rightarrow> artik_error \<times> artik_time option \<times> world" where
  "artik_time_get_time gmt date w = (if \<not> date then (E_BAD_ARGS, None, w) else os_time_get_time gmt w)"

definition artik_time_get_time_str :: "(char \<Rightarrow> tm \<Rightarrow> string) \<Rightarrow> bool \<Rightarrow> int \<Rightarrow> string option \<Rightarrow> time_zone \<Rightarrow> world
    \<Rightarrow> artik_error \<times> string option \<times> world" where
  "artik_time_get_time_str conv date_str len fmt gmt w = os_time_get_time_str conv date_str len fmt gmt w"

definition artik_time_get_tick :: "int \<Rightarrow> world \<Rightarrow> (u32 \<times> world) outcome" where
  "artik_time_get_tick zone w = os_time_get_tick zone w"

text \<open>\<open>handle\<close> is what the pointer to the handle points to, \<open>None\<close> for a null pointer.\<close>

definition artik_time_create_alarm_second :: "int \<Rightarrow> time_zone \<Rightarrow> u32 \<Rightarrow> addr option \<Rightarrow> addr \<Rightarrow> addr \<Rightarrow> alarms \<Rightarrow> world
    \<Rightarrow> alarm_result" where
  "artik_time_create_alarm_second zone gmt sec handle func user al w =
     (if handle \<noteq> Some 0 \<or> sec = 0 then Ret (E_BAD_ARGS, None, al, w)
      else os_time_create_alarm_second zone gmt func user sec al w)"

definition artik_time_create_alarm_date :: "int \<Rightarrow> time_zone \<Rightarrow> artik_time \<Rightarrow> addr option \<Rightarrow> addr \<Rightarrow> addr \<Rightarrow> alarms \<Rightarrow> world
    \<Rightarrow> alarm_result" where
  "artik_time_create_alarm_date zone gmt date handle func user al w =
     (if handle \<noteq> Some 0 then Ret (E_BAD_ARGS, None, al, w)
      else os_time_create_alarm_date zone gmt func user date al w)"

definition artik_time_delete_alarm :: "addr \<Rightarrow> alarms \<Rightarrow> world \<Rightarrow> (artik_error \<times> alarms \<times> world) outcome" where
  "artik_time_delete_alarm h al w = (if h = 0 then Ret (E_BAD_ARGS, al, w) else os_time_delete_alarm h al w)"

definition artik_time_get_delay_alarm :: "int \<Rightarrow> addr \<Rightarrow> bool \<Rightarrow> alarms \<Rightarrow> world \<Rightarrow> (artik_error \<times> u32 \<times> world) outcome" where
  "artik_time_get_delay_alarm zone h out al w =
     (if h = 0 \<or> \<not> out then Ret (E_BAD_ARGS, 0, w) else os_time_get_delay_alarm zone h al w)"

definition artik_time_sync_ntp :: "bytes option \<Rightarrow> world \<Rightarrow> (artik_error \<times> world) outcome" where
  "artik_time_sync_ntp hostname w = os_time_sync_ntp hostname w"

text \<open>\<open>None\<close> is a null pointer.\<close>

definition compare_by :: "u32 \<Rightarrow> u32 \<Rightarrow> int \<Rightarrow> int" where
  "compare_by x y k = (if y < x then 1 else if x < y then -1 else k)"

definition artik_time_compare_dates :: "artik_time option \<Rightarrow> artik_time option \<Rightarrow> int" where
  "artik_time_compare_dates date1 date2 =
     (case (date1, date2) of
        (Some a, Some b) \<Rightarrow>
          compare_by (year a) (year b) (compare_by (month a) (month b) (compare_by (day a) (day b)
            (compare_by (hour a) (hour b) (compare_by (minute a) (minute b) (compare_by (second a) (second b)
               (compare_by (msecond a) (msecond b) 0))))))
      | _ \<Rightarrow> -2)"

end
