(* ===== verification/TimeProps.thy ===== *)
theory TimeProps
  imports TimeModule
begin

section \<open>The time module: dates, alarms, network time\<close>

text \<open>
  The seconds a date stands for, the order of dates, what the clock is set to and read as in a time
  zone, and how an alarm counts down.
\<close>

text \<open>The civil time of a date, with month and year as \<^verbatim>\<open>struct tm\<close> has them.\<close>

definition civil :: "artik_time \<Rightarrow> tm" where
  "civil d = (tm_of_date d)\<lparr>tm_mon := sint (month d) - 1, tm_year := sint (year d) - 1900\<rparr>"

definition date_seconds :: "artik_time \<Rightarrow> int" where
  "date_seconds d = tm_seconds (civil d)"

text \<open>Dates that exist.\<close>

definition real_date :: "artik_time \<Rightarrow> bool" where
  "real_date d \<longleftrightarrow> date_ok d \<and> sint (day d) \<le> days_of_month (sint (year d)) (sint (month d) - 1)"

lemma sint_small: "0 \<le> sint x \<Longrightarrow> sint x = uint x" for x :: u32
  using nat_sint32 [of x] by (metis int_nat_eq uint_nat)

lemma civil_valid: "real_date d \<Longrightarrow> valid_tm (civil d)"
  by (auto simp: real_date_def date_ok_def valid_tm_def civil_def tm_of_date_def)

lemma date_ok_uint:
  assumes "date_ok d"
  shows "sint (second d) = uint (second d)" "sint (minute d) = uint (minute d)" "sint (hour d) = uint (hour d)"
    "sint (day d) = uint (day d)" "sint (month d) = uint (month d)" "sint (year d) = uint (year d)"
    "sint (msecond d) = uint (msecond d)"
  using assms by (auto simp: date_ok_def EPOCH_DEF_def intro!: sint_small)

subsection \<open>The order of dates\<close>

lemma compare_by_sgn: "compare_by x y k = (if sgn (uint x - uint y) = 0 then k else sgn (uint x - uint y))"
  by (auto simp: compare_by_def word_less_def word_uint_eq_iff sgn_if)

text \<open>Mixed radix: the higher digit decides.\<close>

lemma sgn_radix:
  fixes x y a b n :: int
  assumes "0 \<le> a" "a < n" "0 \<le> b" "b < n"
  shows "sgn ((x * n + a) - (y * n + b)) = (if sgn (x - y) = 0 then sgn (a - b) else sgn (x - y))"
proof -
  consider "x = y" | "x < y" | "y < x" by linarith
  then show ?thesis
  proof cases
    case 2
    have "(x + 1) * n \<le> y * n" using 2 assms by (intro mult_right_mono) auto
    then have "(x * n + a) - (y * n + b) < 0" using assms by (simp add: algebra_simps)
    with 2 show ?thesis by (simp add: sgn_if)
  next
    case 3
    have "(y + 1) * n \<le> x * n" using 3 assms by (intro mult_right_mono) auto
    then have "0 < (x * n + a) - (y * n + b)" using assms by (simp add: algebra_simps)
    with 3 show ?thesis by (simp add: sgn_if)
  qed simp
qed

lemma day_number_year:
  assumes "y < y'" "0 \<le> m" "m < 12" "d \<le> days_of_month y m" "0 \<le> m'" "m' < 12" "1 \<le> d'"
  shows "day_number y m d < day_number y' m' d'"
proof -
  have "days_to_month y (m + 1) \<le> year_days y" using days_to_month_mono [of "m + 1" 12 y] assms by simp
  then have "day_number y m d < days_to_year (y + 1)"
    using assms by (simp add: day_number_def days_to_next_year days_of_month_def)
  also have "\<dots> \<le> days_to_year y'" using assms by (intro days_to_year_mono) simp
  also have "\<dots> \<le> day_number y' m' d'" using days_to_month_mono [of 0 m' y'] assms by (simp add: day_number_def)
  finally show ?thesis .
qed

lemma day_number_month:
  assumes "m < m'" "0 \<le> m" "m' < 12" "d \<le> days_of_month y m" "1 \<le> d'"
  shows "day_number y m d < day_number y m' d'"
  using days_to_month_mono [of "m + 1" m' y] assms by (simp add: day_number_def days_of_month_def)

lemma day_number_sgn:
  assumes "0 \<le> m" "m < 12" "1 \<le> d" "d \<le> days_of_month y m"
    and "0 \<le> m'" "m' < 12" "1 \<le> d'" "d' \<le> days_of_month y' m'"
  shows "sgn (day_number y m d - day_number y' m' d')
    = (if sgn (y - y') = 0 then if sgn (m - m') = 0 then sgn (d - d') else sgn (m - m') else sgn (y - y'))"
proof -
  consider "y < y'" | "y' < y" | "y = y'" "m < m'" | "y = y'" "m' < m" | "y = y'" "m = m'" by linarith
  then show ?thesis
  proof cases
    case 1 with day_number_year [of y y' m d m' d'] assms show ?thesis by (simp add: sgn_if)
  next
    case 2 with day_number_year [of y' y m' d' m d] assms show ?thesis by (simp add: sgn_if)
  next
    case 3 with day_number_month [of m m' d y d'] assms show ?thesis by (simp add: sgn_if)
  next
    case 4 with day_number_month [of m' m d' y d] assms show ?thesis by (simp add: sgn_if)
  qed (simp add: day_number_def)
qed

text \<open>Milliseconds since the epoch.\<close>

definition date_ms :: "artik_time \<Rightarrow> int" where
  "date_ms d = date_seconds d * 1000 + uint (msecond d)"

text \<open>C22. Comparing two dates that exist, with milliseconds below 1000, gives the sign of the difference of
  the instants they stand for.\<close>

theorem compare_dates_is_order:
  assumes "real_date a" and "real_date b" and "uint (msecond a) < 1000" and "uint (msecond b) < 1000"
  shows "artik_time_compare_dates (Some a) (Some b) = sgn (date_ms a - date_ms b)"
proof -
  have ok: "date_ok a" "date_ok b" using assms by (auto simp: real_date_def)
  note u = date_ok_uint [OF ok(1)] date_ok_uint [OF ok(2)]
  note ra = assms(1) [unfolded real_date_def date_ok_def u] and rb = assms(2) [unfolded real_date_def date_ok_def u]
  let ?D = "\<lambda>d. day_number (uint (year d)) (uint (month d) - 1) (uint (day d))"
  have ms: "date_ms d = (((?D d * 24 + uint (hour d)) * 60 + uint (minute d)) * 60 + uint (second d)) * 1000 + uint (msecond d)"
    if "real_date d" for d
  proof -
    have "date_ok d" using that by (simp add: real_date_def)
    note u = date_ok_uint [OF this]
    have "0 \<le> uint (month d) - 1" "uint (month d) - 1 < 12" using that by (auto simp: real_date_def date_ok_def u)
    then have "tm_days (civil d) = ?D d" by (simp add: tm_days_def civil_def tm_of_date_def u)
    then show ?thesis by (simp add: date_ms_def date_seconds_def tm_seconds_def civil_def tm_of_date_def u algebra_simps)
  qed
  let ?H = "\<lambda>d. ?D d * 24 + uint (hour d)"
  let ?M = "\<lambda>d. ?H d * 60 + uint (minute d)"
  let ?S = "\<lambda>d. ?M d * 60 + uint (second d)"
  have m: "uint (month a) - 1 - (uint (month b) - 1) = uint (month a) - uint (month b)" by simp
  have D: "sgn (?D a - ?D b) = (if sgn (uint (year a) - uint (year b)) = 0
      then if sgn (uint (month a) - uint (month b)) = 0 then sgn (uint (day a) - uint (day b))
        else sgn (uint (month a) - uint (month b)) else sgn (uint (year a) - uint (year b)))"
    unfolding m [symmetric] by (rule day_number_sgn) (use ra rb in auto)
  have H: "sgn (?H a - ?H b) = (if sgn (?D a - ?D b) = 0 then sgn (uint (hour a) - uint (hour b)) else sgn (?D a - ?D b))"
    by (rule sgn_radix) (use ra rb in auto)
  have M: "sgn (?M a - ?M b) = (if sgn (?H a - ?H b) = 0 then sgn (uint (minute a) - uint (minute b)) else sgn (?H a - ?H b))"
    by (rule sgn_radix) (use ra rb in auto)
  have S: "sgn (?S a - ?S b) = (if sgn (?M a - ?M b) = 0 then sgn (uint (second a) - uint (second b)) else sgn (?M a - ?M b))"
    by (rule sgn_radix) (use ra rb in auto)
  have "sgn (date_ms a - date_ms b)
    = (if sgn (?S a - ?S b) = 0 then sgn (uint (msecond a) - uint (msecond b)) else sgn (?S a - ?S b))"
    unfolding ms [OF assms(1)] ms [OF assms(2)] by (rule sgn_radix) (use assms(3,4) in auto)
  then show ?thesis unfolding S M H D artik_time_compare_dates_def compare_by_sgn by (simp split: if_split)
qed

text \<open>Two dates of the same day.\<close>

definition noon :: artik_time where
  "noon = \<lparr>second = 0, minute = 30, hour = 12, day = 1, month = 3, year = 2017, day_of_week = 3, msecond = 0\<rparr>"

lemma real_noon: "real_date noon" "real_date (noon\<lparr>second := 1\<rparr>)"
  by (simp_all add: real_date_def date_ok_def noon_def EPOCH_DEF_def days_of_month_def days_to_month_def month_starts_def)

theorem compare_dates_witness: "artik_time_compare_dates (Some (noon\<lparr>second := 1\<rparr>)) (Some noon) = 1"
proof -
  have "uint (msecond noon) < 1000" "uint (msecond (noon\<lparr>second := 1\<rparr>)) < 1000" by (simp_all add: noon_def)
  from compare_dates_is_order [OF real_noon(2,1) this(2,1)]
  have "artik_time_compare_dates (Some (noon\<lparr>second := 1\<rparr>)) (Some noon)
    = sgn (date_ms (noon\<lparr>second := 1\<rparr>) - date_ms noon)" .
  also have "date_ms (noon\<lparr>second := 1\<rparr>) - date_ms noon = 1000"
    by (simp add: date_ms_def date_seconds_def tm_seconds_def tm_days_def civil_def tm_of_date_def noon_def)
  finally show ?thesis by simp
qed

subsection \<open>The clock in a time zone\<close>

definition clock :: "world \<Rightarrow> int \<Rightarrow> bool" where
  "clock w t \<longleftrightarrow> 0 \<le> retv (env w (hist w) Gettimeofday) \<and> oval (env w (hist w) Gettimeofday) div 1000000 = t"

lemma clockD: "clock w t \<Longrightarrow> \<not> retv (env w (hist w) Gettimeofday) < 0"
  "clock w t \<Longrightarrow> oval (env w (hist w) Gettimeofday) div 1000000 = t"
  by (auto simp: clock_def)

lemma xc_world: "snd (xc c w) = xcu c w"
  by (simp add: xc_def xcu_def)

lemma word_of_sint_uint: "0 \<le> sint x \<Longrightarrow> word_of_int (uint x) = x" for x :: u32
  by simp

text \<open>The date is set to the local time less the hours of the zone.\<close>

lemma set_time_sets:
  assumes "real_date d" and "zone_ok gmt" and "h = (if uint (hour d) < uint gmt then 23 else uint (hour d) - uint gmt)"
    and "s = date_seconds d + (h - uint (hour d)) * 3600" and "0 \<le> s" and "s \<le> 2147483647"
    and "0 \<le> retv (env w (hist w) (ClockSettime s))"
  shows "artik_time_set_time d gmt w = (S_OK, xcu (ClockSettime s) w)"
proof -
  have ok: "date_ok d" using assms(1) by (simp add: real_date_def)
  note u = date_ok_uint [OF ok]
  let ?t = "tm_of_date d"
  have e: "?t\<lparr>tm_year := tm_year ?t - EPOCH_DEF, tm_mon := tm_mon ?t - 1,
      tm_hour := if tm_hour ?t - uint gmt < 0 then 23 else tm_hour ?t - uint gmt\<rparr> = (civil d)\<lparr>tm_hour := h\<rparr>"
    using assms(3) by (simp add: civil_def tm_of_date_def EPOCH_DEF_def u)
  have "tm_seconds ((civil d)\<lparr>tm_hour := h\<rparr>) = s"
    using assms(4) by (simp add: date_seconds_def tm_seconds_def tm_days_def civil_def tm_of_date_def u algebra_simps)
  then have "timegm ((civil d)\<lparr>tm_hour := h\<rparr>) = s" using assms(5,6) by (simp add: timegm_def to_time_t_def)
  then show ?thesis using assms(2,5,7) ok e
    by (simp add: artik_time_set_time_def os_time_set_time_def Let_def xcv_def xcu_def)
qed

text \<open>C21. A date that exists and whose hour is not below its zone, set and then read in the same zone, comes
  back, with the day of the week computed and the milliseconds of the clock.\<close>

theorem set_then_get_time:
  assumes "real_date d" and "zone_ok gmt" and "uint gmt \<le> uint (hour d)" and "s = date_seconds d - 3600 * uint gmt"
    and "0 \<le> s" and "s \<le> 2147483647" and "0 \<le> retv (env w (hist w) (ClockSettime s))" and "clock v s"
  shows "artik_time_set_time d gmt w = (S_OK, xcu (ClockSettime s) w)
    \<and> artik_time_get_time gmt True v = (S_OK, Some (d\<lparr>day_of_week := word_of_int ((date_seconds d div 86400 + 4) mod 7),
        msecond := word_of_int (oval (env v (hist v) Gettimeofday) mod 1000000 div 1000)\<rparr>), xcu Gettimeofday v)"
proof
  have ok: "date_ok d" using assms(1) by (simp add: real_date_def)
  note u = date_ok_uint [OF ok]
  show "artik_time_set_time d gmt w = (S_OK, xcu (ClockSettime s) w)"
    by (rule set_time_sets [OF assms(1,2) refl _ assms(5-7)]) (use assms(3,4) in \<open>simp add: algebra_simps\<close>)
  let ?c = "(civil d)\<lparr>tm_hour := uint (hour d) - uint gmt\<rparr>"
  have v: "valid_tm (civil d)" by (rule civil_valid [OF assms(1)])
  have h: "tm_hour (civil d) = uint (hour d)" by (simp add: civil_def tm_of_date_def u)
  have "uint (hour d) < 24" using v h by (simp add: valid_tm_def)
  then have "uint (hour d) - uint gmt < 24" using uint_ge_0 [of gmt] by linarith
  then have vc: "valid_tm ?c" using v h assms(3) by (simp add: valid_tm_def)
  have days: "tm_days ?c = tm_days (civil d)" by (simp add: tm_days_def)
  have "tm_seconds ?c = s" using assms(4) h by (simp add: tm_seconds_def date_seconds_def days algebra_simps)
  with gmtime_timegm [OF vc] have g: "gmtime s = ?c\<lparr>tm_wday := (tm_days (civil d) + 4) mod 7,
      tm_yday := days_to_month (tm_year ?c + 1900) (tm_mon ?c) + tm_mday ?c - 1\<rparr>" by (simp add: days)
  have "date_seconds d = tm_days (civil d) * 86400 + (tm_hour (civil d) * 3600 + tm_min (civil d) * 60 + tm_sec (civil d))"
    by (simp add: date_seconds_def tm_seconds_def)
  then have dd: "date_seconds d div 86400 = tm_days (civil d)"
    using v sexagesimal [of "tm_hour (civil d) * 3600 + tm_min (civil d) * 60 + tm_sec (civil d)" 86400 "tm_days (civil d)"]
    by (simp add: valid_tm_def)
  have "uint (hour d) mod 24 = uint (hour d)" using v h by (simp add: valid_tm_def)
  then show "artik_time_get_time gmt True v = (S_OK, Some (d\<lparr>day_of_week := word_of_int ((date_seconds d div 86400 + 4) mod 7),
        msecond := word_of_int (oval (env v (hist v) Gettimeofday) mod 1000000 div 1000)\<rparr>), xcu Gettimeofday v)"
    using assms(2) clockD [OF assms(8)] unfolding dd
    by (simp add: artik_time_get_time_def os_time_get_time_def Let_def xc_def xcu_def g civil_def tm_of_date_def
        EPOCH_DEF_def case_prod_beta u)
qed

text \<open>An environment whose clock stands still.\<close>

definition clock_env :: "int \<Rightarrow> xcall list \<Rightarrow> xcall \<Rightarrow> answer" where
  "clock_env t h c = (if c = Gettimeofday then \<lparr>retv = 0, errno = 0, oval = t * 1000000, outb = []\<rparr> else good_env h c)"

definition clock_world :: "int \<Rightarrow> world" where "clock_world t = \<lparr>hist = [], env = clock_env t\<rparr>"

lemma clock_world_clock [simp]: "clock (clock_world t) t"
  by (simp add: clock_def clock_world_def clock_env_def)

theorem set_then_get_time_witness:
  "fst (artik_time_set_time noon 9 good_world) = S_OK
    \<and> artik_time_get_time 9 True (clock_world 1488339000) = (S_OK, Some noon, xcu Gettimeofday (clock_world 1488339000))"
proof -
  have s: "date_seconds noon = 1488371400"
    by (simp add: date_seconds_def tm_seconds_def tm_days_def civil_def tm_of_date_def noon_def day_number_def
        days_to_year_def days_to_month_def month_starts_def leap_def)
  have "1488339000 = date_seconds noon - 3600 * uint (9 :: u32)" by (simp add: s)
  from set_then_get_time [OF real_noon(1) _ _ this _ _ _ clock_world_clock, of good_world] show ?thesis
    by (simp add: zone_ok_def noon_def s [unfolded noon_def] good_env_def clock_world_def clock_env_def)
qed

text \<open>A date whose hour is below its zone sets the clock to the hour 23 of the same day: between 24 and 35 hours
  later than the date says.\<close>

theorem set_time_below_zone:
  assumes "real_date d" and "zone_ok gmt" and "uint (hour d) < uint gmt"
    and "s = (date_seconds d - 3600 * uint gmt) + 3600 * (23 + uint gmt - uint (hour d))"
    and "0 \<le> s" and "s \<le> 2147483647" and "0 \<le> retv (env w (hist w) (ClockSettime s))"
  shows "artik_time_set_time d gmt w = (S_OK, xcu (ClockSettime s) w)"
  by (rule set_time_sets [OF assms(1,2) refl _ assms(5-7)]) (use assms(3,4) in \<open>simp add: algebra_simps\<close>)

subsection \<open>Alarms\<close>

text \<open>A day lost where the local time is past midnight and the date is not carried.\<close>

definition wrap :: "int \<Rightarrow> time_zone \<Rightarrow> int" where
  "wrap t gmt = (if 24 \<le> tm_hour (gmtime t) + uint gmt then 86400 else 0)"

text \<open>What the alarms take for the present.\<close>

definition present :: "int \<Rightarrow> time_zone \<Rightarrow> int \<Rightarrow> int" where
  "present zone gmt t = t + 3600 * uint gmt - wrap t gmt - zone"

lemma gmtime_hour: "0 \<le> tm_hour (gmtime t)" "tm_hour (gmtime t) < 24"
proof -
  have "0 \<le> t mod 86400" "t mod 86400 < 86400" by simp_all
  then show "0 \<le> tm_hour (gmtime t)" "tm_hour (gmtime t) < 24"
    by (simp_all add: gmtime_def Let_def case_prod_beta pos_imp_zdiv_nonneg_iff)
qed

lemma hour_wraps:
  assumes "0 \<le> h" "h < 24" "0 \<le> g" "g \<le> 12"
  shows "(h + g) mod 24 = h + g - (if 24 \<le> h + g then 24 else (0 :: int))"
proof (cases "24 \<le> h + g")
  case True
  have "(h + g) mod 24 = (h + g - 24) mod 24" by simp
  also have "\<dots> = h + g - 24" by (rule mod_pos_pos_trivial) (use assms True in auto)
  finally show ?thesis using True by simp
qed (use assms in simp)

lemma now_seconds_present:
  assumes "clock w t" and "zone_ok gmt" and "0 \<le> present zone gmt t" and "present zone gmt t \<le> 2147483647"
  shows "now_seconds zone init gmt w = (present zone gmt t, xcu Gettimeofday w)"
    and "\<exists>x. os_time_get_sys gmt w = (Some x, xcu Gettimeofday w)
      \<and> mktime zone (x\<lparr>tm_year := tm_year x - EPOCH_DEF, tm_yday := 0\<rparr>) = present zone gmt t"
proof -
  let ?g = "gmtime t"
  let ?x = "?g\<lparr>tm_hour := (tm_hour ?g + uint gmt) mod 24, tm_year := tm_year ?g + EPOCH_DEF\<rparr>"
  have sys: "os_time_get_sys gmt w = (Some ?x, xcu Gettimeofday w)"
    using clockD [OF assms(1)] by (simp add: os_time_get_sys_def Let_def xc_def xcu_def)
  have "(tm_hour ?g + uint gmt) mod 24 * 3600 = tm_hour ?g * 3600 + 3600 * uint gmt - wrap t gmt"
    using hour_wraps [OF gmtime_hour, of "uint gmt" t] assms(2) by (simp add: zone_ok_def wrap_def)
  then have "tm_seconds (?g\<lparr>tm_hour := (tm_hour ?g + uint gmt) mod 24, tm_yday := 0\<rparr>) = t + 3600 * uint gmt - wrap t gmt"
    using timegm_gmtime [of t] by (simp add: tm_seconds_def tm_days_def)
  then have m: "mktime zone (?x\<lparr>tm_year := tm_year ?x - EPOCH_DEF, tm_yday := 0\<rparr>) = present zone gmt t"
    using assms(3,4) by (simp add: mktime_def to_time_t_def present_def)
  then show "\<exists>x. os_time_get_sys gmt w = (Some x, xcu Gettimeofday w)
      \<and> mktime zone (x\<lparr>tm_year := tm_year x - EPOCH_DEF, tm_yday := 0\<rparr>) = present zone gmt t" using sys by blast
  from m show "now_seconds zone init gmt w = (present zone gmt t, xcu Gettimeofday w)"
    by (simp add: now_seconds_def sys)
qed

definition fits :: "int \<Rightarrow> bool" where "fits x \<longleftrightarrow> 0 \<le> x \<and> x \<le> 2147483647"

lemma fits_word: "fits x \<Longrightarrow> uint (word_of_int x :: u32) = x"
  by (simp add: fits_def uint_word_of_int)

lemma word_delay:
  assumes "fits a" and "fits b"
  shows "(if (word_of_int a :: u32) \<le> word_of_int b then 0 else word_of_int a - word_of_int b :: u32) = word_of_int (max 0 (a - b))"
  using assms by (simp add: word_le_def fits_word max_def)

lemma get_delay_present:
  assumes "al h = Some a" and "al_date a = word_of_int b" and "fits b" and "zone_ok (al_gmt a)" and "h \<noteq> 0"
    and "clock v t" and "fits (present zone (al_gmt a) t)"
  shows "artik_time_get_delay_alarm zone h True al v
    = Ret (S_OK, word_of_int (max 0 (b - present zone (al_gmt a) t)), xcu Gettimeofday v)"
proof -
  from now_seconds_present(2) [OF assms(6,4), of zone] assms(7) obtain x where
    x: "os_time_get_sys (al_gmt a) v = (Some x, xcu Gettimeofday v)"
      "mktime zone (x\<lparr>tm_year := tm_year x - EPOCH_DEF, tm_yday := 0\<rparr>) = present zone (al_gmt a) t" by (auto simp: fits_def)
  have "0 \<le> present zone (al_gmt a) t" using assms(7) by (simp add: fits_def)
  with x assms(1,5) word_delay [OF assms(3,7), folded assms(2)] show ?thesis
    by (simp add: artik_time_get_delay_alarm_def os_time_get_delay_alarm_def Let_def)
qed

text \<open>An alarm in a number of seconds asks the loop for that many times 1000 milliseconds, in 32 bits, and
  counts down with the clock, in the zone of the alarm, exactly while no midnight of that zone
  passes that is not one of Greenwich: then the delay is a day too long or too short.\<close>

theorem alarm_counts_down:
  assumes "zone_ok gmt" and "func \<noteq> 0" and "0 < sint sec" and "clock w t"
    and "fits (present zone gmt t)" and "fits (present zone gmt t + sint sec)"
    and "p = retv (env w (hist w @ [Gettimeofday]) (Malloc 20))" and "0 < p"
    and "l = retv (env w (hist w @ [Gettimeofday, Malloc 20]) (ModRequest ''loop''))" and "l \<noteq> 0"
  shows "\<exists>r al' w'. artik_time_create_alarm_second zone gmt sec (Some 0) func user al w = Ret (r, Some (nat p), al', w')
     \<and> hist w' = hist w @ [Gettimeofday, Malloc 20, ModRequest ''loop'', AddTimeout (nat l) (sec * 1000) func user]
     \<and> (\<forall>v t'. clock v t' \<longrightarrow> fits (present zone gmt t') \<longrightarrow> artik_time_get_delay_alarm zone (nat p) True al' v
            = Ret (S_OK, word_of_int (max 0 (sint sec - (t' - t) + wrap t' gmt - wrap t gmt)), xcu Gettimeofday v))"
proof -
  let ?now = "present zone gmt t"
  note now = now_seconds_present(1) [OF assms(4,1), of zone] 
  have "sec \<noteq> 0" using assms(3) by auto
  let ?w = "xcu Gettimeofday w"
  let ?r = "\<lparr>al_gmt = gmt, al_func = func, al_date = word_of_int (?now + sint sec), al_loop = nat l, al_id = 0\<rparr>"
  let ?c = "AddTimeout (nat l) (sec * 1000) func user"
  let ?w3 = "xcu (ModRequest ''loop'') (xcu (Malloc 20) ?w)"
  define a where "a = ?r\<lparr>al_id := oval (env w (hist ?w3) ?c)\<rparr>"
  have run: "artik_time_create_alarm_second zone gmt sec (Some 0) func user al w
      = Ret (retv (env w (hist ?w3) ?c), Some (nat p), al(nat p \<mapsto> a), xcu ?c ?w3)"
    using assms(1,2,3,5,6,8,10) \<open>sec \<noteq> 0\<close> now assms(7,9)
    by (simp add: a_def artik_time_create_alarm_second_def os_time_create_alarm_second_def fits_def Let_def xc_def xcu_def)
  have "artik_time_get_delay_alarm zone (nat p) True (al(nat p \<mapsto> a)) v
      = Ret (S_OK, word_of_int (max 0 (sint sec - (t' - t) + wrap t' gmt - wrap t gmt)), xcu Gettimeofday v)"
    if v: "clock v t'" "fits (present zone gmt t')" for v t'
  proof -
    have d: "?now + sint sec - present zone gmt t' = sint sec - (t' - t) + wrap t' gmt - wrap t gmt"
      by (simp add: present_def)
    have a: "al_date a = word_of_int (?now + sint sec)" "al_gmt a = gmt" by (simp_all add: a_def)
    have "nat p \<noteq> 0" using assms(8) by simp
    note get_delay_present [where zone = zone, OF fun_upd_same a(1) assms(6) _ this v(1), unfolded a(2), OF assms(1) v(2)]
    then show ?thesis unfolding d .
  qed
  with run show ?thesis by (intro exI conjI) auto
qed

text \<open>A morning in zone 9, before midnight of Greenwich; the delay is read an hour later.\<close>

theorem alarm_counts_down_witness:
  "\<exists>al'. artik_time_get_delay_alarm 0 64 True al' (clock_world 3601) = Ret (S_OK, 3600, xcu Gettimeofday (clock_world 3601))"
proof -
  have h: "tm_hour (gmtime 1) = 0" "tm_hour (gmtime 3601) = 1" by (simp_all add: gmtime_def Let_def case_prod_beta)
  have "zone_ok 9" "0 < sint (7200 :: u32)" by (simp_all add: zone_ok_def)
  moreover have "fits (present 0 9 1)" "fits (present 0 9 1 + sint (7200 :: u32))" "fits (present 0 9 3601)"
    by (simp_all add: fits_def present_def wrap_def h)
  moreover have m: "retv (env (clock_world 1) [Gettimeofday] (Malloc 20)) = 64"
    "retv (env (clock_world 1) [Gettimeofday, Malloc 20] (ModRequest ''loop'')) = 80" "hist (clock_world 1) = []"
    by (simp_all add: clock_world_def clock_env_def)
  ultimately show ?thesis
    using alarm_counts_down [of 9 1 7200 "clock_world 1" 1 0 64 80] clock_world_clock [of 3601]
    by (force simp: wrap_def h)
qed

text \<open>An alarm for a date in the past converts a negative number to an unsigned type.\<close>

theorem alarm_in_the_past:
  assumes "zone_ok gmt" and "func \<noteq> 0" and "date_ok d" and "os_time_struct_empty d = S_OK" and "1900 < uint (year d)"
    and "clock w t" and "fits (present zone gmt t)" and "fits (date_seconds d - zone)"
    and "date_seconds d - zone < present zone gmt t"
  shows "artik_time_create_alarm_date zone gmt d (Some 0) func user al w = Ub Overflow"
proof -
  note u = date_ok_uint [OF assms(3)]
  note now = now_seconds_present(1) [OF assms(6,1), of zone memset_0]
  have "(tm_of_date d)\<lparr>tm_year := tm_year (tm_of_date d) - EPOCH_DEF, tm_mon := tm_mon (tm_of_date d) - 1\<rparr> = civil d"
    by (simp add: civil_def tm_of_date_def EPOCH_DEF_def)
  moreover have "mktime zone ((civil d)\<lparr>tm_yday := 0\<rparr>) = date_seconds d - zone"
    using assms(8) by (simp add: mktime_def to_time_t_def fits_def date_seconds_def tm_seconds_def tm_days_def)
  moreover have "EPOCH_DEF < tm_year (tm_of_date d)" using assms(5) by (simp add: tm_of_date_def EPOCH_DEF_def u)
  ultimately show ?thesis using assms now
    by (simp add: artik_time_create_alarm_date_def os_time_create_alarm_date_def fits_def Let_def)
qed

subsection \<open>Network time\<close>

text \<open>Synchronising with a server leaves its socket open on every path. When it succeeds, the clock was set to
  the fifth word of the answer, which is the time at which the server's own clock was last set,
  whatever the server says the time is now.\<close>

theorem sync_ntp_reference_time:
  assumes "retv (env w (hist w) (Getprotobyname ''udp'')) \<noteq> 0"
    and "sock = retv (env w (hist w @ [Getprotobyname ''udp'']) (Socket ''udp''))" and "0 \<le> sock"
  shows "\<exists>r w'. artik_time_sync_ntp (Some host) w = Ret (r, w') \<and> opened w' = sock # opened w
    \<and> (r = S_OK \<longrightarrow> (\<exists>pre a. hist w' = pre @ [Recv sock 48, Settimeofday (sint (ntp_seconds (outb a)))]
          \<and> a = env w pre (Recv sock 48) \<and> retv a = 48))"
proof -
  let ?w1 = "snd (xc (Getprotobyname ''udp'') w)"
  let ?w2 = "snd (xc (Socket ''udp'') ?w1)"
  let ?w3 = "snd (xc (Setsockopt sock ''SO_RCVTIMEO'') ?w2)"
  let ?w4 = "snd (xc (Gethostbyname host) ?w3)"
  let ?c = "SendTo sock ntp_request (word_of_int (oval (env ?w3 (hist ?w3) (Gethostbyname host)))) NTP_PORT"
  let ?w5 = "snd (xc ?c ?w4)"
  let ?w6 = "snd (xc (Recv sock 48) ?w5)"
  let ?a = "env ?w5 (hist ?w5) (Recv sock 48)"
  have o: "opened ?w2 = sock # opened w" using assms(2,3) by (simp add: fd_neutral_def)
  then have o6: "opened ?w3 = sock # opened w" "opened ?w4 = sock # opened w" "opened ?w5 = sock # opened w"
    "opened ?w6 = sock # opened w" "opened (snd (xc (Settimeofday s) ?w6)) = sock # opened w" for s
    by (simp_all add: fd_neutral_def)
  have run: "artik_time_sync_ntp (Some host) w =
      (if retv (env ?w2 (hist ?w2) (Setsockopt sock ''SO_RCVTIMEO'')) < 0 then Ret (E_BAD_ARGS, ?w3)
       else if retv (env ?w3 (hist ?w3) (Gethostbyname host)) = 0 then Ret (E_HTTP_ERROR, ?w4)
       else if retv (env ?w4 (hist ?w4) ?c) \<noteq> 48 then Ret (E_BAD_ARGS, ?w5)
       else if retv ?a \<noteq> 48 then Ret (E_BAD_ARGS, ?w6)
       else Ret (if retv (env ?w6 (hist ?w6) (Settimeofday (sint (ntp_seconds (outb ?a))))) \<noteq> 0 then E_BAD_ARGS else S_OK,
         snd (xc (Settimeofday (sint (ntp_seconds (outb ?a)))) ?w6)))"
    using assms(1,2) by (simp add: artik_time_sync_ntp_def os_time_sync_ntp_def xcv_def xc_def Let_def)
  have "hist (snd (xc (Settimeofday s) ?w6)) = hist ?w5 @ [Recv sock 48, Settimeofday s]" for s by simp
  then show ?thesis unfolding run using o6 by (auto simp: S_OK_def E_BAD_ARGS_def E_HTTP_ERROR_def simp del: hist_xc opened_xc)
qed

lemma ntp_seconds_fifth_word:
  "length pre = 16 \<Longrightarrow> length x = 4 \<Longrightarrow> ntp_seconds (pre @ x @ post) = ntohl (of_le32 x) - EPOCH_BALANCE"
  by (simp add: ntp_seconds_def)

definition ntp_env :: "xcall list \<Rightarrow> xcall \<Rightarrow> answer" where
  "ntp_env h c = (case c of
      Getprotobyname s \<Rightarrow> \<lparr>retv = 1, errno = 0, oval = 0, outb = []\<rparr>
    | Recv fd n \<Rightarrow> \<lparr>retv = 48, errno = 0, oval = 0,
        outb = replicate 16 0 @ [0xE0, 0, 0, 0] @ replicate 20 0 @ [0xE0, 0, 1, 0] @ replicate 4 0\<rparr>
    | _ \<Rightarrow> good_env h c)"

text \<open>A server that was set at \<^verbatim>\<open>0xE0000000\<close> and now says \<^verbatim>\<open>0xE0000100\<close>.\<close>

theorem sync_ntp_witness:
  "\<exists>r w'. artik_time_sync_ntp (Some []) \<lparr>hist = [], env = ntp_env\<rparr> = Ret (r, w') \<and> opened w' = [3]"
proof -
  have "opened \<lparr>hist = [], env = ntp_env\<rparr> = []" by (simp add: opened_def)
  moreover have "retv (ntp_env [] (Getprotobyname ''udp'')) \<noteq> 0" "retv (ntp_env [Getprotobyname ''udp''] (Socket ''udp'')) = 3"
    by (simp_all add: ntp_env_def)
  ultimately show ?thesis
    using sync_ntp_reference_time [of "\<lparr>hist = [], env = ntp_env\<rparr>" 3 "[]"] by auto
qed

end
