(* ===== verification/Cloud.thy ===== *)
theory Cloud
  imports HandleTable
begin

section \<open>The cloud module (\<^verbatim>\<open>connectivity/cloud/artik_cloud.c\<close>)\<close>

text \<open>
  Requests to the ARTIK cloud over the HTTP module and a stream of messages over the websocket
  module; both are reached through the world. Strings are their bytes without the terminator, a null
  pointer is \<open>None\<close>. \<^verbatim>\<open>snprintf\<close> is \<open>fmt\<close>, which writes the conversions the formats use,
  cut to the size of the buffer. The response, which the HTTP module writes through a pointer of the
  caller, is left out.
\<close>

datatype fmt_arg = Str bytes | Dec int

fun arg_bytes :: "fmt_arg \<Rightarrow> bytes" where
  "arg_bytes (Str s) = s"
| "arg_bytes (Dec i) = bytes_of (int_str i)"

fun fmt :: "string \<Rightarrow> fmt_arg list \<Rightarrow> bytes" where
  "fmt [] as = []"
| "fmt [c] as = [of_char c]"
| "fmt (c # d # cs) [] = of_char c # fmt (d # cs) []"
| "fmt (c # d # cs) (a # as) =
     (if c = CHR ''%'' \<and> (d = CHR ''s'' \<or> d = CHR ''d'') then arg_bytes a @ fmt cs as
      else of_char c # fmt (d # cs) (a # as))"

definition snprintf :: "nat \<Rightarrow> string \<Rightarrow> fmt_arg list \<Rightarrow> bytes" where
  "snprintf n f as = take (n - 1) (fmt f as)"

subsection \<open>Addresses and bodies\<close>

definition ARTIK_CLOUD_URL_MAX :: nat where "ARTIK_CLOUD_URL_MAX = 256"
definition ARTIK_CLOUD_TOKEN_MAX :: nat where "ARTIK_CLOUD_TOKEN_MAX = 128"
definition ARTIK_CLOUD_URL :: "string \<Rightarrow> string" where
  "ARTIK_CLOUD_URL x = ''https://api.artik.cloud'' @ ''/v1.1/'' @ x"
definition ARTIK_CLOUD_URL_MESSAGES :: string where "ARTIK_CLOUD_URL_MESSAGES = ARTIK_CLOUD_URL ''messages''"
definition ARTIK_CLOUD_URL_SELF_USER :: string where "ARTIK_CLOUD_URL_SELF_USER = ARTIK_CLOUD_URL ''users/self''"
definition ARTIK_CLOUD_URL_USER_DEVICES :: string where
  "ARTIK_CLOUD_URL_USER_DEVICES = ARTIK_CLOUD_URL ''users/%s/devices?count=%d&includeProperties=%s&offset=%d''"
definition ARTIK_CLOUD_URL_USER_DEVICE_TYPES :: string where
  "ARTIK_CLOUD_URL_USER_DEVICE_TYPES = ARTIK_CLOUD_URL ''users/%s/devicetypes?count=%d&includeShared=%s&offset=%d''"
definition ARTIK_CLOUD_URL_USER_APP_PROPS :: string where
  "ARTIK_CLOUD_URL_USER_APP_PROPS = ARTIK_CLOUD_URL ''users/%s/properties?aid=%s''"
definition ARTIK_CLOUD_URL_GET_DEVICE :: string where
  "ARTIK_CLOUD_URL_GET_DEVICE = ARTIK_CLOUD_URL ''devices/%s?properties=%s''"
definition ARTIK_CLOUD_URL_DELETE_DEVICE :: string where "ARTIK_CLOUD_URL_DELETE_DEVICE = ARTIK_CLOUD_URL ''devices/%s''"
definition ARTIK_CLOUD_URL_ADD_DEVICE :: string where "ARTIK_CLOUD_URL_ADD_DEVICE = ARTIK_CLOUD_URL ''devices''"
definition ARTIK_CLOUD_ADD_DEVICE_BODY :: string where
  \<open>ARTIK_CLOUD_ADD_DEVICE_BODY =
     ''{"uid": "%s", "dtid": "%s","name": "%s", "manifestVersionPolicy": "LATEST"}''\<close>
definition ARTIK_CLOUD_URL_GET_DEVICE_TOKEN :: string where
  "ARTIK_CLOUD_URL_GET_DEVICE_TOKEN = ARTIK_CLOUD_URL ''devices/%s/tokens''"
definition ARTIK_CLOUD_URL_UPDATE_DEVICE_TOKEN :: string where
  "ARTIK_CLOUD_URL_UPDATE_DEVICE_TOKEN = ARTIK_CLOUD_URL ''devices/%s/tokens''"
definition ARTIK_CLOUD_URL_DELETE_DEVICE_TOKEN :: string where
  "ARTIK_CLOUD_URL_DELETE_DEVICE_TOKEN = ARTIK_CLOUD_URL ''devices/%s/tokens''"
definition ARTIK_CLOUD_SECURE_URL :: "string \<Rightarrow> string" where
  "ARTIK_CLOUD_SECURE_URL x = ''https://s-api.artik.cloud/'' @ ''v1.1/'' @ x"
definition ARTIK_CLOUD_SECURE_URL_REG_DEVICE :: string where
  "ARTIK_CLOUD_SECURE_URL_REG_DEVICE = ARTIK_CLOUD_SECURE_URL ''cert/devices/registrations''"
definition ARTIK_CLOUD_SECURE_URL_REG_ID :: string where
  "ARTIK_CLOUD_SECURE_URL_REG_ID = ARTIK_CLOUD_SECURE_URL ''cert/devices/registrations/%s''"
definition ARTIK_CLOUD_SECURE_URL_REG_STATUS :: string where
  "ARTIK_CLOUD_SECURE_URL_REG_STATUS = ARTIK_CLOUD_SECURE_URL ''cert/devices/registrations/%s/status''"
definition ARTIK_CLOUD_MESSAGE_BODY :: string where
  \<open>ARTIK_CLOUD_MESSAGE_BODY = ''{"type": "message","sdid": "%s","data": %s}''\<close>
definition ARTIK_CLOUD_ACTION_BODY :: string where
  \<open>ARTIK_CLOUD_ACTION_BODY = ''{"type": "action","ddid": "%s","data": %s}''\<close>
definition ARTIK_CLOUD_SECURE_REG_DEVICE_BODY :: string where
  \<open>ARTIK_CLOUD_SECURE_REG_DEVICE_BODY = ''{"deviceTypeId":"%s","vendorDeviceId":"%s"}''\<close>
definition ARTIK_CLOUD_SECURE_REG_COMPLETE_BODY :: string where
  \<open>ARTIK_CLOUD_SECURE_REG_COMPLETE_BODY = ''{"nonce":"%s"}''\<close>
definition ARTIK_CLOUD_WEBSOCKET_STR_MAX :: nat where "ARTIK_CLOUD_WEBSOCKET_STR_MAX = 1024"
definition ARTIK_CLOUD_WEBSOCKET_HOST :: string where "ARTIK_CLOUD_WEBSOCKET_HOST = ''api.artik.cloud''"
definition ARTIK_CLOUD_WEBSOCKET_PATH :: string where "ARTIK_CLOUD_WEBSOCKET_PATH = ''/v1.1/websocket?ack=true''"
definition ARTIK_CLOUD_WEBSOCKET_MESSAGE_BODY :: string where
  \<open>ARTIK_CLOUD_WEBSOCKET_MESSAGE_BODY = ''{"sdid":"%s","Authorization":"bearer %s","type":"%s"}''\<close>
definition ARTIK_CLOUD_WEBSOCKET_SEND_MESSAGE_BODY :: string where
  \<open>ARTIK_CLOUD_WEBSOCKET_SEND_MESSAGE_BODY = ''{"sdid":"%s","type":"%s","data":%s}''\<close>
definition ARTIK_CLOUD_WEBSOCKET_PORT :: int where "ARTIK_CLOUD_WEBSOCKET_PORT = 443"
definition ARTIK_CLOUD_SECURE_WEBSOCKET_HOST :: string where "ARTIK_CLOUD_SECURE_WEBSOCKET_HOST = ''s-api.artik.cloud''"

subsection \<open>Requests\<close>

text \<open>\<open>n\<close> is what the module's function table has at its address; a null module cannot be called.\<close>

type_synonym headers = "(bytes \<times> bytes) list"

definition bearer_headers :: "bytes \<Rightarrow> headers" where
  "bearer_headers access_token =
     [(bytes_of ''Authorization'', snprintf ARTIK_CLOUD_TOKEN_MAX ''Bearer %s'' [Str access_token]),
      (bytes_of ''Content-Type'', bytes_of ''application/json'')]"

definition accept_header :: headers where
  "accept_header = [(bytes_of ''Accept'', bytes_of ''application/json'')]"

definition sdr_headers :: headers where
  "sdr_headers = accept_header @ [(bytes_of ''Content-Type'', bytes_of ''application/json''),
     (bytes_of ''charsets:'', bytes_of ''utf-8'')]"

text \<open>\<^verbatim>\<open>http->get\<close> and its siblings, the test of the status, and the release of the module; \<open>conflict\<close>
  is the error for the status 409.\<close>

definition perform :: "artik_error \<Rightarrow> string \<Rightarrow> bytes \<Rightarrow> headers \<Rightarrow> bytes option \<Rightarrow> ssl_choice \<Rightarrow> addr \<Rightarrow> world
    \<Rightarrow> (artik_error \<times> world) outcome" where
  "perform conflict method url hs content ssl http w =
     (if http = 0 then Ub NullDeref
      else let (a, w1) = xc (Http http method url hs content ssl) w;
               r = (if retv a \<noteq> S_OK then retv a
                    else if oval a \<noteq> 200 then (if oval a = 409 then conflict else E_HTTP_ERROR) else S_OK)
           in Ret (r, w1))"

definition request_without_body :: "string \<Rightarrow> bytes \<Rightarrow> headers \<Rightarrow> bytes option \<Rightarrow> ssl_choice \<Rightarrow> addr \<Rightarrow> world
    \<Rightarrow> (artik_error \<times> world) outcome" where
  "request_without_body method url hs content ssl http w =
     obind (perform E_HTTP_ERROR method url hs content ssl http w) (\<lambda>(r, w1). Ret (r, xcu (ModRelease http) w1))"

text \<open>With a body that is formatted into a block of its own: the length of the format and of the arguments,
  and one.\<close>

definition body_len :: "string \<Rightarrow> bytes list \<Rightarrow> nat" where
  "body_len f as = length f + sum_list (map length as) + 1"

definition request_with_body :: "artik_error \<Rightarrow> string \<Rightarrow> bytes \<Rightarrow> headers \<Rightarrow> string \<Rightarrow> bytes list \<Rightarrow> ssl_choice \<Rightarrow> addr \<Rightarrow> world
    \<Rightarrow> (artik_error \<times> world) outcome" where
  "request_with_body conflict method url hs f as ssl http w =
     (let n = body_len f as; (b, w1) = xc (Malloc n) w
      in if retv b = 0 then Ret (E_NO_MEM, w1)
         else obind (perform conflict method url hs (Some (snprintf n f (map Str as))) ssl http w1)
                (\<lambda>(r, w2). Ret (r, xcu (ModRelease http) (xcu (Free (nat (retv b))) w2))))"

definition http_module :: "world \<Rightarrow> addr \<times> world" where
  "http_module w = (let (a, w1) = xc (ModRequest ''http'') w in (nat (retv a), w1))"

type_synonym cloud_call = "world \<Rightarrow> (artik_error \<times> world) outcome"

definition get_current_user_profile :: "bytes option \<Rightarrow> ssl_choice \<Rightarrow> cloud_call" where
  "get_current_user_profile access_token ssl w =
     (let (http, w1) = http_module w
      in case access_token of
           None \<Rightarrow> Ret (E_BAD_ARGS, w1)
         | Some t \<Rightarrow> request_without_body ''get'' (bytes_of ARTIK_CLOUD_URL_SELF_USER) (bearer_headers t) None ssl http w1)"

definition true_false :: "bool \<Rightarrow> fmt_arg" where
  "true_false b = Str (bytes_of (if b then ''true'' else ''false''))"

definition get_user_devices :: "bytes option \<Rightarrow> int \<Rightarrow> bool \<Rightarrow> int \<Rightarrow> bytes option \<Rightarrow> ssl_choice \<Rightarrow> cloud_call" where
  "get_user_devices access_token count properties offset user_id ssl w =
     (let (http, w1) = http_module w
      in case (access_token, user_id) of
           (Some t, Some u) \<Rightarrow>
             let url = snprintf ARTIK_CLOUD_URL_MAX ARTIK_CLOUD_URL_USER_DEVICES
                         [Str u, Dec count, true_false properties, Dec offset]
             in request_without_body ''get'' url (bearer_headers t) None ssl http w1
         | _ \<Rightarrow> Ret (E_BAD_ARGS, w1))"

definition get_user_device_types :: "bytes option \<Rightarrow> int \<Rightarrow> bool \<Rightarrow> int \<Rightarrow> bytes option \<Rightarrow> ssl_choice \<Rightarrow> cloud_call" where
  "get_user_device_types access_token count shared offset user_id ssl w =
     (let (http, w1) = http_module w
      in case (access_token, user_id) of
           (Some t, Some u) \<Rightarrow>
             let url = snprintf ARTIK_CLOUD_URL_MAX ARTIK_CLOUD_URL_USER_DEVICE_TYPES
                         [Str u, Dec count, true_false shared, Dec offset]
             in request_without_body ''get'' url (bearer_headers t) None ssl http w1
         | _ \<Rightarrow> Ret (E_BAD_ARGS, w1))"

definition get_user_application_properties :: "bytes option \<Rightarrow> bytes option \<Rightarrow> bytes option \<Rightarrow> ssl_choice \<Rightarrow> cloud_call" where
  "get_user_application_properties access_token user_id app_id ssl w =
     (let (http, w1) = http_module w
      in case (access_token, user_id, app_id) of
           (Some t, Some u, Some a) \<Rightarrow>
             let url = snprintf ARTIK_CLOUD_URL_MAX ARTIK_CLOUD_URL_USER_APP_PROPS [Str u, Str a]
             in request_without_body ''get'' url (bearer_headers t) None ssl http w1
         | _ \<Rightarrow> Ret (E_BAD_ARGS, w1))"

definition get_device :: "bytes option \<Rightarrow> bytes option \<Rightarrow> bool \<Rightarrow> ssl_choice \<Rightarrow> cloud_call" where
  "get_device access_token device_id properties ssl w =
     (let (http, w1) = http_module w
      in case (access_token, device_id) of
           (Some t, Some d) \<Rightarrow>
             let url = snprintf ARTIK_CLOUD_URL_MAX ARTIK_CLOUD_URL_GET_DEVICE [Str d, true_false properties]
             in request_without_body ''get'' url (bearer_headers t) None ssl http w1
         | _ \<Rightarrow> Ret (E_BAD_ARGS, w1))"

definition get_device_token :: "bytes option \<Rightarrow> bytes option \<Rightarrow> ssl_choice \<Rightarrow> cloud_call" where
  "get_device_token access_token device_id ssl w =
     (let (http, w1) = http_module w
      in case (access_token, device_id) of
           (Some t, Some d) \<Rightarrow>
             let url = snprintf ARTIK_CLOUD_URL_MAX ARTIK_CLOUD_URL_GET_DEVICE_TOKEN [Str d]
             in request_without_body ''get'' url (bearer_headers t) None ssl http w1
         | _ \<Rightarrow> Ret (E_BAD_ARGS, w1))"

definition add_device :: "bytes option \<Rightarrow> bytes option \<Rightarrow> bytes option \<Rightarrow> bytes option \<Rightarrow> ssl_choice \<Rightarrow> cloud_call" where
  "add_device access_token user_id dt_id name ssl w =
     (let (http, w1) = http_module w
      in case (access_token, user_id, dt_id, name) of
           (Some t, Some u, Some d, Some n) \<Rightarrow>
             request_with_body E_HTTP_ERROR ''post'' (bytes_of ARTIK_CLOUD_URL_ADD_DEVICE) (bearer_headers t)
               ARTIK_CLOUD_ADD_DEVICE_BODY [u, d, n] ssl http w1
         | _ \<Rightarrow> Ret (E_BAD_ARGS, w1))"

definition send_message :: "bytes option \<Rightarrow> bytes option \<Rightarrow> bytes option \<Rightarrow> ssl_choice \<Rightarrow> cloud_call" where
  "send_message access_token device_id message ssl w =
     (let (http, w1) = http_module w
      in case (access_token, device_id, message) of
           (Some t, Some d, Some m) \<Rightarrow>
             request_with_body E_HTTP_ERROR ''post'' (bytes_of ARTIK_CLOUD_URL_MESSAGES) (bearer_headers t)
               ARTIK_CLOUD_MESSAGE_BODY [d, m] ssl http w1
         | _ \<Rightarrow> Ret (E_BAD_ARGS, w1))"

definition send_action :: "bytes option \<Rightarrow> bytes option \<Rightarrow> bytes option \<Rightarrow> ssl_choice \<Rightarrow> cloud_call" where
  "send_action access_token device_id action ssl w =
     (let (http, w1) = http_module w
      in case (access_token, device_id, action) of
           (Some t, Some d, Some a) \<Rightarrow>
             request_with_body E_HTTP_ERROR ''post'' (bytes_of ARTIK_CLOUD_URL_MESSAGES) (bearer_headers t)
               ARTIK_CLOUD_ACTION_BODY [d, a] ssl http w1
         | _ \<Rightarrow> Ret (E_BAD_ARGS, w1))"

definition update_device_token :: "bytes option \<Rightarrow> bytes option \<Rightarrow> ssl_choice \<Rightarrow> cloud_call" where
  "update_device_token access_token device_id ssl w =
     (let (http, w1) = http_module w
      in case (access_token, device_id) of
           (Some t, Some d) \<Rightarrow>
             let url = snprintf ARTIK_CLOUD_URL_MAX ARTIK_CLOUD_URL_UPDATE_DEVICE_TOKEN [Str d]
             in request_without_body ''put'' url (bearer_headers t) (Some (bytes_of ''{}'')) ssl http w1
         | _ \<Rightarrow> Ret (E_BAD_ARGS, w1))"

definition delete_device_token :: "bytes option \<Rightarrow> bytes option \<Rightarrow> ssl_choice \<Rightarrow> cloud_call" where
  "delete_device_token access_token device_id ssl w =
     (let (http, w1) = http_module w
      in case (access_token, device_id) of
           (Some t, Some d) \<Rightarrow>
             let url = snprintf ARTIK_CLOUD_URL_MAX ARTIK_CLOUD_URL_DELETE_DEVICE_TOKEN [Str d]
             in request_without_body ''del'' url (bearer_headers t) None ssl http w1
         | _ \<Rightarrow> Ret (E_BAD_ARGS, w1))"

definition delete_device :: "bytes option \<Rightarrow> bytes option \<Rightarrow> ssl_choice \<Rightarrow> cloud_call" where
  "delete_device access_token device_id ssl w =
     (let (http, w1) = http_module w
      in case (access_token, device_id) of
           (Some t, Some d) \<Rightarrow>
             let url = snprintf ARTIK_CLOUD_URL_MAX ARTIK_CLOUD_URL_DELETE_DEVICE [Str d]
             in request_without_body ''del'' url (bearer_headers t) None ssl http w1
         | _ \<Rightarrow> Ret (E_BAD_ARGS, w1))"

definition sdr_start_registration :: "bytes option \<Rightarrow> bytes option \<Rightarrow> cloud_call" where
  "sdr_start_registration device_type_id vendor_id w =
     (let (http, w1) = http_module w
      in case (device_type_id, vendor_id) of
           (Some d, Some v) \<Rightarrow>
             request_with_body E_BUSY ''post'' (bytes_of ARTIK_CLOUD_SECURE_URL_REG_DEVICE) sdr_headers
               ARTIK_CLOUD_SECURE_REG_DEVICE_BODY [d, v] SslSecureElement http w1
         | _ \<Rightarrow> Ret (E_BAD_ARGS, w1))"

definition sdr_registration_status :: "bytes option \<Rightarrow> cloud_call" where
  "sdr_registration_status reg_id w =
     (let (http, w1) = http_module w
      in case reg_id of
           None \<Rightarrow> Ret (E_BAD_ARGS, w1)
         | Some r \<Rightarrow>
             let url = snprintf ARTIK_CLOUD_URL_MAX ARTIK_CLOUD_SECURE_URL_REG_STATUS [Str r]
             in request_without_body ''get'' url accept_header None SslSecureElement http w1)"

definition sdr_complete_registration :: "bytes option \<Rightarrow> bytes option \<Rightarrow> cloud_call" where
  "sdr_complete_registration reg_id reg_nonce w =
     (let (http, w1) = http_module w
      in case (reg_id, reg_nonce) of
           (Some r, Some n) \<Rightarrow>
             let url = snprintf ARTIK_CLOUD_URL_MAX ARTIK_CLOUD_SECURE_URL_REG_ID [Str r]
             in request_with_body E_HTTP_ERROR ''put'' url sdr_headers
                  ARTIK_CLOUD_SECURE_REG_COMPLETE_BODY [n] SslSecureElement http w1
         | _ \<Rightarrow> Ret (E_BAD_ARGS, w1))"

end
