(* ===== verification/CloudProps.thy ===== *)
theory CloudProps
  imports Cloud
begin

section \<open>The cloud module: what its requests say\<close>

text \<open>
  The fifteen requests as data, what each has to ask of the API, and the proof that they ask it; what
  happens to arguments that do not fit, to quotes in arguments and to the reference on the HTTP
  module.
\<close>

datatype cloud_op =
    Profile
  | UserDevices int bool int "bytes option"
  | UserDeviceTypes int bool int "bytes option"
  | AppProperties "bytes option" "bytes option"
  | Device "bytes option" bool
  | DeviceToken "bytes option"
  | AddDevice "bytes option" "bytes option" "bytes option"
  | Message "bytes option" "bytes option"
  | Action "bytes option" "bytes option"
  | UpdateToken "bytes option"
  | DeleteToken "bytes option"
  | DeleteDevice "bytes option"
  | StartRegistration "bytes option" "bytes option"
  | RegistrationStatus "bytes option"
  | CompleteRegistration "bytes option" "bytes option"

fun run_op :: "cloud_op \<Rightarrow> bytes option \<Rightarrow> ssl_choice \<Rightarrow> cloud_call" where
  "run_op Profile t s = get_current_user_profile t s"
| "run_op (UserDevices c p off u) t s = get_user_devices t c p off u s"
| "run_op (UserDeviceTypes c p off u) t s = get_user_device_types t c p off u s"
| "run_op (AppProperties u a) t s = get_user_application_properties t u a s"
| "run_op (Device d p) t s = get_device t d p s"
| "run_op (DeviceToken d) t s = get_device_token t d s"
| "run_op (AddDevice u d n) t s = add_device t u d n s"
| "run_op (Message d m) t s = send_message t d m s"
| "run_op (Action d a) t s = send_action t d a s"
| "run_op (UpdateToken d) t s = update_device_token t d s"
| "run_op (DeleteToken d) t s = delete_device_token t d s"
| "run_op (DeleteDevice d) t s = delete_device t d s"
| "run_op (StartRegistration d v) t s = sdr_start_registration d v"
| "run_op (RegistrationStatus r) t s = sdr_registration_status r"
| "run_op (CompleteRegistration r n) t s = sdr_complete_registration r n"

text \<open>No pointer is null.\<close>

fun complete :: "cloud_op \<Rightarrow> bytes option \<Rightarrow> bool" where
  "complete Profile t \<longleftrightarrow> t \<noteq> None"
| "complete (UserDevices c p off u) t \<longleftrightarrow> t \<noteq> None \<and> u \<noteq> None"
| "complete (UserDeviceTypes c p off u) t \<longleftrightarrow> t \<noteq> None \<and> u \<noteq> None"
| "complete (AppProperties u a) t \<longleftrightarrow> t \<noteq> None \<and> u \<noteq> None \<and> a \<noteq> None"
| "complete (Device d p) t \<longleftrightarrow> t \<noteq> None \<and> d \<noteq> None"
| "complete (DeviceToken d) t \<longleftrightarrow> t \<noteq> None \<and> d \<noteq> None"
| "complete (AddDevice u d n) t \<longleftrightarrow> t \<noteq> None \<and> u \<noteq> None \<and> d \<noteq> None \<and> n \<noteq> None"
| "complete (Message d m) t \<longleftrightarrow> t \<noteq> None \<and> d \<noteq> None \<and> m \<noteq> None"
| "complete (Action d a) t \<longleftrightarrow> t \<noteq> None \<and> d \<noteq> None \<and> a \<noteq> None"
| "complete (UpdateToken d) t \<longleftrightarrow> t \<noteq> None \<and> d \<noteq> None"
| "complete (DeleteToken d) t \<longleftrightarrow> t \<noteq> None \<and> d \<noteq> None"
| "complete (DeleteDevice d) t \<longleftrightarrow> t \<noteq> None \<and> d \<noteq> None"
| "complete (StartRegistration d v) t \<longleftrightarrow> d \<noteq> None \<and> v \<noteq> None"
| "complete (RegistrationStatus r) t \<longleftrightarrow> r \<noteq> None"
| "complete (CompleteRegistration r n) t \<longleftrightarrow> r \<noteq> None \<and> n \<noteq> None"

subsection \<open>What the API expects\<close>

definition api :: "string \<Rightarrow> bytes" where "api s = bytes_of (''https://api.artik.cloud/v1.1/'' @ s)"
definition s_api :: "string \<Rightarrow> bytes" where "s_api s = bytes_of (''https://s-api.artik.cloud/v1.1/cert/devices/registrations'' @ s)"
definition flag :: "bool \<Rightarrow> bytes" where "flag b = bytes_of (if b then ''true'' else ''false'')"
definition num :: "int \<Rightarrow> bytes" where "num i = bytes_of (int_str i)"

fun op_method :: "cloud_op \<Rightarrow> string" where
  "op_method (AddDevice u d n) = ''post''" | "op_method (Message d m) = ''post''" | "op_method (Action d a) = ''post''"
| "op_method (StartRegistration d v) = ''post''" | "op_method (UpdateToken d) = ''put''"
| "op_method (CompleteRegistration r n) = ''put''" | "op_method (DeleteToken d) = ''del''"
| "op_method (DeleteDevice d) = ''del''" | "op_method _ = ''get''"

fun op_url :: "cloud_op \<Rightarrow> bytes" where
  "op_url Profile = api ''users/self''"
| "op_url (UserDevices c p off u) = api ''users/'' @ the u @ bytes_of ''/devices?count='' @ num c
     @ bytes_of ''&includeProperties='' @ flag p @ bytes_of ''&offset='' @ num off"
| "op_url (UserDeviceTypes c p off u) = api ''users/'' @ the u @ bytes_of ''/devicetypes?count='' @ num c
     @ bytes_of ''&includeShared='' @ flag p @ bytes_of ''&offset='' @ num off"
| "op_url (AppProperties u a) = api ''users/'' @ the u @ bytes_of ''/properties?aid='' @ the a"
| "op_url (Device d p) = api ''devices/'' @ the d @ bytes_of ''?properties='' @ flag p"
| "op_url (DeviceToken d) = api ''devices/'' @ the d @ bytes_of ''/tokens''"
| "op_url (AddDevice u d n) = api ''devices''"
| "op_url (Message d m) = api ''messages''"
| "op_url (Action d a) = api ''messages''"
| "op_url (UpdateToken d) = api ''devices/'' @ the d @ bytes_of ''/tokens''"
| "op_url (DeleteToken d) = api ''devices/'' @ the d @ bytes_of ''/tokens''"
| "op_url (DeleteDevice d) = api ''devices/'' @ the d"
| "op_url (StartRegistration d v) = s_api ''''"
| "op_url (RegistrationStatus r) = s_api ''/'' @ the r @ bytes_of ''/status''"
| "op_url (CompleteRegistration r n) = s_api ''/'' @ the r"

text \<open>JSON objects from members and values.\<close>

definition quoted :: "bytes \<Rightarrow> bytes" where
  \<open>quoted s = bytes_of ''"'' @ s @ bytes_of ''"''\<close>

fun op_body :: "cloud_op \<Rightarrow> bytes option" where
  \<open>op_body (AddDevice u d n) = Some (bytes_of ''{"uid": '' @ quoted (the u) @ bytes_of '', "dtid": '' @ quoted (the d)
     @ bytes_of '',"name": '' @ quoted (the n) @ bytes_of '', "manifestVersionPolicy": "LATEST"}'')\<close>
| \<open>op_body (Message d m) = Some (bytes_of ''{"type": "message","sdid": '' @ quoted (the d)
     @ bytes_of '',"data": '' @ the m @ bytes_of ''}'')\<close>
| \<open>op_body (Action d a) = Some (bytes_of ''{"type": "action","ddid": '' @ quoted (the d)
     @ bytes_of '',"data": '' @ the a @ bytes_of ''}'')\<close>
| \<open>op_body (UpdateToken d) = Some (bytes_of ''{}'')\<close>
| \<open>op_body (StartRegistration d v) = Some (bytes_of ''{"deviceTypeId":'' @ quoted (the d)
     @ bytes_of '',"vendorDeviceId":'' @ quoted (the v) @ bytes_of ''}'')\<close>
| \<open>op_body (CompleteRegistration r n) = Some (bytes_of ''{"nonce":'' @ quoted (the n) @ bytes_of ''}'')\<close>
| \<open>op_body _ = None\<close>

fun registers :: "cloud_op \<Rightarrow> bool" where
  "registers (StartRegistration d v) = True" | "registers (RegistrationStatus r) = True"
| "registers (CompleteRegistration r n) = True" | "registers _ = False"

definition op_headers :: "cloud_op \<Rightarrow> bytes option \<Rightarrow> headers" where
  "op_headers p t =
     (if registers p
      then [(bytes_of ''Accept'', bytes_of ''application/json'')] @
        (if op_body p = None then [] else [(bytes_of ''Content-Type'', bytes_of ''application/json''), (bytes_of ''charsets:'', bytes_of ''utf-8'')])
      else [(bytes_of ''Authorization'', bytes_of ''Bearer '' @ the t), (bytes_of ''Content-Type'', bytes_of ''application/json'')])"

text \<open>The buffers are large enough, and the body gets a block of its own.\<close>

definition op_fits :: "cloud_op \<Rightarrow> bytes option \<Rightarrow> bool" where
  "op_fits p t \<longleftrightarrow> length (op_url p) < 256 \<and> (registers p \<or> length (the t) \<le> 120)"

fun has_block :: "cloud_op \<Rightarrow> bool" where
  "has_block (UpdateToken d) = False"
| "has_block p = (op_body p \<noteq> None)"

fun op_format :: "cloud_op \<Rightarrow> string" where
  "op_format (AddDevice u d n) = ARTIK_CLOUD_ADD_DEVICE_BODY"
| "op_format (Message d m) = ARTIK_CLOUD_MESSAGE_BODY"
| "op_format (Action d a) = ARTIK_CLOUD_ACTION_BODY"
| "op_format (StartRegistration d v) = ARTIK_CLOUD_SECURE_REG_DEVICE_BODY"
| "op_format (CompleteRegistration r n) = ARTIK_CLOUD_SECURE_REG_COMPLETE_BODY"
| "op_format _ = []"

fun op_args :: "cloud_op \<Rightarrow> bytes list" where
  "op_args (AddDevice u d n) = [the u, the d, the n]"
| "op_args (Message d m) = [the d, the m]"
| "op_args (Action d a) = [the d, the a]"
| "op_args (StartRegistration d v) = [the d, the v]"
| "op_args (CompleteRegistration r n) = [the n]"
| "op_args _ = []"

definition block_size :: "cloud_op \<Rightarrow> nat" where
  "block_size p = body_len (op_format p) (op_args p)"

fun conflict_error :: "cloud_op \<Rightarrow> artik_error" where
  "conflict_error (StartRegistration d v) = E_BUSY" | "conflict_error _ = E_HTTP_ERROR"

definition op_ssl :: "cloud_op \<Rightarrow> ssl_choice \<Rightarrow> ssl_choice" where
  "op_ssl p s = (if registers p then SslSecureElement else s)"

text \<open>The result from the answer of the HTTP module.\<close>

definition op_result :: "cloud_op \<Rightarrow> answer \<Rightarrow> artik_error" where
  "op_result p a =
     (if retv a \<noteq> 0 then retv a else if oval a = 200 then S_OK
      else if oval a = 409 then conflict_error p else E_HTTP_ERROR)"

subsection \<open>Formats\<close>

lemma fmt_length: "length (fmt f as) \<le> length f + sum_list (map (length \<circ> arg_bytes) as)"
  by (induction f as rule: fmt.induct) auto

lemma snprintf_body: "snprintf (body_len f as) f (map Str as) = fmt f (map Str as)"
  using fmt_length [of f "map Str as"] by (simp add: snprintf_def body_len_def comp_def)

lemma snprintf_fits: "length (fmt f as) < n \<Longrightarrow> snprintf n f as = fmt f as"
  by (simp add: snprintf_def)

lemma bytes_of_cat [simp]: "bytes_of (s @ t) = bytes_of s @ bytes_of t"
  by (simp add: bytes_of_def)

lemmas url_defs = ARTIK_CLOUD_URL_def ARTIK_CLOUD_SECURE_URL_def ARTIK_CLOUD_URL_MESSAGES_def ARTIK_CLOUD_URL_SELF_USER_def
  ARTIK_CLOUD_URL_USER_DEVICES_def ARTIK_CLOUD_URL_USER_DEVICE_TYPES_def ARTIK_CLOUD_URL_USER_APP_PROPS_def
  ARTIK_CLOUD_URL_GET_DEVICE_def ARTIK_CLOUD_URL_DELETE_DEVICE_def ARTIK_CLOUD_URL_ADD_DEVICE_def
  ARTIK_CLOUD_URL_GET_DEVICE_TOKEN_def ARTIK_CLOUD_URL_UPDATE_DEVICE_TOKEN_def ARTIK_CLOUD_URL_DELETE_DEVICE_TOKEN_def
  ARTIK_CLOUD_SECURE_URL_REG_DEVICE_def ARTIK_CLOUD_SECURE_URL_REG_ID_def ARTIK_CLOUD_SECURE_URL_REG_STATUS_def
  api_def s_api_def

lemma urls:
  "fmt ARTIK_CLOUD_URL_USER_DEVICES [Str u, Dec c, true_false p, Dec off] = op_url (UserDevices c p off (Some u))"
  "fmt ARTIK_CLOUD_URL_USER_DEVICE_TYPES [Str u, Dec c, true_false p, Dec off] = op_url (UserDeviceTypes c p off (Some u))"
  "fmt ARTIK_CLOUD_URL_USER_APP_PROPS [Str u, Str a] = op_url (AppProperties (Some u) (Some a))"
  "fmt ARTIK_CLOUD_URL_GET_DEVICE [Str u, true_false p] = op_url (Device (Some u) p)"
  "fmt ARTIK_CLOUD_URL_GET_DEVICE_TOKEN [Str u] = op_url (DeviceToken (Some u))"
  "fmt ARTIK_CLOUD_URL_UPDATE_DEVICE_TOKEN [Str u] = op_url (UpdateToken (Some u))"
  "fmt ARTIK_CLOUD_URL_DELETE_DEVICE_TOKEN [Str u] = op_url (DeleteToken (Some u))"
  "fmt ARTIK_CLOUD_URL_DELETE_DEVICE [Str u] = op_url (DeleteDevice (Some u))"
  "fmt ARTIK_CLOUD_SECURE_URL_REG_STATUS [Str u] = op_url (RegistrationStatus (Some u))"
  "fmt ARTIK_CLOUD_SECURE_URL_REG_ID [Str u] = op_url (CompleteRegistration (Some u) n)"
  "bytes_of ARTIK_CLOUD_URL_MESSAGES = op_url (Message d m)"
  "bytes_of ARTIK_CLOUD_URL_MESSAGES = op_url (Action d m)"
  "bytes_of ARTIK_CLOUD_URL_SELF_USER = op_url Profile"
  "bytes_of ARTIK_CLOUD_URL_ADD_DEVICE = op_url (AddDevice d' m' n')"
  "bytes_of ARTIK_CLOUD_SECURE_URL_REG_DEVICE = op_url (StartRegistration d'' v)"
  by (simp_all add: url_defs bytes_of_def num_def flag_def true_false_def)

lemmas body_defs = ARTIK_CLOUD_ADD_DEVICE_BODY_def ARTIK_CLOUD_MESSAGE_BODY_def ARTIK_CLOUD_ACTION_BODY_def
  ARTIK_CLOUD_SECURE_REG_DEVICE_BODY_def ARTIK_CLOUD_SECURE_REG_COMPLETE_BODY_def

lemma op_body_fmt: "has_block p \<Longrightarrow> op_body p = Some (fmt (op_format p) (map Str (op_args p)))"
  by (cases p) (simp_all add: body_defs bytes_of_def quoted_def)

lemma fmt_bearer: "fmt ''Bearer %s'' [Str t] = bytes_of ''Bearer '' @ t"
  by (simp add: bytes_of_def)

subsection \<open>Requests\<close>

text \<open>The calls of a request after it got the module at \<open>http\<close> and, if it needs one, a block at \<open>b\<close>.\<close>

definition http_call :: "cloud_op \<Rightarrow> bytes option \<Rightarrow> ssl_choice \<Rightarrow> addr \<Rightarrow> xcall" where
  "http_call p t s http = Http http (op_method p) (op_url p) (op_headers p t) (op_body p) (op_ssl p s)"

definition before :: "cloud_op \<Rightarrow> xcall list \<Rightarrow> xcall list" where
  "before p h = h @ ModRequest ''http'' # (if has_block p then [Malloc (block_size p)] else [])"

lemma without_body:
  assumes "http \<noteq> 0"
  shows "request_without_body m u hs b s http w =
    (let a = env w (hist w) (Http http m u hs b s)
     in Ret (if retv a \<noteq> 0 then retv a else if oval a = 200 then S_OK else E_HTTP_ERROR,
             w\<lparr>hist := hist w @ [Http http m u hs b s, ModRelease http]\<rparr>))"
  using assms by (simp add: request_without_body_def perform_def xc_def xcu_def Let_def S_OK_def)

lemma with_body:
  assumes "http \<noteq> 0" and "b = retv (env w (hist w) (Malloc (body_len f as)))" and "b \<noteq> 0"
  shows "request_with_body k m u hs f as s http w =
    (let c = Http http m u hs (Some (fmt f (map Str as))) s; a = env w (hist w @ [Malloc (body_len f as)]) c
     in Ret (if retv a \<noteq> 0 then retv a else if oval a = 200 then S_OK else if oval a = 409 then k else E_HTTP_ERROR,
             w\<lparr>hist := hist w @ [Malloc (body_len f as), c, Free (nat b), ModRelease http]\<rparr>))"
  using assms by (simp add: request_with_body_def snprintf_body perform_def xc_def xcu_def Let_def S_OK_def)

lemmas request_defs = get_current_user_profile_def get_user_devices_def get_user_device_types_def
  get_user_application_properties_def get_device_def get_device_token_def add_device_def send_message_def send_action_def
  update_device_token_def delete_device_token_def delete_device_def sdr_start_registration_def
  sdr_registration_status_def sdr_complete_registration_def http_module_def

lemma bearer_fits: "op_headers p (Some t) = bearer_headers t" if "\<not> registers p" "length t \<le> 120"
  using that by (simp add: bearer_headers_def op_headers_def snprintf_def ARTIK_CLOUD_TOKEN_MAX_def fmt_bearer bytes_of_def)

lemma registration_headers:
  "op_headers (RegistrationStatus r) t = accept_header"
  "op_headers (StartRegistration d v) t = sdr_headers"
  "op_headers (CompleteRegistration r n) t = sdr_headers"
  by (simp_all add: op_headers_def accept_header_def sdr_headers_def)

text \<open>Every request has one of two shapes.\<close>

lemma run_op_shape:
  assumes "complete p t" and "op_fits p t"
  shows "run_op p t s w =
    (let (http, w1) = http_module w
     in if has_block p
        then request_with_body (conflict_error p) (op_method p) (op_url p) (op_headers p t) (op_format p) (op_args p) (op_ssl p s) http w1
        else request_without_body (op_method p) (op_url p) (op_headers p t) (op_body p) (op_ssl p s) http w1)"
  using assms
  by (cases p)
    (auto simp: request_defs Let_def op_fits_def op_ssl_def urls [symmetric] snprintf_fits ARTIK_CLOUD_URL_MAX_def
      bearer_fits registration_headers simp del: op_url.simps)

text \<open>C23. Every request whose arguments are present and fit makes one call of the HTTP module, with the method,
  the address, the headers and the body that the API expects, reports the result, and gives back its memory
  and its reference on the module.\<close>

theorem cloud_requests:
  assumes "complete p t" and "op_fits p t"
    and "http = retv (env w (hist w) (ModRequest ''http''))" and "0 < http"
    and "has_block p \<Longrightarrow> b = retv (env w (hist w @ [ModRequest ''http'']) (Malloc (block_size p))) \<and> b \<noteq> 0"
  shows "run_op p t s w =
    (let c = http_call p t s (nat http); h = before p (hist w)
     in Ret (op_result p (env w h c),
             w\<lparr>hist := h @ c # (if has_block p then [Free (nat b)] else []) @ [ModRelease (nat http)]\<rparr>))"
proof -
  have http: "nat http \<noteq> 0" using assms(4) by simp
  have m: "http_module w = (nat http, w\<lparr>hist := hist w @ [ModRequest ''http'']\<rparr>)"
    by (simp add: http_module_def xc_def assms(3))
  show ?thesis
  proof (cases "has_block p")
    case True
    show ?thesis using True assms(5) op_body_fmt [OF True]
      by (simp add: run_op_shape [OF assms(1,2)] m with_body [OF http, of b] block_size_def http_call_def before_def
          op_result_def Let_def)
  next
    case False
    then have "conflict_error p = E_HTTP_ERROR" by (cases p) simp_all
    with False show ?thesis
      by (simp add: run_op_shape [OF assms(1,2)] m without_body [OF http] http_call_def before_def op_result_def Let_def)
  qed
qed

theorem cloud_requests_witness:
  "\<exists>w'. run_op (DeleteDevice (Some (bytes_of ''d7''))) (Some (bytes_of ''t'')) (SslAt 0) good_world = Ret (E_HTTP_ERROR, w')
     \<and> hist w' = [ModRequest ''http'', Http 80 ''del'' (bytes_of ''https://api.artik.cloud/v1.1/devices/d7'')
          [(bytes_of ''Authorization'', bytes_of ''Bearer t''), (bytes_of ''Content-Type'', bytes_of ''application/json'')]
          None (SslAt 0), ModRelease 80]"
proof -
  have "op_fits (DeleteDevice (Some (bytes_of ''d7''))) (Some (bytes_of ''t''))"
    by (simp add: op_fits_def api_def bytes_of_def)
  from cloud_requests [OF _ this, of 80 good_world 0 "SslAt 0"] show ?thesis
    by (simp add: op_result_def before_def http_call_def good_env_def op_ssl_def op_headers_def api_def Let_def bytes_of_def)
qed

subsection \<open>Arguments that do not fit\<close>

text \<open>Tokens are cut to 120 bytes without an error: a request with a longer token is the request with its
  first 120 bytes.\<close>

theorem cloud_token_truncated: "run_op p (Some t) s w = run_op p (Some (take 120 t)) s w"
proof -
  have "bearer_headers t = bearer_headers (take 120 t)"
    by (simp add: bearer_headers_def snprintf_def ARTIK_CLOUD_TOKEN_MAX_def fmt_bearer bytes_of_def)
  then show ?thesis by (cases p) (auto simp: request_defs Let_def case_prod_beta split: option.split)
qed

subsection \<open>References on the HTTP module\<close>

lemma without_body_refs:
  assumes "request_without_body m u hs b s http w = Ret (r, w')"
  shows "mod_requests w' = mod_requests w \<and> mod_releases w' = mod_releases w + 1"
  using assms by (auto simp: request_without_body_def perform_def xc_def xcu_def Let_def mod_requests_def mod_releases_def
      split: if_splits)

lemma with_body_refs:
  assumes "request_with_body k m u hs f as s http w = Ret (r, w')"
  shows "mod_requests w' = mod_requests w \<and> mod_releases w' = mod_releases w +
    (if retv (env w (hist w) (Malloc (body_len f as))) = 0 then 0 else 1)"
  using assms by (auto simp: request_with_body_def perform_def xc_def xcu_def Let_def mod_requests_def mod_releases_def
      split: if_splits)

lemma incomplete_rejected: "\<not> complete p t \<Longrightarrow> run_op p t s w = Ret (E_BAD_ARGS, snd (http_module w))"
  by (cases p) (auto simp: request_defs Let_def case_prod_beta split: option.split)

lemma run_op_shape_weak:
  assumes "complete p t"
  shows "\<exists>u hs s'. run_op p t s w =
    (if has_block p
     then request_with_body (conflict_error p) (op_method p) u hs (op_format p) (op_args p) s' (fst (http_module w)) (snd (http_module w))
     else request_without_body (op_method p) u hs (op_body p) s' (fst (http_module w)) (snd (http_module w)))"
  using assms by (cases p; clarsimp simp: request_defs Let_def case_prod_beta; blast)

text \<open>Every request takes a reference on the HTTP module; it is given back unless a pointer was null or the
  block of the body could not be allocated: then the module is never released.\<close>

theorem cloud_module_references:
  assumes "run_op p t s w = Ret (r, w')"
  shows "mod_requests w' = mod_requests w + 1
    \<and> mod_releases w' = mod_releases w + (if complete p t \<and> (has_block p \<longrightarrow>
        retv (env w (hist w @ [ModRequest ''http'']) (Malloc (block_size p))) \<noteq> 0) then 1 else 0)"
proof -
  let ?w = "snd (http_module w)"
  have w: "mod_requests ?w = mod_requests w + 1" "mod_releases ?w = mod_releases w" "env ?w = env w"
    "hist ?w = hist w @ [ModRequest ''http'']"
    by (simp_all add: http_module_def Let_def xc_def mod_requests_def mod_releases_def)
  show ?thesis
  proof (cases "complete p t")
    case False
    with assms w show ?thesis by (auto simp: incomplete_rejected)
  next
    case True
    from run_op_shape_weak [OF True, of s w] obtain u hs s' where r: "run_op p t s w =
      (if has_block p
       then request_with_body (conflict_error p) (op_method p) u hs (op_format p) (op_args p) s' (fst (http_module w)) ?w
       else request_without_body (op_method p) u hs (op_body p) s' (fst (http_module w)) ?w)" by blast
    show ?thesis
    proof (cases "has_block p")
      case b: True
      with r assms have "request_with_body (conflict_error p) (op_method p) u hs (op_format p) (op_args p) s' (fst (http_module w)) ?w = Ret (r, w')"
        by simp
      from with_body_refs [OF this] w True b show ?thesis by (simp add: block_size_def)
    next
      case b: False
      with r assms have "request_without_body (op_method p) u hs (op_body p) s' (fst (http_module w)) ?w = Ret (r, w')" by simp
      from without_body_refs [OF this] w True b show ?thesis by simp
    qed
  qed
qed

theorem cloud_module_references_witness:
  "\<exists>r w'. run_op (DeviceToken None) (Some []) (SslAt 0) good_world = Ret (r, w')
     \<and> mod_requests w' = Suc (mod_requests good_world) \<and> mod_releases w' = mod_releases good_world"
proof -
  have "run_op (DeviceToken None) (Some []) (SslAt 0) good_world = Ret (E_BAD_ARGS, snd (http_module good_world))"
    by (rule incomplete_rejected) simp
  from this cloud_module_references [OF this] show ?thesis by simp
qed

subsection \<open>Bodies\<close>

text \<open>An argument without a quote can be told apart from what follows it.\<close>

definition quote_free :: "bytes \<Rightarrow> bool" where "quote_free s \<longleftrightarrow> 34 \<notin> set s"

lemma quoted_cut:
  assumes "quote_free a" and "quote_free b" and "a @ 34 # x = b @ 34 # y"
  shows "a = b \<and> x = y"
  using assms
proof (induction a arbitrary: b)
  case Nil
  then show ?case by (cases b) (auto simp: quote_free_def)
next
  case (Cons c a)
  then show ?case by (cases b) (auto simp: quote_free_def)
qed

fun plain_args :: "cloud_op \<Rightarrow> bool" where
  "plain_args (AddDevice u d n) = (quote_free (the u) \<and> quote_free (the d) \<and> quote_free (the n))"
| "plain_args (Message d m) = quote_free (the d)"
| "plain_args (Action d a) = quote_free (the d)"
| "plain_args (StartRegistration d v) = (quote_free (the d) \<and> quote_free (the v))"
| "plain_args (CompleteRegistration r n) = quote_free (the n)"
| "plain_args p = True"

lemma quoted_append: "quoted s @ x = 34 # s @ 34 # x"
  by (simp add: quoted_def bytes_of_def)

text \<open>Where no argument that is put between quotes contains a quote, the body of a request determines which request it
  is and its arguments: nothing is escaped, so this is what the caller has to ensure.\<close>

theorem cloud_bodies_unambiguous:
  assumes "has_block p" and "has_block q" and "plain_args p" and "plain_args q" and "op_body p = op_body q"
  shows "op_format p = op_format q \<and> op_args p = op_args q"
  using assms(1)
proof (cases p)
  case (Message d m)
  show ?thesis
  proof (cases q)
    case q: (Message d' m')
    have "the d @ 34 # bytes_of (tl '',,\"data\": '') @ the m @ bytes_of ''}'' = the d' @ 34 # bytes_of (tl '',,\"data\": '') @ the m' @ bytes_of ''}''"
      using assms(5) Message q by (simp add: quoted_append bytes_of_def)
    from quoted_cut [OF _ _ this] show ?thesis using assms(3,4) Message q by (simp add: bytes_of_def)
  qed (use assms Message in \<open>simp_all add: quoted_append bytes_of_def\<close>)
next
  case (AddDevice u d n)
  then show ?thesis using assms
    by (cases q) (auto simp: quoted_append bytes_of_def dest!: quoted_cut [rotated 2])
qed (use assms in \<open>cases q; auto simp: quoted_append bytes_of_def dest!: quoted_cut [rotated 2]\<close>)+

theorem cloud_bodies_unambiguous_witness:
  "op_body (Message (Some [1]) (Some [2])) \<noteq> op_body (Message (Some [1]) (Some [3]))"
  using cloud_bodies_unambiguous [of "Message (Some [1]) (Some [2])" "Message (Some [1]) (Some [3])"]
  by (auto simp: quote_free_def)

text \<open>With quotes, different arguments make the same body.\<close>

theorem cloud_body_injection:
  \<open>op_body (AddDevice (Some (bytes_of ''u'')) (Some (bytes_of ''d","name": "n'')) (Some (bytes_of ''m'')))
     = op_body (AddDevice (Some (bytes_of ''u'')) (Some (bytes_of ''d'')) (Some (bytes_of ''n","name": "m'')))\<close>
  by (simp add: quoted_def bytes_of_def)

end
