(* ===== verification/CloudStream.thy ===== *)
theory CloudStream
  imports Cloud
begin

section \<open>The message stream of the cloud module\<close>

text \<open>
  The second half of \<^verbatim>\<open>artik_cloud.c\<close>: a stream is a handle of the websocket module with a node
  in \<^verbatim>\<open>requested_node\<close> that holds the message to register the device with. The websocket
  module keeps a pointer into that node for its connection callback, so nodes live on a heap: the
  table has their addresses in list order. Strings from \<^verbatim>\<open>strndup\<close> are their address and
  their bytes, \<open>None\<close> where it failed. The node itself comes at the address \<open>m\<close>, 0 where
  \<^verbatim>\<open>artik_list_add\<close> fails.
\<close>

record reg_data =
  rd_handle :: addr
  rd_message :: bytes
  rd_token :: "(addr \<times> bytes) option"
  rd_device :: "(addr \<times> bytes) option"
  rd_callback :: addr
  rd_user :: addr

record cloud_state =
  c_tab :: "addr tab"
  c_node :: "addr \<Rightarrow> reg_data option"

definition cloud_start :: cloud_state where "cloud_start = \<lparr>c_tab = [], c_node = Map.empty\<rparr>"

definition ARTIK_WEBSOCKET_CLOSED :: int where "ARTIK_WEBSOCKET_CLOSED = 1"
definition ARTIK_WEBSOCKET_CONNECTED :: int where "ARTIK_WEBSOCKET_CONNECTED = 2"
definition ARTIK_WEBSOCKET_HANDSHAKE_ERROR :: int where "ARTIK_WEBSOCKET_HANDSHAKE_ERROR = 3"

definition websocket_module :: "world \<Rightarrow> addr \<times> world" where
  "websocket_module w = (let (a, w1) = xc (ModRequest ''websocket'') w in (nat (retv a), w1))"

definition strndup :: "bytes \<Rightarrow> world \<Rightarrow> (addr \<times> bytes) option \<times> world" where
  "strndup s w = (let (a, w1) = xc (Malloc (length s + 1)) w
     in (if retv a = 0 then None else Some (nat (retv a), s), w1))"

definition registration_message :: "bytes \<Rightarrow> bytes \<Rightarrow> bytes" where
  "registration_message device_id access_token =
     snprintf ARTIK_CLOUD_WEBSOCKET_STR_MAX ARTIK_CLOUD_WEBSOCKET_MESSAGE_BODY
       [Str device_id, Str access_token, Str (bytes_of ''register'')]"

text \<open>The address of the stream, formatted into a block of the exact length.\<close>

definition stream_uri :: "bool \<Rightarrow> nat \<times> bytes" where
  "stream_uri use_se =
     (let host = (if use_se then ARTIK_CLOUD_SECURE_WEBSOCKET_HOST else ARTIK_CLOUD_WEBSOCKET_HOST);
          port = snprintf 4 ''%d'' [Dec ARTIK_CLOUD_WEBSOCKET_PORT];
          len = 6 + length host + 1 + length port + length ARTIK_CLOUD_WEBSOCKET_PATH + 1
      in (len, snprintf len ''wss://%s:%s%s'' [Str (bytes_of host), Str port, Str (bytes_of ARTIK_CLOUD_WEBSOCKET_PATH)]))"

text \<open>The address of \<^verbatim>\<open>websocket_connection_callback\<close>; any number does.\<close>

definition connection_callback_fn :: addr where "connection_callback_fn = 1"

text \<open>The end of \<^verbatim>\<open>websocket_open_stream\<close>, with the new node at \<open>m\<close>.\<close>

definition register_stream :: "addr \<Rightarrow> addr \<Rightarrow> addr \<Rightarrow> bytes \<Rightarrow> bytes \<Rightarrow> cloud_state \<Rightarrow> world
    \<Rightarrow> (artik_error \<times> addr option \<times> cloud_state \<times> world) outcome" where
  "register_stream ws h m t d st w =
     (let (tok, w1) = strndup t w; (dev, w2) = strndup d w1;
          n = \<lparr>rd_handle = h, rd_message = registration_message d t, rd_token = tok,
               rd_device = dev, rd_callback = 0, rd_user = 0\<rparr>;
          st1 = st\<lparr>c_tab := tab_add (c_tab st) h m, c_node := (c_node st)(m \<mapsto> n)\<rparr>;
          (r, w3) = xcv (WsSetCallback ''websocket_set_connection_callback'' ws h connection_callback_fn m) w2
      in if r \<noteq> S_OK
         then Ret (r, Some h,
                st1\<lparr>c_tab := tab_delete_node h (c_tab st1),
                    c_node := (c_node st1)((snd (the (tab_get_by_handle h (c_tab st1)))) := None)\<rparr>, xcu (ModRelease ws) w3)
         else Ret (S_OK, Some h, st1, xcu (ModRelease ws) w3))"

text \<open>The error, what was stored in \<^verbatim>\<open>*handle\<close>, the state. \<open>ssl\<close> is the address of the configuration and its
  member \<^verbatim>\<open>use_se\<close>. The block of the address is never freed.\<close>

definition websocket_open_stream :: "addr \<Rightarrow> bytes option \<Rightarrow> bytes option \<Rightarrow> (addr \<times> bool) option \<Rightarrow> cloud_state \<Rightarrow> world
    \<Rightarrow> (artik_error \<times> addr option \<times> cloud_state \<times> world) outcome" where
  "websocket_open_stream m access_token device_id ssl st w =
     (let (ws, w1) = websocket_module w
      in case ssl of
           None \<Rightarrow> Ub NullDeref
         | Some (cfg, use_se) \<Rightarrow>
             if ws = 0 then Ret (E_NOT_SUPPORTED, None, st, w1)
             else let (len, uri) = stream_uri use_se; (b, w2) = xc (Malloc len) w1
                  in if retv b = 0 then Ub NullDeref
                     else let (a, w3) = xc (WsRequest ws uri (SslAt cfg)) w2; h = nat (oval a)
                          in if retv a \<noteq> S_OK then Ret (retv a, Some h, st, xcu (ModRelease ws) w3)
                             else let (r, w4) = xcv (WsCall ''websocket_open_stream'' ws h) w3
                                  in if r \<noteq> S_OK then Ret (r, Some h, st, xcu (ModRelease ws) w4)
                                     else if m = 0 then Ret (E_NO_MEM, Some h, st, w4)
                                     else case (access_token, device_id) of
                                            (Some t, Some d) \<Rightarrow> register_stream ws h m t d st w4
                                          | _ \<Rightarrow> Ub NullDeref)"

text \<open>The callback the websocket module was given, with the address of the node. An event it does not know does
  nothing.\<close>

definition websocket_connection_callback :: "addr \<Rightarrow> int \<Rightarrow> cloud_state \<Rightarrow> world \<Rightarrow> world outcome" where
  "websocket_connection_callback p event st w =
     (let (ws, w1) = websocket_module w
      in case c_node st p of
           None \<Rightarrow> Ub UseAfterFree
         | Some n \<Rightarrow>
             if ws = 0 then Ret w1
             else let w2 = (if event = ARTIK_WEBSOCKET_CONNECTED then snd (xcv (WsWrite ws (rd_handle n) (rd_message n)) w1) else w1);
                      w3 = (if event \<in> {ARTIK_WEBSOCKET_CONNECTED, ARTIK_WEBSOCKET_CLOSED, ARTIK_WEBSOCKET_HANDSHAKE_ERROR}
                               \<and> rd_callback n \<noteq> 0
                            then xcu (WsCallback (rd_callback n) (rd_user n) event) w2 else w2)
                  in Ret (xcu (ModRelease ws) w3))"

text \<open>The node of a handle; the table never has a freed node (\<open>stream_inv\<close> below), so the last case does not occur.\<close>

definition stream_node :: "addr \<Rightarrow> cloud_state \<Rightarrow> (addr \<times> reg_data) option" where
  "stream_node h st =
     (case tab_get_by_handle h (c_tab st) of
        None \<Rightarrow> None
      | Some (k, p) \<Rightarrow> (case c_node st p of None \<Rightarrow> None | Some n \<Rightarrow> Some (p, n)))"

definition websocket_send_message :: "addr \<Rightarrow> bytes option \<Rightarrow> cloud_state \<Rightarrow> world \<Rightarrow> (artik_error \<times> world) outcome" where
  "websocket_send_message h message st w =
     (let (ws, w1) = websocket_module w
      in if ws = 0 then Ret (E_NOT_SUPPORTED, w1)
         else case stream_node h st of
                None \<Rightarrow> Ret (E_BAD_ARGS, w1)
              | Some (p, n) \<Rightarrow>
                  (case (rd_device n, message) of
                     (Some (a, d), Some msg) \<Rightarrow>
                       let buf = snprintf ARTIK_CLOUD_WEBSOCKET_STR_MAX ARTIK_CLOUD_WEBSOCKET_SEND_MESSAGE_BODY
                                   [Str d, Str (bytes_of ''message''), Str msg];
                           (r, w2) = xcv (WsWrite ws h buf) w1
                       in Ret (r, xcu (ModRelease ws) w2)
                   | _ \<Rightarrow> Ub NullDeref))"

definition websocket_set_connection_callback :: "addr \<Rightarrow> addr \<Rightarrow> addr \<Rightarrow> cloud_state \<Rightarrow> artik_error \<times> cloud_state" where
  "websocket_set_connection_callback h callback user st =
     (case stream_node h st of
        None \<Rightarrow> (E_BAD_ARGS, st)
      | Some (p, n) \<Rightarrow> (S_OK, st\<lparr>c_node := (c_node st)(p \<mapsto> n\<lparr>rd_callback := callback, rd_user := user\<rparr>)\<rparr>))"

definition websocket_set_receive_callback :: "addr \<Rightarrow> addr \<Rightarrow> addr \<Rightarrow> world \<Rightarrow> artik_error \<times> world" where
  "websocket_set_receive_callback h callback user w =
     (let (ws, w1) = websocket_module w
      in if ws = 0 then (E_NOT_SUPPORTED, w1)
         else let (r, w2) = xcv (WsSetCallback ''websocket_set_receive_callback'' ws h callback user) w1
              in (r, xcu (ModRelease ws) w2))"

definition free_string :: "(addr \<times> bytes) option \<Rightarrow> world \<Rightarrow> world" where
  "free_string s w = (case s of None \<Rightarrow> w | Some (a, b) \<Rightarrow> xcu (Free a) w)"

text \<open>The node is freed before the websocket is closed.\<close>

definition websocket_close_stream :: "addr \<Rightarrow> cloud_state \<Rightarrow> world \<Rightarrow> artik_error \<times> cloud_state \<times> world" where
  "websocket_close_stream h st w =
     (let (ws, w1) = websocket_module w
      in if ws = 0 then (E_NOT_SUPPORTED, st, w1)
         else case stream_node h st of
                None \<Rightarrow> (E_BAD_ARGS, st, w1)
              | Some (p, n) \<Rightarrow>
                  let w2 = free_string (rd_device n) (free_string (rd_token n) w1);
                      st1 = st\<lparr>c_tab := tab_delete_node h (c_tab st), c_node := (c_node st)(p := None)\<rparr>;
                      (r, w3) = xcv (WsCall ''websocket_close_stream'' ws h) w2
                  in (r, st1, xcu (ModRelease ws) w3))"

subsection \<open>Reachable states\<close>

text \<open>What the application does with streams, in any order and whatever the websocket module answers. New nodes do
  not overlap live ones, and handles are not null.\<close>

inductive stream_reach :: "cloud_state \<Rightarrow> bool" where
  begin_stream: "stream_reach cloud_start"
| open_stream: "stream_reach st \<Longrightarrow> c_node st m = None \<Longrightarrow> websocket_open_stream m t d ssl st w = Ret (r, h, st', w') \<Longrightarrow>
     h \<noteq> Some 0 \<Longrightarrow> stream_reach st'"
| close_stream: "stream_reach st \<Longrightarrow> websocket_close_stream h st w = (r, st', w') \<Longrightarrow> stream_reach st'"
| set_callback: "stream_reach st \<Longrightarrow> websocket_set_connection_callback h cb u st = (r, st') \<Longrightarrow> stream_reach st'"

text \<open>Exactly the nodes in the table are live, each under its own handle.\<close>

definition stream_inv :: "cloud_state \<Rightarrow> bool" where
  "stream_inv st \<longleftrightarrow> distinct (map snd (c_tab st)) \<and> (\<forall>p. c_node st p \<noteq> None \<longleftrightarrow> p \<in> snd ` set (c_tab st))
     \<and> (\<forall>(h, p)\<in>set (c_tab st). h \<noteq> 0 \<and> rd_handle (the (c_node st p)) = h)"

lemma find_remove_first:
  assumes "distinct (map snd t)" and "List.find P t = Some x"
  shows "set (remove_first P t) = set t - {x}" and "snd ` set (remove_first P t) = snd ` set t - {snd x}"
proof -
  show s: "set (remove_first P t) = set t - {x}"
    using assms by (induction t) (force dest: find_SomeD split: if_splits)+
  have "x \<in> set t" using find_SomeD [OF assms(2)] by simp
  have inj: "inj_on snd (set t)" using assms(1) by (simp add: distinct_map)
  have "snd ` (set t - {x}) = snd ` set t - snd ` {x}"
    by (rule inj_on_image_set_diff [OF inj]) (use \<open>x \<in> set t\<close> in auto)
  with s show "snd ` set (remove_first P t) = snd ` set t - {snd x}" by simp
qed

lemma drop_stream_inv:
  assumes "stream_inv st" and "tab_get_by_handle h (c_tab st) = Some (k, p)"
  shows "stream_inv (st\<lparr>c_tab := tab_delete_node h (c_tab st), c_node := (c_node st)(p := None)\<rparr>)"
proof -
  note i = assms(1) [unfolded stream_inv_def]
  have f: "List.find (\<lambda>x. fst x = h) (c_tab st) = Some (k, p)"
    using assms(2) by (simp add: tab_get_by_handle_def split: if_splits)
  have d: "distinct (map snd (c_tab st))" using i by blast
  note r = find_remove_first [OF d f]
  have "distinct (map snd (tab_delete_node h (c_tab st)))"
    using distinct_remove_first [of "map snd (c_tab st)"] d
    by (metis (no_types, lifting) distinct_map distinct_remove_first inj_on_subset set_remove_first_subset tab_delete_node_def)
  moreover have "\<forall>q. ((c_node st)(p := None)) q \<noteq> None \<longleftrightarrow> q \<in> snd ` set (tab_delete_node h (c_tab st))"
    using i r(2) by (auto simp: tab_delete_node_def)
  moreover have "\<forall>(j, q)\<in>set (tab_delete_node h (c_tab st)). j \<noteq> 0 \<and> rd_handle (the (((c_node st)(p := None)) q)) = j"
  proof -
    have "q \<noteq> p" if "(j, q) \<in> set (tab_delete_node h (c_tab st))" for j q
    proof -
      have "q \<in> snd ` set (tab_delete_node h (c_tab st))" using that by force
      then show ?thesis using r(2) by (auto simp: tab_delete_node_def)
    qed
    moreover have "set (tab_delete_node h (c_tab st)) \<subseteq> set (c_tab st)" by (simp add: tab_delete_node_def set_remove_first_subset)
    ultimately show ?thesis using i by fastforce
  qed
  ultimately show ?thesis by (simp add: stream_inv_def)
qed

lemma add_stream_inv:
  assumes "stream_inv st" and "c_node st m = None" and "h \<noteq> 0" and "rd_handle n = h"
  shows "stream_inv (st\<lparr>c_tab := tab_add (c_tab st) h m, c_node := (c_node st)(m \<mapsto> n)\<rparr>)"
proof -
  note i = assms(1) [unfolded stream_inv_def]
  have m: "m \<notin> snd ` set (c_tab st)" using i assms(2) by blast
  then have "\<forall>(k, q)\<in>set (c_tab st). q \<noteq> m" by force
  with i m assms(3,4) show ?thesis by (auto simp: stream_inv_def tab_add_def image_iff)
qed

lemma stream_node_Some:
  assumes "stream_node h st = Some (p, n)"
  obtains k where "tab_get_by_handle h (c_tab st) = Some (k, p)" "c_node st p = Some n"
  using assms by (auto simp: stream_node_def split: option.splits)

lemma tab_get_added: "h \<noteq> 0 \<Longrightarrow> \<exists>k p. tab_get_by_handle h (tab_add t h m) = Some (k, p)"
  using tab_get_by_handle_None [of h "tab_add t h m"] by (cases "tab_get_by_handle h (tab_add t h m)") (auto simp: tab_add_def)

lemma register_stream_cases:
  assumes "register_stream ws k m t d st w = Ret (r, h, st', w')"
  shows "h = Some k \<and> (\<exists>n. rd_handle n = k \<and> (let st1 = st\<lparr>c_tab := tab_add (c_tab st) k m, c_node := (c_node st)(m \<mapsto> n)\<rparr>
     in st' = st1 \<or> st' = st1\<lparr>c_tab := tab_delete_node k (c_tab st1),
           c_node := (c_node st1)((snd (the (tab_get_by_handle k (c_tab st1)))) := None)\<rparr>))"
proof -
  let ?n = "\<lparr>rd_handle = k, rd_message = registration_message d t, rd_token = fst (strndup t w),
    rd_device = fst (strndup d (snd (strndup t w))), rd_callback = 0, rd_user = 0\<rparr>"
  show ?thesis using assms unfolding register_stream_def
    by (auto simp: Let_def case_prod_beta intro!: exI [of _ ?n] split: if_splits)
qed

lemma open_stream_cases:
  assumes "websocket_open_stream m t d ssl st w = Ret (r, h, st', w')"
  shows "st' = st \<or> (\<exists>ws k t d w. register_stream ws k m t d st w = Ret (r, h, st', w'))"
  using assms unfolding websocket_open_stream_def
  by (auto simp: Let_def case_prod_beta split: option.splits if_splits)

lemma stream_reach_inv: "stream_reach st \<Longrightarrow> stream_inv st"
proof (induction rule: stream_reach.induct)
  case begin_stream
  show ?case by (simp add: stream_inv_def cloud_start_def)
next
  case (open_stream st m t d ssl w r h st' w')
  from open_stream_cases [OF open_stream.hyps(3)] register_stream_cases consider "st' = st"
    | k n where "h = Some k" "rd_handle n = k" "st' = st\<lparr>c_tab := tab_add (c_tab st) k m, c_node := (c_node st)(m \<mapsto> n)\<rparr>"
    | k n st1 where "h = Some k" "rd_handle n = k" "st1 = st\<lparr>c_tab := tab_add (c_tab st) k m, c_node := (c_node st)(m \<mapsto> n)\<rparr>"
      "st' = st1\<lparr>c_tab := tab_delete_node k (c_tab st1), c_node := (c_node st1)((snd (the (tab_get_by_handle k (c_tab st1)))) := None)\<rparr>"
    unfolding Let_def by metis
  then show ?case
  proof cases
    case (3 k n st1)
    have "k \<noteq> 0" using open_stream.hyps(4) 3(1) by simp
    have "stream_inv st1" unfolding 3(3) by (rule add_stream_inv [OF open_stream.IH open_stream.hyps(2) \<open>k \<noteq> 0\<close> 3(2)])
    moreover obtain j p where "tab_get_by_handle k (c_tab st1) = Some (j, p)"
      using tab_get_added [OF \<open>k \<noteq> 0\<close>, of "c_tab st" m] 3(3) by auto
    ultimately show ?thesis using drop_stream_inv 3(4) by fastforce
  qed (use open_stream add_stream_inv in auto)
next
  case (close_stream st h w r st' w')
  show ?case
  proof (cases "stream_node h st")
    case None
    with close_stream show ?thesis by (auto simp: websocket_close_stream_def Let_def case_prod_beta split: if_splits)
  next
    case (Some x)
    then obtain p n where x: "stream_node h st = Some (p, n)" by (cases x) auto
    then obtain k where "tab_get_by_handle h (c_tab st) = Some (k, p)" by (rule stream_node_Some)
    from drop_stream_inv [OF close_stream.IH this] close_stream x show ?thesis
      by (auto simp: websocket_close_stream_def Let_def case_prod_beta split: if_splits)
  qed
next
  case (set_callback st h cb u r st')
  show ?case
  proof (cases "stream_node h st")
    case None
    with set_callback show ?thesis by (auto simp: websocket_set_connection_callback_def)
  next
    case (Some x)
    then obtain p n where x: "stream_node h st = Some (p, n)" by (cases x) auto
    then obtain k where k: "tab_get_by_handle h (c_tab st) = Some (k, p)" "c_node st p = Some n" by (rule stream_node_Some)
    have "st' = st\<lparr>c_node := (c_node st)(p \<mapsto> n\<lparr>rd_callback := cb, rd_user := u\<rparr>)\<rparr>"
      using set_callback.hyps(2) x by (simp add: websocket_set_connection_callback_def)
    moreover have "p \<in> snd ` set (c_tab st)" using tab_get_by_handle_Some [OF k(1)] by force
    ultimately show ?thesis using set_callback.IH k(2) by (fastforce simp: stream_inv_def)
  qed
qed


text \<open>A stream with handle 77 and its node at 200.\<close>

definition stream_env :: "xcall list \<Rightarrow> xcall \<Rightarrow> answer" where
  "stream_env h c = (case c of WsRequest a u s \<Rightarrow> \<lparr>retv = 0, errno = 0, oval = 77, outb = []\<rparr> | _ \<Rightarrow> good_env h c)"

definition stream_world :: world where "stream_world = \<lparr>hist = [], env = stream_env\<rparr>"

definition sample_node :: reg_data where
  "sample_node = \<lparr>rd_handle = 77, rd_message = registration_message [100] [116], rd_token = Some (64, [116]),
     rd_device = Some (64, [100]), rd_callback = 0, rd_user = 0\<rparr>"

lemma sample_open: "\<exists>w'. websocket_open_stream 200 (Some [116]) (Some [100]) (Some (5, False)) cloud_start stream_world
    = Ret (S_OK, Some 77, \<lparr>c_tab = [(77, 200)], c_node = [200 \<mapsto> sample_node]\<rparr>, w')"
  by (auto simp: websocket_open_stream_def register_stream_def websocket_module_def stream_world_def stream_env_def good_env_def
      xc_def xcv_def strndup_def S_OK_def sample_node_def cloud_start_def tab_add_def Let_def case_prod_beta)

lemma sample_reach: "stream_reach \<lparr>c_tab = [(77, 200)], c_node = [200 \<mapsto> sample_node]\<rparr>"
  using sample_open open_stream [OF begin_stream] by (force simp: cloud_start_def)


text \<open>After a stream was opened, the event that it is connected writes the registration of the device on it, as the
  API expects it, provided identifier and token together have at most 968 bytes.\<close>

theorem stream_registers:
  assumes "websocket_open_stream m (Some t) (Some d) ssl st w = Ret (S_OK, Some h, st', w')"
    and "length t + length d \<le> 968" and "ws = retv (env v (hist v) (ModRequest ''websocket''))" and "0 < ws"
    and "retv (env w (hist w) (ModRequest ''websocket'')) > 0" and "m \<noteq> 0"
  shows \<open>websocket_connection_callback m ARTIK_WEBSOCKET_CONNECTED st' v
    = Ret (v\<lparr>hist := hist v @ [ModRequest ''websocket'', WsWrite (nat ws) h
        (bytes_of ''{"sdid":"'' @ d @ bytes_of ''","Authorization":"bearer '' @ t @ bytes_of ''","type":"register"}''),
        ModRelease (nat ws)]\<rparr>)\<close>
proof -
  let ?f = "fmt ARTIK_CLOUD_WEBSOCKET_MESSAGE_BODY [Str d, Str t, Str (bytes_of ''register'')]"
  have f: \<open>?f = bytes_of ''{"sdid":"'' @ d @ bytes_of ''","Authorization":"bearer '' @ t @ bytes_of ''","type":"register"}''\<close>
    by (simp add: ARTIK_CLOUD_WEBSOCKET_MESSAGE_BODY_def bytes_of_def)
  have "length ?f = length d + length t + 55" unfolding f by (simp add: bytes_of_def)
  then have r: "registration_message d t = ?f"
    using assms(2) by (simp add: registration_message_def snprintf_def ARTIK_CLOUD_WEBSOCKET_STR_MAX_def)
  from assms(1,5,6) obtain n where n: "c_node st' m = Some n" "rd_message n = registration_message d t" "rd_handle n = h" "rd_callback n = 0"
    unfolding websocket_open_stream_def register_stream_def
    by (auto simp: Let_def case_prod_beta websocket_module_def split: option.splits if_splits)
  show ?thesis using assms(3,4) n unfolding f [symmetric] r [symmetric]
    by (simp add: websocket_connection_callback_def websocket_module_def xc_def xcv_def xcu_def Let_def)
qed

theorem stream_registers_witness:
  \<open>\<exists>st' w'. websocket_open_stream 200 (Some [116]) (Some [100]) (Some (5, False)) cloud_start stream_world = Ret (S_OK, Some 77, st', w')
     \<and> websocket_connection_callback 200 ARTIK_WEBSOCKET_CONNECTED st' good_world
       = Ret (good_world\<lparr>hist := [ModRequest ''websocket'', WsWrite 80 77
           (bytes_of ''{"sdid":"d","Authorization":"bearer t","type":"register"}''), ModRelease 80]\<rparr>)\<close>
proof -
  obtain w' where o: "websocket_open_stream 200 (Some [116]) (Some [100]) (Some (5, False)) cloud_start stream_world
    = Ret (S_OK, Some 77, \<lparr>c_tab = [(77, 200)], c_node = [200 \<mapsto> sample_node]\<rparr>, w')" using sample_open by blast
  from o stream_registers [OF o, of 80 good_world] show ?thesis
    by (force simp: stream_world_def stream_env_def bytes_of_def)
qed

end
