(* ===== verification/Ieee.thy ===== *)
theory Ieee
  imports Complex_Main "HOL-Library.Log_Nat"
begin

section \<open>Floating-point arithmetic\<close>

text \<open>
  The operations of C's \<^verbatim>\<open>double\<close> and \<^verbatim>\<open>float\<close> round the exact result to
  53 or 24 significant bits, to nearest and ties to even (IEEE 754). The numbers of the SDK stay far
  from the ends of the exponent range, so there is neither overflow nor underflow; a division by zero
  is a case of its own where the code can make one.
\<close>

text \<open>The exponent \<open>e\<close> with \<open>2 ^ e \<le> x < 2 ^ (e + 1)\<close>.\<close>

definition binade :: "real \<Rightarrow> int" where
  "binade x = (if 1 \<le> x then int (floorlog 2 (nat \<lfloor>x\<rfloor>)) - 1 else - int (floorlog 2 (nat (\<lceil>1 / x\<rceil> - 1))))"

definition round_even :: "real \<Rightarrow> int" where
  "round_even x =
     (let f = \<lfloor>x\<rfloor>; d = x - of_int f
      in if d < 1 / 2 then f else if 1 / 2 < d then f + 1 else if even f then f else f + 1)"

definition fl :: "nat \<Rightarrow> real \<Rightarrow> real" where
  "fl p x = (if x = 0 then 0
             else let u = 2 powi (binade \<bar>x\<bar> - int p + 1) in of_int (round_even (x / u)) * u)"

abbreviation dbl :: "real \<Rightarrow> real" where "dbl \<equiv> fl 53"
abbreviation flt :: "real \<Rightarrow> real" where "flt \<equiv> fl 24"

text \<open>A conversion to an integer type cuts the fraction off.\<close>

definition trunc :: "real \<Rightarrow> int" where
  "trunc x = (if x < 0 then - \<lfloor>- x\<rfloor> else \<lfloor>x\<rfloor>)"

subsection \<open>Error and exactness\<close>

lemma floorlog_2_bounds:
  assumes "0 < n"
  shows "2 ^ (floorlog 2 n - 1) \<le> n \<and> n < 2 ^ floorlog 2 n \<and> 0 < floorlog 2 n"
  using assms floorlog_bounds [of n 2] floorlog_ge_SucI [of 2 0 n] by auto

lemma binade_bounds:
  assumes "0 < x"
  shows "2 powi binade x \<le> x" and "x < 2 powi (binade x + 1)"
proof -
  have "2 powi binade x \<le> x \<and> x < 2 powi (binade x + 1)"
  proof (cases "1 \<le> x")
    case True
    define n where "n = nat \<lfloor>x\<rfloor>"
    have n: "0 < n" "real n \<le> x" "x < real n + 1" using True by (auto simp: n_def)
    let ?k = "floorlog 2 n"
    from floorlog_2_bounds [OF n(1)] have k: "2 ^ (?k - 1) \<le> n" "n + 1 \<le> 2 ^ ?k" "0 < ?k" by auto
    have "(2 :: real) ^ (?k - 1) \<le> real n" "real n + 1 \<le> 2 ^ ?k"
      using iffD2 [OF of_nat_le_iff, OF k(1), where 'a1 = real] iffD2 [OF of_nat_le_iff, OF k(2), where 'a1 = real]
      by simp_all
    then have b: "2 ^ (?k - 1) \<le> x" "x < 2 ^ ?k" using n(2,3) by linarith+
    have "binade x = int (?k - 1)" "binade x + 1 = int ?k"
      using True k(3) by (auto simp: binade_def n_def)
    with b show ?thesis by (simp only: power_int_of_nat)
  next
    case False
    define m where "m = \<lceil>1 / x\<rceil> - 1"
    have gt: "1 < 1 / x" using False assms by simp
    then have m: "1 \<le> m" "of_int m < 1 / x" "1 / x \<le> of_int m + 1"
      unfolding m_def by linarith+
    let ?k = "floorlog 2 (nat m)"
    from floorlog_2_bounds [of "nat m"] m(1)
    have k: "2 ^ (?k - 1) \<le> nat m" "nat m < 2 ^ ?k" "0 < ?k" by auto
    have "int (nat m) + 1 \<le> 2 ^ ?k" using k(2) using iffD2 [OF of_nat_le_iff, OF Suc_leI [OF k(2)], where 'a1 = int] by simp
    with m(1) have "m + 1 \<le> 2 ^ ?k" by simp
    then have "of_int m + 1 \<le> (2 :: real) ^ ?k"
      using iffD2 [OF of_int_le_iff, where 'a1 = real] by fastforce
    with m(3) have lo: "1 / x \<le> 2 ^ ?k" by linarith
    have "2 ^ (?k - 1) \<le> m" using k(1) m(1) by (simp add: le_nat_iff)
    then have "(2 :: real) ^ (?k - 1) \<le> of_int m"
      using iffD2 [OF of_int_le_iff, where 'a1 = real] by fastforce
    with m(2) have hi: "2 ^ (?k - 1) < 1 / x" by linarith
    have b: "binade x = - int ?k" using False by (simp add: binade_def m_def)
    have e1: "2 powi binade x = (1 :: real) / 2 ^ ?k" by (simp add: b power_int_minus field_simps)
    have "binade x + 1 = - int (?k - 1)" using b k(3) by auto
    then have e2: "2 powi (binade x + 1) = (1 :: real) / 2 ^ (?k - 1)"
      by (simp only: power_int_minus power_int_of_nat inverse_eq_divide)
    show ?thesis unfolding e1 e2 using lo hi assms by (simp add: field_simps)
  qed
  then show "2 powi binade x \<le> x" "x < 2 powi (binade x + 1)" by auto
qed

lemma round_even_error: "\<bar>of_int (round_even x) - x\<bar> \<le> 1 / 2"
  unfolding round_even_def Let_def by (auto split: if_splits)

lemma round_even_int [simp]: "round_even (of_int n) = n"
  by (simp add: round_even_def)

lemma fl_0 [simp]: "fl p 0 = 0"
  by (simp add: fl_def)

lemma fl_error: "\<bar>fl p x - x\<bar> \<le> \<bar>x\<bar> / 2 ^ p"
proof (cases "x = 0")
  case False
  define u :: real where "u = 2 powi (binade \<bar>x\<bar> - int p + 1)"
  have u: "0 < u" by (simp add: u_def)
  have "\<bar>of_int (round_even (x / u)) * u - x\<bar> = \<bar>of_int (round_even (x / u)) - x / u\<bar> * u"
    using u by (simp add: abs_mult_pos' [symmetric] field_simps flip: abs_mult)
  also have "\<dots> \<le> 1 / 2 * u"
    using round_even_error u by (intro mult_right_mono) auto
  also have "\<dots> = 2 powi binade \<bar>x\<bar> / 2 ^ p"
    by (simp add: u_def power_int_add power_int_diff field_simps)
  also have "\<dots> \<le> \<bar>x\<bar> / 2 ^ p"
    using binade_bounds(1) [of "\<bar>x\<bar>"] False by (intro divide_right_mono) auto
  finally show ?thesis using False by (simp add: fl_def u_def Let_def)
qed simp

text \<open>Below \<open>2 ^ p\<close> the spacing is \<open>1 / 2 ^ k\<close> for some \<open>k\<close>.\<close>

lemma fl_scale:
  assumes "x \<noteq> 0" and "\<bar>x\<bar> < 2 ^ p"
  obtains k where "fl p x = of_int (round_even (x * 2 ^ k)) / 2 ^ k"
proof -
  define e where "e = binade \<bar>x\<bar>"
  have "e < int p"
  proof (rule ccontr)
    assume "\<not> e < int p"
    then have "(2 :: real) powi int p \<le> 2 powi e" by (intro power_int_increasing) auto
    also have "\<dots> \<le> \<bar>x\<bar>" using binade_bounds(1) assms(1) by (simp add: e_def)
    finally show False using assms(2) by simp
  qed
  then have "e - int p + 1 = - int (nat (int p - 1 - e))" by simp
  then have u: "2 powi (e - int p + 1) = (1 :: real) / 2 ^ nat (int p - 1 - e)"
    by (simp only: power_int_minus power_int_of_nat inverse_eq_divide)
  have "fl p x = of_int (round_even (x / 2 powi (e - int p + 1))) * 2 powi (e - int p + 1)"
    using assms(1) by (simp add: fl_def Let_def e_def)
  then have "fl p x = of_int (round_even (x * 2 ^ nat (int p - 1 - e))) / 2 ^ nat (int p - 1 - e)"
    unfolding u by simp
  then show thesis by (rule that)
qed

lemma fl_int:
  assumes "\<bar>n\<bar> < 2 ^ p"
  shows "fl p (of_int n) = of_int n"
proof (cases "n = 0")
  case False
  have "\<bar>of_int n :: real\<bar> < 2 ^ p"
    using assms by (metis of_int_abs of_int_less_iff of_int_numeral of_int_power)
  with False obtain k where "fl p (of_int n) = of_int (round_even (of_int n * 2 ^ k)) / 2 ^ k"
    using fl_scale [of "of_int n" p] by auto
  moreover have "of_int n * 2 ^ k = (of_int (n * 2 ^ k) :: real)" by simp
  ultimately show ?thesis by (metis round_even_int nonzero_mult_div_cancel_right power_not_zero zero_neq_numeral)
qed simp

text \<open>Rounding does not go below an integer.\<close>

lemma round_even_ge: "of_int m \<le> x \<Longrightarrow> m \<le> round_even x"
proof -
  assume "of_int m \<le> x"
  then have "m \<le> \<lfloor>x\<rfloor>" by (simp add: le_floor_iff)
  then show ?thesis by (auto simp: round_even_def Let_def)
qed

lemma fl_ge_int:
  assumes "of_int m \<le> x" and "0 < m" and "x < 2 ^ p"
  shows "of_int m \<le> fl p x"
proof -
  have "0 < x" using assms(1,2) by linarith
  then obtain k where k: "fl p x = of_int (round_even (x * 2 ^ k)) / 2 ^ k"
    using fl_scale [of x p] assms(3) by auto
  have "of_int (m * 2 ^ k) \<le> x * 2 ^ k" using assms(1) by simp
  from round_even_ge [OF this] have "of_int m * 2 ^ k \<le> (of_int (round_even (x * 2 ^ k)) :: real)"
    by (metis of_int_le_iff of_int_mult of_int_numeral of_int_power)
  then show ?thesis by (simp add: k field_simps)
qed

lemma round_even_minus: "round_even (- x) = - round_even x"
proof (cases "x = of_int \<lfloor>x\<rfloor>")
  case True
  then have "round_even x = \<lfloor>x\<rfloor>" "round_even (- x) = - \<lfloor>x\<rfloor>"
    by (metis round_even_int) (metis True of_int_minus round_even_int)
  then show ?thesis by simp
next
  case False
  have fl': "\<lfloor>- x\<rfloor> = - \<lfloor>x\<rfloor> - 1" using False by linarith
  show ?thesis by (auto simp: round_even_def Let_def fl')
qed

lemma fl_minus: "fl p (- x) = - fl p x"
  by (simp add: fl_def Let_def round_even_minus flip: minus_divide_left)

lemma trunc_minus: "trunc (- x) = - trunc x"
  by (auto simp: trunc_def)

lemma trunc_int [simp]: "trunc (of_int n) = n"
  by (simp add: trunc_def)

lemma trunc_eq: "of_int n \<le> x \<Longrightarrow> x < of_int n + 1 \<Longrightarrow> 0 \<le> n \<Longrightarrow> trunc x = n"
  unfolding trunc_def by (auto intro!: floor_unique) 

end
