(* ===== verification/SensorI2c.thy ===== *)
theory SensorI2c
  imports I2c Spi Ieee "HOL-Library.Signed_Division"
begin

section \<open>Sensors on a bus (\<^verbatim>\<open>src/modules/sensor/devices\<close>)\<close>

text \<open>
  The drivers of the sensor board: LPS25H (pressure, temperature), CM3323E (light), HTS221 (humidity,
  temperature) on I2C, K6DS3 (acceleration, rotation) on SPI, and the accelerometer of the Arduino
  kit. A driver keeps a list of its own (a handle table) and works on the bus through the module of
  I2c or Spi, whose table is threaded beside its own. \<open>m\<close> and \<open>m2\<close> are the blocks \<^verbatim>\<open>malloc\<close>
  returns for the node of the driver and for the node of the bus module. What a request writes to
  \<^verbatim>\<open>*handle\<close> is optional (\<open>Some 0\<close> is \<^verbatim>\<open>NULL\<close>); a reading is given the variable
  \<^verbatim>\<open>store\<close> points to (\<open>None\<close> if it is null) and returns it. \<^verbatim>\<open>char\<close> is unsigned, as
  on ARM.
\<close>

subsection \<open>Buffers and conversions\<close>

text \<open>A byte of a buffer nothing else was written to than what a read delivered.\<close>

definition got :: "bytes \<Rightarrow> nat \<Rightarrow> u8 outcome" where
  "got bs i = (if i < length bs then Ret (bs ! i) else Ub Uninitialised)"

text \<open>What a read does to a variable of some bytes.\<close>

definition deliver :: "bytes \<Rightarrow> bytes \<Rightarrow> bytes outcome" where
  "deliver bs var = (if length bs \<le> length var then Ret (bs @ drop (length bs) var) else Ub OutOfBounds)"

definition short_of :: "u8 \<Rightarrow> u8 \<Rightarrow> int" where
  "short_of lo hi = sint (word_of_nat (unat lo + 256 * unat hi) :: u16)"

fun short_at :: "bytes \<Rightarrow> int" where
  "short_at (lo # hi # _) = short_of lo hi"
| "short_at _ = 0"

definition to_int :: "real \<Rightarrow> int outcome" where
  "to_int x = (if -2147483649 < x \<and> x < 2147483648 then Ret (trunc x) else Ub Overflow)"

definition to_short :: "real \<Rightarrow> int outcome" where
  "to_short x = (if -32769 < x \<and> x < 32768 then Ret (trunc x) else Ub Overflow)"

subsection \<open>Requests and releases\<close>

record sensor_node =
  n_mod :: addr
  n_hdl :: addr
  n_id :: u32

record shared_node = sensor_node +
  number_of_instances :: int

definition zero_node :: sensor_node where
  "zero_node = \<lparr>n_mod = 0, n_hdl = 0, n_id = 0\<rparr>"

definition zero_shared :: shared_node where
  "zero_shared = \<lparr>n_mod = 0, n_hdl = 0, n_id = 0, number_of_instances = 0\<rparr>"

type_synonym ('n, 'c) drv_request =
  "addr \<Rightarrow> addr \<Rightarrow> 'c \<Rightarrow> 'n tab \<Rightarrow> 'c tab \<Rightarrow> world
     \<Rightarrow> (artik_error \<times> addr option \<times> 'n tab \<times> 'c tab \<times> world) outcome"

type_synonym ('n, 'c) drv_release =
  "addr \<Rightarrow> 'n tab \<Rightarrow> 'c tab \<Rightarrow> world \<Rightarrow> (artik_error \<times> 'n tab \<times> 'c tab \<times> world) outcome"

type_synonym 'c drv_init = "addr \<Rightarrow> 'c tab \<Rightarrow> world \<Rightarrow> (artik_error \<times> world) outcome"

text \<open>The node is deleted, and freed with that, before its pointer to the bus module is read.\<close>

definition exclusive_release :: "(sensor_node, 'c) drv_release" where
  "exclusive_release hnd t bt w =
     (case tab_get_by_handle hnd t of
        None \<Rightarrow> Ret (S_OK, t, bt, w)
      | Some (a, n) \<Rightarrow> Ub UseAfterFree)"

definition shared_release :: "(shared_node, 'c) drv_release" where
  "shared_release hnd t bt w =
     (case tab_get_by_handle hnd t of
        None \<Rightarrow> Ret (S_OK, t, bt, w)
      | Some (a, n) \<Rightarrow>
          let n1 = n\<lparr>number_of_instances := number_of_instances n - 1\<rparr>
          in if number_of_instances n1 = 0 then Ub UseAfterFree else Ret (S_OK, tab_set a n1 t, bt, w))"

text \<open>The part of the requests from \<^verbatim>\<open>artik_list_add\<close> on; \<open>new\<close> is the node before the
  module is stored in it.\<close>

definition new_device :: "string \<Rightarrow> 'c fe_request \<Rightarrow> ('c \<Rightarrow> u32) \<Rightarrow> 'c drv_init
    \<Rightarrow> ('n sensor_node_scheme, 'c) drv_release \<Rightarrow> 'n sensor_node_scheme
    \<Rightarrow> ('n sensor_node_scheme, 'c) drv_request" where
  "new_device name bus_request bus_id initialize release new m m2 config t bt w =
     (if m = 0 then Ret (E_NO_MEM, None, t, bt, w)
      else let t1 = tab_add t m new;
               (i, w1) = xc (ModRequest name) w
           in if retv i = 0
              then obind (release m t1 bt w1) (\<lambda>(_, t2, bt1, w2). Ret (E_INVALID_VALUE, None, t2, bt1, w2))
              else obind (bus_request m2 config bt w1) (\<lambda>(r, h, _, bt1, w2).
                let n = new\<lparr>n_mod := nat (retv i), n_hdl := (case h of None \<Rightarrow> 0 | Some a \<Rightarrow> a)\<rparr>
                in if r \<noteq> S_OK
                   then obind (release m (tab_set m n t1) bt1 w2) (\<lambda>(_, t2, bt2, w3). Ret (r, Some 0, t2, bt2, w3))
                   else let t2 = tab_set m (n\<lparr>n_id := bus_id config\<rparr>) t1
                        in obind (initialize (n_hdl n) bt1 w2) (\<lambda>(r, w3).
                             if r \<noteq> S_OK
                             then obind (release m t2 bt1 w3) (\<lambda>(_, t3, bt2, w4). Ret (r, Some 0, t3, bt2, w4))
                             else Ret (S_OK, Some m, t2, bt1, w3))))"

text \<open>A device that is held: two drivers refuse it, two count its holders.\<close>

definition exclusive_request :: "string \<Rightarrow> 'c fe_request \<Rightarrow> ('c \<Rightarrow> u32) \<Rightarrow> 'c drv_init
    \<Rightarrow> (sensor_node, 'c) drv_request" where
  "exclusive_request name bus_request bus_id initialize m m2 config t bt w =
     (case tab_get_by_check (\<lambda>n. n_id n = bus_id config) t of
        Some _ \<Rightarrow> Ret (E_BUSY, None, t, bt, w)
      | None \<Rightarrow> new_device name bus_request bus_id initialize exclusive_release zero_node m m2 config t bt w)"

definition shared_request :: "string \<Rightarrow> 'c fe_request \<Rightarrow> ('c \<Rightarrow> u32) \<Rightarrow> 'c drv_init
    \<Rightarrow> (shared_node, 'c) drv_request" where
  "shared_request name bus_request bus_id initialize m m2 config t bt w =
     (case tab_get_by_check (\<lambda>n. n_id n = bus_id config) t of
        Some (a, n) \<Rightarrow>
          Ret (S_OK, Some a, tab_set a (n\<lparr>number_of_instances := number_of_instances n + 1\<rparr>) t, bt, w)
      | None \<Rightarrow> new_device name bus_request bus_id initialize shared_release
                  (zero_shared\<lparr>number_of_instances := 1\<rparr>) m m2 config t bt w)"

subsection \<open>LPS25H: pressure and temperature\<close>

definition lps25hbtr_initialize :: "artik_i2c_config drv_init" where
  "lps25hbtr_initialize hnd it w =
     obind (artik_i2c_read_register hnd 0x0F 1 it w) (\<lambda>(e, bs, w1).
       if e \<noteq> S_OK then Ret (e, w1)
       else obind (got bs 0) (\<lambda>b.
         if b \<noteq> 0xBD then Ret (E_NOT_SUPPORTED, w1)
         else artik_i2c_write_register hnd 0x20 [0xB0] 1 it w1))"

definition lps25hbtr_request :: "(sensor_node, artik_i2c_config) drv_request" where
  "lps25hbtr_request = exclusive_request ''i2c'' artik_i2c_request i2c_id lps25hbtr_initialize"

definition lps25hbtr_release :: "(sensor_node, artik_i2c_config) drv_release" where
  "lps25hbtr_release = exclusive_release"

definition lps25hbtr_get_pressure ::
  "addr \<Rightarrow> int option \<Rightarrow> sensor_node tab \<Rightarrow> artik_i2c_config tab \<Rightarrow> world
     \<Rightarrow> (artik_error \<times> int option \<times> world) outcome" where
  "lps25hbtr_get_pressure hnd store t it w =
     (if store = None then Ret (E_BAD_ARGS, store, w)
      else case tab_get_by_handle hnd t of
        None \<Rightarrow> Ret (E_INVALID_VALUE, Some (-1), w)
      | Some (a, n) \<Rightarrow>
          obind (artik_i2c_read_register (n_hdl n) 0x28 1 it w) (\<lambda>(e, xs, w1).
            if e < 0 then Ret (e, Some (-1), w1)
            else obind (artik_i2c_read_register (n_hdl n) 0x29 1 it w1) (\<lambda>(e, ys, w2).
              if e < 0 then Ret (e, Some (-1), w2)
              else obind (artik_i2c_read_register (n_hdl n) 0x2A 1 it w2) (\<lambda>(e, zs, w3).
                if e < 0 then Ret (e, Some (-1), w3)
                else obind (got xs 0) (\<lambda>x. obind (got ys 0) (\<lambda>y. obind (got zs 0) (\<lambda>z.
                  Ret (S_OK, Some (sint (push_bit 16 (ucast z) OR push_bit 8 (ucast y) OR ucast x :: u32) sdiv 4096),
                       w3))))))))"

definition lps25hbtr_data ::
  "addr \<Rightarrow> int option \<Rightarrow> sensor_node tab \<Rightarrow> artik_i2c_config tab \<Rightarrow> world
     \<Rightarrow> (int \<Rightarrow> artik_error \<Rightarrow> (artik_error \<times> int) outcome) \<Rightarrow> (artik_error \<times> int option \<times> world) outcome" where
  "lps25hbtr_data hnd store t it w convert =
     (if store = None then Ret (E_BAD_ARGS, store, w)
      else case tab_get_by_handle hnd t of
        None \<Rightarrow> Ret (E_INVALID_VALUE, Some (-1), w)
      | Some (a, n) \<Rightarrow>
          obind (artik_i2c_read_register (n_hdl n) (0x2B OR 0x80) 2 it w) (\<lambda>(e, bs, w1).
            if e < 0 then Ret (e, Some (-1), w1)
            else obind (got bs 0) (\<lambda>lo. obind (got bs 1) (\<lambda>hi.
              obind (convert (short_of lo hi) e) (\<lambda>(r, v). Ret (r, Some v, w1))))))"

definition lps25hbtr_get_celsius ::
  "addr \<Rightarrow> int option \<Rightarrow> sensor_node tab \<Rightarrow> artik_i2c_config tab \<Rightarrow> world
     \<Rightarrow> (artik_error \<times> int option \<times> world) outcome" where
  "lps25hbtr_get_celsius hnd store t it w =
     lps25hbtr_data hnd store t it w (\<lambda>d e. obind (to_int (dbl (of_int (d sdiv 480) + 42.5))) (\<lambda>v. Ret (S_OK, v)))"

definition lps25hbtr_get_fahrenheit ::
  "addr \<Rightarrow> int option \<Rightarrow> sensor_node tab \<Rightarrow> artik_i2c_config tab \<Rightarrow> world
     \<Rightarrow> (artik_error \<times> int option \<times> world) outcome" where
  "lps25hbtr_get_fahrenheit hnd store t it w =
     lps25hbtr_data hnd store t it w (\<lambda>d e.
       obind (to_short (dbl (of_int (d sdiv 480) + 42.5))) (\<lambda>c.
       obind (to_short (dbl (of_int c * dbl 1.8))) (\<lambda>f.
         Ret (e, sint (word_of_int (f + 32) :: u16)))))"

subsection \<open>CM3323E: light\<close>

definition cm3323e_initialize :: "artik_i2c_config drv_init" where
  "cm3323e_initialize hnd it w =
     obind (artik_i2c_read_register hnd 0x00 2 it w) (\<lambda>(e, bs, w1).
       if e < 0 then Ret (e, w1)
       else obind (artik_i2c_write_register hnd 0x00 [0x30, 0x00] 2 it w1) (\<lambda>(e, w2).
         Ret (if e < 0 then e else S_OK, w2)))"

definition cm3323e_request :: "(sensor_node, artik_i2c_config) drv_request" where
  "cm3323e_request = exclusive_request ''i2c'' artik_i2c_request i2c_id cm3323e_initialize"

definition cm3323e_release :: "(sensor_node, artik_i2c_config) drv_release" where
  "cm3323e_release = exclusive_release"

definition cm3323e_get_intensity ::
  "addr \<Rightarrow> int option \<Rightarrow> sensor_node tab \<Rightarrow> artik_i2c_config tab \<Rightarrow> world
     \<Rightarrow> (artik_error \<times> int option \<times> world) outcome" where
  "cm3323e_get_intensity hnd store t it w =
     (if store = None then Ret (E_BAD_ARGS, store, w)
      else case tab_get_by_handle hnd t of
        None \<Rightarrow> Ret (E_INVALID_VALUE, store, w)
      | Some (a, n) \<Rightarrow>
          obind (artik_i2c_read_register (n_hdl n) 0x0B 2 it w) (\<lambda>(e, bs, w1).
            if e < 0 then Ret (e, store, w1)
            else obind (deliver bs [0, 0]) (\<lambda>var.
              Ret (S_OK, Some ((short_at var mod 0x10000 * 100) sdiv 65535), w1))))"

end
