(* ===== verification/SensorBoard.thy ===== *)
theory SensorBoard
  imports SensorI2c
begin

section \<open>HTS221 and K6DS3\<close>

text \<open>
  The two drivers of the sensor board that count the holders of their device: HTS221 on I2C, with its
  interpolation between two calibration points, and K6DS3 on SPI.
\<close>

subsection \<open>HTS221: humidity and temperature\<close>

definition hts221_get_data ::
  "addr \<Rightarrow> u32 \<Rightarrow> nat \<Rightarrow> shared_node tab \<Rightarrow> artik_i2c_config tab \<Rightarrow> world \<Rightarrow> (artik_error \<times> bytes \<times> world) outcome" where
  "hts221_get_data hnd reg len t it w =
     (case tab_get_by_handle hnd t of
        None \<Rightarrow> Ret (E_INVALID_VALUE, [], w)
      | Some (a, n) \<Rightarrow> artik_i2c_read_register (n_hdl n) (if 1 < len then reg OR 0x80 else reg) len it w)"

definition hts221_initialize :: "artik_i2c_config drv_init" where
  "hts221_initialize hnd it w =
     obind (artik_i2c_read_register hnd 0x0F 1 it w) (\<lambda>(e, bs, w1).
       if e \<noteq> S_OK then Ret (e, w1)
       else obind (got bs 0) (\<lambda>b.
         if b \<noteq> 0xBC then Ret (E_NOT_SUPPORTED, w1)
         else obind (artik_i2c_write_register hnd 0x10 [0x36] 1 it w1) (\<lambda>(e, w2).
           if e \<noteq> S_OK then Ret (e, w2)
           else artik_i2c_write_register hnd 0x20 [0x82] 1 it w2)))"

definition hts221_request :: "(shared_node, artik_i2c_config) drv_request" where
  "hts221_request = shared_request ''i2c'' artik_i2c_request i2c_id hts221_initialize"

definition hts221_release :: "(shared_node, artik_i2c_config) drv_release" where
  "hts221_release = shared_release"

text \<open>Reads one after the other into variables of two bytes (one for the mask) that start as zero, up
  to the first error.\<close>

fun hts221_reads :: "addr \<Rightarrow> (u32 \<times> nat \<times> nat) list \<Rightarrow> shared_node tab \<Rightarrow> artik_i2c_config tab \<Rightarrow> world
    \<Rightarrow> (artik_error \<times> bytes list \<times> world) outcome" where
  "hts221_reads hnd [] t it w = Ret (S_OK, [], w)"
| "hts221_reads hnd ((reg, room, len) # rs) t it w =
     obind (hts221_get_data hnd reg len t it w) (\<lambda>(e, bs, w1).
       if e \<noteq> S_OK then Ret (e, [], w1)
       else obind (deliver bs (replicate room 0)) (\<lambda>var.
         obind (hts221_reads hnd rs t it w1) (\<lambda>(e, vars, w2). Ret (e, var # vars, w2))))"

text \<open>The line through two calibration points; \<open>k\<close> is what the calibration values are scaled by. If
  the points coincide the quotient is infinite or not a number, and so is what is converted to an
  integer.\<close>

definition calibrated :: "int \<Rightarrow> int \<Rightarrow> int \<Rightarrow> int \<Rightarrow> int \<Rightarrow> int \<Rightarrow> int outcome" where
  "calibrated k v0 v1 x0 x1 x =
     (if x1 = x0 then Ub Overflow
      else let q = dbl (of_int (v1 - v0) / of_int (x1 - x0));
               d = dbl (q * of_int (x - x0));
               s = dbl (d + of_int v0)
           in to_int (dbl (s / of_int k)))"

definition word_at :: "bytes \<Rightarrow> u16" where
  "word_at bs = word_of_int (short_at bs)"

definition hts221_get_humidity ::
  "addr \<Rightarrow> int option \<Rightarrow> shared_node tab \<Rightarrow> artik_i2c_config tab \<Rightarrow> world
     \<Rightarrow> (artik_error \<times> int option \<times> world) outcome" where
  "hts221_get_humidity hnd store t it w =
     (if store = None then Ret (E_BAD_ARGS, store, w)
      else obind (hts221_reads hnd [(0x28, 2, 2), (0x30, 2, 1), (0x31, 2, 1), (0x36, 2, 2), (0x3A, 2, 2)] t it w)
        (\<lambda>(e, vars, w1).
          if e \<noteq> S_OK then Ret (e, store, w1)
          else obind (calibrated 2 (uint (word_at (vars ! 1))) (uint (word_at (vars ! 2)))
                        (short_at (vars ! 3)) (short_at (vars ! 4)) (short_at (vars ! 0)))
                 (\<lambda>v. Ret (S_OK, Some v, w1))))"

definition hts221_get_celsius ::
  "addr \<Rightarrow> int option \<Rightarrow> shared_node tab \<Rightarrow> artik_i2c_config tab \<Rightarrow> world
     \<Rightarrow> (artik_error \<times> int option \<times> world) outcome" where
  "hts221_get_celsius hnd store t it w =
     (if store = None then Ret (E_BAD_ARGS, store, w)
      else obind (hts221_reads hnd
                    [(0x2A, 2, 2), (0x32, 2, 1), (0x33, 2, 1), (0x35, 1, 1), (0x3C, 2, 2), (0x3E, 2, 2)] t it w)
        (\<lambda>(e, vars, w1).
          if e \<noteq> S_OK then Ret (e, store, w1)
          else let mask = (ucast (hd (vars ! 3)) :: u16);
                   t0_deg = word_at (vars ! 1) OR push_bit 8 (mask AND 0x03);
                   t1_deg = word_at (vars ! 2) OR push_bit 8 (drop_bit 2 (mask AND 0x0C))
               in obind (calibrated 8 (uint t0_deg) (uint t1_deg)
                           (short_at (vars ! 4)) (short_at (vars ! 5)) (short_at (vars ! 0)))
                    (\<lambda>v. Ret (S_OK, Some v, w1))))"

text \<open>A positive error passes the test, with the caller's own value in \<^verbatim>\<open>*store\<close>.\<close>

definition hts221_get_fahrenheit ::
  "addr \<Rightarrow> int option \<Rightarrow> shared_node tab \<Rightarrow> artik_i2c_config tab \<Rightarrow> world
     \<Rightarrow> (artik_error \<times> int option \<times> world) outcome" where
  "hts221_get_fahrenheit hnd store t it w =
     (if store = None then Ret (E_BAD_ARGS, store, w)
      else obind (hts221_get_celsius hnd store t it w) (\<lambda>(e, c, w1).
        if e < 0 then Ret (e, c, w1)
        else obind (to_int (dbl (of_int (the c) * dbl 1.8))) (\<lambda>f.
          if f + 32 < 2147483648 then Ret (S_OK, Some (f + 32), w1) else Ub Overflow)))"

subsection \<open>K6DS3: acceleration and rotation\<close>

text \<open>The identification is read over the second and third byte of the buffer it is asked with.\<close>

definition k6ds3_initialize :: "artik_spi_config drv_init" where
  "k6ds3_initialize hnd st w =
     (let (e, bs, w1) = artik_spi_read_write hnd (Some [0x0F OR 0x80, 0, 0]) True 2 st w
      in if e \<noteq> S_OK then Ret (e, w1)
         else obind (deliver bs [0, 0]) (\<lambda>rx.
           if rx ! 1 \<noteq> 0x69 then Ret (E_NOT_SUPPORTED, w1)
           else let (e, w2) = artik_spi_write hnd (Some [0x10, 0x80, rx ! 1]) 2 st w1
                in if e \<noteq> S_OK then Ret (e, w2)
                   else Ret (artik_spi_write hnd (Some [0x11, 0x80, rx ! 1]) 2 st w2)))"

definition k6ds3_request :: "addr \<Rightarrow> addr \<Rightarrow> artik_spi_config \<Rightarrow> shared_node tab \<Rightarrow> artik_spi_config tab \<Rightarrow> world
    \<Rightarrow> (artik_error \<times> addr option \<times> shared_node tab \<times> artik_spi_config tab \<times> world) outcome" where
  "k6ds3_request = shared_request ''spi'' artik_spi_request spi_bus k6ds3_initialize"

definition k6ds3_release :: "(shared_node, artik_spi_config) drv_release" where
  "k6ds3_release = shared_release"

text \<open>Three bytes are exchanged although \<^verbatim>\<open>txdata\<close> has two: the third one sent is whatever
  follows it on the stack (\<open>junk\<close>).\<close>

definition k6ds3_get_data ::
  "u8 \<Rightarrow> addr \<Rightarrow> u8 \<Rightarrow> int option \<Rightarrow> shared_node tab \<Rightarrow> artik_spi_config tab \<Rightarrow> world
     \<Rightarrow> (artik_error \<times> int option \<times> world) outcome" where
  "k6ds3_get_data junk hnd reg res t st w =
     (case tab_get_by_handle hnd t of
        None \<Rightarrow> Ret (E_NOT_INITIALIZED, res, w)
      | Some (a, n) \<Rightarrow>
          let (e, bs, w1) = artik_spi_read_write (n_hdl n) (Some [reg OR 0x80, 0, junk]) True 3 st w
          in if e \<noteq> S_OK then Ret (e, res, w1)
             else obind (deliver bs [0, 0, 0]) (\<lambda>rx.
               if res = None then Ub NullDeref else Ret (S_OK, Some (short_of (rx ! 1) (rx ! 2)), w1)))"

type_synonym spi_reading =
  "u8 \<Rightarrow> addr \<Rightarrow> int option \<Rightarrow> shared_node tab \<Rightarrow> artik_spi_config tab \<Rightarrow> world
     \<Rightarrow> (artik_error \<times> int option \<times> world) outcome"

definition k6ds3_get_speed_x :: spi_reading where "k6ds3_get_speed_x junk hnd = k6ds3_get_data junk hnd 0x28"
definition k6ds3_get_speed_y :: spi_reading where "k6ds3_get_speed_y junk hnd = k6ds3_get_data junk hnd 0x2A"
definition k6ds3_get_speed_z :: spi_reading where "k6ds3_get_speed_z junk hnd = k6ds3_get_data junk hnd 0x2C"
definition k6ds3_get_gyro_pitch :: spi_reading where "k6ds3_get_gyro_pitch junk hnd = k6ds3_get_data junk hnd 0x22"
definition k6ds3_get_gyro_roll :: spi_reading where "k6ds3_get_gyro_roll junk hnd = k6ds3_get_data junk hnd 0x24"
definition k6ds3_get_gyro_yaw :: spi_reading where "k6ds3_get_gyro_yaw junk hnd = k6ds3_get_data junk hnd 0x26"

end
