(* ===== verification/SensorKit.thy ===== *)
theory SensorKit
  imports SensorBoard Gpio Adc
begin

section \<open>Sensors on a pin, and the Arduino kit\<close>

text \<open>
  The drivers whose release gives the pin back before it frees the node: the digital ones
  (S5712 hall sensor, flame and proximity of the Arduino kit) on the GPIO module, the analog ones
  (humidity, light, temperature) on the ADC module, and the accelerometer of the kit on I2C.
\<close>

subsection \<open>Digital pins\<close>

record pin_node =
  p_mod :: addr
  p_hdl :: addr
  p_pin :: u32

record level_node = pin_node +
  p_last :: int

record temperature_node = pin_node +
  degreeC :: int
  degreeF :: int

definition zero_pin :: pin_node where
  "zero_pin = \<lparr>p_mod = 0, p_hdl = 0, p_pin = 0\<rparr>"

definition zero_level :: level_node where
  "zero_level = \<lparr>p_mod = 0, p_hdl = 0, p_pin = 0, p_last = 0\<rparr>"

definition zero_temperature :: temperature_node where
  "zero_temperature = \<lparr>p_mod = 0, p_hdl = 0, p_pin = 0, degreeC = 0, degreeF = 0\<rparr>"

text \<open>The GPIO back end stores its private data in the caller's configuration, which for some sensors
  is a constant (\<open>const\<close>).\<close>

definition gpio_request_of :: "bool \<Rightarrow> artik_gpio_config fe_request" where
  "gpio_request_of const m config t w =
     obind (artik_gpio_request m config t w) (\<lambda>(r, h, config', t', w').
       if const \<and> gpio_user_data config' \<noteq> gpio_user_data config then Ub ReadOnly
       else Ret (r, h, config', t', w'))"

text \<open>\<open>add_pin\<close> is the common part of the requests; \<open>failed\<close> is what a refused request leaves in
  \<^verbatim>\<open>*handle\<close>.\<close>

definition add_pin :: "string \<Rightarrow> 'c fe_request \<Rightarrow> ('c \<Rightarrow> u32) \<Rightarrow> (addr \<Rightarrow> addr)
    \<Rightarrow> ('n pin_node_scheme, 'c) drv_release \<Rightarrow> 'n pin_node_scheme \<Rightarrow> ('n pin_node_scheme, 'c) drv_request" where
  "add_pin name request pin failed release zero m m2 config t pt w =
     (case tab_get_by_check (\<lambda>n. p_pin n = pin config) t of
        Some _ \<Rightarrow> Ret (E_BUSY, None, t, pt, w)
      | None \<Rightarrow>
          if m = 0 then Ret (E_NO_MEM, None, t, pt, w)
          else let t1 = tab_add t m zero;
                   (i, w1) = xc (ModRequest name) w
               in if retv i = 0
                  then obind (release m t1 pt w1) (\<lambda>(_, t2, pt1, w2). Ret (E_INVALID_VALUE, None, t2, pt1, w2))
                  else obind (request m2 config pt w1) (\<lambda>(r, h, _, pt1, w2).
                    let t2 = tab_set m (zero\<lparr>p_mod := nat (retv i), p_hdl := (case h of None \<Rightarrow> 0 | Some a \<Rightarrow> a),
                                           p_pin := pin config\<rparr>) t1
                    in if r \<noteq> S_OK
                       then obind (release m t2 pt1 w2) (\<lambda>(_, t3, pt2, w3). Ret (r, Some (failed m), t3, pt2, w3))
                       else Ret (S_OK, Some m, t2, pt1, w2)))"

definition pin_release :: "'c fe_release \<Rightarrow> ('n pin_node_scheme, 'c) drv_release" where
  "pin_release release hnd t pt w =
     (case tab_get_by_handle hnd t of
        None \<Rightarrow> Ret (S_OK, t, pt, w)
      | Some (a, n) \<Rightarrow>
          if p_mod n = 0 then Ret (S_OK, tab_delete_node a t, pt, w)
          else obind (release (p_hdl n) pt w) (\<lambda>(_, pt1, w1).
                 Ret (S_OK, tab_delete_node a t, pt1, xcu (ModRelease (p_mod n)) w1)))"

definition s5712ccdl1_release :: "(pin_node, artik_gpio_config) drv_release" where
  "s5712ccdl1_release = pin_release artik_gpio_release"

definition s5712ccdl1_request :: "bool \<Rightarrow> (pin_node, artik_gpio_config) drv_request" where
  "s5712ccdl1_request const =
     add_pin ''gpio'' (gpio_request_of const) gpio_id (\<lambda>m. 0) s5712ccdl1_release zero_pin"

definition flame_release :: "(level_node, artik_gpio_config) drv_release" where
  "flame_release = pin_release artik_gpio_release"

definition flame_request :: "bool \<Rightarrow> (level_node, artik_gpio_config) drv_request" where
  "flame_request const = add_pin ''gpio'' (gpio_request_of const) gpio_id (\<lambda>m. m) flame_release zero_level"

definition proximity_release :: "(level_node, artik_gpio_config) drv_release" where
  "proximity_release = pin_release artik_gpio_release"

definition proximity_request :: "bool \<Rightarrow> (level_node, artik_gpio_config) drv_request" where
  "proximity_request const = add_pin ''gpio'' (gpio_request_of const) gpio_id (\<lambda>m. m) proximity_release zero_level"

definition s5712ccdl1_get_detection ::
  "addr \<Rightarrow> int option \<Rightarrow> pin_node tab \<Rightarrow> artik_gpio_config tab \<Rightarrow> world \<Rightarrow> (artik_error \<times> int option \<times> world) outcome" where
  "s5712ccdl1_get_detection hnd store t gt w =
     (if store = None then Ret (E_BAD_ARGS, store, w)
      else case tab_get_by_handle hnd t of
        None \<Rightarrow> Ret (E_INVALID_VALUE, Some (-1), w)
      | Some (a, n) \<Rightarrow>
          obind (artik_gpio_read (p_hdl n) gt w) (\<lambda>(r, w1). Ret (S_OK, Some (if r \<noteq> 0 then 0 else 1), w1)))"

text \<open>The flame and the proximity sensor also keep the value in their node.\<close>

definition level_reading ::
  "addr \<Rightarrow> int option \<Rightarrow> level_node tab \<Rightarrow> artik_gpio_config tab \<Rightarrow> world
     \<Rightarrow> (artik_error \<times> int option \<times> level_node tab \<times> world) outcome" where
  "level_reading hnd store t gt w =
     (if store = None then Ret (E_BAD_ARGS, store, t, w)
      else case tab_get_by_handle hnd t of
        None \<Rightarrow> Ret (E_INVALID_VALUE, Some (-1), t, w)
      | Some (a, n) \<Rightarrow>
          obind (artik_gpio_read (p_hdl n) gt w) (\<lambda>(r, w1).
            let v = (if r = 0 then 1 else 0) in Ret (S_OK, Some v, tab_set a (n\<lparr>p_last := v\<rparr>) t, w1)))"

definition flame_get_signals where "flame_get_signals = level_reading"
definition proximity_get_presence where "proximity_get_presence = level_reading"

subsection \<open>Analog pins\<close>

definition humidity_release :: "(level_node, artik_adc_config) drv_release" where
  "humidity_release = pin_release artik_adc_release"

definition humidity_request :: "(level_node, artik_adc_config) drv_request" where
  "humidity_request = add_pin ''adc'' artik_adc_request adc_pin (\<lambda>m. m) humidity_release zero_level"

definition light_release :: "(level_node, artik_adc_config) drv_release" where
  "light_release = pin_release artik_adc_release"

definition light_request :: "(level_node, artik_adc_config) drv_request" where
  "light_request = add_pin ''adc'' artik_adc_request adc_pin (\<lambda>m. m) light_release zero_level"

text \<open>\<open>convert\<close> is the driver's formula; the value, which the node keeps, is only used for a positive
  reading.\<close>

definition analog_reading :: "(int \<Rightarrow> int outcome) \<Rightarrow>
   addr \<Rightarrow> int option \<Rightarrow> level_node tab \<Rightarrow> artik_adc_config tab \<Rightarrow> world
     \<Rightarrow> (artik_error \<times> int option \<times> level_node tab \<times> world) outcome" where
  "analog_reading convert hnd store t pt w =
     (if store = None then Ret (E_BAD_ARGS, store, t, w)
      else case tab_get_by_handle hnd t of
        None \<Rightarrow> Ret (E_INVALID_VALUE, Some (-1), t, w)
      | Some (a, n) \<Rightarrow>
          obind (artik_adc_get_value (p_hdl n) True pt w) (\<lambda>(e, v, w1).
            if e \<noteq> S_OK then Ret (e, store, t, w1)
            else let res = (case v of None \<Rightarrow> 0 | Some x \<Rightarrow> x)
                 in obind (convert res) (\<lambda>y.
                      let z = (if 0 < res then y else 0)
                      in Ret (S_OK, Some z, tab_set a (n\<lparr>p_last := z\<rparr>) t, w1))))"

definition wetness :: "int \<Rightarrow> int outcome" where
  "wetness res =
     to_int (flt (flt (flt (flt (flt (of_int res) * 5) / 1024) - flt 0.8) / flt 0.31))"

definition humidity_get_humidity where "humidity_get_humidity = analog_reading wetness"

definition light_get_intensity ::
  "addr \<Rightarrow> int option \<Rightarrow> level_node tab \<Rightarrow> artik_adc_config tab \<Rightarrow> world
     \<Rightarrow> (artik_error \<times> int option \<times> level_node tab \<times> world) outcome" where
  "light_get_intensity =
     analog_reading (\<lambda>res. if res < -2147482647 then Ub Overflow else Ret ((1000 - res) sdiv 10))"

definition temperature_release :: "(temperature_node, artik_adc_config) drv_release" where
  "temperature_release = pin_release artik_adc_release"

definition temperature_request :: "(temperature_node, artik_adc_config) drv_request" where
  "temperature_request =
     add_pin ''adc'' artik_adc_request adc_pin (\<lambda>m. m) temperature_release zero_temperature"

text \<open>The formulas of the thermometer; a Fahrenheit reading updates both members of the node.\<close>

definition centigrade :: "int \<Rightarrow> int outcome" where
  "centigrade res = to_int (flt (flt (flt (flt (flt (of_int res) * 5.5) / 1024) * flt 0.055) * 100))"

definition to_fahrenheit :: "int \<Rightarrow> int outcome" where
  "to_fahrenheit c = to_int (flt (flt (flt (flt (of_int c) * 9) / 5) + 32))"

definition temperature_reading :: "bool \<Rightarrow>
   addr \<Rightarrow> int option \<Rightarrow> temperature_node tab \<Rightarrow> artik_adc_config tab \<Rightarrow> world
     \<Rightarrow> (artik_error \<times> int option \<times> temperature_node tab \<times> world) outcome" where
  "temperature_reading fahrenheit hnd store t pt w =
     (if store = None then Ret (E_BAD_ARGS, store, t, w)
      else case tab_get_by_handle hnd t of
        None \<Rightarrow> Ret (E_INVALID_VALUE, Some (-1), t, w)
      | Some (a, n) \<Rightarrow>
          obind (artik_adc_get_value (p_hdl n) True pt w) (\<lambda>(e, v, w1).
            if e \<noteq> S_OK then Ret (e, store, t, w1)
            else let res = (case v of None \<Rightarrow> 0 | Some x \<Rightarrow> x)
                 in obind (centigrade res) (\<lambda>y.
                      let c = (if 0 < res then y else 0)
                      in if \<not> fahrenheit then Ret (S_OK, Some c, tab_set a (n\<lparr>degreeC := c\<rparr>) t, w1)
                         else obind (to_fahrenheit c) (\<lambda>y.
                                let f = (if 0 < c then y else 0)
                                in Ret (S_OK, Some f, tab_set a (n\<lparr>degreeC := c, degreeF := f\<rparr>) t, w1)))))"

definition temperature_get_celsius where "temperature_get_celsius = temperature_reading False"
definition temperature_get_fahrenheit where "temperature_get_fahrenheit = temperature_reading True"

subsection \<open>The accelerometer\<close>

record axes_node = sensor_node +
  speed_x :: int
  speed_y :: int
  speed_z :: int

definition zero_axes :: axes_node where
  "zero_axes = \<lparr>n_mod = 0, n_hdl = 0, n_id = 0, speed_x = 0, speed_y = 0, speed_z = 0\<rparr>"

definition accelerometer_release :: "(axes_node, artik_i2c_config) drv_release" where
  "accelerometer_release hnd t it w =
     (case tab_get_by_handle hnd t of
        None \<Rightarrow> Ret (S_OK, t, it, w)
      | Some (a, n) \<Rightarrow>
          if n_mod n = 0 then Ret (S_OK, tab_delete_node a t, it, w)
          else obind (artik_i2c_write_register (n_hdl n) 0x20 [0] 1 it w) (\<lambda>(_, w1).
               obind (artik_i2c_release (n_hdl n) it w1) (\<lambda>(_, it1, w2).
                 Ret (S_OK, tab_delete_node a t, it1, xcu (ModRelease (n_mod n)) w2))))"

text \<open>What a failed request ends with: its node is released, its handle stays written, and the last
  result is returned, which is success if only the identification was wrong.\<close>

definition accelerometer_abort ::
  "artik_error \<Rightarrow> addr \<Rightarrow> axes_node tab \<Rightarrow> artik_i2c_config tab \<Rightarrow> world
     \<Rightarrow> (artik_error \<times> addr option \<times> axes_node tab \<times> artik_i2c_config tab \<times> world) outcome" where
  "accelerometer_abort res m t it w =
     obind (accelerometer_release m t it w) (\<lambda>(_, t1, it1, w1). Ret (res, Some m, t1, it1, w1))"

definition accelerometer_request :: "(axes_node, artik_i2c_config) drv_request" where
  "accelerometer_request m m2 config t it w =
     (case tab_get_by_check (\<lambda>n. n_id n = i2c_id config) t of
        Some _ \<Rightarrow> Ret (E_BUSY, None, t, it, w)
      | None \<Rightarrow>
          if m = 0 then Ret (E_NO_MEM, None, t, it, w)
          else let t1 = tab_add t m zero_axes;
                   (i, w1) = xc (ModRequest ''i2c'') w
               in if retv i = 0
                  then obind (accelerometer_release m t1 it w1) (\<lambda>(_, t2, it1, w2).
                         Ret (E_INVALID_VALUE, None, t2, it1, w2))
                  else obind (artik_i2c_request m2 config it w1) (\<lambda>(res, h, _, it1, w2).
                    let n = zero_axes\<lparr>n_mod := nat (retv i), n_hdl := (case h of None \<Rightarrow> 0 | Some a \<Rightarrow> a)\<rparr>
                    in if res \<noteq> S_OK then accelerometer_abort res m (tab_set m n t1) it1 w2
                       else let t2 = tab_set m (n\<lparr>n_id := i2c_id config\<rparr>) t1
                            in obind (artik_i2c_read_register (n_hdl n) 0x0F 1 it1 w2) (\<lambda>(res, bs, w3).
                               obind (deliver bs [0]) (\<lambda>buffer.
                                 if res = S_OK \<and> hd buffer = 0x32
                                 then obind (artik_i2c_write_register (n_hdl n) 0x20 [0x27] 1 it1 w3)
                                        (\<lambda>(res, w4). Ret (res, Some m, t2, it1, w4))
                                 else accelerometer_abort res m t2 it1 w3))))"

text \<open>The two bytes of an axis are read one by one; a failed read counts as 0.\<close>

definition axis_reading :: "u32 \<Rightarrow> u32 \<Rightarrow> (int \<Rightarrow> axes_node \<Rightarrow> axes_node) \<Rightarrow>
   addr \<Rightarrow> int option \<Rightarrow> axes_node tab \<Rightarrow> artik_i2c_config tab \<Rightarrow> world
     \<Rightarrow> (artik_error \<times> int option \<times> axes_node tab \<times> world) outcome" where
  "axis_reading lo hi keep hnd store t it w =
     (if store = None then Ret (E_BAD_ARGS, store, t, w)
      else case tab_get_by_handle hnd t of
        None \<Rightarrow> Ret (E_INVALID_VALUE, Some (-1), t, w)
      | Some (a, n) \<Rightarrow>
          obind (artik_i2c_read_register (n_hdl n) lo 1 it w) (\<lambda>(e1, xs, w1).
          obind (deliver xs [0, 0]) (\<lambda>var.
          obind (artik_i2c_read_register (n_hdl n) hi 1 it w1) (\<lambda>(e2, ys, w2).
          obind (deliver ys (tl var)) (\<lambda>high.
            let v = (if e1 + e2 = S_OK then short_of (hd var) (hd high) else 0)
            in Ret (S_OK, Some v, tab_set a (keep v n) t, w2))))))"

definition accelerometer_get_speed_x where "accelerometer_get_speed_x = axis_reading 0x28 0x29 (\<lambda>v. speed_x_update (\<lambda>_. v))"
definition accelerometer_get_speed_y where "accelerometer_get_speed_y = axis_reading 0x2A 0x2B (\<lambda>v. speed_y_update (\<lambda>_. v))"
definition accelerometer_get_speed_z where "accelerometer_get_speed_z = axis_reading 0x2C 0x2D (\<lambda>v. speed_z_update (\<lambda>_. v))"

end
