(* ===== verification/Sensor.thy ===== *)
theory Sensor
  imports SensorKit
begin

section \<open>The sensor module (\<^verbatim>\<open>src/modules/sensor\<close>)\<close>

text \<open>
  The front end \<^verbatim>\<open>artik_sensor.c\<close>, the Linux back end \<^verbatim>\<open>linux_sensor.c\<close> and the
  tables of \<^verbatim>\<open>inc/sensor/platform\<close> that say which sensors a board has. A table holds
  untyped pointers: to the table of functions of a driver (here the driver's name) and to the
  configuration the driver is to be given (here a sum of the four kinds there are). What a driver
  finds behind a pointer it casts is tested.
\<close>

datatype artik_sensor_device_t =
    ARTIK_SENSOR_NONE
  | ARTIK_SENSOR_ACCELEROMETER
  | ARTIK_SENSOR_HUMIDITY
  | ARTIK_SENSOR_LIGHT
  | ARTIK_SENSOR_TEMPERATURE
  | ARTIK_SENSOR_PROXIMITY
  | ARTIK_SENSOR_FLAME
  | ARTIK_SENSOR_HALL
  | ARTIK_SENSOR_BAROMETER
  | ARTIK_SENSOR_GYRO

text \<open>The tables of functions, and the type each has.\<close>

datatype (plugins only: code size) artik_sensor_ops =
    Hts221_humidity | Hts221_temp | Lps25hbtr_barometer | Lps25hbtr_temperature | Cm3323e | S5712ccdl1
  | K6ds3_xl | K6ds3_gyro
  | Accelerometer_arduino | Humidity_arduino | Light_arduino | Temperature_arduino | Flame_arduino
  | Proximity_arduino

fun ops_type :: "artik_sensor_ops \<Rightarrow> artik_sensor_device_t" where
  "ops_type Hts221_humidity = ARTIK_SENSOR_HUMIDITY"
| "ops_type Hts221_temp = ARTIK_SENSOR_TEMPERATURE"
| "ops_type Lps25hbtr_barometer = ARTIK_SENSOR_BAROMETER"
| "ops_type Lps25hbtr_temperature = ARTIK_SENSOR_TEMPERATURE"
| "ops_type Cm3323e = ARTIK_SENSOR_LIGHT"
| "ops_type S5712ccdl1 = ARTIK_SENSOR_HALL"
| "ops_type K6ds3_xl = ARTIK_SENSOR_ACCELEROMETER"
| "ops_type K6ds3_gyro = ARTIK_SENSOR_GYRO"
| "ops_type Accelerometer_arduino = ARTIK_SENSOR_ACCELEROMETER"
| "ops_type Humidity_arduino = ARTIK_SENSOR_HUMIDITY"
| "ops_type Light_arduino = ARTIK_SENSOR_LIGHT"
| "ops_type Temperature_arduino = ARTIK_SENSOR_TEMPERATURE"
| "ops_type Flame_arduino = ARTIK_SENSOR_FLAME"
| "ops_type Proximity_arduino = ARTIK_SENSOR_PROXIMITY"

text \<open>What \<^verbatim>\<open>config\<close> points to; a GPIO configuration may be a constant.\<close>

datatype sensor_params =
    P_I2C artik_i2c_config
  | P_SPI artik_spi_config
  | P_ADC artik_adc_config
  | P_GPIO bool artik_gpio_config

record artik_sensor_config =
  sensor_type :: artik_sensor_device_t
  sensor_name :: string
  sensor_params :: "sensor_params option"
  data_user :: "artik_sensor_ops option"

subsection \<open>The tables of the boards\<close>

definition sensor_none :: artik_sensor_config where
  "sensor_none = \<lparr>sensor_type = ARTIK_SENSOR_NONE, sensor_name = [], sensor_params = None, data_user = None\<rparr>"

definition i2c_8bit :: "u32 \<Rightarrow> u8 \<Rightarrow> sensor_params option" where
  "i2c_8bit bus a = Some (P_I2C \<lparr>i2c_id = bus, frequency = 1000, wordsize = I2C_8BIT, address = a\<rparr>)"

definition adc_on :: "u32 \<Rightarrow> sensor_params option" where
  "adc_on pin = Some (P_ADC \<lparr>adc_pin = pin, adc_name = ''adc'', adc_user_data = None\<rparr>)"

definition gpio_in :: "bool \<Rightarrow> u32 \<Rightarrow> sensor_params option" where
  "gpio_in const pin = Some (P_GPIO const \<lparr>gpio_id = pin, gpio_name = ''gpio'', gpio_dir = GPIO_IN,
     gpio_edge = GPIO_EDGE_BOTH, initial_value = 0, gpio_user_data = None\<rparr>)"

definition spi_2_0 :: "sensor_params option" where
  "spi_2_0 = Some (P_SPI \<lparr>spi_bus = 2, spi_cs = 0, spi_mode = SPI_MODE0, bits_per_word = 8, max_speed = 1000000\<rparr>)"

definition artik_api_generic_sensors :: "artik_sensor_config list" where
  "artik_api_generic_sensors = [sensor_none]"

definition artik_api_a520_sensors :: "artik_sensor_config list" where
  "artik_api_a520_sensors =
    [\<lparr>sensor_type = ARTIK_SENSOR_ACCELEROMETER, sensor_name = ''accelerometer'', sensor_params = i2c_8bit 3 0x18,
      data_user = Some Accelerometer_arduino\<rparr>,
     \<lparr>sensor_type = ARTIK_SENSOR_HUMIDITY, sensor_name = ''humidity'', sensor_params = adc_on 1,
      data_user = Some Humidity_arduino\<rparr>,
     \<lparr>sensor_type = ARTIK_SENSOR_LIGHT, sensor_name = ''photoresistor'', sensor_params = adc_on 0,
      data_user = Some Light_arduino\<rparr>,
     \<lparr>sensor_type = ARTIK_SENSOR_TEMPERATURE, sensor_name = ''env_temperature'', sensor_params = adc_on 0,
      data_user = Some Temperature_arduino\<rparr>,
     \<lparr>sensor_type = ARTIK_SENSOR_PROXIMITY, sensor_name = ''proximity'', sensor_params = gpio_in False 121,
      data_user = Some Proximity_arduino\<rparr>,
     \<lparr>sensor_type = ARTIK_SENSOR_FLAME, sensor_name = ''infrared_flame'', sensor_params = gpio_in False 122,
      data_user = Some Flame_arduino\<rparr>,
     sensor_none]"

definition artik_api_a1020_sensors :: "artik_sensor_config list" where
  "artik_api_a1020_sensors =
    [\<lparr>sensor_type = ARTIK_SENSOR_ACCELEROMETER, sensor_name = ''accelerometer'', sensor_params = i2c_8bit 7 0x18,
      data_user = None\<rparr>,
     \<lparr>sensor_type = ARTIK_SENSOR_HUMIDITY, sensor_name = ''humidity'', sensor_params = adc_on 1, data_user = None\<rparr>,
     \<lparr>sensor_type = ARTIK_SENSOR_LIGHT, sensor_name = ''photoresistor'', sensor_params = adc_on 5, data_user = None\<rparr>,
     \<lparr>sensor_type = ARTIK_SENSOR_TEMPERATURE, sensor_name = ''env_temperature'', sensor_params = adc_on 2,
      data_user = None\<rparr>,
     \<lparr>sensor_type = ARTIK_SENSOR_PROXIMITY, sensor_name = ''proximity'', sensor_params = gpio_in False 8,
      data_user = None\<rparr>,
     \<lparr>sensor_type = ARTIK_SENSOR_FLAME, sensor_name = ''infrared_flame'', sensor_params = gpio_in False 9,
      data_user = None\<rparr>,
     sensor_none]"

definition artik_api_a710_sensors :: "artik_sensor_config list" where
  "artik_api_a710_sensors =
    [\<lparr>sensor_type = ARTIK_SENSOR_TEMPERATURE, sensor_name = ''hts221_temp'', sensor_params = i2c_8bit 1 0x5F,
      data_user = Some Hts221_temp\<rparr>,
     \<lparr>sensor_type = ARTIK_SENSOR_BAROMETER, sensor_name = ''barometer'', sensor_params = i2c_8bit 1 0x5D,
      data_user = Some Lps25hbtr_barometer\<rparr>,
     \<lparr>sensor_type = ARTIK_SENSOR_HUMIDITY, sensor_name = ''hts221_humidity'', sensor_params = i2c_8bit 1 0x5F,
      data_user = Some Hts221_humidity\<rparr>,
     \<lparr>sensor_type = ARTIK_SENSOR_LIGHT, sensor_name = ''light'', sensor_params = i2c_8bit 1 0x60,
      data_user = Some Cm3323e\<rparr>,
     \<lparr>sensor_type = ARTIK_SENSOR_HALL, sensor_name = ''hall'', sensor_params = gpio_in True 130,
      data_user = Some S5712ccdl1\<rparr>,
     \<lparr>sensor_type = ARTIK_SENSOR_ACCELEROMETER, sensor_name = ''k6ds3_xl'', sensor_params = spi_2_0,
      data_user = Some K6ds3_xl\<rparr>,
     \<lparr>sensor_type = ARTIK_SENSOR_GYRO, sensor_name = ''gyro'', sensor_params = spi_2_0,
      data_user = Some K6ds3_gyro\<rparr>,
     sensor_none]"

text \<open>The table of the A530 lists the same sensors on the same buses and pins.\<close>

definition artik_api_a530_sensors :: "artik_sensor_config list" where
  "artik_api_a530_sensors =
    [\<lparr>sensor_type = ARTIK_SENSOR_TEMPERATURE, sensor_name = ''hts221_temp'', sensor_params = i2c_8bit 1 0x5F,
      data_user = Some Hts221_temp\<rparr>,
     \<lparr>sensor_type = ARTIK_SENSOR_BAROMETER, sensor_name = ''barometer'', sensor_params = i2c_8bit 1 0x5D,
      data_user = Some Lps25hbtr_barometer\<rparr>,
     \<lparr>sensor_type = ARTIK_SENSOR_HUMIDITY, sensor_name = ''hts221_humidity'', sensor_params = i2c_8bit 1 0x5F,
      data_user = Some Hts221_humidity\<rparr>,
     \<lparr>sensor_type = ARTIK_SENSOR_LIGHT, sensor_name = ''light'', sensor_params = i2c_8bit 1 0x60,
      data_user = Some Cm3323e\<rparr>,
     \<lparr>sensor_type = ARTIK_SENSOR_HALL, sensor_name = ''hall'', sensor_params = gpio_in True 130,
      data_user = Some S5712ccdl1\<rparr>,
     \<lparr>sensor_type = ARTIK_SENSOR_ACCELEROMETER, sensor_name = ''k6ds3_xl'', sensor_params = spi_2_0,
      data_user = Some K6ds3_xl\<rparr>,
     \<lparr>sensor_type = ARTIK_SENSOR_GYRO, sensor_name = ''gyro'', sensor_params = spi_2_0,
      data_user = Some K6ds3_gyro\<rparr>,
     sensor_none]"

definition artik_api_sensors :: "artik_sensor_config list list" where
  "artik_api_sensors = [artik_api_generic_sensors, artik_api_a520_sensors, artik_api_a1020_sensors,
     artik_api_a710_sensors, artik_api_a530_sensors]"

subsection \<open>Looking a sensor up\<close>

text \<open>An entry of the table of the platform, which is asked for every time.\<close>

definition sensor_table :: "world \<Rightarrow> (artik_sensor_config list \<times> world) outcome" where
  "sensor_table w =
     (let (p, w1) = xc GetPlatform w
      in if 0 \<le> retv p \<and> retv p < int (length artik_api_sensors)
         then Ret (artik_api_sensors ! nat (retv p), w1) else Ub OutOfBounds)"

definition sensor_at :: "nat \<Rightarrow> world \<Rightarrow> (artik_sensor_config \<times> world) outcome" where
  "sensor_at pos w =
     obind (sensor_table w) (\<lambda>(t, w1). if pos < length t then Ret (t ! pos, w1) else Ub OutOfBounds)"

lemma obind_cong [fundef_cong]:
  "m = m' \<Longrightarrow> (\<And>x. m' = Ret x \<Longrightarrow> k x = k' x) \<Longrightarrow> obind m k = obind m' k'"
  by (cases m') auto

lemma sensor_at_bound: "sensor_at pos w = Ret x \<Longrightarrow> pos < 8"
  by (auto simp: sensor_at_def sensor_table_def obind_eq_Ret Let_def case_prod_beta artik_api_sensors_def
      artik_api_generic_sensors_def artik_api_a520_sensors_def artik_api_a1020_sensors_def
      artik_api_a710_sensors_def artik_api_a530_sensors_def nth_Cons split: if_splits nat.splits)

function sensor_get_loop ::
  "u32 \<Rightarrow> artik_sensor_device_t \<Rightarrow> nat \<Rightarrow> nat \<Rightarrow> world \<Rightarrow> (artik_sensor_config option \<times> world) outcome" where
  "sensor_get_loop nb type pos ref w =
     (if unat nb < ref then Ret (None, w)
      else obind (sensor_at pos w) (\<lambda>(c, w1).
        if sensor_type c = ARTIK_SENSOR_NONE then Ret (None, w1)
        else if ref < unat nb then
          obind (sensor_at pos w1) (\<lambda>(c1, w2).
            sensor_get_loop nb type (pos + 1) (if sensor_type c1 = type then ref + 1 else ref) w2)
        else
          obind (sensor_at pos w1) (\<lambda>(c1, w2).
            if sensor_type c1 = type then obind (sensor_at pos w2) (\<lambda>(c2, w3). Ret (Some c2, w3))
            else sensor_get_loop nb type (pos + 1) ref w2)))"
  by pat_completeness auto

termination
  by (relation "measure (\<lambda>(nb, type, pos, ref, w). 8 - pos)") (auto dest!: sensor_at_bound)

declare sensor_get_loop.simps [simp del]

definition os_sensor_get ::
  "u32 \<Rightarrow> artik_sensor_device_t \<Rightarrow> world \<Rightarrow> (artik_sensor_config option \<times> world) outcome" where
  "os_sensor_get nb type w = sensor_get_loop nb type 0 0 w"

definition artik_sensor_list where "artik_sensor_list = sensor_table"
definition artik_sensor_get_sensor where "artik_sensor_get_sensor = os_sensor_get"
definition artik_sensor_get_accelerometer_sensor where "artik_sensor_get_accelerometer_sensor nb = artik_sensor_get_sensor nb ARTIK_SENSOR_ACCELEROMETER"
definition artik_sensor_get_humidity_sensor where "artik_sensor_get_humidity_sensor nb = artik_sensor_get_sensor nb ARTIK_SENSOR_HUMIDITY"
definition artik_sensor_get_light_sensor where "artik_sensor_get_light_sensor nb = artik_sensor_get_sensor nb ARTIK_SENSOR_LIGHT"
definition artik_sensor_get_temperature_sensor where "artik_sensor_get_temperature_sensor nb = artik_sensor_get_sensor nb ARTIK_SENSOR_TEMPERATURE"
definition artik_sensor_get_proximity_sensor where "artik_sensor_get_proximity_sensor nb = artik_sensor_get_sensor nb ARTIK_SENSOR_PROXIMITY"
definition artik_sensor_get_flame_sensor where "artik_sensor_get_flame_sensor nb = artik_sensor_get_sensor nb ARTIK_SENSOR_FLAME"
definition artik_sensor_get_pressure_sensor where "artik_sensor_get_pressure_sensor nb = artik_sensor_get_sensor nb ARTIK_SENSOR_BAROMETER"
definition artik_sensor_get_gyro_sensor where "artik_sensor_get_gyro_sensor nb = artik_sensor_get_sensor nb ARTIK_SENSOR_GYRO"
definition artik_sensor_get_hall_sensor where "artik_sensor_get_hall_sensor nb = artik_sensor_get_sensor nb ARTIK_SENSOR_HALL"

subsection \<open>Requesting a sensor\<close>

record sensor_state =
  i2cs :: "artik_i2c_config tab"
  spis :: "artik_spi_config tab"
  gpios :: "artik_gpio_config tab"
  adcs :: "artik_adc_config tab"
  hts221_list :: "shared_node tab"
  k6ds3_list :: "shared_node tab"
  lps25hbtr_list :: "sensor_node tab"
  cm3323e_list :: "sensor_node tab"
  accelerometer_list :: "axes_node tab"
  hall_list :: "pin_node tab"
  flame_list :: "level_node tab"
  proximity_list :: "level_node tab"
  humidity_list :: "level_node tab"
  light_list :: "level_node tab"
  temperature_list :: "temperature_node tab"

type_synonym sensor_result = "(artik_error \<times> addr option \<times> sensor_state \<times> world) outcome"

text \<open>The configuration a driver casts its pointer to.\<close>

definition as_i2c :: "sensor_params option \<Rightarrow> artik_i2c_config outcome" where
  "as_i2c p = (case p of None \<Rightarrow> Ub NullDeref | Some (P_I2C c) \<Rightarrow> Ret c | _ \<Rightarrow> Ub TypeConfusion)"

definition as_spi :: "sensor_params option \<Rightarrow> artik_spi_config outcome" where
  "as_spi p = (case p of None \<Rightarrow> Ub NullDeref | Some (P_SPI c) \<Rightarrow> Ret c | _ \<Rightarrow> Ub TypeConfusion)"

definition as_adc :: "sensor_params option \<Rightarrow> artik_adc_config outcome" where
  "as_adc p = (case p of None \<Rightarrow> Ub NullDeref | Some (P_ADC c) \<Rightarrow> Ret c | _ \<Rightarrow> Ub TypeConfusion)"

definition as_gpio :: "sensor_params option \<Rightarrow> (bool \<times> artik_gpio_config) outcome" where
  "as_gpio p = (case p of None \<Rightarrow> Ub NullDeref | Some (P_GPIO k c) \<Rightarrow> Ret (k, c) | _ \<Rightarrow> Ub TypeConfusion)"

text \<open>\<open>run_driver\<close> runs a driver's request on its list and the table of its bus.\<close>

definition run_driver ::
  "('n, 'c) drv_request \<Rightarrow> (sensor_state \<Rightarrow> 'n tab) \<Rightarrow> ('n tab \<Rightarrow> sensor_state \<Rightarrow> sensor_state)
     \<Rightarrow> (sensor_state \<Rightarrow> 'c tab) \<Rightarrow> ('c tab \<Rightarrow> sensor_state \<Rightarrow> sensor_state)
     \<Rightarrow> addr \<Rightarrow> addr \<Rightarrow> 'c \<Rightarrow> sensor_state \<Rightarrow> world \<Rightarrow> sensor_result" where
  "run_driver req list put_list bus put_bus m m2 c s w =
     obind (req m m2 c (list s) (bus s) w) (\<lambda>(e, h, t, bt, w1). Ret (e, h, put_bus bt (put_list t s), w1))"

abbreviation "put_i2cs t \<equiv> i2cs_update (\<lambda>_. t)"
abbreviation "put_spis t \<equiv> spis_update (\<lambda>_. t)"
abbreviation "put_gpios t \<equiv> gpios_update (\<lambda>_. t)"
abbreviation "put_adcs t \<equiv> adcs_update (\<lambda>_. t)"

text \<open>The \<^verbatim>\<open>request\<close> of a table of functions.\<close>

definition ops_request ::
  "artik_sensor_ops \<Rightarrow> addr \<Rightarrow> addr \<Rightarrow> sensor_params option \<Rightarrow> sensor_state \<Rightarrow> world \<Rightarrow> sensor_result" where
  "ops_request ops m m2 p s w =
     (let hts = run_driver hts221_request hts221_list (\<lambda>t. hts221_list_update (\<lambda>_. t)) i2cs put_i2cs m m2;
          lps = run_driver lps25hbtr_request lps25hbtr_list (\<lambda>t. lps25hbtr_list_update (\<lambda>_. t)) i2cs put_i2cs m m2;
          k6 = run_driver k6ds3_request k6ds3_list (\<lambda>t. k6ds3_list_update (\<lambda>_. t)) spis put_spis m m2
      in case ops of
        Hts221_humidity \<Rightarrow> obind (as_i2c p) (\<lambda>c. hts c s w)
      | Hts221_temp \<Rightarrow> obind (as_i2c p) (\<lambda>c. hts c s w)
      | Lps25hbtr_barometer \<Rightarrow> obind (as_i2c p) (\<lambda>c. lps c s w)
      | Lps25hbtr_temperature \<Rightarrow> obind (as_i2c p) (\<lambda>c. lps c s w)
      | Cm3323e \<Rightarrow> obind (as_i2c p) (\<lambda>c.
          run_driver cm3323e_request cm3323e_list (\<lambda>t. cm3323e_list_update (\<lambda>_. t)) i2cs put_i2cs m m2 c s w)
      | S5712ccdl1 \<Rightarrow> obind (as_gpio p) (\<lambda>(k, c).
          run_driver (s5712ccdl1_request k) hall_list (\<lambda>t. hall_list_update (\<lambda>_. t)) gpios put_gpios m m2 c s w)
      | K6ds3_xl \<Rightarrow> obind (as_spi p) (\<lambda>c. k6 c s w)
      | K6ds3_gyro \<Rightarrow> obind (as_spi p) (\<lambda>c. k6 c s w)
      | Accelerometer_arduino \<Rightarrow> obind (as_i2c p) (\<lambda>c.
          run_driver accelerometer_request accelerometer_list (\<lambda>t. accelerometer_list_update (\<lambda>_. t))
            i2cs put_i2cs m m2 c s w)
      | Humidity_arduino \<Rightarrow> obind (as_adc p) (\<lambda>c.
          run_driver humidity_request humidity_list (\<lambda>t. humidity_list_update (\<lambda>_. t)) adcs put_adcs m m2 c s w)
      | Light_arduino \<Rightarrow> obind (as_adc p) (\<lambda>c.
          run_driver light_request light_list (\<lambda>t. light_list_update (\<lambda>_. t)) adcs put_adcs m m2 c s w)
      | Temperature_arduino \<Rightarrow> obind (as_adc p) (\<lambda>c.
          run_driver temperature_request temperature_list (\<lambda>t. temperature_list_update (\<lambda>_. t))
            adcs put_adcs m m2 c s w)
      | Flame_arduino \<Rightarrow> obind (as_gpio p) (\<lambda>(k, c).
          run_driver (flame_request k) flame_list (\<lambda>t. flame_list_update (\<lambda>_. t)) gpios put_gpios m m2 c s w)
      | Proximity_arduino \<Rightarrow> obind (as_gpio p) (\<lambda>(k, c).
          run_driver (proximity_request k) proximity_list (\<lambda>t. proximity_list_update (\<lambda>_. t))
            gpios put_gpios m m2 c s w))"

text \<open>The error, the handle and the table of functions written, if any. The back end casts the table to
  the type the configuration names.\<close>

definition os_sensor_request :: "addr \<Rightarrow> addr \<Rightarrow> artik_sensor_config option \<Rightarrow> sensor_state \<Rightarrow> world
    \<Rightarrow> (artik_error \<times> addr option \<times> artik_sensor_ops option \<times> sensor_state \<times> world) outcome" where
  "os_sensor_request m m2 config s w =
     (case config of
        None \<Rightarrow> Ret (E_BAD_ARGS, None, None, s, w)
      | Some c \<Rightarrow>
          (case data_user c of
             None \<Rightarrow> Ret (E_NOT_SUPPORTED, None, None, s, w)
           | Some ops \<Rightarrow>
               if sensor_type c = ARTIK_SENSOR_NONE then Ret (E_BAD_ARGS, None, Some ops, s, w)
               else if ops_type ops \<noteq> sensor_type c then Ub TypeConfusion
               else obind (ops_request ops m m2 (sensor_params c) s w)
                      (\<lambda>(e, h, s1, w1). Ret (e, h, Some ops, s1, w1))))"

definition artik_sensor_request where "artik_sensor_request = os_sensor_request"

end
