(* ===== verification/SensorMath.thy ===== *)
theory SensorMath
  imports SensorBoard
begin

section \<open>The arithmetic of the sensor drivers\<close>

text \<open>How far the floating-point computations of the drivers are from the exact ones: interpolation of HTS221,
  conversion to Fahrenheit.\<close>

subsection \<open>The interpolation of HTS221\<close>

text \<open>The line through the two points, without rounding.\<close>

definition exact_reading :: "int \<Rightarrow> int \<Rightarrow> int \<Rightarrow> int \<Rightarrow> int \<Rightarrow> int \<Rightarrow> real" where
  "exact_reading k v0 v1 x0 x1 x =
     (of_int (v1 - v0) * of_int (x - x0) / of_int (x1 - x0) + of_int v0) / of_int k"

text \<open>The value cut to an integer; a value that is an integer may come out one nearer to zero.\<close>

definition cut_of :: "real \<Rightarrow> int \<Rightarrow> bool" where
  "cut_of e y \<longleftrightarrow> y = trunc e \<or> e \<noteq> 0 \<and> of_int y = e - sgn e"

lemma fl_within:
  assumes "\<bar>x - y\<bar> \<le> e" and "\<bar>y\<bar> + e \<le> b" and "b / 2 ^ p \<le> d"
  shows "\<bar>fl p x - y\<bar> \<le> e + d"
proof -
  have "\<bar>x\<bar> \<le> b" using assms(1,2) by linarith
  then have "\<bar>x\<bar> / 2 ^ p \<le> b / 2 ^ p" by (intro divide_right_mono) auto
  with fl_error [of p x] assms(1,3) show ?thesis by linarith
qed

lemma trunc_near:
  fixes r e d :: real
  assumes "\<bar>r - e\<bar> < d" and "0 < d" and "d \<le> 1 / 2" and "e \<notin> \<int> \<Longrightarrow> d \<le> e - \<lfloor>e\<rfloor> \<and> e - \<lfloor>e\<rfloor> \<le> 1 - d"
  shows "cut_of e (trunc r)"
proof (cases "e \<in> \<int>")
  case True
  then obtain n where n: "e = of_int n" by (auto elim: Ints_cases)
  have "\<bar>r - of_int n\<bar> < 1 / 2" using assms n by linarith
  then have f: "\<lfloor>r\<rfloor> = (if r < of_int n then n - 1 else n)" "\<lfloor>- r\<rfloor> = (if of_int n < r then - n - 1 else - n)"
    by (auto simp: floor_eq_iff)
  consider "n = 0" | "0 < n" | "n < 0" by linarith
  then show ?thesis
  proof cases
    case 1
    with \<open>\<bar>r - of_int n\<bar> < 1 / 2\<close> f show ?thesis by (auto simp: cut_of_def n trunc_def split: if_splits)
  next
    case 2
    then have "1 \<le> (of_int n :: real)" by simp
    with \<open>\<bar>r - of_int n\<bar> < 1 / 2\<close> have "0 < r" by linarith
    with 2 f show ?thesis by (auto simp: cut_of_def n trunc_def)
  next
    case 3
    then have "of_int n \<le> (-1 :: real)" by simp
    with \<open>\<bar>r - of_int n\<bar> < 1 / 2\<close> have "r < 0" by linarith
    with 3 f show ?thesis by (auto simp: cut_of_def n trunc_def)
  qed
next
  case False
  with assms(4) have g: "d \<le> e - \<lfloor>e\<rfloor>" "e - \<lfloor>e\<rfloor> \<le> 1 - d" by auto
  then have "of_int \<lfloor>e\<rfloor> < r \<and> r < of_int \<lfloor>e\<rfloor> + 1 \<and> of_int \<lfloor>e\<rfloor> < e \<and> e < of_int \<lfloor>e\<rfloor> + 1"
    using assms(1,2) by linarith
  then have "\<lfloor>r\<rfloor> = \<lfloor>e\<rfloor>" "\<lfloor>- r\<rfloor> = - \<lfloor>e\<rfloor> - 1" "\<lfloor>- e\<rfloor> = - \<lfloor>e\<rfloor> - 1"
    unfolding floor_eq_iff using of_int_floor_le [of e] by (simp_all, linarith)
  then have r: "\<lfloor>r\<rfloor> = \<lfloor>e\<rfloor>" "\<lfloor>- r\<rfloor> = \<lfloor>- e\<rfloor>" by auto
  have "r < 0 \<longleftrightarrow> e < 0" using r(1) by (metis floor_less_zero)
  with r show ?thesis by (simp add: cut_of_def trunc_def)
qed

lemma frac_gap:
  fixes e :: real
  assumes "e = of_int a / of_int b" and "0 < b" and "e \<notin> \<int>"
  shows "1 / of_int b \<le> e - \<lfloor>e\<rfloor> \<and> e - \<lfloor>e\<rfloor> \<le> 1 - 1 / of_int b"
proof -
  have "a mod b \<noteq> 0"
  proof
    assume "a mod b = 0"
    then obtain c where "a = b * c" by auto
    with assms show False by simp
  qed
  with assms(2) have m: "1 \<le> a mod b" "a mod b \<le> b - 1"
    using pos_mod_sign [of b a] pos_mod_bound [of b a] by linarith+
  have "\<lfloor>e\<rfloor> = a div b" unfolding assms(1) by (rule floor_divide_of_int_eq)
  moreover have "(of_int a :: real) = of_int b * of_int (a div b) + of_int (a mod b)"
    by (simp flip: of_int_mult of_int_add)
  ultimately have "e - \<lfloor>e\<rfloor> = of_int (a mod b) / of_int b"
    using assms(2) unfolding assms(1) by (simp add: diff_divide_distrib add_divide_distrib)
  moreover have "(1 :: real) \<le> of_int (a mod b)" "of_int (a mod b) \<le> (of_int b - 1 :: real)"
    using m by linarith+
  ultimately show ?thesis using assms(2) by (simp add: field_simps)
qed

lemma calibrated_cut:
  assumes "x1 \<noteq> x0" and "\<bar>v1 - v0\<bar> \<le> 1023" "\<bar>v0\<bar> \<le> 1023" and "\<bar>x1 - x0\<bar> \<le> 65535" "\<bar>x - x0\<bar> \<le> 65535"
    and "0 < k" "k \<le> 8"
  shows "\<exists>y. calibrated k v0 v1 x0 x1 x = Ret y \<and> cut_of (exact_reading k v0 v1 x0 x1 x) y
    \<and> \<bar>y\<bar> \<le> 10 ^ 9"
proof -
  define N D X V K where defs: "N = (of_int (v1 - v0) :: real)" "D = (of_int (x1 - x0) :: real)"
    "X = (of_int (x - x0) :: real)" "V = (of_int v0 :: real)" "K = (of_int k :: real)"
  have N: "\<bar>N\<bar> \<le> 1023" and V: "\<bar>V\<bar> \<le> 1023" and X: "\<bar>X\<bar> \<le> 65535" and K: "1 \<le> K" "K \<le> 8"
    using assms by (simp_all add: defs flip: of_int_abs)
  have "1 \<le> \<bar>x1 - x0\<bar>" using assms(1) by linarith
  then have D: "1 \<le> \<bar>D\<bar>" "D \<noteq> 0" by (auto simp: defs simp flip: of_int_abs)
  define q where "q = dbl (N / D)"
  define d where "d = dbl (q * X)"
  define s where "s = dbl (d + V)"
  define r where "r = dbl (s / K)"
  define A where "A = N * X / D"
  have ND: "\<bar>N / D\<bar> \<le> 1023" using N D by (simp add: abs_divide divide_le_eq mult_right_mono order_trans [OF N])
  have A: "\<bar>A\<bar> \<le> 2 ^ 26"
  proof -
    have "\<bar>A\<bar> = \<bar>N / D\<bar> * \<bar>X\<bar>" by (simp add: A_def abs_mult)
    also have "\<dots> \<le> 1023 * 65535" using ND X by (intro mult_mono) auto
    finally show ?thesis by simp
  qed
  have "\<bar>q - N / D\<bar> \<le> 1023 / 2 ^ 53"
    using fl_within [of "N / D" "N / D" 0 1023 53 "1023 / 2 ^ 53"] ND unfolding q_def by simp
  then have "\<bar>q - N / D\<bar> * \<bar>X\<bar> \<le> 1023 / 2 ^ 53 * 65535" using X by (intro mult_mono) auto
  moreover have "q * X - A = (q - N / D) * X" by (simp add: A_def field_simps)
  ultimately have "\<bar>q * X - A\<bar> \<le> 2 ^ 26 / 2 ^ 53" by (simp add: abs_mult)
  from fl_within [OF this, of "2 ^ 27" 53 "2 ^ 27 / 2 ^ 53"] A have "\<bar>d - A\<bar> \<le> 2 ^ 28 / 2 ^ 53"
    unfolding d_def by simp
  then have "\<bar>(d + V) - (A + V)\<bar> \<le> 2 ^ 28 / 2 ^ 53" by simp
  moreover have "\<bar>A + V\<bar> \<le> 2 ^ 26 + 1023" using A V by linarith
  ultimately have s: "\<bar>s - (A + V)\<bar> \<le> 2 ^ 29 / 2 ^ 53"
    using fl_within [of "d + V" "A + V" "2 ^ 28 / 2 ^ 53" "2 ^ 27" 53 "2 ^ 27 / 2 ^ 53"] unfolding s_def by simp
  have "\<bar>s / K - (A + V) / K\<bar> = \<bar>s - (A + V)\<bar> / K" using K by (simp add: flip: diff_divide_distrib)
  also have "\<dots> \<le> \<bar>s - (A + V)\<bar>" using K by (simp add: divide_le_eq mult_le_cancel_left1)
  finally have sK: "\<bar>s / K - (A + V) / K\<bar> \<le> 2 ^ 29 / 2 ^ 53" using s by linarith
  have E: "\<bar>(A + V) / K\<bar> \<le> 2 ^ 26 + 1023"
  proof -
    have "\<bar>(A + V) / K\<bar> \<le> \<bar>A + V\<bar>" using K by (simp add: abs_divide divide_le_eq mult_le_cancel_left1)
    then show ?thesis using A V by linarith
  qed
  from fl_within [OF sK, of "2 ^ 27" 53 "2 ^ 27 / 2 ^ 53"] E have r: "\<bar>r - (A + V) / K\<bar> \<le> 2 ^ 30 / 2 ^ 53"
    unfolding r_def by simp
  define e where "e = exact_reading k v0 v1 x0 x1 x"
  have e: "e = (A + V) / K" by (simp add: e_def exact_reading_def A_def defs)
  define b where "b = k * \<bar>x1 - x0\<bar>"
  have b: "0 < b" "b \<le> 8 * 65535"
    using assms(1,4,6,7) mult_mono [of k 8 "\<bar>x1 - x0\<bar>" 65535] by (auto simp: b_def)
  have "e = of_int (sgn (x1 - x0) * ((v1 - v0) * (x - x0) + v0 * (x1 - x0))) / of_int b"
  proof -
    have "e = (N * X + V * D) / (K * D)" using D K by (simp add: e A_def field_simps)
    also have "\<dots> = (if 0 < x1 - x0 then N * X + V * D else - (N * X + V * D)) / (K * \<bar>D\<bar>)"
    proof (cases "0 < x1 - x0")
      case False
      then have "\<bar>D\<bar> = - D" by (simp add: defs(2))
      with False show ?thesis by (simp only: mult_minus_right minus_divide_right [symmetric] minus_divide_left [symmetric] minus_minus if_False)
    qed (simp add: defs(2))
    finally show ?thesis using assms(1) by (auto simp: defs b_def sgn_if)
  qed
  note gap = frac_gap [OF this b(1)]
  have "1 / (8 * 65535) \<le> (1 :: real) / of_int b" using b by (intro divide_left_mono) auto
  with gap have "e \<notin> \<int> \<Longrightarrow> 1 / (8 * 65535) \<le> e - \<lfloor>e\<rfloor> \<and> e - \<lfloor>e\<rfloor> \<le> 1 - 1 / (8 * 65535)" by force
  with r e have c: "cut_of e (trunc r)" by (intro trunc_near [where d = "1 / (8 * 65535)"]) auto
  have eq: "calibrated k v0 v1 x0 x1 x = to_int r"
    using assms(1) by (simp add: calibrated_def Let_def r_def s_def d_def q_def defs)
  have "\<bar>r - e\<bar> \<le> 1" "\<bar>e\<bar> \<le> 134217728" using r [folded e] E [folded e] by simp_all
  then have "\<bar>r\<bar> < 134217730" by linarith
  then have "-2147483649 < r" "r < 2147483648" "\<bar>trunc r\<bar> \<le> 134217730"
    by (simp_all add: trunc_def, linarith+)
  with eq c show ?thesis by (auto simp: to_int_def e_def)
qed

subsection \<open>Fahrenheit\<close>

lemma dbl_1_8: "dbl 1.8 = 8106479329266893 / 4503599627370496"
  by (simp add: fl_def Let_def binade_def round_even_def floorlog_def)

text \<open>Multiplying by the \<^verbatim>\<open>double\<close> 1.8 and cutting is the exact product cut to an integer.\<close>

lemma times_1_8_pos:
  assumes "0 < n" and "n \<le> 10 ^ 9"
  shows "trunc (dbl (of_int n * dbl 1.8)) = 9 * n div 5"
proof -
  define x where "x = (of_int n :: real) * dbl 1.8"
  have n: "1 \<le> (of_int n :: real)" "(of_int n :: real) \<le> 10 ^ 9"
    using assms by simp_all
  define m where "m = 9 * n div 5"
  have m: "5 * m \<le> 9 * n" "9 * n \<le> 5 * m + 4" "0 < m" using assms(1) by (auto simp: m_def)
  then have mr: "5 * (of_int m :: real) \<le> 9 * of_int n" "9 * (of_int n :: real) \<le> 5 * of_int m + 4" by linarith+
  have x: "9 / 5 * of_int n \<le> x" "x \<le> 9 / 5 * of_int n + 1 / 2 ^ 24"
    using n unfolding x_def dbl_1_8 by (simp_all add: field_simps)
  have lo: "of_int m \<le> dbl x" using x n mr m(3) by (intro fl_ge_int) auto
  have "\<bar>dbl x - 9 / 5 * of_int n\<bar> \<le> 1 / 2 ^ 24 + 1 / 2 ^ 20"
    using x n by (intro fl_within [of x _ "1 / 2 ^ 24" "2 ^ 33"]) auto
  then have "\<bar>dbl x - 9 / 5 * of_int n\<bar> \<le> 1 / 10" by simp
  with mr have "dbl x < of_int m + 1" by linarith
  with lo m(3) have "trunc (dbl x) = m" by (intro trunc_eq) auto
  then show ?thesis unfolding x_def m_def .
qed

lemma times_1_8:
  assumes "\<bar>n\<bar> \<le> 10 ^ 9"
  shows "trunc (dbl (of_int n * dbl 1.8)) = (9 * n) sdiv 5"
proof -
  consider "n = 0" | "0 < n" | "0 < - n" by linarith
  then show ?thesis
  proof cases
    case 2
    with times_1_8_pos assms show ?thesis by (simp add: signed_divide_int_def)
  next
    case 3
    with times_1_8_pos [of "- n"] assms have "trunc (- dbl (of_int n * dbl 1.8)) = 9 * (- n) div 5"
      by (simp flip: fl_minus)
    with 3 show ?thesis by (simp add: signed_divide_int_def trunc_minus)
  qed (simp add: trunc_def)
qed

lemma to_int_times:
  assumes "\<bar>n\<bar> \<le> 10 ^ 9"
  shows "to_int (dbl (of_int n * dbl 1.8)) = Ret ((9 * n) sdiv 5) \<and> \<bar>(9 * n) sdiv 5\<bar> < 2 * 10 ^ 9"
proof -
  define z where "z = dbl 1.8"
  have "\<bar>of_int n :: real\<bar> \<le> 10 ^ 9"
    using assms by (metis of_int_abs of_int_le_numeral_power_cancel_iff)
  then have n: "\<bar>9 / 5 * of_int n :: real\<bar> \<le> 1800000000" by (simp add: abs_mult)
  have "z = 9 / 5 + 1 / 22517998136852480" using dbl_1_8 by (simp add: z_def)
  then have "of_int n * z - 9 / 5 * of_int n = of_int n * (1 / 22517998136852480)"
    by (simp add: distrib_left)
  moreover have "\<bar>of_int n * (1 / 22517998136852480) :: real\<bar> \<le> 1 / 2 ^ 20" using n by (simp add: abs_mult)
  ultimately have "\<bar>of_int n * z - 9 / 5 * of_int n\<bar> \<le> 1 / 2 ^ 20" by (simp only:)
  then have "\<bar>dbl (of_int n * z) - 9 / 5 * of_int n\<bar> \<le> 1 / 2 ^ 20 + 1 / 2 ^ 20"
    using n by (intro fl_within [where b = "2 ^ 33"]) auto
  then have "\<bar>dbl (of_int n * z) - 9 / 5 * of_int n\<bar> \<le> 1" by (rule order_trans) simp
  then have "\<bar>dbl (of_int n * z)\<bar> \<le> 1800000001" using n by linarith
  then have "-2147483649 < dbl (of_int n * z)" "dbl (of_int n * z) < 2147483648"
    "\<bar>trunc (dbl (of_int n * z))\<bar> < 2 * 10 ^ 9"
    by (simp_all add: trunc_def, linarith+)
  with times_1_8 [OF assms, folded z_def] show ?thesis unfolding z_def [symmetric] by (simp add: to_int_def)
qed

end
