(* ===== verification/SensorReadings.thy ===== *)
theory SensorReadings
  imports SensorMath
begin

section \<open>What the sensors of the board read\<close>

text \<open>The readings of HTS221 and LPS25H as functions of the registers of a device that answers.\<close>

subsection \<open>Registers\<close>

text \<open>What the data sheets say of the devices: they answer at their address, give their identification
  and the other registers, and count the register up within a transfer if bit 7 of the register is
  set.\<close>

definition i2c_registers :: "world \<Rightarrow> artik_i2c_config \<Rightarrow> (u8 \<Rightarrow> u8) \<Rightarrow> bool" where
  "i2c_registers w c regs \<longleftrightarrow> (\<forall>h.
      0 \<le> retv (env w h (Open (i2c_devname c) O_RDWR))
    \<and> (\<forall>fd. 0 \<le> retv (env w h (Ioctl fd ''I2C_SLAVE'' [address c])))
    \<and> (\<forall>n. retv (env w h (Malloc n)) \<noteq> 0)
    \<and> (\<forall>fd reg n. let a = env w h (I2cRdwr fd [(ucast (address c), 0, 1, [reg]), (ucast (address c), I2C_M_RD, n, [])])
         in 0 \<le> retv a \<and> outb a = map (\<lambda>k. regs ((reg AND 0x7F) + of_nat k)) [0..<unat n]))"

lemma i2c_registers_read:
  assumes "i2c_registers w c regs" and "env w' = env w" and "wordsize c = I2C_8BIT"
    and "tab_get_by_handle hnd it = Some (a, c)" and "n < 65536"
  shows "\<exists>w''. artik_i2c_read_register hnd reg n it w'
      = Ret (S_OK, map (\<lambda>k. regs ((ucast reg AND 0x7F) + of_nat k)) [0..<n], w'') \<and> env w'' = env w"
proof -
  have r: "reg_bytes c reg = [ucast reg]"
    using assms(3) by (simp add: reg_bytes_def le32_def)
  have n: "unat (word_of_nat n :: u16) = n" using assms(5) by (simp add: unat_of_nat)
  have d: "\<And>h. (retv (env w h (Open (i2c_devname c) O_RDWR)) < 0) = False"
    "\<And>h fd. (0 \<le> retv (env w h (Ioctl fd ''I2C_SLAVE'' [address c]))) = True"
    "\<And>h n. (retv (env w h (Malloc n)) = 0) = False"
    "\<And>h fd reg n. (retv (env w h (I2cRdwr fd [(ucast (address c), 0, 1, [reg]),
        (ucast (address c), I2C_M_RD, n, [])])) < 0) = False"
    "\<And>h fd reg n. outb (env w h (I2cRdwr fd [(ucast (address c), 0, 1, [reg]),
        (ucast (address c), I2C_M_RD, n, [])])) = map (\<lambda>k. regs ((reg AND 0x7F) + of_nat k)) [0..<unat n]"
    using assms(1) by (auto simp: i2c_registers_def Let_def not_less)
  show ?thesis
    using assms(2-4) by (simp add: artik_i2c_read_register_def os_i2c_read_register_def i2c_open_def
        Let_def case_prod_beta r n d)
qed

lemma short_of_at: "short_at [lo, hi] = short_of lo hi"
  by simp

lemma short_of_bounds: "-32768 \<le> short_of lo hi \<and> short_of lo hi \<le> 32767"
  using sint_greater_eq [of "word_of_nat (unat lo + 256 * unat hi) :: u16"]
    sint_less [of "word_of_nat (unat lo + 256 * unat hi) :: u16"]
  by (simp add: short_of_def)

text \<open>What \<open>hts221_reads\<close> leaves in a variable.\<close>

fun hts221_var :: "(u8 \<Rightarrow> u8) \<Rightarrow> u32 \<times> nat \<times> nat \<Rightarrow> bytes" where
  "hts221_var regs (reg, room, len) =
     map (\<lambda>k. regs ((ucast (if 1 < len then reg OR 0x80 else reg) AND 0x7F) + of_nat k)) [0..<len]
       @ replicate (room - len) 0"

lemma hts221_reads_registers:
  assumes "i2c_registers w c regs" and "wordsize c = I2C_8BIT"
    and "tab_get_by_handle hnd t = Some (a, n)" and "tab_get_by_handle (n_hdl n) it = Some (b, c)"
  shows "\<forall>(reg, room, len)\<in>set rs. len \<le> room \<and> len < 65536 \<Longrightarrow> env w' = env w \<Longrightarrow>
    \<exists>w''. hts221_reads hnd rs t it w' = Ret (S_OK, map (hts221_var regs) rs, w'') \<and> env w'' = env w"
proof (induction rs arbitrary: w')
  case (Cons r rs)
  obtain reg room len where r: "r = (reg, room, len)" by (cases r)
  with Cons.prems have len: "len \<le> room" "len < 65536" by auto
  let ?reg = "if 1 < len then reg OR 0x80 else reg"
  obtain w1 where 1: "artik_i2c_read_register (n_hdl n) ?reg len it w'
      = Ret (S_OK, map (\<lambda>k. regs ((ucast ?reg AND 0x7F) + of_nat k)) [0..<len], w1)" "env w1 = env w"
    using i2c_registers_read [OF assms(1) Cons.prems(2) assms(2,4) len(2)] by blast
  obtain w2 where 2: "hts221_reads hnd rs t it w1 = Ret (S_OK, map (hts221_var regs) rs, w2)" "env w2 = env w"
    using Cons.IH [OF _ 1(2)] Cons.prems(1) by auto
  have "hts221_get_data hnd reg len t it w'
      = Ret (S_OK, map (\<lambda>k. regs ((ucast ?reg AND 0x7F) + of_nat k)) [0..<len], w1)"
    using assms(3) 1(1) by (simp add: hts221_get_data_def)
  then show ?case
    using len(1) 2 unfolding r by (simp add: deliver_def)
qed simp

text \<open>The calibration of a device, as its registers hold it.\<close>

definition humidity_of :: "(u8 \<Rightarrow> u8) \<Rightarrow> real" where
  "humidity_of regs = exact_reading 2 (uint (regs 0x30)) (uint (regs 0x31))
     (short_of (regs 0x36) (regs 0x37)) (short_of (regs 0x3A) (regs 0x3B)) (short_of (regs 0x28) (regs 0x29))"

definition celsius_of :: "(u8 \<Rightarrow> u8) \<Rightarrow> real" where
  "celsius_of regs = exact_reading 8
     (uint (regs 0x32) + 256 * (uint (regs 0x35) mod 4)) (uint (regs 0x33) + 256 * (uint (regs 0x35) div 4 mod 4))
     (short_of (regs 0x3C) (regs 0x3D)) (short_of (regs 0x3E) (regs 0x3F)) (short_of (regs 0x2A) (regs 0x2B))"

lemma or_push_bit:
  assumes "0 \<le> x" and "x < (2 ^ n :: int)"
  shows "x OR push_bit n y = x + 2 ^ n * y"
proof -
  have x: "take_bit n x = x" using assms by (simp add: take_bit_int_eq_self_iff)
  have "x AND push_bit n y = 0"
    by (subst x [symmetric]) (auto intro!: bit_eqI simp: bit_simps)
  then show ?thesis
    by (simp add: disjunctive_add_eq_or [symmetric] push_bit_eq_mult)
qed

lemma uint_byte_or:
  fixes b :: u8 and v :: u16
  assumes "uint v < 4"
  shows "uint (ucast b OR push_bit 8 v :: u16) = uint b + 256 * uint v"
proof -
  have "uint (push_bit 8 v) = push_bit 8 (uint v)"
    unfolding unsigned_push_bit_eq using assms by (simp add: push_bit_eq_mult take_bit_int_eq_self_iff)
  moreover have "uint (ucast b :: u16) = uint b" by (simp add: uint_up_ucast is_up)
  moreover have "uint b < 256" using uint_lt2p [of b] by simp
  ultimately show ?thesis by (simp add: unsigned_or_eq or_push_bit)
qed

lemma low_two:
  fixes m :: u8
  shows "uint ((ucast m :: u16) AND 3) = uint m mod 4"
    "uint (drop_bit 2 ((ucast m :: u16) AND 12)) = uint m div 4 mod 4"
proof -
  have m: "uint (ucast m :: u16) = uint m" by (simp add: uint_up_ucast is_up)
  have three: "x AND 3 = take_bit 2 (x :: u16)" for x
    by (simp add: take_bit_eq_mask mask_eq_exp_minus_1)
  show "uint ((ucast m :: u16) AND 3) = uint m mod 4"
    unfolding three unsigned_take_bit_eq m by (simp add: take_bit_eq_mod)
  have "drop_bit 2 ((ucast m :: u16) AND 12) = drop_bit 2 (ucast m) AND 3" by simp
  then show "uint (drop_bit 2 ((ucast m :: u16) AND 12)) = uint m div 4 mod 4"
    unfolding three by (simp only: unsigned_take_bit_eq unsigned_drop_bit_eq m) (use uint_lt2p [of m] in \<open>simp add: take_bit_eq_mod drop_bit_eq_div\<close>)
qed

lemma word_at_low: "word_at [b, 0] = ucast b"
  by (simp add: word_at_def short_of_def)

lemma sint_short: "\<bar>short_of a b - short_of c d\<bar> \<le> 65535"
  using short_of_bounds [of a b] short_of_bounds [of c d] by linarith

lemma hts221_humidity_reading:
  assumes "i2c_registers w c regs" and "wordsize c = I2C_8BIT"
    and "tab_get_by_handle hnd t = Some (a, n)" and "tab_get_by_handle (n_hdl n) it = Some (b, c)"
  shows "if short_of (regs 0x3A) (regs 0x3B) = short_of (regs 0x36) (regs 0x37)
         then hts221_get_humidity hnd (Some v) t it w = Ub Overflow
         else \<exists>y w'. hts221_get_humidity hnd (Some v) t it w = Ret (S_OK, Some y, w') \<and> cut_of (humidity_of regs) y"
proof -
  note reads = hts221_reads_registers [OF assms]
  note u = uint_lt2p [where 'a = 8, simplified]
  have two: "[0..<2] = [0, 1 :: nat]" by (simp add: upt_rec)
  let ?h = "[(0x28, 2, 2), (0x30, 2, 1), (0x31, 2, 1), (0x36, 2, 2), (0x3A, 2, 2)]"
  obtain w1 where h: "hts221_reads hnd ?h t it w = Ret (S_OK, map (hts221_var regs) ?h, w1)"
    using reads [of ?h w] by auto
  have hv: "map (hts221_var regs) ?h = [[regs 0x28, regs 0x29], [regs 0x30, 0], [regs 0x31, 0],
      [regs 0x36, regs 0x37], [regs 0x3A, regs 0x3B]]" by (simp add: two)
  let ?x0 = "short_of (regs 0x36) (regs 0x37)" and ?x1 = "short_of (regs 0x3A) (regs 0x3B)"
  have H: "hts221_get_humidity hnd (Some v) t it w
      = obind (calibrated 2 (uint (regs 0x30)) (uint (regs 0x31)) ?x0 ?x1 (short_of (regs 0x28) (regs 0x29)))
          (\<lambda>v. Ret (S_OK, Some v, w1))"
    unfolding hts221_get_humidity_def h hv by (simp add: word_at_low uint_up_ucast is_up)
  show ?thesis
  proof (cases "?x1 = ?x0")
    case False
    have "\<bar>uint (regs 0x31) - uint (regs 0x30)\<bar> \<le> 1023" "\<bar>uint (regs 0x30)\<bar> \<le> 1023"
      using u [of "regs 0x30"] u [of "regs 0x31"] uint_ge_0 [of "regs 0x30"] uint_ge_0 [of "regs 0x31"] by linarith+
    from calibrated_cut [OF False this sint_short sint_short [of "regs 0x28" "regs 0x29"], of 2]
    obtain y where "hts221_get_humidity hnd (Some v) t it w = Ret (S_OK, Some y, w1)" "cut_of (humidity_of regs) y"
      unfolding H humidity_of_def by fastforce
    with False show ?thesis by auto
  qed (simp add: H calibrated_def)
qed

lemma hts221_celsius_reading:
  assumes "i2c_registers w c regs" and "wordsize c = I2C_8BIT"
    and "tab_get_by_handle hnd t = Some (a, n)" and "tab_get_by_handle (n_hdl n) it = Some (b, c)"
  shows "if short_of (regs 0x3E) (regs 0x3F) = short_of (regs 0x3C) (regs 0x3D)
         then hts221_get_celsius hnd (Some v) t it w = Ub Overflow
         else \<exists>y w'. hts221_get_celsius hnd (Some v) t it w = Ret (S_OK, Some y, w') \<and> cut_of (celsius_of regs) y
           \<and> hts221_get_fahrenheit hnd (Some v) t it w = Ret (S_OK, Some ((9 * y) sdiv 5 + 32), w')"
proof -
  note reads = hts221_reads_registers [OF assms]
  note u = uint_lt2p [where 'a = 8, simplified]
  have two: "[0..<2] = [0, 1 :: nat]" by (simp add: upt_rec)
  let ?c = "[(0x2A, 2, 2), (0x32, 2, 1), (0x33, 2, 1), (0x35, 1, 1), (0x3C, 2, 2), (0x3E, 2, 2)]"
  obtain w2 where c: "hts221_reads hnd ?c t it w = Ret (S_OK, map (hts221_var regs) ?c, w2)"
    using reads [of ?c w] by auto
  have cv: "map (hts221_var regs) ?c = [[regs 0x2A, regs 0x2B], [regs 0x32, 0], [regs 0x33, 0], [regs 0x35],
      [regs 0x3C, regs 0x3D], [regs 0x3E, regs 0x3F]]" by (simp add: two)
  let ?y0 = "short_of (regs 0x3C) (regs 0x3D)" and ?y1 = "short_of (regs 0x3E) (regs 0x3F)"
  let ?v0 = "uint (regs 0x32) + 256 * (uint (regs 0x35) mod 4)"
    and ?v1 = "uint (regs 0x33) + 256 * (uint (regs 0x35) div 4 mod 4)"
  have "uint (ucast (regs 0x32) OR push_bit 8 ((ucast (regs 0x35) :: u16) AND 3)) = ?v0"
    "uint (ucast (regs 0x33) OR push_bit 8 (drop_bit 2 ((ucast (regs 0x35) :: u16) AND 12))) = ?v1"
    by (subst uint_byte_or; simp only: low_two)+
  then have C: "hts221_get_celsius hnd (Some v) t it w
      = obind (calibrated 8 ?v0 ?v1 ?y0 ?y1 (short_of (regs 0x2A) (regs 0x2B))) (\<lambda>v. Ret (S_OK, Some v, w2))"
    unfolding hts221_get_celsius_def c cv by (simp add: word_at_low Let_def)
  show ?thesis
  proof (cases "?y1 = ?y0")
    case False
    have "\<bar>?v1 - ?v0\<bar> \<le> 1023" "\<bar>?v0\<bar> \<le> 1023"
      using u [of "regs 0x32"] u [of "regs 0x33"] uint_ge_0 [of "regs 0x32"] uint_ge_0 [of "regs 0x33"]
        pos_mod_bound [of 4 "uint (regs 0x35)"] pos_mod_bound [of 4 "uint (regs 0x35) div 4"]
        pos_mod_sign [of 4 "uint (regs 0x35)"] pos_mod_sign [of 4 "uint (regs 0x35) div 4"] by linarith+
    from calibrated_cut [OF False this sint_short sint_short [of "regs 0x2A" "regs 0x2B"], of 8]
    obtain y where y: "hts221_get_celsius hnd (Some v) t it w = Ret (S_OK, Some y, w2)"
      "cut_of (celsius_of regs) y" "\<bar>y\<bar> \<le> 10 ^ 9"
      unfolding C celsius_of_def by fastforce
    then have "hts221_get_fahrenheit hnd (Some v) t it w = Ret (S_OK, Some ((9 * y) sdiv 5 + 32), w2)"
      using to_int_times [OF y(3)] by (auto simp: hts221_get_fahrenheit_def err_simps abs_less_iff)
    with y False show ?thesis by auto
  qed (simp add: C calibrated_def)
qed

text \<open>C26. On a device that answers, the humidity and both temperatures are the line through the two
  calibration points of the device's own registers, cut to an integer (the floating-point roundings
  can only turn an exact integer into its neighbour nearer to zero); the Fahrenheit value is computed from the
  cut Celsius one, without any error of its own. If the two points coincide, the reading is undefined.\<close>

theorem hts221_readings:
  assumes "i2c_registers w c regs" and "wordsize c = I2C_8BIT"
    and "tab_get_by_handle hnd t = Some (a, n)" and "tab_get_by_handle (n_hdl n) it = Some (b, c)"
  shows "(if short_of (regs 0x3A) (regs 0x3B) = short_of (regs 0x36) (regs 0x37)
          then hts221_get_humidity hnd (Some v) t it w = Ub Overflow
          else \<exists>y w'. hts221_get_humidity hnd (Some v) t it w = Ret (S_OK, Some y, w') \<and> cut_of (humidity_of regs) y)
    \<and> (if short_of (regs 0x3E) (regs 0x3F) = short_of (regs 0x3C) (regs 0x3D)
         then hts221_get_celsius hnd (Some v) t it w = Ub Overflow
         else \<exists>y w'. hts221_get_celsius hnd (Some v) t it w = Ret (S_OK, Some y, w') \<and> cut_of (celsius_of regs) y
           \<and> hts221_get_fahrenheit hnd (Some v) t it w = Ret (S_OK, Some ((9 * y) sdiv 5 + 32), w'))"
  using hts221_humidity_reading [OF assms] hts221_celsius_reading [OF assms] by (rule conjI)

text \<open>A device between its calibration points, at 10.5 and 50.25 degrees.\<close>

definition sample_regs :: "u8 \<Rightarrow> u8" where
  "sample_regs r = (if r = 0x30 then 60 else if r = 0x31 then 140 else if r = 0x37 then 0xFF else if r = 0x3A then 100
     else if r = 0x28 then 50 else if r = 0x32 then 84 else if r = 0x33 then 146 else if r = 0x35 then 4
     else if r = 0x3F then 2 else if r = 0x2B then 1 else 0)"

definition hts221_config :: artik_i2c_config where
  "hts221_config = \<lparr>i2c_id = 1, frequency = 1000, wordsize = I2C_8BIT, address = 0x5F\<rparr>"

definition register_env :: "(u8 \<Rightarrow> u8) \<Rightarrow> xcall list \<Rightarrow> xcall \<Rightarrow> answer" where
  "register_env regs h c = (case c of
      I2cRdwr fd [(a, f, l, [reg]), (a', f', n, d)] \<Rightarrow>
        \<lparr>retv = 2, errno = 0, oval = 0, outb = map (\<lambda>k. regs ((reg AND 0x7F) + of_nat k)) [0..<unat n]\<rparr>
    | _ \<Rightarrow> good_env h c)"

definition register_world :: "(u8 \<Rightarrow> u8) \<Rightarrow> world" where
  "register_world regs = \<lparr>hist = [], env = register_env regs\<rparr>"

lemma register_world_registers: "i2c_registers (register_world regs) c regs"
  by (simp add: i2c_registers_def register_world_def register_env_def)

theorem hts221_readings_witness:
  "\<exists>y w'. hts221_get_celsius 8 (Some 0) [(8, zero_shared\<lparr>n_hdl := 16\<rparr>)] [(16, hts221_config)]
       (register_world sample_regs) = Ret (S_OK, Some y, w') \<and> cut_of (celsius_of sample_regs) y"
proof -
  have "short_of (sample_regs 0x3E) (sample_regs 0x3F) \<noteq> short_of (sample_regs 0x3C) (sample_regs 0x3D)"
    by (simp add: sample_regs_def short_of_def)
  then show ?thesis
    using hts221_readings [OF register_world_registers, of hts221_config 8
        "[(8, zero_shared\<lparr>n_hdl := 16\<rparr>)]" 8 "zero_shared\<lparr>n_hdl := 16\<rparr>" "[(16, hts221_config)]" 16 sample_regs 0]
    by (auto simp: hts221_config_def tab_get_by_handle_def)
qed

subsection \<open>LPS25H\<close>

lemma sint_24_bits:
  fixes x y z :: u8
  shows "sint (push_bit 16 (ucast z) OR push_bit 8 (ucast y) OR ucast x :: u32)
     = 65536 * uint z + 256 * uint y + uint x"
proof -
  note u = uint_lt2p [where 'a = 8, simplified]
  have c: "uint (ucast b :: u32) = uint b" for b :: u8 by (simp add: uint_up_ucast is_up)
  have p: "uint (push_bit 16 (ucast z :: u32)) = push_bit 16 (uint z)"
    "uint (push_bit 8 (ucast y :: u32)) = push_bit 8 (uint y)"
    unfolding unsigned_push_bit_eq c using u [of z] u [of y]
    by (simp_all add: push_bit_eq_mult take_bit_int_eq_self_iff)
  let ?v = "push_bit 16 (ucast z) OR push_bit 8 (ucast y) OR ucast x :: u32"
  have "uint ?v = (uint x OR push_bit 8 (uint y)) OR push_bit 16 (uint z)"
    by (simp only: unsigned_or_eq p c or.commute or.left_commute or.assoc)
  also have "\<dots> = uint x + 256 * uint y + 65536 * uint z"
    using u [of x] u [of y] by (simp add: or_push_bit)
  finally have v: "uint ?v = 65536 * uint z + 256 * uint y + uint x" by simp
  have "uint ?v < 2 ^ 31" using v u [of x] u [of y] u [of z] by simp
  then have "sint ?v = uint ?v" unfolding sint_uint by (subst signed_take_bit_int_eq_self) (auto intro: order_trans [OF _ uint_ge_0])
  with v show ?thesis by simp
qed

lemma half_degrees:
  assumes "\<bar>q\<bar> \<le> 1000"
  shows "trunc (dbl (of_int q + 42.5)) = (2 * q + 85) sdiv 2 \<and> \<bar>dbl (of_int q + 42.5)\<bar> \<le> 2000"
proof -
  let ?e = "of_int q + 42.5 :: real"
  have q: "\<bar>of_int q :: real\<bar> \<le> 1000" using assms by (simp flip: of_int_abs)
  then have "\<bar>dbl ?e - ?e\<bar> \<le> 0 + 1 / 2 ^ 20" by (intro fl_within [where b = 2000]) auto
  then have r: "\<bar>dbl ?e - ?e\<bar> < 1 / 4" by simp
  have n: "?e \<notin> \<int>"
  proof
    assume "?e \<in> \<int>"
    then obtain k where "?e = of_int k" by (auto elim: Ints_cases)
    then have "2 * of_int q + 85 = (2 * of_int k :: real)" by simp
    then have "2 * q + 85 = 2 * k" by linarith
    then show False by presburger
  qed
  have f: "\<lfloor>?e\<rfloor> = q + 42" "\<lfloor>- ?e\<rfloor> = - q - 43" by (auto simp: floor_eq_iff)
  have "cut_of ?e (trunc (dbl ?e))" by (rule trunc_near [OF r]) (auto simp: f)
  moreover have "of_int y \<noteq> ?e - sgn ?e" for y :: int
  proof
    assume "of_int y = ?e - sgn ?e"
    then have "?e = of_int y + sgn ?e" by simp
    with n show False by (metis Ints_0 Ints_1 Ints_add Ints_minus Ints_of_int sgn_if)
  qed
  ultimately have "trunc (dbl ?e) = trunc ?e" by (auto simp: cut_of_def)
  also have "\<dots> = (2 * q + 85) sdiv 2"
    using f by (auto simp: trunc_def signed_divide_int_def sgn_if)
  finally have "trunc (dbl ?e) = (2 * q + 85) sdiv 2" .
  moreover have "\<bar>dbl ?e\<bar> \<le> 2000" using q r by linarith
  ultimately show ?thesis by (intro conjI)
qed

lemma sdiv_bounds:
  assumes "0 < (k :: int)" and "\<bar>n\<bar> \<le> k * b"
  shows "\<bar>n sdiv k\<bar> \<le> b"
proof -
  have "\<bar>n\<bar> div k \<le> b" using zdiv_mono1 [OF assms(2) assms(1)] assms(1) by simp
  moreover have "\<bar>n sdiv k\<bar> = \<bar>n\<bar> div k"
    using assms(1) by (auto simp: signed_divide_int_def abs_mult sgn_if pos_imp_zdiv_nonneg_iff)
  ultimately show ?thesis by simp
qed

lemma small_degrees:
  assumes "\<bar>q :: int\<bar> \<le> 68"
  shows "\<bar>(2 * q + 85) sdiv 2\<bar> \<le> 111" "\<bar>(9 * ((2 * q + 85) sdiv 2)) sdiv 5\<bar> \<le> 300"
proof -
  show y: "\<bar>(2 * q + 85) sdiv 2\<bar> \<le> 111" using assms by (intro sdiv_bounds) auto
  then show "\<bar>(9 * ((2 * q + 85) sdiv 2)) sdiv 5\<bar> \<le> 300" by (intro sdiv_bounds) auto
qed

lemma to_short_int: "to_int x = Ret k \<Longrightarrow> \<bar>k\<bar> \<le> 30000 \<Longrightarrow> to_short x = Ret k"
  unfolding to_int_def to_short_def trunc_def by (auto split: if_splits; linarith)

text \<open>On a sensor that answers, the pressure is its 24-bit reading in units of 1/4096 hPa, cut to an
  integer and below 4096; the Celsius reading is 42.5 degrees more than the 480th part of the signed
  16-bit reading, both cut towards zero; the Fahrenheit reading agrees with it.\<close>

theorem lps25hbtr_readings:
  assumes "i2c_registers w c regs" and "wordsize c = I2C_8BIT"
    and "tab_get_by_handle hnd t = Some (a, n)" and "tab_get_by_handle (n_hdl n) it = Some (b, c)"
    and "q = short_of (regs 0x2B) (regs 0x2C) sdiv 480" and "y = (2 * q + 85) sdiv 2"
  shows "\<exists>p w1 w2. lps25hbtr_get_pressure hnd (Some v) t it w = Ret (S_OK, Some p, w1)
      \<and> p = (65536 * uint (regs 0x2A) + 256 * uint (regs 0x29) + uint (regs 0x28)) div 4096 \<and> 0 \<le> p \<and> p < 4096
    \<and> lps25hbtr_get_celsius hnd (Some v) t it w = Ret (S_OK, Some y, w2)
    \<and> lps25hbtr_get_fahrenheit hnd (Some v) t it w = Ret (S_OK, Some ((9 * y) sdiv 5 + 32), w2)"
proof -
  note rd = i2c_registers_read [OF assms(1) _ assms(2,4)]
  obtain w1 where 1: "artik_i2c_read_register (n_hdl n) 0x28 1 it w = Ret (S_OK, [regs 0x28], w1)" "env w1 = env w"
    using rd [where w' = w and n = "1" and reg = "0x28"] by auto
  obtain w2 where 2: "artik_i2c_read_register (n_hdl n) 0x29 1 it w1 = Ret (S_OK, [regs 0x29], w2)" "env w2 = env w"
    using rd [where w' = w1 and n = "1" and reg = "0x29"] 1(2) by auto
  obtain w3 where 3: "artik_i2c_read_register (n_hdl n) 0x2A 1 it w2 = Ret (S_OK, [regs 0x2A], w3)"
    using rd [where w' = w2 and n = "1" and reg = "0x2A"] 2(2) by auto
  obtain w4 where 4: "artik_i2c_read_register (n_hdl n) (0x2B OR 0x80) 2 it w = Ret (S_OK, [regs 0x2B, regs 0x2C], w4)"
    using rd [where w' = w and n = "2" and reg = "0x2B OR 0x80"] by (auto simp: upt_rec)
  let ?p = "65536 * uint (regs 0x2A) + 256 * uint (regs 0x29) + uint (regs 0x28)"
  have p: "0 \<le> ?p" "?p < 16777216"
    using uint_lt2p [of "regs 0x2A"] uint_lt2p [of "regs 0x29"] uint_lt2p [of "regs 0x28"] by simp_all
  have "0 \<le> k div 4096 \<and> k div 4096 < 4096" if "0 \<le> k" "k < 16777216" for k :: int
    using that by (simp add: pos_imp_zdiv_nonneg_iff)
  then have b: "0 \<le> ?p div 4096" "?p div 4096 < 4096" using p by blast+
  have P: "lps25hbtr_get_pressure hnd (Some v) t it w = Ret (S_OK, Some (?p div 4096), w3)"
    using assms(3) p(1) 1(1) 2(1) 3
    by (simp add: lps25hbtr_get_pressure_def err_simps got_def sint_24_bits signed_divide_int_def sgn_if)
  have q: "\<bar>q\<bar> \<le> 68"
    using short_of_bounds [of "regs 0x2B" "regs 0x2C"] unfolding assms(5)
    by (auto simp: signed_divide_int_def sgn_if abs_mult)
  then have "trunc (dbl (of_int q + 42.5)) = y" "\<bar>dbl (of_int q + 42.5)\<bar> \<le> 2000"
    using half_degrees [of q] assms(6) by auto
  then have h: "to_int (dbl (of_int q + 42.5)) = Ret y" "to_short (dbl (of_int q + 42.5)) = Ret y"
    by (auto simp: to_int_def to_short_def)
  have y: "\<bar>y\<bar> \<le> 111" "\<bar>(9 * y) sdiv 5\<bar> \<le> 300"
    using small_degrees [OF q] unfolding assms(6) by auto
  then have t: "to_short (dbl (of_int y * dbl 1.8)) = Ret ((9 * y) sdiv 5)"
    using to_int_times [of y] by (intro to_short_int) auto
  have s: "sint (word_of_int ((9 * y) sdiv 5 + 32) :: u16) = (9 * y) sdiv 5 + 32"
    unfolding sint_sbintrunc' by (subst signed_take_bit_int_eq_self) (use y(2) in auto)
  have C: "lps25hbtr_get_celsius hnd (Some v) t it w = Ret (S_OK, Some y, w4)"
    using assms(3) 4 h(1) [unfolded assms(5)]
    by (simp add: lps25hbtr_get_celsius_def lps25hbtr_data_def err_simps got_def)
  have F: "lps25hbtr_get_fahrenheit hnd (Some v) t it w = Ret (S_OK, Some ((9 * y) sdiv 5 + 32), w4)"
    using assms(3) 4 h(2) [unfolded assms(5)] t s
    by (simp add: lps25hbtr_get_fahrenheit_def lps25hbtr_data_def err_simps got_def)
  from P C F b show ?thesis by blast
qed

theorem lps25hbtr_readings_witness:
  "\<exists>p w1. lps25hbtr_get_pressure 8 (Some 0) [(8, zero_node\<lparr>n_hdl := 16\<rparr>)] [(16, hts221_config)]
       (register_world (\<lambda>r. if r = 0x2A then 63 else 0)) = Ret (S_OK, Some p, w1) \<and> p = 1008"
  using lps25hbtr_readings [OF register_world_registers, of hts221_config 8 "[(8, zero_node\<lparr>n_hdl := 16\<rparr>)]" 8
      "zero_node\<lparr>n_hdl := 16\<rparr>" "[(16, hts221_config)]" 16 _ "\<lambda>r. if r = 0x2A then 63 else 0" _ 0, OF _ _ _ refl refl]
  by (fastforce simp: hts221_config_def tab_get_by_handle_def)

end
