(* ===== verification/SensorProps.thy ===== *)
theory SensorProps
  imports Sensor SensorReadings
begin

section \<open>Properties of the sensor module\<close>

text \<open>The tables of the boards are well typed, lookups find what they should, and what the requests and releases
  of the drivers report.\<close>

subsection \<open>The tables are well typed\<close>

definition typed :: "'a outcome \<Rightarrow> bool" where
  "typed m \<longleftrightarrow> m \<noteq> Ub TypeConfusion"

lemma typed_Ret [simp]: "typed (Ret x)"
  by (simp add: typed_def)

lemma typed_Ub [simp]: "typed (Ub f) \<longleftrightarrow> f \<noteq> TypeConfusion"
  by (simp add: typed_def)

lemma typed_obind [intro!]: "typed m \<Longrightarrow> (\<And>x. m = Ret x \<Longrightarrow> typed (k x)) \<Longrightarrow> typed (obind m k)"
  by (cases m) auto

lemmas typed_split = option.split prod.split

lemma typed_i2c [simp]:
  "typed (artik_i2c_read_register hnd reg n it w)"
  "typed (artik_i2c_write_register hnd reg buf n it w)"
  "typed (artik_i2c_release hnd it w)"
  by (auto simp: artik_i2c_read_register_def os_i2c_read_register_def artik_i2c_write_register_def on_handle_def
      os_i2c_write_register_def artik_i2c_release_def table_release_def os_i2c_release_def Let_def
      split: typed_split)

lemma typed_bus_requests [simp]:
  "typed (artik_i2c_request m ci it w)" "typed (artik_spi_request m cs st w)"
  "typed (artik_gpio_request m cg gt w)" "typed (gpio_request_of k m cg gt w)"
  by (auto simp: artik_i2c_request_def table_request_def os_i2c_request_def artik_spi_request_def
      os_spi_request_def artik_gpio_request_def gpio_request_of_def Let_def split: typed_split)

lemma typed_strtoul [simp]: "f \<noteq> TypeConfusion \<Longrightarrow> typed (strtoul f bs)"
proof -
  assume f: "f \<noteq> TypeConfusion"
  have d: "typed (scan_digits f b cs n)" for b cs n
    using f by (induction cs arbitrary: n) auto
  have "typed (scan_base f cs)" for cs
    using f d by (cases cs) (auto split: list.split)
  moreover have "typed (skip_space f bs)" using f by (induction bs) auto
  ultimately show ?thesis by (auto simp: strtoul_def)
qed

lemma typed_adc [simp]: "typed (artik_adc_request m c pt w)" "typed (artik_adc_release hnd pt w)"
  by (auto simp: artik_adc_request_def os_adc_request_def os_adc_get_value_def os_adc_open_def adc_convert_def
      artik_adc_release_def Let_def split: typed_split)

lemma typed_gpio_release [simp]: "typed (artik_gpio_release hnd gt w)"
  by (auto simp: artik_gpio_release_def Let_def split: typed_split)

lemma typed_got [simp]: "typed (got bs i)" "typed (deliver bs var)"
  by (auto simp: got_def deliver_def)

lemma typed_releases [simp]:
  "typed (exclusive_release hnd st bt w)" "typed (shared_release hnd t bt w)"
  by (auto simp: exclusive_release_def shared_release_def Let_def split: typed_split)

lemma typed_initialize [simp]:
  "typed (lps25hbtr_initialize hnd it w)" "typed (cm3323e_initialize hnd it w)"
  "typed (hts221_initialize hnd it w)" "typed (k6ds3_initialize hnd st w)"
  by (auto simp: lps25hbtr_initialize_def cm3323e_initialize_def hts221_initialize_def k6ds3_initialize_def
      Let_def split: typed_split)

lemma typed_new_device:
  assumes "\<And>w. typed (breq m2 c bt w)" and "\<And>h bt w. typed (init h bt w)" and "\<And>t bt w. typed (rel m t bt w)"
  shows "typed (new_device name breq bid init rel new m m2 c t bt w)"
  using assms by (auto simp: new_device_def Let_def split: typed_split)

lemma typed_shared_drivers [simp]:
  "typed (lps25hbtr_request m m2 c t it w)" "typed (cm3323e_request m m2 c t it w)"
  "typed (hts221_request m m2 c s it w)" "typed (k6ds3_request m m2 c' s st w)"
  by (auto simp: lps25hbtr_request_def cm3323e_request_def exclusive_request_def hts221_request_def
      k6ds3_request_def shared_request_def intro!: typed_new_device split: typed_split)

lemma typed_accelerometer [simp]:
  "typed (accelerometer_release hnd t it w)" "typed (accelerometer_request m m2 c t it w)"
proof -
  have r: "typed (accelerometer_release hnd t it w)" for hnd t it w
    by (auto simp: accelerometer_release_def split: typed_split)
  show "typed (accelerometer_release hnd t it w)" by (rule r)
  show "typed (accelerometer_request m m2 c t it w)"
    using r by (auto simp: accelerometer_request_def accelerometer_abort_def Let_def split: typed_split)
qed

lemma typed_pin_release:
  assumes "\<And>h pt w. typed (rel h pt w)"
  shows "typed (pin_release rel hnd t pt w)"
  using assms by (auto simp: pin_release_def split: typed_split)

lemma typed_add_pin:
  assumes "\<And>m2 pt w. typed (req m2 c pt w)" and "\<And>h t pt w. typed (rel h t pt w)"
  shows "typed (add_pin name req pin failed rel zero m m2 c t pt w)"
  using assms by (auto simp: add_pin_def Let_def split: typed_split)

lemmas pin_requests = s5712ccdl1_request_def flame_request_def proximity_request_def humidity_request_def
  light_request_def temperature_request_def
lemmas pin_releases = s5712ccdl1_release_def flame_release_def proximity_release_def humidity_release_def
  light_release_def temperature_release_def

lemma typed_pins [simp]:
  "typed (s5712ccdl1_request k m m2 c t gt w)" "typed (flame_request k m m2 c t' gt w)"
  "typed (proximity_request k m m2 c t' gt w)" "typed (humidity_request m m2 c' t' pt w)"
  "typed (light_request m m2 c' t' pt w)" "typed (temperature_request m m2 c' t'' pt w)"
  by (simp_all add: pin_requests pin_releases typed_add_pin typed_pin_release)

definition well_typed :: "artik_sensor_config \<Rightarrow> bool" where
  "well_typed c \<longleftrightarrow> (case data_user c of
      None \<Rightarrow> True
    | Some ops \<Rightarrow> ops_type ops = sensor_type c \<and>
        (case sensor_params c of
           None \<Rightarrow> False
         | Some (P_I2C _) \<Rightarrow> ops \<in> {Hts221_humidity, Hts221_temp, Lps25hbtr_barometer, Lps25hbtr_temperature,
              Cm3323e, Accelerometer_arduino}
         | Some (P_SPI _) \<Rightarrow> ops \<in> {K6ds3_xl, K6ds3_gyro}
         | Some (P_ADC _) \<Rightarrow> ops \<in> {Humidity_arduino, Light_arduino, Temperature_arduino}
         | Some (P_GPIO _ _) \<Rightarrow> ops \<in> {S5712ccdl1, Flame_arduino, Proximity_arduino}))"

lemma typed_run_driver: "(\<And>t bt w. typed (req m m2 c t bt w)) \<Longrightarrow> typed (run_driver req l pl b pb m m2 c s w)"
  by (auto simp: run_driver_def split: prod.split)

lemma typed_request:
  assumes "well_typed c"
  shows "typed (os_sensor_request m m2 (Some c) s w)"
proof (cases "data_user c")
  case (Some ops)
  then have ty: "ops_type ops = sensor_type c" using assms by (simp add: well_typed_def)
  have "typed (ops_request ops m m2 (sensor_params c) s w)"
    using assms Some
    by (auto simp: well_typed_def ops_request_def Let_def as_i2c_def as_spi_def as_adc_def as_gpio_def
        intro!: typed_run_driver split: option.splits sensor_params.splits)
  with Some ty show ?thesis by (auto simp: os_sensor_request_def)
qed (simp add: os_sensor_request_def)

lemmas sensor_tables = artik_api_sensors_def artik_api_generic_sensors_def artik_api_a520_sensors_def
  artik_api_a1020_sensors_def artik_api_a710_sensors_def artik_api_a530_sensors_def sensor_none_def
  i2c_8bit_def adc_on_def gpio_in_def spi_2_0_def

lemma tables_well_typed: "\<forall>t\<in>set artik_api_sensors. \<forall>c\<in>set t. well_typed c"
  by (simp add: sensor_tables well_typed_def)

text \<open>C25. Every entry of every board's table can be requested in any state without a pointer being cast
  to a type that is not the one of the object it points to, neither the driver's table of functions
  nor the configuration.\<close>

theorem sensor_requests_well_typed:
  assumes "t \<in> set artik_api_sensors" and "c \<in> set t"
  shows "os_sensor_request m m2 (Some c) s w \<noteq> Ub TypeConfusion"
  using typed_request [of c m m2 s w] tables_well_typed assms by (auto simp: typed_def)

theorem sensor_requests_well_typed_witness:
  "\<forall>s w. os_sensor_request 8 16 (Some (artik_api_a710_sensors ! 0)) s w \<noteq> Ub TypeConfusion"
  by (intro allI, rule sensor_requests_well_typed [of artik_api_a710_sensors])
    (simp_all add: artik_api_sensors_def artik_api_a710_sensors_def)

subsection \<open>Finding a sensor\<close>

definition nth_opt :: "'a list \<Rightarrow> nat \<Rightarrow> 'a option" where
  "nth_opt xs i = (if i < length xs then Some (xs ! i) else None)"

lemma nth_opt_Cons: "nth_opt (x # xs) i = (case i of 0 \<Rightarrow> Some x | Suc j \<Rightarrow> nth_opt xs j)"
  by (auto simp: nth_opt_def split: nat.split)

text \<open>A board that keeps saying which one it is.\<close>

definition on_board :: "nat \<Rightarrow> world \<Rightarrow> bool" where
  "on_board p w \<longleftrightarrow> p < 5 \<and> (\<forall>h. retv (env w h GetPlatform) = int p)"

lemma sensor_at_board:
  assumes "on_board p w" and "env w' = env w" and "pos < length (artik_api_sensors ! p)"
  shows "\<exists>w''. sensor_at pos w' = Ret (artik_api_sensors ! p ! pos, w'') \<and> env w'' = env w \<and> later w' w''"
proof -
  have "length artik_api_sensors = 5" by (simp add: artik_api_sensors_def)
  with assms show ?thesis
    by (auto simp: sensor_at_def sensor_table_def on_board_def Let_def case_prod_beta)
qed

definition wanted :: "artik_sensor_device_t \<Rightarrow> artik_sensor_config list \<Rightarrow> artik_sensor_config list" where
  "wanted type = filter (\<lambda>c. sensor_type c = type \<and> type \<noteq> ARTIK_SENSOR_NONE)"

lemma sensor_get_loop_nth:
  assumes "on_board p w" and "artik_api_sensors ! p = es @ [sensor_none]"
    and "\<forall>c\<in>set es. sensor_type c \<noteq> ARTIK_SENSOR_NONE"
  shows "pos \<le> length es \<Longrightarrow> ref \<le> unat nb \<Longrightarrow> env w' = env w \<Longrightarrow>
    \<exists>w''. sensor_get_loop nb type pos ref w' = Ret (nth_opt (wanted type (drop pos es)) (unat nb - ref), w'')
      \<and> later w' w''"
proof (induction "length es - pos" arbitrary: pos ref w')
  case 0
  then have pos: "pos = length es" by simp
  obtain w1 where "sensor_at pos w' = Ret (sensor_none, w1)" "later w' w1"
    using sensor_at_board [OF assms(1) "0.prems"(3), of pos] by (auto simp: assms(2) pos)
  with 0 pos show ?case
    by (subst sensor_get_loop.simps) (simp add: sensor_none_def nth_opt_def wanted_def)
next
  case (Suc n)
  then have pos: "pos < length es" by simp
  let ?c = "es ! pos"
  have c: "sensor_type ?c \<noteq> ARTIK_SENSOR_NONE" using assms(3) pos by simp
  have at: "\<exists>w''. sensor_at pos w1 = Ret (?c, w'') \<and> env w'' = env w \<and> later w1 w''" if "env w1 = env w" for w1
    using sensor_at_board [OF assms(1) that, of pos] pos by (simp add: assms(2) nth_append)
  obtain w1 where 1: "sensor_at pos w' = Ret (?c, w1)" "env w1 = env w" "later w' w1"
    using at Suc.prems(3) by blast
  obtain w2 where 2: "sensor_at pos w1 = Ret (?c, w2)" "env w2 = env w" "later w1 w2"
    using at 1(2) by blast
  obtain w3 where 3: "sensor_at pos w2 = Ret (?c, w3)" "later w2 w3"
    using at 2(2) by blast
  have d: "drop pos es = ?c # drop (Suc pos) es" using pos by (simp add: Cons_nth_drop_Suc)
  have n: "n = length es - Suc pos" "Suc pos \<le> length es" using Suc.hyps(2) pos by auto
  let ?ref = "if ref < unat nb \<and> sensor_type ?c = type then ref + 1 else ref"
  have rr: "?ref \<le> unat nb" using Suc.prems(2) by simp
  obtain w4 where 4: "sensor_get_loop nb type (Suc pos) ?ref w2
      = Ret (nth_opt (wanted type (drop (Suc pos) es)) (unat nb - ?ref), w4)" "later w2 w4"
    using Suc.hyps(1) [OF n(1,2) rr 2(2)] by blast
  have l: "later w' w2" using 1(3) 2(3) later_trans by blast
  show ?case
  proof (cases "ref < unat nb")
    case True
    then have s: "unat nb - ref = Suc (unat nb - Suc ref)" by simp
    have "sensor_get_loop nb type pos ref w' = sensor_get_loop nb type (Suc pos) ?ref w2"
      using True c 1(1) 2(1) by (subst sensor_get_loop.simps) simp
    moreover have "nth_opt (wanted type (drop pos es)) (unat nb - ref)
        = nth_opt (wanted type (drop (Suc pos) es)) (unat nb - ?ref)"
    proof (cases "sensor_type ?c = type")
      case True
      show ?thesis unfolding s using True \<open>ref < unat nb\<close> c by (simp add: d wanted_def nth_opt_Cons)
    qed (simp add: d wanted_def)
    ultimately show ?thesis using 4(1) later_trans [OF l 4(2)] by (simp only:) blast
  next
    case False
    then have r: "ref = unat nb" using Suc.prems(2) by simp
    show ?thesis
    proof (cases "sensor_type ?c = type")
      case True
      then have "sensor_get_loop nb type pos ref w' = Ret (Some ?c, w3)"
        using c r 1(1) 2(1) 3(1) by (subst sensor_get_loop.simps) simp
      with True c r later_trans [OF l 3(2)] show ?thesis by (auto simp: d wanted_def nth_opt_def)
    next
      case False
      with c r 1(1) 2(1) have "sensor_get_loop nb type pos ref w' = sensor_get_loop nb type (Suc pos) ?ref w2"
        by (subst sensor_get_loop.simps) simp
      with False 4(1) later_trans [OF l 4(2)] show ?thesis by (auto simp: d wanted_def)
    qed
  qed
qed

text \<open>On a board that is known, looking up the \<open>nb\<close>-th sensor of a type gives the \<open>nb\<close>-th entry of that
  type in the board's table, and nothing if there are fewer; it always ends, without leaving the
  table.\<close>

theorem sensor_get_is_nth:
  assumes "on_board p w"
  shows "\<exists>w'. artik_sensor_get_sensor nb type w
      = Ret (nth_opt (filter (\<lambda>c. sensor_type c = type \<and> type \<noteq> ARTIK_SENSOR_NONE) (artik_api_sensors ! p)) (unat nb), w')
    \<and> later w w'"
proof -
  have p: "p \<in> {0, 1, 2, 3, 4}" using assms by (auto simp: on_board_def)
  then obtain es where es: "artik_api_sensors ! p = es @ [sensor_none]"
      "\<forall>c\<in>set es. sensor_type c \<noteq> ARTIK_SENSOR_NONE"
    by (elim insertE emptyE; simp add: artik_api_sensors_def artik_api_generic_sensors_def artik_api_a520_sensors_def
        artik_api_a1020_sensors_def artik_api_a710_sensors_def artik_api_a530_sensors_def append_eq_Cons_conv)
  from sensor_get_loop_nth [OF assms es, of 0 0 nb w type] es(1) show ?thesis
    by (cases "type = ARTIK_SENSOR_NONE")
      (auto simp: artik_sensor_get_sensor_def os_sensor_get_def wanted_def sensor_none_def)
qed

subsection \<open>Requests and releases of the sensor board\<close>

lemma tab_get_fresh:
  assumes "m \<noteq> 0" and "m \<notin> fst ` set t"
  shows "tab_get_by_handle m (tab_add t m c) = Some (m, c)"
    "tab_get_by_handle m (tab_set m d (tab_add t m c)) = Some (m, d)"
proof -
  have "List.find (\<lambda>x. fst x = m) t = None" using assms(2) by (force simp: find_None_iff)
  then have f: "List.find (\<lambda>x. fst x = m) (t @ [(m, c)]) = Some (m, c)" for c :: 'a
    by (induction t) (auto split: if_splits)
  then show "tab_get_by_handle m (tab_add t m c) = Some (m, c)"
    "tab_get_by_handle m (tab_set m d (tab_add t m c)) = Some (m, d)"
    using assms by (simp_all add: tab_get_by_handle_def tab_add_def tab_set_add [unfolded tab_add_def])
qed

lemma new_device_errors:
  assumes "new_device name breq bid init rel new m m2 c t bt w = Ret (e, h, t', bt', w')" and "m \<notin> fst ` set t"
    and "\<And>n t bt w. tab_get_by_handle m t = Some (m, n) \<Longrightarrow> bad n \<Longrightarrow> rel m t bt w = Ub UseAfterFree"
    and "bad new" and "\<And>n i h k. bad n \<Longrightarrow> bad (n\<lparr>n_mod := i, n_hdl := h\<rparr>)" "\<And>n k. bad n \<Longrightarrow> bad (n\<lparr>n_id := k\<rparr>)"
  shows "e = S_OK \<or> e = E_NO_MEM \<and> m = 0"
  using assms tab_get_fresh [of m t]
  by (auto simp: new_device_def Let_def case_prod_beta obind_eq_Ret split: if_splits)

lemma exclusive_errors:
  assumes "exclusive_request name breq bid init m m2 c t bt w = Ret (e, h, t', bt', w')" and "m \<notin> fst ` set t"
  shows "e = S_OK \<or> e = E_BUSY \<or> e = E_NO_MEM \<and> m = 0"
proof (cases "tab_get_by_check (\<lambda>n. n_id n = bid c) t")
  case None
  with assms(1) have "new_device name breq bid init exclusive_release zero_node m m2 c t bt w = Ret (e, h, t', bt', w')"
    by (simp add: exclusive_request_def)
  from new_device_errors [OF this assms(2), of "\<lambda>n. True"] show ?thesis
    by (auto simp: exclusive_release_def)
qed (use assms in \<open>auto simp: exclusive_request_def\<close>)

lemma shared_errors:
  assumes "shared_request name breq bid init m m2 c t bt w = Ret (e, h, t', bt', w')" and "m \<notin> fst ` set t"
  shows "e = S_OK \<or> e = E_NO_MEM \<and> m = 0"
proof (cases "tab_get_by_check (\<lambda>n. n_id n = bid c) t")
  case None
  with assms(1) have "new_device name breq bid init shared_release (zero_shared\<lparr>number_of_instances := 1\<rparr>) m m2 c t bt w
      = Ret (e, h, t', bt', w')"
    by (simp add: shared_request_def)
  from new_device_errors [OF this assms(2), of "\<lambda>n. number_of_instances n = 1"] show ?thesis
    by (auto simp: shared_release_def)
qed (use assms in \<open>auto simp: shared_request_def\<close>)

text \<open>A request of a driver of the sensor board never reports an error of the bus or of the device: if
  it returns at all with a block from \<^verbatim>\<open>malloc\<close>, it reports success, or that a device that cannot be shared is
  held. (On every other path it looks into the node it has just freed.)\<close>

theorem board_requests_hide_errors:
  assumes "m \<noteq> 0" and "m \<notin> fst ` set t" and "m \<notin> fst ` set x"
  shows "(hts221_request m m2 c t it w = Ret (e, h, t', it', w') \<longrightarrow> e = S_OK)
    \<and> (k6ds3_request m m2 k t st w = Ret (e, h, t', st', w') \<longrightarrow> e = S_OK)
    \<and> (lps25hbtr_request m m2 c x it w = Ret (e, h, x', it', w') \<longrightarrow> e = S_OK \<or> e = E_BUSY)
    \<and> (cm3323e_request m m2 c x it w = Ret (e, h, x', it', w') \<longrightarrow> e = S_OK \<or> e = E_BUSY)"
  using assms(1) unfolding hts221_request_def k6ds3_request_def lps25hbtr_request_def cm3323e_request_def
  by (auto dest: exclusive_errors [OF _ assms(3)] shared_errors [OF _ assms(2)])

text \<open>Releasing a device again and again.\<close>

fun hts221_releases :: "nat \<Rightarrow> addr \<Rightarrow> shared_node tab \<Rightarrow> artik_i2c_config tab \<Rightarrow> world
    \<Rightarrow> (shared_node tab \<times> artik_i2c_config tab \<times> world) outcome" where
  "hts221_releases 0 hnd t it w = Ret (t, it, w)"
| "hts221_releases (Suc k) hnd t it w =
     obind (hts221_release hnd t it w) (\<lambda>(_, t, it, w). hts221_releases k hnd t it w)"

lemma hts221_releases_count:
  assumes "tab_get_by_handle hnd t = Some (hnd, n)" and "number_of_instances n = int (Suc k)"
  shows "(\<exists>t'. hts221_releases k hnd t it w = Ret (t', it, w) \<and> tab_get_by_handle hnd t' \<noteq> None)
    \<and> hts221_releases (Suc k) hnd t it w = Ub UseAfterFree"
  using assms
proof (induction k arbitrary: t n)
  case 0
  then show ?case by (simp add: hts221_release_def shared_release_def)
next
  case (Suc k)
  let ?n = "n\<lparr>number_of_instances := int (Suc k)\<rparr>"
  have r: "hts221_release hnd t it w = Ret (S_OK, tab_set hnd ?n t, it, w)"
    using Suc.prems by (simp add: hts221_release_def shared_release_def)
  have "tab_get_by_handle hnd (tab_set hnd ?n t) = Some (hnd, ?n)" using Suc.prems(1) by (rule tab_get_set)
  from Suc.IH [OF this] r show ?case by (simp del: of_nat_Suc) 
qed

text \<open>The holders of a shared device are counted: another request of the same bus adds one and gives
  the same handle, all releases but the last succeed, and the last one is undefined.\<close>

theorem hts221_last_release:
  assumes "tab_get_by_check (\<lambda>n. n_id n = i2c_id c) t = Some (a, n)" and "tab_get_by_handle a t = Some (a, n)"
    and "number_of_instances n = int (Suc k)"
  shows "(\<exists>t1. hts221_request m m2 c t it w = Ret (S_OK, Some a, t1, it, w)
      \<and> hts221_releases (Suc (Suc k)) a t1 it w = Ub UseAfterFree
      \<and> (\<exists>t2. hts221_releases (Suc k) a t1 it w = Ret (t2, it, w) \<and> tab_get_by_handle a t2 \<noteq> None))
    \<and> (\<exists>t'. hts221_releases k a t it w = Ret (t', it, w) \<and> tab_get_by_handle a t' \<noteq> None)
    \<and> hts221_releases (Suc k) a t it w = Ub UseAfterFree"
proof -
  let ?t1 = "tab_set a (n\<lparr>number_of_instances := int (Suc (Suc k))\<rparr>) t"
  have "hts221_request m m2 c t it w = Ret (S_OK, Some a, ?t1, it, w)"
    using assms(1,3) by (simp add: hts221_request_def shared_request_def add.commute)
  with hts221_releases_count [OF tab_get_set [OF assms(2)], of "n\<lparr>number_of_instances := int (Suc (Suc k))\<rparr>" "Suc k" it w]
    hts221_releases_count [OF assms(2,3), of it w]
  show ?thesis by (simp del: hts221_releases.simps of_nat_Suc)
qed

theorem hts221_last_release_witness:
  "hts221_releases 1 8 [(8, zero_shared\<lparr>n_id := 1, number_of_instances := 1\<rparr>)] [] good_world = Ub UseAfterFree"
  using hts221_last_release [of hts221_config "[(8, zero_shared\<lparr>n_id := 1, number_of_instances := 1\<rparr>)]" 8
      "zero_shared\<lparr>n_id := 1, number_of_instances := 1\<rparr>" 0 1 1 "[]" good_world]
  by (simp add: tab_get_by_check_def tab_get_by_handle_def hts221_config_def del: hts221_releases.simps)

subsection \<open>The hall sensor\<close>

lemma add_pin_ok:
  assumes "add_pin name req pin failed rel zero m m2 c t pt w = Ret (S_OK, h, t', pt', w')"
  shows "\<exists>w0 h' c' w1. req m2 c pt w0 = Ret (S_OK, h', c', pt', w1)"
  using assms
  by (fastforce simp: add_pin_def Let_def case_prod_beta obind_eq_Ret err_simps split: option.splits if_splits)

lemma gpio_request_writes:
  "artik_gpio_request m c t w = Ret (S_OK, h, c', t', w') \<Longrightarrow> gpio_user_data c' \<noteq> None"
  using os_gpio_request_ok [of c w]
  by (auto simp: artik_gpio_request_def Let_def case_prod_beta err_simps gpio_ok_def prod_eq_iff
      split: option.splits if_splits)

text \<open>No request of the hall sensor of the A710 or the A530 succeeds: the GPIO module stores a pointer in the
  configuration it is given, and the tables declare that one constant.\<close>

theorem hall_sensor_never_requested:
  assumes "c \<in> set artik_api_a710_sensors \<or> c \<in> set artik_api_a530_sensors"
    and "sensor_type c = ARTIK_SENSOR_HALL"
  shows "os_sensor_request m m2 (Some c) s w \<noteq> Ret (S_OK, h, ops, s', w')"
proof
  assume r: "os_sensor_request m m2 (Some c) s w = Ret (S_OK, h, ops, s', w')"
  have c: "sensor_params c = gpio_in True 130" "data_user c = Some S5712ccdl1"
    using assms by (auto simp: artik_api_a710_sensors_def artik_api_a530_sensors_def sensor_none_def)
  let ?g = "\<lparr>gpio_id = 130, gpio_name = ''gpio'', gpio_dir = GPIO_IN, gpio_edge = GPIO_EDGE_BOTH, initial_value = 0,
      gpio_user_data = None\<rparr>"
  obtain t' gt' w2 where q: "s5712ccdl1_request True m m2 ?g (hall_list s) (gpios s) w = Ret (S_OK, h, t', gt', w2)"
    using r c assms(2)
    by (auto simp: os_sensor_request_def ops_request_def as_gpio_def gpio_in_def run_driver_def Let_def obind_eq_Ret)
  from add_pin_ok [OF q [unfolded s5712ccdl1_request_def]]
  obtain w0 h' c' w1 where "gpio_request_of True m2 ?g (gpios s) w0 = Ret (S_OK, h', c', gt', w1)" by blast
  then have "artik_gpio_request m2 ?g (gpios s) w0 = Ret (S_OK, h', c', gt', w1)" "gpio_user_data c' = None"
    by (auto simp: gpio_request_of_def obind_eq_Ret simp del: not_None_eq split: if_splits)
  with gpio_request_writes show False by blast
qed

theorem sensor_get_is_nth_witness:
  "\<exists>w'. artik_sensor_get_sensor 0 ARTIK_SENSOR_BAROMETER
       \<lparr>hist = [], env = (\<lambda>h c. \<lparr>retv = 3, errno = 0, oval = 0, outb = []\<rparr>)\<rparr>
     = Ret (Some (artik_api_a710_sensors ! 1), w')"
proof -
  let ?w = "\<lparr>hist = [], env = (\<lambda>h c. \<lparr>retv = 3, errno = 0, oval = 0, outb = []\<rparr>)\<rparr>"
  have "on_board 3 ?w" by (simp add: on_board_def)
  from sensor_get_is_nth [OF this, of 0 ARTIK_SENSOR_BAROMETER] show ?thesis
    by (auto simp: artik_api_sensors_def artik_api_a710_sensors_def sensor_none_def nth_opt_def)
qed

theorem board_requests_hide_errors_witness:
  "\<exists>h t' it' w'. hts221_request 8 16 hts221_config [(4, zero_shared\<lparr>n_id := 1\<rparr>)] [] good_world = Ret (S_OK, h, t', it', w')"
proof -
  obtain e h t' it' w' where r: "hts221_request 8 16 hts221_config [(4, zero_shared\<lparr>n_id := 1\<rparr>)] [] good_world
      = Ret (e, h, t', it', w')"
    by (simp add: hts221_request_def shared_request_def tab_get_by_check_def hts221_config_def)
  from board_requests_hide_errors [of 8 "[(4, zero_shared\<lparr>n_id := 1\<rparr>)]" "[] :: sensor_node tab" 16 hts221_config "[]" good_world e]
    r show ?thesis by force
qed

theorem hall_sensor_never_requested_witness:
  "\<forall>s w ops s' w'. os_sensor_request 8 16 (Some (artik_api_a710_sensors ! 4)) s w \<noteq> Ret (S_OK, Some 8, ops, s', w')"
  by (intro allI, rule hall_sensor_never_requested) (simp_all add: artik_api_a710_sensors_def)

end
