(* ===== verification/ModuleLoader.thy ===== *)
theory ModuleLoader
  imports HandleTable
begin

section \<open>The module loader (\<^verbatim>\<open>src/modules/base/module\<close>)\<close>

text \<open>
  \<^verbatim>\<open>artik_module.c\<close> and its Linux back end \<^verbatim>\<open>linux_module.c\<close>: an application asks for a
  module by name, and gets the table of functions that the shared object of the module exports. The
  loader keeps one node for every request that was not released; a node holds the name (a block of
  its own, shared by the nodes of a module), the handle of the shared object and the table. A node
  fresh from \<^verbatim>\<open>memset\<close> has null pointers in all three. The mutex is left out: calls are taken one
  after the other. The version of the SDK comes from the build.
\<close>

record artik_module_info =
  mod_name :: "(addr \<times> string) option"
  dl_handle :: addr
  dl_symbol :: addr

definition zero_module_info :: artik_module_info where
  "zero_module_info = \<lparr>mod_name = None, dl_handle = 0, dl_symbol = 0\<rparr>"

record loader =
  requested_modules :: "artik_module_info tab"
  artik_platform_id :: int

definition fresh_loader :: loader where
  "fresh_loader = \<lparr>requested_modules = [], artik_platform_id = -1\<rparr>"

text \<open>The pointer all ones.\<close>

definition INVALID_MODULE :: addr where
  "INVALID_MODULE = 4294967295"

subsection \<open>The modules of the boards\<close>

record artik_api_module =
  api_id :: nat
  api_name :: string
  api_object :: string

text \<open>The entry of null pointers that ends a table is left out: the loops stop where the list does. The
  five boards have the same entries.\<close>

definition artik_api_generic_modules :: "artik_api_module list" where
  "artik_api_generic_modules = map (\<lambda>(n, name, object). \<lparr>api_id = n, api_name = name, api_object = object\<rparr>)
    [(0, ''log'', ''base''), (1, ''loop'', ''base''), (2, ''gpio'', ''systemio''), (3, ''i2c'', ''systemio''),
     (4, ''serial'', ''systemio''), (5, ''pwm'', ''systemio''), (6, ''adc'', ''systemio''),
     (7, ''http'', ''connectivity''), (8, ''cloud'', ''connectivity''), (9, ''wifi'', ''wifi''),
     (10, ''media'', ''media''), (11, ''time'', ''base''), (12, ''security'', ''connectivity''),
     (13, ''spi'', ''systemio''), (14, ''bluetooth'', ''bluetooth''), (15, ''sensor'', ''sensor''),
     (16, ''zigbee'', ''zigbee''), (17, ''network'', ''connectivity''), (18, ''websocket'', ''connectivity''),
     (19, ''lwm2m'', ''lwm2m''), (20, ''mqtt'', ''mqtt'')]"

definition artik_api_a520_modules :: "artik_api_module list" where
  "artik_api_a520_modules = artik_api_generic_modules"
definition artik_api_a1020_modules :: "artik_api_module list" where
  "artik_api_a1020_modules = artik_api_generic_modules"
definition artik_api_a710_modules :: "artik_api_module list" where
  "artik_api_a710_modules = artik_api_generic_modules"
definition artik_api_a530_modules :: "artik_api_module list" where
  "artik_api_a530_modules = artik_api_generic_modules"

definition artik_api_modules :: "artik_api_module list list" where
  "artik_api_modules = [artik_api_generic_modules, artik_api_a520_modules, artik_api_a1020_modules,
     artik_api_a710_modules, artik_api_a530_modules]"

definition artik_platform_name :: "string list" where
  "artik_platform_name = [''Generic'', ''ARTIK 520'', ''ARTIK 1020'', ''ARTIK 710'', ''ARTIK 530'', ''ARTIK 053'']"

subsection \<open>Which board is this?\<close>

text \<open>\<^verbatim>\<open>strstr\<close> and \<^verbatim>\<open>strncmp\<close> on strings without a NUL.\<close>

definition starts_with :: "string \<Rightarrow> string \<Rightarrow> bool" where
  "starts_with s p \<longleftrightarrow> take (length p) s = p"

fun strstr :: "string \<Rightarrow> string \<Rightarrow> bool" where
  "strstr [] p = (p = [])"
| "strstr (c # s) p = (starts_with (c # s) p \<or> strstr s p)"

definition string_of :: "bytes \<Rightarrow> string" where
  "string_of bs = map (\<lambda>b. char_of (unat b)) (takeWhile (\<lambda>b. b \<noteq> 0) bs)"

definition platform_of :: "string \<Rightarrow> int" where
  "platform_of line =
     (if strstr line ''ARTIK5'' then 1
      else if strstr line ''ARTIK10'' then 2
      else if strstr line ''artik710'' then 3
      else if strstr line ''artik530'' then 4
      else 0)"

definition os_get_platform :: "loader \<Rightarrow> world \<Rightarrow> int \<times> loader \<times> world" where
  "os_get_platform l w =
     (if 0 \<le> artik_platform_id l then (artik_platform_id l, l, w)
      else let (f, w1) = xc (Fopen ''/proc/device-tree/model'' ''re'') w
           in if retv f = 0 then (-1, l, w1)
              else let (r, w2) = xc (Fgets (nat (retv f)) 256) w1;
                       l1 = (if retv r \<noteq> 0
                             then l\<lparr>artik_platform_id := platform_of (string_of (take 255 (outb r)))\<rparr> else l)
                   in (artik_platform_id l1, l1, xcu (Fclose (nat (retv f))) w2))"

text \<open>The table of the board; every index outside the array is one.\<close>

definition modules_of :: "int \<Rightarrow> artik_api_module list outcome" where
  "modules_of p =
     (if 0 \<le> p \<and> p < int (length artik_api_modules) then Ret (artik_api_modules ! nat p) else Ub OutOfBounds)"

definition os_get_platform_name :: "bool \<Rightarrow> loader \<Rightarrow> world \<Rightarrow> (artik_error \<times> string option \<times> loader \<times> world) outcome" where
  "os_get_platform_name name l w =
     (let (p, l1, w1) = os_get_platform l w
      in if \<not> name then Ret (E_BAD_ARGS, None, l1, w1)
         else if 0 \<le> p \<and> p < int (length artik_platform_name)
         then Ret (S_OK, Some (take 64 (artik_platform_name ! nat p)), l1, w1) else Ub OutOfBounds)"

definition os_get_available_modules ::
  "bool \<Rightarrow> loader \<Rightarrow> world \<Rightarrow> (artik_error \<times> artik_api_module list option \<times> loader \<times> world) outcome" where
  "os_get_available_modules args l w =
     (let (p, l1, w1) = os_get_platform l w
      in if \<not> args then Ret (E_BAD_ARGS, None, l1, w1)
         else obind (modules_of p) (\<lambda>ms. Ret (S_OK, Some ms, l1, w1)))"

definition os_is_module_available :: "nat \<Rightarrow> loader \<Rightarrow> world \<Rightarrow> (bool \<times> loader \<times> world) outcome" where
  "os_is_module_available n l w =
     (let (p, l1, w1) = os_get_platform l w
      in obind (modules_of p) (\<lambda>ms. Ret (\<exists>m\<in>set ms. api_id m = n, l1, w1)))"

subsection \<open>Requesting a module\<close>

text \<open>\<^verbatim>\<open>artik_compare_module_name\<close> looks for nodes whose name begins with the one asked for,
  from the head of the list on.\<close>

fun find_by_name :: "string \<Rightarrow> artik_module_info tab \<Rightarrow> artik_module_info option outcome" where
  "find_by_name target [] = Ret None"
| "find_by_name target ((a, n) # t) =
     (case mod_name n of
        None \<Rightarrow> Ub NullDeref
      | Some (_, s) \<Rightarrow> if starts_with s target then Ret (Some n) else find_by_name target t)"

definition lib_path :: "nat \<times> nat \<times> nat \<Rightarrow> string \<Rightarrow> string" where
  "lib_path version object = (case version of (a, b, c) \<Rightarrow>
     take 1023 (''libartik-sdk-'' @ object @ ''.so.'' @ nat_str a @ ''.'' @ nat_str b @ ''.'' @ nat_str c))"

text \<open>What follows the label \<^verbatim>\<open>exit\<close>: the node gets the name (a new block if there is none yet).\<close>

definition fill_module_node ::
  "addr \<Rightarrow> string \<Rightarrow> (addr \<times> string) option \<Rightarrow> addr \<Rightarrow> addr \<Rightarrow> loader \<Rightarrow> world \<Rightarrow> addr \<times> loader \<times> world" where
  "fill_module_node m name old_name handle symbol l w =
     (let (p, w1) = (case old_name of
                       Some p \<Rightarrow> (Some p, w)
                     | None \<Rightarrow> let (a, w1) = xc (Malloc (length name + 1)) w
                               in (if retv a = 0 then None else Some (nat (retv a), name), w1))
      in case p of
           None \<Rightarrow> (INVALID_MODULE, l, w1)
         | Some q \<Rightarrow>
             (symbol,
              l\<lparr>requested_modules := tab_set m \<lparr>mod_name = Some q, dl_handle = handle, dl_symbol = symbol\<rparr>
                                       (requested_modules l)\<rparr>, w1))"

text \<open>The body of the loop for the entry of the table that has the name.\<close>

definition load_module ::
  "nat \<times> nat \<times> nat \<Rightarrow> addr \<Rightarrow> string \<Rightarrow> string \<Rightarrow> loader \<Rightarrow> world \<Rightarrow> (addr \<times> loader \<times> world) outcome" where
  "load_module version m name object l w =
     obind (find_by_name name (requested_modules l)) (\<lambda>node.
       if m = 0 then Ret (INVALID_MODULE, l, w)
       else let l1 = l\<lparr>requested_modules := tab_add (requested_modules l) m zero_module_info\<rparr>;
                old = (case node of None \<Rightarrow> zero_module_info | Some n \<Rightarrow> n)
            in if dl_handle old \<noteq> 0
               then Ret (fill_module_node m name (mod_name old) (dl_handle old) (dl_symbol old) l1 w)
               else let (h, w1) = xc (Dlopen (lib_path version object)) w
                    in if retv h = 0 then Ret (INVALID_MODULE, l1, w1)
                       else let (s, w2) = xc (Dlsym (nat (retv h)) (take 1023 (name @ ''_module''))) w1
                            in if errno s \<noteq> 0 then Ret (INVALID_MODULE, l1, w2)
                               else Ret (fill_module_node m name (mod_name old) (nat (retv h))
                                           (nat (retv s)) l1 w2))"

definition os_request_api_module ::
  "nat \<times> nat \<times> nat \<Rightarrow> addr \<Rightarrow> string option \<Rightarrow> loader \<Rightarrow> world \<Rightarrow> (addr \<times> loader \<times> world) outcome" where
  "os_request_api_module version m name l w =
     (let (p, l1, w1) = os_get_platform l w
      in case name of
           None \<Rightarrow> Ret (INVALID_MODULE, l1, w1)
         | Some s \<Rightarrow>
             obind (modules_of p) (\<lambda>ms.
               case List.find (\<lambda>e. take 32 (api_name e) = take 32 s) ms of
                 None \<Rightarrow> Ret (0, l1, w1)
               | Some e \<Rightarrow> load_module version m s (api_object e) l1 w1))"

subsection \<open>Releasing a module\<close>

text \<open>\<^verbatim>\<open>artik_compare_module_ops\<close> compares the first pointers of two tables of functions;
  \<open>first\<close> is what is stored at an address.\<close>

fun find_by_ops :: "(addr \<Rightarrow> u32) \<Rightarrow> addr \<Rightarrow> artik_module_info tab \<Rightarrow> (addr \<times> artik_module_info) option outcome" where
  "find_by_ops first target [] = Ret None"
| "find_by_ops first target ((a, n) # t) =
     (if dl_symbol n = 0 \<or> target = 0 then Ub NullDeref
      else if first (dl_symbol n) = first target then Ret (Some (a, n)) else find_by_ops first target t)"

definition os_release_api_module ::
  "(addr \<Rightarrow> u32) \<Rightarrow> addr \<Rightarrow> loader \<Rightarrow> world \<Rightarrow> (artik_error \<times> loader \<times> world) outcome" where
  "os_release_api_module first target l w =
     obind (find_by_ops first target (requested_modules l)) (\<lambda>node.
       case node of
         None \<Rightarrow> Ret (E_BAD_ARGS, l, w)
       | Some (a, n) \<Rightarrow>
           let l1 = l\<lparr>requested_modules := tab_delete_node a (requested_modules l)\<rparr>
           in obind (find_by_ops first target (requested_modules l1)) (\<lambda>other.
                case other of
                  Some _ \<Rightarrow> Ret (S_OK, l1, w)
                | None \<Rightarrow>
                    Ret (S_OK, l1, xcu (Dlclose (dl_handle n))
                      (case mod_name n of None \<Rightarrow> w | Some (p, _) \<Rightarrow> xcu (Free p) w))))"

subsection \<open>Describing the device\<close>

text \<open>A string in a buffer of \<open>room\<close> bytes, with its NUL.\<close>

definition strncat :: "nat \<Rightarrow> string \<Rightarrow> string \<Rightarrow> nat \<Rightarrow> string outcome" where
  "strncat room s t n =
     (let r = s @ take n t in if length r < room then Ret r else Ub OutOfBounds)"

definition platform_label :: "int \<Rightarrow> string" where
  "platform_label p = (if p = 1 then ''ARTIK520'' else if p = 2 then ''ARTIK1020'' else if p = 3 then ''ARTIK710''
     else if p = 4 then ''ARTIK530'' else ''GENERIC'')"

definition json_tab :: string where "json_tab = [CHR 0x09]"
definition json_nl :: string where "json_nl = [CHR 0x0A]"
definition json_quote :: string where "json_quote = [CHR 0x22]"

definition json_header :: string where "json_header = ''{'' @ json_nl"
definition json_tail :: string where "json_tail = json_nl @ ''}''"

definition platform_info :: "string \<Rightarrow> string" where
  "platform_info s = json_tab @ json_quote @ ''name'' @ json_quote @ '': '' @ json_quote @ s @ json_quote @ '','' @ json_nl"

definition modules_header :: string where
  "modules_header = json_tab @ json_quote @ ''modules'' @ json_quote @ '':['' @ json_nl"

definition modules_tail :: string where "modules_tail = json_tab @ '']'' @ json_nl"

definition modules_info :: "string \<Rightarrow> string" where
  "modules_info s = json_tab @ json_quote @ s @ json_quote @ '','' @ json_nl"

text \<open>The loop that copies the names of the modules, each in its line; nothing if a block was refused.\<close>

fun add_modules ::
  "(string \<Rightarrow> string) \<Rightarrow> nat \<Rightarrow> nat \<Rightarrow> artik_api_module list \<Rightarrow> string \<Rightarrow> world \<Rightarrow> (string option \<times> world) outcome" where
  "add_modules line room len [] s w = Ret (Some s, w)"
| "add_modules line room len (m # ms) s w =
     (let (a, w1) = xc (Malloc len) w
      in if retv a = 0 then Ret (None, w1)
         else obind (strncat room s (take (len - 1) (line (api_name m))) len) (\<lambda>s1.
                add_modules line room len ms s1 (xcu (Free (nat (retv a))) w1)))"

text \<open>The comma of the last line becomes its end, and its end is cut off.\<close>

definition cut_comma :: "string \<Rightarrow> string outcome" where
  "cut_comma s = (if length s < 2 then Ub OutOfBounds else Ret (butlast (s[length s - 2 := CHR 0x0A])))"

text \<open>The string built in the block of \<open>room\<close> bytes, up to the modules; nothing if another block was
  refused.\<close>

definition device_json ::
  "(string \<Rightarrow> string) \<Rightarrow> nat \<Rightarrow> nat \<Rightarrow> nat \<Rightarrow> string \<Rightarrow> artik_api_module list \<Rightarrow> world \<Rightarrow> (string option \<times> world) outcome" where
  "device_json line room plat_len mod_len name modules w =
     obind (strncat room [] json_header (length json_header)) (\<lambda>s1.
       let (e, w1) = xc (Malloc plat_len) w
       in if retv e = 0 then Ret (None, w1)
          else obind (strncat room s1 (take (plat_len - 1) (platform_info name)) plat_len) (\<lambda>s2.
               obind (strncat room s2 modules_header (length modules_header)) (\<lambda>s3.
                 add_modules line room mod_len modules s3 (xcu (Free (nat (retv e))) w1))))"

text \<open>The block, and the string in it.\<close>

definition os_get_device_info :: "loader \<Rightarrow> world \<Rightarrow> ((addr \<times> string) option \<times> loader \<times> world) outcome" where
  "os_get_device_info l w =
     (let (p, l1, w1) = os_get_platform l w
      in obind (os_get_available_modules True l1 w1) (\<lambda>(_, ms, l2, w2).
           let modules = the ms;
               plat_len = length (platform_info ''%s'') + 10;
               mod_len = length (modules_info ''%s'') + 10;
               room = plat_len + mod_len * length modules + length json_header + length json_tail
                 + length modules_header + length modules_tail + 1;
               (j, w3) = xc (Malloc room) w2
           in if retv j = 0 then Ret (None, l2, w3)
              else obind (device_json modules_info room plat_len mod_len (platform_label p) modules w3) (\<lambda>(s, w4).
                     case s of
                       None \<Rightarrow> Ret (None, l2, xcu (Free (nat (retv j))) w4)
                     | Some s1 \<Rightarrow>
                         obind (cut_comma s1) (\<lambda>s2.
                         obind (strncat room s2 modules_tail (length modules_tail)) (\<lambda>s3.
                         obind (strncat room s3 json_tail (length json_tail)) (\<lambda>s4.
                           Ret (Some (nat (retv j), s4), l2, w4)))))))"

subsection \<open>The version\<close>

record artik_api_version =
  v_major :: nat
  v_minor :: nat
  v_patch :: nat
  v_version :: string

definition MAX_VERSION_STRING :: nat where "MAX_VERSION_STRING = 16"

text \<open>\<open>args\<close> says whether the pointer of the caller is not null.\<close>

definition os_get_api_version :: "nat \<times> nat \<times> nat \<Rightarrow> bool \<Rightarrow> artik_error \<times> artik_api_version option" where
  "os_get_api_version version args =
     (if \<not> args then (E_BAD_ARGS, None)
      else case version of (a, b, c) \<Rightarrow>
        (S_OK, Some \<lparr>v_major = a, v_minor = b, v_patch = c,
           v_version = take (MAX_VERSION_STRING - 1) (nat_str a @ ''.'' @ nat_str b @ ''.'' @ nat_str c)\<rparr>))"

subsection \<open>The front end, \<^verbatim>\<open>artik_module.c\<close>\<close>

definition artik_get_api_version :: "nat \<times> nat \<times> nat \<Rightarrow> bool \<Rightarrow> artik_error \<times> artik_api_version option" where
  "artik_get_api_version version args = os_get_api_version version args"

definition artik_request_api_module ::
  "nat \<times> nat \<times> nat \<Rightarrow> addr \<Rightarrow> string option \<Rightarrow> loader \<Rightarrow> world \<Rightarrow> (addr \<times> loader \<times> world) outcome" where
  "artik_request_api_module version m name l w = os_request_api_module version m name l w"

definition artik_release_api_module ::
  "(addr \<Rightarrow> u32) \<Rightarrow> addr \<Rightarrow> loader \<Rightarrow> world \<Rightarrow> (artik_error \<times> loader \<times> world) outcome" where
  "artik_release_api_module first target l w = os_release_api_module first target l w"

definition artik_get_platform :: "loader \<Rightarrow> world \<Rightarrow> int \<times> loader \<times> world" where
  "artik_get_platform l w = os_get_platform l w"

definition artik_get_platform_name :: "bool \<Rightarrow> loader \<Rightarrow> world \<Rightarrow> (artik_error \<times> string option \<times> loader \<times> world) outcome" where
  "artik_get_platform_name name l w = os_get_platform_name name l w"

definition artik_get_available_modules ::
  "bool \<Rightarrow> loader \<Rightarrow> world \<Rightarrow> (artik_error \<times> artik_api_module list option \<times> loader \<times> world) outcome" where
  "artik_get_available_modules args l w = os_get_available_modules args l w"

definition artik_is_module_available :: "nat \<Rightarrow> loader \<Rightarrow> world \<Rightarrow> (bool \<times> loader \<times> world) outcome" where
  "artik_is_module_available n l w = os_is_module_available n l w"

definition artik_get_device_info :: "loader \<Rightarrow> world \<Rightarrow> ((addr \<times> string) option \<times> loader \<times> world) outcome" where
  "artik_get_device_info l w = os_get_device_info l w"

subsection \<open>TizenRT, \<^verbatim>\<open>tinyara_module.c\<close>\<close>

text \<open>
  Modules are linked in: an entry of the table points to the table of functions, which is named here.
  \<open>artik053\<close> says whether the system is built for that board. The last entry has the identifier all
  ones, for an enumeration without negative values is an unsigned number.
\<close>

definition artik_api_a05x_modules :: "artik_api_module list" where
  "artik_api_a05x_modules = map (\<lambda>(n, name, object). \<lparr>api_id = n, api_name = name, api_object = object\<rparr>)
    [(6, ''adc'', ''adc_module''), (2, ''gpio'', ''gpio_module''), (3, ''i2c'', ''i2c_module''),
     (4, ''serial'', ''serial_module''), (5, ''pwm'', ''pwm_module''), (13, ''spi'', ''spi_module''),
     (17, ''network'', ''network_module''), (18, ''websocket'', ''websocket_module''),
     (7, ''http'', ''http_module''), (8, ''cloud'', ''cloud_module''), (12, ''security'', ''security_module''),
     (9, ''wifi'', ''wifi_module''), (19, ''lwm2m'', ''lwm2m_module''), (11, ''time'', ''time_module'')]"

text \<open>The boards that TizenRT knows, and what is done for the one the system runs on. One more entry ends
  the table.\<close>

definition tinyara_platforms :: "(int \<times> artik_api_module list) list" where
  "tinyara_platforms = [(5, artik_api_a05x_modules)]"

definition tinyara_get_platform :: "bool \<Rightarrow> int" where
  "tinyara_get_platform artik053 = (if artik053 then 5 else -1)"

fun tinyara_request_loop :: "int \<Rightarrow> string \<Rightarrow> (int \<times> artik_api_module list) list \<Rightarrow> string option \<Rightarrow> string option" where
  "tinyara_request_loop p name [] ops = ops"
| "tinyara_request_loop p name ((q, ms) # plats) ops =
     tinyara_request_loop p name plats
       (if q = p
        then case List.find (\<lambda>m. take 32 (api_name m) = take 32 name) ms of
               None \<Rightarrow> ops | Some m \<Rightarrow> Some (api_object m)
        else ops)"

definition tinyara_request_api_module :: "bool \<Rightarrow> string option \<Rightarrow> string option" where
  "tinyara_request_api_module artik053 name =
     (case name of
        None \<Rightarrow> None
      | Some s \<Rightarrow> if tinyara_get_platform artik053 = -1 then None
                  else tinyara_request_loop (tinyara_get_platform artik053) s tinyara_platforms None)"

fun tinyara_release_loop ::
  "int \<Rightarrow> string option \<Rightarrow> (int \<times> artik_api_module list) list \<Rightarrow> artik_error \<Rightarrow> artik_error" where
  "tinyara_release_loop p ops [] r = r"
| "tinyara_release_loop p ops ((q, ms) # plats) r =
     tinyara_release_loop p ops plats
       (if q = p \<and> (\<exists>m\<in>set ms. Some (api_object m) = ops) then S_OK else r)"

definition tinyara_release_api_module :: "bool \<Rightarrow> string option \<Rightarrow> artik_error" where
  "tinyara_release_api_module artik053 ops =
     (if tinyara_get_platform artik053 = -1 then E_NOT_SUPPORTED
      else tinyara_release_loop (tinyara_get_platform artik053) ops tinyara_platforms E_BAD_ARGS)"

definition tinyara_get_platform_name :: "bool \<Rightarrow> bool \<Rightarrow> (artik_error \<times> string option) outcome" where
  "tinyara_get_platform_name artik053 name =
     (let p = tinyara_get_platform artik053
      in if \<not> name then Ret (E_BAD_ARGS, None)
         else if p = -1 then Ret (E_NOT_SUPPORTED, None)
         else if nat p < length artik_platform_name then Ret (S_OK, Some (take 64 (artik_platform_name ! nat p)))
         else Ub OutOfBounds)"

text \<open>What the pointers of the caller receive; the last board of the table that matches counts.\<close>

definition tinyara_get_available_modules :: "bool \<Rightarrow> bool \<Rightarrow> artik_error \<times> artik_api_module list option" where
  "tinyara_get_available_modules artik053 args =
     (let p = tinyara_get_platform artik053
      in if \<not> args then (E_BAD_ARGS, None)
         else if p = -1 then (E_NOT_SUPPORTED, None)
         else (S_OK, fold (\<lambda>(q, ms) r. if q = p then Some ms else r) tinyara_platforms None))"

text \<open>The condition of the loop compares an unsigned number with zero, so that it goes past the last entry.\<close>

fun tinyara_scan :: "nat \<Rightarrow> nat list \<Rightarrow> bool outcome" where
  "tinyara_scan i [] = Ub OutOfBounds"
| "tinyara_scan i (k # ks) = (if k = i then Ret True else tinyara_scan i ks)"

fun tinyara_available_loop :: "int \<Rightarrow> nat \<Rightarrow> (int \<times> artik_api_module list) list \<Rightarrow> bool outcome" where
  "tinyara_available_loop p i [] = Ret False"
| "tinyara_available_loop p i ((q, ms) # plats) =
     (if q = p then tinyara_scan i (map api_id ms @ [4294967295]) else tinyara_available_loop p i plats)"

definition tinyara_is_module_available :: "bool \<Rightarrow> nat \<Rightarrow> bool outcome" where
  "tinyara_is_module_available artik053 i =
     (if tinyara_get_platform artik053 = -1 then Ret False
      else tinyara_available_loop (tinyara_get_platform artik053) i tinyara_platforms)"

text \<open>A build without the macros of the version leaves the fields as they are.\<close>

definition tinyara_get_api_version ::
  "(nat \<times> nat \<times> nat) option \<Rightarrow> artik_api_version option \<Rightarrow> artik_error \<times> artik_api_version option" where
  "tinyara_get_api_version version v =
     (if v = None then (E_BAD_ARGS, None)
      else case version of None \<Rightarrow> (S_OK, v) | Some n \<Rightarrow> os_get_api_version n True)"

definition tinyara_modules_tail :: string where "tinyara_modules_tail = modules_tail @ ''}''"

definition tinyara_modules_info :: "string \<Rightarrow> string" where
  "tinyara_modules_info s = json_tab @ modules_info s"

definition tinyara_get_device_info :: "bool \<Rightarrow> world \<Rightarrow> ((addr \<times> string) option \<times> world) outcome" where
  "tinyara_get_device_info artik053 w =
     (let p = tinyara_get_platform artik053
      in if p = -1 then Ret (None, w)
         else case snd (tinyara_get_available_modules artik053 True) of
           None \<Rightarrow> Ub NullDeref
         | Some modules \<Rightarrow>
             let plat_len = length (platform_info ''%s'') + 10;
                 mod_len = length (tinyara_modules_info ''%s'') + 10;
                 room = plat_len + mod_len * length modules + length json_header
                   + length modules_header + length tinyara_modules_tail + 1;
                 (j, w1) = xc (Malloc room) w
             in if retv j = 0 then Ret (None, w1)
                else obind (device_json tinyara_modules_info room plat_len mod_len (artik_platform_name ! nat p)
                         modules w1) (\<lambda>(s, w2).
                       case s of
                         None \<Rightarrow> Ret (None, xcu (Free (nat (retv j))) w2)
                       | Some s1 \<Rightarrow>
                           obind (cut_comma s1) (\<lambda>s2.
                           obind (strncat room s2 tinyara_modules_tail (length tinyara_modules_tail)) (\<lambda>s3.
                             Ret (Some (nat (retv j), s3), w2)))))"

end
