(* ===== verification/ModuleLoaderProps.thy ===== *)
theory ModuleLoaderProps
  imports ModuleLoader "HOL-Library.Multiset"
begin

section \<open>The module loader: what its properties are\<close>

text \<open>
  The nodes of the loader are a multiset of names: a request adds one, a release takes one away, and
  the shared object is opened with the first and closed with the last. The other properties are about
  what a failed request leaves behind, and about the text that describes the device.
\<close>

subsection \<open>Counting requests\<close>

definition module_names :: "string set" where
  "module_names = api_name ` set artik_api_generic_modules"

definition node_name :: "artik_module_info \<Rightarrow> string" where
  "node_name n = (case mod_name n of None \<Rightarrow> [] | Some (p, s) \<Rightarrow> s)"

text \<open>The abstract state.\<close>

definition loaded :: "loader \<Rightarrow> string multiset" where
  "loaded l = mset (map (\<lambda>x. node_name (snd x)) (requested_modules l))"

text \<open>\<open>tbl\<close> is where the shared objects hold their tables; \<open>first\<close> tells tables apart.\<close>

definition complete_node :: "(string \<Rightarrow> addr) \<Rightarrow> artik_module_info \<Rightarrow> bool" where
  "complete_node tbl n \<longleftrightarrow> mod_name n \<noteq> None \<and> node_name n \<in> module_names
     \<and> dl_symbol n = tbl (node_name n) \<and> dl_handle n \<noteq> 0"

definition loader_ok :: "(string \<Rightarrow> addr) \<Rightarrow> loader \<Rightarrow> bool" where
  "loader_ok tbl l \<longleftrightarrow> artik_platform_id l < 5 \<and> distinct (map fst (requested_modules l))
     \<and> (\<forall>x\<in>set (requested_modules l). complete_node tbl (snd x))
     \<and> (\<forall>x\<in>set (requested_modules l). \<forall>y\<in>set (requested_modules l).
          node_name (snd x) = node_name (snd y) \<longrightarrow> snd x = snd y)"

definition tables_apart :: "(addr \<Rightarrow> u32) \<Rightarrow> (string \<Rightarrow> addr) \<Rightarrow> bool" where
  "tables_apart first tbl \<longleftrightarrow> (\<forall>s\<in>module_names. tbl s \<noteq> 0) \<and> inj_on (\<lambda>s. first (tbl s)) module_names"

text \<open>The dynamic linker finds every module, and memory does not run out.\<close>

definition links :: "(string \<Rightarrow> addr) \<Rightarrow> (xcall list \<Rightarrow> xcall \<Rightarrow> answer) \<Rightarrow> bool" where
  "links tbl e \<longleftrightarrow> (\<forall>h n. 0 < retv (e h (Malloc n))) \<and> (\<forall>h path. 0 < retv (e h (Dlopen path)))
     \<and> (\<forall>h a. \<forall>s\<in>module_names. retv (e h (Dlsym a (s @ ''_module''))) = int (tbl s) \<and> errno (e h (Dlsym a (s @ ''_module''))) = 0)"

lemma module_names_eq:
  "module_names = {''log'', ''loop'', ''gpio'', ''i2c'', ''serial'', ''pwm'', ''adc'', ''http'', ''cloud'', ''wifi'',
     ''media'', ''time'', ''security'', ''spi'', ''bluetooth'', ''sensor'', ''zigbee'', ''network'', ''websocket'',
     ''lwm2m'', ''mqtt''}"
  by (simp add: module_names_def artik_api_generic_modules_def)

text \<open>No name of a module begins with the name of another, and none is cut.\<close>

lemma names_prefix_free: "\<forall>s\<in>module_names. \<forall>t\<in>module_names. starts_with s t \<longrightarrow> s = t"
  unfolding module_names_eq starts_with_def by simp

lemma names_short: "\<forall>s\<in>module_names. length s < 12"
  unfolding module_names_eq by simp

lemma platform_of_bounds: "0 \<le> platform_of s" "platform_of s < 5"
  by (simp_all add: platform_of_def)

lemma os_get_platform_frame:
  assumes "os_get_platform l w = (p, l', w')"
  shows "requested_modules l' = requested_modules l \<and> env w' = env w \<and> (0 \<le> p \<longrightarrow> p = artik_platform_id l')
    \<and> (artik_platform_id l < 5 \<longrightarrow> artik_platform_id l' < 5)"
  using assms platform_of_bounds
  by (auto simp: os_get_platform_def case_prod_beta Let_def split: if_splits)

lemma modules_of_board: "0 \<le> p \<Longrightarrow> p < 5 \<Longrightarrow> modules_of p = Ret artik_api_generic_modules"
  by (auto simp: modules_of_def artik_api_modules_def artik_api_a520_modules_def artik_api_a1020_modules_def
      artik_api_a710_modules_def artik_api_a530_modules_def nth_Cons split: nat.split)

lemma find_entry:
  assumes "s \<in> module_names"
  obtains e where "List.find (\<lambda>e. take 32 (api_name e) = take 32 s) artik_api_generic_modules = Some e"
    "api_name e = s"
proof (cases "List.find (\<lambda>e. take 32 (api_name e) = take 32 s) artik_api_generic_modules")
  case None
  with assms show ?thesis by (auto simp: find_None_iff_set module_names_def)
next
  case (Some e)
  from find_SomeD [OF this] have "e \<in> set artik_api_generic_modules" "take 32 (api_name e) = take 32 s" by auto
  with names_short assms have "api_name e = s" unfolding module_names_def by force
  with Some show ?thesis by (rule that)
qed

lemma find_by_name_complete:
  assumes "\<forall>x\<in>set t. complete_node tbl (snd x)" and "s \<in> module_names"
  shows "find_by_name s t = Ret (map_option snd (List.find (\<lambda>x. node_name (snd x) = s) t))"
  using assms(1)
proof (induction t)
  case (Cons x t)
  obtain a n where x: "x = (a, n)" by (cases x)
  with Cons.prems obtain p where n: "mod_name n = Some (p, node_name n)" "node_name n \<in> module_names"
    by (auto simp: complete_node_def node_name_def)
  have "starts_with (node_name n) s \<longleftrightarrow> node_name n = s"
    using names_prefix_free n(2) assms(2) by (auto simp: starts_with_def)
  with Cons n(1) x show ?case by (simp split: option.splits)
qed simp

lemma find_by_ops_complete:
  assumes "\<forall>x\<in>set t. complete_node tbl (snd x)" and "tables_apart first tbl" and "s \<in> module_names"
  shows "find_by_ops first (tbl s) t = Ret (List.find (\<lambda>x. node_name (snd x) = s) t)"
  using assms(1)
proof (induction t)
  case (Cons x t)
  obtain a n where x: "x = (a, n)" by (cases x)
  with Cons.prems have n: "dl_symbol n = tbl (node_name n)" "node_name n \<in> module_names"
    by (auto simp: complete_node_def)
  have "first (tbl (node_name n)) = first (tbl s) \<longleftrightarrow> node_name n = s"
    using assms(2,3) n(2) by (auto simp: tables_apart_def inj_on_def)
  with Cons n x assms(2,3) show ?case by (simp add: tables_apart_def)
qed simp

lemma find_in_loaded: "List.find (\<lambda>x. node_name (snd x) = s) (requested_modules l) = None \<longleftrightarrow> s \<notin># loaded l"
  by (auto simp: find_None_iff_set loaded_def)

lemma complete_new_node [simp]:
  "complete_node tbl \<lparr>mod_name = Some (p, s), dl_handle = h, dl_symbol = y\<rparr>
     \<longleftrightarrow> s \<in> module_names \<and> y = tbl s \<and> h \<noteq> 0"
  "node_name \<lparr>mod_name = Some (p, s), dl_handle = h, dl_symbol = y\<rparr> = s"
  by (auto simp: complete_node_def node_name_def)

lemma loader_ok_add:
  assumes "loader_ok tbl l" and "m \<notin> fst ` set (requested_modules l)" and "complete_node tbl n"
    and "\<forall>x\<in>set (requested_modules l). node_name (snd x) = node_name n \<longrightarrow> snd x = n"
  shows "loader_ok tbl (l\<lparr>requested_modules := requested_modules l @ [(m, n)]\<rparr>)"
  using assms by (auto simp: loader_ok_def)

text \<open>The calls of a first request and of a last release.\<close>

definition load_calls :: "nat \<times> nat \<times> nat \<Rightarrow> string \<Rightarrow> xcall list \<Rightarrow> bool" where
  "load_calls version s cs \<longleftrightarrow> (\<exists>path h. cs = [Dlopen path, Dlsym h (s @ ''_module''), Malloc (length s + 1)])"

lemma load_module_counts:
  assumes ok: "loader_ok tbl l" and "links tbl (env w)" and s: "s \<in> module_names"
    and m: "m \<noteq> 0" "m \<notin> fst ` set (requested_modules l)"
  shows "\<exists>l' w' cs. load_module version m s object l w = Ret (tbl s, l', w') \<and> loader_ok tbl l'
     \<and> loaded l' = add_mset s (loaded l) \<and> env w' = env w \<and> hist w' = hist w @ cs
     \<and> (if s \<in># loaded l then cs = [] else load_calls version s cs)"
proof (cases "List.find (\<lambda>x. node_name (snd x) = s) (requested_modules l)")
  case (Some x)
  obtain a n where x: "x = (a, n)" by (cases x)
  from find_SomeD [OF Some] x have n: "(a, n) \<in> set (requested_modules l)" "node_name n = s" by auto
  with ok have c: "complete_node tbl n" by (force simp: loader_ok_def)
  then obtain p where p: "mod_name n = Some p" by (auto simp: complete_node_def)
  have "\<forall>x\<in>set (requested_modules l). node_name (snd x) = s \<longrightarrow> snd x = n"
    using ok n by (force simp: loader_ok_def)
  then have "loader_ok tbl (l\<lparr>requested_modules := requested_modules l @ [(m, n)]\<rparr>)"
    using ok m c n(2) by (intro loader_ok_add) auto
  moreover have "s \<in># loaded l" using Some find_in_loaded [of s l] by auto
  moreover have "find_by_name s (requested_modules l) = Ret (Some n)"
    using find_by_name_complete [of "requested_modules l" tbl s] ok s Some x by (simp add: loader_ok_def)
  moreover have "fill_module_node m s (Some p) (dl_handle n) (tbl s)
      (l\<lparr>requested_modules := tab_add (requested_modules l) m zero_module_info\<rparr>) w
    = (tbl s, l\<lparr>requested_modules := requested_modules l @ [(m, n)]\<rparr>, w)"
    using m(2) p c n(2) by (cases n) (auto simp: fill_module_node_def complete_node_def)
  moreover have "dl_handle n \<noteq> 0" "dl_symbol n = tbl s" using c n(2) by (auto simp: complete_node_def)
  ultimately show ?thesis using m(1) p n(2) by (simp add: load_module_def loaded_def)
next
  case None
  then have new: "s \<notin># loaded l" by (simp add: find_in_loaded)
  let ?w1 = "snd (xc (Dlopen (lib_path version object)) w)"
  let ?h = "nat (retv (env w (hist w) (Dlopen (lib_path version object))))"
  let ?w2 = "snd (xc (Dlsym ?h (s @ ''_module'')) ?w1)"
  let ?p = "nat (retv (env ?w2 (hist ?w2) (Malloc (length s + 1))))"
  let ?n = "\<lparr>mod_name = Some (?p, s), dl_handle = ?h, dl_symbol = tbl s\<rparr>"
  have short: "take 1023 (s @ ''_module'') = s @ ''_module''" using names_short s by force
  have pos: "0 < retv (env w h (Malloc n))" "0 < retv (env w h (Dlopen path))"
    "retv (env w h (Dlsym a (s @ ''_module''))) = int (tbl s)" "errno (env w h (Dlsym a (s @ ''_module''))) = 0"
    for h n path a using assms(2) s by (auto simp: links_def)
  have "\<forall>x\<in>set (requested_modules l). node_name (snd x) \<noteq> s" using None by (auto simp: find_None_iff_set)
  then have "loader_ok tbl (l\<lparr>requested_modules := requested_modules l @ [(m, ?n)]\<rparr>)"
    using ok m s pos(2) [of "hist w" "lib_path version object"] by (intro loader_ok_add) auto
  moreover have found: "find_by_name s (requested_modules l) = Ret None"
    using find_by_name_complete [of "requested_modules l" tbl s] ok s None by (simp add: loader_ok_def)
  moreover have fresh: "m \<notin> fst ` set (requested_modules l)" by (rule m)
  moreover have "load_module version m s object l w = Ret (tbl s, l\<lparr>requested_modules := requested_modules l @ [(m, ?n)]\<rparr>,
      snd (xc (Malloc (length s + 1)) ?w2))"
    using fresh m pos(2) [of "hist w" "lib_path version object"] pos(1) [of "hist ?w2" "length s + 1"]
    by (simp add: load_module_def found fill_module_node_def zero_module_info_def Let_def case_prod_beta short pos(3,4)
        del: hist_xc take_append)
  moreover have "loaded (l\<lparr>requested_modules := requested_modules l @ [(m, ?n)]\<rparr>) = add_mset s (loaded l)"
    by (simp add: loaded_def)
  ultimately show ?thesis using new by (auto simp: load_calls_def)
qed


lemma request_counts:
  assumes ok: "loader_ok tbl l" and "links tbl (env w)" and s: "s \<in> module_names"
    and m: "m \<noteq> 0" "m \<notin> fst ` set (requested_modules l)" and p: "os_get_platform l w = (p, l1, w1)" "0 \<le> p"
  shows "\<exists>l' w' cs. artik_request_api_module version m (Some s) l w = Ret (tbl s, l', w') \<and> loader_ok tbl l'
     \<and> loaded l' = add_mset s (loaded l) \<and> env w' = env w \<and> hist w' = hist w1 @ cs
     \<and> (if s \<in># loaded l then cs = [] else load_calls version s cs)"
proof -
  note f = os_get_platform_frame [OF p(1)]
  have ok1: "loader_ok tbl l1" and same: "loaded l1 = loaded l" and env: "env w1 = env w"
    using f ok by (auto simp: loader_ok_def loaded_def)
  have p5: "p < 5" using f p(2) ok by (auto simp: loader_ok_def)
  obtain e where e: "List.find (\<lambda>e. take 32 (api_name e) = take 32 s) artik_api_generic_modules = Some e"
    using find_entry [OF s] by blast
  have "artik_request_api_module version m (Some s) l w = load_module version m s (api_object e) l1 w1"
    using p e p5 by (simp add: artik_request_api_module_def os_request_api_module_def modules_of_board)
  with load_module_counts [OF ok1, of w1 s m version "api_object e"] assms(2) s m f same env show ?thesis by auto
qed

definition unload_calls :: "xcall list \<Rightarrow> bool" where
  "unload_calls cs \<longleftrightarrow> (\<exists>p h. cs = [Free p, Dlclose h])"

lemma loaded_delete:
  assumes "distinct (map fst (requested_modules l))" and "(a, n) \<in> set (requested_modules l)"
  shows "loaded (l\<lparr>requested_modules := tab_delete_node a (requested_modules l)\<rparr>) = loaded l - {#node_name n#}"
proof -
  have "mset (map (\<lambda>x. node_name (snd x)) (remove_first (\<lambda>x. fst x = a) t))
      = mset (map (\<lambda>x. node_name (snd x)) t) - {#node_name n#}"
    if "distinct (map fst t)" "(a, n) \<in> set t" for t
    using that
  proof (induction t)
    case (Cons x t)
    show ?case
    proof (cases "fst x = a")
      case True
      with Cons.prems have "x = (a, n)" by (force simp: image_iff)
      then show ?thesis by simp
    next
      case False
      with Cons have "node_name n \<in># mset (map (\<lambda>x. node_name (snd x)) t)" by force
      with Cons False show ?thesis by auto
    qed
  qed simp
  from this [OF assms] show ?thesis by (simp add: loaded_def tab_delete_node_def)
qed

lemma loader_ok_delete:
  "loader_ok tbl l \<Longrightarrow> loader_ok tbl (l\<lparr>requested_modules := tab_delete_node a (requested_modules l)\<rparr>)"
proof -
  assume ok: "loader_ok tbl l"
  let ?t = "tab_delete_node a (requested_modules l)"
  have sub: "set ?t \<subseteq> set (requested_modules l)"
    unfolding tab_delete_node_def by (rule set_remove_first_subset)
  have "map fst ?t = remove_first (\<lambda>y. y = a) (map fst (requested_modules l))"
    unfolding tab_delete_node_def by (simp add: map_remove_first [symmetric] comp_def)
  with ok have "distinct (map fst ?t)" by (simp add: loader_ok_def)
  with ok show "loader_ok tbl (l\<lparr>requested_modules := ?t\<rparr>)"
    unfolding loader_ok_def using subsetD [OF sub] by simp
qed

lemma release_counts:
  assumes ok: "loader_ok tbl l" and apart: "tables_apart first tbl" and s: "s \<in> module_names"
  shows "if s \<in># loaded l
     then \<exists>l' w' cs. artik_release_api_module first (tbl s) l w = Ret (S_OK, l', w') \<and> loader_ok tbl l'
       \<and> loaded l' = loaded l - {#s#} \<and> env w' = env w \<and> hist w' = hist w @ cs
       \<and> (if s \<in># loaded l' then cs = [] else unload_calls cs)
     else artik_release_api_module first (tbl s) l w = Ret (E_BAD_ARGS, l, w)"
proof (cases "List.find (\<lambda>x. node_name (snd x) = s) (requested_modules l)")
  case None
  then have "find_by_ops first (tbl s) (requested_modules l) = Ret None"
    using find_by_ops_complete [of "requested_modules l" tbl first s] ok apart s by (simp add: loader_ok_def)
  with None find_in_loaded [of s l] show ?thesis
    by (simp add: artik_release_api_module_def os_release_api_module_def)
next
  case (Some x)
  obtain a n where x: "x = (a, n)" by (cases x)
  from find_SomeD [OF Some] x have n: "(a, n) \<in> set (requested_modules l)" "node_name n = s" by auto
  then have c: "complete_node tbl n" using ok by (force simp: loader_ok_def)
  then obtain q where q: "mod_name n = Some q" by (auto simp: complete_node_def)
  let ?l = "l\<lparr>requested_modules := tab_delete_node a (requested_modules l)\<rparr>"
  have ok': "loader_ok tbl ?l" by (rule loader_ok_delete [OF ok])
  have found: "find_by_ops first (tbl s) (requested_modules l) = Ret (Some (a, n))"
    using find_by_ops_complete [of "requested_modules l" tbl first s] ok apart s Some x by (simp add: loader_ok_def)
  have other: "find_by_ops first (tbl s) (requested_modules ?l)
      = Ret (List.find (\<lambda>x. node_name (snd x) = s) (requested_modules ?l))"
    using find_by_ops_complete [of "requested_modules ?l" tbl first s] ok' apart s by (simp add: loader_ok_def)
  have counts: "loaded ?l = loaded l - {#s#}" using loaded_delete [OF _ n(1)] ok n(2) by (simp add: loader_ok_def)
  have mem: "s \<in># loaded l" using Some find_in_loaded [of s l] by auto
  show ?thesis
  proof (cases "s \<in># loaded ?l")
    case True
    then obtain y where "List.find (\<lambda>x. node_name (snd x) = s) (requested_modules ?l) = Some y"
      using find_in_loaded [of s ?l] by auto
    with found other mem ok' counts True show ?thesis
      by (simp add: artik_release_api_module_def os_release_api_module_def)
  next
    case False
    then have "List.find (\<lambda>x. node_name (snd x) = s) (requested_modules ?l) = None"
      using find_in_loaded [of s ?l] by auto
    with found other mem ok' counts False q show ?thesis
      by (auto simp: artik_release_api_module_def os_release_api_module_def unload_calls_def split: prod.split)
  qed
qed



subsection \<open>Shared objects that are held open\<close>

definition shared_objects :: "world \<Rightarrow> int" where
  "shared_objects w = int (length (filter (\<lambda>c. case c of Dlopen path \<Rightarrow> True | _ \<Rightarrow> False) (hist w)))
     - int (length (filter (\<lambda>c. case c of Dlclose h \<Rightarrow> True | _ \<Rightarrow> False) (hist w)))"

text \<open>What applications make a loader do: requests and releases of the modules of the board, in any order.\<close>

inductive loader_reach :: "nat \<times> nat \<times> nat \<Rightarrow> (addr \<Rightarrow> u32) \<Rightarrow> (string \<Rightarrow> addr) \<Rightarrow> world \<Rightarrow> loader \<Rightarrow> world \<Rightarrow> bool"
  for version first tbl w0 where
  loader_start: "loader_reach version first tbl w0 fresh_loader w0"
| loader_request: "loader_reach version first tbl w0 l w \<Longrightarrow> s \<in> module_names \<Longrightarrow> m \<noteq> 0 \<Longrightarrow>
    m \<notin> fst ` set (requested_modules l) \<Longrightarrow> 0 \<le> fst (os_get_platform l w) \<Longrightarrow>
    artik_request_api_module version m (Some s) l w = Ret (r, l', w') \<Longrightarrow> loader_reach version first tbl w0 l' w'"
| loader_release: "loader_reach version first tbl w0 l w \<Longrightarrow> s \<in> module_names \<Longrightarrow>
    artik_release_api_module first (tbl s) l w = Ret (r, l', w') \<Longrightarrow> loader_reach version first tbl w0 l' w'"

lemma shared_objects_append:
  "hist w' = hist w @ cs \<Longrightarrow> shared_objects w' = shared_objects w
     + int (length (filter (\<lambda>c. case c of Dlopen path \<Rightarrow> True | _ \<Rightarrow> False) cs))
     - int (length (filter (\<lambda>c. case c of Dlclose h \<Rightarrow> True | _ \<Rightarrow> False) cs))"
  by (simp add: shared_objects_def)

lemma os_get_platform_shared: "os_get_platform l w = (p, l', w') \<Longrightarrow> shared_objects w' = shared_objects w"
  by (auto simp: os_get_platform_def case_prod_beta Let_def shared_objects_def split: if_splits)

lemma shared_objects_first: "load_calls v s cs \<Longrightarrow> hist w' = hist w @ cs \<Longrightarrow> shared_objects w' = shared_objects w + 1"
  by (auto simp: load_calls_def shared_objects_append)

lemma shared_objects_last: "unload_calls cs \<Longrightarrow> hist w' = hist w @ cs \<Longrightarrow> shared_objects w' = shared_objects w - 1"
  by (auto simp: unload_calls_def shared_objects_append)

lemma loader_reach_inv:
  assumes "loader_reach version first tbl w0 l w" and "tables_apart first tbl" and "links tbl (env w0)"
  shows "loader_ok tbl l \<and> env w = env w0
    \<and> shared_objects w = shared_objects w0 + int (card (set_mset (loaded l)))"
  using assms(1)
proof (induction)
  case loader_start
  show ?case by (simp add: loader_ok_def fresh_loader_def loaded_def)
next
  case (loader_request l w s m r l' w')
  obtain p l1 w1 where p: "os_get_platform l w = (p, l1, w1)" by (cases "os_get_platform l w")
  from request_counts [OF _ _ loader_request.hyps(2-4) p, of tbl version] loader_request assms p obtain cs where
    r: "loader_ok tbl l'" "loaded l' = add_mset s (loaded l)" "env w' = env w" "hist w' = hist w1 @ cs"
      "if s \<in># loaded l then cs = [] else load_calls version s cs" by auto
  have "shared_objects w' = shared_objects w + (if s \<in># loaded l then 0 else 1)"
    using r(4,5) shared_objects_first [of version s cs w' w1] os_get_platform_shared [OF p]
    by (auto simp: shared_objects_append [of w' w1 cs] split: if_splits)
  with r loader_request.IH show ?case by (simp add: card_insert_if)
next
  case (loader_release l w s r l' w')
  note c = release_counts [of tbl l first s w]
  show ?case
  proof (cases "s \<in># loaded l")
    case True
    with c loader_release assms obtain cs where
      r: "loader_ok tbl l'" "loaded l' = loaded l - {#s#}" "env w' = env w" "hist w' = hist w @ cs"
        "if s \<in># loaded l' then cs = [] else unload_calls cs" by auto
    have "set_mset (loaded l) = insert s (set_mset (loaded l'))"
      using True r(2) by (metis insert_DiffM set_mset_add_mset_insert)
    moreover have "shared_objects w' = shared_objects w - (if s \<in># loaded l' then 0 else 1)"
      using r(4,5) shared_objects_last [of cs w' w] by (auto simp: shared_objects_append [of w' w cs] split: if_splits)
    ultimately show ?thesis using r loader_release.IH by (simp add: card_insert_if)
  next
    case False
    with c loader_release assms show ?thesis by auto
  qed
qed

text \<open>Whatever applications request and release, the shared objects that are open are as many as the modules
  whose count is not zero; none is left when every request was released.\<close>

theorem loader_holds_what_is_used:
  assumes "loader_reach version first tbl w0 l w" and "tables_apart first tbl" and "links tbl (env w0)"
  shows "shared_objects w = shared_objects w0 + int (card (set_mset (loaded l)))
    \<and> (loaded l = {#} \<longrightarrow> requested_modules l = [] \<and> shared_objects w = shared_objects w0)"
  using loader_reach_inv [OF assms] by (simp add: loaded_def)

subsection \<open>After a shared object could not be opened\<close>

lemma find_by_name_poisoned:
  assumes "\<forall>x\<in>set t. complete_node tbl (snd x)" and "s \<in> module_names" and "\<forall>x\<in>set t. node_name (snd x) \<noteq> s"
    and "mod_name n = None"
  shows "find_by_name s (t @ [(m, n)]) = Ub NullDeref"
  using assms(1,3)
proof (induction t)
  case Nil
  then show ?case using assms(4) by simp
next
  case (Cons x t)
  from find_by_name_complete [of "[x]" tbl s] Cons assms(2) show ?case
    by (cases x) (auto split: option.splits if_splits)
qed

lemma find_by_ops_poisoned:
  assumes "\<forall>x\<in>set t. complete_node tbl (snd x)" and "tables_apart first tbl" and "s \<in> module_names"
    and "\<forall>x\<in>set t. node_name (snd x) \<noteq> s" and "dl_symbol n = 0"
  shows "find_by_ops first (tbl s) (t @ [(m, n)]) = Ub NullDeref"
  using assms(1,4)
proof (induction t)
  case Nil
  then show ?case using assms(5) by simp
next
  case (Cons x t)
  from find_by_ops_complete [of "[x]" tbl first s] Cons assms(2,3) show ?case
    by (cases x) (auto split: if_splits)
qed

text \<open>When the shared object of a module cannot be opened, the request fails but leaves a node of null pointers
  behind: from then on every request and every release of a module that was not loaded before reads through
  one of them.\<close>

theorem failed_load_poisons_the_loader:
  assumes ok: "loader_ok tbl l" and "tables_apart first tbl" and s: "s \<in> module_names" and new: "s \<notin># loaded l"
    and m: "m \<noteq> 0" and p: "os_get_platform l w = (p, l1, w1)" "0 \<le> p"
    and fails: "\<And>path. retv (env w (hist w1) (Dlopen path)) = 0"
  shows "\<exists>l' w'. artik_request_api_module version m (Some s) l w = Ret (INVALID_MODULE, l', w')
    \<and> (\<forall>t\<in>module_names. t \<notin># loaded l \<longrightarrow>
         (\<forall>v a u. artik_request_api_module v a (Some t) l' u = Ub NullDeref)
       \<and> (\<forall>u. artik_release_api_module first (tbl t) l' u = Ub NullDeref))"
proof -
  note f = os_get_platform_frame [OF p(1)]
  let ?l = "l1\<lparr>requested_modules := requested_modules l @ [(m, zero_module_info)]\<rparr>"
  have all: "\<forall>x\<in>set (requested_modules l). complete_node tbl (snd x)" using ok by (simp add: loader_ok_def)
  have p5: "p < 5" using f p(2) ok by (auto simp: loader_ok_def)
  obtain e where e: "List.find (\<lambda>e. take 32 (api_name e) = take 32 s) artik_api_generic_modules = Some e"
    using find_entry [OF s] by blast
  have "find_by_name s (requested_modules l) = Ret None"
    using find_by_name_complete [OF all s] new find_in_loaded [of s l] by simp
  then have "\<exists>w'. load_module version m s (api_object e) l1 w1 = Ret (INVALID_MODULE, ?l, w')"
    using f m fails by (simp add: load_module_def zero_module_info_def Let_def case_prod_beta tab_add_def)
  then have request: "\<exists>w'. artik_request_api_module version m (Some s) l w = Ret (INVALID_MODULE, ?l, w')"
    using p e p5 by (simp add: artik_request_api_module_def os_request_api_module_def modules_of_board)
  have "artik_request_api_module v a (Some t) ?l u = Ub NullDeref
      \<and> artik_release_api_module first (tbl t) ?l u = Ub NullDeref"
    if t: "t \<in> module_names" "t \<notin># loaded l" for t v a u
  proof -
    have other: "\<forall>x\<in>set (requested_modules l). node_name (snd x) \<noteq> t"
      using t(2) find_in_loaded [of t l] by (auto simp: find_None_iff_set)
    obtain e where "List.find (\<lambda>e. take 32 (api_name e) = take 32 t) artik_api_generic_modules = Some e"
      using find_entry [OF t(1)] by blast
    moreover have "os_get_platform ?l u = (p, ?l, u)" using f p(2) by (simp add: os_get_platform_def)
    ultimately show ?thesis
      using find_by_name_poisoned [OF all t(1) other] find_by_ops_poisoned [OF all assms(2) t(1) other] p5 p(2)
      by (simp add: artik_request_api_module_def os_request_api_module_def artik_release_api_module_def
          os_release_api_module_def modules_of_board load_module_def zero_module_info_def)
  qed
  with request show ?thesis by blast
qed


subsection \<open>The description of the device\<close>

definition memory_suffices :: "(xcall list \<Rightarrow> xcall \<Rightarrow> answer) \<Rightarrow> bool" where
  "memory_suffices e \<longleftrightarrow> (\<forall>h n. 0 < retv (e h (Malloc n)))"

lemma memory_sufficesD: "memory_suffices e \<Longrightarrow> retv (e h (Malloc n)) \<noteq> 0"
  unfolding memory_suffices_def by (metis less_irrefl)

lemma strncat_fits: "length s + length t < room \<Longrightarrow> strncat room s t (length t) = Ret (s @ t)"
  by (simp add: strncat_def)

lemma strncat_cut_fits: "length s + length t < room \<Longrightarrow> length t < n \<Longrightarrow> strncat room s (take (n - 1) t) n = Ret (s @ t)"
  by (auto simp: strncat_def)

lemma add_modules_text:
  assumes "memory_suffices (env w)" and "\<forall>m\<in>set ms. length (line (api_name m)) < len"
    and "length s + len * length ms < room"
  shows "\<exists>w'. add_modules line room len ms s w = Ret (Some (s @ concat (map (\<lambda>m. line (api_name m)) ms)), w')
    \<and> env w' = env w"
  using assms
proof (induction ms arbitrary: s w)
  case (Cons m ms)
  let ?a = "env w (hist w) (Malloc len)"
  have a: "retv ?a \<noteq> 0" by (rule memory_sufficesD [OF Cons.prems(1)])
  have "strncat room s (take (len - 1) (line (api_name m))) len = Ret (s @ line (api_name m))"
    using Cons.prems(2,3) by (intro strncat_cut_fits) auto
  with Cons.IH [of "xcu (Free (nat (retv ?a))) (snd (xc (Malloc len) w))" "s @ line (api_name m)"] Cons.prems a
  show ?case by (simp add: case_prod_beta Let_def)
qed simp

lemma cut_comma_ends: "cut_comma (t @ [c, d]) = Ret (t @ json_nl)"
  by (simp add: cut_comma_def json_nl_def list_update_append butlast_append)

text \<open>The text: one line for the device, one for every module, no comma after the last.\<close>

definition device_text :: "(string \<Rightarrow> string) \<Rightarrow> string \<Rightarrow> string \<Rightarrow> artik_api_module list \<Rightarrow> string" where
  "device_text line name tail ms = json_header @ platform_info name @ modules_header
     @ concat (map (\<lambda>m. line (api_name m)) (butlast ms)) @ take (length (line (api_name (last ms))) - 2) (line (api_name (last ms)))
     @ json_nl @ tail"

lemma length_texts [simp]:
  "length json_header = 2" "length json_tail = 2" "length modules_header = 13" "length modules_tail = 3"
  "length (platform_info n) = length n + 13" "length (modules_info n) = length n + 5"
  "length (tinyara_modules_info n) = length n + 6" "length tinyara_modules_tail = 4"
  by (simp_all add: json_header_def json_tail_def modules_header_def modules_tail_def platform_info_def modules_info_def
      tinyara_modules_info_def tinyara_modules_tail_def json_tab_def json_nl_def json_quote_def)

lemma device_json_text:
  assumes "memory_suffices (env w)" and "ms \<noteq> []" and "\<forall>m\<in>set ms. length (line (api_name m)) < len"
    and "length name + 13 < plat" and "plat + 15 + len * length ms < room"
    and "\<forall>n. \<exists>t c d. line n = t @ [c, d]"
  shows "\<exists>s w'. device_json line room plat len name ms w = Ret (Some s, w') \<and> env w' = env w
    \<and> cut_comma s = Ret (device_text line name [] ms) \<and> length (device_text line name [] ms) < plat + 14 + len * length ms"
proof -
  let ?s1 = "json_header @ platform_info name @ modules_header"
  let ?w1 = "xcu (Free (nat (retv (env w (hist w) (Malloc plat))))) (snd (xc (Malloc plat) w))"
  have a: "retv (env w (hist w) (Malloc plat)) \<noteq> 0" by (rule memory_sufficesD [OF assms(1)])
  have "strncat room [] json_header (length json_header) = Ret json_header"
    using strncat_fits [of "[]" json_header room] assms(5) by simp
  moreover have "strncat room json_header (take (plat - 1) (platform_info name)) plat = Ret (json_header @ platform_info name)"
    using assms(4,5) by (intro strncat_cut_fits) simp_all
  moreover have "strncat room (json_header @ platform_info name) modules_header (length modules_header) = Ret ?s1"
    using strncat_fits [of "json_header @ platform_info name" modules_header room] assms(4,5) by simp
  ultimately have st: "strncat room [] json_header (length json_header) = Ret json_header"
    "strncat room json_header (take (plat - 1) (platform_info name)) plat = Ret (json_header @ platform_info name)"
    "strncat room (json_header @ platform_info name) modules_header (length modules_header) = Ret ?s1" by auto
  obtain w' where w': "add_modules line room len ms ?s1 ?w1 = Ret (Some (?s1 @ concat (map (\<lambda>m. line (api_name m)) ms)), w')"
    "env w' = env w" using add_modules_text [of ?w1 ms line len ?s1 room] assms by auto
  have ms: "ms = butlast ms @ [last ms]" using assms(2) by simp
  obtain t c d where l: "line (api_name (last ms)) = t @ [c, d]" using assms(6) by blast
  let ?s = "?s1 @ concat (map (\<lambda>m. line (api_name m)) ms)"
  have cat: "concat (map (\<lambda>m. line (api_name m)) ms)
      = concat (map (\<lambda>m. line (api_name m)) (butlast ms)) @ t @ [c, d]"
    by (subst ms) (simp only: map_append concat_append list.map concat.simps l append_Nil2)
  have "cut_comma ?s = Ret (device_text line name [] ms)"
    using cut_comma_ends [of "?s1 @ concat (map (\<lambda>m. line (api_name m)) (butlast ms)) @ t" c d]
    by (simp add: cat device_text_def l)
  moreover have "length (concat (map (\<lambda>m. line (api_name m)) ms)) \<le> len * length ms"
    using assms(3) by (induction ms) auto
  moreover have "length (device_text line name [] ms) < length ?s"
    by (simp add: device_text_def cat l json_nl_def)
  ultimately have "cut_comma ?s = Ret (device_text line name [] ms)"
    "length (device_text line name [] ms) < plat + 14 + len * length ms" using assms(4) by auto
  with w' st a show ?thesis by (simp add: device_json_def case_prod_beta Let_def del: length_texts)
qed


lemma device_text_tail: "device_text line name [] ms @ tail = device_text line name tail ms"
  by (simp add: device_text_def)

lemma lines_end: "\<forall>n. \<exists>t c d. modules_info n = t @ [c, d]" "\<forall>n. \<exists>t c d. tinyara_modules_info n = t @ [c, d]"
proof -
  have "modules_info n = (json_tab @ json_quote @ n @ json_quote) @ [CHR '','', CHR 0x0A]" for n
    by (simp add: modules_info_def json_nl_def)
  then show "\<forall>n. \<exists>t c d. modules_info n = t @ [c, d]" by blast
  then show "\<forall>n. \<exists>t c d. tinyara_modules_info n = t @ [c, d]"
    unfolding tinyara_modules_info_def by (metis append_assoc)
qed

lemma a05x_names_short: "\<forall>m\<in>set artik_api_a05x_modules. length (api_name m) < 12"
  by (simp add: artik_api_a05x_modules_def)

lemma board_sizes: "length artik_api_generic_modules = 21" "length artik_api_a05x_modules = 14"
  by (simp_all add: artik_api_generic_modules_def artik_api_a05x_modules_def)

lemma board_device_info:
  assumes "memory_suffices (env w)" and p: "os_get_platform l w = (p, l1, w1)" "0 \<le> p" "p < 5"
  shows "\<exists>a w'. artik_get_device_info l w = Ret (Some (a, device_text modules_info (platform_label p)
      (modules_tail @ json_tail) artik_api_generic_modules), l1, w')"
proof -
  let ?ms = artik_api_generic_modules and ?room = "403 :: nat"
  let ?w2 = "snd (xc (Malloc ?room) w1)" and ?t = "device_text modules_info (platform_label p)"
  note f = os_get_platform_frame [OF p(1)]
  have mem: "memory_suffices (env w1)" using f assms(1) by simp
  have "\<forall>m\<in>set ?ms. length (modules_info (api_name m)) < 17" "length (platform_label p) < 12"
    using names_short by (auto simp: module_names_def platform_label_def)
  with device_json_text [of ?w2 ?ms modules_info 17 "platform_label p" 25 ?room] mem lines_end(1) board_sizes(1)
  obtain s w' where j: "device_json modules_info ?room 25 17 (platform_label p) ?ms ?w2 = Ret (Some s, w')"
    "cut_comma s = Ret (?t [] ?ms)" "length (?t [] ?ms) < 396"
    by fastforce
  have tails: "strncat ?room (?t [] ?ms) modules_tail 3 = Ret (?t modules_tail ?ms)"
    "strncat ?room (?t modules_tail ?ms) json_tail 2 = Ret (?t (modules_tail @ json_tail) ?ms)"
    using strncat_fits [of "?t [] ?ms" modules_tail ?room] strncat_fits [of "?t modules_tail ?ms" json_tail ?room] j(3)
    by (simp_all add: device_text_tail [of _ _ _ modules_tail, symmetric]
        device_text_tail [of _ _ _ "modules_tail @ json_tail", symmetric])
  have "os_get_platform l1 w1 = (p, l1, w1)" using f p by (simp add: os_get_platform_def)
  with p j tails memory_sufficesD [OF mem, of "hist w1" ?room] show ?thesis
    by (simp add: artik_get_device_info_def os_get_device_info_def os_get_available_modules_def modules_of_board
        board_sizes case_prod_beta Let_def)
qed

lemma a053_device_info:
  assumes "memory_suffices (env w)"
  shows "\<exists>a w'. tinyara_get_device_info True w = Ret (Some (a, device_text tinyara_modules_info ''ARTIK 053''
      tinyara_modules_tail artik_api_a05x_modules), w')"
proof -
  let ?ms = artik_api_a05x_modules and ?room = "297 :: nat"
  let ?w1 = "snd (xc (Malloc ?room) w)" and ?t = "device_text tinyara_modules_info ''ARTIK 053''"
  have "\<forall>m\<in>set ?ms. length (tinyara_modules_info (api_name m)) < 18" using a05x_names_short by auto
  with device_json_text [of ?w1 ?ms tinyara_modules_info 18 "''ARTIK 053''" 25 ?room] assms lines_end(2) board_sizes(2)
  obtain s w' where j: "device_json tinyara_modules_info ?room 25 18 ''ARTIK 053'' ?ms ?w1 = Ret (Some s, w')"
    "cut_comma s = Ret (?t [] ?ms)" "length (?t [] ?ms) < 291"
    by fastforce
  have tails: "strncat ?room (?t [] ?ms) tinyara_modules_tail 4 = Ret (?t tinyara_modules_tail ?ms)"
    using strncat_fits [of "?t [] ?ms" tinyara_modules_tail ?room] j(3)
    by (simp add: device_text_tail [of _ _ _ tinyara_modules_tail, symmetric])
  with j memory_sufficesD [OF assms, of "hist w" ?room] show ?thesis
    by (simp add: tinyara_get_device_info_def tinyara_get_platform_def tinyara_get_available_modules_def
        tinyara_platforms_def artik_platform_name_def board_sizes case_prod_beta Let_def)
qed

text \<open>C28. If memory does not run out, the description of the device is the text with its name and the names of all
  its modules, and it fits its block, on every board.\<close>

theorem device_info_describes_the_board:
  assumes "memory_suffices (env w)" and "os_get_platform l w = (p, l1, w1)" and "0 \<le> p" and "p < 5"
  shows "(\<exists>a w'. artik_get_device_info l w = Ret (Some (a, device_text modules_info (platform_label p)
        (modules_tail @ json_tail) artik_api_generic_modules), l1, w'))
    \<and> (\<exists>a w'. tinyara_get_device_info True w = Ret (Some (a, device_text tinyara_modules_info ''ARTIK 053''
        tinyara_modules_tail artik_api_a05x_modules), w'))"
  by (intro conjI board_device_info [OF assms] a053_device_info [OF assms(1)])

subsection \<open>TizenRT\<close>

lemma tinyara_scan_runs_past: "tinyara_scan i ks = (if i \<in> set ks then Ret True else Ub OutOfBounds)"
  by (induction ks) auto

text \<open>Asking TizenRT for a module that the board does not have never answers no: the search goes past the end of the
  table.\<close>

theorem tinyara_missing_module_is_undefined:
  "tinyara_is_module_available True i
     = (if i \<in> api_id ` set artik_api_a05x_modules \<or> i = 4294967295 then Ret True else Ub OutOfBounds)"
  by (auto simp: tinyara_is_module_available_def tinyara_get_platform_def tinyara_platforms_def tinyara_scan_runs_past)

text \<open>Every name in the table of the board is found, and its table of functions can be given back.\<close>

theorem tinyara_requests_and_releases:
  "\<forall>m\<in>set artik_api_a05x_modules. tinyara_request_api_module True (Some (api_name m)) = Some (api_object m)
     \<and> tinyara_release_api_module True (Some (api_object m)) = S_OK"
  by (simp add: tinyara_request_api_module_def tinyara_release_api_module_def tinyara_get_platform_def
      tinyara_platforms_def artik_api_a05x_modules_def)


subsection \<open>An ARTIK 710 with all its shared objects\<close>

definition table_at :: "string \<Rightarrow> addr" where
  "table_at s = (case List.find (\<lambda>m. api_name m = s) artik_api_generic_modules of
     None \<Rightarrow> 0 | Some m \<Rightarrow> 4096 + 64 * api_id m)"

definition linker_env :: "xcall list \<Rightarrow> xcall \<Rightarrow> answer" where
  "linker_env h c = (case c of
      Fopen p m \<Rightarrow> \<lparr>retv = 5, errno = 0, oval = 0, outb = []\<rparr>
    | Fgets f n \<Rightarrow> \<lparr>retv = 1, errno = 0, oval = 0, outb = bytes_of ''Samsung artik710 raptor board''\<rparr>
    | Dlopen p \<Rightarrow> \<lparr>retv = 2048, errno = 0, oval = 0, outb = []\<rparr>
    | Dlsym a s \<Rightarrow> \<lparr>retv = int (table_at (take (length s - 7) s)), errno = 0, oval = 0, outb = []\<rparr>
    | _ \<Rightarrow> good_env h c)"

definition linker_world :: world where
  "linker_world = \<lparr>hist = [], env = linker_env\<rparr>"

definition no_linker_world :: world where
  "no_linker_world = \<lparr>hist = [], env = (\<lambda>h c. case c of Dlopen p \<Rightarrow> \<lparr>retv = 0, errno = 0, oval = 0, outb = []\<rparr>
     | _ \<Rightarrow> linker_env h c)\<rparr>"

lemma linker_links: "links table_at linker_env"
  by (simp add: links_def linker_env_def)

lemma linker_memory: "memory_suffices linker_env"
  by (simp add: memory_suffices_def linker_env_def)

lemma tables_are_apart: "tables_apart of_nat table_at"
proof -
  have "distinct (map (\<lambda>s. (of_nat (table_at s) :: u32)) (map api_name artik_api_generic_modules))"
    by (simp add: table_at_def artik_api_generic_modules_def)
  then have "inj_on (\<lambda>s. (of_nat (table_at s) :: u32)) module_names"
    unfolding module_names_def distinct_map by simp
  moreover have "\<forall>s\<in>module_names. table_at s \<noteq> 0"
    unfolding module_names_eq by (simp add: table_at_def artik_api_generic_modules_def)
  ultimately show ?thesis by (simp add: tables_apart_def)
qed

definition known_board :: loader where
  "known_board = \<lparr>requested_modules = [], artik_platform_id = 3\<rparr>"

lemma known_board_simps [simp]:
  "os_get_platform known_board w = (3, known_board, w)" "loaded known_board = {#}" "loader_ok tbl known_board"
  "requested_modules known_board = []"
  by (simp_all add: known_board_def os_get_platform_def loaded_def loader_ok_def)

lemma gpio_is_a_module: "''gpio'' \<in> module_names"
  by (simp add: module_names_eq)

lemma table_of_gpio [simp]: "table_at ''gpio'' = 4224"
  by (simp add: table_at_def artik_api_generic_modules_def)

lemma linker_world_simps [simp]: "env linker_world = linker_env" "hist linker_world = []"
  by (simp_all add: linker_world_def)


lemma artik710_model: "platform_of (string_of (take 255 (bytes_of ''Samsung artik710 raptor board''))) = 3"
  by code_simp

lemma artik710_platform: "os_get_platform fresh_loader linker_world = (3, known_board,
    linker_world\<lparr>hist := [Fopen ''/proc/device-tree/model'' ''re'', Fgets 5 256, Fclose 5]\<rparr>)"
  by (simp add: os_get_platform_def fresh_loader_def known_board_def linker_env_def xc_def xcu_def artik710_model)

theorem loader_holds_what_is_used_witness:
  "\<exists>l w. loader_reach (1, 4, 0) of_nat table_at linker_world l w \<and> loaded l = {#''gpio''#} \<and> shared_objects w = 1"
proof -
  have ok: "loader_ok table_at fresh_loader" by (simp add: loader_ok_def fresh_loader_def)
  from request_counts [OF ok _ gpio_is_a_module _ _ artik710_platform, of 8 "(1, 4, 0)"] linker_links
  obtain l w where r: "artik_request_api_module (1, 4, 0) 8 (Some ''gpio'') fresh_loader linker_world
      = Ret (table_at ''gpio'', l, w)" "loaded l = {#''gpio''#}"
    by (auto simp: fresh_loader_def loaded_def)
  then have reach: "loader_reach (1, 4, 0) of_nat table_at linker_world l w"
    by (intro loader_request [OF loader_start gpio_is_a_module _ _ _ r(1)])
      (simp_all add: artik710_platform, simp add: fresh_loader_def)
  from loader_holds_what_is_used [OF reach tables_are_apart] linker_links r(2)
  have "shared_objects w = 1" by (simp add: shared_objects_def)
  with reach r(2) show ?thesis by blast
qed

theorem failed_load_poisons_the_loader_witness:
  "\<exists>l' w'. artik_request_api_module (1, 4, 0) 8 (Some ''gpio'') known_board no_linker_world = Ret (INVALID_MODULE, l', w')
     \<and> artik_request_api_module (1, 4, 0) 16 (Some ''gpio'') l' w' = Ub NullDeref"
proof -
  have "retv (env no_linker_world (hist no_linker_world) (Dlopen path)) = 0" for path
    by (simp add: no_linker_world_def)
  from failed_load_poisons_the_loader [OF _ tables_are_apart gpio_is_a_module _ _ known_board_simps(1), OF _ _ _ _ this,
      of 8 "(1, 4, 0)"]
  obtain l' w' where r: "artik_request_api_module (1, 4, 0) 8 (Some ''gpio'') known_board no_linker_world = Ret (INVALID_MODULE, l', w')"
    "\<forall>t\<in>module_names. \<forall>v a u. artik_request_api_module v a (Some t) l' u = Ub NullDeref"
    by auto
  with gpio_is_a_module show ?thesis by blast
qed

theorem device_info_describes_the_board_witness:
  "\<exists>a w'. artik_get_device_info known_board linker_world = Ret (Some (a, device_text modules_info ''ARTIK710''
      (modules_tail @ json_tail) artik_api_generic_modules), known_board, w')"
  using device_info_describes_the_board [of linker_world known_board 3 known_board linker_world] linker_memory
  by (simp add: platform_label_def)

end
