(* ===== verification/ErrorCodes.thy ===== *)
theory ErrorCodes
  imports Prelude
begin

section \<open>Error codes and their messages (\<^verbatim>\<open>artik_error.h\<close>)\<close>

text \<open>The codes that Prelude does not have, and the table of messages, in the order of the header.\<close>

definition E_TIMEOUT :: artik_error where [err_simps]: "E_TIMEOUT = -10"
definition E_WEBSOCKET_QUEUE :: artik_error where [err_simps]: "E_WEBSOCKET_QUEUE = -12"
definition E_NOT_CONNECTED :: artik_error where [err_simps]: "E_NOT_CONNECTED = -13"
definition E_BT_ERROR :: artik_error where [err_simps]: "E_BT_ERROR = -2000"
definition E_ZIGBEE_ERROR :: artik_error where [err_simps]: "E_ZIGBEE_ERROR = -3000"
definition E_ZIGBEE_INVALID_DAEMON :: artik_error where [err_simps]: "E_ZIGBEE_INVALID_DAEMON = -3001"
definition E_ZIGBEE_NO_DAEMON :: artik_error where [err_simps]: "E_ZIGBEE_NO_DAEMON = -3002"
definition E_ZIGBEE_NO_MESSAGE :: artik_error where [err_simps]: "E_ZIGBEE_NO_MESSAGE = -3003"
definition E_ZIGBEE_NO_DEVICE :: artik_error where [err_simps]: "E_ZIGBEE_NO_DEVICE = -3004"
definition E_ZIGBEE_ERR_SOCK :: artik_error where [err_simps]: "E_ZIGBEE_ERR_SOCK = -3005"
definition E_ZIGBEE_MSG_SEND_ERROR :: artik_error where [err_simps]: "E_ZIGBEE_MSG_SEND_ERROR = -3006"
definition E_ZIGBEE_NETWORK_EXIST :: artik_error where [err_simps]: "E_ZIGBEE_NETWORK_EXIST = -3007"
definition E_WEBSOCKET_ERROR :: artik_error where [err_simps]: "E_WEBSOCKET_ERROR = -4000"
definition E_WIFI_ERROR :: artik_error where [err_simps]: "E_WIFI_ERROR = -5000"
definition E_WIFI_ERROR_AUTHENTICATION :: artik_error where [err_simps]: "E_WIFI_ERROR_AUTHENTICATION = -5001"
definition E_WIFI_ERROR_ASSOCIATION :: artik_error where [err_simps]: "E_WIFI_ERROR_ASSOCIATION = -5002"
definition E_WIFI_ERROR_BAD_PARAMS :: artik_error where [err_simps]: "E_WIFI_ERROR_BAD_PARAMS = -5003"
definition E_LWM2M_ERROR :: artik_error where [err_simps]: "E_LWM2M_ERROR = -6000"
definition E_MQTT_ERROR :: artik_error where [err_simps]: "E_MQTT_ERROR = -18"
definition E_SECURITY_ERROR :: artik_error where [err_simps]: "E_SECURITY_ERROR = -7000"
definition E_SECURITY_INVALID_X509 :: artik_error where [err_simps]: "E_SECURITY_INVALID_X509 = -7001"
definition E_SECURITY_INVALID_PKCS7 :: artik_error where [err_simps]: "E_SECURITY_INVALID_PKCS7 = -7002"
definition E_SECURITY_CA_VERIF_FAILED :: artik_error where [err_simps]: "E_SECURITY_CA_VERIF_FAILED = -7003"
definition E_SECURITY_DIGEST_MISMATCH :: artik_error where [err_simps]: "E_SECURITY_DIGEST_MISMATCH = -7004"
definition E_SECURITY_SIGNATURE_MISMATCH :: artik_error where [err_simps]: "E_SECURITY_SIGNATURE_MISMATCH = -7005"
definition E_SECURITY_SIGNING_TIME_ROLLBACK :: artik_error where [err_simps]: "E_SECURITY_SIGNING_TIME_ROLLBACK = -7006"
definition E_IN_PROGRESS :: artik_error where [err_simps]: "E_IN_PROGRESS = -16"

definition error_msg_strings :: "(artik_error \<times> string) list" where
  "error_msg_strings = [(S_OK, ''OK''),
     (E_BAD_ARGS, ''Bad arguments''),
     (E_BUSY, ''Busy''),
     (E_NOT_INITIALIZED, ''Not initialized''),
     (E_NO_MEM, ''No memory''),
     (E_NOT_SUPPORTED, ''Not supported''),
     (E_OVERFLOW, ''Overflow''),
     (E_ACCESS_DENIED, ''Access denied''),
     (E_INTERRUPTED, ''Interrupted''),
     (E_HTTP_ERROR, ''HTTP error''),
     (E_TRY_AGAIN, ''Try again''),
     (E_TIMEOUT, ''Timeout''),
     (E_WEBSOCKET_ERROR, ''Websocket error''),
     (E_BT_ERROR, ''Bluetooth adapter error''),
     (E_WIFI_ERROR, ''Wi-Fi error''),
     (E_WIFI_ERROR_AUTHENTICATION, ''Wi-Fi Authentication failed''),
     (E_WIFI_ERROR_ASSOCIATION, ''Wi-Fi Association failed''),
     (E_WIFI_ERROR_BAD_PARAMS, ''Wrong Wi-Fi parameters''),
     (E_ZIGBEE_ERROR, ''ZigBee error''),
     (E_ZIGBEE_INVALID_DAEMON, ''Invalid zigbee daemon''),
     (E_ZIGBEE_NO_DAEMON, ''No zigbee daemon''),
     (E_ZIGBEE_NO_MESSAGE, ''No zigbee message''),
     (E_ZIGBEE_ERR_SOCK, ''Socket error''),
     (E_ZIGBEE_MSG_SEND_ERROR, ''Send message error''),
     (E_ZIGBEE_NETWORK_EXIST, ''Network has existed''),
     (E_INVALID_VALUE, ''Invalid value''),
     (E_LWM2M_ERROR, ''LWM2M error''),
     (E_MQTT_ERROR, ''MQTT error''),
     (E_NETWORK_ERROR, ''Network error''),
     (E_SECURITY_ERROR, ''Security error''),
     (E_SECURITY_INVALID_X509, ''X509 data is not valid''),
     (E_SECURITY_INVALID_PKCS7, ''PKCS7 data is not valid''),
     (E_SECURITY_CA_VERIF_FAILED, ''Certificate verification against CA failed''),
     (E_SECURITY_DIGEST_MISMATCH, ''Computed digest mismatch''),
     (E_SECURITY_SIGNATURE_MISMATCH, ''Signature mismatch''),
     (E_SECURITY_SIGNING_TIME_ROLLBACK, ''Signing time rollback error'')]"

text \<open>The loop over the table, and \<^verbatim>\<open>error_msg_null\<close> at its end.\<close>

fun message_in :: "(artik_error \<times> string) list \<Rightarrow> artik_error \<Rightarrow> string" where
  "message_in [] err = ''null''"
| "message_in ((e, s) # msgs) err = (if e = err then s else message_in msgs err)"

definition error_msg :: "artik_error \<Rightarrow> string" where
  "error_msg err = message_in error_msg_strings err"

lemma message_in_map_of: "message_in t err = (case map_of t err of None \<Rightarrow> ''null'' | Some s \<Rightarrow> s)"
  by (induction t err rule: message_in.induct) auto

text \<open>Codes that the header defines.\<close>

definition error_codes :: "artik_error list" where
  "error_codes = [S_OK, E_BAD_ARGS, E_BUSY, E_NOT_INITIALIZED, E_NO_MEM, E_NOT_SUPPORTED, E_OVERFLOW, E_ACCESS_DENIED,
     E_INTERRUPTED, E_TRY_AGAIN, E_TIMEOUT, E_INVALID_VALUE, E_WEBSOCKET_QUEUE, E_NOT_CONNECTED,
     E_HTTP_ERROR, E_BT_ERROR, E_ZIGBEE_ERROR, E_ZIGBEE_INVALID_DAEMON, E_ZIGBEE_NO_DAEMON,
     E_ZIGBEE_NO_MESSAGE, E_ZIGBEE_NO_DEVICE, E_ZIGBEE_ERR_SOCK, E_ZIGBEE_MSG_SEND_ERROR,
     E_ZIGBEE_NETWORK_EXIST, E_WEBSOCKET_ERROR, E_WIFI_ERROR, E_WIFI_ERROR_AUTHENTICATION,
     E_WIFI_ERROR_ASSOCIATION, E_WIFI_ERROR_BAD_PARAMS, E_LWM2M_ERROR, E_MQTT_ERROR, E_NETWORK_ERROR,
     E_SECURITY_ERROR, E_SECURITY_INVALID_X509, E_SECURITY_INVALID_PKCS7, E_SECURITY_CA_VERIF_FAILED,
     E_SECURITY_DIGEST_MISMATCH, E_SECURITY_SIGNATURE_MISMATCH, E_SECURITY_SIGNING_TIME_ROLLBACK,
     E_IN_PROGRESS]"

text \<open>Every code of the header has the message of its own place in the table, except that a security error says
  what a network error says, since both have one number, and four codes have no message.\<close>

theorem error_msg_of_codes:
  "(\<forall>(e, s)\<in>set error_msg_strings. error_msg e = (if e = E_SECURITY_ERROR then ''Network error'' else s))
   \<and> filter (\<lambda>e. error_msg e = ''null'') error_codes
       = [E_WEBSOCKET_QUEUE, E_NOT_CONNECTED, E_ZIGBEE_NO_DEVICE, E_IN_PROGRESS]"
  by (rule conjI; code_simp)

end
