(* ===== verification/Inet.thy ===== *)
theory Inet
  imports NetLib
begin

section \<open>Addresses in dotted form\<close>

text \<open>
  The network module takes addresses as text: it tests them with a regular expression, converts
  them with \<^verbatim>\<open>inet_aton\<close> and prints them with \<^verbatim>\<open>%d.%d.%d.%d\<close>. Here are the matcher, with
  the expression of \<^verbatim>\<open>linux_network.c\<close>, the functions of the C library, and the facts that
  tie the three together: the texts that match are the printed ones, and converting is the inverse of
  printing.
\<close>

subsection \<open>Regular expressions without repetition\<close>

datatype rexp = NoWord | Empty | Class string | Seq rexp rexp | Alt rexp rexp

primrec nullable :: "rexp \<Rightarrow> bool" where
  "nullable NoWord = False"
| "nullable Empty = True"
| "nullable (Class cs) = False"
| "nullable (Seq r s) = (nullable r \<and> nullable s)"
| "nullable (Alt r s) = (nullable r \<or> nullable s)"

primrec deriv :: "char \<Rightarrow> rexp \<Rightarrow> rexp" where
  "deriv c NoWord = NoWord"
| "deriv c Empty = NoWord"
| "deriv c (Class cs) = (if c \<in> set cs then Empty else NoWord)"
| "deriv c (Seq r s) = (if nullable r then Alt (Seq (deriv c r) s) (deriv c s) else Seq (deriv c r) s)"
| "deriv c (Alt r s) = Alt (deriv c r) (deriv c s)"

text \<open>A match of the whole text, as \<open>^\<close> and \<open>$\<close> ask.\<close>

definition matches :: "rexp \<Rightarrow> string \<Rightarrow> bool" where
  "matches r s = nullable (foldl (\<lambda>r c. deriv c r) r s)"

text \<open>The words, in the order of the alternatives.\<close>

primrec words :: "rexp \<Rightarrow> string list" where
  "words NoWord = []"
| "words Empty = [[]]"
| "words (Class cs) = map (\<lambda>c. [c]) cs"
| "words (Seq r s) = concat (map (\<lambda>u. map (\<lambda>v. u @ v) (words s)) (words r))"
| "words (Alt r s) = words r @ words s"

lemma nullable_words: "nullable r \<longleftrightarrow> [] \<in> set (words r)"
  by (induction r) auto

lemma deriv_words: "s \<in> set (words (deriv c r)) \<longleftrightarrow> c # s \<in> set (words r)"
proof (induction r arbitrary: s)
  case (Seq r q)
  have "c # s \<in> set (words (Seq r q)) \<longleftrightarrow> (\<exists>u v. c # s = u @ v \<and> u \<in> set (words r) \<and> v \<in> set (words q))"
    by auto
  also have "\<dots> \<longleftrightarrow> ([] \<in> set (words r) \<and> c # s \<in> set (words q))
      \<or> (\<exists>u v. s = u @ v \<and> c # u \<in> set (words r) \<and> v \<in> set (words q))"
    by (auto simp: Cons_eq_append_conv)
  finally show ?case using Seq by (auto simp: nullable_words)
qed auto

lemma matches_words: "matches r s \<longleftrightarrow> s \<in> set (words r)"
proof -
  have "nullable (foldl (\<lambda>r c. deriv c r) r s) \<longleftrightarrow> s \<in> set (words r)"
    by (induction s arbitrary: r) (simp_all add: nullable_words deriv_words)
  then show ?thesis by (simp add: matches_def)
qed

subsection \<open>The expression for an address\<close>

definition digit_class :: rexp where "digit_class = Class ''0123456789''"

definition octet_rexp :: rexp where
  "octet_rexp = Alt digit_class (Alt (Seq (Class ''123456789'') digit_class)
     (Alt (Seq (Class ''1'') (Seq digit_class digit_class))
     (Alt (Seq (Class ''2'') (Seq (Class ''01234'') digit_class))
          (Seq (Class ''2'') (Seq (Class ''5'') (Class ''012345''))))))"

definition ip_rexp :: rexp where
  "ip_rexp = (let octet_dot = Seq octet_rexp (Class ''.'')
     in Seq octet_dot (Seq octet_dot (Seq octet_dot octet_rexp)))"

lemma digit_chars:
  "char_of (48::nat) = CHR ''0''" "char_of (49::nat) = CHR ''1''" "char_of (50::nat) = CHR ''2''"
  "char_of (51::nat) = CHR ''3''" "char_of (52::nat) = CHR ''4''" "char_of (53::nat) = CHR ''5''"
  "char_of (54::nat) = CHR ''6''" "char_of (55::nat) = CHR ''7''" "char_of (56::nat) = CHR ''8''"
  "char_of (57::nat) = CHR ''9''"
  by code_simp+

lemma nat_str_step:
  "n < 10 \<Longrightarrow> nat_str n = [char_of (48 + n)]"
  "10 \<le> n \<Longrightarrow> nat_str n = nat_str (n div 10) @ [char_of (48 + n mod 10)]"
  by (simp_all add: nat_str.simps)

lemma octet_words: "words octet_rexp = map nat_str [0..<256]"
  by (simp add: octet_rexp_def digit_class_def upt_rec nat_str_step digit_chars)

lemma in_words_Seq: "u \<in> set (words (Seq r s)) \<longleftrightarrow> (\<exists>p v. p \<in> set (words r) \<and> v \<in> set (words s) \<and> u = p @ v)"
  by auto

lemma in_words_octet: "u \<in> set (words octet_rexp) \<longleftrightarrow> (\<exists>a<256. u = nat_str a)"
  by (auto simp: octet_words)

lemma in_words_dot: "u \<in> set (words (Seq octet_rexp (Class ''.''))) \<longleftrightarrow> (\<exists>a<256. u = nat_str a @ ''.'')"
  unfolding in_words_Seq in_words_octet by auto

lemma in_words_dotted:
  "u \<in> set (words (Seq (Seq octet_rexp (Class ''.'')) r)) \<longleftrightarrow>
     (\<exists>a<256. \<exists>v. v \<in> set (words r) \<and> u = nat_str a @ ''.'' @ v)"
  unfolding in_words_Seq [of u "Seq octet_rexp (Class ''.'')"] in_words_dot by fastforce

lemma ex_three: "(\<exists>v. (\<exists>a<n. \<exists>b<n. \<exists>c<n. v = f a b c) \<and> u = g v) \<longleftrightarrow> (\<exists>a<n. \<exists>b<n. \<exists>c<n. u = g (f a b c))"
  by auto

lemma ex_two: "(\<exists>v. (\<exists>a<n. \<exists>b<n. v = f a b) \<and> u = g v) \<longleftrightarrow> (\<exists>a<n. \<exists>b<n. u = g (f a b))"
  by auto

lemma ex_last: "(\<exists>v. (\<exists>d<n. v = f d) \<and> u = g v) \<longleftrightarrow> (\<exists>d<n. u = g (f d))"
  by auto

lemma ip_words:
  "s \<in> set (words ip_rexp) \<longleftrightarrow> (\<exists>a<256. \<exists>b<256. \<exists>c<256. \<exists>d<256.
     s = nat_str a @ ''.'' @ nat_str b @ ''.'' @ nat_str c @ ''.'' @ nat_str d)"
  unfolding ip_rexp_def Let_def in_words_dotted in_words_octet ex_last ex_two ex_three by (rule refl)

text \<open>Printing an address: \<^verbatim>\<open>%d.%d.%d.%d\<close> of its bytes.\<close>

lemma inet_ntop_bytes: "inet_ntop (of_le32 [a, b, c, d]) = nat_str (unat a) @ ''.'' @ nat_str (unat b) @ ''.''
    @ nat_str (unat c) @ ''.'' @ nat_str (unat d)"
  by (simp add: inet_ntop_def le32_of_le32 del: of_le32.simps)

lemma le32_cases: obtains a b c d where "x = of_le32 [a, b, c, d]"
  using that [OF sym [OF of_le32_le32 [of x, unfolded le32_def]]] .

theorem regex_accepts_addresses: "matches ip_rexp s \<longleftrightarrow> (\<exists>x. s = inet_ntop x)"
proof
  assume "matches ip_rexp s"
  then obtain a b c d where s: "a < 256" "b < 256" "c < 256" "d < 256"
    "s = nat_str a @ ''.'' @ nat_str b @ ''.'' @ nat_str c @ ''.'' @ nat_str d"
    by (auto simp: matches_words ip_words)
  then have "s = inet_ntop (of_le32 [of_nat a, of_nat b, of_nat c, of_nat d])"
    by (simp add: inet_ntop_bytes unat_of_nat del: of_le32.simps)
  then show "\<exists>x. s = inet_ntop x" by blast
next
  assume "\<exists>x. s = inet_ntop x"
  then obtain x where "s = inet_ntop x" by blast
  moreover obtain a b c d :: u8 where "x = of_le32 [a, b, c, d]" by (rule le32_cases)
  ultimately show "matches ip_rexp s"
    using unat8_less [of a] unat8_less [of b] unat8_less [of c] unat8_less [of d]
    unfolding matches_words ip_words by (auto simp only: inet_ntop_bytes)
qed


subsection \<open>\<^verbatim>\<open>inet_aton\<close> and \<^verbatim>\<open>inet_addr\<close>\<close>

definition digit_of :: "nat \<Rightarrow> char \<Rightarrow> nat option" where
  "digit_of base c =
     (let n = of_char c :: nat;
          d = (if 48 \<le> n \<and> n \<le> 57 then n - 48 else if 97 \<le> n \<and> n \<le> 102 then n - 87
               else if 65 \<le> n \<and> n \<le> 70 then n - 55 else 16)
      in if d < base then Some d else None)"

definition is_space :: "char \<Rightarrow> bool" where
  "is_space c \<longleftrightarrow> c \<in> {CHR '' '', CHR 0x09, CHR 0x0A, CHR 0x0B, CHR 0x0C, CHR 0x0D}"

text \<open>The digits at the start of a text: the number they make after \<open>acc\<close>, and the rest.\<close>

fun take_number :: "nat \<Rightarrow> nat \<Rightarrow> string \<Rightarrow> nat \<times> string" where
  "take_number base acc [] = (acc, [])"
| "take_number base acc (c # s) =
     (case digit_of base c of None \<Rightarrow> (acc, c # s) | Some d \<Rightarrow> take_number base (acc * base + d) s)"

text \<open>A number in the notation of C; it has to begin with a digit.\<close>

definition inet_number :: "string \<Rightarrow> (nat \<times> string) option" where
  "inet_number s =
     (case s of
        [] \<Rightarrow> None
      | c # t \<Rightarrow>
          if digit_of 10 c = None then None
          else if c \<noteq> CHR ''0'' then Some (take_number 10 0 s)
          else (case t of
                  x # y # u \<Rightarrow> if x \<in> set ''xX'' \<and> digit_of 16 y \<noteq> None then Some (take_number 16 0 (y # u))
                               else Some (take_number 8 0 t)
                | _ \<Rightarrow> Some (take_number 8 0 t)))"

text \<open>Up to three bytes with a dot each, and a last number that fills the rest: \<open>left\<close> dots may follow, \<open>acc\<close>
  is what the bytes before make.\<close>

primrec inet_parts :: "nat \<Rightarrow> nat \<Rightarrow> string \<Rightarrow> nat option" where
  "inet_parts 0 acc s =
     (case inet_number s of
        None \<Rightarrow> None
      | Some (v, t) \<Rightarrow> if (t = [] \<or> is_space (hd t)) \<and> v < 256 then Some (acc * 256 + v) else None)"
| "inet_parts (Suc left) acc s =
     (case inet_number s of
        None \<Rightarrow> None
      | Some (v, t) \<Rightarrow>
          if t \<noteq> [] \<and> hd t = CHR ''.'' then if v < 256 then inet_parts left (acc * 256 + v) (tl t) else None
          else if (t = [] \<or> is_space (hd t)) \<and> v < 256 ^ (left + 2) then Some (acc * 256 ^ (left + 2) + v) else None)"

definition inet_aton :: "string \<Rightarrow> u32 option" where
  "inet_aton s = map_option (\<lambda>v. htonl (word_of_nat v)) (inet_parts 3 0 s)"

definition inet_addr :: "string \<Rightarrow> u32" where
  "inet_addr s = (case inet_aton s of None \<Rightarrow> 0xFFFFFFFF | Some a \<Rightarrow> a)"

lemma digit_of_digit: "d < 10 \<Longrightarrow> digit_of 10 (char_of (48 + d)) = Some d"
  by (simp add: digit_of_def)

lemma take_number_digits:
  "\<forall>c\<in>set s. digit_of 10 c \<noteq> None \<Longrightarrow> take_number 10 acc (s @ t) = take_number 10 (fst (take_number 10 acc s)) t"
  by (induction s arbitrary: acc) auto

lemma nat_str_digits: "\<forall>c\<in>set (nat_str n). digit_of 10 c \<noteq> None"
proof (induction n rule: nat_str.induct)
  case (1 n)
  then show ?case by (subst nat_str.simps) (auto simp: digit_of_digit)
qed

lemma take_number_nat_str:
  "take_number 10 0 (nat_str n @ t) = take_number 10 n t"
proof (induction n arbitrary: t rule: nat_str.induct)
  case (1 n)
  then show ?case by (subst nat_str.simps) (auto simp: digit_of_digit)
qed

lemma char_48: "d < (10::nat) \<Longrightarrow> char_of (48 + d) = CHR ''0'' \<longleftrightarrow> d = 0"
proof -
  assume d: "d < (10::nat)"
  have "char_of (48 + d) = CHR ''0'' \<longleftrightarrow> (of_char (char_of (48 + d) :: char) :: nat) = of_char CHR ''0''"
    by (metis of_char_eq_iff)
  with d show ?thesis by simp
qed

lemma nat_str_nonempty [simp]: "nat_str n \<noteq> []"
  by (subst nat_str.simps) simp

lemma nat_str_head: "n \<noteq> 0 \<Longrightarrow> hd (nat_str n) \<noteq> CHR ''0''"
proof (induction n rule: nat_str.induct)
  case (1 n)
  then show ?case by (subst nat_str.simps) (auto simp: char_48)
qed

lemma nat_str_0: "nat_str 0 = ''0''"
  by (simp add: nat_str.simps digit_chars)

lemma take_number_stops: "t = [] \<or> digit_of base (hd t) = None \<Longrightarrow> take_number base acc t = (acc, t)"
  by (cases t) auto

lemma digit_of_less: "digit_of b c = None \<Longrightarrow> b' \<le> b \<Longrightarrow> digit_of b' c = None"
  by (auto simp: digit_of_def Let_def split: if_splits)

lemma inet_number_nat_str:
  assumes "t = [] \<or> digit_of 16 (hd t) = None \<and> hd t \<notin> set ''xX''"
  shows "inet_number (nat_str n @ t) = Some (n, t)"
proof (cases "n = 0")
  case True
  have "take_number 8 0 t = (0, t)" using assms digit_of_less [of 16 "hd t" 8] by (intro take_number_stops) auto
  with True assms show ?thesis
    by (auto simp: inet_number_def nat_str_0 digit_of_def split: list.split)
next
  case False
  obtain c s where c: "nat_str n = c # s" using nat_str_nonempty [of n] by (cases "nat_str n") auto
  with nat_str_head [OF False] nat_str_digits [of n] have "c \<noteq> CHR ''0''" "digit_of 10 c \<noteq> None" by auto
  moreover have "take_number 10 0 (c # s @ t) = (n, t)"
    using take_number_nat_str [of n t] take_number_stops [of t 10 n] assms digit_of_less [of 16 "hd t" 10] c by auto
  ultimately show ?thesis by (simp add: inet_number_def c del: take_number.simps)
qed

lemma dot_ends_number: "digit_of 16 CHR ''.'' = None" "CHR ''.'' \<notin> set ''xX''"
  by (simp_all add: digit_of_def)

text \<open>Converting the printed form of an address gives the address.\<close>

lemma htonl_of_be: "htonl (word_of_nat (((unat a * 256 + unat b) * 256 + unat c) * 256 + unat d)) = of_le32 [a, b, c, d]"
proof -
  have e: "word_of_nat (((unat a * 256 + unat b) * 256 + unat c) * 256 + unat d) = of_le32 [d, c, b, a]"
    by (simp add: algebra_simps)
  show ?thesis unfolding e using htonl_of_le32 [of "[d, c, b, a]"] by (simp del: of_le32.simps)
qed

theorem inet_aton_ntop: "inet_aton (inet_ntop x @ (if t then [CHR 0x0A] else [])) = Some x"
proof -
  obtain a b c d :: u8 where x: "x = of_le32 [a, b, c, d]" by (rule le32_cases)
  let ?t = "if t then [CHR 0x0A] else []"
  have n: "inet_number (nat_str (unat y) @ CHR ''.'' # u) = Some (unat y, CHR ''.'' # u)" for y :: u8 and u
    using inet_number_nat_str [of "CHR ''.'' # u"] dot_ends_number by simp
  have l: "inet_number (nat_str (unat y) @ ?t) = Some (unat y, ?t)" for y :: u8
    by (rule inet_number_nat_str) (simp add: digit_of_def)
  have "inet_parts 3 0 (nat_str (unat a) @ ''.'' @ nat_str (unat b) @ ''.'' @ nat_str (unat c) @ ''.'' @ nat_str (unat d) @ ?t)
      = Some (((unat a * 256 + unat b) * 256 + unat c) * 256 + unat d)"
    using unat8_less [of a] unat8_less [of b] unat8_less [of c] unat8_less [of d]
    by (simp add: numeral_3_eq_3 n l is_space_def del: append_assoc)
  then have "inet_aton (nat_str (unat a) @ ''.'' @ nat_str (unat b) @ ''.'' @ nat_str (unat c) @ ''.'' @ nat_str (unat d) @ ?t)
      = Some (of_le32 [a, b, c, d])" unfolding inet_aton_def htonl_of_be [symmetric] by (simp only: option.map)
  then show ?thesis unfolding x inet_ntop_bytes by (simp only: append_assoc)
qed


subsection \<open>Reading the name servers back (\<^verbatim>\<open>get_ipv4dnsaddr\<close>)\<close>

text \<open>
  A stream is what is left of its text, and whether its end was met. \<^verbatim>\<open>fscanf\<close> puts a character
  that does not match back; an integer out of range becomes the nearest one.
\<close>

fun scan_literal :: "string \<Rightarrow> string \<Rightarrow> bool \<Rightarrow> bool \<times> string \<times> bool" where
  "scan_literal [] s e = (True, s, e)"
| "scan_literal (c # cs) [] e = (False, [], True)"
| "scan_literal (c # cs) (x # s) e = (if x = c then scan_literal cs s e else (False, x # s, e))"

definition scan_spaces :: "string \<Rightarrow> bool \<Rightarrow> string \<times> bool" where
  "scan_spaces s e = (let r = dropWhile is_space s in (r, e \<or> r = []))"

definition int_range :: "int \<Rightarrow> int" where
  "int_range i = max (- (2 ^ 31)) (min (2 ^ 31 - 1) i)"

definition scan_int :: "string \<Rightarrow> bool \<Rightarrow> int option \<times> string \<times> bool" where
  "scan_int s e =
     (let (s1, e1) = scan_spaces s e;
          signed = (s1 \<noteq> [] \<and> hd s1 \<in> set ''+-'');
          s2 = (if signed then tl s1 else s1);
          (n, s3) = take_number 10 0 s2
      in (if s3 = s2 then None else Some (int_range (if signed \<and> hd s1 = CHR ''-'' then - int n else int n)),
          s3, e1 \<or> s3 = []))"

text \<open>\<^verbatim>\<open>%d\<close>, and \<open>n\<close> times more after a dot.\<close>

primrec scan_dotted :: "nat \<Rightarrow> string \<Rightarrow> bool \<Rightarrow> int list option \<times> string \<times> bool" where
  "scan_dotted 0 s e = (case scan_int s e of (v, s1, e1) \<Rightarrow> (map_option (\<lambda>i. [i]) v, s1, e1))"
| "scan_dotted (Suc n) s e =
     (case scan_int s e of
        (None, s1, e1) \<Rightarrow> (None, s1, e1)
      | (Some v, s1, e1) \<Rightarrow>
          (case scan_literal ''.'' s1 e1 of
             (False, s2, e2) \<Rightarrow> (None, s2, e2)
           | (True, s2, e2) \<Rightarrow>
               (case scan_dotted n s2 e2 of (vs, s3, e3) \<Rightarrow> (map_option (\<lambda>vs. v # vs) vs, s3, e3))))"

definition scan_nameserver :: "string \<Rightarrow> bool \<Rightarrow> int list option \<times> string \<times> bool" where
  "scan_nameserver s e =
     (case scan_literal ''nameserver'' s e of
        (False, s1, e1) \<Rightarrow> (None, s1, e1)
      | (True, s1, e1) \<Rightarrow> (case scan_spaces s1 e1 of (s2, e2) \<Rightarrow> scan_dotted 3 s2 e2))"

text \<open>\<^verbatim>\<open>fgets\<close> of at most \<open>n\<close> characters.\<close>

fun skip_line :: "nat \<Rightarrow> string \<Rightarrow> bool \<Rightarrow> string \<times> bool" where
  "skip_line 0 s e = (s, e)"
| "skip_line (Suc n) [] e = ([], True)"
| "skip_line (Suc n) (c # s) e = (if c = CHR 0x0A then (s, e) else skip_line n s e)"

definition dotted_ints :: "int list \<Rightarrow> string" where
  "dotted_ints vs = (case vs of [p, q, r, s] \<Rightarrow>
     take 23 (int_str p @ ''.'' @ int_str q @ ''.'' @ int_str r @ ''.'' @ int_str s))"

lemma scan_literal_length: "scan_literal cs s e = (b, s', e') \<Longrightarrow> length s' \<le> length s"
  by (induction cs s e rule: scan_literal.induct) (auto split: if_splits)

lemma take_number_length: "length (snd (take_number b a s)) \<le> length s"
  by (induction b a s rule: take_number.induct) (auto split: option.split)

lemma scan_int_length: "scan_int s e = (v, s', e') \<Longrightarrow> length s' \<le> length s"
  using take_number_length [of 10 0 "dropWhile is_space s"] take_number_length [of 10 0 "tl (dropWhile is_space s)"]
    length_dropWhile_le [of is_space s]
  by (auto simp: scan_int_def scan_spaces_def Let_def case_prod_beta split: if_splits)

lemma scan_dotted_length: "scan_dotted n s e = (v, s', e') \<Longrightarrow> length s' \<le> length s"
proof (induction n arbitrary: s e v s' e')
  case 0
  then show ?case by (auto split: prod.splits dest: scan_int_length)
next
  case (Suc n)
  then show ?case
    by (auto split: prod.splits option.splits bool.splits dest!: scan_int_length scan_literal_length intro: le_trans dest: Suc.IH)
qed

lemma scan_nameserver_length: "scan_nameserver s e = (v, s', e') \<Longrightarrow> length s' \<le> length s"
  by (auto simp: scan_nameserver_def scan_spaces_def Let_def split: prod.splits bool.splits
      dest!: scan_literal_length scan_dotted_length intro: le_trans [OF length_dropWhile_le] le_trans)

lemma skip_line_shrinks: "skip_line (Suc n) s e = (s', e') \<Longrightarrow> e' \<or> length s' < length s"
proof (induction n arbitrary: s e)
  case 0
  then show ?case by (cases s) (auto split: if_splits)
next
  case (Suc n)
  then show ?case by (cases s) (force split: if_splits)+
qed


lemma skip_line_length: "skip_line n s e = (s', e') \<Longrightarrow> length s' \<le> length s"
  by (induction n s e rule: skip_line.induct) (auto split: if_splits)

lemma dns_round_shrinks:
  assumes "scan_nameserver s e = (m, s1, e1)" and "skip_line 255 s1 e1 = (s2, e2)" and "\<not> e"
  shows "length s2 + (if e2 then 0 else 1) < length s + (if e then 0 else 1)"
  using scan_nameserver_length [OF assms(1)] skip_line_shrinks [of 254 s1 e1 s2 e2] assms(2,3)
    skip_line_length [OF assms(2)] by auto

text \<open>The loop reads a line at a time; \<open>i\<close> is how many addresses it stored. A buffer of \<open>num\<close> addresses.\<close>

function dns_loop :: "nat \<Rightarrow> string \<Rightarrow> bool \<Rightarrow> nat \<Rightarrow> u32 list \<Rightarrow> int \<times> u32 list" where
  "dns_loop num s e i addrs =
     (if e then (OK, addrs)
      else case scan_nameserver s e of (m, s1, e1) \<Rightarrow>
        (case skip_line 255 s1 e1 of (s2, e2) \<Rightarrow>
           (case m of
              None \<Rightarrow> dns_loop num s2 e2 i addrs
            | Some vs \<Rightarrow>
                if i < num then
                  (case inet_aton (dotted_ints vs) of
                     None \<Rightarrow> (ERROR, addrs)
                   | Some a \<Rightarrow> dns_loop num s2 e2 (Suc i) (addrs[i := a]))
                else dns_loop num s2 e2 i addrs)))"
  by pat_completeness auto

termination
  by (relation "measure (\<lambda>(num, s, e, i, addrs). length s + (if e then 0 else 1))")
    (auto dest!: dns_round_shrinks [OF sym sym])

declare dns_loop.simps [simp del]

text \<open>\<open>None\<close>: a null pointer.\<close>

definition get_ipv4dnsaddr :: "u32 list option \<Rightarrow> nat \<Rightarrow> world \<Rightarrow> int \<times> u32 list option \<times> world" where
  "get_ipv4dnsaddr addr num w =
     (case addr of
        None \<Rightarrow> (ERROR, None, w)
      | Some addrs \<Rightarrow>
          (let (f, w1) = xc (Fopen ''/etc/resolv.conf'' ''r'') w
           in if retv f = 0 then (ERROR, addr, w1)
              else let (c, w2) = xc (Fcontents (nat (retv f))) w1;
                       (r, as) = dns_loop num (map (\<lambda>b. char_of (unat b)) (outb c)) False 0 addrs
                   in (r, Some as, xcu (Fclose (nat (retv f))) w2)))"

text \<open>One line of the file, as \<^verbatim>\<open>dns_add_nameserver\<close> writes it.\<close>

definition dns_line :: "u32 \<Rightarrow> string" where
  "dns_line a = ''nameserver '' @ inet_ntop a @ [CHR 0x0A]"

lemma scan_int_nat_str:
  assumes "t \<noteq> []" and "digit_of 10 (hd t) = None" and "n < 256"
  shows "scan_int (nat_str n @ t) e = (Some (int n), t, e)"
proof -
  obtain c s where c: "nat_str n = c # s" using nat_str_nonempty [of n] by (cases "nat_str n") auto
  then have d: "digit_of 10 c \<noteq> None" using nat_str_digits [of n] by auto
  then have "\<not> is_space c" "c \<notin> set ''+-''" by (auto simp: is_space_def digit_of_def)
  moreover have "take_number 10 0 (c # s @ t) = (n, t)"
    using take_number_nat_str [of n t] take_number_stops [of t 10 n] assms c by auto
  ultimately show ?thesis using assms c
    by (simp add: scan_int_def scan_spaces_def int_range_def del: take_number.simps)
qed

lemma no_digits: "digit_of 10 CHR ''.'' = None" "digit_of 10 CHR 0x0A = None"
  by (simp_all add: digit_of_def)

lemma scan_dns_line: "scan_nameserver (dns_line a @ t) False
    = (Some (map uint (le32 a)), CHR 0x0A # t, False)"
proof -
  obtain p q r s :: u8 where x: "a = of_le32 [p, q, r, s]" by (rule le32_cases)
  have lit: "scan_literal ''nameserver'' (''nameserver '' @ u) False = (True, CHR '' '' # u, False)" for u
    by simp
  have i: "scan_int (nat_str (unat y) @ CHR ''.'' # u) False = (Some (int (unat y)), CHR ''.'' # u, False)"
    "scan_int (nat_str (unat y) @ CHR 0x0A # u) False = (Some (int (unat y)), CHR 0x0A # u, False)" for y :: u8 and u
    using scan_int_nat_str [of "CHR ''.'' # u"] scan_int_nat_str [of "CHR 0x0A # u"] no_digits by simp_all
  obtain c u where c: "nat_str (unat p) = c # u" using nat_str_nonempty [of "unat p"] by (cases "nat_str (unat p)") auto
  then have "digit_of 10 c \<noteq> None" using nat_str_digits [of "unat p"] by auto
  then have "\<not> is_space c" by (auto simp: is_space_def digit_of_def)
  then have sp: "scan_spaces (CHR '' '' # nat_str (unat p) @ v) False = (nat_str (unat p) @ v, False)" for v
    by (simp add: scan_spaces_def c is_space_def)
  show ?thesis unfolding dns_line_def x inet_ntop_bytes
    by (simp add: scan_nameserver_def sp i numeral_3_eq_3 le32_of_le32 del: of_le32.simps)
qed

lemma length_nat_str_byte: "n < 256 \<Longrightarrow> length (nat_str n) \<le> 3"
  by (subst nat_str.simps, subst nat_str.simps, subst nat_str.simps) simp

lemma dotted_ints_le32: "dotted_ints (map uint (le32 a)) = inet_ntop a"
proof -
  obtain p q r s :: u8 where x: "a = of_le32 [p, q, r, s]" by (rule le32_cases)
  have "length (nat_str (unat y)) \<le> 3" for y :: u8 by (simp add: length_nat_str_byte)
  from this [of p] this [of q] this [of r] this [of s] show ?thesis
    by (simp add: x inet_ntop_bytes dotted_ints_def int_str_def le32_of_le32 del: of_le32.simps)
qed

lemma skip_newline: "skip_line 255 (CHR 0x0A # t) e = (t, e)"
  by (simp add: numeral_eq_Suc)

lemma dns_loop_done: "dns_loop num s True i addrs = (OK, addrs)"
  by (simp add: dns_loop.simps)

lemma dns_loop_end: "dns_loop num [] False i addrs = (OK, addrs)"
  by (subst dns_loop.simps) (simp add: scan_nameserver_def numeral_eq_Suc dns_loop_done)

lemma dns_loop_lines:
  "length addrs = num \<Longrightarrow> i \<le> num \<Longrightarrow> dns_loop num (concat (map dns_line as)) False i addrs
     = (OK, take i addrs @ take (num - i) as @ drop (i + length as) addrs)"
proof (induction as arbitrary: i addrs)
  case Nil
  then show ?case by (simp add: dns_loop_end)
next
  case (Cons a as)
  have step: "dns_loop num (concat (map dns_line (a # as))) False i addrs
      = (if i < num then dns_loop num (concat (map dns_line as)) False (Suc i) (addrs[i := a])
         else dns_loop num (concat (map dns_line as)) False i addrs)"
    using inet_aton_ntop [of a False]
    by (subst dns_loop.simps) (simp add: scan_dns_line skip_newline dotted_ints_le32 del: of_nat_unat)
  show ?case
  proof (cases "i < num")
    case True
    then have "take (Suc i) (addrs[i := a]) = take i addrs @ [a]"
      using Cons.prems by (simp add: take_Suc_conv_app_nth)
    moreover have "num - i = Suc (num - Suc i)" using True by simp
    ultimately show ?thesis using step True Cons.IH [of "addrs[i := a]" "Suc i"] Cons.prems by simp
  next
    case False
    with step Cons.IH [of addrs i] Cons.prems show ?thesis by simp
  qed
qed

lemma char_of_byte: "char_of (unat (of_char c :: u8)) = c"
proof -
  have "(of_char c :: u8) = word_of_nat (of_char c)" by (simp add: of_nat_of_char)
  then have "unat (of_char c :: u8) = of_char c mod 256" by (simp add: unat_of_nat)
  then show ?thesis by simp
qed

text \<open>What \<^verbatim>\<open>dns_add_nameserver\<close> writes, \<^verbatim>\<open>get_ipv4dnsaddr\<close> reads: as many addresses as the
  buffer has room for, in the order of the file.\<close>

theorem nameservers_read_back:
  assumes "outb (env w (hist w @ [Fopen ''/etc/resolv.conf'' ''r'']) (Fcontents f)) = bytes_of (concat (map dns_line as))"
    and "retv (env w (hist w) (Fopen ''/etc/resolv.conf'' ''r'')) = int f" and "f \<noteq> 0"
  shows "\<exists>w'. get_ipv4dnsaddr (Some addrs) (length addrs) w
    = (OK, Some (take (length addrs) as @ drop (length as) addrs), w') \<and> env w' = env w"
proof -
  have "map (\<lambda>b. char_of (unat b)) (bytes_of s) = s" for s
    by (simp add: bytes_of_def comp_def char_of_byte)
  with assms dns_loop_lines [of addrs "length addrs" 0 as] show ?thesis
    by (simp add: get_ipv4dnsaddr_def Let_def case_prod_beta)
qed

end
