(* ===== verification/Network.thy ===== *)
theory Network
  imports Inet
begin

section \<open>The network module: addresses of an interface (\<^verbatim>\<open>linux_network.c\<close>)\<close>

text \<open>
  Reading and setting the configuration of an interface, on the helpers of NetLib. The address type in the
  configuration is never used here and is left out. An interface is Wi-Fi or Ethernet.
\<close>

record artik_network_config =
  nc_ip_addr :: string
  nc_netmask :: string
  nc_gw_addr :: string
  nc_dns_addr :: "string list"
  nc_mac_addr :: string

definition ifname :: "bool \<Rightarrow> string" where
  "ifname wifi = (if wifi then ''wlan0'' else ''eth0'')"

subsection \<open>Testing the addresses\<close>

text \<open>
  The pattern has three groups, and the array for their positions is allocated, never freed and not tested.
  An address is required or may be empty.
\<close>

fun check_addresses :: "addr \<Rightarrow> (string \<times> bool) list \<Rightarrow> bool outcome" where
  "check_addresses pmatch [] = Ret True"
| "check_addresses pmatch ((s, required) # as) =
     (if s = [] then if required then Ret False else check_addresses pmatch as
      else if \<not> matches ip_rexp s then Ret False
      else if pmatch = 0 then Ub NullDeref
      else check_addresses pmatch as)"

definition check_config :: "(string \<times> bool) list \<Rightarrow> world \<Rightarrow> (bool \<times> world) outcome" where
  "check_config as w =
     (let (p, w1) = xc (Malloc 32) w
      in obind (check_addresses (nat (retv p)) as) (\<lambda>ok. Ret (ok, w1)))"

definition check_network_config :: "artik_network_config \<Rightarrow> world \<Rightarrow> (bool \<times> world) outcome" where
  "check_network_config c w = check_config
     [(nc_ip_addr c, True), (nc_netmask c, True), (nc_gw_addr c, True), (nc_dns_addr c ! 0, True),
      (nc_dns_addr c ! 1, False)] w"

subsection \<open>Setting\<close>

text \<open>Steps that end with the first that fails.\<close>

fun all_steps :: "(world \<Rightarrow> bool \<times> world) list \<Rightarrow> world \<Rightarrow> bool \<times> world" where
  "all_steps [] w = (True, w)"
| "all_steps (f # fs) w = (let (ok, w1) = f w in if ok then all_steps fs w1 else (False, w1))"

text \<open>Convert an address and use it.\<close>

definition set_text :: "string \<Rightarrow> (u32 \<Rightarrow> world \<Rightarrow> int \<times> world) \<Rightarrow> world \<Rightarrow> bool \<times> world" where
  "set_text s f w =
     (case inet_aton s of
        None \<Rightarrow> (False, w)
      | Some a \<Rightarrow> let (r, w1) = f a w in (r \<noteq> ERROR, w1))"

definition set_dns :: "string \<Rightarrow> bool \<Rightarrow> world \<Rightarrow> bool \<times> world" where
  "set_dns s app w = (if s = [] then (True, w) else set_text s (\<lambda>a. set_ipv4dnsaddr (Some a) app) w)"

definition os_set_network_config :: "artik_network_config option \<Rightarrow> bool \<Rightarrow> world \<Rightarrow> (artik_error \<times> world) outcome" where
  "os_set_network_config config wifi w =
     (case config of
        None \<Rightarrow> Ub NullDeref
      | Some c \<Rightarrow>
          let i = Some (ifname wifi)
          in obind (check_network_config c w) (\<lambda>(ok, w1).
               if \<not> ok then Ret (E_NETWORK_ERROR, w1)
               else let (ok, w2) = all_steps
                      [set_text (nc_ip_addr c) (\<lambda>a. set_ipv4addr i (Some a)),
                       set_text (nc_netmask c) (\<lambda>a. set_ipv4netmask i (Some a)),
                       set_text (nc_gw_addr c) (\<lambda>a. set_dripv4addr i (Some a)),
                       set_text (nc_gw_addr c) (\<lambda>a. set_defaultroute i (Some a) True),
                       set_dns (nc_dns_addr c ! 0) False,
                       set_dns (nc_dns_addr c ! 1) True] w1
                    in Ret (if ok then S_OK else E_NETWORK_ERROR, w2)))"

subsection \<open>Getting\<close>

text \<open>\<^verbatim>\<open>%02x\<close> of a byte.\<close>

definition hex_digit :: "nat \<Rightarrow> char" where
  "hex_digit d = char_of (if d < 10 then 48 + d else 87 + d)"

definition hex2 :: "u8 \<Rightarrow> string" where
  "hex2 b = [hex_digit (unat b div 16), hex_digit (unat b mod 16)]"

definition mac_text :: "bytes \<Rightarrow> string" where
  "mac_text mac = (case map hex2 mac of
     [a, b, c, d, e, f] \<Rightarrow> a @ '':'' @ b @ '':'' @ c @ '':'' @ d @ '':'' @ e @ '':'' @ f | _ \<Rightarrow> [])"

text \<open>What a helper that reports an address did: nothing if it failed, the address if it returned 0, else
  what the variable held before.\<close>

definition got_address :: "int \<times> u32 option \<times> world \<Rightarrow> u32 option \<Rightarrow> (u32 option \<times> world) outcome" where
  "got_address r old =
     (case r of (e, a, w) \<Rightarrow>
        if e = ERROR then Ret (None, w)
        else if e = 0 then Ret (a, w)
        else case old of None \<Rightarrow> Ub Uninitialised | Some v \<Rightarrow> Ret (Some v, w))"

text \<open>The steps write into the configuration of the caller one after the other.\<close>

definition os_get_network_config ::
  "artik_network_config option \<Rightarrow> bool \<Rightarrow> world \<Rightarrow> (artik_error \<times> artik_network_config option \<times> world) outcome" where
  "os_get_network_config config wifi w =
     (case config of
        None \<Rightarrow> Ret (E_BAD_ARGS, None, w)
      | Some c0 \<Rightarrow>
          let i = Some (ifname wifi)
          in obind (got_address (get_ipv4addr i (Some 0) w) None) (\<lambda>(ip, w1).
               case ip of None \<Rightarrow> Ret (E_NETWORK_ERROR, config, w1) | Some ip \<Rightarrow>
               let c1 = c0\<lparr>nc_ip_addr := inet_ntop ip\<rparr>; (e, mac, w2) = getmacaddr i w1
               in if e = ERROR then Ret (E_NETWORK_ERROR, Some c1, w2)
                  else case mac of None \<Rightarrow> Ub Uninitialised | Some mac \<Rightarrow>
                  let c2 = c1\<lparr>nc_mac_addr := mac_text mac\<rparr>
                  in obind (got_address (get_ipv4netmask i (Some ip) w2) (Some ip)) (\<lambda>(nm, w3).
                       case nm of None \<Rightarrow> Ret (E_NETWORK_ERROR, Some c2, w3) | Some nm \<Rightarrow>
                       let c3 = c2\<lparr>nc_netmask := inet_ntop nm\<rparr>
                       in obind (got_address (get_dripv4addr i (Some nm) w3) (Some nm)) (\<lambda>(gw, w4).
                            case gw of None \<Rightarrow> Ret (E_NETWORK_ERROR, Some c3, w4) | Some gw \<Rightarrow>
                            let c4 = c3\<lparr>nc_gw_addr := inet_ntop gw\<rparr>;
                                (r, dns, w5) = get_ipv4dnsaddr (Some [0, 0]) 2 w4
                            in if r = ERROR then Ret (E_NETWORK_ERROR, Some c4, w5)
                               else Ret (S_OK, Some (c4\<lparr>nc_dns_addr := map inet_ntop (the dns)\<rparr>), w5)))))"

subsection \<open>What setting a configuration does\<close>

text \<open>The calls a step makes, given the socket and the stream that the environment hands out.\<close>

definition net_works :: "(xcall list \<Rightarrow> xcall \<Rightarrow> answer) \<Rightarrow> int \<Rightarrow> nat \<Rightarrow> bool" where
  "net_works e fd f \<longleftrightarrow> 0 \<le> fd \<and> 0 < f \<and> (\<forall>h n. 0 < retv (e h (Malloc n)))
     \<and> (\<forall>h k. retv (e h (Socket k)) = fd) \<and> (\<forall>h q bs. retv (e h (Ioctl fd q bs)) = 0)
     \<and> (\<forall>h p m. retv (e h (Fopen p m)) = int f) \<and> (\<forall>h bs. 0 \<le> retv (e h (Fprintf f bs)))"

definition set_calls :: "int \<Rightarrow> string \<Rightarrow> bytes \<Rightarrow> xcall list" where
  "set_calls fd q bs = [Socket ''udp'', Ioctl fd q bs, Close fd]"

definition dns_calls :: "nat \<Rightarrow> bool \<Rightarrow> u32 \<Rightarrow> xcall list" where
  "dns_calls f app a = [Fopen ''/etc/resolv.conf'' (if app then ''at'' else ''wt''), Fprintf f (bytes_of (dns_line a)), Fclose f]"

lemma printed_nonempty [simp]: "inet_ntop a \<noteq> []"
  by (simp add: inet_ntop_def le32_def)

lemma matches_printed [simp]: "matches ip_rexp (inet_ntop a)"
  using regex_accepts_addresses by blast

lemma check_addresses_printed [simp]:
  "p \<noteq> 0 \<Longrightarrow> check_addresses p ((inet_ntop a, r) # as) = check_addresses p as"
  by simp

lemma set_text_printed [simp]: "set_text (inet_ntop a) f w = (let (r, w1) = f a w in (r \<noteq> ERROR, w1))"
  using inet_aton_ntop [of a False] by (simp add: set_text_def)

lemma set_step:
  assumes "net_works (env w) fd f"
  shows "ifreq_set q (Some n) (Some a) w = (0, w\<lparr>hist := hist w @ set_calls fd q (ifr_name n @ le32 a)\<rparr>)"
    "set_defaultroute (Some n) (Some a) True w
      = (0, w\<lparr>hist := hist w @ set_calls fd ''SIOCADDRT'' (le32 a @ le32 0 @ le32 0 @ [3] @ bytes_of n)\<rparr>)"
    "set_ipv4dnsaddr (Some a) app w = (OK, w\<lparr>hist := hist w @ dns_calls f app a\<rparr>)"
proof -
  have e: "0 \<le> fd" "f \<noteq> 0" "retv (env w h (Socket k)) = fd" "retv (env w h (Ioctl fd r bs)) = 0"
    "retv (env w h (Fopen y m)) = int f" "\<not> retv (env w h (Fprintf f bs)) < 0" for h k r bs y m
    using assms by (auto simp: net_works_def not_less)
  then show "ifreq_set q (Some n) (Some a) w = (0, w\<lparr>hist := hist w @ set_calls fd q (ifr_name n @ le32 a)\<rparr>)"
    "set_defaultroute (Some n) (Some a) True w
      = (0, w\<lparr>hist := hist w @ set_calls fd ''SIOCADDRT'' (le32 a @ le32 0 @ le32 0 @ [3] @ bytes_of n)\<rparr>)"
    "set_ipv4dnsaddr (Some a) app w = (OK, w\<lparr>hist := hist w @ dns_calls f app a\<rparr>)"
    by (simp_all add: ifreq_set_def set_defaultroute_def set_ipv4dnsaddr_def dns_add_nameserver_def
      set_calls_def dns_calls_def dns_line_def xc_def xcu_def Let_def)
qed

text \<open>The text of an address that may be missing.\<close>

definition optional_text :: "u32 option \<Rightarrow> string" where
  "optional_text a = (case a of None \<Rightarrow> [] | Some a \<Rightarrow> inet_ntop a)"

lemma set_network_config_calls:
  assumes "net_works (env w) fd f"
    and "nc_ip_addr c = inet_ntop ip" "nc_netmask c = inet_ntop nm" "nc_gw_addr c = inet_ntop gw"
    and "nc_dns_addr c = [inet_ntop d1, optional_text d2]"
  shows "os_set_network_config (Some c) wifi w = Ret (S_OK, w\<lparr>hist := hist w @ [Malloc 32]
     @ set_calls fd ''SIOCSIFADDR'' (ifr_name (ifname wifi) @ le32 ip)
     @ set_calls fd ''SIOCSIFNETMASK'' (ifr_name (ifname wifi) @ le32 nm)
     @ set_calls fd ''SIOCSIFDSTADDR'' (ifr_name (ifname wifi) @ le32 gw)
     @ set_calls fd ''SIOCADDRT'' (le32 gw @ le32 0 @ le32 0 @ [3] @ bytes_of (ifname wifi))
     @ dns_calls f False d1 @ (case d2 of None \<Rightarrow> [] | Some d \<Rightarrow> dns_calls f True d)\<rparr>)"
proof -
  have p: "nat (retv (env w (hist w) (Malloc 32))) \<noteq> 0"
    using assms(1) unfolding net_works_def by (metis nat_0_iff not_less)
  have w: "net_works (env (w\<lparr>hist := h\<rparr>)) fd f" for h using assms(1) by simp
  show ?thesis
    using p assms(2-)
    by (cases d2) (simp_all add: os_set_network_config_def check_network_config_def check_config_def xc_def Let_def
        optional_text_def set_dns_def set_ipv4addr_def set_ipv4netmask_def set_dripv4addr_def set_step [OF w] ERROR_def OK_def)
qed


text \<open>The addresses of a configuration whose texts are all in order.\<close>

definition config_addresses :: "artik_network_config \<Rightarrow> u32 \<Rightarrow> u32 \<Rightarrow> u32 \<Rightarrow> u32 \<Rightarrow> u32 option \<Rightarrow> bool" where
  "config_addresses c ip nm gw d1 d2 \<longleftrightarrow> nc_ip_addr c = inet_ntop ip \<and> nc_netmask c = inet_ntop nm
     \<and> nc_gw_addr c = inet_ntop gw \<and> nc_dns_addr c = [inet_ntop d1, optional_text d2]"

lemma optional_text_iff: "(\<exists>d. y = optional_text d) \<longleftrightarrow> y = [] \<or> (\<exists>a. y = inet_ntop a)"
  unfolding optional_text_def by (metis option.exhaust option.simps(4,5))

lemma net_works_malloc: "net_works (env w) fd f \<Longrightarrow> nat (retv (env w h (Malloc n))) \<noteq> 0"
  unfolding net_works_def by (metis nat_0_iff not_less)

lemma check_addresses_all:
  "p \<noteq> 0 \<Longrightarrow> check_addresses p as = Ret (\<forall>(s, r)\<in>set as. (s = [] \<and> \<not> r) \<or> (\<exists>a. s = inet_ntop a))"
  by (induction p as rule: check_addresses.induct) (auto simp: regex_accepts_addresses)

text \<open>C29. A configuration is refused, with nothing changed, unless its addresses are in dotted form with numbers
  below 256 and no leading zeros (only the second name server may be missing); otherwise the kernel is handed
  exactly those addresses and the route to the gateway, and the file of name servers is written anew.\<close>

theorem set_network_config_checked:
  assumes "net_works (env w) fd f" and "nc_dns_addr c = [x, y]"
  shows "((\<nexists>ip nm gw d1 d2. config_addresses c ip nm gw d1 d2) \<longrightarrow>
      os_set_network_config (Some c) wifi w = Ret (E_NETWORK_ERROR, w\<lparr>hist := hist w @ [Malloc 32]\<rparr>))
    \<and> (config_addresses c ip nm gw d1 d2 \<longrightarrow>
      os_set_network_config (Some c) wifi w = Ret (S_OK, w\<lparr>hist := hist w @ [Malloc 32]
       @ set_calls fd ''SIOCSIFADDR'' (ifr_name (ifname wifi) @ le32 ip)
       @ set_calls fd ''SIOCSIFNETMASK'' (ifr_name (ifname wifi) @ le32 nm)
       @ set_calls fd ''SIOCSIFDSTADDR'' (ifr_name (ifname wifi) @ le32 gw)
       @ set_calls fd ''SIOCADDRT'' (le32 gw @ le32 0 @ le32 0 @ [3] @ bytes_of (ifname wifi))
       @ dns_calls f False d1 @ (case d2 of None \<Rightarrow> [] | Some d \<Rightarrow> dns_calls f True d)\<rparr>))"
proof (intro conjI impI)
  assume bad: "\<nexists>ip nm gw d1 d2. config_addresses c ip nm gw d1 d2"
  have p: "nat (retv (env w (hist w) (Malloc 32))) \<noteq> 0" by (rule net_works_malloc [OF assms(1)])
  let ?ok = "\<lambda>s. \<exists>a. s = inet_ntop a"
  have "check_network_config c w = Ret (?ok (nc_ip_addr c) \<and> ?ok (nc_netmask c) \<and> ?ok (nc_gw_addr c) \<and> ?ok x
      \<and> (y = [] \<or> ?ok y), snd (xc (Malloc 32) w))"
    using p by (simp add: check_network_config_def check_config_def case_prod_beta Let_def check_addresses_all assms(2)
        del: check_addresses.simps)
  moreover have "\<not> (?ok (nc_ip_addr c) \<and> ?ok (nc_netmask c) \<and> ?ok (nc_gw_addr c) \<and> ?ok x \<and> (y = [] \<or> ?ok y))"
    using bad optional_text_iff [of y] unfolding config_addresses_def assms(2) by auto
  ultimately show "os_set_network_config (Some c) wifi w = Ret (E_NETWORK_ERROR, w\<lparr>hist := hist w @ [Malloc 32]\<rparr>)"
    by (simp add: os_set_network_config_def xc_def)
qed (rule set_network_config_calls [OF assms(1)]; simp add: config_addresses_def)

text \<open>An interface that has an address, and a file with one name server.\<close>

definition net_env :: "xcall list \<Rightarrow> xcall \<Rightarrow> answer" where
  "net_env h c = (case c of
      Fopen p m \<Rightarrow> \<lparr>retv = 5, errno = 0, oval = 0, outb = []\<rparr>
    | Fprintf f bs \<Rightarrow> \<lparr>retv = int (length bs), errno = 0, oval = 0, outb = []\<rparr>
    | Fcontents f \<Rightarrow> \<lparr>retv = 0, errno = 0, oval = 0, outb = bytes_of (concat (map dns_line [0x08080808]))\<rparr>
    | Ioctl fd q bs \<Rightarrow> \<lparr>retv = 0, errno = 0, oval = 0, outb =
        (if q = ''SIOCGIFHWADDR'' then [0xA0, 0xB1, 2, 3, 4, 5]
         else if q = ''SIOCGIFNETMASK'' then le32 0x00FFFFFF
         else if q = ''SIOCGIFDSTADDR'' then le32 0x0101A8C0 else le32 0x0401A8C0)\<rparr>
    | _ \<Rightarrow> good_env h c)"

definition net_world :: world where
  "net_world = \<lparr>hist = [], env = net_env\<rparr>"

definition sample_config :: artik_network_config where
  "sample_config = \<lparr>nc_ip_addr = ''192.168.1.4'', nc_netmask = ''255.255.255.0'', nc_gw_addr = ''192.168.1.1'',
     nc_dns_addr = [''8.8.8.8'', ''''], nc_mac_addr = ''''\<rparr>"

lemma net_works_sample: "net_works net_env 3 5"
  by (simp add: net_works_def net_env_def)

lemma config_addresses_sample: "config_addresses sample_config 0x0401A8C0 0x00FFFFFF 0x0101A8C0 0x08080808 None"
  by (simp add: config_addresses_def sample_config_def optional_text_def inet_ntop_def le32_def nat_str.simps char_of_def bit_0)

theorem set_network_config_checked_witness:
  "os_set_network_config (Some (sample_config\<lparr>nc_ip_addr := ''192.168.1.04''\<rparr>)) True net_world
     = Ret (E_NETWORK_ERROR, net_world\<lparr>hist := [Malloc 32]\<rparr>)
   \<and> (\<exists>w'. os_set_network_config (Some sample_config) True net_world = Ret (S_OK, w'))"
proof -
  have w: "net_works (env net_world) 3 5" using net_works_sample by (simp add: net_world_def)
  have d: "nc_dns_addr (sample_config\<lparr>nc_ip_addr := x\<rparr>) = [''8.8.8.8'', '''']" for x by (simp add: sample_config_def)
  have "\<not> matches ip_rexp ''192.168.1.04''" by code_simp
  then have "''192.168.1.04'' \<noteq> inet_ntop a" for a using matches_printed by metis
  then have "\<nexists>ip nm gw d1 d2. config_addresses (sample_config\<lparr>nc_ip_addr := ''192.168.1.04''\<rparr>) ip nm gw d1 d2"
    by (simp add: config_addresses_def sample_config_def)
  with set_network_config_checked [OF w d [of "''192.168.1.04''"], where wifi = True]
    set_network_config_checked [OF w, where c = sample_config and x = "''8.8.8.8''" and y = "''''" and wifi = True
      and ip = "0x0401A8C0" and nm = "0x00FFFFFF" and gw = "0x0101A8C0" and ?d1.0 = "0x08080808" and ?d2.0 = None]
    config_addresses_sample
  show ?thesis by (auto simp: net_world_def sample_config_def)
qed

subsection \<open>Reading back what was set\<close>

text \<open>A kernel and a file that hold a configuration.\<close>

definition net_holds :: "(xcall list \<Rightarrow> xcall \<Rightarrow> answer) \<Rightarrow> int \<Rightarrow> nat \<Rightarrow> bytes \<Rightarrow> u32 \<Rightarrow> u32 \<Rightarrow> u32 \<Rightarrow> u32 list \<Rightarrow> bool" where
  "net_holds e fd f mac ip nm gw dns \<longleftrightarrow> length mac = 6
     \<and> (\<forall>h n. outb (e h (Ioctl fd ''SIOCGIFADDR'' n)) = le32 ip \<and> outb (e h (Ioctl fd ''SIOCGIFHWADDR'' n)) = mac
         \<and> outb (e h (Ioctl fd ''SIOCGIFNETMASK'' n)) = le32 nm \<and> outb (e h (Ioctl fd ''SIOCGIFDSTADDR'' n)) = le32 gw)
     \<and> (\<forall>h. outb (e h (Fcontents f)) = bytes_of (concat (map dns_line dns)))"

lemma get_step:
  assumes "net_works (env w) fd f"
  shows "ifreq_get q (Some n) (Some a) w = (0, Some (ip_of (outb (env w (hist w @ [Socket ''udp'']) (Ioctl fd q (ifr_name n))))),
      w\<lparr>hist := hist w @ set_calls fd q (ifr_name n)\<rparr>)"
    "getmacaddr (Some n) w = (0, Some (take 6 (outb (env w (hist w @ [Socket ''udp'']) (Ioctl fd ''SIOCGIFHWADDR'' (ifr_name n)))
      @ replicate 6 0)), w\<lparr>hist := hist w @ set_calls fd ''SIOCGIFHWADDR'' (ifr_name n)\<rparr>)"
proof -
  have e: "0 \<le> fd" "retv (env w h (Socket k)) = fd" "retv (env w h (Ioctl fd r bs)) = 0" for h k r bs
    using assms by (auto simp: net_works_def)
  then show "ifreq_get q (Some n) (Some a) w = (0, Some (ip_of (outb (env w (hist w @ [Socket ''udp'']) (Ioctl fd q (ifr_name n))))),
      w\<lparr>hist := hist w @ set_calls fd q (ifr_name n)\<rparr>)"
    "getmacaddr (Some n) w = (0, Some (take 6 (outb (env w (hist w @ [Socket ''udp'']) (Ioctl fd ''SIOCGIFHWADDR'' (ifr_name n)))
      @ replicate 6 0)), w\<lparr>hist := hist w @ set_calls fd ''SIOCGIFHWADDR'' (ifr_name n)\<rparr>)"
    by (simp_all add: ifreq_get_def getmacaddr_def set_calls_def xc_def xcu_def Let_def)
qed

lemma get_network_config_reads:
  assumes "net_works (env w) fd f" and "net_holds (env w) fd f mac ip nm gw dns"
  shows "\<exists>w'. os_get_network_config (Some c) wifi w = Ret (S_OK, Some (c\<lparr>nc_ip_addr := inet_ntop ip,
      nc_mac_addr := mac_text mac, nc_netmask := inet_ntop nm, nc_gw_addr := inet_ntop gw,
      nc_dns_addr := map inet_ntop (take 2 dns @ replicate (2 - length dns) 0)\<rparr>), w')"
proof -
  have w: "net_works (env (w\<lparr>hist := h\<rparr>)) fd f" for h using assms(1) by simp
  have e: "outb (env w h (Ioctl fd ''SIOCGIFADDR'' n)) = le32 ip" "outb (env w h (Ioctl fd ''SIOCGIFHWADDR'' n)) = mac"
    "outb (env w h (Ioctl fd ''SIOCGIFNETMASK'' n)) = le32 nm" "outb (env w h (Ioctl fd ''SIOCGIFDSTADDR'' n)) = le32 gw"
    "length mac = 6" for h n using assms(2) by (auto simp: net_holds_def)
  have two: "[0, 0] = replicate 2 (0 :: u32)" by (simp add: numeral_2_eq_2)
  have dns: "\<exists>v'. get_ipv4dnsaddr (Some [0, 0]) 2 v = (OK, Some (take 2 dns @ replicate (2 - length dns) 0), v')"
    if "env v = env w" for v
    using nameservers_read_back [of v f dns "replicate 2 0", unfolded length_replicate drop_replicate] assms that
    unfolding two by (auto simp: net_works_def net_holds_def simp del: replicate.simps)
  let ?n = "ifr_name (ifname wifi)"
  let ?w4 = "w\<lparr>hist := hist w @ set_calls fd ''SIOCGIFADDR'' ?n @ set_calls fd ''SIOCGIFHWADDR'' ?n
    @ set_calls fd ''SIOCGIFNETMASK'' ?n @ set_calls fd ''SIOCGIFDSTADDR'' ?n\<rparr>"
  obtain v' where "get_ipv4dnsaddr (Some [0, 0]) 2 ?w4 = (OK, Some (take 2 dns @ replicate (2 - length dns) 0), v')"
    using dns [of ?w4] by auto
  then show ?thesis
    by (simp add: os_get_network_config_def get_ipv4addr_def get_ipv4netmask_def get_dripv4addr_def get_step [OF w]
        get_step [OF assms(1)] e got_address_def ERROR_def OK_def)
qed



end
