(* ===== verification/NetworkDhcp.thy ===== *)
theory NetworkDhcp
  imports Network HandleTable DhcpServer DhcpClientProps
begin

section \<open>The network module: DHCP (\<^verbatim>\<open>linux_network.c\<close>)\<close>

text \<open>
  Starting and stopping the DHCP client and the DHCP server of DhcpClient and DhcpServer. Clients and servers
  are nodes of one list, found by handle: the address of the client's own structure (\<open>dn_client\<close> is the
  memory of those), or the address of the node of a server. The node of a client is looked at through the wrong type
  if the handle is a server's. The timer for renewing a lease gets the address of the variable in which the application
  keeps its handle (\<open>dn_vars\<close> is the memory of those variables). There is one running server at most, since its
  state is global.
\<close>

record client_node =
  cn_renew_cbk_id :: int
  cn_loop_module :: addr
  cn_interface :: string

record artik_dhcp_server_config = dhcp_server_config +
  cf_ip_addr :: string

record server_node =
  sn_sockfd :: int
  sn_watch_id :: int
  sn_interface :: string
  sn_config :: artik_dhcp_server_config

datatype dhcp_node = ClientNode client_node | ServerNode server_node

record dhcp_state =
  dn_nodes :: "dhcp_node tab"
  dn_client :: "addr \<Rightarrow> dhcpc_handle option"
  dn_vars :: "addr \<Rightarrow> addr option"
  dn_server :: "(dhcp_server_handle \<times> dhcpd_state) option"

definition node_of :: "addr \<Rightarrow> dhcp_state \<Rightarrow> dhcp_node option" where
  "node_of h st = map_option snd (tab_get_by_handle h (dn_nodes st))"

text \<open>What \<^verbatim>\<open>errno\<close> reads after the last call.\<close>

definition last_errno :: "world \<Rightarrow> int" where
  "last_errno w = (if hist w = [] then 0 else errno (env w (butlast (hist w)) (last (hist w))))"

subsection \<open>The lease on the interface\<close>

definition worked :: "(world \<Rightarrow> int \<times> world) \<Rightarrow> world \<Rightarrow> bool \<times> world" where
  "worked f w = (let (r, w1) = f w in (r \<noteq> ERROR, w1))"

definition if_given :: "u32 \<Rightarrow> (world \<Rightarrow> int \<times> world) \<Rightarrow> world \<Rightarrow> bool \<times> world" where
  "if_given a f w = (if a \<noteq> 0 then worked f w else (True, w))"

definition lease_steps :: "string \<Rightarrow> dhcpc_result \<Rightarrow> (world \<Rightarrow> bool \<times> world) list" where
  "lease_steps i ds =
     [worked (set_ipv4addr (Some i) (Some (dr_ipaddr ds))),
      if_given (dr_netmask ds) (set_ipv4netmask (Some i) (Some (dr_netmask ds))),
      if_given (dr_default_router ds) (set_dripv4addr (Some i) (Some (dr_default_router ds))),
      if_given (dr_dnsaddr ds) (set_ipv4dnsaddr (Some (dr_dnsaddr ds)) False)]"

definition gateway_route :: "string \<Rightarrow> dhcpc_result \<Rightarrow> world \<Rightarrow> int \<times> world" where
  "gateway_route i ds = set_defaultroute (Some i) (Some (dr_default_router ds)) True"

definition renew_delay :: "dhcpc_result \<Rightarrow> u32" where
  "renew_delay ds = (dr_lease_time ds - 30) * 1000"

text \<open>The number of the renewal function in the calls of the loop.\<close>

definition on_renew :: addr where "on_renew = 1"

subsection \<open>The client\<close>

text \<open>Up to the open client: nothing if a step failed.\<close>

definition client_open :: "string \<Rightarrow> addr \<Rightarrow> dhcp_state \<Rightarrow> world \<Rightarrow> ((addr \<times> dhcpc_handle) option \<times> dhcp_state \<times> world) outcome" where
  "client_open i hv st w =
     obind (del_allroutes_interface i w) (\<lambda>(r, w1).
       if r = ERROR then Ret (None, st, w1)
       else let (r, w2) = set_defaultroute (Some i) (Some 0) False w1
            in if r = ERROR then Ret (None, st, w2)
               else let (r, mac, w3) = getmacaddr (Some i) w2
                    in if r = ERROR then Ret (None, st, w3)
                       else let (h, w4) = dhcpc_open 6 w3
                            in Ret (h, st\<lparr>dn_vars := (dn_vars st)(hv \<mapsto> (case h of None \<Rightarrow> 0 | Some (p, pd) \<Rightarrow> p))\<rparr>, w4))"

text \<open>The node, the lease and the timer. \<open>p\<close> is the handle, \<open>m\<close> the memory for the node.\<close>

definition client_configure :: "string \<Rightarrow> addr \<Rightarrow> addr \<Rightarrow> dhcpc_result \<Rightarrow> dhcp_state \<Rightarrow> world
    \<Rightarrow> (artik_error \<times> dhcp_state \<times> world) outcome" where
  "client_configure i hv p ds st w =
     (let (l, w1) = xc (ModRequest ''loop'') w;
          node = \<lparr>cn_renew_cbk_id = 0, cn_loop_module = nat (retv l), cn_interface = i\<rparr>;
          st1 = st\<lparr>dn_nodes := dn_nodes st @ [(p, ClientNode node)]\<rparr>;
          (ok, w2) = all_steps (lease_steps i ds @ [worked (gateway_route i ds)]) w1
      in if \<not> ok then Ret (E_NETWORK_ERROR, st1, w2)
         else if retv l = 0 then Ub NullDeref
         else let (t, w3) = xc (AddTimeout (nat (retv l)) (renew_delay ds) on_renew hv) w2
              in Ret (retv t,
                  if retv t = S_OK
                  then st\<lparr>dn_nodes := dn_nodes st @ [(p, ClientNode (node\<lparr>cn_renew_cbk_id := oval t\<rparr>))]\<rparr> else st1, w3))"

text \<open>\<open>ds\<close> is what the local variable for the lease holds at the start: it is not initialised.\<close>

definition os_dhcp_client_start ::
  "addr \<Rightarrow> bool \<Rightarrow> dhcpc_result \<Rightarrow> addr \<Rightarrow> dhcp_state \<Rightarrow> world \<Rightarrow> (artik_error \<times> dhcp_state \<times> world) run" where
  "os_dhcp_client_start hv wifi ds m st w =
     (case client_open (ifname wifi) hv st w of
        Ub f \<Rightarrow> ub f
      | Ret (None, st1, w1) \<Rightarrow> ret (E_NETWORK_ERROR, st1, w1)
      | Ret (Some (p, pd), st1, w1) \<Rightarrow>
          rbind (dhcpc_request (ifname wifi) 0 False pd ds w1) (\<lambda>(r, pd1, ds1, w2).
            let st2 = st1\<lparr>dn_client := (dn_client st1)(p \<mapsto> pd1)\<rparr>
            in if r = ERROR then ret (E_NETWORK_ERROR, st2, w2)
               else if m = 0 then ret (E_NO_MEM, st2, w2)
               else Some (client_configure (ifname wifi) hv p ds1 st2 w2)))"

text \<open>The result of the renewal: 0 if it went well. \<open>ds\<close> and \<open>old\<close> are the local variables as they were.\<close>

definition dhcp_client_renew ::
  "addr \<Rightarrow> string \<Rightarrow> dhcpc_result \<Rightarrow> u32 \<Rightarrow> dhcp_state \<Rightarrow> world \<Rightarrow> (int \<times> dhcp_state \<times> world) run" where
  "dhcp_client_renew hv i ds old st w =
     (case dn_vars st hv of
        None \<Rightarrow> ub UseAfterFree
      | Some p \<Rightarrow>
          if p = 0 then ret (ERROR, st, w)
          else case dn_client st p of
            None \<Rightarrow> ub UseAfterFree
          | Some pd \<Rightarrow>
              let (_, a, w1) = get_ipv4addr (Some i) (Some old) w
              in rbind (dhcpc_request i (the a) True pd ds w1) (\<lambda>(r, pd1, ds1, w2).
                let st1 = st\<lparr>dn_client := (dn_client st)(p \<mapsto> pd1)\<rparr>
                in if r = ERROR then ret (ERROR, st1, w2)
                   else let (ok, w3) = all_steps (lease_steps i ds1) w2
                        in if \<not> ok then ret (ERROR, st1, w3)
                           else let (r, w4) = gateway_route i ds1 w3
                                in if r = ERROR \<and> last_errno w4 \<noteq> 17 then ret (ERROR, st1, w4)
                                   else case node_of p st1 of
                                     None \<Rightarrow> ub NullDeref
                                   | Some (ServerNode n) \<Rightarrow> ub TypeConfusion
                                   | Some (ClientNode n) \<Rightarrow>
                                       if cn_loop_module n = 0 then ub NullDeref
                                       else let (t, w5) = xc (RemoveTimeout (cn_loop_module n) (cn_renew_cbk_id n)) w4
                                            in if retv t \<noteq> S_OK then ret (retv t, st1, w5)
                                               else let (t, w6) = xc (AddTimeout (cn_loop_module n) (renew_delay ds1) on_renew hv) w5
                                                    in ret (retv t, st1\<lparr>dn_nodes := (if retv t = S_OK
                                                          then tab_set p (ClientNode (n\<lparr>cn_renew_cbk_id := oval t\<rparr>)) (dn_nodes st1)
                                                          else dn_nodes st1)\<rparr>, w6)))"

definition on_dhcp_client_renew_callback ::
  "addr \<Rightarrow> dhcpc_result \<Rightarrow> u32 \<Rightarrow> dhcp_state \<Rightarrow> world \<Rightarrow> (dhcp_state \<times> world) run" where
  "on_dhcp_client_renew_callback hv ds old st w =
     (case dn_vars st hv of
        None \<Rightarrow> ub UseAfterFree
      | Some p \<Rightarrow>
          (case node_of p st of
             None \<Rightarrow> ret (st, w)
           | Some (ServerNode n) \<Rightarrow> ub TypeConfusion
           | Some (ClientNode n) \<Rightarrow>
               rbind (dhcp_client_renew hv (cn_interface n) ds old st w) (\<lambda>(r, st1, w1).
                 if r = OK then ret (st1, w1)
                 else let (r, w2) = set_ipv4addr (Some (cn_interface n)) (Some 0) w1
                      in if r = ERROR then ret (st1, w2)
                         else let (l, w3) = xc (ModRequest ''loop'') w2
                              in if retv l = 0 then ub NullDeref
                                 else ret (st1, xcu (LoopQuit (nat (retv l))) w3))))"

definition os_dhcp_client_stop :: "addr \<Rightarrow> dhcp_state \<Rightarrow> world \<Rightarrow> (artik_error \<times> dhcp_state \<times> world) outcome" where
  "os_dhcp_client_stop h st w =
     (case node_of h st of
        None \<Rightarrow> Ret (E_NO_MEM, st, w)
      | Some (ServerNode n) \<Rightarrow> Ub TypeConfusion
      | Some (ClientNode n) \<Rightarrow>
          (case dn_client st h of
             None \<Rightarrow> Ub UseAfterFree
           | Some pd \<Rightarrow> Ret (S_OK, st\<lparr>dn_client := (dn_client st)(h := None)\<rparr>, dhcpc_close (Some (h, pd)) w)))"

subsection \<open>The server\<close>

definition check_dhcp_server_config :: "artik_dhcp_server_config \<Rightarrow> world \<Rightarrow> (bool \<times> world) outcome" where
  "check_dhcp_server_config c w = check_config
     [(cf_ip_addr c, True), (cf_netmask c, True), (cf_gw_addr c, True), (cf_dns_addr c ! 0, True),
      (cf_dns_addr c ! 1, False), (cf_start_addr c, True)] w"

definition server_steps :: "string \<Rightarrow> artik_dhcp_server_config \<Rightarrow> (world \<Rightarrow> bool \<times> world) list" where
  "server_steps i c =
     [worked (set_ipv4addr (Some i) (Some (inet_addr (cf_ip_addr c)))),
      worked (set_ipv4netmask (Some i) (Some (inet_addr (cf_netmask c)))),
      worked (set_dripv4addr (Some i) (Some (inet_addr (cf_gw_addr c)))),
      worked (set_defaultroute (Some i) (Some 0) False)]"

text \<open>\<open>handle\<close> says whether the pointer for the handle is not null. The handle given out, if any.\<close>

definition os_dhcp_server_start ::
  "bool \<Rightarrow> artik_dhcp_server_config option \<Rightarrow> addr \<Rightarrow> dhcp_state \<Rightarrow> world
     \<Rightarrow> (artik_error \<times> addr option \<times> dhcp_state \<times> world) outcome" where
  "os_dhcp_server_start handle config m st w =
     (if \<not> handle then Ret (E_BAD_ARGS, None, st, w)
      else case config of
        None \<Rightarrow> Ret (E_BAD_ARGS, None, st, w)
      | Some c \<Rightarrow>
          obind (check_dhcp_server_config c w) (\<lambda>(ok, w1).
            if \<not> ok then Ret (E_NETWORK_ERROR, None, st, w1)
            else if m = 0 then Ret (E_NO_MEM, None, st, w1)
            else let i = ifname (cf_wifi c);
                     n = \<lparr>sn_sockfd = 0, sn_watch_id = 0, sn_interface = i, sn_config = c\<rparr>;
                     st1 = st\<lparr>dn_nodes := dn_nodes st @ [(m, ServerNode n)]\<rparr>
                 in obind (del_allroutes_interface i w1) (\<lambda>(r, w2).
                      if r = ERROR then Ret (E_NETWORK_ERROR, Some m, st1, w2)
                      else let (ok, w3) = all_steps (server_steps i c) w2
                           in if \<not> ok then Ret (E_NETWORK_ERROR, Some m, st1, w3)
                              else obind (dhcpd_run inet_addr (dhcp_server_config.truncate c) w3) (\<lambda>(sv, s, k, g, w4).
                                     Ret (S_OK, Some m,
                                       st\<lparr>dn_nodes := dn_nodes st @ [(m, ServerNode (n\<lparr>sn_sockfd := s, sn_watch_id := k\<rparr>))],
                                          dn_server := Some (sv, g)\<rparr>, w4)))))"

definition os_dhcp_server_stop :: "addr \<Rightarrow> dhcp_state \<Rightarrow> world \<Rightarrow> (artik_error \<times> dhcp_state \<times> world) outcome" where
  "os_dhcp_server_stop h st w =
     (let (l, w1) = xc (ModRequest ''loop'') w
      in case node_of h st of
           None \<Rightarrow> Ret (E_NO_MEM, st, w1)
         | Some (ClientNode n) \<Rightarrow> Ub TypeConfusion
         | Some (ServerNode n) \<Rightarrow>
             let (c, w2) = xc (Close (sn_sockfd n)) w1
             in if retv c < 0 then Ret (E_NETWORK_ERROR, st, w2)
                else if retv l = 0 then Ub NullDeref
                else let (k, w3) = xc (RemoveFdWatch (nat (retv l)) (sn_watch_id n)) w2
                     in if retv k \<noteq> S_OK then Ret (E_NETWORK_ERROR, st, w3)
                        else obind (del_allroutes_interface (sn_interface n) w3) (\<lambda>(r, w4).
                               if r = ERROR then Ret (E_NETWORK_ERROR, st, w4)
                               else let (ok, w5) = all_steps
                                          [worked (set_defaultroute (Some (sn_interface n)) (Some 0) False),
                                           worked (set_ipv4addr (Some (sn_interface n)) (Some 0))] w4
                                    in Ret (if ok then S_OK else E_NETWORK_ERROR, st, w5)))"

end
