(* ===== verification/NetworkDhcpProps.thy ===== *)
theory NetworkDhcpProps
  imports NetworkDhcp
begin

section \<open>The network module: what starting and stopping DHCP does\<close>

subsection \<open>A request only adds calls\<close>

lemma env_set_ipv4addr [simp]: "env (snd (set_ipv4addr n a w)) = env w"
  by (auto simp: set_ipv4addr_def ifreq_set_def Let_def case_prod_beta split: option.split)

lemma env_set_defaultroute [simp]: "env (snd (set_defaultroute n a g w)) = env w"
  by (auto simp: set_defaultroute_def Let_def case_prod_beta split: option.split)

lemma env_get_ipv4addr [simp]: "env (snd (snd (get_ipv4addr n a w))) = env w"
  by (auto simp: get_ipv4addr_def ifreq_get_def Let_def case_prod_beta split: option.split)

lemma env_getmacaddr [simp]: "env (snd (snd (getmacaddr n w))) = env w"
  by (auto simp: getmacaddr_def Let_def case_prod_beta split: option.split)

lemma env_sendmsg: "dhcpc_sendmsg pd pr t i renew w = Ret (r, pd', w') \<Longrightarrow> env w' = env w"
  by (auto simp: dhcpc_sendmsg_def Let_def obind_eq_Ret case_prod_beta
      split: option.splits if_splits)

lemma env_recv_msg: "recv_msg pd pr w = Ret (t, e, pd', pr', w') \<Longrightarrow> env w' = env w"
  by (auto simp: recv_msg_def Let_def obind_eq_Ret case_prod_beta split: if_splits)

lemma env_discover_loop: "discover_loop i old renew n pd pr w = Ret (ph, pd', pr', w') \<Longrightarrow> env w' = env w"
proof (induction i old renew n pd pr w arbitrary: ph pd' pr' w' rule: discover_loop.induct)
  case (1 i old renew pd pr w)
  then show ?case by (auto simp: obind_eq_Ret dest!: env_sendmsg split: if_splits)
next
  case (2 i old renew n pd pr w)
  from "2.prems" obtain r pd1 w1 where s: "dhcpc_sendmsg pd pr DHCPDISCOVER i renew w = Ret (r, pd1, w1)"
    by (auto simp: obind_eq_Ret)
  show ?case
  proof (cases "r < 0")
    case True
    with "2.prems" s env_sendmsg [OF s] show ?thesis by auto
  next
    case False
    with "2.prems" s obtain t e pd2 pr1 w2 where m: "recv_msg pd1 pr w1 = Ret (t, e, pd2, pr1, w2)"
      by (auto simp: obind_eq_Ret)
    have e: "env w2 = env w" using env_sendmsg [OF s] env_recv_msg [OF m] by simp
    with False "2.prems" s m "2.IH" show ?thesis
      by (auto split: option.splits if_splits)
  qed
qed

lemma env_request_loop:
  "request_loop i old a renew n pd pr w = Ret (ph, pd', pr', w') \<Longrightarrow> env w' = env w"
proof (induction n arbitrary: renew pd pr w ph pd' pr' w')
  case (Suc n)
  let ?pd = "if renew then pd\<lparr>dc_ipaddr := a\<rparr> else pd"
  from Suc.prems obtain r pd1 w1 where s: "dhcpc_sendmsg ?pd pr DHCPREQUEST i renew w = Ret (r, pd1, w1)"
    by (auto simp: obind_eq_Ret Let_def)
  show ?case
  proof (cases "r < 0")
    case True
    with Suc.prems s env_sendmsg [OF s] show ?thesis by (auto simp: Let_def)
  next
    case False
    with Suc.prems s obtain t e pd2 pr1 w2 where m: "recv_msg pd1 pr w1 = Ret (t, e, pd2, pr1, w2)"
      by (auto simp: obind_eq_Ret Let_def)
    have e: "env w2 = env w" using env_sendmsg [OF s] env_recv_msg [OF m] by simp
    from False Suc.prems s m have "(case t of Some mt \<Rightarrow>
        if mt = DHCPACK then Ret (Going (True, if n = 0 then False else renew), pd2, pr1, w2)
        else if mt = DHCPNAK then Ret (Going (False, renew), pd2, pr1, w2)
        else if mt = DHCPOFFER then
          obind (dhcpc_sendmsg pd2 pr1 DHCPDECLINE i renew w2) (\<lambda>(_, pd3, w3).
            request_loop i old a (if n = 0 then False else renew) n pd3 pr1 w3)
        else request_loop i old a (if n = 0 then False else renew) n pd2 pr1 w2
      | None \<Rightarrow>
        if e \<noteq> EAGAIN then Ret (Failed, pd2, pr1, snd (set_ipv4addr (Some i) (Some old) w2))
        else request_loop i old a (if n = 0 then False else renew) n pd2 pr1 w2) = Ret (ph, pd', pr', w')"
      by (simp add: Let_def)
    with e show ?thesis
      by (auto simp: obind_eq_Ret request_loop.simps(1) simp del: request_loop.simps(2) dest!: Suc.IH dest: env_sendmsg split: option.splits if_split_asm)
  qed
qed simp

lemma env_first_phase: "first_phase i old renew n pd pr w = Ret (ph, pd', pr', w') \<Longrightarrow> env w' = env w"
  by (auto simp: first_phase_def reset_address_def Let_def case_prod_beta dest: env_discover_loop split: if_splits)

lemma env_lease_loop:
  assumes "lease_loop i old a renew n pd pr w = Some r"
  shows "\<forall>e pd' pr' w'. r = Ret (e, pd', pr', w') \<longrightarrow> env w' = env w"
proof (rule lease_loop.raw_induct [OF _ assms, where P = "\<lambda>i old a renew n pd pr w r.
    \<forall>e pd' pr' w'. r = Ret (e, pd', pr', w') \<longrightarrow> env w' = env w"], goal_cases)
  case (1 ll i old a renew n pd pr w r)
  from 1(2) show ?case
    by (auto dest!: env_first_phase env_request_loop 1(1) split: outcome.splits phase.splits if_splits prod.splits)
qed

lemma env_dhcpc_request:
  "dhcpc_request i a renew pd pr w = Some (Ret (r, pd', pr', w')) \<Longrightarrow> env w' = env w"
  by (auto simp: dhcpc_request_def Let_def case_prod_beta dest!: env_lease_loop)

lemma env_dhcpc_open [simp]: "env (snd (dhcpc_open n w)) = env w"
  by (auto simp: dhcpc_open_def Let_def case_prod_beta)

lemma env_del_allroutes: "del_allroutes_interface i w = Ret (r, w') \<Longrightarrow> env w' = env w"
  by (auto simp: del_allroutes_interface_def Let_def case_prod_beta obind_eq_Ret split: if_splits)

lemma env_client_open:
  "client_open i hv st w = Ret (x, st', w') \<Longrightarrow> env w' = env w"
  by (auto simp: client_open_def obind_eq_Ret Let_def case_prod_beta dest: env_del_allroutes split: if_splits)

lemma Some_eq_ret [simp]: "Some x = ret y \<longleftrightarrow> x = Ret y"
  by (simp add: ret_def)

subsection \<open>The lease that is put on the interface\<close>

definition lease_calls :: "int \<Rightarrow> nat \<Rightarrow> string \<Rightarrow> dhcpc_result \<Rightarrow> xcall list" where
  "lease_calls fd f i ds = set_calls fd ''SIOCSIFADDR'' (ifr_name i @ le32 (dr_ipaddr ds))
     @ (if dr_netmask ds = 0 then [] else set_calls fd ''SIOCSIFNETMASK'' (ifr_name i @ le32 (dr_netmask ds)))
     @ (if dr_default_router ds = 0 then [] else set_calls fd ''SIOCSIFDSTADDR'' (ifr_name i @ le32 (dr_default_router ds)))
     @ (if dr_dnsaddr ds = 0 then [] else dns_calls f False (dr_dnsaddr ds))
     @ set_calls fd ''SIOCADDRT'' (le32 (dr_default_router ds) @ le32 0 @ le32 0 @ [3] @ bytes_of i)"

lemma lease_steps_work:
  assumes "net_works (env w) fd f"
  shows "all_steps (lease_steps i ds @ [worked (gateway_route i ds)]) w
    = (True, w\<lparr>hist := hist w @ lease_calls fd f i ds\<rparr>)"
proof -
  have w: "net_works (env (w\<lparr>hist := h\<rparr>)) fd f" for h using assms by simp
  show ?thesis
    by (simp add: lease_steps_def gateway_route_def worked_def if_given_def lease_calls_def set_ipv4addr_def
        set_ipv4netmask_def set_dripv4addr_def set_step [OF w] set_step [OF assms] ERROR_def OK_def)
qed

text \<open>What a started client is: the handle \<open>p\<close> in the variable of the application, the client behind it and
  the node with the number of the timer.\<close>

definition started :: "dhcp_state \<Rightarrow> addr \<Rightarrow> addr \<Rightarrow> dhcpc_handle \<Rightarrow> client_node \<Rightarrow> bool" where
  "started st hv p pd n \<longleftrightarrow> dn_vars st hv = Some p \<and> dn_client st p = Some pd \<and> (p, ClientNode n) \<in> set (dn_nodes st)"

lemma client_start_returns: "os_dhcp_client_start hv wifi ds m st w \<noteq> None"
proof
  assume none: "os_dhcp_client_start hv wifi ds m st w = None"
  then obtain p pd st1 w1 where "client_open (ifname wifi) hv st w = Ret (Some (p, pd), st1, w1)"
    by (auto simp: os_dhcp_client_start_def ub_def ret_def split: outcome.splits option.splits prod.splits)
  moreover have "dhcpc_request (ifname wifi) 0 False pd ds w1 \<noteq> None"
    by (simp add: dhcpc_request_def case_prod_beta Let_def lease_loop_ends del: not_None_eq)
  ultimately show False using none
    by (auto simp: os_dhcp_client_start_def rbind_eq_None Let_def ret_def split: if_splits)
qed

lemma client_open_handle:
  assumes "client_open i hv st w = Ret (Some (p, pd), st', w')"
  shows "dn_vars st' hv = Some p \<and> dn_nodes st' = dn_nodes st \<and> env w' = env w"
  using assms by (auto simp: client_open_def obind_eq_Ret Let_def case_prod_beta dest: env_del_allroutes split: if_splits)

lemma client_configure_ok:
  assumes "client_configure i hv p ds st w = Ret (S_OK, st', w')" and "net_works (env w) fd f"
  shows "\<exists>n. cn_interface n = i \<and> dn_vars st' = dn_vars st \<and> dn_client st' = dn_client st
    \<and> dn_nodes st' = dn_nodes st @ [(p, ClientNode n)] \<and> hist w' = hist w @ [ModRequest ''loop''] @ lease_calls fd f i ds @ [AddTimeout (cn_loop_module n) (renew_delay ds) on_renew hv]"
proof -
  have w: "net_works (env (w\<lparr>hist := h\<rparr>)) fd f" for h using assms(2) by simp
  show ?thesis
    using assms(1) by (auto simp: client_configure_def xc_def Let_def lease_steps_work [OF w] split: if_splits)
qed


subsection \<open>A network with a DHCP server\<close>

text \<open>Its first answer is an OFFER, the others are ACKs of a lease of an hour.\<close>

fun is_recv :: "xcall \<Rightarrow> bool" where
  "is_recv (Recv fd n) = True"
| "is_recv _ = False"

definition recvs :: "world \<Rightarrow> nat" where
  "recvs w = length (filter is_recv (hist w))"

definition lease_options :: "u8 \<Rightarrow> (u8 \<times> bytes) list" where
  "lease_options t = [(53, [t]), (54, le32 0x0101A8C0), (51, rev (le32 3600)), (1, le32 0x00FFFFFF),
     (3, le32 0x0101A8C0), (6, le32 0x08080808)]"

definition lease_msg :: "u8 \<Rightarrow> dhcpmsg" where
  "lease_msg t = zero_msg\<lparr>m_op := 2, m_xid := client_xid, m_yiaddr := le32 0x0401A8C0,
     m_options := MAGIC @ concat (map enc_opt (lease_options t)) @ [255] @ replicate 274 0\<rparr>"

definition lease_env :: "xcall list \<Rightarrow> xcall \<Rightarrow> answer" where
  "lease_env h c = (case c of
      Recv fd n \<Rightarrow> \<lparr>retv = 548, errno = 0, oval = 0,
        outb = msg_bytes (lease_msg (if filter is_recv h = [] then DHCPOFFER else DHCPACK))\<rparr>
    | _ \<Rightarrow> net_env h c)"

definition lease_result :: dhcpc_result where
  "lease_result = \<lparr>dr_serverid = 0x0101A8C0, dr_ipaddr = 0x0401A8C0, dr_netmask = 0x00FFFFFF, dr_dnsaddr = 0x08080808,
     dr_default_router = 0x0101A8C0, dr_lease_time = 3600\<rparr>"

lemma wf_lease_msg [simp]: "wf_msg (lease_msg t)"
  by (simp add: lease_msg_def lease_options_def wf_msg_def zero_msg_def client_xid_def MAGIC_def enc_opt_def)

lemma lease_env_simps [simp]:
  "lease_env h (Socket k) = good_env h (Socket k)" "lease_env h (Ioctl fd q bs) = net_env h (Ioctl fd q bs)"
  "lease_env h (SendTo fd bs a p) = good_env h (SendTo fd bs a p)" "lease_env h (Malloc n) = good_env h (Malloc n)"
  "lease_env h (Bind fd a b) = good_env h (Bind fd a b)" "lease_env h (Setsockopt fd o') = good_env h (Setsockopt fd o')"
  "lease_env h (System c) = \<lparr>retv = 0, errno = 0, oval = 0, outb = []\<rparr>"
  "lease_env h (ModRequest c) = good_env h (ModRequest c)"
  "lease_env h (AddTimeout l d f u) = \<lparr>retv = 0, errno = 0, oval = 0, outb = []\<rparr>"
  by (simp_all add: lease_env_def net_env_def good_env_def)

lemma retv_net_env_Ioctl [simp]: "retv (net_env h (Ioctl fd q bs)) = 0"
  by (simp add: net_env_def)

lemma lease_received:
  assumes "env w = lease_env" and "wf_msg (dc_packet pd)"
  shows "\<exists>m. recv_msg pd pr w = Ret (Some (if recvs w = 0 then DHCPOFFER else DHCPACK), 0, pd\<lparr>dc_packet := m\<rparr>,
    lease_result, snd (xc (Recv (dc_sockfd pd) 548) w))"
proof -
  let ?t = "if recvs w = 0 then DHCPOFFER else DHCPACK"
  have t: "take 548 (msg_bytes (lease_msg ?t)) = msg_bytes (lease_msg ?t)"
    by (simp add: length_msg_bytes)
  have "dhcpc_parseoptions (m_options (lease_msg ?t)) 4 (4 + 548) 0 pr' = Ret (fold cl_apply (lease_options ?t) (0, pr'))" for pr'
    by (rule cl_parse_options [where rest = "replicate 274 0"])
      (simp_all add: cl_good_def lease_msg_def lease_options_def MAGIC_def enc_opt_def)
  moreover have "m_op (lease_msg ?t) = 2" "m_xid (lease_msg ?t) = client_xid" "m_yiaddr (lease_msg ?t) = le32 0x0401A8C0"
    by (simp_all add: lease_msg_def)
  ultimately have "dhcpc_parsemsg (pd\<lparr>dc_packet := lease_msg ?t\<rparr>) 548 pr
      = Ret (fold cl_apply (lease_options ?t) (0, pr\<lparr>dr_ipaddr := 0x0401A8C0\<rparr>))"
    by (simp add: dhcpc_parsemsg_def)
  moreover have "fold cl_apply (lease_options ?t) (0, pr\<lparr>dr_ipaddr := 0x0401A8C0\<rparr>) = (?t, lease_result)"
    by (simp add: cl_apply_def lease_options_def lease_result_def)
  moreover have "env w (hist w) (Recv (dc_sockfd pd) 548) = \<lparr>retv = 548, errno = 0, oval = 0, outb = msg_bytes (lease_msg ?t)\<rparr>"
    using assms(1) by (simp add: lease_env_def recvs_def)
  ultimately show ?thesis
    using assms(2) overlay_full [OF wf_lease_msg assms(2), of ?t] t
    by (simp add: recv_msg_def case_prod_beta Let_def del: if_split) blast
qed

lemma lease_sends:
  assumes "env w = lease_env" and "dc_maclen pd = 6" and "t \<in> {DHCPDISCOVER, DHCPREQUEST}"
  shows "\<exists>r m w1. dhcpc_sendmsg pd pr t i False w = Ret (r, pd\<lparr>dc_packet := m\<rparr>, w1)
    \<and> 0 \<le> r \<and> wf_msg m \<and> env w1 = lease_env \<and> recvs w1 = recvs w"
proof -
  obtain mac w1 where g: "getmacaddr (Some i) w = (0, Some mac, w1)" "env w1 = lease_env" "recvs w1 = recvs w"
    using assms(1) by (simp add: getmacaddr_def walk_simps recvs_def)
  have n: "0 \<le> dc_maclen pd" "dc_maclen pd \<le> 6" using assms(2) by simp_all
  show ?thesis
  proof (cases "t = DHCPREQUEST")
    case True
    with sendmsg_request [OF g(1) _ n] g show ?thesis
      by (fastforce simp: ERROR_def xc_def recvs_def)
  next
    case False
    with assms(3) have t: "t = DHCPDISCOVER" by simp
    obtain m0 where m0: "common_header pd mac = Ret m0" "wf_msg m0" "m_options m0 = replicate 312 0"
      using common_header_ok [OF n getmacaddr_mac [OF g(1)]] by blast
    have l: "length MAGIC = 4" by (simp add: MAGIC_def)
    have c: "(replicate 312 0, 0) = cl_built []" by (simp add: cl_built_def)
    let ?os = "MAGIC @ [53, 1, 1, 55, 3, 1, 3, 6, 255]"
    have "wf_msg (m0\<lparr>m_flags := f, m_options := fst (cl_built ?os)\<rparr>)" for f
      using m0(2) l by (simp add: wf_msg_def cl_built_def)
    then show ?thesis
      using g m0 l unfolding t
      by (simp add: dhcpc_sendmsg_def c put_simps dhcpc_addreqoptions_def specific_part_def dhcp_types ERROR_def
          case_prod_beta Let_def xc_def recvs_def) (intro exI conjI, rule refl, blast)
  qed
qed

lemma recvs_set_ipv4addr [simp]: "recvs (snd (set_ipv4addr n a w)) = recvs w"
  by (auto simp: set_ipv4addr_def ifreq_set_def Let_def case_prod_beta recvs_def xc_def xcu_def split: option.split)

lemma recvs_set_defaultroute [simp]: "recvs (snd (set_defaultroute n a g w)) = recvs w"
  by (auto simp: set_defaultroute_def Let_def case_prod_beta recvs_def xc_def xcu_def split: option.split)

lemma lease_phase:
  assumes "env w = lease_env" and "dc_maclen pd = 6" and "recvs w = 0"
  shows "\<exists>pd' w'. first_phase i old False 5 pd pr w = Ret (Going 4, pd', lease_result, w')
    \<and> env w' = lease_env \<and> dc_maclen pd' = 6 \<and> 0 < recvs w'"
proof -
  let ?w = "snd (reset_address i old w)"
  have reset: "fst (reset_address i old w)" "env ?w = lease_env" "recvs ?w = 0"
    using assms(1,3) by (auto simp: reset_address_def Let_def case_prod_beta)
      (auto simp: set_ipv4addr_def ifreq_set_def set_defaultroute_def Let_def case_prod_beta ERROR_def walk_simps)
  obtain r m w1 where s: "dhcpc_sendmsg pd pr DHCPDISCOVER i False ?w = Ret (r, pd\<lparr>dc_packet := m\<rparr>, w1)"
    "0 \<le> r" "wf_msg m" "env w1 = lease_env" "recvs w1 = 0"
    using lease_sends [of ?w pd DHCPDISCOVER pr i] reset assms(2) by (auto; blast)
  obtain m' where "recv_msg (pd\<lparr>dc_packet := m\<rparr>) pr w1 = Ret (Some DHCPOFFER, 0, pd\<lparr>dc_packet := m'\<rparr>, lease_result,
      snd (xc (Recv (dc_sockfd pd) 548) w1))"
    using lease_received [OF s(4), of "pd\<lparr>dc_packet := m\<rparr>" pr] s(3,5) by auto
  with s reset assms(2) show ?thesis
    by (cases "reset_address i old w") (simp add: first_phase_def numeral_eq_Suc; simp add: recvs_def xc_def)
qed

lemma lease_acknowledged:
  assumes "env w = lease_env" and "dc_maclen pd = 6" and "0 < recvs w"
  shows "\<exists>pd' w'. request_loop i old a False 3 pd pr w = Ret (Going (True, False), pd', lease_result, w')"
proof -
  obtain r m w1 where s: "dhcpc_sendmsg pd pr DHCPREQUEST i False w = Ret (r, pd\<lparr>dc_packet := m\<rparr>, w1)"
    "0 \<le> r" "wf_msg m" "env w1 = lease_env" "recvs w1 = recvs w"
    using lease_sends [of w pd DHCPREQUEST pr i] assms by auto
  obtain m' where "recv_msg (pd\<lparr>dc_packet := m\<rparr>) pr w1 = Ret (Some DHCPACK, 0, pd\<lparr>dc_packet := m'\<rparr>, lease_result,
      snd (xc (Recv (dc_sockfd pd) 548) w1))"
    using lease_received [OF s(4), of "pd\<lparr>dc_packet := m\<rparr>" pr] s(3,5) assms(3) by auto
  with s show ?thesis by (simp add: numeral_3_eq_3)
qed

lemma lease_requested:
  assumes "env w = lease_env" and "dc_maclen pd = 6" and "recvs w = 0"
  shows "\<exists>pd' w'. dhcpc_request i a False pd pr w = ret (OK, pd', lease_result, w')"
proof -
  let ?g = "get_ipv4addr (Some i) (Some 0) w" and ?w = "snd (snd (get_ipv4addr (Some i) (Some 0) w))"
  let ?old = "case fst (snd ?g) of None \<Rightarrow> 0 | Some a \<Rightarrow> a"
  have w: "env ?w = lease_env" "recvs ?w = 0"
    using assms by (auto simp: get_ipv4addr_def ifreq_get_def Let_def case_prod_beta recvs_def xc_def xcu_def)
  obtain pd1 w1 where 1: "first_phase i ?old False 5 pd pr ?w = Ret (Going 4, pd1, lease_result, w1)"
      "env w1 = lease_env" "dc_maclen pd1 = 6" "0 < recvs w1"
    using lease_phase [OF w(1) assms(2) w(2)] by blast
  obtain pd2 w2 where 2: "request_loop i ?old a False 3 pd1 lease_result w1 = Ret (Going (True, False), pd2, lease_result, w2)"
    using lease_acknowledged [OF 1(2-4)] by blast
  have "lease_loop i ?old a False 5 pd pr ?w = ret (OK, pd2, lease_result, w2)"
    by (subst lease_loop.simps) (simp add: 1 2 ret_def)
  then show ?thesis by (simp add: dhcpc_request_def case_prod_beta Let_def)
qed

definition no_clients :: dhcp_state where
  "no_clients = \<lparr>dn_nodes = [], dn_client = Map.empty, dn_vars = Map.empty, dn_server = None\<rparr>"

definition lease_world :: world where
  "lease_world = \<lparr>hist = [], env = lease_env\<rparr>"

lemma net_works_lease: "net_works lease_env 3 5"
  by (simp add: net_works_def) (simp add: lease_env_def net_env_def)

lemma sample_start_runs:
  "\<exists>st' w'. os_dhcp_client_start 4 True no_result 96 no_clients lease_world = ret (S_OK, st', w')
     \<and> dn_vars st' 4 = Some 64 \<and> dn_client st' 64 \<noteq> None \<and> (\<exists>n. dn_nodes st' = [(64, ClientNode n)])"
proof -
  obtain pd st1 w1 where o: "client_open (ifname True) 4 no_clients lease_world = Ret (Some (64, pd), st1, w1)"
      "dc_maclen pd = 6" "env w1 = lease_env" "recvs w1 = 0" "dn_nodes st1 = []" "dn_vars st1 4 = Some 64"
    by (simp add: client_open_def ifname_def del_allroutes_interface_def set_defaultroute_def getmacaddr_def dhcpc_open_def
      no_clients_def lease_world_def ERROR_def Let_def case_prod_beta xc_def xcu_def recvs_def)
  obtain pd1 w2 where r: "dhcpc_request (ifname True) 0 False pd no_result w1 = ret (OK, pd1, lease_result, w2)"
    using lease_requested [OF o(3,2,4)] by blast
  have e: "env w2 = lease_env" using env_dhcpc_request [OF r [unfolded ret_def]] o(3) by simp
  have w: "net_works (env (w2\<lparr>hist := h\<rparr>)) 3 5" for h using net_works_lease e by simp
  show ?thesis
    using o r
    by (simp add: os_dhcp_client_start_def OK_def ERROR_def client_configure_def xc_def Let_def lease_steps_work [OF w] e
        S_OK_def)
qed


subsection \<open>Stopping\<close>

text \<open>C32. Stopping a client closes it and frees its memory and does nothing else: the node stays in the list and the timer
  stays set. So when the timer runs off, the renewal reads the freed memory, and so does stopping once more.\<close>

theorem dhcp_client_stop_leaves_the_timer:
  assumes "dn_vars st hv = Some p" and "p \<noteq> 0" and "dn_client st p = Some pd" and "node_of p st = Some (ClientNode n)"
  shows "\<exists>st' w'. os_dhcp_client_stop p st w = Ret (S_OK, st', w')
    \<and> hist w' = hist w @ (if dc_sockfd pd = 0 then [] else [Close (dc_sockfd pd)]) @ [Free p]
    \<and> dn_nodes st' = dn_nodes st
    \<and> (\<forall>v. on_dhcp_client_renew_callback hv ds old st' v = ub UseAfterFree \<and> os_dhcp_client_stop p st' v = Ub UseAfterFree)"
proof -
  let ?st = "st\<lparr>dn_client := (dn_client st)(p := None)\<rparr>"
  have n: "node_of p ?st = Some (ClientNode n)" using assms(4) by (simp add: node_of_def)
  have "os_dhcp_client_stop p st w = Ret (S_OK, ?st, dhcpc_close (Some (p, pd)) w)"
    using assms by (simp add: os_dhcp_client_stop_def)
  moreover have "on_dhcp_client_renew_callback hv ds old ?st v = ub UseAfterFree" for v
    using assms n by (simp add: on_dhcp_client_renew_callback_def dhcp_client_renew_def)
  moreover have "os_dhcp_client_stop p ?st v = Ub UseAfterFree" for v
    using n by (simp add: os_dhcp_client_stop_def)
  ultimately show ?thesis
    by (intro exI [of _ ?st] exI [of _ "dhcpc_close (Some (p, pd)) w"]) (simp add: dhcpc_close_def xcu_def)
qed

theorem dhcp_client_stop_leaves_the_timer_witness:
  "\<exists>st w st' w'. os_dhcp_client_start 4 True no_result 96 no_clients lease_world = ret (S_OK, st, w)
     \<and> os_dhcp_client_stop 64 st w = Ret (S_OK, st', w')
     \<and> on_dhcp_client_renew_callback 4 no_result 0 st' w' = ub UseAfterFree"
proof -
  obtain st w n pd where r: "os_dhcp_client_start 4 True no_result 96 no_clients lease_world = ret (S_OK, st, w)"
    "dn_vars st 4 = Some 64" "dn_client st 64 = Some pd" "dn_nodes st = [(64, ClientNode n)]"
    using sample_start_runs by blast
  have "node_of 64 st = Some (ClientNode n)" using r(4) by (simp add: node_of_def tab_get_by_handle_def)
  from dhcp_client_stop_leaves_the_timer [OF r(2) _ r(3) this, of w no_result 0] r(1)
  show ?thesis by fastforce
qed

end
