(* ===== verification/NetworkWatch.thy ===== *)
theory NetworkWatch
  imports Network HandleTable
begin

section \<open>The network module: is the board online? (\<^verbatim>\<open>artik_network.c\<close>, \<^verbatim>\<open>linux_network.c\<close>)\<close>

subsection \<open>The public address\<close>

text \<open>
  A page that shows the address of the caller is fetched by the HTTP module and searched for it. The module leaves the
  response null if no body arrived (\<^verbatim>\<open>response_callback\<close> of \<^verbatim>\<open>linux_http.c\<close>), so that an empty output
  of the call stands for a null pointer. The response is never freed.
\<close>

definition ARTIK_CURRENT_IP_URL :: string where "ARTIK_CURRENT_IP_URL = ''http://www.checkip.org/''"

definition ip_headers :: "(bytes \<times> bytes) list" where
  "ip_headers = [(bytes_of ''user-agent'', bytes_of ''Artik browser''),
     (bytes_of ''Accept-Language'', bytes_of ''en-US,en;q=0.8'')]"

text \<open>\<^verbatim>\<open>strstr\<close>: the string from the first match on.\<close>

fun search :: "bytes \<Rightarrow> bytes \<Rightarrow> bytes option" where
  "search p [] = (if p = [] then Some [] else None)"
| "search p (c # s) = (if take (length p) (c # s) = p then Some (c # s) else search p s)"

text \<open>\<^verbatim>\<open>strtok\<close>: the token and what is left for the next call.\<close>

definition strtok :: "bytes \<Rightarrow> bytes \<Rightarrow> (bytes \<times> bytes) option" where
  "strtok delimiters s =
     (case dropWhile (\<lambda>c. c \<in> set delimiters) s of
        [] \<Rightarrow> None
      | t \<Rightarrow> Some (takeWhile (\<lambda>c. c \<notin> set delimiters) t, drop 1 (dropWhile (\<lambda>c. c \<notin> set delimiters) t)))"

text \<open>The first token, and \<open>n\<close> more calls as long as there is a token.\<close>

fun nth_token :: "nat \<Rightarrow> bytes \<Rightarrow> bytes \<Rightarrow> bytes option" where
  "nth_token n ds s =
     (case strtok ds s of
        None \<Rightarrow> None
      | Some (t, rest) \<Rightarrow> if n = 0 then Some t else nth_token (n - 1) ds rest)"

declare nth_token.simps [simp del]

definition strncpy :: "nat \<Rightarrow> bytes \<Rightarrow> bytes \<Rightarrow> bytes" where
  "strncpy n src dst = take n (src @ replicate n 0) @ drop n dst"

text \<open>\<open>ip\<close> is the array of the caller.\<close>

definition artik_get_current_public_ip :: "bytes \<Rightarrow> world \<Rightarrow> (artik_error \<times> bytes \<times> world) outcome" where
  "artik_get_current_public_ip ip w =
     (let (m, w1) = xc (ModRequest ''http'') w; http = nat (retv m)
      in if http = 0 then Ub NullDeref
         else let (a, w2) = xc (Http http ''get'' (bytes_of ARTIK_CURRENT_IP_URL) ip_headers None (SslAt 0)) w1;
                  done = xcu (ModRelease http) w2
              in if retv a \<noteq> S_OK then Ret (retv a, ip, done)
                 else if outb a = [] then Ub NullDeref
                 else case search (bytes_of ''Your IP Address:'') (takeWhile (\<lambda>c. c \<noteq> 0) (outb a)) of
                        None \<Rightarrow> Ret (S_OK, ip, done)
                      | Some point \<Rightarrow>
                          (case nth_token 2 (bytes_of ''<>'') point of
                             None \<Rightarrow> Ub NullDeref
                           | Some token \<Rightarrow> Ret (S_OK, strncpy 15 token ip, done)))"

text \<open>\<open>old\<close> is what the variable of the caller holds.\<close>

definition artik_get_online_status :: "bool \<Rightarrow> world \<Rightarrow> (artik_error \<times> bool \<times> world) outcome" where
  "artik_get_online_status old w =
     obind (artik_get_current_public_ip (replicate 24 0) w) (\<lambda>(r, ip, w1).
       Ret (if r = S_OK then (S_OK, True, w1)
            else if r = E_HTTP_ERROR then (S_OK, False, w1)
            else (r, old, w1)))"

subsection \<open>The state of the watch\<close>

text \<open>
  A node has the function of the application and its data. The number of the watch is not set if the loop refused it,
  which is not tested.
\<close>

record watch_online_status =
  ws_root :: "(addr \<times> addr) tab"
  ws_fd :: int
  ws_status :: bool
  ws_watch_id :: "int option"

text \<open>The number of \<^verbatim>\<open>network_connection\<close> in the calls of the loop, and the mask of events.\<close>

definition on_network :: addr where "on_network = 2"
definition watch_mask :: nat where "watch_mask = 57"

definition initialize_watch_online_status :: "world \<Rightarrow> (artik_error \<times> watch_online_status option \<times> world) outcome" where
  "initialize_watch_online_status w =
     (let (l, w1) = xc (ModRequest ''loop'') w; (m, w2) = xc (Malloc 16) w1
      in if retv m = 0 then Ret (E_NO_MEM, None, w2)
         else let (s, w3) = xc (Socket ''netlink'') w2; freed = xcu (Free (nat (retv m)))
              in if retv s = -1 then Ret (E_ACCESS_DENIED, None, freed w3)
                 else let (b, w4) = xc (Bind (retv s) 0 0) w3
                      in if retv b \<noteq> 0 then Ret (E_ACCESS_DENIED, None, freed w4)
                         else obind (artik_get_online_status False w4) (\<lambda>(r, status, w5).
                           if r \<noteq> S_OK then Ret (r, None, freed w5)
                           else if retv l = 0 then Ub NullDeref
                           else let (k, w6) = xc (AddFdWatch (nat (retv l)) (retv s) watch_mask on_network) w5
                                in Ret (S_OK, Some \<lparr>ws_root = [], ws_fd = retv s, ws_status = status,
                                          ws_watch_id = (if retv k = S_OK then Some (oval k) else None)\<rparr>, w6)))"

text \<open>The error, the handle that was stored if one was, the state. \<open>m\<close> is the memory for the node.\<close>

definition os_network_add_watch_online_status ::
  "addr \<Rightarrow> addr \<Rightarrow> addr \<Rightarrow> watch_online_status option \<Rightarrow> world
     \<Rightarrow> (artik_error \<times> addr option \<times> watch_online_status option \<times> world) outcome" where
  "os_network_add_watch_online_status m f u st w =
     obind (case st of None \<Rightarrow> initialize_watch_online_status w | Some s \<Rightarrow> Ret (S_OK, st, w)) (\<lambda>(r, st1, w1).
       case st1 of
         None \<Rightarrow> Ret (r, None, st1, w1)
       | Some s \<Rightarrow>
           if m = 0 then Ret (E_NO_MEM, None, st1, w1)
           else Ret (S_OK, Some m, Some (s\<lparr>ws_root := tab_set m (f, u) (tab_add (ws_root s) m (0, 0))\<rparr>), w1))"

definition os_network_remove_watch_online_status ::
  "addr \<Rightarrow> watch_online_status option \<Rightarrow> world \<Rightarrow> (artik_error \<times> watch_online_status option \<times> world) outcome" where
  "os_network_remove_watch_online_status h st w =
     (case st of
        None \<Rightarrow> Ret (E_NOT_INITIALIZED, None, w)
      | Some s \<Rightarrow>
          let s1 = s\<lparr>ws_root := (if h = 0 then ws_root s else tab_delete_node h (ws_root s))\<rparr>
          in if ws_root s1 \<noteq> [] then Ret (S_OK, Some s1, w)
             else let (l, w1) = xc (ModRequest ''loop'') w
                  in if retv l = 0 then Ub NullDeref
                     else case ws_watch_id s of
                       None \<Rightarrow> Ub Uninitialised
                     | Some k \<Rightarrow>
                         Ret (S_OK, None,
                           xcu (ModRelease (nat (retv l))) (xcu (Close (ws_fd s)) (xcu (RemoveFdWatch (nat (retv l)) k) w1))))"

subsection \<open>Messages of the kernel\<close>

text \<open>
  \<^verbatim>\<open>network_connection\<close> goes over the messages that \<^verbatim>\<open>recvmsg\<close> stored: a header of 16 bytes, with the length of the
  message and its type, the data, and padding to a multiple of four. A read past what was received is a fault. The scan
  decides whether to look at the status again; each message that matters overwrites what those before it decided.
\<close>

definition nl_type :: "bytes \<Rightarrow> nat" where
  "nl_type msg = unat (of_le16 (take 2 (drop 4 msg)))"

definition nl_decide :: "bool \<Rightarrow> bytes \<Rightarrow> bool \<Rightarrow> bool outcome" where
  "nl_decide online msg check =
     (if nl_type msg = 16 \<or> nl_type msg = 17 then
        obind (rd_n msg 24 4) (\<lambda>flags. Ret (if bit (of_le32 flags) 0 then \<not> online else online))
      else if nl_type msg = 20 \<or> nl_type msg = 24 then Ret (\<not> online)
      else if nl_type msg = 21 \<or> nl_type msg = 25 then Ret online
      else Ret check)"

definition nl_align :: "nat \<Rightarrow> nat" where
  "nl_align n = (n + 3) div 4 * 4"

function nl_scan :: "bool \<Rightarrow> bytes \<Rightarrow> bool \<Rightarrow> bool outcome" where
  "nl_scan online buf check =
     (let n = unat (of_le32 (take 4 buf))
      in if length buf < 16 \<or> n < 16 \<or> length buf < n then Ret check
         else if nl_type buf = 3 \<or> nl_type buf = 2 then Ret check
         else obind (nl_decide online buf check) (\<lambda>check1. nl_scan online (drop (nl_align n) buf) check1))"
  by pat_completeness auto

termination
  by (relation "measure (\<lambda>(online, buf, check). length buf)") (auto simp: nl_align_def)

declare nl_scan.simps [simp del]

subsection \<open>The callback of the loop\<close>

text \<open>
  What the functions of the application do, \<open>app\<close>, is a parameter: given the function, its data and the status they
  may add and remove watches. The node that comes next is read from the node at hand after its function has returned; a
  node that is gone by then is freed memory.
\<close>

type_synonym app = "addr \<Rightarrow> addr \<Rightarrow> bool \<Rightarrow> watch_online_status option \<Rightarrow> world \<Rightarrow> (watch_online_status option \<times> world) run"

definition node_after :: "addr \<Rightarrow> watch_online_status option \<Rightarrow> addr option" where
  "node_after a st =
     (case st of
        None \<Rightarrow> None
      | Some s \<Rightarrow>
          (case dropWhile (\<lambda>x. fst x \<noteq> a) (ws_root s) of
             [] \<Rightarrow> None
           | [x] \<Rightarrow> Some 0
           | x # y # _ \<Rightarrow> Some (fst y)))"

definition node_at :: "addr \<Rightarrow> watch_online_status option \<Rightarrow> (addr \<times> addr) option" where
  "node_at a st = (case st of None \<Rightarrow> None | Some s \<Rightarrow> map_of (ws_root s) a)"

partial_function (option) call_back :: "app \<Rightarrow> addr \<Rightarrow> watch_online_status option \<Rightarrow> world
    \<Rightarrow> (watch_online_status option \<times> world) run" where
  "call_back app a st w =
     (case node_at a st of
        None \<Rightarrow> ub (if a = 0 then NullDeref else UseAfterFree)
      | Some (f, u) \<Rightarrow>
          (let status = ws_status (the st)
           in rbind (app f u status st (xcu (WsCallback f u (if status then 1 else 0)) w)) (\<lambda>(st1, w1).
                case node_after a st1 of
                  None \<Rightarrow> ub UseAfterFree
                | Some b \<Rightarrow> if b = 0 then ret (st1, w1) else call_back app b st1 w1)))"

text \<open>What \<^verbatim>\<open>recvmsg\<close> stored in the buffer.\<close>

definition stored :: "answer \<Rightarrow> bytes" where
  "stored a = (if 0 < retv a then take (nat (retv a)) (outb a) else [])"

definition network_connection ::
  "app \<Rightarrow> int \<Rightarrow> nat \<Rightarrow> watch_online_status option \<Rightarrow> world \<Rightarrow> (int \<times> watch_online_status option \<times> world) run" where
  "network_connection app fd io st w =
     (case st of
        None \<Rightarrow> ub NullDeref
      | Some s \<Rightarrow>
          if bit io 3 \<or> bit io 4 \<or> bit io 5 then ret (1, st, w)
          else let (a, w1) = xc (Recv fd 4096) w
               in (case nl_scan (ws_status s) (stored a) False of
                     Ub e \<Rightarrow> ub e
                   | Ret check \<Rightarrow>
                       (case (if check then artik_get_online_status (ws_status s) w1 else Ret (S_OK, ws_status s, w1)) of
                          Ub e \<Rightarrow> ub e
                        | Ret (r, status, w2) \<Rightarrow>
                            let st1 = Some (s\<lparr>ws_status := status\<rparr>)
                            in if r \<noteq> S_OK \<or> status = ws_status s then ret (1, st1, w2)
                               else rbind (call_back app (case ws_root s of [] \<Rightarrow> 0 | x # _ \<Rightarrow> fst x) st1 w2)
                                      (\<lambda>(st2, w3). ret (1, st2, w3)))))"

end
