(* ===== verification/NetworkWatchProps.thy ===== *)
theory NetworkWatchProps
  imports NetworkWatch
begin

section \<open>The network module: what the watch reports\<close>

subsection \<open>Messages of the kernel\<close>

text \<open>A message as its type and its data; those about links have the flags of the link in their data, those that end a
  list are left out.\<close>

definition nl_ok :: "u16 \<times> bytes \<Rightarrow> bool" where
  "nl_ok m \<longleftrightarrow> fst m \<notin> {2, 3} \<and> (fst m \<in> {16, 17} \<longrightarrow> 12 \<le> length (snd m)) \<and> length (snd m) < 4000"

definition nl_enc :: "u16 \<times> bytes \<Rightarrow> bytes" where
  "nl_enc m = le32 (word_of_nat (16 + length (snd m))) @ le16 (fst m) @ replicate 10 0 @ snd m
     @ replicate (nl_align (16 + length (snd m)) - (16 + length (snd m))) 0"

text \<open>Does a message matter, and what does it ask for?\<close>

definition nl_matters :: "u16 \<times> bytes \<Rightarrow> bool" where
  "nl_matters m \<longleftrightarrow> fst m \<in> {16, 17, 20, 21, 24, 25}"

definition nl_coming :: "u16 \<times> bytes \<Rightarrow> bool" where
  "nl_coming m \<longleftrightarrow> (if fst m \<in> {16, 17} then bit (of_le32 (take 4 (drop 8 (snd m)))) 0 else fst m \<in> {20, 24})"

lemma nl_align_bounds: "n \<le> nl_align n" "nl_align n < n + 4"
  unfolding nl_align_def by linarith+

lemma length_nl_enc [simp]: "length (nl_enc m) = nl_align (16 + length (snd m))"
  using nl_align_bounds(1) [of "16 + length (snd m)"] by (simp add: nl_enc_def)

lemma nl_header:
  assumes "nl_ok m"
  shows "unat (of_le32 (take 4 (nl_enc m @ rest))) = 16 + length (snd m)" "nl_type (nl_enc m @ rest) = unat (fst m)"
proof -
  have "unat (word_of_nat (16 + length (snd m)) :: u32) = 16 + length (snd m)"
    using assms by (simp only: unsigned_of_nat) (simp add: take_bit_nat_eq_self nl_ok_def)
  then show "unat (of_le32 (take 4 (nl_enc m @ rest))) = 16 + length (snd m)"
    by (simp add: nl_enc_def del: of_nat_add)
  show "nl_type (nl_enc m @ rest) = unat (fst m)" by (simp add: nl_enc_def nl_type_def)
qed

lemma nl_decide_enc:
  assumes "nl_ok m"
  shows "nl_decide online (nl_enc m @ rest) c = Ret (if nl_matters m then nl_coming m \<noteq> online else c)"
proof -
  obtain t p where m: "m = (t, p)" by (cases m)
  have e: "unat t = 16 \<longleftrightarrow> t = 16" "unat t = 17 \<longleftrightarrow> t = 17" "unat t = 20 \<longleftrightarrow> t = 20" "unat t = 21 \<longleftrightarrow> t = 21"
    "unat t = 24 \<longleftrightarrow> t = 24" "unat t = 25 \<longleftrightarrow> t = 25"
    by (auto simp: word_unat_eq_iff)
  have flags: "rd_n (nl_enc m @ rest) 24 4 = Ret (take 4 (drop 8 p))" if "t \<in> {16, 17}"
  proof -
    have "12 \<le> length p" using assms that by (auto simp: m nl_ok_def)
    then show ?thesis by (simp add: rd_n_def m nl_enc_def drop_Cons')
  qed
  show ?thesis
    using flags nl_header(2) [OF assms, of rest] unfolding m
    by (cases "t \<in> {16, 17}") (auto simp: nl_decide_def nl_matters_def nl_coming_def e)
qed

lemma nl_scan_enc:
  assumes "list_all nl_ok ms"
  shows "nl_scan online (concat (map nl_enc ms)) c
    = Ret (fold (\<lambda>m c. if nl_matters m then nl_coming m \<noteq> online else c) ms c)"
  using assms
proof (induction ms arbitrary: c)
  case Nil
  show ?case by (subst nl_scan.simps) (simp add: Let_def)
next
  case (Cons m ms)
  let ?buf = "nl_enc m @ concat (map nl_enc ms)"
  let ?n = "16 + length (snd m)"
  have ok: "nl_ok m" using Cons.prems by simp
  then have t: "unat (fst m) \<noteq> 3" "unat (fst m) \<noteq> 2" by (auto simp: nl_ok_def word_unat_eq_iff)
  have l: "16 \<le> nl_align ?n" "?n \<le> nl_align ?n" using nl_align_bounds(1) [of ?n] by simp_all
  have "nl_scan online ?buf c = obind (nl_decide online ?buf c) (\<lambda>c1. nl_scan online (drop (nl_align ?n) ?buf) c1)"
    using l t by (subst nl_scan.simps) (simp add: Let_def nl_header [OF ok] del: take_append)
  also have "\<dots> = nl_scan online (concat (map nl_enc ms)) (if nl_matters m then nl_coming m \<noteq> online else c)"
    by (simp add: nl_decide_enc [OF ok])
  finally show ?case using Cons by simp
qed

lemma fold_last:
  "fold (\<lambda>m c. if P m then f m else c) ms c = (case filter P ms of [] \<Rightarrow> c | _ \<Rightarrow> f (last (filter P ms)))"
  by (induction ms arbitrary: c) (auto split: list.splits)

text \<open>C33. The messages of one datagram are read to its end, and only the last of those that matter decides whether to
  look at the status again: when it tells of something coming while the board is offline, or of something going while it
  is online. Those before it are forgotten, whatever they told.\<close>

theorem last_message_decides:
  assumes "list_all nl_ok ms"
  shows "nl_scan online (concat (map nl_enc ms)) False = Ret (case filter nl_matters ms of
      [] \<Rightarrow> False | _ \<Rightarrow> nl_coming (last (filter nl_matters ms)) \<noteq> online)"
  by (simp add: nl_scan_enc [OF assms] fold_last)

text \<open>An address goes and a route comes: an online board does not look.\<close>

theorem last_message_decides_witness:
  "nl_scan True (concat (map nl_enc [(21, replicate 8 0), (24, replicate 12 0)])) False = Ret False
   \<and> nl_scan True (concat (map nl_enc [(24, replicate 12 0), (21, replicate 8 0)])) False = Ret True"
proof -
  have "list_all nl_ok [(21, replicate 8 0), (24, replicate 12 0)]" "list_all nl_ok [(24, replicate 12 0), (21, replicate 8 0)]"
    by (simp_all add: nl_ok_def)
  from last_message_decides [OF this(1), of True] last_message_decides [OF this(2), of True]
  show ?thesis by (simp add: nl_matters_def nl_coming_def)
qed

subsection \<open>The public address\<close>

abbreviation marker :: bytes where "marker \<equiv> bytes_of ''Your IP Address:''"

definition delimited :: "bytes \<Rightarrow> bool" where
  "delimited t \<longleftrightarrow> t \<noteq> [] \<and> 60 \<notin> set t \<and> 62 \<notin> set t"

lemma search_first:
  assumes "\<forall>i<length pre. take (length p) (drop i (pre @ p @ x)) \<noteq> p"
  shows "search p (pre @ p @ x) = Some (p @ x)"
  using assms
proof (induction pre)
  case Nil
  then show ?case by (cases p; cases x) auto
next
  case (Cons c pre)
  have "search p (pre @ p @ x) = Some (p @ x)"
  proof (rule Cons.IH, intro allI impI)
    fix i assume "i < length pre"
    with Cons.prems have "take (length p) (drop (Suc i) ((c # pre) @ p @ x)) \<noteq> p" by (metis Suc_mono length_Cons)
    then show "take (length p) (drop i (pre @ p @ x)) \<noteq> p" by simp
  qed
  moreover have "take (length p) (c # pre @ p @ x) \<noteq> p" using Cons.prems by fastforce
  ultimately show ?case by simp
qed

lemma until_delimiter:
  assumes "60 \<notin> set t" and "62 \<notin> set t" and "d \<in> {60, 62}"
  shows "takeWhile (\<lambda>c. c \<notin> set [60, 62]) (t @ d # rest) = t" "dropWhile (\<lambda>c. c \<notin> set [60, 62]) (t @ d # rest) = d # rest"
  using assms by (induction t) auto

lemma strtok_delimited:
  assumes "delimited t" and "set ds \<subseteq> {60, 62}" and "d \<in> {60, 62}"
  shows "strtok [60, 62] (ds @ t @ d # rest) = Some (t, rest)"
proof -
  obtain c t' where t: "t = c # t'" using assms(1) by (cases t) (auto simp: delimited_def)
  have "dropWhile (\<lambda>c. c \<in> set [60, 62]) (ds @ t @ d # rest) = t @ d # rest"
    using assms(1,2) by (subst dropWhile_append2) (auto simp: t delimited_def)
  moreover note until_delimiter [of t d rest]
  ultimately show ?thesis using assms(1,3) by (simp add: strtok_def t delimited_def)
qed

text \<open>A page with the address after one tag.\<close>

definition shows_address :: "bytes \<Rightarrow> bytes \<Rightarrow> bool" where
  "shows_address page addr \<longleftrightarrow> 0 \<notin> set page \<and> delimited addr \<and>
     (\<exists>pre between tag rest. page = pre @ marker @ between @ [60] @ tag @ [62] @ addr @ [60] @ rest
        \<and> (\<forall>i<length pre. take 16 (drop i page) \<noteq> marker) \<and> 60 \<notin> set between \<and> 62 \<notin> set between \<and> delimited tag)"

lemma address_token:
  assumes "shows_address page addr"
  shows "\<exists>point. search marker page = Some point \<and> nth_token 2 [60, 62] point = Some addr"
proof -
  obtain pre between tag rest where page: "page = pre @ marker @ between @ [60] @ tag @ [62] @ addr @ [60] @ rest"
    and p: "\<forall>i<length pre. take 16 (drop i page) \<noteq> marker" "60 \<notin> set between" "62 \<notin> set between"
      "delimited tag" "delimited addr" using assms by (auto simp: shows_address_def)
  let ?x = "between @ [60] @ tag @ [62] @ addr @ [60] @ rest"
  have "length marker = 16" by (simp add: bytes_of_def)
  then have s: "search marker page = Some (marker @ ?x)"
    using search_first [of pre marker ?x] p(1) unfolding page by simp
  have m: "delimited (marker @ between)" using p(2,3) by (simp add: delimited_def bytes_of_def)
  have "strtok [60, 62] (marker @ ?x) = Some (marker @ between, tag @ [62] @ addr @ [60] @ rest)"
    using strtok_delimited [OF m, of "[]" 60 "tag @ [62] @ addr @ [60] @ rest"] by simp
  moreover have "strtok [60, 62] (tag @ [62] @ addr @ [60] @ rest) = Some (tag, addr @ [60] @ rest)"
    using strtok_delimited [OF p(4), of "[]" 62 "addr @ [60] @ rest"] by simp
  moreover have "strtok [60, 62] (addr @ [60] @ rest) = Some (addr, rest)"
    using strtok_delimited [OF p(5), of "[]" 60 rest] by simp
  ultimately have "nth_token 2 [60, 62] (marker @ ?x) = Some addr" by (simp add: nth_token.simps numeral_2_eq_2)
  with s show ?thesis by blast
qed

lemma address_stored:
  assumes "retv (env w (hist w) (ModRequest ''http'')) = int http" and "0 < http"
    and "env w (hist w @ [ModRequest ''http'']) (Http http ''get'' (bytes_of ARTIK_CURRENT_IP_URL) ip_headers None (SslAt 0)) = a"
    and "retv a = S_OK" and "shows_address (outb a) addr"
  shows "\<exists>w'. artik_get_current_public_ip ip w = Ret (S_OK, strncpy 15 addr ip, w')"
proof -
  obtain point where t: "search marker (outb a) = Some point" "nth_token 2 [60, 62] point = Some addr"
    using address_token [OF assms(5)] by blast
  have z: "takeWhile (\<lambda>c. c \<noteq> 0) (outb a) = outb a" using assms(5) by (auto simp: takeWhile_eq_all_conv shows_address_def)
  have d: "bytes_of ''<>'' = [60, 62]" by (simp add: bytes_of_def)
  have "outb a \<noteq> []" using assms(5) by (auto simp: shows_address_def)
  then show ?thesis
    using assms(1,2,4) by (simp add: artik_get_current_public_ip_def xc_def Let_def assms(3) z t d)
qed

text \<open>On a page in which the marker is followed by one tag and then the address, the address is found: its first
  fifteen bytes are stored, without a terminator if there are that many. If the answer has no body, a null pointer is
  searched.\<close>

theorem public_ip_is_found:
  assumes "retv (env w (hist w) (ModRequest ''http'')) = int http" and "0 < http"
    and "env w (hist w @ [ModRequest ''http'']) (Http http ''get'' (bytes_of ARTIK_CURRENT_IP_URL) ip_headers None (SslAt 0)) = a"
    and "retv a = S_OK"
  shows "(outb a = [] \<longrightarrow> artik_get_current_public_ip ip w = Ub NullDeref)
    \<and> (shows_address (outb a) addr \<longrightarrow> (\<exists>w'. artik_get_current_public_ip ip w = Ret (S_OK, strncpy 15 addr ip, w')))"
proof (intro conjI impI)
  show "artik_get_current_public_ip ip w = Ub NullDeref" if "outb a = []"
    using that assms by (simp add: artik_get_current_public_ip_def xc_def Let_def)
qed (rule address_stored [OF assms])

text \<open>A world in which the page can be had and an address comes.\<close>

definition sample_page :: bytes where
  "sample_page = bytes_of ''<p>Your IP Address: <b>192.168.101.102</b></p>''"

definition online_env :: "xcall list \<Rightarrow> xcall \<Rightarrow> answer" where
  "online_env h c = (case c of
      Http m q u hs b s \<Rightarrow> \<lparr>retv = 0, errno = 0, oval = 200, outb = sample_page\<rparr>
    | Recv fd n \<Rightarrow> \<lparr>retv = 24, errno = 0, oval = 0, outb = nl_enc (20, replicate 8 0)\<rparr>
    | _ \<Rightarrow> good_env h c)"

definition online_world :: world where
  "online_world = \<lparr>hist = [], env = online_env\<rparr>"

lemma online_simps [simp]:
  "online_env h (Http m q u hs b s) = \<lparr>retv = 0, errno = 0, oval = 200, outb = sample_page\<rparr>"
  "online_env h (Recv fd k) = \<lparr>retv = 24, errno = 0, oval = 0, outb = nl_enc (20, replicate 8 0)\<rparr>"
  "online_env h (ModRequest n) = good_env h (ModRequest n)"
  "online_env h (ModRelease m) = good_env h (ModRelease m)"
  by (simp_all add: online_env_def)

lemma sample_shows: "shows_address sample_page (bytes_of ''192.168.101.102'')"
proof -
  have "\<forall>i<length (bytes_of ''<p>''). take 16 (drop i sample_page) \<noteq> marker"
    by (auto simp: sample_page_def bytes_of_def less_Suc_eq)
  moreover have "0 \<notin> set sample_page" "delimited (bytes_of ''b'')" "delimited (bytes_of ''192.168.101.102'')"
    "60 \<notin> set (bytes_of '' '')" "62 \<notin> set (bytes_of '' '')"
    by (simp_all add: sample_page_def bytes_of_def delimited_def)
  moreover have "sample_page = bytes_of ''<p>'' @ marker @ bytes_of '' '' @ [60] @ bytes_of ''b'' @ [62]
      @ bytes_of ''192.168.101.102'' @ [60] @ bytes_of ''/b></p>''"
    by (simp add: sample_page_def bytes_of_def)
  ultimately show ?thesis unfolding shows_address_def by blast
qed

lemma sample_ip:
  assumes "env w = online_env"
  shows "\<exists>w'. artik_get_current_public_ip ip w = Ret (S_OK, strncpy 15 (bytes_of ''192.168.101.102'') ip, w')"
  using address_stored [of w 80 "\<lparr>retv = 0, errno = 0, oval = 200, outb = sample_page\<rparr>" "bytes_of ''192.168.101.102''" ip]
    assms sample_shows by (simp add: S_OK_def)

theorem public_ip_is_found_witness:
  "\<exists>w'. artik_get_current_public_ip (replicate 24 9) online_world
     = Ret (S_OK, bytes_of ''192.168.101.102'' @ replicate 9 9, w')"
proof -
  let ?ask = "Http 80 ''get'' (bytes_of ARTIK_CURRENT_IP_URL) ip_headers None (SslAt 0)"
  have m: "retv (env online_world (hist online_world) (ModRequest ''http'')) = int 80"
    "retv (env online_world (hist online_world @ [ModRequest ''http'']) ?ask) = S_OK"
    and p: "outb (env online_world (hist online_world @ [ModRequest ''http'']) ?ask) = sample_page"
    by (simp_all add: online_world_def S_OK_def)
  from conjunct2 [OF public_ip_is_found [OF m(1) _ refl m(2), of "replicate 24 9"]] sample_shows
  have "\<exists>w'. artik_get_current_public_ip (replicate 24 9) online_world
      = Ret (S_OK, strncpy 15 (bytes_of ''192.168.101.102'') (replicate 24 9), w')" unfolding p by simp
  then show ?thesis by (simp add: strncpy_def bytes_of_def)
qed

subsection \<open>A change is told to everyone who watches\<close>

definition told :: "bool \<Rightarrow> (addr \<times> addr) tab \<Rightarrow> xcall list" where
  "told status t = map (\<lambda>(a, f, u). WsCallback f u (if status then 1 else 0)) t"

definition quiet :: "app \<Rightarrow> bool" where
  "quiet app \<longleftrightarrow> (\<forall>f u b st w. app f u b st w = ret (st, w))"

lemma quietD: "quiet app \<Longrightarrow> app f u b st w = ret (st, w)"
  by (simp add: quiet_def)

definition tab_ok :: "'c tab \<Rightarrow> bool" where
  "tab_ok t \<longleftrightarrow> distinct (map fst t) \<and> 0 \<notin> fst ` set t"

lemma dropWhile_node: "a \<notin> fst ` set pre \<Longrightarrow> dropWhile (\<lambda>x. fst x \<noteq> a) (pre @ (a, c) # post) = (a, c) # post"
  by (induction pre) auto

lemma node_at_mid:
  "ws_root s = pre @ (a, c) # post \<Longrightarrow> a \<notin> fst ` set pre \<Longrightarrow> node_at a (Some s) = Some c"
  by (simp add: node_at_def map_of_eq_None_iff [THEN iffD2] map_add_def)

lemma node_after_mid:
  "ws_root s = pre @ (a, c) # post \<Longrightarrow> a \<notin> fst ` set pre
     \<Longrightarrow> node_after a (Some s) = Some (case post of [] \<Rightarrow> 0 | y # _ \<Rightarrow> fst y)"
  by (simp add: node_after_def dropWhile_node split: list.split)

lemma call_back_tells:
  assumes "quiet app" and "ws_root s = pre @ (a, f, u) # post" and "tab_ok (ws_root s)"
  shows "call_back app a (Some s) w = ret (Some s, w\<lparr>hist := hist w @ told (ws_status s) ((a, f, u) # post)\<rparr>)"
  using assms(2)
proof (induction post arbitrary: pre a f u w)
  case Nil
  have "a \<notin> fst ` set pre" using assms(3) Nil by (auto simp: tab_ok_def)
  from node_at_mid [OF Nil this] node_after_mid [OF Nil this] show ?case
    by (subst call_back.simps) (simp add: quietD [OF assms(1), of f u "ws_status s" "Some s"] told_def xcu_def)
next
  case (Cons x post)
  obtain b g v where x: "x = (b, g, v)" by (metis prod_cases3)
  have a: "a \<notin> fst ` set pre" and b: "b \<noteq> 0" using assms(3) Cons.prems by (auto simp: tab_ok_def x)
  from Cons.prems have "ws_root s = (pre @ [(a, f, u)]) @ (b, g, v) # post" by (simp add: x)
  from Cons.IH [OF this] node_at_mid [OF Cons.prems a] node_after_mid [OF Cons.prems a] b show ?case
    by (subst call_back.simps) (simp add: quietD [OF assms(1), of f u "ws_status s" "Some s"] told_def xcu_def x)
qed

definition received :: "int \<Rightarrow> world \<Rightarrow> bytes" where
  "received fd w = stored (env w (hist w) (Recv fd 4096))"

abbreviation after_recv :: "int \<Rightarrow> world \<Rightarrow> world" where
  "after_recv fd w \<equiv> snd (xc (Recv fd 4096) w)"

text \<open>C34. When the messages ask for it and the status could be had, every function that was added is called with the new
  status, once and in order, if and only if it differs from the last one; otherwise nothing is told.\<close>

theorem change_of_status_is_told:
  assumes "quiet app" and "tab_ok (ws_root s)" and "ws_root s \<noteq> []" and "\<not> (bit io 3 \<or> bit io 4 \<or> bit io 5)"
    and "nl_scan (ws_status s) (received fd w) False = Ret check"
    and "artik_get_online_status (ws_status s) (after_recv fd w) = Ret (S_OK, status, w1)"
  shows "network_connection app fd io (Some s) w =
    (if check then ret (1, Some (s\<lparr>ws_status := status\<rparr>),
        w1\<lparr>hist := hist w1 @ (if status = ws_status s then [] else told status (ws_root s))\<rparr>)
     else ret (1, Some s, after_recv fd w))"
proof -
  obtain a f u post where r: "ws_root s = (a, f, u) # post" using assms(3) by (metis list.exhaust prod_cases3)
  have t: "call_back app a (Some (s\<lparr>ws_status := status\<rparr>)) w1 = ret (Some (s\<lparr>ws_status := status\<rparr>),
      w1\<lparr>hist := hist w1 @ told status (ws_root s)\<rparr>)"
    using call_back_tells [OF assms(1), of "s\<lparr>ws_status := status\<rparr>" "[]" a f u post w1] assms(2) r by simp
  show ?thesis
    using assms(4-6) t by (cases status; cases "ws_status s"; simp add: network_connection_def case_prod_beta Let_def received_def [symmetric] r)
qed

text \<open>Two functions watch an offline board.\<close>

definition two_watches :: watch_online_status where
  "two_watches = \<lparr>ws_root = [(32, 1, 5), (48, 2, 6)], ws_fd = 3, ws_status = False, ws_watch_id = Some 0\<rparr>"

lemma sample_scan: "nl_scan False (received 3 online_world) False = Ret True"
proof -
  have "received 3 online_world = nl_enc (20, replicate 8 0)"
    by (simp add: received_def online_world_def stored_def nl_align_def)
  moreover have "list_all nl_ok [(20, replicate 8 0)]" by (simp add: nl_ok_def)
  ultimately show ?thesis
    using nl_scan_enc [of "[(20, replicate 8 0)]" False False] by (simp add: nl_matters_def nl_coming_def)
qed

lemma sample_status: "\<exists>w1. artik_get_online_status False (after_recv 3 online_world) = Ret (S_OK, True, w1)"
  using sample_ip [of "after_recv 3 online_world" "replicate 24 0"]
  by (auto simp: artik_get_online_status_def online_world_def)

theorem change_of_status_is_told_witness:
  "\<exists>w1. network_connection (\<lambda>f u b st w. ret (st, w)) 3 1 (Some two_watches) online_world
     = ret (1, Some (two_watches\<lparr>ws_status := True\<rparr>), w1\<lparr>hist := hist w1 @ [WsCallback 1 5 1, WsCallback 2 6 1]\<rparr>)"
proof -
  obtain w1 where w1: "artik_get_online_status False (after_recv 3 online_world) = Ret (S_OK, True, w1)"
    using sample_status by blast
  have "quiet (\<lambda>f u b st w. ret (st, w))" "tab_ok (ws_root two_watches)" "ws_root two_watches \<noteq> []"
    "\<not> (bit (1 :: nat) 3 \<or> bit (1 :: nat) 4 \<or> bit (1 :: nat) 5)" "\<not> ws_status two_watches"
    by (simp_all add: quiet_def tab_ok_def two_watches_def bit_1_iff)
  from change_of_status_is_told [OF this(1-4), of 3 online_world True True w1] this(5) sample_scan w1
  show ?thesis by (auto simp: told_def two_watches_def)
qed

subsection \<open>When it goes wrong\<close>

text \<open>A function that stops its own watch, which nothing forbids, makes the callback of the loop read the freed node;
  and a watch whose first addition ran out of memory is left open with no function, so that the first change of the status
  dereferences a null pointer.\<close>

theorem watch_callback_faults:
  assumes "\<not> (bit io 3 \<or> bit io 4 \<or> bit io 5)" and "nl_scan (ws_status s) (received fd w) False = Ret True"
    and "artik_get_online_status (ws_status s) (after_recv fd w) = Ret (S_OK, \<not> ws_status s, w1)"
  shows "(ws_root s = [] \<longrightarrow> network_connection app fd io (Some s) w = ub NullDeref)
    \<and> (\<forall>a f u post st2 w2. ws_root s = (a, f, u) # post \<longrightarrow> a \<noteq> 0 \<longrightarrow> (\<forall>b st w. app f u b st w = ret (st2, w2)) \<longrightarrow>
         node_at a st2 = None \<longrightarrow> network_connection app fd io (Some s) w = ub UseAfterFree)"
proof -
  let ?s = "Some (s\<lparr>ws_status := \<not> ws_status s\<rparr>)"
  have n: "network_connection app fd io (Some s) w
      = rbind (call_back app (case ws_root s of [] \<Rightarrow> 0 | x # _ \<Rightarrow> fst x) ?s w1) (\<lambda>(st2, w3). ret (1, st2, w3))"
    using assms by (simp add: network_connection_def case_prod_beta Let_def received_def [symmetric])
  have "call_back app 0 ?s w1 = ub NullDeref" if "ws_root s = []"
    using that by (subst call_back.simps) (simp add: node_at_def)
  moreover have "call_back app a ?s w1 = ub UseAfterFree"
    if "ws_root s = (a, f, u) # post" "\<forall>b st w. app f u b st w = ret (st2, w2)" "node_at a st2 = None" for a f u post st2 w2
  proof -
    have "node_after a st2 = None"
      using that(3) by (auto simp: node_at_def node_after_def map_of_eq_None_iff split: option.splits)
        (metis (mono_tags, lifting) dropWhile_eq_Nil_conv fst_conv image_eqI list.simps(4))
    with that show ?thesis by (subst call_back.simps) (simp add: node_at_def)
  qed
  ultimately show ?thesis by (auto simp: n)
qed

theorem watch_callback_faults_witness:
  "network_connection (\<lambda>f u b st w. ret (Some (two_watches\<lparr>ws_root := [(48, 2, 6)]\<rparr>), online_world)) 3 1 (Some two_watches) online_world
     = ub UseAfterFree
   \<and> network_connection (\<lambda>f u b st w. ret (st, w)) 3 1 (Some (two_watches\<lparr>ws_root := []\<rparr>)) online_world = ub NullDeref"
proof -
  obtain w1 where w1: "artik_get_online_status False (after_recv 3 online_world) = Ret (S_OK, True, w1)"
    using sample_status by blast
  have io: "\<not> (bit (1 :: nat) 3 \<or> bit (1 :: nat) 4 \<or> bit (1 :: nat) 5)" by (simp add: bit_1_iff)
  have s: "nl_scan (ws_status (two_watches\<lparr>ws_root := r\<rparr>)) (received 3 online_world) False = Ret True"
    "artik_get_online_status (ws_status (two_watches\<lparr>ws_root := r\<rparr>)) (after_recv 3 online_world)
       = Ret (S_OK, \<not> ws_status (two_watches\<lparr>ws_root := r\<rparr>), w1)" for r
    using sample_scan w1 by (simp_all add: two_watches_def)
  have two: "two_watches\<lparr>ws_root := ws_root two_watches\<rparr> = two_watches" by simp
  show ?thesis
    using conjunct2 [OF watch_callback_faults [OF io s [of "ws_root two_watches"], unfolded two]]
      conjunct1 [OF watch_callback_faults [OF io s [of "[]"]]]
    by (simp add: two_watches_def node_at_def)
qed

text \<open>The two states of the fault.\<close>

lemma add_without_memory:
  "initialize_watch_online_status w = Ret (S_OK, Some s, w1)
     \<Longrightarrow> os_network_add_watch_online_status 0 f u None w = Ret (E_NO_MEM, None, Some s, w1)"
  by (simp add: os_network_add_watch_online_status_def)

lemma initialize_empty: "initialize_watch_online_status w = Ret (r, Some s, w1) \<Longrightarrow> ws_root s = []"
  by (auto simp: initialize_watch_online_status_def Let_def case_prod_beta obind_eq_Ret split: if_splits)

end
