(* ===== verification/TizenNetwork.thy ===== *)
theory TizenNetwork
  imports Network ErrorCodes
begin

section \<open>The network module on TizenRT (\<^verbatim>\<open>tinyara_network.c\<close>)\<close>

text \<open>
  The board has one interface and the system below the SDK does the work: its functions are \<open>SysCall\<close>s, with the
  interface and the addresses they get. \<^verbatim>\<open>inet_pton\<close> is the system's and a parameter of setting a configuration.
\<close>

definition wifi_iface :: string where "wifi_iface = ''wl1''"

definition DHCPC_HANDLE :: addr where "DHCPC_HANDLE = 0x44484343"
definition DHCPS_HANDLE :: addr where "DHCPS_HANDLE = 0x44484353"

definition set_address :: "string \<Rightarrow> u32 \<Rightarrow> world \<Rightarrow> int \<times> world" where
  "set_address f a w = (let (r, w1) = xc (SysCall f [uint a] (bytes_of wifi_iface)) w in (retv r, w1))"

definition set_addresses :: "u32 \<Rightarrow> u32 \<Rightarrow> u32 \<Rightarrow> world \<Rightarrow> world" where
  "set_addresses ip nm router w =
     snd (set_address ''netlib_set_dripv4addr'' router
       (snd (set_address ''netlib_set_ipv4netmask'' nm (snd (set_address ''netlib_set_ipv4addr'' ip w)))))"

subsection \<open>DHCP\<close>

text \<open>The lease that the system's client returns: address, nm, router.\<close>

definition tinyara_dhcp_client_start :: "bool \<Rightarrow> world \<Rightarrow> artik_error \<times> addr option \<times> world" where
  "tinyara_dhcp_client_start wifi w =
     (if \<not> wifi then (E_NOT_SUPPORTED, None, w)
      else let (h, w1) = xc (SysCall ''dhcpc_open'' [] (bytes_of wifi_iface)) w;
               (e, w2) = xc (SysCall ''dhcpc_request'' [retv h] []) w1;
               w3 = xcu (SysCall ''dhcpc_close'' [retv h] []) w2
           in if retv e \<noteq> 0
              then (if retv e = -100 then E_BAD_ARGS else if retv e = -2 then E_TIMEOUT else E_NOT_CONNECTED, None, w3)
              else (S_OK, Some DHCPC_HANDLE,
                    set_addresses (of_le32 (take 4 (outb e))) (of_le32 (take 4 (drop 4 (outb e))))
                      (of_le32 (take 4 (drop 8 (outb e)))) w3))"

definition tinyara_dhcp_client_stop :: "addr \<Rightarrow> world \<Rightarrow> artik_error \<times> world" where
  "tinyara_dhcp_client_stop h w = (if h \<noteq> DHCPC_HANDLE then (E_BAD_ARGS, w) else (S_OK, set_addresses 0 0 0 w))"

text \<open>Of the configuration only the interface is looked at.\<close>

definition tinyara_dhcp_server_start :: "bool option \<Rightarrow> world \<Rightarrow> (artik_error \<times> addr option \<times> world) outcome" where
  "tinyara_dhcp_server_start config_wifi w =
     (case config_wifi of
        None \<Rightarrow> Ub NullDeref
      | Some wifi \<Rightarrow>
          if \<not> wifi then Ret (E_NOT_SUPPORTED, None, w)
          else let (r, w1) = xc (SysCall ''dhcpd_start'' [] (bytes_of wifi_iface)) w
               in Ret (if retv r \<noteq> 0 then (E_NOT_CONNECTED, None, snd (set_address ''netlib_set_ipv4addr'' 0 w1))
                       else (S_OK, Some DHCPS_HANDLE, w1)))"

definition tinyara_dhcp_server_stop :: "addr \<Rightarrow> world \<Rightarrow> artik_error \<times> world" where
  "tinyara_dhcp_server_stop h w =
     (if h \<noteq> DHCPS_HANDLE then (E_BAD_ARGS, w)
      else (S_OK, snd (set_address ''netlib_set_ipv4addr'' 0 (xcu (SysCall ''dhcpd_stop'' [] []) w))))"

definition tinyara_watch_online_status :: "world \<Rightarrow> artik_error \<times> world" where
  "tinyara_watch_online_status w = (E_NOT_SUPPORTED, w)"

subsection \<open>Getting a configuration\<close>

text \<open>
  \<^verbatim>\<open>dns_foreach_nameserver\<close> calls \<^verbatim>\<open>add_nameserver\<close> for each name server of the system: is it an IPv4 address, and which?
  The array of the configuration has two places.
\<close>

definition add_nameserver :: "bool \<times> u32 \<Rightarrow> string list \<times> nat \<Rightarrow> (string list \<times> nat) outcome" where
  "add_nameserver server dns =
     (case (server, dns) of ((inet, a), (addrs, count)) \<Rightarrow>
        if \<not> inet \<or> 2 < count then Ret (addrs, count)
        else if count < length addrs then Ret (addrs[count := inet_ntop a], count + 1)
        else Ub OutOfBounds)"

fun for_each :: "('a \<Rightarrow> 's \<Rightarrow> 's outcome) \<Rightarrow> 'a list \<Rightarrow> 's \<Rightarrow> 's outcome" where
  "for_each f [] s = Ret s"
| "for_each f (x # xs) s = obind (f x s) (for_each f xs)"

text \<open>The servers as the call hands them over: a flag and the address each.\<close>

function servers_in :: "bytes \<Rightarrow> (bool \<times> u32) list" where
  "servers_in bs = (if length bs < 5 then [] else (hd bs \<noteq> 0, of_le32 (take 4 (drop 1 bs))) # servers_in (drop 5 bs))"
  by pat_completeness auto

termination
  by (relation "measure length") auto

declare servers_in.simps [simp del]

definition blank_config :: artik_network_config where
  "blank_config = \<lparr>nc_ip_addr = [], nc_netmask = [], nc_gw_addr = [], nc_dns_addr = [[], []], nc_mac_addr = []\<rparr>"

text \<open>One request on the socket: the address that the system stored, nothing if it failed.\<close>

definition ask :: "int \<Rightarrow> string \<Rightarrow> world \<Rightarrow> u32 option \<times> world" where
  "ask fd q w = (let (a, w1) = xc (Ioctl fd q (ifr_name wifi_iface)) w
     in (if retv a \<noteq> 0 then None else Some (ip_of (outb a)), w1))"

definition tinyara_get_network_config ::
  "artik_network_config option \<Rightarrow> bool \<Rightarrow> world \<Rightarrow> (artik_error \<times> artik_network_config option \<times> world) outcome" where
  "tinyara_get_network_config config wifi w =
     (case config of
        None \<Rightarrow> Ret (E_BAD_ARGS, None, w)
      | Some c \<Rightarrow>
          if \<not> wifi then Ret (E_BAD_ARGS, config, w)
          else let (s, w1) = xc (Socket ''ioctl'') w
               in if retv s < 0 then Ret (E_NETWORK_ERROR, config, w1)
                  else case ask (retv s) ''SIOCGIFADDR'' w1 of
                    (None, w2) \<Rightarrow> Ret (E_NETWORK_ERROR, Some blank_config, w2)
                  | (Some host, w2) \<Rightarrow>
                    (case ask (retv s) ''SIOCGIFDSTADDR'' w2 of
                       (None, w3) \<Rightarrow> Ret (E_NETWORK_ERROR, Some blank_config, w3)
                     | (Some gw, w3) \<Rightarrow>
                       (case ask (retv s) ''SIOCGIFNETMASK'' w3 of
                          (None, w4) \<Rightarrow> Ret (E_NETWORK_ERROR, Some blank_config, w4)
                        | (Some nm, w4) \<Rightarrow>
                            let (m, w5) = xc (SysCall ''netlib_getmacaddr'' [] (bytes_of wifi_iface)) w4
                            in if retv m \<noteq> 0 then Ret (E_NETWORK_ERROR, Some blank_config, w5)
                               else let c1 = blank_config\<lparr>nc_mac_addr := mac_text (take 6 (outb m))\<rparr>;
                                        (d, w6) = xc (SysCall ''dns_foreach_nameserver'' [] []) w5
                                    in obind (for_each add_nameserver (servers_in (outb d)) (nc_dns_addr c1, 0)) (\<lambda>(addrs, count).
                                         let c2 = c1\<lparr>nc_dns_addr := addrs\<rparr>
                                         in Ret (if retv d \<noteq> 0 then (E_NETWORK_ERROR, Some c2, w6)
                                                 else (S_OK, Some (c2\<lparr>nc_ip_addr := inet_ntop host, nc_gw_addr := inet_ntop gw,
                                                                     nc_netmask := inet_ntop nm\<rparr>), w6))))))"

subsection \<open>Setting a configuration\<close>

text \<open>The name servers that are given, converted; nothing if one is no address.\<close>

fun convert_servers :: "(string \<Rightarrow> u32 option) \<Rightarrow> string list \<Rightarrow> u32 list option" where
  "convert_servers pton [] = Some []"
| "convert_servers pton (s # ss) =
     (if s = [] then convert_servers pton ss
      else case pton s of
             None \<Rightarrow> None
           | Some a \<Rightarrow> map_option (Cons a) (convert_servers pton ss))"

definition succeeds :: "int \<Rightarrow> (world \<Rightarrow> int \<times> world) \<Rightarrow> world \<Rightarrow> bool \<times> world" where
  "succeeds bad f w = (let (r, w1) = f w in (r \<noteq> bad, w1))"

definition is_zero :: "(world \<Rightarrow> int \<times> world) \<Rightarrow> world \<Rightarrow> bool \<times> world" where
  "is_zero f w = (let (r, w1) = f w in (r = 0, w1))"

definition tinyara_set_network_config ::
  "(string \<Rightarrow> u32 option) \<Rightarrow> artik_network_config option \<Rightarrow> bool \<Rightarrow> world \<Rightarrow> artik_error \<times> world" where
  "tinyara_set_network_config pton config wifi w =
     (case config of
        None \<Rightarrow> (E_BAD_ARGS, w)
      | Some c \<Rightarrow>
          if \<not> wifi then (E_BAD_ARGS, w)
          else case (pton (nc_ip_addr c), pton (nc_gw_addr c), pton (nc_netmask c),
                     convert_servers pton (take 2 (nc_dns_addr c))) of
                 (Some host, Some gw, Some nm, Some servers) \<Rightarrow>
                   let (ok, w1) = all_steps
                         ([is_zero (set_address ''netlib_set_ipv4addr'' host),
                           is_zero (set_address ''netlib_set_dripv4addr'' gw),
                           is_zero (set_address ''netlib_set_ipv4netmask'' nm)]
                          @ map (\<lambda>a. succeeds ERROR (\<lambda>w. let (r, w1) = xc (SysCall ''dns_add_nameserver'' [uint a] []) w
                                                         in (retv r, w1))) servers) w
                   in (if ok then S_OK else E_NETWORK_ERROR, w1)
               | _ \<Rightarrow> (E_BAD_ARGS, w))"

subsection \<open>What is read\<close>

lemma add_nameservers:
  assumes "\<forall>s\<in>set servers. fst s"
  shows "for_each add_nameserver servers ([[], []], 0)
    = (if length servers \<le> 2
       then Ret (map (\<lambda>s. inet_ntop (snd s)) servers @ replicate (2 - length servers) [], length servers)
       else Ub OutOfBounds)"
proof (cases servers)
  case (Cons s1 r1)
  show ?thesis
  proof (cases r1)
    case Cons2: (Cons s2 r2)
    with Cons assms show ?thesis
      by (cases s1; cases s2; cases r2) (auto simp: add_nameserver_def)
  qed (use Cons assms in \<open>cases s1, auto simp: add_nameserver_def numeral_2_eq_2\<close>)
qed (simp add: numeral_2_eq_2)

definition servers_out :: "(bool \<times> u32) list \<Rightarrow> bytes" where
  "servers_out servers = concat (map (\<lambda>(b, a). (if b then 1 else 0) # le32 a) servers)"

lemma servers_in_out [simp]: "servers_in (servers_out servers) = servers"
proof (induction servers)
  case Nil
  show ?case by (subst servers_in.simps) (simp add: servers_out_def)
next
  case (Cons s servers)
  have "servers_out (s # servers) = (if fst s then 1 else 0) # le32 (snd s) @ servers_out servers"
    by (cases s) (simp add: servers_out_def)
  with Cons show ?case by (cases s) (subst servers_in.simps, simp)
qed

text \<open>A system that has an address, a router, a mask, a MAC address and name servers.\<close>

definition system_has :: "(xcall list \<Rightarrow> xcall \<Rightarrow> answer) \<Rightarrow> int \<Rightarrow> u32 \<Rightarrow> u32 \<Rightarrow> u32 \<Rightarrow> bytes \<Rightarrow> (bool \<times> u32) list \<Rightarrow> bool" where
  "system_has e fd ip gw nm mac servers \<longleftrightarrow> 0 \<le> fd \<and>
     (\<forall>h. retv (e h (Socket ''ioctl'')) = fd
       \<and> (\<forall>n. retv (e h (Ioctl fd ''SIOCGIFADDR'' n)) = 0 \<and> outb (e h (Ioctl fd ''SIOCGIFADDR'' n)) = le32 ip
            \<and> retv (e h (Ioctl fd ''SIOCGIFDSTADDR'' n)) = 0 \<and> outb (e h (Ioctl fd ''SIOCGIFDSTADDR'' n)) = le32 gw
            \<and> retv (e h (Ioctl fd ''SIOCGIFNETMASK'' n)) = 0 \<and> outb (e h (Ioctl fd ''SIOCGIFNETMASK'' n)) = le32 nm)
       \<and> (\<forall>n. retv (e h (SysCall ''netlib_getmacaddr'' [] n)) = 0 \<and> outb (e h (SysCall ''netlib_getmacaddr'' [] n)) = mac)
       \<and> retv (e h (SysCall ''dns_foreach_nameserver'' [] [])) = 0
       \<and> outb (e h (SysCall ''dns_foreach_nameserver'' [] [])) = servers_out servers)"

text \<open>C35. Of a system with at most two name servers the configuration is read as it is, and the socket that was opened
  stays open; a third name server is written past the end of the array.\<close>

theorem tinyara_config_is_read:
  assumes "system_has (env w) fd ip gw nm mac servers" and "\<forall>s\<in>set servers. fst s"
  shows "if length servers \<le> 2
     then \<exists>w'. tinyara_get_network_config (Some c) True w = Ret (S_OK, Some \<lparr>nc_ip_addr = inet_ntop ip, nc_netmask = inet_ntop nm,
           nc_gw_addr = inet_ntop gw, nc_dns_addr = map (\<lambda>s. inet_ntop (snd s)) servers @ replicate (2 - length servers) [],
           nc_mac_addr = mac_text (take 6 mac)\<rparr>, w') \<and> opened w' = fd # opened w
     else tinyara_get_network_config (Some c) True w = Ub OutOfBounds"
proof -
  have e: "0 \<le> fd" "retv (env w h (Socket ''ioctl'')) = fd"
    "retv (env w h (Ioctl fd ''SIOCGIFADDR'' n)) = 0" "outb (env w h (Ioctl fd ''SIOCGIFADDR'' n)) = le32 ip"
    "retv (env w h (Ioctl fd ''SIOCGIFDSTADDR'' n)) = 0" "outb (env w h (Ioctl fd ''SIOCGIFDSTADDR'' n)) = le32 gw"
    "retv (env w h (Ioctl fd ''SIOCGIFNETMASK'' n)) = 0" "outb (env w h (Ioctl fd ''SIOCGIFNETMASK'' n)) = le32 nm"
    "retv (env w h (SysCall ''netlib_getmacaddr'' [] n)) = 0" "outb (env w h (SysCall ''netlib_getmacaddr'' [] n)) = mac"
    "retv (env w h (SysCall ''dns_foreach_nameserver'' [] [])) = 0"
    "outb (env w h (SysCall ''dns_foreach_nameserver'' [] [])) = servers_out servers" for h n
    using assms(1) by (simp_all add: system_has_def)
  have "opened (w\<lparr>hist := hist w @ [Socket ''ioctl'', Ioctl fd a n, Ioctl fd b n, Ioctl fd d n, SysCall f [] x, SysCall g [] y]\<rparr>)
      = fd # opened w" for a b d n f x g y
    using e(1,2) by (simp add: opened_def fd_run_append Let_def)
  then show ?thesis
    using leD [OF e(1)] by (simp add: tinyara_get_network_config_def ask_def xc_def Let_def e ip_of_def blank_config_def
        add_nameservers [OF assms(2)])
qed

definition tizen_env :: "xcall list \<Rightarrow> xcall \<Rightarrow> answer" where
  "tizen_env h c = (case c of
      SysCall f ns bs \<Rightarrow> \<lparr>retv = 0, errno = 0, oval = 0,
        outb = (if f = ''netlib_getmacaddr'' then [0xA0, 0xB1, 2, 3, 4, 5] else servers_out (replicate 3 (True, 0x08080808)))\<rparr>
    | Ioctl fd q bs \<Rightarrow> \<lparr>retv = 0, errno = 0, oval = 0, outb = le32 (if q = ''SIOCGIFNETMASK'' then 0x00FFFFFF else 0x0401A8C0)\<rparr>
    | _ \<Rightarrow> good_env h c)"

theorem tinyara_config_is_read_witness:
  "tinyara_get_network_config (Some blank_config) True \<lparr>hist = [], env = tizen_env\<rparr> = Ub OutOfBounds"
proof -
  have "system_has (env \<lparr>hist = [], env = tizen_env\<rparr>) 3 0x0401A8C0 0x0401A8C0 0x00FFFFFF [0xA0, 0xB1, 2, 3, 4, 5]
      (replicate 3 (True, 0x08080808))"
    by (simp add: system_has_def) (simp add: tizen_env_def)
  from tinyara_config_is_read [OF this, of blank_config] show ?thesis by simp
qed

end
