(* ===== verification/HttpLinux.thy ===== *)
theory HttpLinux
  imports Cloud
begin

section \<open>HTTP requests on Linux (\<^verbatim>\<open>artik_http.c\<close>, \<^verbatim>\<open>linux_http.c\<close>)\<close>

text \<open>
  The requests are transfers of libcurl, whose functions are \<open>SysCall\<close>s with the numbers and the data they get. What
  the network delivers is a parameter, \<open>net\<close>: given the history it says whether TLS is used, which blocks of the body
  arrive, and the result of the transfer if nothing on this side ends it. libcurl hands each block to the function of
  the SDK and gives up when that takes another number of bytes; it hands the TLS context to \<open>ssl_ctx_callback\<close> and
  gives up when that fails. The functions of the front end only forward.
\<close>

type_synonym net = "xcall list \<Rightarrow> bool \<times> bytes list \<times> int"

text \<open>Memory with some text, null if its address is 0, and the length that is noted beside it.\<close>

record ssl_data =
  sd_at :: addr
  sd_text :: bytes
  sd_len :: nat

datatype artik_ssl_verify = SSL_VERIFY_NONE | SSL_VERIFY_OPTIONAL | SSL_VERIFY_REQUIRED

record artik_ssl_config =
  use_se :: bool
  ca_cert :: ssl_data
  client_cert :: ssl_data
  client_key :: ssl_data
  verify_cert :: artik_ssl_verify

definition verify_required :: "artik_ssl_config \<Rightarrow> bool" where
  "verify_required s \<longleftrightarrow> verify_cert s = SSL_VERIFY_REQUIRED"

definition CURLE_OK :: int where "CURLE_OK = 0"
definition CURLE_WRITE_ERROR :: int where "CURLE_WRITE_ERROR = 23"
definition CURLE_SSL_CERTPROBLEM :: int where "CURLE_SSL_CERTPROBLEM = 58"

text \<open>A call of a library, with its answer as a number.\<close>

definition lib :: "string \<Rightarrow> int list \<Rightarrow> bytes \<Rightarrow> world \<Rightarrow> int \<times> world" where
  "lib f ns bs w = (let (a, w1) = xc (SysCall f ns bs) w in (retv a, w1))"

definition libu :: "string \<Rightarrow> int list \<Rightarrow> bytes \<Rightarrow> world \<Rightarrow> world" where
  "libu f ns bs w = xcu (SysCall f ns bs) w"

subsection \<open>The TLS context\<close>

text \<open>Is there anything to load? Both the pointer and the length are tested.\<close>

definition given :: "ssl_data \<Rightarrow> bool" where
  "given d \<longleftrightarrow> sd_at d \<noteq> 0 \<and> 0 < sd_len d"

definition bio_of :: "ssl_data \<Rightarrow> world \<Rightarrow> int \<times> int \<times> world" where
  "bio_of d w = (let (b, w1) = lib ''BIO_new'' [] [] w; (n, w2) = lib ''BIO_write'' [b, int (sd_len d)] (sd_text d) w1 in (b, n, w2))"

text \<open>Each part: the code, the certificate and the key that are left to be freed at the end, 0 if none.\<close>

definition load_ca :: "int \<Rightarrow> ssl_data \<Rightarrow> world \<Rightarrow> int \<times> int \<times> world" where
  "load_ca ctx d w =
     (let (b, n, w1) = bio_of d w; (x, w2) = lib ''PEM_read_bio_X509'' [b] [] w1; w3 = libu ''BIO_free'' [b] [] w2
      in if x = 0 then (CURLE_SSL_CERTPROBLEM, 0, w3)
         else let (k, w4) = lib ''SSL_CTX_get_cert_store'' [ctx] [] w3
              in if k = 0 then (CURLE_SSL_CERTPROBLEM, x, libu ''BIO_free'' [b] [] w4)
                 else let (r, w5) = lib ''X509_STORE_add_cert'' [k, x] [] w4
                      in if r = 0 then (CURLE_SSL_CERTPROBLEM, x, w5)
                         else (CURLE_OK, 0, libu ''X509_free'' [x] [] w5))"

definition load_cert :: "int \<Rightarrow> ssl_data \<Rightarrow> world \<Rightarrow> int \<times> int \<times> world" where
  "load_cert ctx d w =
     (let (b, n, w1) = bio_of d w; (x, w2) = lib ''PEM_read_bio_X509'' [b] [] w1; w3 = libu ''BIO_free'' [b] [] w2
      in if x = 0 then (CURLE_SSL_CERTPROBLEM, 0, w3)
         else let (r, w4) = lib ''SSL_CTX_use_certificate'' [ctx, x] [] w3
              in (if r = 0 then CURLE_SSL_CERTPROBLEM else CURLE_OK, x, w4))"

definition load_key :: "int \<Rightarrow> ssl_data \<Rightarrow> world \<Rightarrow> int \<times> int \<times> world" where
  "load_key ctx d w =
     (let (b, n, w1) = bio_of d w
      in if n = 0 then (CURLE_SSL_CERTPROBLEM, 0, libu ''BIO_free'' [b] [] w1)
         else let (k, w2) = lib ''PEM_read_bio_PrivateKey'' [b] [] w1; w3 = libu ''BIO_free'' [b] [] w2
              in if k = 0 then (CURLE_SSL_CERTPROBLEM, 0, w3)
                 else let (r, w4) = lib ''SSL_CTX_use_PrivateKey'' [ctx, k] [] w3
                      in if r = 0 then (CURLE_SSL_CERTPROBLEM, k, w4)
                         else let (v, w5) = lib ''SSL_CTX_check_private_key'' [ctx] [] w4
                              in (if v = 0 then CURLE_SSL_CERTPROBLEM else CURLE_OK, k, w5))"

text \<open>One part after the other, until one fails; a part that is not there is skipped.\<close>

definition ssl_ctx_callback :: "int \<Rightarrow> artik_ssl_config \<Rightarrow> world \<Rightarrow> int \<times> world" where
  "ssl_ctx_callback ctx s w =
     (let none = (CURLE_OK, 0 :: int, 0 :: int);
          finish = (\<lambda>c x k w. (c, (if x \<noteq> 0 then libu ''X509_free'' [x] [] else id)
                                     ((if k \<noteq> 0 then libu ''EVP_PKEY_free'' [k] [] else id) w)));
          (c, x, w1) = (if given (ca_cert s) \<and> verify_required s then load_ca ctx (ca_cert s) w else (CURLE_OK, 0, w))
      in if c \<noteq> CURLE_OK then finish c x 0 w1
         else let (c, x, w2) = (if given (client_cert s) then load_cert ctx (client_cert s) w1 else (CURLE_OK, 0, w1))
              in if c \<noteq> CURLE_OK then finish c x 0 w2
                 else let (c, k, w3) = (if given (client_key s) then load_key ctx (client_key s) w2 else (CURLE_OK, 0, w2))
                      in finish c x k w3)"

subsection \<open>The body of the answer\<close>

text \<open>
  Where a block goes: the string of the caller, null at first, or the function of the application. \<^verbatim>\<open>strndup\<close> and
  \<^verbatim>\<open>strncat\<close> stop at a NUL. The answer is the number of bytes that were taken, as \<^verbatim>\<open>size_t\<close>.
\<close>

definition c_str :: "bytes \<Rightarrow> bytes" where
  "c_str b = takeWhile (\<lambda>c. c \<noteq> 0) b"

definition response_callback :: "bytes \<Rightarrow> bytes option \<Rightarrow> world \<Rightarrow> u32 \<times> bytes option \<times> world" where
  "response_callback block response w =
     (case response of
        None \<Rightarrow>
          let (a, w1) = xc (Malloc (length (c_str block) + 1)) w
          in if retv a = 0 then (0, None, w1) else (word_of_nat (length block), Some (c_str block), w1)
      | Some r \<Rightarrow>
          let (a, w1) = xc (Realloc (length r + length block + 1)) w
          in if retv a = 0 then (0, None, w1) else (word_of_nat (length block), Some (r @ c_str block), w1))"

definition stream_callback :: "bytes \<Rightarrow> bytes option \<Rightarrow> world \<Rightarrow> u32 \<times> bytes option \<times> world" where
  "stream_callback block response w =
     (let (a, w1) = xc (StreamCallback block) w in (word_of_int (retv a), response, w1))"

fun deliver :: "(bytes \<Rightarrow> bytes option \<Rightarrow> world \<Rightarrow> u32 \<times> bytes option \<times> world) \<Rightarrow> bytes list \<Rightarrow> bytes option \<Rightarrow> world
    \<Rightarrow> bool \<times> bytes option \<times> world" where
  "deliver f [] response w = (True, response, w)"
| "deliver f (b # bs) response w =
     (let (n, response1, w1) = f b response w
      in if n = word_of_nat (length b) then deliver f bs response1 w1 else (False, response1, w1))"

text \<open>\<^verbatim>\<open>curl_easy_perform\<close>: the result, the response, and the world.\<close>

definition curl_perform :: "net \<Rightarrow> (bytes \<Rightarrow> bytes option \<Rightarrow> world \<Rightarrow> u32 \<times> bytes option \<times> world) \<Rightarrow> int
    \<Rightarrow> artik_ssl_config option \<Rightarrow> world \<Rightarrow> int \<times> bytes option \<times> world" where
  "curl_perform net f curl ssl w =
     (let w1 = libu ''curl_easy_perform'' [curl] [] w; (tls, blocks, result) = net (hist w1);
          (c, w2) = (case ssl of
             Some s \<Rightarrow> if tls then let (ctx, w2) = lib ''SSL_CTX_new'' [] [] w1 in ssl_ctx_callback ctx s w2 else (CURLE_OK, w1)
           | None \<Rightarrow> (CURLE_OK, w1))
      in if c \<noteq> CURLE_OK then (c, None, w2)
         else let (ok, response, w3) = deliver f blocks None w2
              in (if ok then result else CURLE_WRITE_ERROR, response, w3))"

subsection \<open>A request\<close>

text \<open>The list of headers, 0 if there is none; the memory for a line is not tested.\<close>

fun header_list :: "int \<Rightarrow> (bytes \<times> bytes) list \<Rightarrow> world \<Rightarrow> (int \<times> world) outcome" where
  "header_list l [] w = Ret (l, w)"
| "header_list l ((name, data) # hs) w =
     (let n = length name + 2 + length data + 1; (a, w1) = xc (Malloc n) w
      in if retv a = 0 then Ub NullDeref
         else let (l1, w2) = lib ''curl_slist_append'' [l] (snprintf n ''%s: %s'' [Str name, Str data]) w1
              in header_list l1 hs (xcu (Free (nat (retv a))) w2))"

text \<open>The data of the call starts with the name of the option.\<close>

definition setopt :: "int \<Rightarrow> string \<Rightarrow> int list \<Rightarrow> bytes \<Rightarrow> world \<Rightarrow> world" where
  "setopt curl option ns bs w = libu ''curl_easy_setopt'' (curl # ns) (bytes_of option @ 0 # bs) w"

definition build_headers :: "int \<Rightarrow> (bytes \<times> bytes) list option \<Rightarrow> world \<Rightarrow> (int \<times> world) outcome" where
  "build_headers curl headers w =
     (case headers of
        None \<Rightarrow> Ret (0, w)
      | Some hs \<Rightarrow>
          if hs = [] then Ret (0, w)
          else obind (header_list 0 hs w) (\<lambda>(l, w1). Ret (l, setopt curl ''HTTPHEADER'' [l] [] w1)))"

definition verify_options :: "int \<Rightarrow> artik_ssl_config option \<Rightarrow> world \<Rightarrow> world" where
  "verify_options curl ssl w =
     (if ssl \<noteq> None \<and> verify_required (the ssl)
      then setopt curl ''CAINFO'' [0] [] (setopt curl ''CAPATH'' [0] [] (setopt curl ''SSLCERTTYPE'' [] (bytes_of ''PEM'')
             (setopt curl ''SSL_VERIFYHOST'' [2] [] (setopt curl ''SSL_VERIFYPEER'' [1] [] w))))
      else setopt curl ''SSL_VERIFYHOST'' [0] [] (setopt curl ''SSL_VERIFYPEER'' [0] [] w))"

text \<open>Memory of the configuration is replaced by a copy of a text, null if there is no memory for it.\<close>

definition replace_data :: "ssl_data \<Rightarrow> bytes \<Rightarrow> world \<Rightarrow> ssl_data \<times> world" where
  "replace_data d text w =
     (let w1 = (if sd_at d \<noteq> 0 then xcu (Free (sd_at d)) w else w); (a, w2) = xc (Malloc (length text + 1)) w1
      in (\<lparr>sd_at = nat (retv a), sd_text = text, sd_len = length text\<rparr>, w2))"

text \<open>
  The key pair of the secure element. What is to be given back at the end: the module, the handle of its session, the
  certificate and the key, each 0 if it was not obtained.
\<close>

record acquired =
  aq_module :: addr
  aq_session :: int
  aq_cert :: addr
  aq_key :: addr

definition nothing :: acquired where
  "nothing = \<lparr>aq_module = 0, aq_session = 0, aq_cert = 0, aq_key = 0\<rparr>"

definition secure_element :: "artik_ssl_config \<Rightarrow> world \<Rightarrow> (artik_error \<times> acquired \<times> artik_ssl_config \<times> world) outcome" where
  "secure_element s w =
     (let (m, w1) = xc (ModRequest ''security'') w; p = nat (retv m)
      in if p = 0 then Ub NullDeref
         else let (h, w2) = xc (SysCall ''security request'' [int p] []) w1
              in if retv h \<noteq> S_OK then Ret (E_HTTP_ERROR, nothing\<lparr>aq_module := p\<rparr>, s, w2)
                 else let q = nothing\<lparr>aq_module := p, aq_session := oval h\<rparr>;
                          (c, w3) = xc (SysCall ''security get_certificate'' [int p, oval h] []) w2
                      in if retv c \<noteq> S_OK then Ret (E_HTTP_ERROR, q, s, w3)
                         else let q1 = q\<lparr>aq_cert := nat (oval c)\<rparr>; (d, w4) = replace_data (client_cert s) (outb c) w3;
                                  s1 = s\<lparr>client_cert := d\<rparr>;
                                  (k, w5) = xc (SysCall ''security get_key_from_cert'' [int p, oval h] (outb c)) w4
                              in if retv k \<noteq> S_OK then Ret (E_HTTP_ERROR, q1, s1, w5)
                                 else let (d, w6) = replace_data (client_key s1) (outb k) w5
                                      in Ret (S_OK, q1\<lparr>aq_key := nat (oval k)\<rparr>, s1\<lparr>client_key := d\<rparr>, w6))"

definition ssl_setup :: "artik_ssl_config option \<Rightarrow> world \<Rightarrow> (artik_error \<times> acquired \<times> artik_ssl_config option \<times> world) outcome" where
  "ssl_setup ssl w =
     (case ssl of
        None \<Rightarrow> Ret (S_OK, nothing, None, w)
      | Some s \<Rightarrow>
          if use_se s then obind (secure_element s w) (\<lambda>(r, q, s1, w1). Ret (r, q, Some s1, w1))
          else Ret (S_OK, nothing, ssl, w))"

text \<open>The end, on every path after the start of libcurl: the status, if it was asked for, and the cleaning up.\<close>

definition clean_up :: "bool \<Rightarrow> int \<Rightarrow> int \<Rightarrow> acquired \<Rightarrow> world \<Rightarrow> int option \<times> world" where
  "clean_up status curl h_list q w =
     (let (st, w1) = (if status then let (a, w1) = xc (SysCall ''curl_easy_getinfo'' [curl] []) w in (Some (oval a), w1) else (None, w));
          w2 = libu ''mutex_unlock'' [] [] (libu ''curl_global_cleanup'' [] [] (libu ''curl_easy_cleanup'' [curl] [] w1));
          w3 = (if h_list \<noteq> 0 then libu ''curl_slist_free_all'' [h_list] [] w2 else w2);
          w4 = (if aq_cert q \<noteq> 0 then xcu (Free (aq_cert q)) w3 else w3);
          w5 = (if aq_key q \<noteq> 0 then xcu (Free (aq_key q)) w4 else w4);
          w6 = (if aq_session q \<noteq> 0 then libu ''security release'' [int (aq_module q), aq_session q] [] w5 else w5)
      in (st, if aq_module q \<noteq> 0 then xcu (ModRelease (aq_module q)) w6 else w6))"

text \<open>
  What the five requests share. \<open>verb\<close> is the option that selects the method, \<open>f\<close> the function for the blocks. The
  error, the response (null if nothing arrived), the status, the configuration as it is after the call.
\<close>

type_synonym http_result = "artik_error \<times> bytes option \<times> int option \<times> artik_ssl_config option \<times> world"

definition curl_request :: "net \<Rightarrow> (bytes \<Rightarrow> bytes option \<Rightarrow> world \<Rightarrow> u32 \<times> bytes option \<times> world)
    \<Rightarrow> (string \<times> int list \<times> bytes) list \<Rightarrow> bytes \<Rightarrow> (bytes \<times> bytes) list option \<Rightarrow> bytes option \<Rightarrow> bool
    \<Rightarrow> artik_ssl_config option \<Rightarrow> world \<Rightarrow> http_result outcome" where
  "curl_request net f verb url headers content status ssl w =
     (let (curl, w1) = lib ''curl_easy_init'' [] [] (libu ''curl_global_init'' [] [] (libu ''mutex_lock'' [] [] w))
      in if curl = 0 then Ret (E_NOT_SUPPORTED, None, None, ssl, libu ''mutex_unlock'' [] [] (libu ''curl_global_cleanup'' [] [] w1))
         else obind (build_headers curl headers w1) (\<lambda>(l, w2).
                let w3 = setopt curl ''URL'' [] url w2;
                    w4 = fold (\<lambda>(opt, ns, bs). setopt curl opt ns bs) (verb @ [(''FOLLOWLOCATION'', [1], []), (''WRITEFUNCTION'', [], []), (''WRITEDATA'', [], [])]) w3;
                    w5 = verify_options curl ssl w4
                in obind (ssl_setup ssl w5) (\<lambda>(r, q, ssl1, w6).
                     if r \<noteq> S_OK then (let (st, w7) = clean_up status curl l q w6 in Ret (r, None, st, ssl1, w7))
                     else let w7 = (if ssl1 = None then w6
                                    else setopt curl ''SSL_CTX_DATA'' [] [] (setopt curl ''SSL_CTX_FUNCTION'' [] [] w6));
                              w8 = (case content of None \<Rightarrow> w7 | Some b \<Rightarrow> setopt curl ''POSTFIELDS'' [] b w7);
                              (c, response, w9) = curl_perform net f curl ssl1 w8;
                              (st, w10) = clean_up status curl l q w9
                          in Ret (if c \<noteq> CURLE_OK then E_HTTP_ERROR else S_OK, response, st, ssl1, w10))))"

text \<open>The requests. \<open>response\<close> and \<open>callback\<close> say whether the pointer is not null.\<close>

definition refuse :: "artik_ssl_config option \<Rightarrow> world \<Rightarrow> http_result outcome" where
  "refuse ssl w = Ret (E_BAD_ARGS, None, None, ssl, w)"

definition os_http_get_stream :: "net \<Rightarrow> bytes option \<Rightarrow> (bytes \<times> bytes) list option \<Rightarrow> bool \<Rightarrow> bool
    \<Rightarrow> artik_ssl_config option \<Rightarrow> world \<Rightarrow> http_result outcome" where
  "os_http_get_stream net url headers status callback ssl w =
     (case url of
        None \<Rightarrow> refuse ssl w
      | Some u \<Rightarrow> if \<not> callback then refuse ssl w else curl_request net stream_callback [] u headers None status ssl w)"

definition os_http_get :: "net \<Rightarrow> bytes option \<Rightarrow> (bytes \<times> bytes) list option \<Rightarrow> bool \<Rightarrow> bool
    \<Rightarrow> artik_ssl_config option \<Rightarrow> world \<Rightarrow> http_result outcome" where
  "os_http_get net url headers response status ssl w =
     (case url of
        None \<Rightarrow> refuse ssl w
      | Some u \<Rightarrow> if \<not> response then refuse ssl w else curl_request net response_callback [] u headers None status ssl w)"

definition os_http_post :: "net \<Rightarrow> bytes option \<Rightarrow> (bytes \<times> bytes) list option \<Rightarrow> bytes option \<Rightarrow> bool \<Rightarrow> bool
    \<Rightarrow> artik_ssl_config option \<Rightarrow> world \<Rightarrow> http_result outcome" where
  "os_http_post net url headers content response status ssl w =
     (case url of
        None \<Rightarrow> refuse ssl w
      | Some u \<Rightarrow> if \<not> response then refuse ssl w
                  else curl_request net response_callback [(''POST'', [1], [])] u headers content status ssl w)"

definition os_http_put :: "net \<Rightarrow> bytes option \<Rightarrow> (bytes \<times> bytes) list option \<Rightarrow> bytes option \<Rightarrow> bool \<Rightarrow> bool
    \<Rightarrow> artik_ssl_config option \<Rightarrow> world \<Rightarrow> http_result outcome" where
  "os_http_put net url headers content response status ssl w =
     (case url of
        None \<Rightarrow> refuse ssl w
      | Some u \<Rightarrow> if \<not> response then refuse ssl w
                  else curl_request net response_callback [(''CUSTOMREQUEST'', [], bytes_of ''PUT'')] u headers content status ssl w)"

definition os_http_delete :: "net \<Rightarrow> bytes option \<Rightarrow> (bytes \<times> bytes) list option \<Rightarrow> bool \<Rightarrow> bool
    \<Rightarrow> artik_ssl_config option \<Rightarrow> world \<Rightarrow> http_result outcome" where
  "os_http_delete net url headers response status ssl w =
     (case url of
        None \<Rightarrow> refuse ssl w
      | Some u \<Rightarrow> if \<not> response then refuse ssl w
                  else curl_request net response_callback [(''CUSTOMREQUEST'', [], bytes_of ''DELETE'')] u headers None status ssl w)"

end
