(* ===== verification/HttpLinuxProps.thy ===== *)
theory HttpLinuxProps
  imports HttpLinux
begin

section \<open>HTTP requests on Linux: what a request returns and gives back\<close>

subsection \<open>The body, however it arrives\<close>

definition memory_works :: "(xcall list \<Rightarrow> xcall \<Rightarrow> answer) \<Rightarrow> bool" where
  "memory_works e \<longleftrightarrow> (\<forall>h n. retv (e h (Malloc n)) \<noteq> 0 \<and> retv (e h (Realloc n)) \<noteq> 0)"

lemma deliver_more:
  assumes "memory_works (env w)"
  shows "\<exists>w'. deliver response_callback blocks (Some r) w = (True, Some (r @ concat (map c_str blocks)), w') \<and> env w' = env w"
  using assms
proof (induction blocks arbitrary: r w)
  case (Cons b bs)
  let ?w1 = "snd (xc (Realloc (length r + length b + 1)) w)"
  have "response_callback b (Some r) w = (word_of_nat (length b), Some (r @ c_str b), ?w1)"
    using Cons.prems by (simp add: response_callback_def memory_works_def case_prod_beta Let_def)
  moreover have "memory_works (env ?w1)" using Cons.prems by simp
  ultimately show ?case using Cons.IH [of ?w1 "r @ c_str b"] by simp
qed simp

lemma deliver_response:
  assumes "memory_works (env w)"
  shows "\<exists>w'. deliver response_callback blocks None w
      = (True, if blocks = [] then None else Some (concat (map c_str blocks)), w') \<and> env w' = env w"
proof (cases blocks)
  case (Cons b bs)
  let ?w1 = "snd (xc (Malloc (length (c_str b) + 1)) w)"
  have "response_callback b None w = (word_of_nat (length b), Some (c_str b), ?w1)"
    using assms by (simp add: response_callback_def memory_works_def case_prod_beta Let_def)
  then show ?thesis using deliver_more [of ?w1 bs "c_str b"] assms by (simp add: Cons)
qed simp

subsection \<open>What is held\<close>

text \<open>How often the lock, the library and other modules were taken, less how often they were given back.\<close>

datatype resource = Lock | Library | Modules

definition delta :: "resource \<Rightarrow> xcall \<Rightarrow> int" where
  "delta k c = (case c of
      SysCall f ns bs \<Rightarrow>
        (case k of
           Lock \<Rightarrow> if f = ''mutex_lock'' then 1 else if f = ''mutex_unlock'' then -1 else 0
         | Library \<Rightarrow> if f = ''curl_global_init'' then 1 else if f = ''curl_global_cleanup'' then -1 else 0
         | Modules \<Rightarrow> 0)
    | ModRequest m \<Rightarrow> if k = Modules then 1 else 0
    | ModRelease p \<Rightarrow> if k = Modules then -1 else 0
    | _ \<Rightarrow> 0)"

definition held :: "resource \<Rightarrow> world \<Rightarrow> int" where
  "held k w = sum_list (map (delta k) (hist w))"

lemma held_xc [simp]: "held k (snd (xc c w)) = held k w + delta k c" "held k (xcu c w) = held k w + delta k c"
  by (simp_all add: held_def xc_def xcu_def)

lemma delta_simps [simp]:
  "delta k (Malloc n) = 0" "delta k (Realloc n) = 0" "delta k (Free p) = 0" "delta k (StreamCallback b) = 0"
  "delta k (ModRequest m) = (if k = Modules then 1 else 0)" "delta k (ModRelease p) = (if k = Modules then -1 else 0)"
  by (simp_all add: delta_def)

definition neutral :: "string \<Rightarrow> bool" where
  "neutral f \<longleftrightarrow> f \<notin> {''mutex_lock'', ''mutex_unlock'', ''curl_global_init'', ''curl_global_cleanup''}"

lemma delta_neutral [simp]: "neutral f \<Longrightarrow> delta k (SysCall f ns bs) = 0"
  by (auto simp: delta_def neutral_def split: resource.split)

lemma held_lib [simp]: "neutral f \<Longrightarrow> held k (snd (lib f ns bs w)) = held k w"
  "neutral f \<Longrightarrow> held k (libu f ns bs w) = held k w"
  by (simp_all add: lib_def libu_def case_prod_beta Let_def)

lemma neutral_calls [simp]: "neutral ''curl_easy_setopt''" "neutral ''curl_slist_append''" "neutral ''curl_easy_init''"
  "neutral ''security request''" "neutral ''security get_certificate''" "neutral ''security get_key_from_cert''"
  by (simp_all add: neutral_def)

lemma frame_lib [simp]: "env (snd (lib f ns bs w)) = env w" "env (libu f ns bs w) = env w"
  by (simp_all add: lib_def libu_def case_prod_beta Let_def)

lemma frame_setopt [simp]: "env (setopt c f ns bs w) = env w" "held k (setopt c f ns bs w) = held k w"
  by (simp_all add: setopt_def)

lemma frame_fold_setopt [simp]: "env (fold (\<lambda>(f, ns, bs). setopt c f ns bs) fs w) = env w"
  "held k (fold (\<lambda>(f, ns, bs). setopt c f ns bs) fs w) = held k w"
  by (induction fs arbitrary: w) (auto simp: case_prod_beta)

lemma frame_verify [simp]: "env (verify_options c ssl w) = env w" "held k (verify_options c ssl w) = held k w"
  by (simp_all add: verify_options_def)

lemma frame_header_list: "header_list l hs w = Ret (l', w') \<Longrightarrow> env w' = env w \<and> held k w' = held k w"
proof (induction hs arbitrary: l w)
  case (Cons h hs)
  obtain name data where h: "h = (name, data)" by (cases h)
  let ?n = "length name + 2 + length data + 1"
  let ?a = "fst (xc (Malloc ?n) w)"
  let ?r = "lib ''curl_slist_append'' [l] (snprintf ?n ''%s: %s'' [Str name, Str data]) (snd (xc (Malloc ?n) w))"
  from Cons.prems have "header_list (fst ?r) hs (xcu (Free (nat (retv ?a))) (snd ?r)) = Ret (l', w')"
    by (simp add: h case_prod_beta Let_def split: if_splits)
  from Cons.IH [OF this] show ?case by simp
qed simp

lemma frame_build_headers: "build_headers c hs w = Ret (l', w') \<Longrightarrow> env w' = env w \<and> held k w' = held k w"
  by (auto simp: build_headers_def obind_eq_Ret dest: frame_header_list split: option.splits if_splits)

lemma frame_replace_data [simp]: "env (snd (replace_data d t w)) = env w" "held k (snd (replace_data d t w)) = held k w"
  by (simp_all add: replace_data_def case_prod_beta Let_def)

lemma frame_secure_element:
  "secure_element s w = Ret (r, q, s', w')
     \<Longrightarrow> env w' = env w \<and> held k w' = held k w + (if k = Modules then 1 else 0) \<and> aq_module q \<noteq> 0"
  by (auto simp: secure_element_def case_prod_beta Let_def nothing_def split: if_splits)

lemma frame_ssl_setup:
  "ssl_setup ssl w = Ret (r, q, s', w')
     \<Longrightarrow> env w' = env w \<and> held k w' = held k w + (if k = Modules \<and> aq_module q \<noteq> 0 then 1 else 0)"
  by (auto simp: ssl_setup_def obind_eq_Ret nothing_def dest: frame_secure_element split: option.splits if_splits)

lemma frame_clean_up [simp]:
  "env (snd (clean_up status c l q w)) = env w"
  "held k (snd (clean_up status c l q w)) = held k w + (case k of Lock \<Rightarrow> -1 | Library \<Rightarrow> -1
     | Modules \<Rightarrow> if aq_module q \<noteq> 0 then -1 else 0)"
proof -
  have n: "neutral ''curl_easy_getinfo''" "neutral ''curl_easy_cleanup''" "neutral ''curl_slist_free_all''" "neutral ''security release''"
    by (simp_all add: neutral_def)
  have d: "held k (libu ''mutex_unlock'' [] [] w) = held k w + (if k = Lock then -1 else 0)"
    "held k (libu ''curl_global_cleanup'' [] [] w) = held k w + (if k = Library then -1 else 0)" for w k
    by (simp_all add: libu_def delta_def split: resource.split)
  show "env (snd (clean_up status c l q w)) = env w"
    by (simp add: clean_up_def case_prod_beta Let_def)
  show "held k (snd (clean_up status c l q w)) = held k w + (case k of Lock \<Rightarrow> -1 | Library \<Rightarrow> -1
     | Modules \<Rightarrow> if aq_module q \<noteq> 0 then -1 else 0)"
    by (cases k) (simp_all add: clean_up_def case_prod_beta Let_def n d)
qed

lemma frame_parts [simp]:
  "env (snd (snd (bio_of d w))) = env w" "held k (snd (snd (bio_of d w))) = held k w"
  "env (snd (snd (load_ca c d w))) = env w" "held k (snd (snd (load_ca c d w))) = held k w"
  "env (snd (snd (load_cert c d w))) = env w" "held k (snd (snd (load_cert c d w))) = held k w"
  "env (snd (snd (load_key c d w))) = env w" "held k (snd (snd (load_key c d w))) = held k w"
proof -
  have n: "neutral ''BIO_new''" "neutral ''BIO_write''" "neutral ''BIO_free''" "neutral ''PEM_read_bio_X509''"
    "neutral ''SSL_CTX_get_cert_store''" "neutral ''X509_STORE_add_cert''" "neutral ''X509_free''"
    "neutral ''SSL_CTX_use_certificate''" "neutral ''PEM_read_bio_PrivateKey''" "neutral ''SSL_CTX_use_PrivateKey''"
    "neutral ''SSL_CTX_check_private_key''" by (simp_all add: neutral_def)
  show b: "env (snd (snd (bio_of d w))) = env w" "held k (snd (snd (bio_of d w))) = held k w" for w
    by (simp_all add: bio_of_def case_prod_beta Let_def n)
  show "env (snd (snd (load_ca c d w))) = env w" "held k (snd (snd (load_ca c d w))) = held k w"
    "env (snd (snd (load_cert c d w))) = env w" "held k (snd (snd (load_cert c d w))) = held k w"
    "env (snd (snd (load_key c d w))) = env w" "held k (snd (snd (load_key c d w))) = held k w"
    by (simp_all add: load_ca_def load_cert_def load_key_def case_prod_beta Let_def n b)
qed

lemma frame_ssl_ctx [simp]: "env (snd (ssl_ctx_callback c s w)) = env w" "held k (snd (ssl_ctx_callback c s w)) = held k w"
proof -
  have n: "neutral ''X509_free''" "neutral ''EVP_PKEY_free''" by (simp_all add: neutral_def)
  show "env (snd (ssl_ctx_callback c s w)) = env w" "held k (snd (ssl_ctx_callback c s w)) = held k w"
    by (simp_all add: ssl_ctx_callback_def case_prod_beta Let_def n)
qed

text \<open>The functions for blocks.\<close>

definition keeps :: "(bytes \<Rightarrow> bytes option \<Rightarrow> world \<Rightarrow> u32 \<times> bytes option \<times> world) \<Rightarrow> bool" where
  "keeps f \<longleftrightarrow> (\<forall>b r w k. env (snd (snd (f b r w))) = env w \<and> held k (snd (snd (f b r w))) = held k w)"

lemma keeps_callbacks [simp]: "keeps response_callback" "keeps stream_callback"
  by (auto simp: keeps_def response_callback_def stream_callback_def case_prod_beta Let_def split: option.split)

lemma frame_deliver:
  assumes "keeps f"
  shows "env (snd (snd (deliver f bs r w))) = env w \<and> held k (snd (snd (deliver f bs r w))) = held k w"
  using assms by (induction bs arbitrary: r w) (auto simp: keeps_def case_prod_beta Let_def)

lemma frame_perform:
  assumes "keeps f"
  shows "env (snd (snd (curl_perform net f c ssl w))) = env w \<and> held k (snd (snd (curl_perform net f c ssl w))) = held k w"
proof -
  have n: "neutral ''curl_easy_perform''" "neutral ''SSL_CTX_new''" by (simp_all add: neutral_def)
  show ?thesis
    using frame_deliver [OF assms] by (auto simp: curl_perform_def case_prod_beta Let_def n split: option.split)
qed

lemma request_gives_back:
  assumes "curl_request net f verb url hs content status ssl w = Ret (r, resp, st, ssl', w')" and "keeps f"
  shows "env w' = env w \<and> held k w' = held k w"
proof -
  let ?w0 = "snd (lib ''curl_easy_init'' [] [] (libu ''curl_global_init'' [] [] (libu ''mutex_lock'' [] [] w)))"
  have n: "neutral ''curl_easy_init''" by (simp add: neutral_def)
  have d: "held k (libu ''mutex_unlock'' [] [] w) = held k w + (if k = Lock then -1 else 0)"
    "held k (libu ''mutex_lock'' [] [] w) = held k w + (if k = Lock then 1 else 0)"
    "held k (libu ''curl_global_init'' [] [] w) = held k w + (if k = Library then 1 else 0)"
    "held k (libu ''curl_global_cleanup'' [] [] w) = held k w + (if k = Library then -1 else 0)" for w k
    by (simp_all add: libu_def delta_def split: resource.split)
  show ?thesis
  proof (cases "fst (lib ''curl_easy_init'' [] [] (libu ''curl_global_init'' [] [] (libu ''mutex_lock'' [] [] w))) = 0")
    case True
    with assms(1) show ?thesis by (auto simp: curl_request_def case_prod_beta Let_def d)
  next
    case False
    let ?c = "fst (lib ''curl_easy_init'' [] [] (libu ''curl_global_init'' [] [] (libu ''mutex_lock'' [] [] w)))"
    have 0: "env ?w0 = env w" "held k ?w0 = held k w + (if k = Modules then 0 else 1)"
      by (cases k; simp add: d)+
    define opts where "opts = verb @ [(''FOLLOWLOCATION'', [1], []), (''WRITEFUNCTION'', [], []), (''WRITEDATA'', [], [])]"
    from False assms(1) obtain l w2 where 2: "build_headers ?c hs ?w0 = Ret (l, w2)"
      by (auto simp: curl_request_def case_prod_beta Let_def obind_eq_Ret)
    let ?w5 = "verify_options ?c ssl (fold (\<lambda>(f, ns, bs). setopt ?c f ns bs) opts (setopt ?c ''URL'' [] url w2))"
    from False assms(1) 2 obtain r' q s' w6 where 6: "ssl_setup ssl ?w5 = Ret (r', q, s', w6)"
      by (auto simp: curl_request_def case_prod_beta Let_def obind_eq_Ret opts_def)
    let ?w7 = "if s' = None then w6 else setopt ?c ''SSL_CTX_DATA'' [] [] (setopt ?c ''SSL_CTX_FUNCTION'' [] [] w6)"
    let ?w8 = "case content of None \<Rightarrow> ?w7 | Some b \<Rightarrow> setopt ?c ''POSTFIELDS'' [] b ?w7"
    have 8: "env ?w8 = env w6" "held k ?w8 = held k w6" by (simp_all split: option.split)
    have w': "w' = snd (clean_up status ?c l q w6) \<or> w' = snd (clean_up status ?c l q (snd (snd (curl_perform net f ?c s' ?w8))))"
      using False assms(1) 2 6 by (auto simp: curl_request_def case_prod_beta Let_def opts_def split: if_splits)
    from frame_build_headers [OF 2, of k] frame_ssl_setup [OF 6, of k] 0 8 frame_perform [OF assms(2), of net ?c s' ?w8 k]
    have "env (snd (snd (curl_perform net f ?c s' ?w8))) = env w" "env w6 = env w"
      "held k (snd (snd (curl_perform net f ?c s' ?w8))) = held k w6"
      "held k w6 = held k w + (if k = Modules then 0 else 1) + (if k = Modules \<and> aq_module q \<noteq> 0 then 1 else 0)"
      by simp_all
    with w' show ?thesis by (cases k) auto
  qed
qed

text \<open>C36. Whatever it returns, a request has given back the lock and libcurl as often as it took them, and the module of
  the secure element.\<close>

theorem http_requests_give_back:
  assumes "res \<in> {os_http_get net url hs p status ssl w, os_http_post net url hs content p status ssl w,
      os_http_put net url hs content p status ssl w, os_http_delete net url hs p status ssl w,
      os_http_get_stream net url hs status p ssl w}"
    and "res = Ret (r, resp, st, ssl', w')"
  shows "held Lock w' = held Lock w \<and> held Library w' = held Library w \<and> held Modules w' = held Modules w"
proof -
  have "held k w' = held k w" for k
    using assms by (auto simp: os_http_get_def os_http_post_def os_http_put_def os_http_delete_def os_http_get_stream_def
        refuse_def dest!: sym [of "Ret _"] dest: request_gives_back split: option.splits if_splits)
  then show ?thesis by simp
qed

subsection \<open>What a request returns\<close>

lemma request_ok:
  assumes "curl_request net f verb url hs content status ssl w = Ret (S_OK, resp, st, ssl', w')"
  shows "\<exists>c s1 w8 w9. curl_perform net f c s1 w8 = (CURLE_OK, resp, w9) \<and> env w8 = env w"
proof -
  let ?i = "lib ''curl_easy_init'' [] [] (libu ''curl_global_init'' [] [] (libu ''mutex_lock'' [] [] w))"
  let ?c = "fst ?i"
  define opts where "opts = verb @ [(''FOLLOWLOCATION'', [1], []), (''WRITEFUNCTION'', [], []), (''WRITEDATA'', [], [])]"
  have c: "?c \<noteq> 0" using assms by (auto simp: curl_request_def case_prod_beta Let_def E_NOT_SUPPORTED_def S_OK_def)
  from c assms obtain l w2 where 2: "build_headers ?c hs (snd ?i) = Ret (l, w2)"
    by (auto simp: curl_request_def case_prod_beta Let_def obind_eq_Ret)
  let ?w5 = "verify_options ?c ssl (fold (\<lambda>(f, ns, bs). setopt ?c f ns bs) opts (setopt ?c ''URL'' [] url w2))"
  from c assms 2 obtain r' q s' w6 where 6: "ssl_setup ssl ?w5 = Ret (r', q, s', w6)"
    by (auto simp: curl_request_def case_prod_beta Let_def obind_eq_Ret opts_def)
  let ?w7 = "if s' = None then w6 else setopt ?c ''SSL_CTX_DATA'' [] [] (setopt ?c ''SSL_CTX_FUNCTION'' [] [] w6)"
  let ?w8 = "case content of None \<Rightarrow> ?w7 | Some b \<Rightarrow> setopt ?c ''POSTFIELDS'' [] b ?w7"
  have "fst (curl_perform net f ?c s' ?w8) = CURLE_OK \<and> fst (snd (curl_perform net f ?c s' ?w8)) = resp"
    using c assms 2 6 by (auto simp: curl_request_def case_prod_beta Let_def opts_def E_HTTP_ERROR_def S_OK_def split: if_splits)
  moreover have "env ?w8 = env w"
    using frame_build_headers [OF 2, of Lock] frame_ssl_setup [OF 6, of Lock] by (simp split: option.split)
  ultimately show ?thesis by (metis prod.collapse)
qed

lemma perform_ok:
  assumes "curl_perform net response_callback c s w = (CURLE_OK, resp, w')" and "memory_works (env w)"
  shows "\<exists>h tls blocks. net h = (tls, blocks, CURLE_OK) \<and> resp = (if blocks = [] then None else Some (concat (map c_str blocks)))"
proof -
  let ?w1 = "libu ''curl_easy_perform'' [c] [] w"
  obtain tls blocks result where n: "net (hist ?w1) = (tls, blocks, result)" by (metis prod_cases3)
  define a where "a = (case s of
      Some s \<Rightarrow> if tls then let (ctx, w2) = lib ''SSL_CTX_new'' [] [] ?w1 in ssl_ctx_callback ctx s w2 else (CURLE_OK, ?w1)
    | None \<Rightarrow> (CURLE_OK, ?w1))"
  have e: "env (snd a) = env w"
    by (auto simp: a_def case_prod_beta Let_def split: option.split)
  obtain w3 where d: "deliver response_callback blocks None (snd a)
      = (True, if blocks = [] then None else Some (concat (map c_str blocks)), w3)"
    using deliver_response [of "snd a" blocks] assms(2) e by auto
  have p: "curl_perform net response_callback c s w = (let (c, w2) = a in
      if c \<noteq> CURLE_OK then (c, None, w2)
      else let (ok, response, w3) = deliver response_callback blocks None w2
           in (if ok then result else CURLE_WRITE_ERROR, response, w3))"
    unfolding curl_perform_def a_def by (simp add: n Let_def)
  have "curl_perform net response_callback c s w = (if fst a \<noteq> CURLE_OK then (fst a, None, snd a)
      else (result, if blocks = [] then None else Some (concat (map c_str blocks)), w3))"
    unfolding p by (cases a) (use d in simp)
  with assms(1) n show ?thesis by (fastforce split: if_splits)
qed

lemma c_str_text: "0 \<notin> set b \<Longrightarrow> c_str b = b"
  by (simp add: c_str_def takeWhile_eq_all_conv) blast

text \<open>C37. When a request succeeds and memory does not run out, its response is the body, however it was cut into blocks, as
  long as it has no NUL; of each block that has one, the rest is lost. If no block arrived the response is null.\<close>

theorem response_is_the_body:
  assumes "res \<in> {os_http_get net (Some url) hs True status ssl w, os_http_post net (Some url) hs content True status ssl w,
      os_http_put net (Some url) hs content True status ssl w, os_http_delete net (Some url) hs True status ssl w}"
    and "res = Ret (S_OK, resp, st, ssl', w')" and "memory_works (env w)"
  shows "\<exists>h tls blocks. net h = (tls, blocks, CURLE_OK)
    \<and> resp = (if blocks = [] then None else Some (concat (map c_str blocks)))
    \<and> (0 \<notin> set (concat blocks) \<longrightarrow> blocks \<noteq> [] \<longrightarrow> resp = Some (concat blocks))"
proof -
  obtain verb ct where "curl_request net response_callback verb url hs ct status ssl w = Ret (S_OK, resp, st, ssl', w')"
    using assms(1,2) by (auto simp: os_http_get_def os_http_post_def os_http_put_def os_http_delete_def)
  from request_ok [OF this] obtain c s1 w8 w9
    where "curl_perform net response_callback c s1 w8 = (CURLE_OK, resp, w9)" "env w8 = env w" by blast
  from perform_ok [OF this(1)] this(2) assms(3) obtain h tls blocks
    where b: "net h = (tls, blocks, CURLE_OK)" "resp = (if blocks = [] then None else Some (concat (map c_str blocks)))" by auto
  have "map c_str blocks = blocks" if "0 \<notin> set (concat blocks)"
    using that by (induction blocks) (auto simp: c_str_text)
  with b show ?thesis by (intro exI [of _ h] exI [of _ tls] exI [of _ blocks]) auto
qed

subsection \<open>The buffers of the TLS context\<close>

definition bio_delta :: "xcall \<Rightarrow> int" where
  "bio_delta c = (case c of
      SysCall f ns bs \<Rightarrow> if f = ''BIO_new'' then 1 else if f = ''BIO_free'' then -1 else 0
    | _ \<Rightarrow> 0)"

definition bios :: "world \<Rightarrow> int" where
  "bios w = sum_list (map bio_delta (hist w))"

lemma bios_lib [simp]:
  "bios (snd (lib f ns bs w)) = bios w + bio_delta (SysCall f ns bs)"
  "bios (libu f ns bs w) = bios w + bio_delta (SysCall f ns bs)"
  by (simp_all add: bios_def lib_def libu_def case_prod_beta Let_def xc_def xcu_def)

lemma bio_delta_simps [simp]: "bio_delta (SysCall f ns bs) = (if f = ''BIO_new'' then 1 else if f = ''BIO_free'' then -1 else 0)"
  by (simp add: bio_delta_def)

lemma bios_loads [simp]:
  "bios (snd (snd (load_cert ctx d w))) = bios w" "bios (snd (snd (load_key ctx d w))) = bios w"
  by (simp_all add: load_cert_def load_key_def bio_of_def case_prod_beta Let_def)

text \<open>Was there a certificate, but no store to put it in?\<close>

definition no_store :: "(xcall list \<Rightarrow> xcall \<Rightarrow> answer) \<Rightarrow> bool" where
  "no_store e \<longleftrightarrow> (\<exists>h b. retv (e h (SysCall ''PEM_read_bio_X509'' b [])) \<noteq> 0)
     \<and> (\<exists>h c. retv (e h (SysCall ''SSL_CTX_get_cert_store'' c [])) = 0)"

lemma bios_load_ca: "bios (snd (snd (load_ca ctx d w))) = bios w \<or>
   (bios (snd (snd (load_ca ctx d w))) = bios w - 1 \<and> fst (load_ca ctx d w) = CURLE_SSL_CERTPROBLEM \<and> no_store (env w))"
  by (auto simp: load_ca_def bio_of_def case_prod_beta Let_def no_store_def) (auto simp: lib_def case_prod_beta Let_def)

text \<open>Setting up the TLS context frees every buffer it made exactly once, except when there is a certificate for the
  store and the store cannot be had: then it frees the buffer twice.\<close>

theorem ssl_context_buffers:
  "bios (snd (ssl_ctx_callback ctx s w)) = bios w
    \<or> bios (snd (ssl_ctx_callback ctx s w)) = bios w - 1 \<and> no_store (env w) \<and> fst (ssl_ctx_callback ctx s w) \<noteq> CURLE_OK"
proof -
  obtain c1 x1 w1 where 1: "(if given (ca_cert s) \<and> verify_required s then load_ca ctx (ca_cert s) w else (CURLE_OK, 0, w)) = (c1, x1, w1)"
    by (metis prod_cases3)
  obtain c2 x2 w2 where 2: "(if given (client_cert s) then load_cert ctx (client_cert s) w1 else (CURLE_OK, 0, w1)) = (c2, x2, w2)"
    by (metis prod_cases3)
  obtain c3 k w3 where 3: "(if given (client_key s) then load_key ctx (client_key s) w2 else (CURLE_OK, 0, w2)) = (c3, k, w3)"
    by (metis prod_cases3)
  have b1: "bios w1 = bios w \<or> (bios w1 = bios w - 1 \<and> c1 = CURLE_SSL_CERTPROBLEM \<and> no_store (env w))"
    using bios_load_ca [of ctx "ca_cert s" w] 1 by (auto split: if_splits)
  have b2: "bios w2 = bios w1" using arg_cong [OF 2, of "\<lambda>x. bios (snd (snd x))"] by (simp split: if_splits)
  have b3: "bios w3 = bios w2" using arg_cong [OF 3, of "\<lambda>x. bios (snd (snd x))"] by (simp split: if_splits)
  have ne: "CURLE_SSL_CERTPROBLEM \<noteq> CURLE_OK" by (simp add: CURLE_OK_def CURLE_SSL_CERTPROBLEM_def)
  show ?thesis
    using b1 b2 b3 ne unfolding ssl_ctx_callback_def 1 Let_def split_conv 2 3 by auto
qed

subsection \<open>A concrete request\<close>

definition lib_env :: "xcall list \<Rightarrow> xcall \<Rightarrow> answer" where
  "lib_env h c = (case c of
      SysCall f ns bs \<Rightarrow> \<lparr>retv = (if f = ''curl_easy_init'' then 7 else 0), errno = 0, oval = 96, outb = bytes_of f\<rparr>
    | Realloc n \<Rightarrow> \<lparr>retv = 64, errno = 0, oval = 0, outb = []\<rparr>
    | _ \<Rightarrow> good_env h c)"

definition lib_world :: world where
  "lib_world = \<lparr>hist = [], env = lib_env\<rparr>"

definition secure_config :: artik_ssl_config where
  "secure_config = (let d = \<lparr>sd_at = 0, sd_text = [], sd_len = 0\<rparr>
     in \<lparr>use_se = True, ca_cert = d, client_cert = d, client_key = d, verify_cert = SSL_VERIFY_REQUIRED\<rparr>)"

definition two_blocks :: net where
  "two_blocks h = (False, [bytes_of ''AR'', bytes_of ''TIK''], CURLE_OK)"

lemma lib_env_simps [simp]:
  "lib_env h (SysCall f ns bs) = \<lparr>retv = (if f = ''curl_easy_init'' then 7 else 0), errno = 0, oval = 96, outb = bytes_of f\<rparr>"
  "lib_env h (Malloc n) = \<lparr>retv = 64, errno = 0, oval = 0, outb = []\<rparr>"
  "lib_env h (Realloc n) = \<lparr>retv = 64, errno = 0, oval = 0, outb = []\<rparr>"
  "lib_env h (ModRequest m) = \<lparr>retv = 80, errno = 0, oval = 0, outb = []\<rparr>"
  by (simp_all add: lib_env_def)

lemma sample_request:
  "\<exists>st ssl' w'. os_http_get two_blocks (Some (bytes_of ''http://artik.io'')) None True True (Some secure_config) lib_world
     = Ret (S_OK, Some (bytes_of ''ARTIK''), st, ssl', w')"
  by (simp add: os_http_get_def curl_request_def lib_def libu_def xc_def xcu_def setopt_def build_headers_def verify_options_def
      ssl_setup_def secure_element_def replace_data_def curl_perform_def two_blocks_def response_callback_def c_str_def
      clean_up_def secure_config_def lib_world_def nothing_def Let_def bytes_of_def CURLE_OK_def S_OK_def)

theorem http_requests_give_back_witness:
  "\<exists>st ssl' w'. os_http_get two_blocks (Some (bytes_of ''http://artik.io'')) None True True (Some secure_config) lib_world
     = Ret (S_OK, Some (bytes_of ''ARTIK''), st, ssl', w') \<and> held Lock w' = 0 \<and> held Modules w' = 0"
proof -
  obtain st ssl' w' where r: "os_http_get two_blocks (Some (bytes_of ''http://artik.io'')) None True True (Some secure_config) lib_world
     = Ret (S_OK, Some (bytes_of ''ARTIK''), st, ssl', w')" using sample_request by blast
  have "held k lib_world = 0" for k by (simp add: held_def lib_world_def)
  with http_requests_give_back [OF insertI1 r] r show ?thesis by auto
qed

theorem response_is_the_body_witness:
  "\<exists>h tls blocks. two_blocks h = (tls, blocks, CURLE_OK) \<and> Some (bytes_of ''ARTIK'') = Some (concat blocks)"
proof -
  obtain st ssl' w' where r: "os_http_get two_blocks (Some (bytes_of ''http://artik.io'')) None True True (Some secure_config) lib_world
     = Ret (S_OK, Some (bytes_of ''ARTIK''), st, ssl', w')" using sample_request by blast
  have "memory_works (env lib_world)" by (simp add: memory_works_def lib_world_def)
  from response_is_the_body [OF insertI1 r this] show ?thesis by (auto simp: two_blocks_def bytes_of_def)
qed

end
