(* ===== verification/TizenHttp.thy ===== *)
theory TizenHttp
  imports HttpLinux Webclient
begin

section \<open>HTTP requests on TizenRT (\<^verbatim>\<open>tinyara_http.c\<close>)\<close>

text \<open>
  A streamed request is a call of \<open>wget\<close> (Webclient), the others are calls of the HTTP client of TizenRT, which is not
  in the repository. Functions of mbed TLS and of that client are \<open>SysCall\<close>s with their numbers; reading a member of
  a structure of mbed TLS is one too. The asynchronous variant does not compile (it names a label and a variable that do
  not exist) and the variant with a thread is not called; both are left out. \<open>tls\<close> is the build option
  \<^verbatim>\<open>CONFIG_NET_SECURITY_TLS\<close>.
\<close>

subsection \<open>Randomness from the secure element\<close>

text \<open>The callback for the random numbers of TLS: its result, and the bytes stored, if any.\<close>

definition see_generate_random_client :: "bool \<Rightarrow> nat \<Rightarrow> world \<Rightarrow> (int \<times> bytes option \<times> world) outcome" where
  "see_generate_random_client data len w =
     (if \<not> data \<or> len = 0 then Ret (-1, None, w)
      else let (m, w1) = xc (ModRequest ''security'') w; p = nat (retv m)
           in if p = 0 then Ub NullDeref
              else let (h, w2) = xc (SysCall ''security request'' [int p] []) w1
                   in if retv h \<noteq> S_OK then Ub Uninitialised
                      else let (r, w3) = xc (SysCall ''security get_random_bytes'' [int p, oval h, int len] []) w2;
                               w4 = libu ''security release'' [int p, oval h] [] w3
                           in Ret (0, if retv r = S_OK then Some (take len (outb r)) else None, xcu (ModRelease p) w4))"

subsection \<open>Setting up TLS\<close>

text \<open>
  The blocks of a configuration, 0 where null; \<open>hs_block\<close> is the structure itself. \<open>hs_ssl\<close> points to three more
  pointers, of which only \<open>hs_tls_conf\<close> is ever set.
\<close>

record http_ssl_config =
  hs_block :: addr
  hs_ssl :: addr
  hs_tls_conf :: addr
  hs_entropy :: addr
  hs_ctr_drbg :: addr
  hs_cert :: addr
  hs_pkey :: addr

definition free_with :: "string \<Rightarrow> addr \<Rightarrow> world \<Rightarrow> world" where
  "free_with f p w = (if p \<noteq> 0 then xcu (Free p) (libu f [int p] [] w) else w)"

definition release_http_ssl_config :: "http_ssl_config \<Rightarrow> world \<Rightarrow> world outcome" where
  "release_http_ssl_config s w =
     (let w1 = free_with ''mbedtls_ctr_drbg_free'' (hs_ctr_drbg s) w; w2 = free_with ''mbedtls_entropy_free'' (hs_entropy s) w1;
          w3 = free_with ''mbedtls_pk_free'' (hs_pkey s) w2; w4 = free_with ''mbedtls_x509_crt_free'' (hs_cert s) w3
      in if hs_ssl s = 0 then Ub NullDeref
         else Ret (xcu (Free (hs_ssl s)) (if hs_tls_conf s \<noteq> 0 then xcu (Free (hs_tls_conf s)) w4 else w4)))"

text \<open>A step of the set-up returns 0 or the error with which the set-up ends. Steps run up to the first that fails.\<close>

type_synonym ssl_step = "http_ssl_config \<Rightarrow> world \<Rightarrow> int \<times> http_ssl_config \<times> world"

fun ssl_steps :: "ssl_step list \<Rightarrow> ssl_step" where
  "ssl_steps [] s w = (S_OK, s, w)"
| "ssl_steps (f # fs) s w =
     (let (r, s1, w1) = f s w in if r \<noteq> S_OK then (r, s1, w1) else ssl_steps fs s1 w1)"

definition ssl_alloc :: "string \<Rightarrow> (addr \<Rightarrow> http_ssl_config \<Rightarrow> http_ssl_config) \<Rightarrow> ssl_step" where
  "ssl_alloc ty upd s w =
     (let (a, w1) = xc (MallocOf ty) w; p = nat (retv a) in (if p = 0 then E_NO_MEM else S_OK, upd p s, w1))"

text \<open>A call of mbed TLS that has to return 0; one whose result is not used.\<close>

definition ssl_call :: "string \<Rightarrow> (http_ssl_config \<Rightarrow> int list) \<Rightarrow> bytes \<Rightarrow> ssl_step" where
  "ssl_call f ns bs s w = (let (r, w1) = lib f (ns s) bs w in (if r \<noteq> 0 then E_BAD_ARGS else S_OK, s, w1))"

definition ssl_do :: "string \<Rightarrow> (http_ssl_config \<Rightarrow> int list) \<Rightarrow> ssl_step" where
  "ssl_do f ns s w = (S_OK, s, libu f (ns s) [] w)"

abbreviation (input) "conf_of s \<equiv> int (hs_tls_conf s)"
abbreviation (input) "cert_of s \<equiv> int (hs_cert s)"
abbreviation (input) "pkey_of s \<equiv> int (hs_pkey s)"
abbreviation (input) "drbg_of s \<equiv> int (hs_ctr_drbg s)"
abbreviation (input) "entropy_of s \<equiv> int (hs_entropy s)"

definition init_blocks :: "ssl_step list" where
  "init_blocks =
     [ssl_alloc ''http_client_ssl_config_t'' (\<lambda>p s. s\<lparr>hs_ssl := p\<rparr>), ssl_alloc ''mbedtls_ssl_config'' (\<lambda>p s. s\<lparr>hs_tls_conf := p\<rparr>),
      ssl_alloc ''mbedtls_entropy_context'' (\<lambda>p s. s\<lparr>hs_entropy := p\<rparr>),
      ssl_alloc ''mbedtls_ctr_drbg_context'' (\<lambda>p s. s\<lparr>hs_ctr_drbg := p\<rparr>)]"

definition init_defaults :: "ssl_step list" where
  "init_defaults =
     [ssl_do ''mbedtls_ssl_config_init'' (\<lambda>s. [conf_of s]), ssl_do ''mbedtls_ssl_config_defaults'' (\<lambda>s. [conf_of s]),
      ssl_do ''mbedtls_entropy_init'' (\<lambda>s. [entropy_of s]), ssl_do ''mbedtls_ctr_drbg_init'' (\<lambda>s. [drbg_of s]),
      ssl_call ''mbedtls_ctr_drbg_seed'' (\<lambda>s. [drbg_of s, entropy_of s]) [],
      ssl_call ''mbedtls_ssl_config_defaults'' (\<lambda>s. [conf_of s]) [],
      ssl_do ''mbedtls_ssl_conf_dbg'' (\<lambda>s. [conf_of s]), ssl_do ''mbedtls_ssl_conf_rng'' (\<lambda>s. [conf_of s, drbg_of s])]"

definition alloc_identity :: "ssl_step list" where
  "alloc_identity = [ssl_alloc ''mbedtls_x509_crt'' (\<lambda>p s. s\<lparr>hs_cert := p\<rparr>), ssl_alloc ''mbedtls_pk_context'' (\<lambda>p s. s\<lparr>hs_pkey := p\<rparr>)]"

definition init_identity :: "ssl_step list" where
  "init_identity = [ssl_do ''mbedtls_x509_crt_init'' (\<lambda>s. [cert_of s]), ssl_do ''mbedtls_pk_init'' (\<lambda>s. [pkey_of s])]"

text \<open>The secure element. Getting its certificates: where they are and what they say.\<close>

definition se_certificates :: "addr \<Rightarrow> world \<Rightarrow> int \<times> (addr \<times> bytes) \<times> (addr \<times> bytes) \<times> world" where
  "se_certificates m w =
     (let none = (0, []); (h, w1) = xc (SysCall ''security request'' [int m] []) w
      in if retv h \<noteq> S_OK then (E_NOT_SUPPORTED, none, none, w1)
         else let (c, w2) = xc (SysCall ''security get_certificate'' [int m, oval h] []) w1
              in if retv c \<noteq> S_OK \<or> nat (oval c) = 0 then (E_ACCESS_DENIED, none, none, w2)
                 else let (r, w3) = xc (SysCall ''security get_root_ca'' [int m, oval h] []) w2
                      in if retv r \<noteq> S_OK \<or> nat (oval r) = 0 then (E_ACCESS_DENIED, (nat (oval c), outb c), none, w3)
                         else (S_OK, (nat (oval c), outb c), (nat (oval r), outb r),
                               xcu (ModRelease m) (libu ''security release'' [int m, oval h] [] w3)))"

definition se_install :: "bytes \<Rightarrow> bytes \<Rightarrow> ssl_step list" where
  "se_install cert root_ca =
     ssl_do ''mbedtls_ssl_conf_rng'' (\<lambda>s. [conf_of s, drbg_of s, 1]) # init_identity @
     [ssl_call ''mbedtls_x509_crt_parse'' (\<lambda>s. [cert_of s, int (length cert) + 1]) cert,
      (\<lambda>s w. let (i, w1) = lib ''mbedtls_pk_info_from_type'' [] [] w in (if i = 0 then E_BAD_ARGS else S_OK, s, w1)),
      ssl_call ''mbedtls_pk_setup'' (\<lambda>s. [pkey_of s]) [],
      ssl_do ''set ecdsa group and key index'' (\<lambda>s. [pkey_of s]),
      ssl_call ''mbedtls_ssl_conf_own_cert'' (\<lambda>s. [conf_of s, cert_of s, pkey_of s]) [],
      ssl_call ''mbedtls_x509_crt_parse'' (\<lambda>s. [cert_of s, int (length root_ca) + 1]) root_ca,
      (\<lambda>s w. let (n, w1) = lib ''next of'' [cert_of s] [] w in ssl_do ''mbedtls_ssl_conf_ca_chain'' (\<lambda>s. [conf_of s, n]) s w1)]"

text \<open>Both strings are freed at the end, whether or not the installation failed.\<close>

definition se_identity :: ssl_step where
  "se_identity s w =
     (let (a, w1) = xc (ModRequest ''security'') w; m = nat (retv a)
      in if m = 0 then (E_NOT_SUPPORTED, s, w1)
         else let (r, s1, w2) = ssl_steps alloc_identity s w1
              in if r \<noteq> S_OK then (r, s1, w2)
                 else let (r, c, k, w3) = se_certificates m w2
                      in if r \<noteq> S_OK then (r, s1, w3)
                         else let (r, s2, w4) = ssl_steps (se_install (snd c) (snd k)) s1 w3
                              in (r, s2, xcu (Free (fst k)) (xcu (Free (fst c)) w4)))"

text \<open>The certificates of the configuration that was passed.\<close>

definition parse_data :: "string \<Rightarrow> (http_ssl_config \<Rightarrow> int) \<Rightarrow> ssl_data \<Rightarrow> ssl_step" where
  "parse_data f p d = ssl_call f (\<lambda>s. [p s, int (sd_len d)]) (sd_text d)"

definition client_identity :: "artik_ssl_config \<Rightarrow> ssl_step list" where
  "client_identity a =
     (if sd_at (client_cert a) \<noteq> 0 \<and> sd_at (client_key a) \<noteq> 0
      then alloc_identity @ init_identity @
           [parse_data ''mbedtls_x509_crt_parse'' (\<lambda>s. cert_of s) (client_cert a),
            parse_data ''mbedtls_pk_parse_key'' (\<lambda>s. pkey_of s) (client_key a),
            ssl_call ''mbedtls_ssl_conf_own_cert'' (\<lambda>s. [conf_of s, cert_of s, pkey_of s]) []]
      else [])"

definition root_ca :: "artik_ssl_config \<Rightarrow> ssl_step list" where
  "root_ca a =
     (if sd_at (ca_cert a) \<noteq> 0
      then [(\<lambda>s w. if hs_cert s = 0 then ssl_alloc ''mbedtls_x509_crt'' (\<lambda>p s. s\<lparr>hs_cert := p\<rparr>) s w else (S_OK, s, w)),
            parse_data ''mbedtls_x509_crt_parse'' (\<lambda>s. cert_of s) (ca_cert a),
            (\<lambda>s w. let (n, w1) = lib ''next of'' [cert_of s] [] w
                   in ssl_do ''mbedtls_ssl_conf_ca_chain'' (\<lambda>s. [conf_of s, if n \<noteq> 0 then n else cert_of s]) s w1)]
      else [])"

definition authmode :: "artik_ssl_verify \<Rightarrow> int" where
  "authmode v = (case v of SSL_VERIFY_NONE \<Rightarrow> 0 | SSL_VERIFY_OPTIONAL \<Rightarrow> 1 | SSL_VERIFY_REQUIRED \<Rightarrow> 2)"

definition init_steps :: "artik_ssl_config \<Rightarrow> ssl_step list" where
  "init_steps a = init_blocks @ init_defaults @ (if use_se a then [se_identity] else client_identity a @ root_ca a) @
     [ssl_do ''mbedtls_ssl_conf_authmode'' (\<lambda>s. [conf_of s, authmode (verify_cert a)])]"

text \<open>What the caller gets: nothing, a configuration, or the address of one that was freed.\<close>

datatype ssl_pointer = NoConfig | Config http_ssl_config | FreedConfig

definition zero_ssl :: "addr \<Rightarrow> http_ssl_config" where
  "zero_ssl p = \<lparr>hs_block = p, hs_ssl = 0, hs_tls_conf = 0, hs_entropy = 0, hs_ctr_drbg = 0, hs_cert = 0, hs_pkey = 0\<rparr>"

definition init_client_ssl_config :: "artik_ssl_config \<Rightarrow> world \<Rightarrow> (artik_error \<times> ssl_pointer \<times> world) outcome" where
  "init_client_ssl_config a w =
     (let (b, w1) = xc (MallocOf ''http_ssl_config_t'') w; p = nat (retv b)
      in if p = 0 then Ret (E_NO_MEM, NoConfig, w1)
         else let (r, s, w2) = ssl_steps (init_steps a) (zero_ssl p) w1
              in if r = S_OK then Ret (S_OK, Config s, w2)
                 else obind (release_http_ssl_config s w2) (\<lambda>w3. Ret (r, FreedConfig, xcu (Free p) w3)))"

subsection \<open>Requests\<close>

text \<open>The end of a request. A configuration that was freed is read again.\<close>

definition ssl_exit :: "ssl_pointer \<Rightarrow> world \<Rightarrow> world outcome" where
  "ssl_exit p w = (case p of
      NoConfig \<Rightarrow> Ret w
    | FreedConfig \<Rightarrow> Ub UseAfterFree
    | Config s \<Rightarrow> obind (release_http_ssl_config s w) (\<lambda>w1. Ret (xcu (Free (hs_block s)) w1)))"

definition ssl_for :: "bool \<Rightarrow> artik_ssl_config option \<Rightarrow> world \<Rightarrow> (artik_error \<times> ssl_pointer \<times> world) outcome" where
  "ssl_for tls ssl w =
     (case ssl of
        None \<Rightarrow> Ret (S_OK, NoConfig, w)
      | Some a \<Rightarrow> if tls then init_client_ssl_config a w else Ret (E_NOT_SUPPORTED, NoConfig, w))"

text \<open>The streamed request. Without TLS the settings are read through a null pointer.\<close>

definition http_method_stream :: "url_parser \<Rightarrow> string \<Rightarrow> bool \<Rightarrow> bytes \<Rightarrow> artik_ssl_config option \<Rightarrow> world
    \<Rightarrow> (artik_error \<times> world) run" where
  "http_method_stream purl agent tls url ssl w =
     rbind (Some (ssl_for tls ssl w)) (\<lambda>(r, p, w1).
       let leave = (\<lambda>r w. rbind (Some (ssl_exit p w)) (\<lambda>w. ret (r, w)))
       in if r \<noteq> S_OK then leave r w1
          else let (b, w2) = xc (Malloc 4096) w1; buf = nat (retv b)
               in if buf = 0 then leave E_NO_MEM w2
                  else if p = NoConfig then ub NullDeref
                  else rbind (wget purl agent url 4096 (ssl \<noteq> None) w2) (\<lambda>(n, w3).
                         leave (if n < 0 then E_HTTP_ERROR else S_OK) (xcu (Free buf) w3)))"

text \<open>The other requests: the error, the response, the status. A list of headers is \<open>None\<close> if its pointer is null.\<close>

datatype wget_method = WGET_MODE_GET | WGET_MODE_POST | WGET_MODE_PUT | WGET_MODE_DELETE

definition method_name :: "wget_method \<Rightarrow> string" where
  "method_name m = (case m of WGET_MODE_GET \<Rightarrow> ''GET'' | WGET_MODE_POST \<Rightarrow> ''POST'' | WGET_MODE_PUT \<Rightarrow> ''PUT''
     | WGET_MODE_DELETE \<Rightarrow> ''DELETE'')"

fun add_headers :: "(bytes \<times> bytes) list \<Rightarrow> world \<Rightarrow> world" where
  "add_headers [] w = w"
| "add_headers ((name, data) # hs) w = add_headers hs (libu ''http_keyvalue_list_add'' [] (name @ 0 # data) w)"

definition send_request :: "wget_method \<Rightarrow> bytes \<Rightarrow> bytes option \<Rightarrow> ssl_pointer \<Rightarrow> world
    \<Rightarrow> artik_error \<times> bytes option \<times> int option \<times> world" where
  "send_request m url content p w =
     (let (i, w1) = lib ''http_client_response_init'' [] [] w
      in if i < 0 then (E_HTTP_ERROR, None, None, w1)
         else let conf = (case p of Config s \<Rightarrow> int (hs_ssl s) | _ \<Rightarrow> 0);
                  (a, w2) = xc (SysCall ''http_client_send_request'' [conf]
                              (bytes_of (method_name m) @ 0 # url @ (case content of None \<Rightarrow> [] | Some b \<Rightarrow> 0 # b))) w1
              in if retv a < 0 \<or> outb a = [] then (E_HTTP_ERROR, None, None, libu ''http_client_response_release'' [] [] w2)
                 else let (b, w3) = xc (Malloc (length (outb a) + 1)) w2
                      in if nat (retv b) = 0 then (E_NO_MEM, None, None, w3)
                         else (S_OK, Some (outb a), Some (oval a), libu ''http_client_response_release'' [] [] w3))"

definition http_method :: "bool \<Rightarrow> wget_method \<Rightarrow> bytes \<Rightarrow> (bytes \<times> bytes) list option \<Rightarrow> bytes option
    \<Rightarrow> artik_ssl_config option \<Rightarrow> world \<Rightarrow> (artik_error \<times> bytes option \<times> int option \<times> world) outcome" where
  "http_method tls m url headers content ssl w =
     (let (i, w1) = lib ''http_keyvalue_list_init'' [] [] w
      in if i < 0 then Ret (E_NO_MEM, None, None, w1)
         else case headers of
           None \<Rightarrow> Ub NullDeref
         | Some hs \<Rightarrow>
             obind (ssl_for tls ssl (add_headers hs w1)) (\<lambda>(r, p, w2).
               let (r, resp, st, w3) = (if r \<noteq> S_OK then (r, None, None, w2) else send_request m url content p w2);
                   w4 = libu ''http_keyvalue_list_release'' [] [] w3
               in obind (ssl_exit p w4) (\<lambda>w5. Ret (r, resp, st, w5))))"

definition tizen_http_get_stream :: "url_parser \<Rightarrow> string \<Rightarrow> bool \<Rightarrow> bytes \<Rightarrow> artik_ssl_config option \<Rightarrow> world
    \<Rightarrow> (artik_error \<times> world) run" where
  "tizen_http_get_stream purl agent tls url ssl w = http_method_stream purl agent tls url ssl w"

definition tizen_http_get :: "bool \<Rightarrow> bytes \<Rightarrow> (bytes \<times> bytes) list option \<Rightarrow> artik_ssl_config option \<Rightarrow> world
    \<Rightarrow> (artik_error \<times> bytes option \<times> int option \<times> world) outcome" where
  "tizen_http_get tls url headers ssl w = http_method tls WGET_MODE_GET url headers None ssl w"

definition tizen_http_post :: "bool \<Rightarrow> bytes \<Rightarrow> (bytes \<times> bytes) list option \<Rightarrow> bytes option \<Rightarrow> artik_ssl_config option
    \<Rightarrow> world \<Rightarrow> (artik_error \<times> bytes option \<times> int option \<times> world) outcome" where
  "tizen_http_post tls url headers content ssl w = http_method tls WGET_MODE_POST url headers content ssl w"

definition tizen_http_put :: "bool \<Rightarrow> bytes \<Rightarrow> (bytes \<times> bytes) list option \<Rightarrow> bytes option \<Rightarrow> artik_ssl_config option
    \<Rightarrow> world \<Rightarrow> (artik_error \<times> bytes option \<times> int option \<times> world) outcome" where
  "tizen_http_put tls url headers content ssl w = http_method tls WGET_MODE_PUT url headers content ssl w"

definition tizen_http_delete :: "bool \<Rightarrow> bytes \<Rightarrow> (bytes \<times> bytes) list option \<Rightarrow> artik_ssl_config option \<Rightarrow> world
    \<Rightarrow> (artik_error \<times> bytes option \<times> int option \<times> world) outcome" where
  "tizen_http_delete tls url headers ssl w = http_method tls WGET_MODE_DELETE url headers None ssl w"

end
