(* ===== verification/TizenHttpProps.thy ===== *)
theory TizenHttpProps
  imports TizenHttp
begin

section \<open>HTTP requests on TizenRT: errors of the TLS set-up, and memory\<close>

subsection \<open>What a set-up that fails leads to\<close>

lemma init_outcome:
  assumes "init_client_ssl_config a w = Ret (r, p, w1)"
  shows "(\<exists>s. r = S_OK \<and> p = Config s) \<or> (r \<noteq> S_OK \<and> p = FreedConfig)
    \<or> (r = E_NO_MEM \<and> p = NoConfig \<and> nat (retv (env w (hist w) (MallocOf ''http_ssl_config_t''))) = 0)"
  using assms by (auto simp: init_client_ssl_config_def obind_eq_Ret walk_simps split: if_splits)

lemma failed_init_is_fatal:
  assumes "init_client_ssl_config a w0 = Ret (r0, p, w1)" and "r0 \<noteq> S_OK"
    and "0 < retv (env w0 (hist w0) (MallocOf ''http_ssl_config_t''))"
  shows "ssl_for True (Some a) w0 = Ret (r0, FreedConfig, w1)"
  using assms init_outcome [OF assms(1)] by (auto simp: ssl_for_def)

lemma http_method_fatal:
  assumes "ssl_for True (Some a) (add_headers hs (snd (lib ''http_keyvalue_list_init'' [] [] w))) = Ret (r0, FreedConfig, w1)"
    and "0 \<le> fst (lib ''http_keyvalue_list_init'' [] [] w)"
  shows "http_method True m url (Some hs) content (Some a) w = Ub UseAfterFree"
  using assms by (auto simp: http_method_def ssl_exit_def case_prod_beta Let_def)

text \<open>C38. Errors of the TLS set-up are never reported: when it fails after its first block was allocated, the set-up frees
  the configuration and the request then frees it again. A streamed request that does not use TLS is undefined as soon as
  it has its buffer, since it reads the TLS settings through a null pointer.\<close>

theorem tizen_http_tls_errors_are_fatal:
  assumes "init_client_ssl_config a w0 = Ret (r0, p, w1)" and "r0 \<noteq> S_OK"
    and "0 < retv (env w0 (hist w0) (MallocOf ''http_ssl_config_t''))"
  shows "(\<forall>w hs. 0 \<le> fst (lib ''http_keyvalue_list_init'' [] [] w) \<longrightarrow> w0 = add_headers hs (snd (lib ''http_keyvalue_list_init'' [] [] w))
         \<longrightarrow> tizen_http_get True url (Some hs) (Some a) w = Ub UseAfterFree
           \<and> tizen_http_post True url (Some hs) content (Some a) w = Ub UseAfterFree
           \<and> tizen_http_put True url (Some hs) content (Some a) w = Ub UseAfterFree
           \<and> tizen_http_delete True url (Some hs) (Some a) w = Ub UseAfterFree)
    \<and> tizen_http_get_stream purl agent True url (Some a) w0 = ub UseAfterFree
    \<and> (0 < retv (env w0 (hist w0) (Malloc 4096)) \<longrightarrow> tizen_http_get_stream purl agent tls url None w0 = ub NullDeref)"
proof (intro conjI allI impI)
  note f = failed_init_is_fatal [OF assms]
  show "tizen_http_get True url (Some hs) (Some a) w = Ub UseAfterFree" "tizen_http_post True url (Some hs) content (Some a) w = Ub UseAfterFree"
    "tizen_http_put True url (Some hs) content (Some a) w = Ub UseAfterFree" "tizen_http_delete True url (Some hs) (Some a) w = Ub UseAfterFree"
    if "w0 = add_headers hs (snd (lib ''http_keyvalue_list_init'' [] [] w))" "0 \<le> fst (lib ''http_keyvalue_list_init'' [] [] w)" for w hs
    using http_method_fatal [OF _ that(2)] f that(1)
    by (auto simp: tizen_http_get_def tizen_http_post_def tizen_http_put_def tizen_http_delete_def)
  show "tizen_http_get_stream purl agent True url (Some a) w0 = ub UseAfterFree"
    using assms(2) by (simp add: tizen_http_get_stream_def http_method_stream_def f rbind_def ssl_exit_def Let_def ub_def)
  show "tizen_http_get_stream purl agent tls url None w0 = ub NullDeref" if "0 < retv (env w0 (hist w0) (Malloc 4096))"
    using that by (simp add: tizen_http_get_stream_def http_method_stream_def ssl_for_def rbind_def case_prod_beta Let_def ub_def)
qed

text \<open>A system in which everything works, apart from the random number generator.\<close>

definition no_random_env :: "xcall list \<Rightarrow> xcall \<Rightarrow> answer" where
  "no_random_env h c = (case c of
      SysCall f ns bs \<Rightarrow> \<lparr>retv = (if f = ''mbedtls_ctr_drbg_seed'' then 1 else 0), errno = 0, oval = 0, outb = []\<rparr>
    | MallocOf t \<Rightarrow> \<lparr>retv = 64, errno = 0, oval = 0, outb = []\<rparr>
    | _ \<Rightarrow> good_env h c)"

definition plain_tls :: artik_ssl_config where
  "plain_tls = (let d = \<lparr>sd_at = 0, sd_text = [], sd_len = 0\<rparr>
     in \<lparr>use_se = False, ca_cert = d, client_cert = d, client_key = d, verify_cert = SSL_VERIFY_NONE\<rparr>)"

lemma no_random_simps [simp]:
  "no_random_env h (SysCall f ns bs) = \<lparr>retv = (if f = ''mbedtls_ctr_drbg_seed'' then 1 else 0), errno = 0, oval = 0, outb = []\<rparr>"
  "no_random_env h (MallocOf t) = \<lparr>retv = 64, errno = 0, oval = 0, outb = []\<rparr>"
  by (simp_all add: no_random_env_def)

lemma no_random_init:
  "\<exists>w1. init_client_ssl_config plain_tls \<lparr>hist = h, env = no_random_env\<rparr> = Ret (E_BAD_ARGS, FreedConfig, w1)"
  by (simp add: init_client_ssl_config_def init_steps_def init_blocks_def init_defaults_def ssl_alloc_def ssl_do_def ssl_call_def
      lib_def libu_def release_http_ssl_config_def free_with_def zero_ssl_def plain_tls_def xc_def xcu_def Let_def err_simps)

theorem tizen_http_tls_errors_are_fatal_witness:
  "tizen_http_get_stream (\<lambda>u c. (0, c)) ''artik'' True (bytes_of ''https://artik.io'') (Some plain_tls) \<lparr>hist = [], env = no_random_env\<rparr>
     = ub UseAfterFree"
proof -
  obtain w1 where i: "init_client_ssl_config plain_tls \<lparr>hist = [], env = no_random_env\<rparr> = Ret (E_BAD_ARGS, FreedConfig, w1)"
    using no_random_init by blast
  have "E_BAD_ARGS \<noteq> S_OK" by (simp add: err_simps)
  from tizen_http_tls_errors_are_fatal [OF i this] show ?thesis by simp
qed

subsection \<open>Memory\<close>

text \<open>How many blocks there are: allocated, or handed over by the security module, and not freed.\<close>

definition cost :: "(xcall list \<Rightarrow> xcall \<Rightarrow> answer) \<Rightarrow> xcall list \<Rightarrow> xcall \<Rightarrow> int" where
  "cost e h c = (case c of
      Malloc n \<Rightarrow> of_bool (nat (retv (e h c)) \<noteq> 0)
    | MallocOf t \<Rightarrow> of_bool (nat (retv (e h c)) \<noteq> 0)
    | Free p \<Rightarrow> -1
    | SysCall f ns bs \<Rightarrow> of_bool (f \<in> {''security get_certificate'', ''security get_root_ca''} \<and> retv (e h c) = S_OK \<and> nat (oval (e h c)) \<noteq> 0)
    | _ \<Rightarrow> 0)"

definition blocks :: "world \<Rightarrow> int" where
  "blocks w = (\<Sum>i<length (hist w). cost (env w) (take i (hist w)) (hist w ! i))"

lemma blocks_step: "blocks (w\<lparr>hist := hist w @ [c]\<rparr>) = blocks w + cost (env w) (hist w) c"
proof -
  have "(\<Sum>i<length (hist w). cost (env w) (take i (hist w @ [c])) ((hist w @ [c]) ! i)) = blocks w"
    unfolding blocks_def by (rule sum.cong) (auto simp: nth_append)
  then show ?thesis by (simp add: blocks_def)
qed

lemma blocks_xc [simp]: "blocks (snd (xc c w)) = blocks w + cost (env w) (hist w) c" "blocks (xcu c w) = blocks w + cost (env w) (hist w) c"
  by (simp_all add: xc_def xcu_def blocks_step)

definition no_string :: "string \<Rightarrow> bool" where
  "no_string f \<longleftrightarrow> f \<noteq> ''security get_certificate'' \<and> f \<noteq> ''security get_root_ca''"

lemma cost_simps [simp]:
  "cost e h (Free p) = -1" "cost e h (ModRequest m) = 0" "cost e h (ModRelease p) = 0"
  "no_string f \<Longrightarrow> cost e h (SysCall f ns bs) = 0"
  "cost e h (Malloc n) = of_bool (nat (retv (e h (Malloc n))) \<noteq> 0)"
  by (simp_all add: cost_def no_string_def)

lemma blocks_lib [simp]: "no_string f \<Longrightarrow> blocks (snd (lib f ns bs w)) = blocks w" "no_string f \<Longrightarrow> blocks (libu f ns bs w) = blocks w"
  by (simp_all add: lib_def libu_def case_prod_beta Let_def)

lemma no_string_calls [simp]:
  "no_string ''mbedtls_x509_crt_parse''" "no_string ''mbedtls_pk_info_from_type''" "no_string ''mbedtls_pk_setup''"
  "no_string ''set ecdsa group and key index''" "no_string ''mbedtls_ssl_conf_own_cert''" "no_string ''next of''"
  "no_string ''mbedtls_ssl_conf_ca_chain''" "no_string ''mbedtls_ssl_conf_authmode''" "no_string ''mbedtls_pk_parse_key''"
  "no_string ''mbedtls_x509_crt_init''" "no_string ''mbedtls_pk_init''" "no_string ''mbedtls_ssl_conf_rng''"
  "no_string ''security request''" "no_string ''security release''"
  by (simp_all add: no_string_def)

text \<open>Steps that keep configuration and memory when they succeed.\<close>

definition tame :: "ssl_step \<Rightarrow> bool" where
  "tame f \<longleftrightarrow> (\<forall>s w s1 w1. f s w = (S_OK, s1, w1) \<longrightarrow> s1 = s \<and> blocks w1 = blocks w)"

lemma tame_calls [intro]:
  "no_string f \<Longrightarrow> tame (ssl_do f ns)" "no_string f \<Longrightarrow> tame (ssl_call f ns bs)" "no_string f \<Longrightarrow> tame (parse_data f p d)"
  by (auto simp: tame_def ssl_do_def ssl_call_def parse_data_def case_prod_beta Let_def err_simps split: if_splits)

lemma tame_steps:
  "\<forall>f\<in>set fs. tame f \<Longrightarrow> ssl_steps fs s w = (S_OK, s1, w1) \<Longrightarrow> s1 = s \<and> blocks w1 = blocks w"
proof (induction fs arbitrary: s w)
  case (Cons f fs)
  obtain r s2 w2 where f: "f s w = (r, s2, w2)" by (metis prod_cases3)
  with Cons.prems(2) have r: "r = S_OK" and fs: "ssl_steps fs s2 w2 = (S_OK, s1, w1)" by (auto split: if_splits)
  from f r Cons.prems(1) have "s2 = s" "blocks w2 = blocks w" by (auto simp: tame_def)
  with Cons.IH [OF _ fs] Cons.prems(1) show ?case by simp
qed simp

lemma ssl_steps_append_ok:
  "ssl_steps (fs @ gs) s w = (S_OK, s2, w2) \<longleftrightarrow> (\<exists>s1 w1. ssl_steps fs s w = (S_OK, s1, w1) \<and> ssl_steps gs s1 w1 = (S_OK, s2, w2))"
  by (induction fs arbitrary: s w) (auto simp: case_prod_beta Let_def)

lemma ssl_alloc_ok:
  "ssl_alloc ty upd s w = (S_OK, s1, w1) \<Longrightarrow> \<exists>p. p \<noteq> 0 \<and> s1 = upd p s \<and> blocks w1 = blocks w + 1"
  by (auto simp: ssl_alloc_def case_prod_beta Let_def cost_def err_simps
      intro!: exI [of _ "nat (retv (env w (hist w) (MallocOf ty)))"] split: if_splits)

lemma ssl_steps_Cons_ok:
  "ssl_steps (f # fs) s w = (S_OK, s2, w2) \<longleftrightarrow> (\<exists>s1 w1. f s w = (S_OK, s1, w1) \<and> ssl_steps fs s1 w1 = (S_OK, s2, w2))"
  by (cases "f s w") auto

lemma init_blocks_ok:
  assumes "ssl_steps init_blocks (zero_ssl p) w = (S_OK, s1, w1)"
  shows "\<exists>a b c d. a \<noteq> 0 \<and> b \<noteq> 0 \<and> c \<noteq> 0 \<and> d \<noteq> 0 \<and> blocks w1 = blocks w + 4
    \<and> s1 = (zero_ssl p)\<lparr>hs_ssl := a, hs_tls_conf := b, hs_entropy := c, hs_ctr_drbg := d\<rparr>"
proof -
  from assms obtain s2 s3 s4 w2 w3 w4 where
    "ssl_alloc ''http_client_ssl_config_t'' (\<lambda>p s. s\<lparr>hs_ssl := p\<rparr>) (zero_ssl p) w = (S_OK, s2, w2)"
    "ssl_alloc ''mbedtls_ssl_config'' (\<lambda>p s. s\<lparr>hs_tls_conf := p\<rparr>) s2 w2 = (S_OK, s3, w3)"
    "ssl_alloc ''mbedtls_entropy_context'' (\<lambda>p s. s\<lparr>hs_entropy := p\<rparr>) s3 w3 = (S_OK, s4, w4)"
    "ssl_alloc ''mbedtls_ctr_drbg_context'' (\<lambda>p s. s\<lparr>hs_ctr_drbg := p\<rparr>) s4 w4 = (S_OK, s1, w1)"
    by (auto simp: init_blocks_def ssl_steps_Cons_ok simp del: ssl_steps.simps(2))
  from this [THEN ssl_alloc_ok] obtain a b c d where "a \<noteq> 0" "b \<noteq> 0" "c \<noteq> 0" "d \<noteq> 0" "blocks w1 = blocks w + 4"
    "s1 = (zero_ssl p)\<lparr>hs_ssl := a, hs_tls_conf := b, hs_entropy := c, hs_ctr_drbg := d\<rparr>"
    by auto
  then show ?thesis by blast
qed

lemma tame_defaults: "f \<in> set (init_defaults @ init_identity) \<Longrightarrow> tame f"
  by (auto simp: init_defaults_def init_identity_def no_string_def)

text \<open>The certificate and the key: 0 before, and each a new block or still 0 afterwards.\<close>

definition with_identity :: "http_ssl_config \<Rightarrow> world \<Rightarrow> http_ssl_config \<Rightarrow> world \<Rightarrow> bool" where
  "with_identity s w s1 w1 \<longleftrightarrow> (\<exists>x y. s1 = s\<lparr>hs_cert := x, hs_pkey := y\<rparr> \<and> blocks w1 = blocks w + of_bool (x \<noteq> 0) + of_bool (y \<noteq> 0))"

lemma alloc_identity_ok:
  assumes "ssl_steps alloc_identity s w = (S_OK, s1, w1)"
  shows "with_identity s w s1 w1 \<and> hs_cert s1 \<noteq> 0"
proof -
  from assms obtain s2 w2 where "ssl_alloc ''mbedtls_x509_crt'' (\<lambda>p s. s\<lparr>hs_cert := p\<rparr>) s w = (S_OK, s2, w2)"
    "ssl_alloc ''mbedtls_pk_context'' (\<lambda>p s. s\<lparr>hs_pkey := p\<rparr>) s2 w2 = (S_OK, s1, w1)"
    by (auto simp: alloc_identity_def ssl_steps_Cons_ok simp del: ssl_steps.simps(2))
  from this [THEN ssl_alloc_ok] obtain x y where "x \<noteq> 0" "y \<noteq> 0" and s1: "s1 = s\<lparr>hs_cert := x, hs_pkey := y\<rparr>"
    and "blocks w1 = blocks w + 2" by auto
  then have "blocks w1 = blocks w + of_bool (x \<noteq> 0) + of_bool (y \<noteq> 0)" by simp
  with s1 \<open>x \<noteq> 0\<close> show ?thesis unfolding with_identity_def by auto
qed

lemma tame_se_install: "f \<in> set (se_install cert ca) \<Longrightarrow> tame f"
proof -
  have "tame (\<lambda>s w. let (i, w1) = lib ''mbedtls_pk_info_from_type'' [] [] w in (if i = 0 then E_BAD_ARGS else S_OK, s, w1))"
    "tame (\<lambda>s w. let (n, w1) = lib ''next of'' [cert_of s] [] w in ssl_do ''mbedtls_ssl_conf_ca_chain'' (\<lambda>s. [conf_of s, n]) s w1)"
    by (auto simp: tame_def ssl_do_def case_prod_beta Let_def err_simps split: if_splits)
  then show "f \<in> set (se_install cert ca) \<Longrightarrow> tame f"
    using tame_defaults by (auto simp: se_install_def)
qed

lemma se_certificates_ok:
  "se_certificates m w = (S_OK, c, k, w1) \<Longrightarrow> blocks w1 = blocks w + 2"
  by (auto simp: se_certificates_def case_prod_beta Let_def cost_def err_simps no_string_def split: if_splits)

lemma se_identity_ok:
  assumes "se_identity s w = (S_OK, s1, w1)"
  shows "with_identity s w s1 w1"
proof -
  let ?w0 = "snd (xc (ModRequest ''security'') w)" and ?m = "nat (retv (fst (xc (ModRequest ''security'') w)))"
  obtain r2 s2 w2 where 2: "ssl_steps alloc_identity s ?w0 = (r2, s2, w2)" by (metis prod_cases3)
  obtain r3 c k w3 where 3: "se_certificates ?m w2 = (r3, c, k, w3)" by (metis prod_cases4)
  obtain r4 s4 w4 where 4: "ssl_steps (se_install (snd c) (snd k)) s2 w3 = (r4, s4, w4)" by (metis prod_cases3)
  from assms 2 3 4 have ok: "r2 = S_OK" "r3 = S_OK" "r4 = S_OK" and "s1 = s4" "w1 = xcu (Free (fst k)) (xcu (Free (fst c)) w4)"
    by (auto simp: se_identity_def case_prod_beta Let_def err_simps split: if_splits)
  with alloc_identity_ok [OF 2 [unfolded ok(1)]] se_certificates_ok [OF 3 [unfolded ok(2)]]
    tame_steps [OF _ 4 [unfolded ok(3)]] tame_se_install
  show ?thesis by (auto simp: with_identity_def)
qed

lemma client_identity_ok:
  assumes "ssl_steps (client_identity a) s w = (S_OK, s1, w1)" and "hs_cert s = 0" and "hs_pkey s = 0"
  shows "with_identity s w s1 w1"
proof (cases "sd_at (client_cert a) \<noteq> 0 \<and> sd_at (client_key a) \<noteq> 0")
  case True
  let ?r = "init_identity @ [parse_data ''mbedtls_x509_crt_parse'' (\<lambda>s. cert_of s) (client_cert a),
            parse_data ''mbedtls_pk_parse_key'' (\<lambda>s. pkey_of s) (client_key a),
            ssl_call ''mbedtls_ssl_conf_own_cert'' (\<lambda>s. [conf_of s, cert_of s, pkey_of s]) []]"
  from assms(1) True obtain s2 w2 where a: "ssl_steps alloc_identity s w = (S_OK, s2, w2)" and r: "ssl_steps ?r s2 w2 = (S_OK, s1, w1)"
    by (auto simp: client_identity_def ssl_steps_append_ok)
  have "\<forall>f\<in>set ?r. tame f" using tame_defaults by auto
  from tame_steps [OF this r] alloc_identity_ok [OF a] show ?thesis by (simp add: with_identity_def)
next
  case False
  have "s = s\<lparr>hs_cert := 0, hs_pkey := 0\<rparr>" using assms(2,3) by simp
  with False assms show ?thesis by (auto simp: client_identity_def with_identity_def)
qed

lemma root_ca_ok:
  assumes "ssl_steps (root_ca a) s1 w1 = (S_OK, s2, w2)" and "with_identity s w s1 w1"
  shows "with_identity s w s2 w2"
proof (cases "sd_at (ca_cert a) = 0")
  case False
  let ?n = "\<lambda>s w. let (n, w1) = lib ''next of'' [cert_of s] [] w
     in ssl_do ''mbedtls_ssl_conf_ca_chain'' (\<lambda>s. [conf_of s, if n \<noteq> 0 then n else cert_of s]) s w1"
  let ?r = "[parse_data ''mbedtls_x509_crt_parse'' (\<lambda>s. cert_of s) (ca_cert a), ?n]"
  have "tame ?n" by (auto simp: tame_def ssl_do_def case_prod_beta Let_def)
  then have t: "\<forall>f\<in>set ?r. tame f" by auto
  from assms(1) False obtain s3 w3
    where 3: "(if hs_cert s1 = 0 then ssl_alloc ''mbedtls_x509_crt'' (\<lambda>p s. s\<lparr>hs_cert := p\<rparr>) s1 w1 else (S_OK, s1, w1)) = (S_OK, s3, w3)"
      and r: "ssl_steps ?r s3 w3 = (S_OK, s2, w2)"
    by (auto simp: root_ca_def ssl_steps_Cons_ok simp del: ssl_steps.simps(2))
  have "with_identity s w s3 w3"
  proof (cases "hs_cert s1 = 0")
    case True
    with 3 ssl_alloc_ok obtain q where "q \<noteq> 0" "s3 = s1\<lparr>hs_cert := q\<rparr>" "blocks w3 = blocks w1 + 1" by (metis (no_types, lifting))
    moreover from assms(2) True obtain y where "s1 = s\<lparr>hs_cert := 0, hs_pkey := y\<rparr>" "blocks w1 = blocks w + of_bool (y \<noteq> 0)"
      by (auto simp: with_identity_def)
    ultimately have "s3 = s\<lparr>hs_cert := q, hs_pkey := y\<rparr> \<and> blocks w3 = blocks w + of_bool (q \<noteq> 0) + of_bool (y \<noteq> 0)" by simp
    then show ?thesis unfolding with_identity_def by blast
  qed (use 3 assms(2) in auto)
  with tame_steps [OF t r] show ?thesis by (simp add: with_identity_def)
qed (use assms in \<open>simp add: root_ca_def\<close>)

lemma init_ok:
  assumes "init_client_ssl_config a w = Ret (S_OK, Config s, w1)"
  shows "hs_ssl s \<noteq> 0 \<and> blocks w1 = blocks w + 5 + of_bool (hs_cert s \<noteq> 0) + of_bool (hs_pkey s \<noteq> 0)
    \<and> hs_tls_conf s \<noteq> 0 \<and> hs_entropy s \<noteq> 0 \<and> hs_ctr_drbg s \<noteq> 0"
proof -
  let ?c = "MallocOf ''http_ssl_config_t''"
  let ?p = "nat (retv (env w (hist w) ?c))" and ?w0 = "snd (xc ?c w)"
  let ?mid = "if use_se a then [se_identity] else client_identity a @ root_ca a"
  from assms have p: "?p \<noteq> 0" and run: "ssl_steps (init_steps a) (zero_ssl ?p) ?w0 = (S_OK, s, w1)"
    by (cases "ssl_steps (init_steps a) (zero_ssl ?p) ?w0";
        auto simp: init_client_ssl_config_def case_prod_beta Let_def obind_eq_Ret split: if_splits)+
  from run obtain s1 w1' s2 w2 s3 w3 where b: "ssl_steps init_blocks (zero_ssl ?p) ?w0 = (S_OK, s1, w1')"
    and d: "ssl_steps init_defaults s1 w1' = (S_OK, s2, w2)" and m: "ssl_steps ?mid s2 w2 = (S_OK, s3, w3)"
    and l: "ssl_steps [ssl_do ''mbedtls_ssl_conf_authmode'' (\<lambda>s. [conf_of s, authmode (verify_cert a)])] s3 w3 = (S_OK, s, w1)"
    unfolding init_steps_def by (auto simp only: ssl_steps_append_ok)
  from init_blocks_ok [OF b] tame_steps [OF _ d] tame_defaults
  have s2: "hs_cert s2 = 0" "hs_pkey s2 = 0" "hs_ssl s2 \<noteq> 0" "hs_tls_conf s2 \<noteq> 0" "hs_entropy s2 \<noteq> 0" "hs_ctr_drbg s2 \<noteq> 0"
    and n: "blocks w2 = blocks ?w0 + 4" by (auto simp: zero_ssl_def)
  have "with_identity s2 w2 s3 w3"
  proof (cases "use_se a")
    case True
    with m have "se_identity s2 w2 = (S_OK, s3, w3)" by (simp add: ssl_steps_Cons_ok del: ssl_steps.simps(2))
    then show ?thesis by (rule se_identity_ok)
  next
    case False
    with m client_identity_ok [OF _ s2(1,2)] root_ca_ok show ?thesis by (fastforce simp: ssl_steps_append_ok)
  qed
  moreover have "s = s3 \<and> blocks w1 = blocks w3" by (rule tame_steps [OF _ l]) auto
  moreover have "blocks ?w0 = blocks w + 1" using p by (simp add: cost_def)
  ultimately show ?thesis using s2 n by (auto simp: with_identity_def)
qed

lemma blocks_free_with [simp]: "no_string f \<Longrightarrow> blocks (free_with f p w) = blocks w - of_bool (p \<noteq> 0)"
  by (simp add: free_with_def)

lemma release_blocks:
  assumes "release_http_ssl_config s w = Ret w1"
  shows "blocks w1 = blocks w - of_bool (hs_ctr_drbg s \<noteq> 0) - of_bool (hs_entropy s \<noteq> 0) - of_bool (hs_pkey s \<noteq> 0)
    - of_bool (hs_cert s \<noteq> 0) - of_bool (hs_tls_conf s \<noteq> 0) - 1"
  using assms by (auto simp: release_http_ssl_config_def Let_def no_string_def split: if_splits)

lemma blocks_add_headers [simp]: "blocks (add_headers hs w) = blocks w"
  by (induction hs w rule: add_headers.induct) (auto simp: no_string_def)

lemma send_request_ends:
  "send_request m url content p w = (r, resp, st, w1)
     \<Longrightarrow> blocks w1 = blocks w + of_bool (resp \<noteq> None) \<and> (resp = None \<longleftrightarrow> r \<noteq> S_OK)"
  by (auto simp: send_request_def case_prod_beta Let_def no_string_def err_simps split: if_splits)

lemma ssl_for_exit_blocks:
  assumes "ssl_for tls ssl w = Ret (r, p, w1)" and "ssl_exit p w2 = Ret w3"
  shows "blocks w3 - blocks w2 = blocks w - blocks w1"
proof (cases p)
  case NoConfig
  with assms show ?thesis
    by (auto simp: ssl_for_def ssl_exit_def init_client_ssl_config_def case_prod_beta Let_def obind_eq_Ret cost_def
        split: option.splits if_splits)
next
  case (Config s)
  with assms(1) obtain a where "init_client_ssl_config a w = Ret (S_OK, Config s, w1)"
    using init_outcome by (fastforce simp: ssl_for_def split: option.splits if_splits)
  from init_ok [OF this] assms(2) Config show ?thesis by (auto simp: ssl_exit_def obind_eq_Ret dest!: release_blocks)
qed (use assms in \<open>simp add: ssl_exit_def\<close>)

lemma http_method_blocks:
  assumes "http_method tls m url headers content ssl w = Ret (r, resp, st, w')"
  shows "blocks w' = blocks w + of_bool (resp \<noteq> None) \<and> (resp = None \<longleftrightarrow> r \<noteq> S_OK)"
proof -
  obtain i w0 where l: "lib ''http_keyvalue_list_init'' [] [] w = (i, w0)" by (metis prod.collapse)
  then have w0: "blocks w0 = blocks w" using blocks_lib(1) [of "''http_keyvalue_list_init''" "[]" "[]" w] by (simp add: no_string_def)
  show ?thesis
  proof (cases "i < 0")
    case True
    with assms l w0 show ?thesis by (simp add: http_method_def err_simps)
  next
    case False
    with assms l obtain hs r0 p w2 where hs: "headers = Some hs" and i: "ssl_for tls ssl (add_headers hs w0) = Ret (r0, p, w2)"
      by (auto simp: http_method_def obind_eq_Ret split: option.splits)
    obtain r3 q st3 w3 where q: "(if r0 \<noteq> S_OK then (r0, None, None, w2) else send_request m url content p w2) = (r3, q, st3, w3)"
      by (metis prod_cases4)
    from assms have "obind (ssl_exit p (libu ''http_keyvalue_list_release'' [] [] w3)) (\<lambda>w5. Ret (r3, q, st3, w5)) = Ret (r, resp, st, w')"
      unfolding http_method_def l hs by (simp only: i q Let_def split_conv False if_False option.case obind.simps)
    then have x: "ssl_exit p (libu ''http_keyvalue_list_release'' [] [] w3) = Ret w'" and rq: "r3 = r" "q = resp"
      by (auto simp: obind_eq_Ret)
    have "blocks w3 = blocks w2 + of_bool (resp \<noteq> None) \<and> (resp = None \<longleftrightarrow> r \<noteq> S_OK)"
      using q rq send_request_ends [of m url content p w2] by (auto split: if_splits)
    moreover have "blocks (libu ''http_keyvalue_list_release'' [] [] w3) = blocks w3" by (simp add: no_string_def)
    ultimately show ?thesis using ssl_for_exit_blocks [OF i x] w0 by auto
  qed
qed


definition works_env :: "xcall list \<Rightarrow> xcall \<Rightarrow> answer" where
  "works_env h c = (case c of
      SysCall f ns bs \<Rightarrow> \<lparr>retv = 0, errno = 0, oval = 200, outb = (if f = ''http_client_send_request'' then [79, 75] else [])\<rparr>
    | MallocOf t \<Rightarrow> \<lparr>retv = 64, errno = 0, oval = 0, outb = []\<rparr>
    | _ \<Rightarrow> good_env h c)"

lemma works_env_simps [simp]:
  "works_env h (SysCall f ns bs) = \<lparr>retv = 0, errno = 0, oval = 200, outb = (if f = ''http_client_send_request'' then [79, 75] else [])\<rparr>"
  "works_env h (MallocOf t) = \<lparr>retv = 64, errno = 0, oval = 0, outb = []\<rparr>"
  "works_env h (Malloc n) = \<lparr>retv = 64, errno = 0, oval = 0, outb = []\<rparr>"
  by (simp_all add: works_env_def)

lemma sample_tls_request:
  "\<exists>w'. tizen_http_get True (bytes_of ''https://artik.io'') (Some []) (Some plain_tls) \<lparr>hist = [], env = works_env\<rparr>
     = Ret (S_OK, Some [79, 75], Some 200, w')"
  by (simp add: tizen_http_get_def http_method_def ssl_for_def send_request_def ssl_exit_def
      init_client_ssl_config_def init_steps_def init_blocks_def init_defaults_def client_identity_def root_ca_def
      ssl_alloc_def ssl_do_def ssl_call_def lib_def libu_def release_http_ssl_config_def free_with_def zero_ssl_def plain_tls_def
      xc_def xcu_def Let_def err_simps)


end
