(* ===== verification/TizenIo.thy ===== *)
theory TizenIo
  imports SystemIo
begin

unbundle bit_operations_syntax

section \<open>I/O modules of TizenRT (\<^verbatim>\<open>tinyara_*.c\<close> of \<^verbatim>\<open>src/modules/systemio\<close>)\<close>

text \<open>
  The back ends of the six modules on TizenRT, below the same front ends. The flags and constants of TizenRT are not
  in the repository: \<open>fl\<close> gives their values by name; the calls that are macros over function pointers of a driver are
  \<open>SysCall\<close>s. Build options (\<^verbatim>\<open>CONFIG_PWM\<close>, \<^verbatim>\<open>CONFIG_I2C_USERIO\<close>) are boolean parameters. Private data is
  kept with its address inside the configuration, as on Linux; the descriptor sets that are filled and never read are
  left out, apart from the write with a negative number.
\<close>

type_synonym tz_flags = "string \<Rightarrow> u32"

definition fnat :: "tz_flags \<Rightarrow> string list \<Rightarrow> nat" where
  "fnat fl ns = unat (fold (\<lambda>n a. a OR fl n) ns 0)"

subsection \<open>ADC\<close>

text \<open>A sample has \<open>sz\<close> bytes, and \<open>am_data\<close> is the member \<^verbatim>\<open>am_data\<close> of it.\<close>

record tizen_adc_data =
  ta_fd :: int
  ta_path_ptr :: addr

record tizen_adc_config =
  ta_pin :: u32
  ta_name :: string
  ta_data :: "(addr \<times> tizen_adc_data) option"

definition S5J_ADC_MAX_CHANNELS :: nat where "S5J_ADC_MAX_CHANNELS = 4"

definition tizen_adc_request :: "tz_flags \<Rightarrow> tizen_adc_config \<Rightarrow> world \<Rightarrow> artik_error \<times> tizen_adc_config \<times> world" where
  "tizen_adc_request fl c w =
     (let (a, w1) = xc (Malloc 8) w
      in if retv a = 0 then (E_NO_MEM, c, w1)
         else let (b, w2) = xc (Malloc 129) w1
              in if retv b = 0 then (E_NO_MEM, c, xcu (Free (nat (retv a))) w2)
                 else let (f, w3) = xc (Open ''/dev/adc0'' (fnat fl [''O_RDONLY''])) w2
                      in (if retv f < 0 then E_BUSY else S_OK,
                          c\<lparr>ta_data := Some (nat (retv a), \<lparr>ta_fd = retv f, ta_path_ptr = nat (retv b)\<rparr>)\<rparr>, w3))"

definition tizen_adc_release :: "tizen_adc_config \<Rightarrow> world \<Rightarrow> artik_error \<times> world" where
  "tizen_adc_release c w =
     (case ta_data c of
        None \<Rightarrow> (S_OK, w)
      | Some (p, d) \<Rightarrow> (S_OK, xcu (Free p) (if ta_path_ptr d \<noteq> 0 then xcu (Free (ta_path_ptr d)) w else w)))"

text \<open>The trigger is only seen to fail below -1. The sample is looked up by the pin, whatever was read.\<close>

definition tizen_adc_get_value :: "nat \<Rightarrow> (bytes \<Rightarrow> int) \<Rightarrow> tizen_adc_config \<Rightarrow> bool \<Rightarrow> world
    \<Rightarrow> (artik_error \<times> int option \<times> world) outcome" where
  "tizen_adc_get_value sz am_data c value w =
     (case ta_data c of
        None \<Rightarrow> Ub NullDeref
      | Some (p, d) \<Rightarrow>
          let fd = ta_fd d; (a, w1) = xc (Ioctl fd ''ANIOC_TRIGGER'' []) w
          in if retv a < -1 then Ret (E_BUSY, None, xcu (Close fd) w1)
             else let (r, w2) = xc (Read fd (S5J_ADC_MAX_CHANNELS * sz)) w1
                  in if retv r < 0 then Ret (E_BUSY, None, xcu (Close fd) w2)
                     else let nsamples = nat (retv r) div sz; i = sint (ta_pin c)
                          in if nsamples * sz \<noteq> nat (retv r) then Ret (S_OK, None, xcu (Close fd) w2)
                             else if i < 0 \<or> int S5J_ADC_MAX_CHANNELS \<le> i then Ub OutOfBounds
                             else if int nsamples \<le> i then Ub Uninitialised
                             else if \<not> value then Ub NullDeref
                             else Ret (S_OK, Some (am_data (take sz (drop (nat i * sz) (outb r)))), xcu (Close fd) w2))"

subsection \<open>GPIO\<close>

record tizen_gpio_config =
  tg_id :: u32
  tg_name :: string
  tg_dir :: artik_gpio_dir
  tg_edge :: artik_gpio_edge
  tg_initial :: int
  tg_data :: "(addr \<times> int) option"      \<comment> \<open>the descriptor in the private data\<close>

definition GPIO_DIRECTION_OUT :: u8 where "GPIO_DIRECTION_OUT = 1"
definition GPIO_DIRECTION_IN :: u8 where "GPIO_DIRECTION_IN = 2"

definition tizen_gpio_release :: "tizen_gpio_config \<Rightarrow> world \<Rightarrow> (artik_error \<times> world) outcome" where
  "tizen_gpio_release c w = (case tg_data c of None \<Rightarrow> Ub NullDeref | Some (p, fd) \<Rightarrow> Ret (S_OK, xcu (Close fd) w))"

definition tizen_gpio_request :: "tz_flags \<Rightarrow> tizen_gpio_config \<Rightarrow> world
    \<Rightarrow> (artik_error \<times> tizen_gpio_config \<times> world) outcome" where
  "tizen_gpio_request fl c w =
     (let (a, w1) = xc (Malloc 20) w
      in if retv a = 0 then Ret (- E_NO_MEM, c, w1)
         else let (f, w2) = xc (Open (''/dev/gpio'' @ int_str (sint (tg_id c))) (fnat fl [''O_RDWR''])) w1;
                  c1 = c\<lparr>tg_data := Some (nat (retv a), retv f)\<rparr>
              in if retv f < 0 then obind (tizen_gpio_release c1 w2) (\<lambda>(_, w3). Ret (E_ACCESS_DENIED, c1, w3))
                 else Ret (S_OK, c1, w2))"

definition tizen_gpio_read :: "tizen_gpio_config \<Rightarrow> world \<Rightarrow> (int \<times> world) outcome" where
  "tizen_gpio_read c w =
     (case tg_data c of
        None \<Rightarrow> Ub NullDeref
      | Some (p, fd) \<Rightarrow>
          let (a, w1) = xc (Ioctl fd ''GPIO_CMD_SET_DIRECTION'' [GPIO_DIRECTION_IN]) w
          in if retv a < 0 then Ret (E_ACCESS_DENIED, w1)
             else let (r, w2) = xc (Read fd 4) w1
                  in if retv r < 0 then Ret (E_ACCESS_DENIED, w2)
                     else if retv r = 0 then Ub Uninitialised
                     else Ret (if hd (outb r) = 49 then 1 else 0, w2))"

definition tizen_gpio_write :: "tizen_gpio_config \<Rightarrow> int \<Rightarrow> world \<Rightarrow> (artik_error \<times> world) outcome" where
  "tizen_gpio_write c v w =
     (case tg_data c of
        None \<Rightarrow> Ub NullDeref
      | Some (p, fd) \<Rightarrow>
          let (a, w1) = xc (Ioctl fd ''GPIO_CMD_SET_DIRECTION'' [GPIO_DIRECTION_OUT]) w
          in if retv a < 0 then Ret (E_ACCESS_DENIED, w1)
             else let (r, w2) = xc (Write fd [if v \<noteq> 0 then 49 else 48, 0]) w1
                  in Ret (if retv r < 0 then E_ACCESS_DENIED else S_OK, w2))"

definition tizen_gpio_set_change_callback :: "tizen_gpio_config \<Rightarrow> addr \<Rightarrow> addr \<Rightarrow> artik_error" where
  "tizen_gpio_set_change_callback c callback user_data = S_OK"

subsection \<open>PWM\<close>

text \<open>The pointer for the private data holds the descriptor itself.\<close>

record tizen_pwm_config =
  tp_pin :: u32
  tp_name :: string
  tp_period :: u32
  tp_duty_cycle :: u32
  tp_polarity :: artik_pwm_polarity
  tp_fd :: int

definition TINYARA_PWM_ENABLE :: char where "TINYARA_PWM_ENABLE = CHR 0x01"
definition TINYARA_PWM_DISABLE :: char where "TINYARA_PWM_DISABLE = CHR 0x00"

definition tizen_pwm_request :: "tz_flags \<Rightarrow> tizen_pwm_config \<Rightarrow> world
    \<Rightarrow> (artik_error \<times> tizen_pwm_config \<times> world) outcome" where
  "tizen_pwm_request fl c w =
     (let (a, w1) = xc (Open (''/dev/pwm'' @ int_str (sint (tp_pin c))) (fnat fl [''O_RDWR''])) w
      in if retv a < 0 then Ret (E_ACCESS_DENIED, c, w1) else Ret (S_OK, c\<lparr>tp_fd := retv a\<rparr>, w1))"

definition tizen_pwm_enable :: "bool \<Rightarrow> tizen_pwm_config \<Rightarrow> char \<Rightarrow> world \<Rightarrow> (artik_error \<times> world) outcome" where
  "tizen_pwm_enable config_pwm c v w =
     (if config_pwm
      then let (a, w1) = xc (Ioctl (tp_fd c) (if v = TINYARA_PWM_ENABLE then ''PWMIOC_START'' else ''PWMIOC_STOP'') []) w
           in Ret (retv a, w1)
      else Ret (E_NOT_SUPPORTED, w))"

definition tizen_pwm_release :: "bool \<Rightarrow> tizen_pwm_config \<Rightarrow> world
    \<Rightarrow> (artik_error \<times> tizen_pwm_config \<times> world) outcome" where
  "tizen_pwm_release config_pwm c w =
     obind (tizen_pwm_enable config_pwm c TINYARA_PWM_DISABLE w) (\<lambda>(res, w1).
       Ret (res, c\<lparr>tp_fd := 0\<rparr>, xcu (Close (tp_fd c)) w1))"

text \<open>The driver is told to fill \<^verbatim>\<open>info\<close>, which is null, and if it does not refuse, \<^verbatim>\<open>info\<close> is written.\<close>

definition tizen_pwm_characteristics :: "bool \<Rightarrow> tizen_pwm_config \<Rightarrow> world \<Rightarrow> (artik_error \<times> world) outcome" where
  "tizen_pwm_characteristics config_pwm c w =
     (if config_pwm
      then let (a, w1) = xc (Ioctl (tp_fd c) ''PWMIOC_GETCHARACTERISTICS'' (le32 0)) w
           in if retv a < 0 then Ret (E_ACCESS_DENIED, w1) else Ub NullDeref
      else Ret (E_NOT_SUPPORTED, w))"

definition tizen_pwm_set_period :: "bool \<Rightarrow> tizen_pwm_config \<Rightarrow> u32 \<Rightarrow> world \<Rightarrow> (artik_error \<times> world) outcome" where
  "tizen_pwm_set_period config_pwm c v w = tizen_pwm_characteristics config_pwm c w"

definition tizen_pwm_set_duty_cycle :: "bool \<Rightarrow> tizen_pwm_config \<Rightarrow> u32 \<Rightarrow> world \<Rightarrow> (artik_error \<times> world) outcome" where
  "tizen_pwm_set_duty_cycle config_pwm c v w = tizen_pwm_characteristics config_pwm c w"

definition tizen_pwm_set_polarity :: "tizen_pwm_config \<Rightarrow> artik_pwm_polarity \<Rightarrow> artik_error" where
  "tizen_pwm_set_polarity c v = S_OK"

text \<open>The front end over it; the configuration of a node changes even when its release fails.\<close>

definition artik_pwm_enable_tizen :: "bool \<Rightarrow> addr \<Rightarrow> tizen_pwm_config tab \<Rightarrow> world \<Rightarrow> (artik_error \<times> world) outcome" where
  "artik_pwm_enable_tizen config_pwm hnd t w = on_handle hnd t (\<lambda>c. tizen_pwm_enable config_pwm c CHR ''1'') w"

definition artik_pwm_disable_tizen :: "bool \<Rightarrow> addr \<Rightarrow> tizen_pwm_config tab \<Rightarrow> world \<Rightarrow> (artik_error \<times> world) outcome" where
  "artik_pwm_disable_tizen config_pwm hnd t w = on_handle hnd t (\<lambda>c. tizen_pwm_enable config_pwm c CHR ''0'') w"

definition artik_pwm_release_tizen :: "bool \<Rightarrow> tizen_pwm_config fe_release" where
  "artik_pwm_release_tizen config_pwm hnd t w =
     (case tab_get_by_handle hnd t of
        None \<Rightarrow> Ret (E_BAD_ARGS, t, w)
      | Some (a, c) \<Rightarrow>
          obind (tizen_pwm_release config_pwm c w) (\<lambda>(r, c1, w1).
            Ret (r, if r \<noteq> S_OK then tab_set a c1 t else tab_delete_node a t, w1)))"

subsection \<open>I2C\<close>

definition tizen_i2c_request :: "artik_i2c_config \<Rightarrow> world \<Rightarrow> (artik_error \<times> artik_i2c_config \<times> world) outcome" where
  "tizen_i2c_request c w =
     (let (a, w1) = xc (SysCall ''up_i2cinitialize'' [sint (i2c_id c)] []) w
      in Ret (if retv a = 0 then E_ACCESS_DENIED else S_OK, c, w1))"

definition tizen_i2c_release :: "artik_i2c_config \<Rightarrow> world \<Rightarrow> (artik_error \<times> world) outcome" where
  "tizen_i2c_release c w = Ret (S_OK, w)"

text \<open>A transfer of the bytes to be read or written; what arrived in the buffer.\<close>

definition tizen_i2c_transfer :: "artik_i2c_config \<Rightarrow> nat \<Rightarrow> (int \<Rightarrow> xcall) \<Rightarrow> world \<Rightarrow> artik_error \<times> bytes \<times> world" where
  "tizen_i2c_transfer c flags f w =
     (let (a, w1) = xc (Open (i2c_devname c) flags) w; fd = retv a
      in if fd < 0 then (E_ACCESS_DENIED, [], w1)
         else let (s, w2) = xc (Ioctl fd ''I2C_SLAVE'' [address c]) w1
              in if retv s < 0 then (S_OK, [], xcu (Close fd) w2)
                 else let (r, w3) = xc (f fd) w2
                      in (S_OK, if retv r < 0 then [] else take (nat (retv r)) (outb r), xcu (Close fd) w3))"

definition tizen_i2c_read :: "tz_flags \<Rightarrow> artik_i2c_config \<Rightarrow> nat \<Rightarrow> world \<Rightarrow> artik_error \<times> bytes \<times> world" where
  "tizen_i2c_read fl c len w = tizen_i2c_transfer c (fnat fl [''O_SYNC'', ''O_RDOK'']) (\<lambda>fd. Read fd len) w"

definition tizen_i2c_write :: "tz_flags \<Rightarrow> artik_i2c_config \<Rightarrow> bytes \<Rightarrow> world \<Rightarrow> artik_error \<times> world" where
  "tizen_i2c_write fl c buf w =
     (let (e, _, w1) = tizen_i2c_transfer c (fnat fl [''O_SYNC'', ''O_WRONLY'']) (\<lambda>fd. Write fd buf) w in (e, w1))"

text \<open>Two messages in one transaction: address, flags and length of each, and the bytes that go out.\<close>

definition tizen_i2c_rdwr :: "bool \<Rightarrow> tz_flags \<Rightarrow> artik_i2c_config \<Rightarrow> u32 \<Rightarrow> int \<Rightarrow> int \<Rightarrow> bytes \<Rightarrow> world
    \<Rightarrow> artik_error \<times> bytes \<times> world" where
  "tizen_i2c_rdwr userio fl c reg flags n buf w =
     (if \<not> userio then (E_NOT_SUPPORTED, [], w)
      else let (a, w1) = xc (Open (i2c_devname c) (fnat fl [''O_SYNC'', ''O_RDOK''])) w; fd = retv a
           in if fd < 0 then (E_ACCESS_DENIED, [], w1)
              else let ws = int (wordsize_of (wordsize c)); ad = uint (address c);
                       (r, w2) = xc (SysCall ''I2C_RDWR'' [fd, ad, 0, ws, ad, flags, n * ws] (reg_bytes c reg @ buf)) w1;
                       w3 = xcu (Close fd) w2
                   in if retv r < 0 then (E_ACCESS_DENIED, [], w3) else (S_OK, outb r, w3))"

definition I2C_M_READ :: int where "I2C_M_READ = 1"

definition tizen_i2c_read_register :: "bool \<Rightarrow> tz_flags \<Rightarrow> artik_i2c_config \<Rightarrow> u32 \<Rightarrow> int \<Rightarrow> world
    \<Rightarrow> artik_error \<times> bytes \<times> world" where
  "tizen_i2c_read_register userio fl c reg len w = tizen_i2c_rdwr userio fl c reg I2C_M_READ len [] w"

definition tizen_i2c_write_register :: "bool \<Rightarrow> tz_flags \<Rightarrow> artik_i2c_config \<Rightarrow> u32 \<Rightarrow> bytes \<Rightarrow> int \<Rightarrow> world
    \<Rightarrow> artik_error \<times> world" where
  "tizen_i2c_write_register userio fl c reg buf len w =
     (let (e, _, w1) = tizen_i2c_rdwr userio fl c reg 0 len (take (nat len * wordsize_of (wordsize c)) buf) w in (e, w1))"

subsection \<open>SPI\<close>

text \<open>One variable \<open>sdev\<close> for all handles, 0 at first. A buffer is handed to the driver, which gives it back.\<close>

definition SPI_MAX_FREQUENCY :: nat where "SPI_MAX_FREQUENCY = 12000000"

definition spi_calls :: "(string \<times> int list) list \<Rightarrow> addr \<Rightarrow> world \<Rightarrow> world" where
  "spi_calls fs dev w = fold (\<lambda>(f, ns). xcu (SysCall f (int dev # ns) [])) fs w"

definition tizen_spi_request :: "artik_spi_config \<Rightarrow> addr \<Rightarrow> world \<Rightarrow> artik_error \<times> addr \<times> world" where
  "tizen_spi_request c sdev w =
     (if bits_per_word c \<noteq> 8 then (E_BAD_ARGS, sdev, w)
      else if SPI_MAX_FREQUENCY < unat (max_speed c) then (E_BAD_ARGS, sdev, w)
      else let (a, w1) = xc (SysCall ''up_spiinitialize'' [sint (spi_bus c)] []) w; spi = nat (retv a)
           in if spi = 0 then (E_BAD_ARGS, sdev, w1)
              else (S_OK, spi, spi_calls [(''SPI_LOCK'', [1]), (''SPI_SETMODE'', [uint (mode_byte (spi_mode c))]),
                      (''SPI_SETBITS'', [uint (bits_per_word c)]), (''SPI_SETFREQUENCY'', [uint (max_speed c)]),
                      (''SPI_LOCK'', [0])] spi w1))"

definition tizen_spi_release :: "addr \<Rightarrow> artik_error \<times> addr" where
  "tizen_spi_release sdev = (if sdev = 0 then (E_NOT_INITIALIZED, sdev) else (S_OK, 0))"

definition spi_begin :: "artik_spi_config \<Rightarrow> addr \<Rightarrow> world \<Rightarrow> world" where
  "spi_begin c sdev w = spi_calls [(''SPI_LOCK'', [1]), (''SPI_SELECT'', [sint (spi_cs c), 1])] sdev w"

definition spi_end :: "artik_spi_config \<Rightarrow> addr \<Rightarrow> world \<Rightarrow> world" where
  "spi_end c sdev w = spi_calls [(''SPI_SELECT'', [sint (spi_cs c), 0]), (''SPI_LOCK'', [0])] sdev w"

definition read_mask :: "bytes \<Rightarrow> bytes" where
  "read_mask buf = (hd buf OR 0x80) # tl buf"

definition tizen_spi_read :: "artik_spi_config \<Rightarrow> bytes \<Rightarrow> int \<Rightarrow> addr \<Rightarrow> world \<Rightarrow> (artik_error \<times> bytes \<times> world) outcome" where
  "tizen_spi_read c buf len sdev w =
     (if sdev = 0 then Ret (E_NOT_INITIALIZED, buf, w)
      else if buf = [] then Ub OutOfBounds
      else let (a, w1) = xc (SysCall ''SPI_RECVBLOCK'' [int sdev, len] (read_mask buf)) (spi_begin c sdev w)
           in Ret (S_OK, outb a, spi_end c sdev w1))"

definition tizen_spi_write :: "artik_spi_config \<Rightarrow> bytes \<Rightarrow> int \<Rightarrow> addr \<Rightarrow> world \<Rightarrow> artik_error \<times> world" where
  "tizen_spi_write c buf len sdev w =
     (if sdev = 0 then (E_NOT_INITIALIZED, w)
      else (S_OK, spi_end c sdev (xcu (SysCall ''SPI_SNDBLOCK'' [int sdev, len] buf) (spi_begin c sdev w))))"

definition tizen_spi_read_write :: "artik_spi_config \<Rightarrow> bytes \<Rightarrow> bytes \<Rightarrow> int \<Rightarrow> addr \<Rightarrow> world
    \<Rightarrow> (artik_error \<times> bytes \<times> world) outcome" where
  "tizen_spi_read_write c tx rx len sdev w =
     (if sdev = 0 then Ret (E_NOT_INITIALIZED, rx, w)
      else if rx = [] then Ub OutOfBounds
      else let (a, w1) = xc (SysCall ''SPI_RECVBLOCK'' [int sdev, len] (read_mask rx))
                 (xcu (SysCall ''SPI_SNDBLOCK'' [int sdev, len] tx) (spi_begin c sdev w))
           in Ret (S_OK, outb a, spi_end c sdev w1))"

subsection \<open>Serial ports\<close>

text \<open>Of the attributes only two members matter; what \<^verbatim>\<open>tcgetattr\<close> stores starts with them here.\<close>

record tty =
  tty_cflag :: u32
  tty_speed :: u32
  tty_rest :: bytes

definition tty_of :: "bytes \<Rightarrow> tty" where
  "tty_of bs = \<lparr>tty_cflag = of_le32 (take 4 bs), tty_speed = of_le32 (take 4 (drop 4 bs)), tty_rest = drop 8 bs\<rparr>"

definition tty_bytes :: "tty \<Rightarrow> bytes" where
  "tty_bytes t = le32 (tty_cflag t) @ le32 (tty_speed t) @ tty_rest t"

record tizen_serial_config =
  ts_port :: u32
  ts_name :: string
  ts_baudrate :: artik_serial_baudrate
  ts_parity :: artik_serial_parity
  ts_data_bits :: artik_serial_data_bits
  ts_stop_bits :: artik_serial_stop_bits
  ts_flowctrl :: artik_serial_flowcontrol
  ts_data :: "(addr \<times> int) option"      \<comment> \<open>the descriptor in the private data\<close>

definition zero_tizen_serial :: tizen_serial_config where
  "zero_tizen_serial = \<lparr>ts_port = 0, ts_name = [], ts_baudrate = BAUD_4800, ts_parity = PARITY_NONE, ts_data_bits = DATA_7BIT,
     ts_stop_bits = STOP_1BIT, ts_flowctrl = FLOWCTRL_NONE, ts_data = None\<rparr>"

definition tizen_speed :: "artik_serial_baudrate \<Rightarrow> u32 option" where
  "tizen_speed b = (case b of
      BAUD_4800 \<Rightarrow> Some 4800 | BAUD_9600 \<Rightarrow> Some 9600 | BAUD_14400 \<Rightarrow> None | BAUD_19200 \<Rightarrow> Some 19200
    | BAUD_38400 \<Rightarrow> Some 38400 | BAUD_57600 \<Rightarrow> Some 57600 | BAUD_115200 \<Rightarrow> Some 115200)"

text \<open>The switches fall through in the code, and so they do here.\<close>

definition tizen_cflag :: "tz_flags \<Rightarrow> tizen_serial_config \<Rightarrow> u32 \<Rightarrow> u32" where
  "tizen_cflag fl c f =
     (let f = (if ts_flowctrl c = FLOWCTRL_HARD then f OR fl ''CRTSCTS'' else f);
          f = (if ts_flowctrl c \<in> {FLOWCTRL_HARD, FLOWCTRL_SOFT} then f OR (fl ''IXON'' OR fl ''IXOFF'' OR fl ''IXANY'') else f);
          f = (if ts_parity c = PARITY_ODD then f OR (fl ''PARENB'' OR fl ''PARODD'') else f);
          f = (if ts_parity c \<in> {PARITY_ODD, PARITY_EVEN} then f OR fl ''PARENB'' else f);
          f = (if ts_stop_bits c = STOP_2BIT then f OR fl ''CSTOPB'' else f);
          f = (if ts_data_bits c = DATA_7BIT then f OR fl ''CS7'' else f)
      in f OR fl ''CS8'')"

definition tizen_termios :: "tz_flags \<Rightarrow> tizen_serial_config \<Rightarrow> tty \<Rightarrow> tty" where
  "tizen_termios fl c t = t\<lparr>tty_cflag := tizen_cflag fl c (tty_cflag t),
     tty_speed := (case tizen_speed (ts_baudrate c) of None \<Rightarrow> tty_speed t | Some s \<Rightarrow> s)\<rparr>"

definition tizen_serial_release :: "tizen_serial_config \<Rightarrow> world \<Rightarrow> (artik_error \<times> world) outcome" where
  "tizen_serial_release c w =
     (case ts_data c of
        None \<Rightarrow> Ret (S_OK, w)
      | Some (p, fd) \<Rightarrow> if fd < 0 then Ub OutOfBounds else Ret (S_OK, xcu (Free p) (xcu (Close fd) w)))"

definition tizen_serial_abort :: "tizen_serial_config \<Rightarrow> world \<Rightarrow> (artik_error \<times> tizen_serial_config \<times> world) outcome" where
  "tizen_serial_abort c w = obind (tizen_serial_release c w) (\<lambda>(_, w1). Ret (E_ACCESS_DENIED, c, w1))"

definition tizen_serial_request :: "tz_flags \<Rightarrow> tizen_serial_config \<Rightarrow> world
    \<Rightarrow> (artik_error \<times> tizen_serial_config \<times> world) outcome" where
  "tizen_serial_request fl c w =
     (let (a, w1) = xc (Malloc 20) w
      in if retv a = 0 then Ret (- E_NO_MEM, c, w1)
         else let (f, w2) = xc (Open (''/dev/ttyS'' @ int_str (sint (ts_port c))) (fnat fl [''O_RDWR'', ''O_NOCTTY''])) w1;
                  fd = retv f; c1 = c\<lparr>ts_data := Some (nat (retv a), fd)\<rparr>
              in if fd < 0 then tizen_serial_abort c1 w2
                 else let (g, w3) = xc (Tcgetattr fd) w2
                      in if retv g < 0 then tizen_serial_abort c1 w3
                         else let (h, w4) = xc (Tcflush fd) w3
                              in if retv h < 0 then tizen_serial_abort c1 w4
                                 else let (s, w5) = xc (Tcsetattr fd (tty_bytes (tizen_termios fl c (tty_of (outb g))))) w4
                                      in if retv s < 0 then tizen_serial_abort c1 w5 else Ret (S_OK, c1, w5))"

definition tizen_serial_read :: "tizen_serial_config \<Rightarrow> bool \<Rightarrow> nat \<Rightarrow> world \<Rightarrow> (artik_error \<times> bytes \<times> world) outcome" where
  "tizen_serial_read c buf len w =
     (case ts_data c of
        None \<Rightarrow> Ub NullDeref
      | Some (p, fd) \<Rightarrow>
          if fd < 0 then Ret (E_ACCESS_DENIED, [], w)
          else if \<not> buf then Ret (E_INVALID_VALUE, [], w)
          else let (r, w1) = xc (Read fd len) w
               in if retv r < 0 then Ret (if errno r = EAGAIN then E_TRY_AGAIN else E_ACCESS_DENIED, [], w1)
                  else Ret (S_OK, take (nat (retv r)) (outb r), w1))"

text \<open>The number of bytes written is stored in \<^verbatim>\<open>len\<close>.\<close>

definition tizen_serial_write :: "tizen_serial_config \<Rightarrow> bytes option \<Rightarrow> world \<Rightarrow> (artik_error \<times> int option \<times> world) outcome" where
  "tizen_serial_write c buf w =
     (case ts_data c of
        None \<Rightarrow> Ub NullDeref
      | Some (p, fd) \<Rightarrow>
          if fd < 0 then Ret (E_ACCESS_DENIED, None, w)
          else case buf of
            None \<Rightarrow> Ret (E_INVALID_VALUE, None, w)
          | Some bs \<Rightarrow> let (r, w1) = xc (Write fd bs) w
                       in if retv r < 0 then Ret (E_ACCESS_DENIED, None, w1) else Ret (S_OK, Some (retv r), w1))"

definition tizen_serial_set_received_callback :: "tizen_serial_config \<Rightarrow> addr \<Rightarrow> addr \<Rightarrow> artik_error" where
  "tizen_serial_set_received_callback c callback user_data = S_OK"

subsection \<open>The contract of the front ends\<close>

lemma tizen_serial_abort_cases: "tizen_serial_abort c w = Ret (e, c', w') \<Longrightarrow> e = E_ACCESS_DENIED \<and> c' = c"
  by (auto simp: tizen_serial_abort_def obind_eq_Ret)

lemma tizen_serial_request_cases:
  assumes "tizen_serial_request fl c w = Ret (e, c', w')"
  shows "ts_port c' = ts_port c \<and> (e = S_OK \<longrightarrow> (\<exists>p fd. ts_data c' = Some (p, fd) \<and> 0 \<le> fd))"
  using assms
  by (auto simp: tizen_serial_request_def walk_simps err_simps dest!: tizen_serial_abort_cases split: if_splits)

interpretation tizen_serial: os_layer "tizen_serial_request fl" tizen_serial_release ts_port zero_tizen_serial for fl
  by unfold_locales (auto dest: tizen_serial_request_cases)

interpretation tizen_i2c: os_layer tizen_i2c_request tizen_i2c_release i2c_slave zero_i2c_config
  by unfold_locales (auto simp: tizen_i2c_request_def walk_simps)

end
