(* ===== verification/TizenIoProps.thy ===== *)
theory TizenIoProps
  imports TizenIo
begin

unbundle bit_operations_syntax

section \<open>I/O modules of TizenRT: what they do with devices and descriptors\<close>

subsection \<open>PWM\<close>

lemma tizen_pwm_characters [simp]: "CHR ''1'' \<noteq> TINYARA_PWM_ENABLE" "CHR ''0'' \<noteq> TINYARA_PWM_ENABLE"
  "TINYARA_PWM_DISABLE \<noteq> TINYARA_PWM_ENABLE"
  by (simp_all add: TINYARA_PWM_ENABLE_def TINYARA_PWM_DISABLE_def)


definition a_channel :: tizen_pwm_config where
  "a_channel = \<lparr>tp_pin = 0, tp_name = [], tp_period = 400000, tp_duty_cycle = 200000, tp_polarity = POLR_NORMAL, tp_fd = 5\<rparr>"


subsection \<open>SPI\<close>

text \<open>The device that a call goes to.\<close>

definition on_device :: "addr \<Rightarrow> xcall \<Rightarrow> bool" where
  "on_device dev c \<longleftrightarrow> (\<exists>f ns bs. c = SysCall f (int dev # ns) bs)"

lemma spi_calls_hist: "hist (spi_calls fs dev w) = hist w @ map (\<lambda>(f, ns). SysCall f (int dev # ns) []) fs"
  unfolding spi_calls_def by (induction fs arbitrary: w) (auto simp: case_prod_beta)

lemma spi_write_on_device:
  assumes "sdev \<noteq> 0"
  shows "\<exists>cs w'. tizen_spi_write c buf len sdev w = (S_OK, w') \<and> hist w' = hist w @ cs \<and> cs \<noteq> [] \<and> (\<forall>x\<in>set cs. on_device sdev x)
    \<and> SysCall ''SPI_SNDBLOCK'' [int sdev, len] buf \<in> set cs"
  using assms by (simp add: tizen_spi_write_def spi_begin_def spi_end_def spi_calls_hist on_device_def)

lemma spi_request_device:
  "tizen_spi_request c sdev w = (S_OK, sdev', w')
     \<Longrightarrow> sdev' \<noteq> 0 \<and> (\<exists>h. int sdev' = retv (env w h (SysCall ''up_spiinitialize'' [sint (spi_bus c)] [])))"
  by (auto simp: tizen_spi_request_def walk_simps err_simps nat_eq_iff intro!: exI [of _ "hist w"] split: if_splits)

text \<open>There is one device for all handles of the SPI module on TizenRT: after two requests a transfer on the first
  handle goes to the device of the second, and after a release of either no transfer on the other is possible.\<close>

theorem tizen_spi_device_is_shared:
  assumes "tizen_spi_request c1 s0 w0 = (S_OK, s1, w1)" and "tizen_spi_request c2 s1 w1 = (S_OK, s2, w2)"
  shows "(\<exists>h. int s2 = retv (env w1 h (SysCall ''up_spiinitialize'' [sint (spi_bus c2)] [])))
    \<and> (\<exists>cs w3. tizen_spi_write c1 buf len s2 w2 = (S_OK, w3) \<and> hist w3 = hist w2 @ cs \<and> (\<forall>x\<in>set cs. on_device s2 x)
         \<and> SysCall ''SPI_SNDBLOCK'' [int s2, len] buf \<in> set cs)
    \<and> (\<exists>s3. tizen_spi_release s2 = (S_OK, s3) \<and> tizen_spi_write c1 buf len s3 w = (E_NOT_INITIALIZED, w)
         \<and> tizen_spi_read c1 buf len s3 w = Ret (E_NOT_INITIALIZED, buf, w))"
  using spi_request_device [OF assms(2)] spi_write_on_device [of s2 c1 buf len w2]
  by (auto simp: tizen_spi_release_def tizen_spi_write_def tizen_spi_read_def)

definition spi_env :: "xcall list \<Rightarrow> xcall \<Rightarrow> answer" where
  "spi_env h c = (case c of
      SysCall f ns bs \<Rightarrow> \<lparr>retv = (if f = ''up_spiinitialize'' then 64 + hd ns else 0), errno = 0, oval = 0, outb = []\<rparr>
    | _ \<Rightarrow> good_env h c)"

definition spi_bus_config :: "u32 \<Rightarrow> artik_spi_config" where
  "spi_bus_config n = \<lparr>spi_bus = n, spi_cs = 0, spi_mode = SPI_MODE0, bits_per_word = 8, max_speed = 500000\<rparr>"

lemma spi_env_request:
  assumes "env w = spi_env"
  shows "\<exists>w'. tizen_spi_request (spi_bus_config n) s w = (if 64 + sint n \<le> 0 then E_BAD_ARGS else S_OK,
      if 64 + sint n \<le> 0 then s else nat (64 + sint n), w') \<and> env w' = spi_env"
proof -
  have "env (spi_calls fs d w) = env w" for fs d w
    unfolding spi_calls_def by (induction fs arbitrary: w) (auto simp: case_prod_beta)
  then show ?thesis using assms
    by (simp add: tizen_spi_request_def spi_bus_config_def spi_env_def walk_simps SPI_MAX_FREQUENCY_def)
qed

theorem tizen_spi_device_is_shared_witness:
  "\<exists>s2 w1 w2 w3 cs. tizen_spi_request (spi_bus_config 0) 0 \<lparr>hist = [], env = spi_env\<rparr> = (S_OK, 64, w1)
    \<and> tizen_spi_request (spi_bus_config 1) 64 w1 = (S_OK, s2, w2)
    \<and> tizen_spi_write (spi_bus_config 0) [1, 2] 2 s2 w2 = (S_OK, w3) \<and> hist w3 = hist w2 @ cs
    \<and> SysCall ''SPI_SNDBLOCK'' [65, 2] [1, 2] \<in> set cs"
proof -
  obtain w1 where 1: "tizen_spi_request (spi_bus_config 0) 0 \<lparr>hist = [], env = spi_env\<rparr> = (S_OK, 64, w1)" "env w1 = spi_env"
    using spi_env_request [of "\<lparr>hist = [], env = spi_env\<rparr>" 0 0] by auto
  obtain w2 where 2: "tizen_spi_request (spi_bus_config 1) 64 w1 = (S_OK, 65, w2)"
    using spi_env_request [OF 1(2), of 1 64] by auto
  from tizen_spi_device_is_shared [OF 1(1) 2, of "[1, 2]" 2] 1(1) 2 show ?thesis by fastforce
qed

subsection \<open>ADC\<close>

text \<open>A conversion that returns has closed the descriptor that the configuration keeps: the next one starts with a
  control call on that number, whatever file it names by then.\<close>

theorem tizen_adc_uses_closed_descriptor:
  assumes "tizen_adc_get_value sz am_data c value w = Ret (e, v, w1)"
  shows "\<exists>p d. ta_data c = Some (p, d) \<and> opened w1 = remove1 (ta_fd d) (opened w) \<and> last (hist w1) = Close (ta_fd d)
    \<and> (\<forall>sz' f b e' v' w2. tizen_adc_get_value sz' f c b w1 = Ret (e', v', w2)
         \<longrightarrow> (\<exists>cs. hist w2 = hist w1 @ Ioctl (ta_fd d) ''ANIOC_TRIGGER'' [] # cs))"
proof -
  from assms obtain p d where d: "ta_data c = Some (p, d)" by (auto simp: tizen_adc_get_value_def split: option.splits)
  have "opened w1 = remove1 (ta_fd d) (opened w) \<and> last (hist w1) = Close (ta_fd d)"
    using assms d by (auto simp: tizen_adc_get_value_def walk_simps split: if_splits)
  moreover have "\<exists>cs. hist w2 = hist w1 @ Ioctl (ta_fd d) ''ANIOC_TRIGGER'' [] # cs"
    if "tizen_adc_get_value sz' f c b w1 = Ret (e', v', w2)" for sz' f b e' v' w2
    using that d by (auto simp: tizen_adc_get_value_def walk_simps split: if_splits)
  ultimately show ?thesis using d by blast
qed

subsection \<open>I2C\<close>

text \<open>A read or a write succeeds as soon as the bus can be opened, whatever the slave does; what arrives is only there if
  no step failed. Descriptors are balanced.\<close>

theorem tizen_i2c_hides_errors:
  "(fst (tizen_i2c_transfer c n f w) = S_OK \<longleftrightarrow> 0 \<le> retv (env w (hist w) (Open (i2c_devname c) n)))
   \<and> ((\<forall>fd. fd_neutral (f fd)) \<longrightarrow> opened (snd (snd (tizen_i2c_transfer c n f w))) = opened w)"
  by (auto simp: tizen_i2c_transfer_def walk_simps err_simps)

subsection \<open>Serial ports\<close>

text \<open>The attributes of a port: what was set before stays set, and seven data bits cannot be told from eight if the flag
  for eight includes the one for seven.\<close>

lemma tizen_cflag_keeps: "f AND NOT (tizen_cflag fl c f) = 0"
proof -
  have g: "g AND NOT (g OR x) = 0" for g x :: u32 by (rule bit_eqI) (simp add: bit_simps)
  have "\<exists>x. tizen_cflag fl c f = f OR x"
    by (simp add: tizen_cflag_def Let_def or.assoc) blast
  then show ?thesis using g by auto
qed

theorem tizen_serial_settings:
  assumes "tizen_serial_request fl c w = Ret (S_OK, c', w')"
  shows "\<exists>p fd t. ts_data c' = Some (p, fd) \<and> 0 \<le> fd \<and> last (hist w') = Tcsetattr fd (tty_bytes (tizen_termios fl c t))
    \<and> tty_cflag t AND NOT (tty_cflag (tizen_termios fl c t)) = 0
    \<and> (fl ''CS7'' OR fl ''CS8'' = fl ''CS8''
         \<longrightarrow> tizen_termios fl (c\<lparr>ts_data_bits := DATA_7BIT\<rparr>) t = tizen_termios fl (c\<lparr>ts_data_bits := DATA_8BIT\<rparr>) t)"
proof -
  from assms obtain p fd t where "ts_data c' = Some (p, fd)" "0 \<le> fd" "last (hist w') = Tcsetattr fd (tty_bytes (tizen_termios fl c t))"
    by (auto simp: tizen_serial_request_def walk_simps err_simps dest!: tizen_serial_abort_cases split: if_splits)
  moreover have "tizen_cflag fl (c\<lparr>ts_data_bits := DATA_7BIT\<rparr>) f = tizen_cflag fl (c\<lparr>ts_data_bits := DATA_8BIT\<rparr>) f"
    if "fl ''CS7'' OR fl ''CS8'' = fl ''CS8''" for f
    using that by (simp add: tizen_cflag_def Let_def or.assoc)
  ultimately show ?thesis
    by (intro exI [of _ p] exI [of _ fd] exI [of _ t]) (simp add: tizen_termios_def tizen_cflag_keeps)
qed

end
