(* ===== verification/Spec2Isabelle.thy ===== *)
theory Spec2Isabelle
  imports Prelude World ArtikList HandleTable Gpio Bytes NetLib DhcpMsg DhcpServer DhcpServerProps
    DhcpClient DhcpClientProps Serial Pwm I2c Spi Adc SystemIo Webclient WebclientProps
    PtrVector Loop LoopProps
    Calendar TimeModule TimeProps Cloud CloudProps CloudStream
    Ieee SensorI2c SensorBoard SensorKit Sensor SensorMath SensorReadings SensorProps
    ModuleLoader ModuleLoaderProps
    ErrorCodes Inet Network NetworkDhcp NetworkDhcpProps NetworkWatch NetworkWatchProps TizenNetwork
    HttpLinux HttpLinuxProps TizenHttp TizenHttpProps TizenIo TizenIoProps
begin

text \<open>
  \<^bold>\<open>The ARTIK SDK.\<close> The repository is a C library that gives applications one interface to the
  hardware and the network of the ARTIK boards. It is made of modules (\<^verbatim>\<open>src/modules\<close>):
  each has a front end \<^verbatim>\<open>artik_<module>.c\<close>, which keeps the handles it gave out, and a
  back end \<^verbatim>\<open>linux_<module>.c\<close> or \<^verbatim>\<open>tinyara_<module>.c\<close>, which talks to
  the system. Applications ask for a module by name and get a table of its functions. The
  development models the Linux back ends, and those for TizenRT of the I/O, HTTP, network, loop and loader modules.

  \<^bold>\<open>How code is modelled.\<close>
  \<^item> A call ends normally (\<open>Ret\<close>), in undefined behaviour (\<open>Ub\<close> with the kind of fault), or never
    (\<open>None\<close> of a \<open>run\<close>); see Prelude. Error codes are the integers of
    \<^verbatim>\<open>inc/base/artik_error.h\<close>.
  \<^item> Calls that leave the SDK (C library, kernel, other modules) are answered by an arbitrary
    environment and recorded in a history (World). \<open>opened\<close> replays a history into the descriptors
    left open, \<open>file_log\<close> into what was written to which file. What a theorem needs of the
    environment is a named hypothesis: \<open>posix_errno\<close> (a failed call sets \<^verbatim>\<open>errno\<close>),
    \<open>posix_close\<close> (closing a negative number fails), \<open>fresh_fds\<close> (the kernel gives out descriptors
    that are not in use). \<open>good_env\<close> and \<open>counting_env\<close> are concrete environments that satisfy them.
  \<^item> \<^verbatim>\<open>int\<close> and pointers have 32 bits; words are kept at their width where the code
    depends on it, and read as \<open>int\<close> by \<open>sint\<close>. The boards are little-endian (Bytes).
  \<^item> Log output is left out: no component depends on it.

  \<^bold>\<open>The theories.\<close>
  \<^item> ArtikList: the linked list of \<^verbatim>\<open>inc/base/artik_list.h\<close>, all its functions on a heap of
    nodes. The lemmas are refinements: on a well-formed list each function acts on the sequence of
    its nodes. Loops are partial functions; they end on well-formed lists.
  \<^item> HandleTable: the use every front end makes of that list, as an association list, the proof that
    the pointer code implements it, and two interfaces. The locale \<open>front_end\<close> is the contract of a
    front end (\<^verbatim>\<open>request\<close>, \<^verbatim>\<open>release\<close>, the resource a configuration names),
    with the invariant of reachable tables proved once in it; \<open>os_layer\<close> is the contract of a back
    end, and gives a front end of the common shape by \<open>sublocale\<close>.
  \<^item> Gpio, Serial, Pwm, I2c, Spi, Adc: \<^verbatim>\<open>src/modules/systemio\<close>, front end and Linux back
    end, each interpreting one of these locales on its own functions. The properties say what a
    successful request makes the kernel do, and what each path does with descriptors and memory.
  \<^item> SystemIo: the six together. An application calls them in any order; no handle is ever accepted
    by two modules and no resource is held twice.
  \<^item> NetLib: the interface helpers of \<^verbatim>\<open>network/linux/netutils/netlib.c\<close>.
  \<^item> DhcpMsg, DhcpServer, DhcpServerProps: \<^verbatim>\<open>dhcpd.c\<close>, every function. The lease table keeps its
    invariant whatever datagram arrives, packets are built and parsed as specified, and a handler
    ends (for a pool that does not end at the last address of all).
  \<^item> DhcpClient, DhcpClientProps: \<^verbatim>\<open>dhcpc.c\<close>, every function. Each side understands what the
    other sends; a request for a new lease ends, a renewal that is refused for ever does not.
  \<^item> Webclient, WebclientProps: the HTTP client of TizenRT,
    \<^verbatim>\<open>connectivity/http/tinyara/webclient.c\<close>. The response parser is compared with an
    automaton that reads single bytes, so that no property depends on how TCP cuts the response. What
    the repository does not hold (the URL parser, the user agent) is a parameter; \<open>url_fits\<close> says
    that the URL parser keeps to its buffers, \<open>serves\<close> and \<open>always_answers\<close> what a peer sends.
  \<^item> PtrVector, Loop, LoopProps: the event loop of TizenRT, \<^verbatim>\<open>base/loop/tinyara_loop.c\<close> and
    its front end: a vector of pointers whose capacity follows from its length, and four kinds of
    sources kept in such vectors. They refine registries of numbered entries (\<open>stands\<close>), given that
    \<^verbatim>\<open>malloc\<close> returns fresh blocks (\<open>fresh_blocks\<close>) and \<^verbatim>\<open>realloc\<close> works.
  \<^item> Calendar, TimeModule, TimeProps: the time module, \<^verbatim>\<open>base/time\<close>, on the calendar functions of
    the C library, which are proved inverse to each other. The local time zone is a parameter.
  \<^item> Cloud, CloudProps, CloudStream: \<^verbatim>\<open>connectivity/cloud/artik_cloud.c\<close>. Every request is
    compared with a table of what the API expects; the message stream is a table of nodes that the
    websocket module points into.
  \<^item> Ieee: rounding to 53 or 24 bits, with the error bounds the drivers need. SensorI2c, SensorBoard,
    SensorKit: the eleven drivers of \<^verbatim>\<open>sensor/devices\<close>, on the models of I2C, SPI, GPIO and ADC.
    Sensor: the module itself and the tables of the boards, whose untyped pointers are tested. SensorMath,
    SensorReadings, SensorProps: what the drivers read from a device with given registers
    (\<open>i2c_registers\<close>), that the tables are well typed, and what requests and releases report.
  \<^item> ModuleLoader, ModuleLoaderProps: \<^verbatim>\<open>base/module\<close>, front end, Linux and TizenRT. The nodes of
    the loader refine reference counts (\<open>loaded\<close>), given that the dynamic linker finds the modules
    (\<open>links\<close>) and that their tables differ in their first word (\<open>tables_apart\<close>); the other components
    take \<^verbatim>\<open>artik_request_api_module\<close> as a call of the environment.

  \<^item> ErrorCodes: the other codes and the table of messages.
  \<^item> Inet, Network: \<^verbatim>\<open>connectivity/network\<close>, the configuration of an interface. Inet has addresses as text:
    the expression that tests them matches exactly the printed addresses, converting inverts printing. Network sets and
    reads a configuration (\<open>net_works\<close>: the calls succeed, \<open>net_holds\<close>: the kernel holds what was set).
    NetworkDhcp, NetworkDhcpProps put the DHCP client and server behind handles, with the timer of the renewal;
    NetworkWatch, NetworkWatchProps watch the online status, with the messages of the kernel and the functions of the
    application as a parameter (\<open>app\<close>); TizenNetwork is the TizenRT back end.
  \<^item> HttpLinux, HttpLinuxProps: \<^verbatim>\<open>connectivity/http/linux_http.c\<close>, the requests as transfers of libcurl. What the
    network delivers is a parameter (\<open>net\<close>); \<open>held\<close> counts what is taken and not given back.
    TizenHttp, TizenHttpProps: the TizenRT back end, over Webclient and the libraries of TizenRT; \<open>blocks\<close> counts memory.
  \<^item> TizenIo, TizenIoProps: the TizenRT back ends of the six modules of \<^verbatim>\<open>systemio\<close>, below the same front ends. The
    values of the flags of that system (\<open>fl\<close>) and the build options are parameters.

  \<^bold>\<open>Bounds and fuel.\<close> No definition is cut off by fuel. Loops over data are structural; the loops of
  the list, of the lease search and of the DHCP client are partial functions, whose termination
  is proved where the code terminates and refuted where it does not.

  \<^bold>\<open>Not modelled, and why.\<close> The modules that are layers over libraries the repository does not hold
  (libwebsockets, OpenSSL and mbed TLS, mosquitto, wakaama, GStreamer, BlueZ over D-Bus, the
  ZigBee daemon); the vendored part of wpa_supplicant; the C++ bindings and the test programs.
  The functions of the network front end that only forward are left out.
\<close>

end
